(* ===== verification/Prelude.thy ===== *)
theory Prelude
  imports Main
begin

text \<open>
  What every component shares: Go strings as byte lists, and the functions of Go's
  \<open>strings\<close> package that the modelled code calls, under their Go names.

  A Go \<open>string\<close> is a sequence of bytes; a HOL \<open>string\<close> is a list of \<open>char\<close>, and a
  \<open>char\<close> is eight bits, so a Go string is a HOL string with nothing lost. \<open>len(s)\<close> is
  \<open>length s\<close>, \<open>s[i:]\<close> is \<open>drop i s\<close>, \<open>s[:i]\<close> is \<open>take i s\<close>.

  A loop \<open>for i := 0; i < len(s); i++\<close> that reads \<open>s[i]\<close> and looks ahead is modelled by
  a recursion on the suffix \<open>s[i:]\<close>, with the loop's variables as arguments.
\<close>

named_theorems len_simps \<open>length bounds of the string functions\<close>
named_theorems str_defs \<open>definitions that unfold to Go string primitives\<close>

section \<open>Bytes\<close>

abbreviation bslash :: char where "bslash \<equiv> CHR 0x5C"
abbreviation squote :: char where "squote \<equiv> CHR 0x27"
abbreviation dquote :: char where "dquote \<equiv> CHR 0x22"
abbreviation btick :: char where "btick \<equiv> CHR 0x60"
abbreviation nl :: char where "nl \<equiv> CHR 0x0A"
abbreviation cr :: char where "cr \<equiv> CHR 0x0D"
abbreviation tab :: char where "tab \<equiv> CHR 0x09"
abbreviation nul :: char where "nul \<equiv> CHR 0x00"

definition byte :: "char \<Rightarrow> nat" where
  "byte c = of_char c"

definition in_range :: "char \<Rightarrow> char \<Rightarrow> char \<Rightarrow> bool" where
  "in_range lo hi c = (byte lo \<le> byte c \<and> byte c \<le> byte hi)"

abbreviation is_lower :: "char \<Rightarrow> bool" where "is_lower c \<equiv> in_range (CHR ''a'') (CHR ''z'') c"
abbreviation is_upper :: "char \<Rightarrow> bool" where "is_upper c \<equiv> in_range (CHR ''A'') (CHR ''Z'') c"
abbreviation is_digit :: "char \<Rightarrow> bool" where "is_digit c \<equiv> in_range (CHR ''0'') (CHR ''9'') c"
abbreviation is_alpha :: "char \<Rightarrow> bool" where "is_alpha c \<equiv> is_upper c \<or> is_lower c"

definition is_ascii :: "char \<Rightarrow> bool" where
  "is_ascii c = (byte c < 128)"

section \<open>Prefixes, suffixes, searching\<close>

fun HasPrefix :: "string \<Rightarrow> string \<Rightarrow> bool" where
  "HasPrefix s [] = True"
| "HasPrefix [] (p # ps) = False"
| "HasPrefix (c # cs) (p # ps) = (c = p \<and> HasPrefix cs ps)"

definition HasSuffix :: "string \<Rightarrow> string \<Rightarrow> bool" where
  "HasSuffix s p = HasPrefix (rev s) (rev p)"

definition TrimPrefix :: "string \<Rightarrow> string \<Rightarrow> string" where
  "TrimPrefix s p = (if HasPrefix s p then drop (length p) s else s)"

definition TrimSuffix :: "string \<Rightarrow> string \<Rightarrow> string" where
  "TrimSuffix s p = (if HasSuffix s p then take (length s - length p) s else s)"

fun Contains :: "string \<Rightarrow> string \<Rightarrow> bool" where
  "Contains [] sub = (sub = [])"
| "Contains (c # cs) sub = (HasPrefix (c # cs) sub \<or> Contains cs sub)"

text \<open>\<open>ContainsAny\<close> with an ASCII character set, which is how the code calls it: it is
  then a search for a byte.\<close>

definition ContainsAny :: "string \<Rightarrow> string \<Rightarrow> bool" where
  "ContainsAny s chars = list_ex (\<lambda>c. c \<in> set chars) s"

section \<open>Trimming\<close>

text \<open>\<open>Trim\<close>, \<open>TrimLeft\<close> and \<open>TrimRight\<close> with an ASCII cut set.\<close>

definition TrimLeft :: "string \<Rightarrow> string \<Rightarrow> string" where
  "TrimLeft s cs = dropWhile (\<lambda>c. c \<in> set cs) s"

definition TrimRight :: "string \<Rightarrow> string \<Rightarrow> string" where
  "TrimRight s cs = rev (dropWhile (\<lambda>c. c \<in> set cs) (rev s))"

definition Trim :: "string \<Rightarrow> string \<Rightarrow> string" where
  "Trim s cs = TrimRight (TrimLeft s cs) cs"

text \<open>
  \<open>TrimSpace\<close> removes leading and trailing code points that \<open>unicode.IsSpace\<close> accepts: the
  six ASCII ones, U+0085, U+00A0 and the seventeen above U+00FF. Each is one byte sequence of
  UTF-8, so on bytes it removes those sequences. \<open>space_len s\<close> is the length of the one that
  starts \<open>s\<close>, 0 if none does; \<open>space_len_rev\<close> is the same on a reversed string.
\<close>

definition ascii_space :: "char \<Rightarrow> bool" where
  "ascii_space c = (c = CHR '' '' \<or> c = tab \<or> c = nl \<or> c = cr \<or> c = CHR 0x0B \<or> c = CHR 0x0C)"

definition space3 :: "char \<Rightarrow> char \<Rightarrow> char \<Rightarrow> bool" where
  "space3 a b c =
     (a = CHR 0xE1 \<and> b = CHR 0x9A \<and> c = CHR 0x80
      \<or> a = CHR 0xE2 \<and> b = CHR 0x80 \<and> (in_range (CHR 0x80) (CHR 0x8A) c \<or> c = CHR 0xA8 \<or> c = CHR 0xA9 \<or> c = CHR 0xAF)
      \<or> a = CHR 0xE2 \<and> b = CHR 0x81 \<and> c = CHR 0x9F
      \<or> a = CHR 0xE3 \<and> b = CHR 0x80 \<and> c = CHR 0x80)"

definition space2 :: "char \<Rightarrow> char \<Rightarrow> bool" where
  "space2 a b = (a = CHR 0xC2 \<and> (b = CHR 0x85 \<or> b = CHR 0xA0))"

definition space_len :: "string \<Rightarrow> nat" where
  "space_len s = (case s of [] \<Rightarrow> 0
     | a # s1 \<Rightarrow> if ascii_space a then 1 else if is_ascii a then 0
       else (case s1 of [] \<Rightarrow> 0
         | b # s2 \<Rightarrow> if space2 a b then 2
           else (case s2 of [] \<Rightarrow> 0 | c # _ \<Rightarrow> if space3 a b c then 3 else 0)))"

definition space_len_rev :: "string \<Rightarrow> nat" where
  "space_len_rev r = (case r of [] \<Rightarrow> 0
     | c # r1 \<Rightarrow> if ascii_space c then 1 else if is_ascii c then 0
       else (case r1 of [] \<Rightarrow> 0
         | b # r2 \<Rightarrow> if space2 b c then 2
           else (case r2 of [] \<Rightarrow> 0 | a # _ \<Rightarrow> if space3 a b c then 3 else 0)))"

function trim_left_space :: "string \<Rightarrow> string" where
  "trim_left_space s =
     (if s \<noteq> [] \<and> space_len s \<noteq> 0 then trim_left_space (drop (space_len s) s) else s)"
  by pat_completeness auto
termination by (relation "measure length") auto

function trim_left_space_rev :: "string \<Rightarrow> string" where
  "trim_left_space_rev r =
     (if r \<noteq> [] \<and> space_len_rev r \<noteq> 0 then trim_left_space_rev (drop (space_len_rev r) r) else r)"
  by pat_completeness auto
termination by (relation "measure length") auto

declare trim_left_space.simps [simp del] trim_left_space_rev.simps [simp del]

definition trim_right_space :: "string \<Rightarrow> string" where
  "trim_right_space s = rev (trim_left_space_rev (rev s))"

definition TrimSpace :: "string \<Rightarrow> string" where
  "TrimSpace s = trim_right_space (trim_left_space s)"

section \<open>Splitting, joining, replacing\<close>

text \<open>\<open>strings.Cut\<close> at a one-byte separator: \<open>None\<close> is \<open>found = false\<close>. The code's
  \<open>SplitN(s, "=", 2)\<close> is the same cut, its element 0 the part before the separator.\<close>

fun Cut :: "string \<Rightarrow> char \<Rightarrow> (string \<times> string) option" where
  "Cut [] sep = None"
| "Cut (c # cs) sep =
     (if c = sep then Some ([], cs) else map_option (\<lambda>(a, b). (c # a, b)) (Cut cs sep))"

fun Split :: "string \<Rightarrow> char \<Rightarrow> string list" where
  "Split [] sep = [[]]"
| "Split (c # cs) sep =
     (if c = sep then [] # Split cs sep
      else (case Split cs sep of [] \<Rightarrow> [[c]] | p # ps \<Rightarrow> (c # p) # ps))"

text \<open>\<open>FieldsFunc\<close> with a predicate that holds of ASCII code points only.\<close>

fun split_pred :: "(char \<Rightarrow> bool) \<Rightarrow> string \<Rightarrow> string list" where
  "split_pred f [] = [[]]"
| "split_pred f (c # cs) =
     (if f c then [] # split_pred f cs
      else (case split_pred f cs of [] \<Rightarrow> [[c]] | p # ps \<Rightarrow> (c # p) # ps))"

definition FieldsFunc :: "string \<Rightarrow> (char \<Rightarrow> bool) \<Rightarrow> string list" where
  "FieldsFunc s f = filter (\<lambda>p. p \<noteq> []) (split_pred f s)"

fun Join :: "string list \<Rightarrow> string \<Rightarrow> string" where
  "Join [] sep = []"
| "Join [x] sep = x"
| "Join (x # y # xs) sep = x @ sep @ Join (y # xs) sep"

text \<open>\<open>ReplaceAll\<close> of a non-empty old string, the only use the code makes of it.\<close>

function ReplaceAll :: "string \<Rightarrow> string \<Rightarrow> string \<Rightarrow> string" where
  "ReplaceAll s old new =
     (case s of [] \<Rightarrow> []
      | c # cs \<Rightarrow> if old \<noteq> [] \<and> HasPrefix s old
                  then new @ ReplaceAll (drop (length old) s) old new
                  else c # ReplaceAll cs old new)"
  by pat_completeness auto
termination by (relation "measure (\<lambda>(s, old, new). length s)") auto

declare ReplaceAll.simps [simp del]

section \<open>Numbers\<close>

text \<open>The decimal digits of \<open>fmt\<close>'s \<open>%d\<close>.\<close>

fun dec :: "nat \<Rightarrow> string" where
  "dec n = (if n < 10 then [char_of (48 + n)] else dec (n div 10) @ [char_of (48 + n mod 10)])"

declare dec.simps [simp del]

definition int_text :: "int \<Rightarrow> string" where
  "int_text i = (if i < 0 then ''-'' @ dec (nat (- i)) else dec (nat i))"

text \<open>\<open>strconv.Atoi\<close> of a non-empty digit string: an error when the value exceeds the largest
  64-bit \<open>int\<close>.\<close>

definition digits_value :: "string \<Rightarrow> nat" where
  "digits_value s = foldl (\<lambda>n c. n * 10 + (byte c - 48)) 0 s"

definition Atoi :: "string \<Rightarrow> nat option" where
  "Atoi s = (if digits_value s < 2 ^ 63 then Some (digits_value s) else None)"

text \<open>\<open>strconv.Atoi\<close> of any text, and the wrap-around of an \<open>int64\<close>.\<close>

definition Atoi_text :: "string \<Rightarrow> int option" where
  "Atoi_text s =
     (let negative = HasPrefix s ''-''; digits = (if negative \<or> HasPrefix s ''+'' then tl s else s)
      in if digits = [] \<or> \<not> list_all is_digit digits then None
         else if negative then (if digits_value digits \<le> 2 ^ 63 then Some (- int (digits_value digits)) else None)
         else map_option int (Atoi digits))"

definition wrap64 :: "int \<Rightarrow> int" where
  "wrap64 i = (i + 2 ^ 63) mod 2 ^ 64 - 2 ^ 63"

section \<open>Argument loops\<close>

text \<open>
  Many functions of the source walk over a word list with
  \<open>for i := 0; i < len(args); i++ { ... }\<close>, whose body returns from the function, goes on, or
  skips further words with \<open>i++\<close> or \<open>i += 2\<close>. The body is a step function on the loop's
  variables, the current word and the words after it; its result is a \<open>Return\<close> or a
  \<open>Continue\<close> with the new variables and the number of extra words it skips. \<open>fin\<close> is the
  statement after the loop.
\<close>

datatype ('s, 'r) iter = Return 'r | Continue 's nat

function args_loop :: "('s \<Rightarrow> 'a \<Rightarrow> 'a list \<Rightarrow> ('s, 'r) iter) \<Rightarrow> ('s \<Rightarrow> 'r) \<Rightarrow> 's \<Rightarrow> 'a list \<Rightarrow> 'r" where
  "args_loop step fin s [] = fin s"
| "args_loop step fin s (arg # rest) =
     (case step s arg rest of
        Return r \<Rightarrow> r
      | Continue s' k \<Rightarrow> args_loop step fin s' (drop k rest))"
  by pat_completeness auto
termination by (relation "measure (\<lambda>(step, fin, s, args). length args)") auto

text \<open>Partial-correctness rule of the loop: an invariant of its variables.\<close>

lemma args_loop_invariant:
  assumes "I s"
    and "\<And>s arg rest r. I s \<Longrightarrow> step s arg rest = Return r \<Longrightarrow> Q r"
    and "\<And>s arg rest s' k. I s \<Longrightarrow> step s arg rest = Continue s' k \<Longrightarrow> I s'"
    and "\<And>s. I s \<Longrightarrow> Q (fin s)"
  shows "Q (args_loop step fin s args)"
  using assms(1)
proof (induction "length args" arbitrary: s args rule: less_induct)
  case less
  show ?case
  proof (cases args)
    case Nil
    with less.prems assms(4) show ?thesis by simp
  next
    case (Cons arg rest)
    show ?thesis
    proof (cases "step s arg rest")
      case (Return r)
      with Cons less.prems assms(2) show ?thesis by simp
    next
      case (Continue s' k)
      with less.prems have "I s'" by (rule assms(3))
      then have "Q (args_loop step fin s' (drop k rest))"
        using less.hyps Cons by simp
      with Cons Continue show ?thesis by simp
    qed
  qed
qed

section \<open>Length bounds\<close>

text \<open>No string function of the classifier makes a string longer; the recursions over
  substrings terminate by these bounds.\<close>

lemma length_trim_left_space [len_simps]: "length (trim_left_space s) \<le> length s"
proof (induction s rule: trim_left_space.induct)
  case (1 s)
  show ?case
  proof (cases "s \<noteq> [] \<and> space_len s \<noteq> 0")
    case True
    with "1" have "length (trim_left_space (drop (space_len s) s)) \<le> length (drop (space_len s) s)" by blast
    with True show ?thesis by (simp add: trim_left_space.simps[of s])
  qed (use trim_left_space.simps[of s] in auto)
qed

lemma length_trim_left_space_rev: "length (trim_left_space_rev s) \<le> length s"
proof (induction s rule: trim_left_space_rev.induct)
  case (1 r)
  show ?case
  proof (cases "r \<noteq> [] \<and> space_len_rev r \<noteq> 0")
    case True
    with "1" have "length (trim_left_space_rev (drop (space_len_rev r) r)) \<le> length (drop (space_len_rev r) r)" by blast
    with True show ?thesis by (simp add: trim_left_space_rev.simps[of r])
  qed (use trim_left_space_rev.simps[of r] in auto)
qed

lemma length_trim_right_space [len_simps]: "length (trim_right_space s) \<le> length s"
  using length_trim_left_space_rev[of "rev s"] by (simp add: trim_right_space_def)

lemma length_TrimSpace [len_simps]: "length (TrimSpace s) \<le> length s"
  unfolding TrimSpace_def
  using length_trim_right_space length_trim_left_space order_trans by blast

end
