(* ===== verification/ShellLex.thy ===== *)
theory ShellLex
  imports Prelude
begin

text \<open>
  The byte scanners of \<open>internal/tools/bash/tools.go\<close> that the command classifier is built
  from: quoting-aware comment removal, splitting into segments and words, the search for
  substitution and redirection syntax, and the search for closing brackets.

  Every scanner but one keeps the variables \<open>inSingle\<close>, \<open>inDouble\<close> and \<open>escaped\<close> and starts its
  loop body with the same four branches over them; \<open>quote_branch\<close> is those four branches. The
  loop index is the suffix that is left to read. A \<open>strings.Builder\<close> is a string argument that
  grows at its end.
\<close>

section \<open>Quoting state\<close>

record quoting =
  inSingle :: bool
  inDouble :: bool
  escaped :: bool

definition q0 :: quoting where
  "q0 = \<lparr>inSingle = False, inDouble = False, escaped = False\<rparr>"

text \<open>\<open>Some q'\<close>: one of the four branches is taken and leaves the variables at \<open>q'\<close>;
  \<open>None\<close>: the loop body goes on to its own code.\<close>

definition quote_branch :: "quoting \<Rightarrow> char \<Rightarrow> quoting option" where
  "quote_branch q ch =
     (if escaped q then Some (q\<lparr>escaped := False\<rparr>)
      else if ch = bslash \<and> \<not> inSingle q then Some (q\<lparr>escaped := True\<rparr>)
      else if ch = squote \<and> \<not> inDouble q then Some (q\<lparr>inSingle := \<not> inSingle q\<rparr>)
      else if ch = dquote \<and> \<not> inSingle q then Some (q\<lparr>inDouble := \<not> inDouble q\<rparr>)
      else None)"

abbreviation unquoted :: "quoting \<Rightarrow> bool" where
  "unquoted q \<equiv> \<not> inSingle q \<and> \<not> inDouble q"

section \<open>Syntax checks\<close>

definition redirect_or_subst :: "char \<Rightarrow> bool" where
  "redirect_or_subst ch = (ch = CHR ''>'' \<or> ch = CHR ''<'' \<or> ch = CHR ''$'' \<or> ch = btick)"

definition double_quoted_subst :: "char \<Rightarrow> bool" where
  "double_quoted_subst ch = (ch = CHR ''$'' \<or> ch = btick)"

fun hasShellMutationSyntax_loop :: "quoting \<Rightarrow> string \<Rightarrow> bool" where
  "hasShellMutationSyntax_loop q [] = False"
| "hasShellMutationSyntax_loop q (ch # rest) =
     (case quote_branch q ch of
        Some q' \<Rightarrow> hasShellMutationSyntax_loop q' rest
      | None \<Rightarrow>
          if inSingle q then hasShellMutationSyntax_loop q rest
          else if inDouble q then
            (if double_quoted_subst ch then True else hasShellMutationSyntax_loop q rest)
          else if redirect_or_subst ch then True
          else if ch = CHR ''&'' \<and> (rest = [] \<or> hd rest \<noteq> CHR ''&'') then True
          else hasShellMutationSyntax_loop q rest)"

definition hasShellMutationSyntax :: "string \<Rightarrow> bool" where
  "hasShellMutationSyntax command = hasShellMutationSyntax_loop q0 command"

fun shellSyntaxComplete_loop :: "quoting \<Rightarrow> string \<Rightarrow> bool" where
  "shellSyntaxComplete_loop q [] = (\<not> inSingle q \<and> \<not> inDouble q \<and> \<not> escaped q)"
| "shellSyntaxComplete_loop q (ch # rest) =
     (case quote_branch q ch of
        Some q' \<Rightarrow> shellSyntaxComplete_loop q' rest
      | None \<Rightarrow> shellSyntaxComplete_loop q rest)"

definition shellSyntaxComplete :: "string \<Rightarrow> bool" where
  "shellSyntaxComplete command = shellSyntaxComplete_loop q0 command"

section \<open>Closing brackets\<close>

text \<open>The two searches return the distance from the first byte they read; \<open>None\<close> is the
  source's \<open>-1\<close>. The backtick search knows no quotes.\<close>

fun findShellClosingBacktick_loop :: "bool \<Rightarrow> string \<Rightarrow> nat \<Rightarrow> nat option" where
  "findShellClosingBacktick_loop esc [] i = None"
| "findShellClosingBacktick_loop esc (ch # rest) i =
     (if esc then findShellClosingBacktick_loop False rest (Suc i)
      else if ch = bslash then findShellClosingBacktick_loop True rest (Suc i)
      else if ch = btick then Some i
      else findShellClosingBacktick_loop False rest (Suc i))"

definition findShellClosingBacktick :: "string \<Rightarrow> nat option" where
  "findShellClosingBacktick rest = findShellClosingBacktick_loop False rest 0"

fun findShellClosingParen_loop :: "nat \<Rightarrow> quoting \<Rightarrow> string \<Rightarrow> nat \<Rightarrow> nat option" where
  "findShellClosingParen_loop depth q [] i = None"
| "findShellClosingParen_loop depth q (ch # rest) i =
     (case quote_branch q ch of
        Some q' \<Rightarrow> findShellClosingParen_loop depth q' rest (Suc i)
      | None \<Rightarrow>
          if inSingle q \<or> inDouble q then findShellClosingParen_loop depth q rest (Suc i)
          else if ch = CHR ''('' then findShellClosingParen_loop (depth + 1) q rest (Suc i)
          else if ch = CHR '')'' then
            (if depth - 1 = 0 then Some i
             else findShellClosingParen_loop (depth - 1) q rest (Suc i))
          else findShellClosingParen_loop depth q rest (Suc i))"

definition findShellClosingParen :: "string \<Rightarrow> nat option" where
  "findShellClosingParen rest = findShellClosingParen_loop 1 q0 rest 0"

section \<open>Comment removal\<close>

text \<open>An unquoted \<open>#\<close> at the start of a word drops the bytes up to, not including, the next
  line end; \<open>wordStart\<close> stays set.\<close>

definition line_end :: "char \<Rightarrow> bool" where
  "line_end c = (c = nl \<or> c = cr)"

definition drop_comment :: "string \<Rightarrow> string" where
  "drop_comment rest = dropWhile (\<lambda>c. \<not> line_end c) rest"

lemma length_drop_comment [len_simps]: "length (drop_comment s) \<le> length s"
  by (simp add: drop_comment_def length_dropWhile_le)

definition word_break :: "char \<Rightarrow> bool" where
  "word_break ch = (ch = CHR '' '' \<or> ch = tab \<or> ch = nl \<or> ch = cr \<or> ch = CHR '';'' \<or> ch = CHR ''|'' \<or> ch = CHR ''&'')"

function stripShellLineComments_loop :: "string \<Rightarrow> quoting \<Rightarrow> bool \<Rightarrow> string \<Rightarrow> string" where
  "stripShellLineComments_loop stripped q wordStart [] = stripped"
| "stripShellLineComments_loop stripped q wordStart (ch # rest) =
     (case quote_branch q ch of
        Some q' \<Rightarrow> stripShellLineComments_loop (stripped @ [ch]) q' False rest
      | None \<Rightarrow>
          if unquoted q \<and> ch = CHR ''#'' \<and> wordStart then
            stripShellLineComments_loop stripped q wordStart (drop_comment rest)
          else
            stripShellLineComments_loop (stripped @ [ch]) q (unquoted q \<and> word_break ch) rest)"
  by pat_completeness auto
termination
  by (relation "measure (\<lambda>(stripped, q, wordStart, rest). length rest)")
     (auto simp: less_Suc_eq_le length_drop_comment)

definition stripShellLineComments :: "string \<Rightarrow> string" where
  "stripShellLineComments command = stripShellLineComments_loop [] q0 True command"

section \<open>Segments and words\<close>

definition appendNonemptySegment :: "string list \<Rightarrow> string \<Rightarrow> string list" where
  "appendNonemptySegment segments segment =
     (let segment = TrimSpace segment
      in if segment \<noteq> [] then segments @ [segment] else segments)"

definition segment_sep :: "char \<Rightarrow> bool" where
  "segment_sep ch = (ch = CHR '';'' \<or> ch = CHR ''|'' \<or> ch = nl \<or> ch = cr)"

text \<open>\<open>&&\<close> is one separator: the \<open>i++\<close> of the source skips its second byte.\<close>

definition skip_amp :: "string \<Rightarrow> string" where
  "skip_amp rest = (case rest of c # rest' \<Rightarrow> if c = CHR ''&'' then rest' else rest | [] \<Rightarrow> rest)"

lemma length_skip_amp [len_simps]: "length (skip_amp s) \<le> length s"
  by (simp add: skip_amp_def split: list.split)

function splitCommandSegments_loop :: "string list \<Rightarrow> string \<Rightarrow> quoting \<Rightarrow> string \<Rightarrow> string list" where
  "splitCommandSegments_loop segments current q [] = appendNonemptySegment segments current"
| "splitCommandSegments_loop segments current q (ch # rest) =
     (case quote_branch q ch of
        Some q' \<Rightarrow> splitCommandSegments_loop segments (current @ [ch]) q' rest
      | None \<Rightarrow>
          if unquoted q \<and> segment_sep ch then
            splitCommandSegments_loop (appendNonemptySegment segments current) [] q rest
          else if unquoted q \<and> ch = CHR ''&'' then
            splitCommandSegments_loop (appendNonemptySegment segments current) [] q (skip_amp rest)
          else splitCommandSegments_loop segments (current @ [ch]) q rest)"
  by pat_completeness auto
termination
  by (relation "measure (\<lambda>(segments, current, q, rest). length rest)")
     (auto simp: less_Suc_eq_le length_skip_amp)

definition splitCommandSegments :: "string \<Rightarrow> string list" where
  "splitCommandSegments command = splitCommandSegments_loop [] [] q0 command"

text \<open>The closure \<open>flush\<close> of \<open>shellWords\<close>.\<close>

definition flush_word :: "string list \<Rightarrow> string \<Rightarrow> string list" where
  "flush_word words current = (if current \<noteq> [] then words @ [current] else words)"

definition word_sep :: "char \<Rightarrow> bool" where
  "word_sep ch = (ch = CHR '' '' \<or> ch = tab \<or> ch = nl)"

fun shellWords_loop :: "string list \<Rightarrow> string \<Rightarrow> quoting \<Rightarrow> string \<Rightarrow> string list" where
  "shellWords_loop words current q [] = flush_word words current"
| "shellWords_loop words current q (ch # rest) =
     (case quote_branch q ch of
        Some q' \<Rightarrow> shellWords_loop words (if escaped q then current @ [ch] else current) q' rest
      | None \<Rightarrow>
          if unquoted q \<and> word_sep ch then shellWords_loop (flush_word words current) [] q rest
          else shellWords_loop words (current @ [ch]) q rest)"

definition shellWords :: "string \<Rightarrow> string list" where
  "shellWords command = shellWords_loop [] [] q0 command"

section \<open>Length bounds\<close>

lemma length_stripShellLineComments_loop:
  "length (stripShellLineComments_loop st q w rest) \<le> length st + length rest"
proof (induction st q w rest rule: stripShellLineComments_loop.induct)
  case (2 st q w ch rest)
  show ?case
  proof (cases "quote_branch q ch")
    case (Some q')
    with "2.IH"(3) show ?thesis by fastforce
  next
    case None
    then show ?thesis using "2.IH"(1,2)[OF None] length_drop_comment[of rest] by auto
  qed
qed simp

lemma length_stripShellLineComments [len_simps]: "length (stripShellLineComments c) \<le> length c"
  using length_stripShellLineComments_loop[of "[]"] by (simp add: stripShellLineComments_def)

lemma appendNonemptySegment_bound:
  "seg \<in> set (appendNonemptySegment segs cur) \<Longrightarrow> seg \<in> set segs \<or> length seg \<le> length cur"
  using length_TrimSpace[of cur] by (auto simp: appendNonemptySegment_def Let_def split: if_split_asm)

lemma splitCommandSegments_loop_bound:
  "seg \<in> set (splitCommandSegments_loop segs cur q rest) \<Longrightarrow>
   seg \<in> set segs \<or> length seg \<le> length cur + length rest"
proof (induction segs cur q rest rule: splitCommandSegments_loop.induct)
  case (1 segs cur q)
  then show ?case by (auto dest: appendNonemptySegment_bound)
next
  case (2 segs cur q ch rest)
  show ?case
  proof (cases "quote_branch q ch")
    case (Some q')
    with "2.IH"(4) "2.prems" show ?thesis by fastforce
  next
    case None
    then show ?thesis using "2.prems" "2.IH"(1,2,3)[OF None] length_skip_amp[of rest]
      by (fastforce split: if_split_asm dest: appendNonemptySegment_bound)
  qed
qed

lemma splitCommandSegments_bound: "seg \<in> set (splitCommandSegments c) \<Longrightarrow> length seg \<le> length c"
  using splitCommandSegments_loop_bound[of seg "[]" "[]"] by (simp add: splitCommandSegments_def)

lemma findShellClosingBacktick_loop_bound:
  "findShellClosingBacktick_loop e rest i = Some k \<Longrightarrow> k < i + length rest"
  by (induction rest arbitrary: e i) (fastforce split: if_split_asm)+

lemma findShellClosingBacktick_bound: "findShellClosingBacktick rest = Some k \<Longrightarrow> k < length rest"
  using findShellClosingBacktick_loop_bound[of False rest 0] by (simp add: findShellClosingBacktick_def)

lemma findShellClosingParen_loop_bound:
  "findShellClosingParen_loop n q rest i = Some k \<Longrightarrow> k < i + length rest"
  by (induction rest arbitrary: n q i) (fastforce split: if_split_asm option.split_asm)+

lemma findShellClosingParen_bound: "findShellClosingParen rest = Some k \<Longrightarrow> k < length rest"
  using findShellClosingParen_loop_bound[of 1 q0 rest 0] by (simp add: findShellClosingParen_def)

end
