(* ===== verification/ShellWords.thy ===== *)
theory ShellWords
  imports ShellLex "HOL-Library.Sublist"
begin

text \<open>
  Word-level helpers of \<open>internal/tools/bash/tools.go\<close>: the value checks (identifiers,
  integers, durations, environment values, relative paths), the base name of a command, and
  the wrappers (\<open>time\<close>, \<open>nohup\<close>, \<open>timeout\<close>, \<open>nice\<close>, \<open>stdbuf\<close>, \<open>env\<close>, leading assignments) that
  are stripped before a command is classified.

  A \<open>for _, r := range value\<close> whose body accepts ASCII code points only is modelled byte by
  byte: a byte of 0x80 or more belongs to a code point (or an invalid one) that the body refuses.

  An index into \<open>words\<close> is an \<open>option\<close>: \<open>None\<close> is the source's \<open>-1\<close>.
\<close>

section \<open>Value checks\<close>

definition isShellUnsignedInteger :: "string \<Rightarrow> bool" where
  "isShellUnsignedInteger value = (if value = [] then False else list_all is_digit value)"

definition isUnsignedInteger :: "string \<Rightarrow> bool" where
  "isUnsignedInteger value = (if value = [] then False else list_all is_digit value)"

definition isShellIdentifier :: "string \<Rightarrow> bool" where
  "isShellIdentifier value =
     (case value of [] \<Rightarrow> False
      | r # rs \<Rightarrow> if r = CHR ''_'' \<or> is_upper r \<or> is_lower r
                 then list_all (\<lambda>r. r = CHR ''_'' \<or> is_upper r \<or> is_lower r \<or> is_digit r) rs
                 else False)"

definition isSafeEnvValue :: "string \<Rightarrow> bool" where
  "isSafeEnvValue value =
     (if value = [] then False
      else list_all (\<lambda>r. is_upper r \<or> is_lower r \<or> is_digit r \<or> r = CHR ''_'' \<or> r = CHR ''.''
                        \<or> r = CHR ''/'' \<or> r = CHR '':'' \<or> r = CHR ''-'') value)"

definition isSafeWrapperValue :: "string \<Rightarrow> bool" where
  "isSafeWrapperValue value =
     (if value = [] then False
      else list_all (\<lambda>r. is_upper r \<or> is_lower r \<or> is_digit r \<or> r = CHR ''_'' \<or> r = CHR ''.''
                        \<or> r = CHR ''+'' \<or> r = CHR ''-'') value)"

fun isTimeoutDuration_loop :: "bool \<Rightarrow> bool \<Rightarrow> bool \<Rightarrow> string \<Rightarrow> bool" where
  "isTimeoutDuration_loop seenDigit seenDot digitAfterDot [] =
     (seenDigit \<and> (\<not> seenDot \<or> digitAfterDot))"
| "isTimeoutDuration_loop seenDigit seenDot digitAfterDot (r # rs) =
     (if is_digit r then isTimeoutDuration_loop True seenDot (digitAfterDot \<or> seenDot) rs
      else if r = CHR ''.'' \<and> \<not> seenDot then isTimeoutDuration_loop seenDigit True digitAfterDot rs
      else False)"

definition isTimeoutDuration :: "string \<Rightarrow> bool" where
  "isTimeoutDuration value =
     (if value = [] then False
      else let value = (if last value = CHR ''s'' \<or> last value = CHR ''m'' \<or> last value = CHR ''h''
                          \<or> last value = CHR ''d'' then butlast value else value)
           in if value = [] then False
              else if \<not> is_digit (hd value) then False
              else isTimeoutDuration_loop False False False value)"

definition isSignedInteger :: "string \<Rightarrow> bool" where
  "isSignedInteger value =
     (case value of [] \<Rightarrow> False
      | c # cs \<Rightarrow> let value = (if c = CHR ''-'' then cs else value)
                 in if value = [] then False else list_all is_digit value)"

definition bashSafeEnvVars :: "string list" where
  "bashSafeEnvVars =
    [''GOEXPERIMENT'', ''GOOS'', ''GOARCH'', ''CGO_ENABLED'', ''GO111MODULE'', ''RUST_BACKTRACE'',
     ''RUST_LOG'', ''NODE_ENV'', ''PYTHONUNBUFFERED'', ''PYTHONDONTWRITEBYTECODE'',
     ''PYTEST_DISABLE_PLUGIN_AUTOLOAD'', ''PYTEST_DEBUG'', ''ANTHROPIC_API_KEY'', ''LANG'',
     ''LANGUAGE'', ''LC_ALL'', ''LC_CTYPE'', ''LC_TIME'', ''CHARSET'', ''TERM'', ''COLORTERM'',
     ''NO_COLOR'', ''FORCE_COLOR'', ''TZ'', ''LS_COLORS'', ''LSCOLORS'', ''GREP_COLOR'', ''GREP_COLORS'',
     ''GCC_COLORS'', ''TIME_STYLE'', ''BLOCK_SIZE'', ''BLOCKSIZE'']"

definition isSafeEnvAssignment :: "string \<Rightarrow> bool" where
  "isSafeEnvAssignment word =
     (case Cut word (CHR ''='') of None \<Rightarrow> False
      | Some (name, value) \<Rightarrow> name \<in> set bashSafeEnvVars \<and> isShellIdentifier name \<and> isSafeEnvValue value)"

definition isShellAssignment :: "string \<Rightarrow> bool" where
  "isShellAssignment word =
     (case Cut word (CHR ''='') of None \<Rightarrow> False | Some (name, _) \<Rightarrow> isShellIdentifier name)"

definition isASCIIAlpha :: "char \<Rightarrow> bool" where
  "isASCIIAlpha ch = (is_lower ch \<or> is_upper ch)"

text \<open>The characters \<open>"'\<close> that surround a value and are trimmed from it.\<close>

definition quote_chars :: string where
  "quote_chars = [dquote, squote]"

definition safeRelativeShellPathArg :: "string \<Rightarrow> bool" where
  "safeRelativeShellPathArg value0 =
     (let value = Trim (TrimSpace value0) quote_chars in
      if value = [] \<or> ContainsAny value [CHR ''$'', btick, nul] then False
      else if HasPrefix value ''/'' \<or> HasPrefix value [bslash] \<or> HasPrefix value ''~'' then False
      else if length value \<ge> 2 \<and> isASCIIAlpha (value ! 0) \<and> value ! 1 = CHR '':'' then False
      else if Contains value '':'' then False
      else (let normalized = ReplaceAll value [bslash] ''/''
            in list_all (\<lambda>part. part \<noteq> ''..'') (Split normalized (CHR ''/''))))"

definition filepathBase :: "string \<Rightarrow> string" where
  "filepathBase name0 =
     (let name = TrimSpace name0 in
      if name = [] then []
      else let name = TrimSuffix (Trim name quote_chars) ''.exe'';
               parts = FieldsFunc name (\<lambda>r. r = CHR ''/'' \<or> r = bslash)
           in if parts = [] then name else last parts)"

definition containsWord :: "string list \<Rightarrow> string \<Rightarrow> bool" where
  "containsWord words want = list_ex (\<lambda>word. word = want) words"

definition containsAnyWord :: "string list \<Rightarrow> string list \<Rightarrow> bool" where
  "containsAnyWord words candidates = list_ex (\<lambda>candidate. containsWord words candidate) candidates"

definition hasRecursiveFlag :: "string list \<Rightarrow> bool" where
  "hasRecursiveFlag words =
     list_ex (\<lambda>word. word = ''-R'' \<or> word = ''--recursive'' \<or> (Contains word ''R'' \<and> HasPrefix word ''-''))
       (drop 1 words)"

section \<open>Wrappers\<close>

definition stripLeadingSafeAssignments :: "string list \<Rightarrow> string list" where
  "stripLeadingSafeAssignments words = dropWhile isSafeEnvAssignment words"

definition stripLeadingAssignments :: "string list \<Rightarrow> string list" where
  "stripLeadingAssignments words = dropWhile isShellAssignment words"

text \<open>The value of a flag \<open>--name=value\<close>: \<open>SplitN(arg, "=", 2)[1]\<close>.\<close>

definition flag_value :: "string \<Rightarrow> string" where
  "flag_value arg = (case Cut arg (CHR ''='') of None \<Rightarrow> [] | Some (_, v) \<Rightarrow> v)"

definition flag_name :: "string \<Rightarrow> string" where
  "flag_name arg = (case Cut arg (CHR ''='') of None \<Rightarrow> arg | Some (n, _) \<Rightarrow> n)"

definition timeoutDurationIndex_step :: "nat \<Rightarrow> string \<Rightarrow> string list \<Rightarrow> (nat, nat option) iter" where
  "timeoutDurationIndex_step i arg rest =
     (let nxt = (case rest of [] \<Rightarrow> [] | n # _ \<Rightarrow> n) in
      if arg = ''--foreground'' \<or> arg = ''--preserve-status'' \<or> arg = ''--verbose'' \<or> arg = ''-v'' then
        Continue (i + 1) 0
      else if HasPrefix arg ''--kill-after='' \<or> HasPrefix arg ''--signal='' then
        (if \<not> isSafeWrapperValue (flag_value arg) then Return None else Continue (i + 1) 0)
      else if (arg = ''--kill-after'' \<or> arg = ''--signal'' \<or> arg = ''-k'' \<or> arg = ''-s'') \<and> nxt \<noteq> [] then
        (if \<not> isSafeWrapperValue nxt then Return None else Continue (i + 2) 1)
      else if (HasPrefix arg ''-k'' \<or> HasPrefix arg ''-s'') \<and> length arg > 2 then
        (if \<not> isSafeWrapperValue (drop 2 arg) then Return None else Continue (i + 1) 0)
      else if arg = ''--'' then
        (if rest \<noteq> [] \<and> isTimeoutDuration (hd rest) then Return (Some (i + 1)) else Return None)
      else if HasPrefix arg ''-'' then Return None
      else if isTimeoutDuration arg then Return (Some i) else Return None)"

definition timeoutDurationIndex :: "string list \<Rightarrow> nat option" where
  "timeoutDurationIndex words = args_loop timeoutDurationIndex_step (\<lambda>_. None) 1 (drop 1 words)"

text \<open>\<open>niceCommandIndex\<close> is straight-line code: the index after the optional \<open>-n N\<close> or
  \<open>-N\<close>, then after an optional \<open>--\<close>. The early \<open>return -1\<close> is \<open>None\<close>.\<close>

definition niceCommandIndex :: "string list \<Rightarrow> nat option" where
  "niceCommandIndex words =
     (let i = (if 1 < length words \<and> words ! 1 = ''-n'' then
                 (if 2 \<ge> length words \<or> \<not> isSignedInteger (words ! 2) then None else Some 3)
               else if 1 < length words \<and> HasPrefix (words ! 1) ''-'' \<and> isSignedInteger (words ! 1)
               then Some 2 else Some 1)
      in case i of None \<Rightarrow> None
         | Some i \<Rightarrow>
             let i = (if i < length words \<and> words ! i = ''--'' then i + 1 else i)
             in if i < length words then Some i else None)"

definition stdbufCommandIndex_step ::
  "bool \<times> nat \<Rightarrow> string \<Rightarrow> string list \<Rightarrow> (bool \<times> nat, nat option) iter" where
  "stdbufCommandIndex_step = (\<lambda>(consumed, i) arg rest.
      if (arg = ''-i'' \<or> arg = ''-o'' \<or> arg = ''-e'') \<and> rest \<noteq> [] then Continue (True, i + 2) 1
      else if length arg > 2 \<and> arg ! 0 = CHR ''-'' \<and> (arg ! 1 = CHR ''i'' \<or> arg ! 1 = CHR ''o'' \<or> arg ! 1 = CHR ''e'') then
        Continue (True, i + 1) 0
      else if HasPrefix arg ''--input='' \<or> HasPrefix arg ''--output='' \<or> HasPrefix arg ''--error='' then
        Continue (True, i + 1) 0
      else if HasPrefix arg ''-'' then Return None
      else if consumed then Return (Some i) else Return None)"

definition stdbufCommandIndex :: "string list \<Rightarrow> nat option" where
  "stdbufCommandIndex words = args_loop stdbufCommandIndex_step (\<lambda>_. None) (False, 1) (drop 1 words)"

definition envCommandIndex_step :: "nat \<Rightarrow> string \<Rightarrow> string list \<Rightarrow> (nat, nat option) iter" where
  "envCommandIndex_step i arg rest =
     (if isSafeEnvAssignment arg then Continue (i + 1) 0
      else if arg = ''-i'' \<or> arg = ''-0'' \<or> arg = ''-v'' then Continue (i + 1) 0
      else if arg = ''-u'' \<and> rest \<noteq> [] then
        (if \<not> isShellIdentifier (hd rest) then Return None else Continue (i + 2) 1)
      else if HasPrefix arg ''-'' then Return None
      else Return (Some i))"

definition envCommandIndex :: "string list \<Rightarrow> nat option" where
  "envCommandIndex words = args_loop envCommandIndex_step (\<lambda>_. None) 1 (drop 1 words)"

text \<open>Every index is past the wrapper's own word, so the wrapper loop makes progress.\<close>

definition past_first :: "nat option \<Rightarrow> bool" where
  "past_first r = (case r of None \<Rightarrow> True | Some j \<Rightarrow> 1 \<le> j)"

lemma past_first_simps [simp]: "past_first None" "past_first (Some j) = (1 \<le> j)"
  by (simp_all add: past_first_def)

lemma timeoutDurationIndex_past: "past_first (timeoutDurationIndex words)"
  unfolding timeoutDurationIndex_def
  by (rule args_loop_invariant[where I = "\<lambda>i. 1 \<le> i"])
     (auto simp: timeoutDurationIndex_step_def Let_def split: if_split_asm)

lemma stdbufCommandIndex_past: "past_first (stdbufCommandIndex words)"
  unfolding stdbufCommandIndex_def
  by (rule args_loop_invariant[where I = "\<lambda>(b, i). 1 \<le> i"])
     (auto simp: stdbufCommandIndex_step_def split: if_split_asm)

lemma envCommandIndex_past: "past_first (envCommandIndex words)"
  unfolding envCommandIndex_def
  by (rule args_loop_invariant[where I = "\<lambda>i. 1 \<le> i"])
     (auto simp: envCommandIndex_step_def split: if_split_asm)

lemma niceCommandIndex_past: "past_first (niceCommandIndex words)"
  by (auto simp: niceCommandIndex_def Let_def split: if_splits option.splits)

lemmas wrapper_index_past =
  timeoutDurationIndex_past stdbufCommandIndex_past envCommandIndex_past niceCommandIndex_past

text \<open>One turn of the wrapper loop: \<open>None\<close> is \<open>return words\<close>, \<open>Some\<close> the words after the
  wrapper, with which the loop goes on.\<close>

definition strip_one_wrapper :: "string list \<Rightarrow> string list option" where
  "strip_one_wrapper words =
     (case words of [] \<Rightarrow> None
      | w # _ \<Rightarrow>
        (let base = filepathBase w in
         if base = ''time'' \<or> base = ''nohup'' then
           Some (drop (if length words > 1 \<and> words ! 1 = ''--'' then 2 else 1) words)
         else if base = ''timeout'' then
           (case timeoutDurationIndex words of None \<Rightarrow> None
            | Some duration \<Rightarrow> if duration + 1 \<ge> length words then None else Some (drop (duration + 1) words))
         else if base = ''nice'' then map_option (\<lambda>i. drop i words) (niceCommandIndex words)
         else if base = ''stdbuf'' then map_option (\<lambda>i. drop i words) (stdbufCommandIndex words)
         else if base = ''env'' then map_option (\<lambda>i. drop i words) (envCommandIndex words)
         else None))"

lemma strip_one_wrapper_Some:
  assumes "strip_one_wrapper words = Some ws"
  shows "words \<noteq> [] \<and> (\<exists>i. 1 \<le> i \<and> ws = drop i words)"
  using assms wrapper_index_past[of words]
  by (auto simp: strip_one_wrapper_def Let_def past_first_def split: list.splits if_splits option.splits)

function stripSafeWrapper_loop :: "string list \<Rightarrow> string list" where
  "stripSafeWrapper_loop words =
     (case strip_one_wrapper words of None \<Rightarrow> words | Some ws \<Rightarrow> stripSafeWrapper_loop ws)"
  by pat_completeness auto
termination
  by (relation "measure length") (auto dest!: strip_one_wrapper_Some simp: neq_Nil_conv)

declare stripSafeWrapper_loop.simps [simp del]

definition stripSafeWrapperWords :: "string list \<Rightarrow> string list" where
  "stripSafeWrapperWords words = stripSafeWrapper_loop (stripLeadingSafeAssignments words)"

section \<open>What stripping keeps\<close>

text \<open>Stripping only ever drops words from the front.\<close>

lemma suffix_drop_iff: "suffix ws words \<longleftrightarrow> (\<exists>i. ws = drop i words)"
  by (metis suffix_def append_eq_conv_conj suffix_drop)

lemma strip_one_wrapper_suffix: "strip_one_wrapper words = Some ws \<Longrightarrow> suffix ws words"
  by (auto dest!: strip_one_wrapper_Some simp: suffix_drop)

lemma stripSafeWrapper_loop_suffix: "suffix (stripSafeWrapper_loop words) words"
proof (induction words rule: stripSafeWrapper_loop.induct)
  case (1 words)
  show ?case
  proof (cases "strip_one_wrapper words")
    case None
    then show ?thesis by (simp add: stripSafeWrapper_loop.simps[of words])
  next
    case (Some ws)
    with "1" have "suffix (stripSafeWrapper_loop ws) ws" by blast
    moreover from Some have "suffix ws words" by (rule strip_one_wrapper_suffix)
    ultimately show ?thesis using Some
      by (simp add: stripSafeWrapper_loop.simps[of words] suffix_order.trans)
  qed
qed

lemma stripLeadingAssignments_suffix: "suffix (stripLeadingAssignments words) words"
  by (simp add: stripLeadingAssignments_def suffix_dropWhile)

lemma stripSafeWrapperWords_suffix: "suffix (stripSafeWrapperWords words) words"
  using stripSafeWrapper_loop_suffix suffix_dropWhile suffix_order.trans
  unfolding stripSafeWrapperWords_def stripLeadingSafeAssignments_def by blast

text \<open>The weight of a word list: its bytes and one per word. Every recursive descent of the
  classifier makes it smaller.\<close>

definition wsize :: "string list \<Rightarrow> nat" where
  "wsize ws = sum_list (map (\<lambda>w. length w + 1) ws)"

lemma wsize_simps [simp]:
  "wsize [] = 0" "wsize (w # ws) = length w + 1 + wsize ws" "wsize (xs @ ys) = wsize xs + wsize ys"
  by (simp_all add: wsize_def)

lemma wsize_suffix: "suffix ws words \<Longrightarrow> wsize ws \<le> wsize words"
  by (auto simp: suffix_def)

lemma wsize_suffix_tl: "suffix ws (tl words) \<Longrightarrow> words \<noteq> [] \<Longrightarrow> wsize ws < wsize words"
  using wsize_suffix[of ws "tl words"] by (cases words) auto

lemma wsize_mem: "w \<in> set ws \<Longrightarrow> length w + 1 \<le> wsize ws"
  by (induction ws) auto

lemma wsize_nth: "i < length ws \<Longrightarrow> length (ws ! i) + 1 \<le> wsize ws"
  by (rule wsize_mem) simp

lemma wsize_take: "wsize (take n ws) \<le> wsize ws"
  using wsize_simps(3)[of "take n ws" "drop n ws"] by simp

lemma wsize_0: "wsize ws = 0 \<longleftrightarrow> ws = []"
  by (cases ws) auto

end
