(* ===== verification/Destructive.thy ===== *)
theory Destructive
  imports ShellWords
begin

text \<open>
  \<open>IsDestructiveCommand\<close> and what it calls (\<open>internal/tools/bash/tools.go\<close>). The functions
  are mutually recursive: a command is split into words, a word list can hold a script of a
  nested shell (\<open>sh -c\<close>), a \<open>find -exec\<close> or \<open>xargs\<close> command, and a command text can hold
  substitutions and subshells. The termination proof is part of the result: the classifier
  returns on every input.
\<close>

section \<open>The parts that do not recurse\<close>

definition shellExecutable :: "string \<Rightarrow> bool" where
  "shellExecutable word = (filepathBase word \<in> {''sh'', ''bash'', ''dash'', ''zsh'', ''ksh''})"

definition gitReflogFlagsWithArgs :: "string list" where
  "gitReflogFlagsWithArgs =
    [''-n'', ''--max-count'', ''--date'', ''--format'', ''--pretty'', ''--grep'', ''--author'',
     ''--committer'', ''--since'', ''--after'', ''--until'', ''--before'']"

definition gitReflogFirstPositional_step :: "unit \<Rightarrow> string \<Rightarrow> string list \<Rightarrow> (unit, string option) iter" where
  "gitReflogFirstPositional_step u arg rest =
     (if arg = ''--'' then Return (case rest of [] \<Rightarrow> None | a # _ \<Rightarrow> Some a)
      else if HasPrefix arg ''--'' then
        (if Contains arg ''='' then Continue () 0
         else if arg \<in> set gitReflogFlagsWithArgs \<and> rest \<noteq> [] then Continue () 1
         else Continue () 0)
      else if HasPrefix arg ''-'' then
        (if arg \<in> set gitReflogFlagsWithArgs \<and> rest \<noteq> [] then Continue () 1 else Continue () 0)
      else Return (Some arg))"

text \<open>\<open>None\<close> is \<open>ok = false\<close>.\<close>

definition gitReflogFirstPositional :: "string list \<Rightarrow> string option" where
  "gitReflogFirstPositional args = args_loop gitReflogFirstPositional_step (\<lambda>_. None) () args"

definition destructiveGit :: "string list \<Rightarrow> bool" where
  "destructiveGit words =
     (if length words < 2 then False
      else let sub = words ! 1; rest = drop 2 words;
               third = (\<lambda>names. length words \<ge> 3 \<and> words ! 2 \<in> set names)
      in if sub = ''reset'' then containsWord rest ''--hard''
         else if sub = ''clean'' then True
         else if sub = ''branch'' then containsAnyWord rest [''-d'', ''-D'', ''--delete'', ''--force'']
         else if sub = ''tag'' then containsAnyWord rest [''-d'', ''--delete'']
         else if sub = ''remote'' then third [''remove'', ''rm'']
         else if sub = ''push'' then containsAnyWord rest [''-f'', ''--force'', ''--force-with-lease'', ''--delete'']
         else if sub = ''reflog'' then
           (case gitReflogFirstPositional rest of None \<Rightarrow> False
            | Some first \<Rightarrow> first = ''expire'' \<or> first = ''delete'')
         else if sub = ''stash'' then third [''drop'', ''pop'', ''clear'']
         else if sub = ''worktree'' then third [''remove'', ''prune'']
         else if sub = ''checkout'' \<or> sub = ''restore'' then containsWord rest ''.'' \<or> containsWord rest ''--''
         else False)"

definition trimFindExecTerminator :: "string list \<Rightarrow> string list" where
  "trimFindExecTerminator words =
     takeWhile (\<lambda>word. \<not> (word = '';'' \<or> word = [bslash, CHR '';''] \<or> word = ''+'')) words"

definition xargsFlagWithoutValue :: "string \<Rightarrow> bool" where
  "xargsFlagWithoutValue word =
     (word \<in> {''-0'', ''--null'', ''-r'', ''--no-run-if-empty'', ''-t'', ''--verbose'', ''-p'',
              ''--interactive'', ''-x'', ''--exit'', ''--show-limits''})"

definition xargsFlagWithSeparateValue :: "string \<Rightarrow> bool" where
  "xargsFlagWithSeparateValue word =
     (word \<in> {''-a'', ''--arg-file'', ''-d'', ''--delimiter'', ''-E'', ''--eof'', ''-I'', ''--replace'',
              ''-i'', ''--replace-str'', ''-L'', ''--max-lines'', ''-l'', ''--max-lines-opt'', ''-n'',
              ''--max-args'', ''-P'', ''--max-procs'', ''-s'', ''--max-chars''})"

definition xargsFlagWithInlineValue :: "string \<Rightarrow> bool" where
  "xargsFlagWithInlineValue word =
     (list_ex (\<lambda>prefix. HasPrefix word prefix)
        [''--arg-file='', ''--delimiter='', ''--eof='', ''--replace='', ''--replace-str='', ''--max-lines='',
         ''--max-lines-opt='', ''--max-args='', ''--max-procs='', ''--max-chars='']
      \<or> length word > 2 \<and> take 2 word \<in> {''-a'', ''-d'', ''-E'', ''-I'', ''-i'', ''-L'', ''-l'', ''-n'', ''-P'', ''-s''})"

definition xargsCommandWords_step :: "unit \<Rightarrow> string \<Rightarrow> string list \<Rightarrow> (unit, string list) iter" where
  "xargsCommandWords_step u word rest =
     (if word = ''--'' then Return rest
      else if xargsFlagWithoutValue word then Continue () 0
      else if xargsFlagWithInlineValue word then Continue () 0
      else if xargsFlagWithSeparateValue word then Continue () 1
      else if HasPrefix word ''-'' then Continue () 0
      else Return (word # rest))"

definition xargsCommandWords :: "string list \<Rightarrow> string list" where
  "xargsCommandWords words = args_loop xargsCommandWords_step (\<lambda>_. []) () (drop 1 words)"

text \<open>The script of \<open>destructiveShellExec\<close>: the word after the first \<open>-c\<close>, \<open>-lc\<close> or \<open>-cl\<close>
  that has one.\<close>

definition isDashC :: "string \<Rightarrow> bool" where
  "isDashC word = (word = ''-c'' \<or> word = ''-lc'' \<or> word = ''-cl'')"

fun first_script :: "string list \<Rightarrow> string option" where
  "first_script (word # script # rest) =
     (if isDashC word then Some script else first_script (script # rest))"
| "first_script _ = None"

definition shellExecScript :: "string list \<Rightarrow> string option" where
  "shellExecScript words =
     (if length words < 3 \<or> \<not> shellExecutable (hd words) then None else first_script (tl words))"

definition alwaysDestructive :: "string list" where
  "alwaysDestructive =
     [''rm'', ''rmdir'', ''dd'', ''mkfs'', ''shutdown'', ''reboot'', ''halt'', ''poweroff'', ''kill'', ''pkill'',
      ''killall'', ''sudo'', ''su'']"

definition isFindExec :: "string \<Rightarrow> bool" where
  "isFindExec word = (word \<in> {''-exec'', ''-execdir'', ''-ok'', ''-okdir''})"

section \<open>Termination facts\<close>

lemma wsize_shellWords_loop:
  "wsize (shellWords_loop ws cur q rest) \<le> wsize ws + length cur + 1 + length rest"
proof (induction rest arbitrary: ws cur q)
  case Nil
  then show ?case by (simp add: flush_word_def)
next
  case (Cons ch rest)
  have flush: "wsize (flush_word ws cur) \<le> wsize ws + length cur + 1"
    by (simp add: flush_word_def)
  have skip: "wsize (shellWords_loop ws cur q' rest) \<le> wsize ws + length cur + 1 + length (ch # rest)" for q'
    using Cons.IH[of ws cur q'] by simp
  have add: "wsize (shellWords_loop ws (cur @ [ch]) q' rest) \<le> wsize ws + length cur + 1 + length (ch # rest)" for q'
    using Cons.IH[of ws "cur @ [ch]" q'] by simp
  have new: "wsize (shellWords_loop (flush_word ws cur) [] q' rest) \<le> wsize ws + length cur + 1 + length (ch # rest)" for q'
    using Cons.IH[of "flush_word ws cur" "[]" q'] flush by simp
  show ?case
    using skip add new by (simp add: split: option.split)
qed

lemma wsize_shellWords: "wsize (shellWords c) \<le> length c + 1"
  using wsize_shellWords_loop[of "[]" "[]" q0 c] by (simp add: shellWords_def)

lemma xargsCommandWords_suffix: "suffix (xargsCommandWords words) (tl words)"
proof -
  have "suffix (args_loop xargsCommandWords_step (\<lambda>_. []) () ws) ws" for ws
  proof (induction "length ws" arbitrary: ws rule: less_induct)
    case less
    show ?case
    proof (cases ws)
      case (Cons w rest)
      have IH: "suffix (args_loop xargsCommandWords_step (\<lambda>_. []) () (drop k rest)) rest" for k
      proof -
        have "suffix (args_loop xargsCommandWords_step (\<lambda>_. []) () (drop k rest)) (drop k rest)"
          using less Cons by simp
        then show ?thesis using suffix_drop suffix_order.trans by blast
      qed
      show ?thesis unfolding Cons
        using IH[of 0] IH[of 1]
        by (simp add: xargsCommandWords_step_def suffix_ConsI)
    qed simp
  qed
  then show ?thesis by (simp add: xargsCommandWords_def drop_Suc)
qed

lemma first_script_wsize: "first_script ws = Some s \<Longrightarrow> length s + 2 \<le> wsize ws"
  by (induction ws rule: first_script.induct) (auto split: if_split_asm)

lemma shellExecScript_wsize: "shellExecScript ws = Some s \<Longrightarrow> length s + 1 < wsize ws"
  by (cases ws) (auto simp: shellExecScript_def split: if_split_asm dest: first_script_wsize)

lemma trimFindExecTerminator_wsize: "wsize (trimFindExecTerminator ws) \<le> wsize ws"
  unfolding trimFindExecTerminator_def by (induction ws) simp_all

lemma strip_wsize: "wsize (stripLeadingAssignments (stripSafeWrapperWords ws)) \<le> wsize ws"
  by (meson wsize_suffix stripLeadingAssignments_suffix stripSafeWrapperWords_suffix order_trans)

section \<open>The mutually recursive classifier\<close>

function IsDestructiveCommand :: "string \<Rightarrow> bool"
  and hasNestedShellDestructiveCommand_loop :: "quoting \<Rightarrow> string \<Rightarrow> bool"
  and destructiveWords :: "string list \<Rightarrow> bool"
  and destructiveFind_loop :: "string list \<Rightarrow> bool"
  and destructiveExecCommand :: "string list \<Rightarrow> bool"
where
  "IsDestructiveCommand command =
     (let command = stripShellLineComments command in
      if hasNestedShellDestructiveCommand_loop q0 command then True
      else list_ex (\<lambda>segment. if shellWords segment = [] then False
                              else destructiveWords (shellWords segment))
             (splitCommandSegments command))"
| "hasNestedShellDestructiveCommand_loop q [] = False"
| "hasNestedShellDestructiveCommand_loop q (ch # rest) =
     (case quote_branch q ch of
        Some q' \<Rightarrow> hasNestedShellDestructiveCommand_loop q' rest
      | None \<Rightarrow>
          if inSingle q then hasNestedShellDestructiveCommand_loop q rest
          else if ch = btick then
            (case findShellClosingBacktick rest of
               None \<Rightarrow> False
             | Some n \<Rightarrow> if IsDestructiveCommand (take n rest) then True
                        else hasNestedShellDestructiveCommand_loop q (drop (n + 1) rest))
          else if ch = CHR ''$'' \<and> rest \<noteq> [] \<and> hd rest = CHR ''('' then
            (case findShellClosingParen (tl rest) of
               None \<Rightarrow> False
             | Some n \<Rightarrow> if IsDestructiveCommand (take n (tl rest)) then True
                        else hasNestedShellDestructiveCommand_loop q (drop (n + 1) (tl rest)))
          else if \<not> inDouble q \<and> ch = CHR ''('' then
            (case findShellClosingParen rest of
               None \<Rightarrow> False
             | Some n \<Rightarrow> if IsDestructiveCommand (take n rest) then True
                        else hasNestedShellDestructiveCommand_loop q (drop (n + 1) rest))
          else hasNestedShellDestructiveCommand_loop q rest)"
| "destructiveWords words =
     (let words = stripLeadingAssignments (stripSafeWrapperWords words) in
      case words of
        [] \<Rightarrow> False
      | w # args \<Rightarrow>
          let cmd = filepathBase w in
          if cmd \<in> set alwaysDestructive then True
          else if cmd = ''git'' then destructiveGit words
          else if cmd = ''find'' then destructiveFind_loop args
          else if cmd = ''xargs'' then destructiveExecCommand (xargsCommandWords words)
          else if cmd = ''chmod'' \<or> cmd = ''chown'' \<or> cmd = ''chgrp'' then hasRecursiveFlag words
          else False)"
| "destructiveFind_loop [] = False"
| "destructiveFind_loop (word # rest) =
     (if word = ''-delete'' then True
      else if isFindExec word \<and> rest \<noteq> [] \<and> destructiveExecCommand rest then True
      else destructiveFind_loop rest)"
| "destructiveExecCommand words =
     (let words = trimFindExecTerminator words in
      if words = [] then False
      else if destructiveWords words then True
      else (case shellExecScript (stripLeadingAssignments (stripSafeWrapperWords words)) of
              None \<Rightarrow> False
            | Some script \<Rightarrow> IsDestructiveCommand script))"
  by pat_completeness auto

text \<open>The measure: the text (or the weight of the words) that is left, then the rank of the
  function, so that a call on the same text goes down in rank.\<close>

abbreviation classifier_size ::
  "(string + quoting \<times> string) + (string list + string list + string list) \<Rightarrow> nat \<times> nat" where
  "classifier_size x \<equiv> (case x of
      Inl (Inl c) \<Rightarrow> (length c + 1, 5)
    | Inl (Inr (q, c)) \<Rightarrow> (length c + 1, 4)
    | Inr (Inl ws) \<Rightarrow> (wsize ws, 2)
    | Inr (Inr (Inl ws)) \<Rightarrow> (wsize ws, 1)
    | Inr (Inr (Inr ws)) \<Rightarrow> (wsize ws, 3))"

lemma wsize_segment_words:
  "seg \<in> set (splitCommandSegments (stripShellLineComments c)) \<Longrightarrow> wsize (shellWords seg) \<le> length c + 1"
  using wsize_shellWords[of seg] splitCommandSegments_bound[of seg] length_stripShellLineComments[of c]
  by fastforce

lemma wsize_args:
  "w # args = stripLeadingAssignments (stripSafeWrapperWords ws) \<Longrightarrow> wsize args < wsize ws"
  using strip_wsize[of ws] by (auto dest: arg_cong[where f = wsize])

lemma wsize_xargs:
  "w # args = stripLeadingAssignments (stripSafeWrapperWords ws) \<Longrightarrow>
   wsize (xargsCommandWords (stripLeadingAssignments (stripSafeWrapperWords ws))) < wsize ws"
  using wsize_args[of w args ws] wsize_suffix[OF xargsCommandWords_suffix[of "w # args"]]
  by (metis le_less_trans list.sel(3))

lemma length_strip_Suc:
  "length (stripShellLineComments c) \<noteq> length c \<Longrightarrow> Suc (length (stripShellLineComments c)) \<le> length c"
  using length_stripShellLineComments[of c] by simp

lemma wsize_script:
  "shellExecScript (stripLeadingAssignments (stripSafeWrapperWords (trimFindExecTerminator ws))) = Some s
   \<Longrightarrow> length s + 1 < wsize ws"
  using shellExecScript_wsize strip_wsize trimFindExecTerminator_wsize
  by (meson less_le_trans order_trans)

termination IsDestructiveCommand
proof (relation "inv_image (less_than <*lex*> less_than) classifier_size", goal_cases)
  case 1
  show ?case by (intro wf_inv_image wf_lex_prod wf_less_than)
qed (auto simp: less_Suc_eq_le le_less[symmetric] length_stripShellLineComments trimFindExecTerminator_wsize
       length_strip_Suc dest: wsize_segment_words wsize_args less_imp_le[OF wsize_args] wsize_xargs wsize_script)


end
