(* ===== verification/FlagTables.thy ===== *)
theory FlagTables
  imports Prelude
begin

text \<open>
  The flag tables of \<open>internal/tools/bash/tools.go\<close>. A \<open>map[string]bool\<close> whose values are all
  \<open>true\<close> is the list of its keys in the source's order, looked up by membership (a missing key
  reads as \<open>false\<close>); \<open>mergeBoolMaps\<close> is \<open>@\<close>. \<open>gitConfigQueryActions\<close> is an association list.
\<close>

definition goListAllowedFlags :: "string list" where
  "goListAllowedFlags =
    [''-compiled'', ''-deps'', ''-e'', ''-export'', ''-find'', ''-json'', ''-m'', ''-retracted'',
     ''-test'', ''-u'', ''-versions'']"

definition goListFlagsWithArgs :: "string list" where
  "goListFlagsWithArgs =
    [''-f'', ''-tags'']"

definition gitStatAllowedFlags :: "string list" where
  "gitStatAllowedFlags =
    [''--stat'', ''--numstat'', ''--shortstat'', ''--name-only'', ''--name-status'']"

definition gitColorAllowedFlags :: "string list" where
  "gitColorAllowedFlags =
    [''--color'', ''--no-color'']"

definition gitPatchAllowedFlags :: "string list" where
  "gitPatchAllowedFlags =
    [''--patch'', ''-p'', ''--no-patch'', ''--no-ext-diff'', ''-s'']"

definition gitRefSelectionAllowedFlags :: "string list" where
  "gitRefSelectionAllowedFlags =
    [''--all'', ''--branches'', ''--tags'', ''--remotes'']"

definition gitDateFilterFlagsWithArgs :: "string list" where
  "gitDateFilterFlagsWithArgs =
    [''--since'', ''--after'', ''--until'', ''--before'']"

definition gitLogDisplayAllowedFlags :: "string list" where
  "gitLogDisplayAllowedFlags =
    [''--oneline'', ''--graph'', ''--decorate'', ''--no-decorate'', ''--relative-date'']"

definition gitLogDisplayFlagsWithArgs :: "string list" where
  "gitLogDisplayFlagsWithArgs =
    [''--date'']"

definition gitCountFlagsWithArgs :: "string list" where
  "gitCountFlagsWithArgs =
    [''--max-count'', ''-n'']"

definition gitAuthorFilterFlagsWithArgs :: "string list" where
  "gitAuthorFilterFlagsWithArgs =
    [''--author'', ''--committer'', ''--grep'']"

definition gitDiffAllowedFlags :: "string list" where
  "gitDiffAllowedFlags =
     gitStatAllowedFlags @ gitColorAllowedFlags @
    [''--dirstat'', ''--summary'', ''--patch-with-stat'', ''--word-diff'', ''--color-words'',
     ''--no-renames'', ''--no-ext-diff'', ''--check'', ''--full-index'', ''--binary'',
     ''--break-rewrites'', ''--find-renames'', ''--find-copies'', ''--find-copies-harder'',
     ''--irreversible-delete'', ''--histogram'', ''--patience'', ''--minimal'',
     ''--ignore-space-at-eol'', ''--ignore-space-change'', ''--ignore-all-space'',
     ''--ignore-blank-lines'', ''--function-context'', ''--exit-code'', ''--quiet'', ''--cached'',
     ''--staged'', ''--pickaxe-regex'', ''--pickaxe-all'', ''--no-index'', ''-p'', ''-u'', ''-s'',
     ''-M'', ''-C'', ''-B'', ''-D'', ''-l'', ''-R'']"

definition gitDiffFlagsWithArgs :: "string list" where
  "gitDiffFlagsWithArgs =
    [''--word-diff-regex'', ''--ws-error-highlight'', ''--abbrev'', ''--diff-algorithm'',
     ''--inter-hunk-context'', ''--relative'', ''--diff-filter'', ''-S'', ''-G'', ''-O'']"

definition gitLogAllowedFlags :: "string list" where
  "gitLogAllowedFlags =
     gitLogDisplayAllowedFlags @ gitRefSelectionAllowedFlags @ gitStatAllowedFlags @ gitColorAllowedFlags @ gitPatchAllowedFlags @
    [''--abbrev-commit'', ''--full-history'', ''--dense'', ''--sparse'', ''--simplify-merges'',
     ''--ancestry-path'', ''--source'', ''--first-parent'', ''--merges'', ''--no-merges'',
     ''--reverse'', ''--walk-reflogs'', ''--no-min-parents'', ''--no-max-parents'', ''--follow'',
     ''--no-walk'', ''--left-right'', ''--cherry-mark'', ''--cherry-pick'', ''--boundary'',
     ''--topo-order'', ''--date-order'', ''--author-date-order'', ''--pickaxe-regex'',
     ''--pickaxe-all'']"

definition gitLogFlagsWithArgs :: "string list" where
  "gitLogFlagsWithArgs =
     gitLogDisplayFlagsWithArgs @ gitDateFilterFlagsWithArgs @ gitCountFlagsWithArgs @ gitAuthorFilterFlagsWithArgs @
    [''--skip'', ''--max-age'', ''--min-age'', ''--pretty'', ''--format'', ''--diff-filter'',
     ''-S'', ''-G'']"

definition gitShowAllowedFlags :: "string list" where
  "gitShowAllowedFlags =
     gitLogDisplayAllowedFlags @ gitStatAllowedFlags @ gitColorAllowedFlags @ gitPatchAllowedFlags @
    [''--abbrev-commit'', ''--word-diff'', ''--color-words'', ''--first-parent'', ''--raw'',
     ''-m'', ''--quiet'']"

definition gitShowFlagsWithArgs :: "string list" where
  "gitShowFlagsWithArgs =
     gitLogDisplayFlagsWithArgs @
    [''--word-diff-regex'', ''--pretty'', ''--format'', ''--diff-filter'']"

definition gitStatusAllowedFlags :: "string list" where
  "gitStatusAllowedFlags =
    [''--short'', ''-s'', ''--branch'', ''-b'', ''--porcelain'', ''--long'', ''--verbose'', ''-v'',
     ''--ignored'', ''--column'', ''--no-column'', ''--ahead-behind'', ''--no-ahead-behind'',
     ''--renames'', ''--no-renames'']"

definition gitStatusFlagsWithArgs :: "string list" where
  "gitStatusFlagsWithArgs =
    [''--untracked-files'', ''-u'', ''--ignore-submodules'', ''--find-renames'', ''-M'']"

definition gitLsFilesAllowedFlags :: "string list" where
  "gitLsFilesAllowedFlags =
    [''--cached'', ''-c'', ''--deleted'', ''-d'', ''--modified'', ''-m'', ''--others'', ''-o'',
     ''--ignored'', ''-i'', ''--stage'', ''-s'', ''--killed'', ''-k'', ''--unmerged'', ''-u'',
     ''--directory'', ''--no-empty-directory'', ''--eol'', ''--full-name'', ''--debug'', ''-z'',
     ''-t'', ''-v'', ''-f'', ''--exclude-standard'', ''--error-unmatch'', ''--recurse-submodules'']"

definition gitLsFilesFlagsWithArgs :: "string list" where
  "gitLsFilesFlagsWithArgs =
    [''--abbrev'', ''--exclude'', ''-x'', ''--exclude-from'', ''-X'', ''--exclude-per-directory'']"

definition gitGrepAllowedFlags :: "string list" where
  "gitGrepAllowedFlags =
    [''-E'', ''--extended-regexp'', ''-G'', ''--basic-regexp'', ''-F'', ''--fixed-strings'',
     ''-P'', ''--perl-regexp'', ''-i'', ''--ignore-case'', ''-v'', ''--invert-match'', ''-w'',
     ''--word-regexp'', ''-n'', ''--line-number'', ''-c'', ''--count'', ''-l'',
     ''--files-with-matches'', ''-L'', ''--files-without-match'', ''-h'', ''-H'', ''--heading'',
     ''--break'', ''--full-name'', ''--color'', ''--no-color'', ''-o'', ''--only-matching'',
     ''--and'', ''--or'', ''--not'', ''--untracked'', ''--no-index'', ''--recurse-submodules'',
     ''--cached'', ''-q'', ''--quiet'']"

definition gitGrepFlagsWithArgs :: "string list" where
  "gitGrepFlagsWithArgs =
    [''-e'', ''-A'', ''--after-context'', ''-B'', ''--before-context'', ''-C'', ''--context'',
     ''--max-depth'', ''--threads'']"

definition gitRevParseAllowedFlags :: "string list" where
  "gitRevParseAllowedFlags =
    [''--verify'', ''--abbrev-ref'', ''--symbolic'', ''--symbolic-full-name'', ''--show-toplevel'',
     ''--show-cdup'', ''--show-prefix'', ''--git-dir'', ''--git-common-dir'',
     ''--absolute-git-dir'', ''--show-superproject-working-tree'', ''--is-inside-work-tree'',
     ''--is-inside-git-dir'', ''--is-bare-repository'', ''--is-shallow-repository'',
     ''--is-shallow-update'', ''--path-prefix'']"

definition gitRevParseFlagsWithArgs :: "string list" where
  "gitRevParseFlagsWithArgs =
    [''--short'']"

definition gitLsRemoteAllowedFlags :: "string list" where
  "gitLsRemoteAllowedFlags =
    [''--branches'', ''-b'', ''--tags'', ''-t'', ''--heads'', ''-h'', ''--refs'', ''--quiet'',
     ''-q'', ''--exit-code'', ''--get-url'', ''--symref'']"

definition gitLsRemoteFlagsWithArgs :: "string list" where
  "gitLsRemoteFlagsWithArgs =
    [''--sort'']"

definition gitBranchAllowedFlags :: "string list" where
  "gitBranchAllowedFlags =
    [''-l'', ''--list'', ''-a'', ''--all'', ''-r'', ''--remotes'', ''-v'', ''-vv'', ''--verbose'',
     ''--color'', ''--no-color'', ''--column'', ''--no-column'', ''--no-abbrev'',
     ''--show-current'', ''-i'', ''--ignore-case'']"

definition gitBranchFlagsWithArgs :: "string list" where
  "gitBranchFlagsWithArgs =
    [''--contains'', ''--no-contains'', ''--points-at'', ''--sort'']"

definition gitBranchOptionalArgFlags :: "string list" where
  "gitBranchOptionalArgFlags =
    [''--merged'', ''--no-merged'']"

definition gitTagAllowedFlags :: "string list" where
  "gitTagAllowedFlags =
    [''-l'', ''--list'', ''--column'', ''--no-column'', ''-i'', ''--ignore-case'']"

definition gitTagFlagsWithArgs :: "string list" where
  "gitTagFlagsWithArgs =
    [''-n'', ''--contains'', ''--no-contains'', ''--merged'', ''--no-merged'', ''--sort'',
     ''--format'', ''--points-at'']"

definition gitStashShowFlagsWithArgs :: "string list" where
  "gitStashShowFlagsWithArgs =
    [''--word-diff-regex'', ''--diff-filter'', ''--abbrev'']"

definition gitStashListAllowedFlags :: "string list" where
  "gitStashListAllowedFlags =
    [''--oneline'', ''--graph'', ''--decorate'', ''--no-decorate'', ''--relative-date'', ''--all'',
     ''--branches'', ''--tags'', ''--remotes'']"

definition gitStashListFlagsWithArgs :: "string list" where
  "gitStashListFlagsWithArgs =
    [''--date'', ''--max-count'', ''-n'', ''--since'', ''--after'', ''--until'', ''--before'']"

definition gitStashShowAllowedFlags :: "string list" where
  "gitStashShowAllowedFlags =
    [''--stat'', ''--numstat'', ''--shortstat'', ''--name-only'', ''--name-status'', ''--color'',
     ''--no-color'', ''--patch'', ''-p'', ''--no-patch'', ''--no-ext-diff'', ''-s'',
     ''--word-diff'']"

definition gitWorktreeListAllowedFlags :: "string list" where
  "gitWorktreeListAllowedFlags =
    [''--porcelain'', ''-v'', ''--verbose'']"

definition gitWorktreeListFlagsWithArgs :: "string list" where
  "gitWorktreeListFlagsWithArgs =
    [''--expire'']"

definition gitMergeBaseAllowedFlags :: "string list" where
  "gitMergeBaseAllowedFlags =
    [''--is-ancestor'', ''--fork-point'', ''--octopus'', ''--independent'', ''--all'']"

definition gitDescribeAllowedFlags :: "string list" where
  "gitDescribeAllowedFlags =
    [''--tags'', ''--long'', ''--always'', ''--contains'', ''--first-match'', ''--exact-match'',
     ''--dirty'', ''--broken'']"

definition gitDescribeFlagsWithArgs :: "string list" where
  "gitDescribeFlagsWithArgs =
    [''--match'', ''--exclude'', ''--abbrev'', ''--candidates'']"

definition gitCatFileAllowedFlags :: "string list" where
  "gitCatFileAllowedFlags =
    [''-t'', ''-s'', ''-p'', ''-e'', ''--batch-check'', ''--allow-undetermined-type'']"

definition gitForEachRefFlagsWithArgs :: "string list" where
  "gitForEachRefFlagsWithArgs =
    [''--format'', ''--sort'', ''--count'', ''--contains'', ''--no-contains'', ''--merged'',
     ''--no-merged'', ''--points-at'']"

definition gitRevListAllowedFlags :: "string list" where
  "gitRevListAllowedFlags =
    [''--all'', ''--branches'', ''--tags'', ''--remotes'', ''--count'', ''--reverse'',
     ''--first-parent'', ''--ancestry-path'', ''--merges'', ''--no-merges'', ''--no-min-parents'',
     ''--no-max-parents'', ''--walk-reflogs'', ''--oneline'', ''--abbrev-commit'',
     ''--full-history'', ''--dense'', ''--sparse'', ''--source'', ''--graph'']"

definition gitRevListFlagsWithArgs :: "string list" where
  "gitRevListFlagsWithArgs =
    [''--since'', ''--after'', ''--until'', ''--before'', ''--max-count'', ''-n'', ''--author'',
     ''--committer'', ''--grep'', ''--min-parents'', ''--max-parents'', ''--skip'', ''--max-age'',
     ''--min-age'', ''--pretty'', ''--format'', ''--abbrev'']"

definition gitBlameAllowedFlags :: "string list" where
  "gitBlameAllowedFlags =
    [''--color'', ''--no-color'', ''--porcelain'', ''-p'', ''--line-porcelain'', ''--incremental'',
     ''--root'', ''--show-stats'', ''--show-name'', ''--show-number'', ''-n'', ''--show-email'',
     ''-e'', ''-f'', ''-w'', ''-M'', ''-C'', ''--score-debug'', ''-s'', ''-l'', ''-t'']"

definition gitBlameFlagsWithArgs :: "string list" where
  "gitBlameFlagsWithArgs =
    [''-L'', ''--date'', ''--ignore-rev'', ''--ignore-revs-file'', ''--abbrev'']"

definition gitShortlogAllowedFlags :: "string list" where
  "gitShortlogAllowedFlags =
    [''--all'', ''--branches'', ''--tags'', ''--remotes'', ''-s'', ''--summary'', ''-n'',
     ''--numbered'', ''-e'', ''--email'', ''-c'', ''--committer'', ''--no-merges'']"

definition gitShortlogFlagsWithArgs :: "string list" where
  "gitShortlogFlagsWithArgs =
    [''--since'', ''--after'', ''--until'', ''--before'', ''--group'', ''--format'', ''--author'']"

definition gitConfigGetAllowedFlags :: "string list" where
  "gitConfigGetAllowedFlags =
    [''--local'', ''--global'', ''--system'', ''--worktree'', ''--bool'', ''--int'',
     ''--bool-or-int'', ''--path'', ''--expiry-date'', ''-z'', ''--null'', ''--name-only'',
     ''--show-origin'', ''--show-scope'']"

definition gitConfigGetFlagsWithArgs :: "string list" where
  "gitConfigGetFlagsWithArgs =
    [''--default'', ''--type'']"

record gitConfigQuerySpec =
  MinPositionals :: nat
  MaxPositionals :: nat

definition gitConfigQueryActions :: "(string \<times> gitConfigQuerySpec) list" where
  "gitConfigQueryActions =
    [(''--get'', \<lparr>MinPositionals = 1, MaxPositionals = 1\<rparr>),
     (''--get-all'', \<lparr>MinPositionals = 1, MaxPositionals = 1\<rparr>),
     (''--get-color'', \<lparr>MinPositionals = 1, MaxPositionals = 2\<rparr>),
     (''--get-colorbool'', \<lparr>MinPositionals = 1, MaxPositionals = 2\<rparr>),
     (''--get-regexp'', \<lparr>MinPositionals = 1, MaxPositionals = 2\<rparr>),
     (''--get-urlmatch'', \<lparr>MinPositionals = 2, MaxPositionals = 2\<rparr>),
     (''--list'', \<lparr>MinPositionals = 0, MaxPositionals = 0\<rparr>),
     (''-l'', \<lparr>MinPositionals = 0, MaxPositionals = 0\<rparr>)]"

end
