(* ===== verification/Utf8.thy ===== *)
theory Utf8
  imports Prelude
begin

text \<open>
  \<open>for _, r := range s\<close> over a Go string: the code points of its UTF-8 decoding, U+FFFD for each
  byte that starts no valid encoding. Used where the source asks for Unicode properties of a
  rune; elsewhere it compares with ASCII only and the byte models it.
\<close>

definition cont :: "nat \<Rightarrow> nat \<Rightarrow> char \<Rightarrow> bool" where
  "cont lo hi c = (lo \<le> byte c \<and> byte c \<le> hi)"

text \<open>\<open>utf8.DecodeRuneInString\<close>: the rune and its width. The bounds of the second byte
  exclude overlong forms, surrogates and values above U+10FFFF.\<close>

definition second_byte_bounds :: "nat \<Rightarrow> nat \<times> nat" where
  "second_byte_bounds n =
     (if n = 0xE0 then (0xA0, 0xBF) else if n = 0xED then (0x80, 0x9F)
      else if n = 0xF0 then (0x90, 0xBF) else if n = 0xF4 then (0x80, 0x8F) else (0x80, 0xBF))"

definition decode_rune :: "string \<Rightarrow> nat \<times> nat" where
  "decode_rune s =
     (case s of [] \<Rightarrow> (0xFFFD, 0)
      | a # s1 \<Rightarrow>
        let n = byte a; (lo, hi) = second_byte_bounds n in
        if n < 0x80 then (n, 1)
        else if n < 0xC2 \<or> 0xF4 < n then (0xFFFD, 1)
        else (case s1 of [] \<Rightarrow> (0xFFFD, 1)
          | b # s2 \<Rightarrow>
            if \<not> cont lo hi b then (0xFFFD, 1)
            else if n < 0xE0 then ((n - 0xC0) * 64 + (byte b - 0x80), 2)
            else (case s2 of [] \<Rightarrow> (0xFFFD, 1)
              | c # s3 \<Rightarrow>
                if \<not> cont 0x80 0xBF c then (0xFFFD, 1)
                else if n < 0xF0 then
                  ((n - 0xE0) * 4096 + (byte b - 0x80) * 64 + (byte c - 0x80), 3)
                else (case s3 of [] \<Rightarrow> (0xFFFD, 1)
                  | d # _ \<Rightarrow>
                    if \<not> cont 0x80 0xBF d then (0xFFFD, 1)
                    else ((n - 0xF0) * 262144 + (byte b - 0x80) * 4096 + (byte c - 0x80) * 64
                           + (byte d - 0x80), 4)))))"

lemma decode_rune_width: "s \<noteq> [] \<Longrightarrow> 1 \<le> snd (decode_rune s)"
  by (auto simp: decode_rune_def Let_def split: list.split prod.split)

lemma drop_rune_shorter: "s \<noteq> [] \<Longrightarrow> length s - snd (decode_rune s) < length s"
  using decode_rune_width [of s] by (cases s) auto

function runes :: "string \<Rightarrow> nat list" where
  "runes s = (if s = [] then [] else
                fst (decode_rune s) # runes (drop (snd (decode_rune s)) s))"
  by pat_completeness auto
termination
  by (relation "measure length") (simp_all add: drop_rune_shorter)

declare runes.simps [simp del]

text \<open>\<open>utf8.Valid\<close>: no byte decodes to the error rune of width 1.\<close>

function utf8_Valid :: "string \<Rightarrow> bool" where
  "utf8_Valid s =
     (if s = [] then True
      else if decode_rune s = (0xFFFD, 1) then False
      else utf8_Valid (drop (snd (decode_rune s)) s))"
  by pat_completeness auto
termination by (relation "measure length") (simp_all add: drop_rune_shorter)

declare utf8_Valid.simps [simp del]

lemma decode_ascii: "is_ascii c \<Longrightarrow> decode_rune (c # cs) = (byte c, 1)"
  by (simp add: decode_rune_def is_ascii_def Let_def split: prod.split)

lemma utf8_Valid_code [code]:
  "utf8_Valid [] = True"
  "utf8_Valid (c # cs) =
     (if is_ascii c then utf8_Valid cs
      else if decode_rune (c # cs) = (0xFFFD, 1) then False
      else utf8_Valid (drop (snd (decode_rune (c # cs))) (c # cs)))"
  by (auto simp: utf8_Valid.simps[of "c # cs"] utf8_Valid.simps[of "[]"] decode_ascii is_ascii_def)

section \<open>Runes as texts\<close>

text \<open>What \<open>WriteRune\<close> writes of each rune: its bytes, or U+FFFD for a byte that is not valid.\<close>

definition rune_string :: "string \<Rightarrow> string" where
  "rune_string s =
     (if decode_rune s = (0xFFFD, 1) then [CHR 0xEF, CHR 0xBF, CHR 0xBD] else take (snd (decode_rune s)) s)"

function rune_strings :: "string \<Rightarrow> string list" where
  "rune_strings s =
     (if s = [] then [] else rune_string s # rune_strings (drop (snd (decode_rune s)) s))"
  by pat_completeness auto
termination by (relation "measure length") (simp_all add: drop_rune_shorter)

declare rune_strings.simps [simp del]

lemma rune_strings_code [code]:
  "rune_strings [] = []"
  "rune_strings (c # cs) =
     (if is_ascii c then [c] # rune_strings cs
      else rune_string (c # cs) # rune_strings (drop (snd (decode_rune (c # cs))) (c # cs)))"
  by (auto simp: rune_strings.simps[of "c # cs"] rune_strings.simps[of "[]"] rune_string_def decode_ascii is_ascii_def)

text \<open>\<open>unicode.IsSpace\<close> and \<open>unicode.IsDigit\<close> (category Nd of Unicode 15.0).\<close>

definition IsSpace :: "nat \<Rightarrow> bool" where
  "IsSpace r =
     (9 \<le> r \<and> r \<le> 13 \<or> r = 0x20 \<or> r = 0x85 \<or> r = 0xA0 \<or> r = 0x1680
      \<or> 0x2000 \<le> r \<and> r \<le> 0x200A \<or> r = 0x2028 \<or> r = 0x2029 \<or> r = 0x202F \<or> r = 0x205F \<or> r = 0x3000)"

definition digit_ranges :: "(nat \<times> nat) list" where
  "digit_ranges =
     [(0x30, 0x39), (0x660, 0x669), (0x6F0, 0x6F9), (0x7C0, 0x7C9), (0x966, 0x96F), (0x9E6,
      0x9EF), (0xA66, 0xA6F), (0xAE6, 0xAEF), (0xB66, 0xB6F), (0xBE6, 0xBEF), (0xC66,
      0xC6F), (0xCE6, 0xCEF), (0xD66, 0xD6F), (0xDE6, 0xDEF), (0xE50, 0xE59), (0xED0,
      0xED9), (0xF20, 0xF29), (0x1040, 0x1049), (0x1090, 0x1099), (0x17E0, 0x17E9), (0x1810,
      0x1819), (0x1946, 0x194F), (0x19D0, 0x19D9), (0x1A80, 0x1A89), (0x1A90, 0x1A99),
      (0x1B50, 0x1B59), (0x1BB0, 0x1BB9), (0x1C40, 0x1C49), (0x1C50, 0x1C59), (0xA620,
      0xA629), (0xA8D0, 0xA8D9), (0xA900, 0xA909), (0xA9D0, 0xA9D9), (0xA9F0, 0xA9F9),
      (0xAA50, 0xAA59), (0xABF0, 0xABF9), (0xFF10, 0xFF19), (0x104A0, 0x104A9), (0x10D30,
      0x10D39), (0x11066, 0x1106F), (0x110F0, 0x110F9), (0x11136, 0x1113F), (0x111D0,
      0x111D9), (0x112F0, 0x112F9), (0x11450, 0x11459), (0x114D0, 0x114D9), (0x11650,
      0x11659), (0x116C0, 0x116C9), (0x11730, 0x11739), (0x118E0, 0x118E9), (0x11950,
      0x11959), (0x11C50, 0x11C59), (0x11D50, 0x11D59), (0x11DA0, 0x11DA9), (0x11F50,
      0x11F59), (0x16A60, 0x16A69), (0x16AC0, 0x16AC9), (0x16B50, 0x16B59), (0x1D7CE,
      0x1D7FF), (0x1E140, 0x1E149), (0x1E2F0, 0x1E2F9), (0x1E4F0, 0x1E4F9), (0x1E950,
      0x1E959), (0x1FBF0, 0x1FBF9)]"

definition IsDigit :: "nat \<Rightarrow> bool" where
  "IsDigit r =
     (if r < 0x80 then 0x30 \<le> r \<and> r \<le> 0x39
      else list_ex (\<lambda>(lo, hi). lo \<le> r \<and> r \<le> hi) digit_ranges)"

end
