(* ===== verification/ReadOnly.thy ===== *)
theory ReadOnly
  imports Destructive FlagTables Utf8
begin

text \<open>
  \<open>IsReadOnlyCommand\<close> (\<open>internal/tools/bash/tools.go\<close>): the allow list of commands, each with
  its own argument check. An argument loop is an \<open>args_loop\<close> whose step function is the body
  of the source's loop, branch by branch; \<open>Return False\<close> is \<open>return false\<close>, \<open>Continue\<close> is
  \<open>continue\<close> with the number of words that \<open>i++\<close> inside the body skips.
\<close>

section \<open>basename, dirname, date\<close>

definition readOnlyBasename_step ::
  "nat \<times> bool \<times> bool \<Rightarrow> string \<Rightarrow> string list \<Rightarrow> (nat \<times> bool \<times> bool, bool) iter" where
  "readOnlyBasename_step = (\<lambda>(positionals, allowMultiple, stopFlags) arg rest.
     if \<not> stopFlags \<and> arg = ''--'' then Continue (positionals, allowMultiple, True) 0
     else if \<not> stopFlags \<and> HasPrefix arg ''-'' then
       (if arg = ''-a'' \<or> arg = ''--multiple'' then Continue (positionals, True, stopFlags) 0
        else if arg = ''-z'' \<or> arg = ''--zero'' then Continue (positionals, allowMultiple, stopFlags) 0
        else if arg = ''-s'' \<or> arg = ''--suffix'' then
          (case rest of [] \<Rightarrow> Return False
           | v # _ \<Rightarrow> if \<not> safeRelativeShellPathArg v then Return False
                     else Continue (positionals, allowMultiple, stopFlags) 1)
        else if HasPrefix arg ''-s'' \<and> length arg > 2 then
          (if \<not> safeRelativeShellPathArg (drop 2 arg) then Return False
           else Continue (positionals, allowMultiple, stopFlags) 0)
        else if HasPrefix arg ''--suffix='' then
          (if \<not> safeRelativeShellPathArg (TrimPrefix arg ''--suffix='') then Return False
           else Continue (positionals, allowMultiple, stopFlags) 0)
        else Return False)
     else if \<not> safeRelativeShellPathArg arg then Return False
     else Continue (positionals + 1, allowMultiple, stopFlags) 0)"

definition readOnlyBasename :: "string list \<Rightarrow> bool" where
  "readOnlyBasename args = args_loop readOnlyBasename_step
     (\<lambda>(positionals, allowMultiple, stopFlags).
        if allowMultiple then positionals > 0 else positionals = 1 \<or> positionals = 2)
     (0, False, False) args"

definition readOnlyDirname_step :: "nat \<times> bool \<Rightarrow> string \<Rightarrow> string list \<Rightarrow> (nat \<times> bool, bool) iter" where
  "readOnlyDirname_step = (\<lambda>(positionals, stopFlags) arg rest.
     if \<not> stopFlags \<and> arg = ''--'' then Continue (positionals, True) 0
     else if \<not> stopFlags \<and> HasPrefix arg ''-'' then
       (if arg = ''-z'' \<or> arg = ''--zero'' then Continue (positionals, stopFlags) 0 else Return False)
     else if \<not> safeRelativeShellPathArg arg then Return False
     else Continue (positionals + 1, stopFlags) 0)"

definition readOnlyDirname :: "string list \<Rightarrow> bool" where
  "readOnlyDirname args = args_loop readOnlyDirname_step (\<lambda>(positionals, _). positionals > 0) (0, False) args"

definition safeDateValue :: "string \<Rightarrow> bool" where
  "safeDateValue value0 =
     (let value = Trim (TrimSpace value0) quote_chars
      in value \<noteq> [] \<and> \<not> ContainsAny value
           [CHR ''$'', btick, nul, CHR ''>'', CHR ''<'', CHR ''|'', CHR '';'', CHR ''&'', nl, cr])"

definition safeDateFormat :: "string \<Rightarrow> bool" where
  "safeDateFormat value0 =
     (let value = Trim (TrimSpace value0) quote_chars
      in HasPrefix value ''+'' \<and> safeDateValue (drop 1 value))"

definition safeOptionalDatePrecision :: "string \<Rightarrow> string \<Rightarrow> bool" where
  "safeOptionalDatePrecision flag name =
     (if flag = name then True
      else HasPrefix flag (name @ ''='') \<and> safeDateValue (TrimPrefix flag (name @ ''='')))"

definition safeDateDisplayFlag :: "string \<Rightarrow> bool" where
  "safeDateDisplayFlag flag =
     (if flag = ''-I'' then True
      else if HasPrefix flag ''-I'' then safeDateValue (TrimPrefix flag ''-I'')
      else if HasPrefix flag ''--iso-8601'' then safeOptionalDatePrecision flag ''--iso-8601''
      else if HasPrefix flag ''--rfc-3339'' then safeOptionalDatePrecision flag ''--rfc-3339''
      else False)"

definition readOnlyDate_step :: "unit \<Rightarrow> string \<Rightarrow> string list \<Rightarrow> (unit, bool) iter" where
  "readOnlyDate_step u arg rest =
     (if arg = ''--'' then Return (list_all safeDateFormat rest)
      else if arg \<in> {''-u'', ''--utc'', ''--universal'', ''-R'', ''--rfc-email'', ''--debug''} then Continue () 0
      else if arg = ''-s'' \<or> arg = ''--set'' \<or> HasPrefix arg ''--set='' then Return False
      else if arg = ''-d'' \<or> arg = ''--date'' then
        (case rest of [] \<Rightarrow> Return False
         | v # _ \<Rightarrow> if \<not> safeDateValue v then Return False else Continue () 1)
      else if HasPrefix arg ''-d'' \<and> length arg > 2 then
        (if \<not> safeDateValue (drop 2 arg) then Return False else Continue () 0)
      else if HasPrefix arg ''--date='' then
        (if \<not> safeDateValue (TrimPrefix arg ''--date='') then Return False else Continue () 0)
      else if arg \<in> {''-r'', ''--reference'', ''-f'', ''--file''} then
        (case rest of [] \<Rightarrow> Return False
         | v # _ \<Rightarrow> if \<not> safeRelativeShellPathArg v then Return False else Continue () 1)
      else if HasPrefix arg ''--reference='' then
        (if \<not> safeRelativeShellPathArg (TrimPrefix arg ''--reference='') then Return False else Continue () 0)
      else if HasPrefix arg ''--file='' then
        (if \<not> safeRelativeShellPathArg (TrimPrefix arg ''--file='') then Return False else Continue () 0)
      else if HasPrefix arg ''-'' then
        (if \<not> safeDateDisplayFlag arg then Return False else Continue () 0)
      else if \<not> safeDateFormat arg then Return False
      else Continue () 0)"

definition readOnlyDate :: "string list \<Rightarrow> bool" where
  "readOnlyDate args = args_loop readOnlyDate_step (\<lambda>_. True) () args"

section \<open>Path commands\<close>

text \<open>\<open>Some (value, consumesNext)\<close> is \<open>ok = true\<close>.\<close>

definition pathCommandPathFlagValue :: "string \<Rightarrow> string \<Rightarrow> (string \<times> bool) option" where
  "pathCommandPathFlagValue command word =
     (if command \<notin> {''grep'', ''egrep'', ''fgrep'', ''rg''} then None
      else if word = ''-f'' \<or> word = ''--file'' then Some ([], True)
      else if HasPrefix word ''-f'' \<and> length word > 2 then Some (drop 2 word, False)
      else if HasPrefix word ''--file='' then Some (TrimPrefix word ''--file='', False)
      else None)"

definition unsafeReadOnlyPathWord :: "string \<Rightarrow> string \<Rightarrow> bool" where
  "unsafeReadOnlyPathWord command word =
     (if command \<noteq> ''find'' then False
      else word \<in> {''-delete'', ''-exec'', ''-execdir'', ''-ok'', ''-okdir'', ''-fprint'', ''-fprint0'',
                   ''-fprintf'', ''-fls'', ''-files0-from''})"

definition isChecksumCommand :: "string \<Rightarrow> bool" where
  "isChecksumCommand command =
     (command \<in> {''md5sum'', ''sha1sum'', ''sha224sum'', ''sha256sum'', ''sha384sum'', ''sha512sum'',
                 ''b2sum'', ''shasum'', ''cksum''})"

definition checksumCheckFlag :: "string \<Rightarrow> bool" where
  "checksumCheckFlag word =
     (if word = ''--check'' \<or> HasPrefix word ''--check='' then True
      else HasPrefix word ''-'' \<and> \<not> HasPrefix word ''--'' \<and> Contains (TrimLeft word ''-'') ''c'')"

definition unsafeReadOnlyPathFlag :: "string \<Rightarrow> string \<Rightarrow> bool" where
  "unsafeReadOnlyPathFlag command word =
     (if command = ''file'' \<and> (word = ''-C'' \<or> word = ''--compile'' \<or> HasPrefix word ''--compile='') then True
      else if command = ''file'' \<and> (word = ''-f'' \<or> HasPrefix word ''-f'' \<or> word = ''--files-from''
                                  \<or> HasPrefix word ''--files-from='') then True
      else if command = ''rg'' \<and> (word = ''--pre'' \<or> HasPrefix word ''--pre='') then True
      else if command = ''diff'' \<and> (word = ''--output'' \<or> HasPrefix word ''--output='') then True
      else if isChecksumCommand command \<and> checksumCheckFlag word then True
      else if (command = ''du'' \<or> command = ''wc'') \<and> (word = ''--files0-from'' \<or> HasPrefix word ''--files0-from='') then True
      else if command = ''tail'' \<and> (word = ''--follow'' \<or> HasPrefix word ''--follow='') then True
      else if command = ''tail'' \<and> HasPrefix word ''-'' \<and> \<not> HasPrefix word ''--''
                \<and> ContainsAny (TrimLeft word ''-'') ''fF'' then True
      else False)"

definition readOnlyPathCommand_step ::
  "string \<Rightarrow> unit \<Rightarrow> string \<Rightarrow> string list \<Rightarrow> (unit, bool) iter" where
  "readOnlyPathCommand_step command u word rest =
     (if word = ''--'' then Continue () 0
      else if unsafeReadOnlyPathWord command word then Return False
      else (case pathCommandPathFlagValue command word of
        Some (value, consumesNext) \<Rightarrow>
          if consumesNext then
            (case rest of [] \<Rightarrow> Return False
             | v # _ \<Rightarrow> if \<not> safeRelativeShellPathArg v then Return False else Continue () 1)
          else if \<not> safeRelativeShellPathArg value then Return False
          else Continue () 0
      | None \<Rightarrow>
          if HasPrefix word ''-'' then
            (if unsafeReadOnlyPathFlag command word then Return False
             else (case Cut word (CHR ''='') of
                     Some (name, value) \<Rightarrow>
                       if name = [] \<or> \<not> safeRelativeShellPathArg value then Return False else Continue () 0
                   | None \<Rightarrow> Continue () 0))
          else if \<not> safeRelativeShellPathArg word then Return False
          else Continue () 0))"

definition readOnlyPathCommand :: "string list \<Rightarrow> bool" where
  "readOnlyPathCommand words =
     args_loop (readOnlyPathCommand_step (filepathBase (hd words))) (\<lambda>_. True) () (drop 1 words)"

section \<open>sort\<close>

definition safeSortLongFlag :: "string \<Rightarrow> bool" where
  "safeSortLongFlag flag =
     (if Contains flag ''='' then False
      else flag \<in> {''--ignore-leading-blanks'', ''--dictionary-order'', ''--ignore-case'',
                   ''--general-numeric-sort'', ''--human-numeric-sort'', ''--month-sort'',
                   ''--numeric-sort'', ''--random-sort'', ''--reverse'', ''--version-sort'',
                   ''--unique'', ''--zero-terminated'', ''--check''})"

definition safeSortShortFlags :: "string \<Rightarrow> bool" where
  "safeSortShortFlags flags =
     (if flags = [] \<or> hd flags \<noteq> CHR ''-'' \<or> flags = ''-'' then False
      else list_all (\<lambda>r. r \<in> set ''bcCdfghMnRruVz'') (drop 1 flags))"

definition readOnlySort_step :: "unit \<Rightarrow> string \<Rightarrow> string list \<Rightarrow> (unit, bool) iter" where
  "readOnlySort_step u arg rest =
     (if arg = ''--'' then Return (list_all safeRelativeShellPathArg rest)
      else if HasPrefix arg ''--'' then (if \<not> safeSortLongFlag arg then Return False else Continue () 0)
      else if HasPrefix arg ''-'' \<and> arg \<noteq> ''-'' then
        (if \<not> safeSortShortFlags arg then Return False else Continue () 0)
      else if \<not> safeRelativeShellPathArg arg then Return False
      else Continue () 0)"

definition readOnlySort :: "string list \<Rightarrow> bool" where
  "readOnlySort args = args_loop readOnlySort_step (\<lambda>_. True) () args"

section \<open>awk\<close>

text \<open>\<open>unicode.IsSpace(rune(b))\<close> of a single byte \<open>b\<close>: the Latin-1 spaces.\<close>

definition latin1_space :: "char \<Rightarrow> bool" where
  "latin1_space c = IsSpace (byte c)"

definition safeAwkValue :: "string \<Rightarrow> bool" where
  "safeAwkValue value0 =
     (let value = Trim (TrimSpace value0) quote_chars
      in value \<noteq> [] \<and> \<not> ContainsAny value
           [CHR ''$'', btick, bslash, nul, CHR ''>'', CHR ''<'', CHR ''|'', CHR '';'', CHR ''&'', nl, cr])"

definition safeAwkAssignment :: "string \<Rightarrow> bool" where
  "safeAwkAssignment value =
     (case Cut value (CHR ''='') of None \<Rightarrow> False
      | Some (name, raw) \<Rightarrow> isShellIdentifier name \<and> safeAwkValue raw)"

definition safeAwkPrintTerm :: "string \<Rightarrow> bool" where
  "safeAwkPrintTerm term0 =
     (let term = TrimSpace term0 in
      if term = [] then False
      else if HasPrefix term ''$'' then isShellUnsignedInteger (drop 1 term)
      else if isShellUnsignedInteger term \<or> isShellIdentifier term then True
      else if HasPrefix term [dquote] \<and> HasSuffix term [dquote] then safeAwkValue (Trim term [dquote])
      else False)"

definition safeAwkScript :: "string \<Rightarrow> bool" where
  "safeAwkScript script0 =
     (let script = Trim (TrimSpace script0) quote_chars in
      if script = [] \<or> ContainsAny script
           [btick, nul, bslash, CHR ''>'', CHR ''<'', CHR ''|'', CHR '';'', CHR ''&'', nl, cr] then False
      else if \<not> HasPrefix script ''{'' \<or> \<not> HasSuffix script ''}'' then False
      else let body = TrimSpace (TrimSuffix (TrimPrefix script ''{'') ''}'') in
        if body \<noteq> ''print'' \<and> (length body \<le> 5 \<or> \<not> HasPrefix body ''print'' \<or> \<not> latin1_space (body ! 5)) then False
        else let body = TrimSpace (TrimPrefix body ''print'') in
          if body = [] then True else list_all safeAwkPrintTerm (Split body (CHR '','')))"

definition readOnlyAwk_step :: "bool \<Rightarrow> string \<Rightarrow> string list \<Rightarrow> (bool, bool) iter" where
  "readOnlyAwk_step seenScript arg rest =
     (if arg = ''--'' then
        Return (if \<not> seenScript
                then (case rest of [] \<Rightarrow> False
                      | script # paths \<Rightarrow> safeAwkScript script \<and> list_all safeRelativeShellPathArg paths)
                else list_all safeRelativeShellPathArg rest)
      else if arg = ''-F'' \<or> arg = ''--field-separator'' then
        (case rest of [] \<Rightarrow> Return False
         | v # _ \<Rightarrow> if \<not> safeAwkValue v then Return False else Continue seenScript 1)
      else if HasPrefix arg ''-F'' \<and> length arg > 2 then
        (if \<not> safeAwkValue (drop 2 arg) then Return False else Continue seenScript 0)
      else if HasPrefix arg ''--field-separator='' then
        (if \<not> safeAwkValue (TrimPrefix arg ''--field-separator='') then Return False else Continue seenScript 0)
      else if arg = ''-v'' then
        (case rest of [] \<Rightarrow> Return False
         | v # _ \<Rightarrow> if \<not> safeAwkAssignment v then Return False else Continue seenScript 1)
      else if HasPrefix arg ''-v'' \<and> length arg > 2 then
        (if \<not> safeAwkAssignment (drop 2 arg) then Return False else Continue seenScript 0)
      else if arg = ''-f'' \<or> arg = ''--file'' \<or> HasPrefix arg ''-f'' \<or> HasPrefix arg ''--file='' then Return False
      else if HasPrefix arg ''-'' then Return False
      else if \<not> seenScript then
        (if \<not> safeAwkScript arg then Return False else Continue True 0)
      else if \<not> safeRelativeShellPathArg arg then Return False
      else Continue seenScript 0)"

definition readOnlyAwk :: "string list \<Rightarrow> bool" where
  "readOnlyAwk args = args_loop readOnlyAwk_step (\<lambda>seenScript. seenScript) False args"

section \<open>sed\<close>

text \<open>
  The first loop of \<open>safeSedSimpleCommand\<close> finds the last rune that is no space; \<open>command\<close> is
  trimmed, so that is its last rune, and when it is one of the four ASCII letters \<open>lastIndex\<close>
  is the index of the last byte.
\<close>

definition safeSedSimpleCommand :: "string \<Rightarrow> bool" where
  "safeSedSimpleCommand command0 =
     (let command = TrimSpace command0 in
      if command = [] then False
      else if last command \<notin> set ''pdq='' then False
      else list_all (\<lambda>r. IsDigit r \<or> IsSpace r \<or> r \<in> set (map byte '',$+-~''))
             (runes (TrimSpace (butlast command))))"

definition safeSedScript :: "string \<Rightarrow> bool" where
  "safeSedScript script0 =
     (let script = Trim (TrimSpace script0) quote_chars in
      if script = [] \<or> ContainsAny script [btick, nul, bslash] then False
      else let commands = FieldsFunc script (\<lambda>r. r = CHR '';'' \<or> r = nl \<or> r = cr) in
        if commands = [] then False else list_all safeSedSimpleCommand commands)"

definition readOnlySed_step :: "bool \<Rightarrow> string \<Rightarrow> string list \<Rightarrow> (bool, bool) iter" where
  "readOnlySed_step seenScript arg rest =
     (if arg = ''--'' then
        Return (if \<not> seenScript
                then (case rest of [] \<Rightarrow> False
                      | script # paths \<Rightarrow> safeSedScript script \<and> list_all safeRelativeShellPathArg paths)
                else list_all safeRelativeShellPathArg rest)
      else if arg \<in> {''-n'', ''--quiet'', ''--silent'', ''-E'', ''-r'', ''-u'', ''--unbuffered'', ''-s'', ''--separate''} then
        Continue seenScript 0
      else if arg = ''-i'' \<or> HasPrefix arg ''-i'' \<or> arg = ''--in-place'' \<or> HasPrefix arg ''--in-place='' then Return False
      else if arg = ''-f'' \<or> arg = ''--file'' \<or> HasPrefix arg ''-f'' \<or> HasPrefix arg ''--file='' then Return False
      else if arg = ''-e'' \<or> arg = ''--expression'' then
        (case rest of [] \<Rightarrow> Return False
         | v # _ \<Rightarrow> if \<not> safeSedScript v then Return False else Continue True 1)
      else if HasPrefix arg ''-e'' \<and> length arg > 2 then
        (if \<not> safeSedScript (drop 2 arg) then Return False else Continue True 0)
      else if HasPrefix arg ''--expression='' then
        (if \<not> safeSedScript (TrimPrefix arg ''--expression='') then Return False else Continue True 0)
      else if HasPrefix arg ''-'' then Return False
      else if \<not> seenScript then
        (if \<not> safeSedScript arg then Return False else Continue True 0)
      else if \<not> safeRelativeShellPathArg arg then Return False
      else Continue seenScript 0)"

definition readOnlySed :: "string list \<Rightarrow> bool" where
  "readOnlySed args = args_loop readOnlySed_step (\<lambda>seenScript. seenScript) False args"

section \<open>env and go\<close>

definition readOnlyEnv_step :: "unit \<Rightarrow> string \<Rightarrow> string list \<Rightarrow> (unit, bool) iter" where
  "readOnlyEnv_step u arg rest =
     (if isSafeEnvAssignment arg then Continue () 0
      else if arg = ''-i'' \<or> arg = ''-0'' \<or> arg = ''-v'' then Continue () 0
      else if arg = ''-u'' \<and> rest \<noteq> [] \<and> isShellIdentifier (hd rest) then Continue () 1
      else Return False)"

definition readOnlyEnv :: "string list \<Rightarrow> bool" where
  "readOnlyEnv words = args_loop readOnlyEnv_step (\<lambda>_. True) () (drop 1 words)"

definition safeGoListModValue :: "string \<Rightarrow> bool" where
  "safeGoListModValue value0 =
     (let value = Trim (TrimSpace value0) quote_chars in value = ''readonly'' \<or> value = ''vendor'')"

definition safeGoListValue :: "string \<Rightarrow> bool" where
  "safeGoListValue value0 =
     (let value = Trim (TrimSpace value0) quote_chars
      in value \<noteq> [] \<and> \<not> ContainsAny value [CHR ''$'', btick, nul])"

definition safeGoListFlagValue :: "string \<Rightarrow> string \<Rightarrow> bool" where
  "safeGoListFlagValue name value =
     (if name = ''-mod'' then safeGoListModValue value
      else if name = ''-f'' \<or> name = ''-tags'' then safeGoListValue value
      else if name = ''-json'' then safeGoListValue value
      else False)"

definition readOnlyGoList_step :: "unit \<Rightarrow> string \<Rightarrow> string list \<Rightarrow> (unit, bool) iter" where
  "readOnlyGoList_step u arg rest =
     (if arg = ''--'' then Return (list_all safeRelativeShellPathArg rest)
      else if HasPrefix arg ''-'' then
        (case Cut arg (CHR ''='') of
           Some (name, value) \<Rightarrow> if \<not> safeGoListFlagValue name value then Return False else Continue () 0
         | None \<Rightarrow>
            if arg = ''-mod'' then
              (case rest of [] \<Rightarrow> Return False
               | v # _ \<Rightarrow> if \<not> safeGoListModValue v then Return False else Continue () 1)
            else if arg \<in> set goListFlagsWithArgs then
              (case rest of [] \<Rightarrow> Return False
               | v # _ \<Rightarrow> if \<not> safeGoListValue v then Return False else Continue () 1)
            else if arg \<notin> set goListAllowedFlags then Return False
            else Continue () 0)
      else if \<not> safeRelativeShellPathArg arg then Return False
      else Continue () 0)"

definition readOnlyGoList :: "string list \<Rightarrow> bool" where
  "readOnlyGoList args = args_loop readOnlyGoList_step (\<lambda>_. True) () args"

definition readOnlyGo :: "string list \<Rightarrow> bool" where
  "readOnlyGo words =
     (if length words < 2 then False
      else if words ! 1 = ''list'' then readOnlyGoList (drop 2 words)
      else False)"

end
