(* ===== verification/GitReadOnly.thy ===== *)
theory GitReadOnly
  imports ReadOnly
begin

text \<open>
  The read-only part of \<open>git\<close> in \<open>internal/tools/bash/tools.go\<close>: the three generic argument
  checks that take flag tables (\<open>argsAreAllowedFlagsOnly\<close>, \<open>argsAllowPositionals\<close>,
  \<open>argsAllowListModePositionals\<close>), and \<open>readOnlyGit\<close> with its subcommands.
\<close>

section \<open>Generic argument checks\<close>

definition argsAreAllowedFlagsOnly_step ::
  "string list \<Rightarrow> string list \<Rightarrow> unit \<Rightarrow> string \<Rightarrow> string list \<Rightarrow> (unit, bool) iter" where
  "argsAreAllowedFlagsOnly_step allowedFlags flagsWithArgs u arg rest =
     (if arg = ''--'' then Return (rest = [])
      else if \<not> HasPrefix arg ''-'' then Return False
      else if HasPrefix arg ''--'' \<and> Contains arg ''='' then
        (if flag_name arg \<notin> set flagsWithArgs then Return False else Continue () 0)
      else if arg \<in> set flagsWithArgs \<and> rest \<noteq> [] then Continue () 1
      else if arg \<notin> set allowedFlags then Return False
      else Continue () 0)"

definition argsAreAllowedFlagsOnly :: "string list \<Rightarrow> string list \<Rightarrow> string list \<Rightarrow> bool" where
  "argsAreAllowedFlagsOnly args allowedFlags flagsWithArgs =
     args_loop (argsAreAllowedFlagsOnly_step allowedFlags flagsWithArgs) (\<lambda>_. True) () args"

text \<open>\<open>maxPositionals\<close> is an \<open>int\<close>; a negative one is no bound.\<close>

definition argsAllowPositionals_step ::
  "string list \<Rightarrow> string list \<Rightarrow> int \<Rightarrow> int \<Rightarrow> string \<Rightarrow> string list \<Rightarrow> (int, bool) iter" where
  "argsAllowPositionals_step allowedFlags flagsWithArgs maxPositionals positionals arg rest =
     (if arg = ''--'' then
        (let positionals = positionals + int (length rest)
         in Return (maxPositionals < 0 \<or> positionals \<le> maxPositionals))
      else if HasPrefix arg ''--'' then
        (if Contains arg ''='' then
           (if flag_name arg \<notin> set flagsWithArgs then Return False else Continue positionals 0)
         else if arg \<in> set flagsWithArgs \<and> rest \<noteq> [] then Continue positionals 1
         else if arg \<notin> set allowedFlags then Return False
         else Continue positionals 0)
      else if HasPrefix arg ''-'' then
        (if arg \<in> set flagsWithArgs \<and> rest \<noteq> [] then Continue positionals 1
         else if arg \<notin> set allowedFlags then Return False
         else Continue positionals 0)
      else let positionals = positionals + 1 in
        if maxPositionals \<ge> 0 \<and> positionals > maxPositionals then Return False
        else Continue positionals 0)"

definition argsAllowPositionals :: "string list \<Rightarrow> string list \<Rightarrow> string list \<Rightarrow> int \<Rightarrow> bool" where
  "argsAllowPositionals args allowedFlags flagsWithArgs maxPositionals =
     args_loop (argsAllowPositionals_step allowedFlags flagsWithArgs maxPositionals) (\<lambda>_. True) 0 args"

text \<open>The loop's variables are \<open>seenListFlag\<close> and \<open>optionalArgOpen\<close>.\<close>

definition argsAllowListModePositionals_step ::
  "string list \<Rightarrow> string list \<Rightarrow> string list \<Rightarrow> bool \<times> bool \<Rightarrow> string \<Rightarrow> string list \<Rightarrow> (bool \<times> bool, bool) iter" where
  "argsAllowListModePositionals_step allowedFlags flagsWithArgs optionalArgFlags =
     (\<lambda>(seenListFlag, optionalArgOpen) arg rest.
      if arg = ''--'' then Return seenListFlag
      else if HasPrefix arg ''--'' then
        (if Contains arg ''='' then
           (let name = flag_name arg in
            if name \<in> set flagsWithArgs then Continue (seenListFlag, False) 0
            else if name \<in> set allowedFlags then Continue (seenListFlag \<or> name = ''--list'', False) 0
            else if name \<in> set optionalArgFlags then Continue (seenListFlag, False) 0
            else Return False)
         else if arg \<in> set flagsWithArgs \<and> rest \<noteq> [] then Continue (seenListFlag, False) 1
         else if arg \<in> set optionalArgFlags then Continue (seenListFlag, True) 0
         else if arg \<in> set allowedFlags then Continue (seenListFlag \<or> arg = ''--list'', False) 0
         else Return False)
      else if HasPrefix arg ''-'' then
        (if arg \<in> set flagsWithArgs \<and> rest \<noteq> [] then Continue (seenListFlag, False) 1
         else if arg \<in> set allowedFlags then Continue (seenListFlag \<or> arg = ''-l'', False) 0
         else Return False)
      else if seenListFlag \<or> optionalArgOpen then Continue (seenListFlag, False) 0
      else Return False)"

definition argsAllowListModePositionals ::
  "string list \<Rightarrow> string list \<Rightarrow> string list \<Rightarrow> string list \<Rightarrow> bool" where
  "argsAllowListModePositionals args allowedFlags flagsWithArgs optionalArgFlags =
     args_loop (argsAllowListModePositionals_step allowedFlags flagsWithArgs optionalArgFlags)
       (\<lambda>_. True) (False, False) args"

section \<open>Subcommands\<close>

definition readOnlyGitBranch :: "string list \<Rightarrow> bool" where
  "readOnlyGitBranch args =
     argsAllowListModePositionals args gitBranchAllowedFlags gitBranchFlagsWithArgs gitBranchOptionalArgFlags"

definition readOnlyGitTag :: "string list \<Rightarrow> bool" where
  "readOnlyGitTag args = argsAllowListModePositionals args gitTagAllowedFlags gitTagFlagsWithArgs []"

definition safeGitLsRemoteArg :: "string \<Rightarrow> bool" where
  "safeGitLsRemoteArg arg =
     (arg \<noteq> [] \<and> \<not> Contains arg ''://'' \<and> \<not> Contains arg ''@'' \<and> \<not> Contains arg '':'' \<and> \<not> Contains arg ''$'')"

definition readOnlyGitLsRemote_step :: "unit \<Rightarrow> string \<Rightarrow> string list \<Rightarrow> (unit, bool) iter" where
  "readOnlyGitLsRemote_step u arg rest =
     (if arg = ''--'' then Return (list_all safeGitLsRemoteArg rest)
      else if HasPrefix arg ''--'' then
        (if Contains arg ''='' then
           (if flag_name arg \<notin> set gitLsRemoteFlagsWithArgs then Return False else Continue () 0)
         else if arg \<in> set gitLsRemoteFlagsWithArgs \<and> rest \<noteq> [] then Continue () 1
         else if arg \<notin> set gitLsRemoteAllowedFlags then Return False
         else Continue () 0)
      else if HasPrefix arg ''-'' then
        (if arg \<notin> set gitLsRemoteAllowedFlags then Return False else Continue () 0)
      else if \<not> safeGitLsRemoteArg arg then Return False
      else Continue () 0)"

definition readOnlyGitLsRemote :: "string list \<Rightarrow> bool" where
  "readOnlyGitLsRemote args = args_loop readOnlyGitLsRemote_step (\<lambda>_. True) () args"

definition safeGitRemoteName :: "string \<Rightarrow> bool" where
  "safeGitRemoteName name =
     (if name = [] then False
      else list_all (\<lambda>r. is_lower r \<or> is_upper r \<or> is_digit r \<or> r = CHR ''_'' \<or> r = CHR ''-'') name)"

text \<open>The two loops of \<open>readOnlyGitRemoteShow\<close> and \<open>readOnlyGitRemoteGetURL\<close> differ in the
  flags they pass over.\<close>

definition remoteName_step :: "string list \<Rightarrow> nat \<Rightarrow> string \<Rightarrow> string list \<Rightarrow> (nat, bool) iter" where
  "remoteName_step flags positionals arg rest =
     (if arg \<in> set flags then Continue positionals 0
      else let positionals = positionals + 1 in
        if positionals > 1 \<or> \<not> safeGitRemoteName arg then Return False else Continue positionals 0)"

definition readOnlyGitRemoteShow :: "string list \<Rightarrow> bool" where
  "readOnlyGitRemoteShow args =
     args_loop (remoteName_step [''-n'']) (\<lambda>positionals. positionals = 1) 0 args"

definition readOnlyGitRemoteGetURL :: "string list \<Rightarrow> bool" where
  "readOnlyGitRemoteGetURL args =
     args_loop (remoteName_step [''--push'', ''--all'']) (\<lambda>positionals. positionals = 1) 0 args"

definition readOnlyGitRemote :: "string list \<Rightarrow> bool" where
  "readOnlyGitRemote args =
     (case args of [] \<Rightarrow> True
      | a # rest \<Rightarrow>
          if rest = [] \<and> (a = ''-v'' \<or> a = ''--verbose'') then True
          else if a = ''show'' then readOnlyGitRemoteShow rest
          else if a = ''get-url'' then readOnlyGitRemoteGetURL rest
          else False)"

definition readOnlyGitReflog :: "string list \<Rightarrow> bool" where
  "readOnlyGitReflog args =
     (case gitReflogFirstPositional args of None \<Rightarrow> True
      | Some first \<Rightarrow> first \<noteq> ''expire'' \<and> first \<noteq> ''delete'' \<and> first \<noteq> ''exists'')"

definition readOnlyGitStash :: "string list \<Rightarrow> bool" where
  "readOnlyGitStash args =
     (case args of [] \<Rightarrow> False
      | a # rest \<Rightarrow>
          if a = ''list'' then argsAreAllowedFlagsOnly rest gitStashListAllowedFlags gitStashListFlagsWithArgs
          else if a = ''show'' then argsAllowPositionals rest gitStashShowAllowedFlags gitStashShowFlagsWithArgs 1
          else False)"

definition readOnlyGitWorktree :: "string list \<Rightarrow> bool" where
  "readOnlyGitWorktree args =
     (if args = [] \<or> hd args \<noteq> ''list'' then False
      else argsAreAllowedFlagsOnly (tl args) gitWorktreeListAllowedFlags gitWorktreeListFlagsWithArgs)"

fun hasShellExpansion :: "string \<Rightarrow> bool" where
  "hasShellExpansion [] = False"
| "hasShellExpansion [c] = False"
| "hasShellExpansion (c # next # rest) =
     (if c = CHR ''$'' \<and> (next = CHR ''('' \<or> next = CHR ''{'' \<or> next = CHR ''_''
            \<or> is_upper next \<or> is_lower next \<or> is_digit next \<or> next \<in> set ''?!*@#-'')
      then True else hasShellExpansion (next # rest))"

definition safeGitConfigValue :: "string \<Rightarrow> bool" where
  "safeGitConfigValue value =
     (TrimSpace value \<noteq> [] \<and> \<not> HasPrefix value ''-'' \<and> \<not> ContainsAny value [btick, nul, nl, cr]
      \<and> \<not> hasShellExpansion value)"

text \<open>The loop's variables are \<open>action\<close> and the number of \<open>positionals\<close>, of which the code
  uses the length only.\<close>

definition readOnlyGitConfig_step ::
  "string \<times> nat \<Rightarrow> string \<Rightarrow> string list \<Rightarrow> (string \<times> nat, bool) iter" where
  "readOnlyGitConfig_step = (\<lambda>(action, positionals) arg rest.
     let query = (map_of gitConfigQueryActions arg \<noteq> None) in
     if arg = ''--'' then Return False
     else if HasPrefix arg ''--'' then
       (case Cut arg (CHR ''='') of
          Some (name, value) \<Rightarrow>
            if name \<in> set gitConfigGetFlagsWithArgs then
              (if \<not> safeGitConfigValue value then Return False else Continue (action, positionals) 0)
            else Return False
        | None \<Rightarrow>
            if query then (if action \<noteq> [] then Return False else Continue (arg, positionals) 0)
            else if arg \<in> set gitConfigGetFlagsWithArgs then
              (if rest = [] \<or> \<not> safeGitConfigValue (hd rest) then Return False
               else Continue (action, positionals) 1)
            else if arg \<in> set gitConfigGetAllowedFlags then Continue (action, positionals) 0
            else Return False)
     else if HasPrefix arg ''-'' then
       (if query then (if action \<noteq> [] then Return False else Continue (arg, positionals) 0)
        else if arg \<in> set gitConfigGetAllowedFlags then Continue (action, positionals) 0
        else Return False)
     else if action = [] \<or> \<not> safeGitConfigValue arg then Return False
     else Continue (action, positionals + 1) 0)"

definition readOnlyGitConfig :: "string list \<Rightarrow> bool" where
  "readOnlyGitConfig args =
     (if args = [] then False
      else args_loop readOnlyGitConfig_step
        (\<lambda>(action, positionals).
           case map_of gitConfigQueryActions action of None \<Rightarrow> False
           | Some spec \<Rightarrow> MinPositionals spec \<le> positionals \<and> positionals \<le> MaxPositionals spec)
        ([], 0) args)"

section \<open>\<open>readOnlyGit\<close>\<close>

definition readOnlyGit :: "string list \<Rightarrow> bool" where
  "readOnlyGit words =
     (if length words < 2 then False
      else let sub = words ! 1; args = drop 2 words in
        if sub = ''diff'' then argsAllowPositionals args gitDiffAllowedFlags gitDiffFlagsWithArgs (- 1)
        else if sub = ''log'' then argsAllowPositionals args gitLogAllowedFlags gitLogFlagsWithArgs (- 1)
        else if sub = ''show'' then argsAllowPositionals args gitShowAllowedFlags gitShowFlagsWithArgs (- 1)
        else if sub = ''status'' then argsAllowPositionals args gitStatusAllowedFlags gitStatusFlagsWithArgs (- 1)
        else if sub = ''ls-files'' then argsAllowPositionals args gitLsFilesAllowedFlags gitLsFilesFlagsWithArgs (- 1)
        else if sub = ''grep'' then argsAllowPositionals args gitGrepAllowedFlags gitGrepFlagsWithArgs (- 1)
        else if sub = ''rev-parse'' then argsAllowPositionals args gitRevParseAllowedFlags gitRevParseFlagsWithArgs (- 1)
        else if sub = ''ls-remote'' then readOnlyGitLsRemote args
        else if sub = ''branch'' then readOnlyGitBranch args
        else if sub = ''tag'' then readOnlyGitTag args
        else if sub = ''remote'' then readOnlyGitRemote args
        else if sub = ''reflog'' then readOnlyGitReflog args
        else if sub = ''stash'' then readOnlyGitStash args
        else if sub = ''worktree'' then readOnlyGitWorktree args
        else if sub = ''merge-base'' then argsAllowPositionals args gitMergeBaseAllowedFlags [] (- 1)
        else if sub = ''describe'' then argsAllowPositionals args gitDescribeAllowedFlags gitDescribeFlagsWithArgs (- 1)
        else if sub = ''cat-file'' then argsAllowPositionals args gitCatFileAllowedFlags [] 1
        else if sub = ''for-each-ref'' then argsAllowPositionals args [] gitForEachRefFlagsWithArgs (- 1)
        else if sub = ''rev-list'' then argsAllowPositionals args gitRevListAllowedFlags gitRevListFlagsWithArgs (- 1)
        else if sub = ''blame'' then argsAllowPositionals args gitBlameAllowedFlags gitBlameFlagsWithArgs (- 1)
        else if sub = ''shortlog'' then argsAllowPositionals args gitShortlogAllowedFlags gitShortlogFlagsWithArgs (- 1)
        else if sub = ''config'' then readOnlyGitConfig args
        else False)"

end
