(* ===== verification/BashSafety.thy ===== *)
theory BashSafety
  imports GitReadOnly
begin

text \<open>
  \<open>readOnlyWords\<close> and \<open>IsReadOnlyCommand\<close>, the classifier's entry points (\<open>IsDestructiveCommand\<close>
  is in \<open>Destructive\<close>), and the two text functions of the Bash tool that build on the scanner.
\<close>

definition pathCommands :: "string list" where
  "pathCommands =
     [''ls'', ''cat'', ''head'', ''tail'', ''wc'', ''grep'', ''egrep'', ''fgrep'', ''rg'', ''find'', ''stat'',
      ''file'', ''du'', ''df'', ''cut'', ''uniq'', ''diff'', ''cmp'', ''comm'', ''md5sum'', ''sha1sum'', ''sha224sum'',
      ''sha256sum'', ''sha384sum'', ''sha512sum'', ''b2sum'', ''shasum'', ''cksum'', ''sum'']"

definition plainReadOnlyCommands :: "string list" where
  "plainReadOnlyCommands =
     [''pwd'', ''printf'', ''echo'', ''whoami'', ''id'', ''uname'', ''printenv'', ''which'', ''type'']"

definition readOnlyWords :: "string list \<Rightarrow> bool" where
  "readOnlyWords words =
     (let words = stripSafeWrapperWords words in
      case words of [] \<Rightarrow> False
      | w # args \<Rightarrow>
        let cmd = filepathBase w in
        if cmd \<in> set pathCommands then readOnlyPathCommand words
        else if cmd = ''sort'' then readOnlySort args
        else if cmd = ''basename'' then readOnlyBasename args
        else if cmd = ''dirname'' then readOnlyDirname args
        else if cmd = ''sed'' then readOnlySed args
        else if cmd = ''awk'' \<or> cmd = ''gawk'' \<or> cmd = ''mawk'' \<or> cmd = ''nawk'' then readOnlyAwk args
        else if cmd = ''date'' then readOnlyDate args
        else if cmd \<in> set plainReadOnlyCommands then True
        else if cmd = ''env'' then readOnlyEnv words
        else if cmd = ''git'' then readOnlyGit words
        else if cmd = ''go'' then readOnlyGo words
        else False)"

definition IsReadOnlyCommand :: "string \<Rightarrow> bool" where
  "IsReadOnlyCommand command0 =
     (let command = TrimSpace (stripShellLineComments command0) in
      if command = [] \<or> \<not> shellSyntaxComplete command \<or> hasShellMutationSyntax command
         \<or> IsDestructiveCommand command then False
      else let segments = splitCommandSegments command in
        if segments = [] then False
        else list_all (\<lambda>segment. let words = shellWords segment in
               if words = [] then False else readOnlyWords words) segments)"

definition detectBlockedBashSleepPattern :: "string \<Rightarrow> string" where
  "detectBlockedBashSleepPattern command =
     (case splitCommandSegments command of [] \<Rightarrow> []
      | segment # others \<Rightarrow>
        (case shellWords segment of
           [w, n] \<Rightarrow>
             if w \<noteq> ''sleep'' \<or> \<not> isUnsignedInteger n then []
             else (case Atoi n of None \<Rightarrow> []
                   | Some seconds \<Rightarrow>
                       if seconds < 2 then []
                       else let rest = TrimSpace (Join others '' '') in
                         if rest \<noteq> [] then ''sleep '' @ dec seconds @ '' followed by: '' @ rest
                         else ''standalone sleep '' @ dec seconds)
         | _ \<Rightarrow> []))"

definition tailText :: "string \<Rightarrow> int \<Rightarrow> string" where
  "tailText text lines =
     (if lines \<le> 0 \<or> text = [] then text
      else let parts = Split (TrimRight text [nl]) nl in
        if int (length parts) \<le> lines then text
        else Join (drop (length parts - nat lines) parts) [nl])"

end
