(* ===== verification/ShellLaws.thy ===== *)
theory ShellLaws
  imports BashSafety
begin

text \<open>
  Laws of the byte scanners of \<open>ShellLex\<close>. \<open>quoting_after\<close> is the automaton every scanner
  runs; the laws say how each scanner acts on a concatenation, and that removing comments and
  outer blanks changes nothing that a later scan can see.
\<close>

section \<open>The quoting automaton\<close>

definition quote_step :: "quoting \<Rightarrow> char \<Rightarrow> quoting" where
  "quote_step q ch = (case quote_branch q ch of Some q' \<Rightarrow> q' | None \<Rightarrow> q)"

definition quoting_after :: "quoting \<Rightarrow> string \<Rightarrow> quoting" where
  "quoting_after q s = foldl quote_step q s"

lemma quoting_after_simps [simp]:
  "quoting_after q [] = q"
  "quoting_after q (c # s) = quoting_after (quote_step q c) s"
  "quoting_after q (s @ t) = quoting_after (quoting_after q s) t"
  by (simp_all add: quoting_after_def)

lemma quote_step_simps [simp]:
  "quote_branch q c = None \<Longrightarrow> quote_step q c = q"
  "quote_branch q c = Some q' \<Longrightarrow> quote_step q c = q'"
  by (simp_all add: quote_step_def)

lemma q0_simps [simp]: "inSingle q0 = False" "inDouble q0 = False" "escaped q0 = False"
  by (simp_all add: q0_def)

lemma q0_iff: "q = q0 \<longleftrightarrow> \<not> inSingle q \<and> \<not> inDouble q \<and> \<not> escaped q"
  by (cases q) (auto simp: q0_def)

definition quote_special :: "char \<Rightarrow> bool" where
  "quote_special c = (c = bslash \<or> c = squote \<or> c = dquote)"

lemma quote_branch_None: "quote_branch q c = None \<Longrightarrow> \<not> escaped q"
  by (simp add: quote_branch_def split: if_split_asm)

lemma quote_branch_plain: "\<not> quote_special c \<Longrightarrow> \<not> escaped q \<Longrightarrow> quote_branch q c = None"
  by (simp add: quote_branch_def quote_special_def)

lemma quote_branch_q0: "quote_branch q0 c = None \<longleftrightarrow> \<not> quote_special c"
  by (simp add: quote_branch_def quote_special_def)

lemma shellSyntaxComplete_iff: "shellSyntaxComplete s \<longleftrightarrow> quoting_after q0 s = q0"
proof -
  have "shellSyntaxComplete_loop q s \<longleftrightarrow> quoting_after q s = q0" for q
    by (induction s arbitrary: q) (auto simp: q0_iff quote_step_def split: option.split)
  then show ?thesis by (simp add: shellSyntaxComplete_def)
qed

section \<open>Blanks\<close>

text \<open>On text without vertical tab, form feed and non-ASCII bytes, \<open>TrimSpace\<close> removes the
  outer blanks, tabs and line ends, which the scanners know too.\<close>

definition blank :: "char \<Rightarrow> bool" where
  "blank c = (c = CHR '' '' \<or> c = tab \<or> c = nl \<or> c = cr)"

definition plain :: "char \<Rightarrow> bool" where
  "plain c = (is_ascii c \<and> c \<noteq> CHR 0x0B \<and> c \<noteq> CHR 0x0C)"

definition plain_text :: "string \<Rightarrow> bool" where
  "plain_text s = list_all plain s"

lemma plain_text_simps [simp]:
  "plain_text []"
  "plain_text (c # s) \<longleftrightarrow> plain c \<and> plain_text s"
  "plain_text (s @ t) \<longleftrightarrow> plain_text s \<and> plain_text t"
  "plain_text (rev s) \<longleftrightarrow> plain_text s"
  by (auto simp: plain_text_def list_all_iff)

lemma blank_facts:
  assumes "blank c"
  shows "plain c" "\<not> quote_special c" "word_break c" "c \<noteq> CHR ''#''" "c \<noteq> CHR ''&''" "c \<noteq> btick"
    "c \<noteq> CHR ''$''" "c \<noteq> CHR ''(''" "c \<noteq> CHR '')''" "c \<noteq> bslash"
  using assms by (auto simp: blank_def plain_def is_ascii_def byte_def quote_special_def word_break_def)

lemma ascii_space_plain: "plain c \<Longrightarrow> ascii_space c \<longleftrightarrow> blank c"
  by (auto simp: plain_def ascii_space_def blank_def)

lemma blank_ascii_space: "blank c \<Longrightarrow> ascii_space c"
  by (auto simp: ascii_space_def blank_def)

lemma trim_left_space_plain: "plain_text s \<Longrightarrow> trim_left_space s = dropWhile blank s"
proof (induction s)
  case (Cons c s)
  have "space_len (c # s) = (if blank c then 1 else 0)"
    using Cons.prems ascii_space_plain[of c] by (simp add: space_len_def plain_def)
  then show ?case using Cons by (simp add: trim_left_space.simps[of "c # s"])
qed (simp add: trim_left_space.simps)

lemma trim_left_space_rev_plain: "plain_text s \<Longrightarrow> trim_left_space_rev s = dropWhile blank s"
proof (induction s)
  case (Cons c s)
  have "space_len_rev (c # s) = (if blank c then 1 else 0)"
    using Cons.prems ascii_space_plain[of c] by (simp add: space_len_rev_def plain_def)
  then show ?case using Cons by (simp add: trim_left_space_rev.simps[of "c # s"])
qed (simp add: trim_left_space_rev.simps)

lemma plain_text_dropWhile: "plain_text s \<Longrightarrow> plain_text (dropWhile P s)"
  by (induction s) auto

definition trim_blanks :: "string \<Rightarrow> string" where
  "trim_blanks s = rev (dropWhile blank (rev (dropWhile blank s)))"

lemma TrimSpace_plain: "plain_text s \<Longrightarrow> TrimSpace s = trim_blanks s"
  by (simp add: TrimSpace_def trim_right_space_def trim_left_space_plain trim_left_space_rev_plain
      plain_text_dropWhile trim_blanks_def)

lemma trim_blanks_decomp: "\<exists>l r. s = l @ trim_blanks s @ r \<and> list_all blank l \<and> list_all blank r"
proof -
  let ?m = "dropWhile blank s"
  have 1: "s = takeWhile blank s @ ?m" by simp
  have 2: "?m = rev (dropWhile blank (rev ?m)) @ rev (takeWhile blank (rev ?m))"
    by (metis rev_append rev_rev_ident takeWhile_dropWhile_id)
  show ?thesis
    by (rule exI[of _ "takeWhile blank s"], rule exI[of _ "rev (takeWhile blank (rev ?m))"])
       (use 1 2 in \<open>auto simp: trim_blanks_def list_all_iff dest: set_takeWhileD\<close>)
qed

lemma dropWhile_blanks_append: "list_all blank l \<Longrightarrow> dropWhile blank (l @ s) = dropWhile blank s"
  by (simp add: list_all_iff)

lemma trim_blanks_left: "list_all blank l \<Longrightarrow> trim_blanks (l @ s) = trim_blanks s"
  by (simp add: trim_blanks_def dropWhile_blanks_append)

lemma trim_blanks_right: "list_all blank r \<Longrightarrow> trim_blanks (s @ r) = trim_blanks s"
proof (cases "dropWhile blank s = []")
  case True
  assume r: "list_all blank r"
  with True have "dropWhile blank (s @ r) = []" by (simp add: list_all_iff del: dropWhile_append)
  moreover note True
  ultimately show ?thesis unfolding trim_blanks_def by (simp only:)
next
  case False
  assume r: "list_all blank r"
  from False have "dropWhile blank (s @ r) = dropWhile blank s @ r"
    by (auto simp: dropWhile_append)
  moreover have "list_all blank (rev r)" using r by (simp add: list_all_iff)
  ultimately show ?thesis by (simp add: trim_blanks_def dropWhile_blanks_append)
qed

lemma trim_blanks_idem [simp]: "trim_blanks (trim_blanks s) = trim_blanks s"
proof -
  obtain l r where "s = l @ trim_blanks s @ r" "list_all blank l" "list_all blank r"
    using trim_blanks_decomp by blast
  then show ?thesis using trim_blanks_left trim_blanks_right by metis
qed

section \<open>Comment removal\<close>

text \<open>\<open>strip_out\<close> is the text that the loop appends to its builder.\<close>

function strip_out :: "quoting \<Rightarrow> bool \<Rightarrow> string \<Rightarrow> string" where
  "strip_out q wordStart [] = []"
| "strip_out q wordStart (ch # rest) =
     (case quote_branch q ch of
        Some q' \<Rightarrow> ch # strip_out q' False rest
      | None \<Rightarrow>
          if unquoted q \<and> ch = CHR ''#'' \<and> wordStart then strip_out q wordStart (drop_comment rest)
          else ch # strip_out q (unquoted q \<and> word_break ch) rest)"
  by pat_completeness auto
termination
  by (relation "measure (\<lambda>(q, wordStart, rest). length rest)")
     (auto simp: less_Suc_eq_le length_drop_comment)

lemma strip_loop_out: "stripShellLineComments_loop st q w s = st @ strip_out q w s"
proof (induction st q w s rule: stripShellLineComments_loop.induct)
  case (2 st q w ch rest)
  show ?case
  proof (cases "quote_branch q ch")
    case (Some q')
    with "2.IH"(3)[OF Some] show ?thesis by simp
  next
    case None
    with "2.IH"(1,2)[OF None] show ?thesis by simp
  qed
qed simp

lemma strip_eq_out: "stripShellLineComments c = strip_out q0 True c"
  by (simp add: stripShellLineComments_def strip_loop_out)

lemma length_strip_out: "length (strip_out q w s) \<le> length s"
  using length_stripShellLineComments_loop[of "[]" q w s] by (simp add: strip_loop_out)

lemma strip_out_idem: "strip_out q w (strip_out q w s) = strip_out q w s"
proof (induction q w s rule: strip_out.induct)
  case (2 q w ch rest)
  show ?case
  proof (cases "quote_branch q ch")
    case (Some q')
    with "2.IH"(3)[OF Some] show ?thesis by simp
  next
    case None
    with "2.IH"(1,2)[OF None] show ?thesis by simp
  qed
qed simp

text \<open>A text without comments is a fixed point, and so are its pieces.\<close>

lemma strip_out_fixed_Cons:
  assumes "strip_out q w (ch # s) = ch # s"
  shows "\<not> (quote_branch q ch = None \<and> unquoted q \<and> ch = CHR ''#'' \<and> w)"
proof
  assume c: "quote_branch q ch = None \<and> unquoted q \<and> ch = CHR ''#'' \<and> w"
  then have "quote_branch q ch = None" "unquoted q" "ch = CHR ''#''" w by blast+
  then have "strip_out q w (ch # s) = strip_out q w (drop_comment s)" by simp
  then have "length (strip_out q w (ch # s)) \<le> length s"
    using length_strip_out[of q w "drop_comment s"] length_drop_comment[of s] by (metis order_trans)
  with assms show False by simp
qed

lemma strip_out_append:
  "strip_out q w a = a \<Longrightarrow>
   \<exists>w'. (a = [] \<longrightarrow> w' = w) \<and> (\<forall>b. strip_out q w (a @ b) = a @ strip_out (quoting_after q a) w' b)"
proof (induction a arbitrary: q w)
  case (Cons ch a)
  show ?case
  proof (cases "quote_branch q ch")
    case (Some q')
    with Cons.prems have "strip_out q' False a = a" by simp
    from Cons.IH[OF this] Some show ?thesis by auto
  next
    case None
    note nc = strip_out_fixed_Cons[OF Cons.prems]
    with None Cons.prems have "strip_out q (unquoted q \<and> word_break ch) a = a" by (auto split: if_split_asm)
    from Cons.IH[OF this] None nc show ?thesis by auto
  qed
qed auto

lemma strip_out_fixed_prefix:
  assumes "strip_out q w (a @ b) = a @ b"
  shows "strip_out q w a = a"
  using assms
proof (induction a arbitrary: q w)
  case (Cons ch a)
  show ?case
  proof (cases "quote_branch q ch")
    case None
    from Cons.prems have "\<not> (quote_branch q ch = None \<and> unquoted q \<and> ch = CHR ''#'' \<and> w)"
      using strip_out_fixed_Cons[of q w ch "a @ b"] by simp
    with None Cons show ?thesis by (auto split: if_split_asm)
  qed (use Cons in auto)
qed simp

lemma strip_out_blanks: "list_all blank l \<Longrightarrow> strip_out q0 True (l @ s) = l @ strip_out q0 True s"
proof (induction l)
  case (Cons c l)
  then have c: "quote_branch q0 c = None" "word_break c" "c \<noteq> CHR ''#''"
    by (simp_all add: blank_facts quote_branch_q0)
  with Cons show ?case by simp
qed simp

lemma plain_text_strip_out: "plain_text s \<Longrightarrow> plain_text (strip_out q w s)"
proof (induction q w s rule: strip_out.induct)
  case (2 q w ch rest)
  have "plain_text (drop_comment rest)"
    using "2.prems" by (simp add: drop_comment_def plain_text_dropWhile)
  with 2 show ?case by (auto split: option.split)
qed simp

text \<open>Comment removal leaves a trimmed text without comments alone.\<close>

lemma strip_trim_strip:
  "stripShellLineComments (trim_blanks (stripShellLineComments c)) = trim_blanks (stripShellLineComments c)"
proof -
  let ?s = "strip_out q0 True c"
  obtain l r where s: "?s = l @ trim_blanks ?s @ r" and l: "list_all blank l"
    using trim_blanks_decomp by blast
  have "strip_out q0 True (l @ trim_blanks ?s @ r) = l @ trim_blanks ?s @ r"
    using strip_out_idem[of q0 True c] s by simp
  then have "strip_out q0 True (trim_blanks ?s @ r) = trim_blanks ?s @ r"
    by (simp add: strip_out_blanks[OF l])
  then have "strip_out q0 True (trim_blanks ?s) = trim_blanks ?s" by (rule strip_out_fixed_prefix)
  then show ?thesis by (simp add: strip_eq_out)
qed

section \<open>Segments\<close>

definition nonempty_trim :: "string \<Rightarrow> string list" where
  "nonempty_trim cur = (if TrimSpace cur \<noteq> [] then [TrimSpace cur] else [])"

lemma append_segment: "appendNonemptySegment segs cur = segs @ nonempty_trim cur"
  by (simp add: appendNonemptySegment_def nonempty_trim_def Let_def)

text \<open>\<open>segs_out\<close> is what the loop appends to its segments.\<close>

function segs_out :: "string \<Rightarrow> quoting \<Rightarrow> string \<Rightarrow> string list" where
  "segs_out cur q [] = nonempty_trim cur"
| "segs_out cur q (ch # rest) =
     (case quote_branch q ch of
        Some q' \<Rightarrow> segs_out (cur @ [ch]) q' rest
      | None \<Rightarrow>
          if unquoted q \<and> segment_sep ch then nonempty_trim cur @ segs_out [] q rest
          else if unquoted q \<and> ch = CHR ''&'' then nonempty_trim cur @ segs_out [] q (skip_amp rest)
          else segs_out (cur @ [ch]) q rest)"
  by pat_completeness auto
termination
  by (relation "measure (\<lambda>(cur, q, rest). length rest)") (auto simp: less_Suc_eq_le length_skip_amp)

lemma split_loop_out: "splitCommandSegments_loop segs cur q s = segs @ segs_out cur q s"
proof (induction segs cur q s rule: splitCommandSegments_loop.induct)
  case (2 segs cur q ch rest)
  show ?case
  proof (cases "quote_branch q ch")
    case (Some q')
    with "2.IH"(4)[OF Some] show ?thesis by simp
  next
    case None
    with "2.IH"(1,2,3)[OF None] show ?thesis by (simp add: append_segment)
  qed
qed (simp add: append_segment)

lemma split_eq_out: "splitCommandSegments s = segs_out [] q0 s"
  by (simp add: splitCommandSegments_def split_loop_out)

lemma quoting_after_skip_amp:
  assumes "quote_branch q (CHR ''&'') = None"
  shows "quoting_after q (skip_amp s) = quoting_after q s"
  using assms by (cases s) (simp_all add: skip_amp_def)

lemma skip_amp_append: "c \<noteq> CHR ''&'' \<Longrightarrow> skip_amp (a @ c # b) = skip_amp a @ c # b"
  by (cases a) (simp_all add: skip_amp_def)

lemma segment_sep_facts:
  assumes "segment_sep sep"
  shows "\<not> quote_special sep" "sep \<noteq> CHR ''&''" "word_break sep" "sep \<noteq> CHR ''#''"
  using assms by (auto simp: segment_sep_def quote_special_def word_break_def)

text \<open>A separator after balanced text ends a segment, whatever follows.\<close>

lemma segs_out_append:
  assumes "segment_sep sep"
  shows "quoting_after q a = q0 \<Longrightarrow> segs_out cur q (a @ sep # b) = segs_out cur q a @ segs_out [] q0 b"
proof (induction cur q a rule: segs_out.induct)
  case (1 cur q)
  moreover have "quote_branch q0 sep = None" using assms by (simp add: segment_sep_facts quote_branch_q0)
  ultimately show ?case using assms by simp
next
  case (2 cur q ch rest)
  show ?case
  proof (cases "quote_branch q ch")
    case (Some q')
    with "2.IH"(4)[OF Some] "2.prems" show ?thesis by simp
  next
    case None
    show ?thesis
    proof (cases "unquoted q \<and> ch = CHR ''&'' \<and> \<not> segment_sep ch")
      case True
      with None have "quoting_after q (skip_amp rest) = q0"
        using "2.prems" quoting_after_skip_amp[of q rest] by simp
      with None True "2.IH"(2)[OF None] show ?thesis
        by (simp add: skip_amp_append segment_sep_facts[OF assms] segment_sep_def)
    next
      case False
      with None "2.IH"(1,3)[OF None] "2.prems" show ?thesis by auto
    qed
  qed
qed

text \<open>Outer blanks do not show in the segments.\<close>

lemma nonempty_trim_blanks:
  "plain_text cur \<Longrightarrow> list_all blank l \<Longrightarrow> plain_text l \<Longrightarrow>
   nonempty_trim (l @ cur) = nonempty_trim cur \<and> nonempty_trim (cur @ l) = nonempty_trim cur"
  by (simp add: nonempty_trim_def TrimSpace_plain trim_blanks_left trim_blanks_right)

lemma plain_text_blanks: "list_all blank l \<Longrightarrow> plain_text l"
  by (auto simp: plain_text_def list_all_iff blank_facts)

lemma segs_out_blank_prefix:
  assumes "list_all blank l"
  shows "plain_text cur \<Longrightarrow> plain_text s \<Longrightarrow> segs_out (l @ cur) q s = segs_out cur q s"
proof (induction cur q s rule: segs_out.induct)
  case (1 cur q)
  with assms show ?case by (simp add: nonempty_trim_blanks plain_text_blanks)
next
  case (2 cur q ch rest)
  have nt: "nonempty_trim (l @ cur) = nonempty_trim cur"
    using 2 assms by (simp add: nonempty_trim_blanks plain_text_blanks)
  show ?case
  proof (cases "quote_branch q ch")
    case (Some q')
    with "2.IH"(4)[OF Some] "2.prems" show ?thesis by simp
  next
    case None
    with "2.IH"(3)[OF None] "2.prems" nt show ?thesis by simp
  qed
qed

lemma segs_out_only_blanks:
  "list_all blank r \<Longrightarrow> plain_text cur \<Longrightarrow> segs_out cur q0 r = nonempty_trim cur"
proof (induction r arbitrary: cur)
  case (Cons c r)
  then have c: "quote_branch q0 c = None" "c \<noteq> CHR ''&''" "plain c" "blank c"
    by (simp_all add: quote_branch_q0 blank_facts)
  have "nonempty_trim (cur @ [c]) = nonempty_trim cur"
    using Cons c by (intro nonempty_trim_blanks[THEN conjunct2]) simp_all
  moreover have "nonempty_trim [] = []" by (simp add: nonempty_trim_def TrimSpace_plain trim_blanks_def)
  ultimately show ?case using Cons c by simp
qed simp

lemma segs_out_blank_suffix:
  assumes "list_all blank r"
  shows "quoting_after q s = q0 \<Longrightarrow> plain_text cur \<Longrightarrow> plain_text s \<Longrightarrow>
    segs_out cur q (s @ r) = segs_out cur q s"
proof (induction cur q s rule: segs_out.induct)
  case (1 cur q)
  with assms show ?case by (simp add: segs_out_only_blanks)
next
  case (2 cur q ch rest)
  show ?case
  proof (cases "quote_branch q ch")
    case (Some q')
    with "2.IH"(4)[OF Some] "2.prems" show ?thesis by simp
  next
    case None
    show ?thesis
    proof (cases "unquoted q \<and> ch = CHR ''&'' \<and> \<not> segment_sep ch")
      case True
      with None have "quoting_after q (skip_amp rest) = q0"
        using "2.prems" quoting_after_skip_amp[of q rest] by simp
      moreover have "skip_amp (rest @ r) = skip_amp rest @ r"
        using assms by (cases rest; cases r) (auto simp: skip_amp_def blank_facts)
      moreover have "plain_text (skip_amp rest)"
        using "2.prems" by (cases rest) (auto simp: skip_amp_def)
      ultimately show ?thesis using None True "2.IH"(2)[OF None] by (simp add: segment_sep_def)
    next
      case False
      with None "2.IH"(1,3)[OF None] "2.prems" show ?thesis by auto
    qed
  qed
qed

lemma segs_out_left_blanks:
  assumes "list_all blank l" "plain_text s"
  shows "segs_out [] q0 (l @ s) = segs_out [] q0 s"
  using assms(1)
proof (induction l)
  case (Cons c l)
  then have c: "quote_branch q0 c = None" "c \<noteq> CHR ''&''" "plain c" "blank c" "plain_text l"
    by (simp_all add: quote_branch_q0 blank_facts plain_text_blanks)
  have "segs_out ([c] @ []) q0 (l @ s) = segs_out [] q0 (l @ s)"
    using c assms by (intro segs_out_blank_prefix) simp_all
  moreover have "nonempty_trim [] = []" by (simp add: nonempty_trim_def TrimSpace_plain trim_blanks_def)
  ultimately show ?case using Cons c by simp
qed simp

lemma split_trim:
  assumes "plain_text s" "shellSyntaxComplete (trim_blanks s)"
  shows "splitCommandSegments (trim_blanks s) = splitCommandSegments s"
proof -
  obtain l r where s: "s = l @ trim_blanks s @ r" "list_all blank l" "list_all blank r"
    using trim_blanks_decomp by blast
  have p: "plain_text (trim_blanks s)" "plain_text (trim_blanks s @ r)"
    using assms(1) s(1) by (metis plain_text_simps(3))+
  have "splitCommandSegments s = segs_out [] q0 (trim_blanks s @ r)"
    using segs_out_left_blanks[OF s(2) p(2)] s(1) by (simp add: split_eq_out)
  also have "\<dots> = segs_out [] q0 (trim_blanks s)"
    using assms(2) p by (intro segs_out_blank_suffix[OF s(3)]) (simp_all add: shellSyntaxComplete_iff)
  finally show ?thesis by (simp add: split_eq_out)
qed

section \<open>Nested commands\<close>

lemma closing_backtick_blanks:
  "list_all blank r \<Longrightarrow> findShellClosingBacktick_loop e (s @ r) i = findShellClosingBacktick_loop e s i"
proof (induction s arbitrary: e i)
  case Nil
  then show ?case by (induction r arbitrary: e i) (auto simp: blank_facts)
qed simp

lemma closing_paren_blanks:
  "list_all blank r \<Longrightarrow> findShellClosingParen_loop d q (s @ r) i = findShellClosingParen_loop d q s i"
proof (induction s arbitrary: d q i)
  case Nil
  then show ?case by (induction r arbitrary: d q i) (auto simp: blank_facts split: option.split)
next
  case (Cons c s)
  then show ?case by (simp split: option.split)
qed

declare IsDestructiveCommand.simps [simp del] destructiveWords.simps [simp del]
  destructiveExecCommand.simps [simp del]

lemma nested_left_blanks:
  "list_all blank l \<Longrightarrow>
   hasNestedShellDestructiveCommand_loop q0 (l @ s) = hasNestedShellDestructiveCommand_loop q0 s"
proof (induction l)
  case (Cons c l)
  then have c: "quote_branch q0 c = None" "c \<noteq> btick" "c \<noteq> CHR ''$''" "c \<noteq> CHR ''(''"
    by (simp_all add: quote_branch_q0 blank_facts)
  with Cons show ?case by simp
qed simp

lemma nested_only_blanks:
  "list_all blank r \<Longrightarrow> \<not> hasNestedShellDestructiveCommand_loop q r"
  by (induction r arbitrary: q) (auto simp: blank_facts split: option.split)

lemma nested_right_blanks:
  assumes "list_all blank r"
  shows "hasNestedShellDestructiveCommand_loop q (s @ r) = hasNestedShellDestructiveCommand_loop q s"
proof (induction "length s" arbitrary: q s rule: less_induct)
  case less
  show ?case
  proof (cases s)
    case Nil
    with assms show ?thesis by (simp add: nested_only_blanks)
  next
    case (Cons c t)
    have IH: "hasNestedShellDestructiveCommand_loop q' (t @ r) = hasNestedShellDestructiveCommand_loop q' t" for q'
      using less[of t q'] Cons by simp
    have close: "findShellClosingBacktick (u @ r) = findShellClosingBacktick u"
      "findShellClosingParen (u @ r) = findShellClosingParen u" for u
      by (simp_all add: findShellClosingBacktick_def findShellClosingParen_def
          closing_backtick_blanks[OF assms] closing_paren_blanks[OF assms])
    have drp: "hasNestedShellDestructiveCommand_loop q' (drop (Suc n) (u @ r))
        = hasNestedShellDestructiveCommand_loop q' (drop (Suc n) u) \<and> take n (u @ r) = take n u"
      if "n < length u" "length u \<le> length t" for n u q'
      using less[of "drop (Suc n) u" q'] that Cons by (simp add: Suc_leI)
    have hd: "(t @ r \<noteq> [] \<and> hd (t @ r) = CHR ''('') \<longleftrightarrow> (t \<noteq> [] \<and> hd t = CHR ''('')"
      using assms by (cases t; cases r) (auto simp: blank_facts)
    have tl: "t \<noteq> [] \<Longrightarrow> tl (t @ r) = tl t @ r" by simp
    have b1: "findShellClosingBacktick t = Some n \<Longrightarrow> n < length t" for n
      by (rule findShellClosingBacktick_bound)
    have b2: "findShellClosingParen u = Some n \<Longrightarrow> n < length u" for n u
      by (rule findShellClosingParen_bound)
    show ?thesis
    proof (cases "quote_branch q c")
      case (Some q')
      with Cons IH show ?thesis by simp
    next
      case None
      consider "inSingle q" | "\<not> inSingle q" "c = btick"
        | "\<not> inSingle q" "c \<noteq> btick" "c = CHR ''$'' \<and> t \<noteq> [] \<and> hd t = CHR ''(''"
        | "\<not> inSingle q" "c \<noteq> btick" "\<not> (c = CHR ''$'' \<and> t \<noteq> [] \<and> hd t = CHR ''('')"
        by blast
      then show ?thesis
      proof cases
        case 1
        with None Cons IH show ?thesis by simp
      next
        case 2
        with None Cons show ?thesis
          using drp[of _ t] b1 by (simp add: close del: drop_append take_append drop_Suc_Cons split: option.split)
      next
        case 3
        then have "length (tl t) \<le> length t" by simp
        with 3 None Cons show ?thesis
          using drp[of _ "tl t"] b2[of "tl t"] by (simp add: close tl del: drop_append take_append split: option.split)
      next
        case 4
        show ?thesis
        proof (cases "\<not> inDouble q \<and> c = CHR ''(''")
          case True
          with 4 None Cons show ?thesis
            using drp[of _ t] b2[of t] by (simp add: close del: drop_append take_append split: option.split)
        next
          case False
          with 4 None Cons IH hd show ?thesis by auto
        qed
      qed
    qed
  qed
qed

lemma destructive_trim:
  assumes "plain_text c" "shellSyntaxComplete (TrimSpace (stripShellLineComments c))"
  shows "IsDestructiveCommand (TrimSpace (stripShellLineComments c)) = IsDestructiveCommand c"
proof -
  let ?s = "stripShellLineComments c"
  have p: "plain_text ?s" using assms(1) by (simp add: strip_eq_out plain_text_strip_out)
  then have t: "TrimSpace ?s = trim_blanks ?s" by (rule TrimSpace_plain)
  obtain l r where s: "?s = l @ trim_blanks ?s @ r" "list_all blank l" "list_all blank r"
    using trim_blanks_decomp by blast
  have "hasNestedShellDestructiveCommand_loop q0 ?s = hasNestedShellDestructiveCommand_loop q0 (trim_blanks ?s @ r)"
    by (subst s(1)) (rule nested_left_blanks[OF s(2)])
  also have "\<dots> = hasNestedShellDestructiveCommand_loop q0 (trim_blanks ?s)"
    by (rule nested_right_blanks[OF s(3)])
  finally have "hasNestedShellDestructiveCommand_loop q0 (trim_blanks ?s) = hasNestedShellDestructiveCommand_loop q0 ?s"
    by simp
  moreover have "splitCommandSegments (trim_blanks ?s) = splitCommandSegments ?s"
    using assms(2) p by (intro split_trim) (simp_all add: t)
  ultimately show ?thesis
    by (simp add: IsDestructiveCommand.simps[of c] IsDestructiveCommand.simps[of "trim_blanks ?s"] t strip_trim_strip)
qed

end
