(* ===== verification/WordLaws.thy ===== *)
theory WordLaws
  imports ShellLaws
begin

text \<open>
  Laws of word splitting and of the word-level helpers: what \<open>shellWords\<close> and
  \<open>splitCommandSegments\<close> do on text without quotes, that quoting a word protects it, what a
  safe relative path can name, and that wrapper commands are transparent.
\<close>

section \<open>Substitution syntax\<close>

lemma mutation_suffix:
  "\<not> hasShellMutationSyntax_loop q (p @ s) \<Longrightarrow> \<not> hasShellMutationSyntax_loop (quoting_after q p) s"
proof (induction p arbitrary: q)
  case (Cons c p)
  show ?case
  proof (cases "quote_branch q c")
    case None
    with Cons show ?thesis by (simp split: if_split_asm)
  qed (use Cons in simp)
qed simp

lemma mutation_amp:
  "quote_branch q (CHR ''&'') = None \<Longrightarrow> unquoted q \<Longrightarrow> hasShellMutationSyntax_loop q (CHR ''&'' # s)"
proof (induction s)
  case (Cons c s)
  then show ?case by (cases "c = CHR ''&''") simp_all
qed simp

lemma mutation_char:
  assumes "\<not> hasShellMutationSyntax s" "s = p @ ch # r" "quote_branch (quoting_after q0 p) ch = None"
  shows "\<not> inSingle (quoting_after q0 p) \<Longrightarrow> \<not> double_quoted_subst ch"
    and "unquoted (quoting_after q0 p) \<Longrightarrow> \<not> redirect_or_subst ch \<and> ch \<noteq> CHR ''&''"
proof -
  let ?q = "quoting_after q0 p"
  have n: "\<not> hasShellMutationSyntax_loop ?q (ch # r)"
    using mutation_suffix[of q0 p "ch # r"] assms(1) unfolding assms(2) hasShellMutationSyntax_def by blast
  show "\<not> inSingle ?q \<Longrightarrow> \<not> double_quoted_subst ch"
    using n assms(3) by (auto simp: double_quoted_subst_def redirect_or_subst_def split: if_split_asm)
  show "unquoted ?q \<Longrightarrow> \<not> redirect_or_subst ch \<and> ch \<noteq> CHR ''&''"
    using n assms(3) mutation_amp[of ?q r] by (auto split: if_split_asm)
qed

section \<open>Splitting text without quotes\<close>

lemma FieldsFunc_Cons_sep: "f c \<Longrightarrow> FieldsFunc (c # s) f = FieldsFunc s f"
  by (simp add: FieldsFunc_def)

lemma split_pred_not_Nil [simp]: "split_pred f s \<noteq> []"
  by (cases s) (auto split: list.split)

lemma split_pred_append:
  "list_all (\<lambda>c. \<not> f c) a \<Longrightarrow> split_pred f (a @ s) = (a @ hd (split_pred f s)) # tl (split_pred f s)"
  by (induction a) (auto split: list.split)

lemma shellWords_loop_plain:
  assumes "list_all (\<lambda>c. \<not> quote_special c) s"
  shows "shellWords_loop ws cur q0 s =
    ws @ filter (\<lambda>p. p \<noteq> []) ((cur @ hd (split_pred word_sep s)) # tl (split_pred word_sep s))"
  using assms
proof (induction s arbitrary: ws cur)
  case (Cons c s)
  then have c: "quote_branch q0 c = None" by (simp add: quote_branch_q0)
  obtain p ps where sp: "split_pred word_sep s = p # ps" by (cases "split_pred word_sep s") auto
  show ?case using Cons c sp by (simp add: flush_word_def)
qed (simp add: flush_word_def)

lemma segs_out_plain:
  assumes "list_all (\<lambda>c. \<not> quote_special c \<and> c \<noteq> CHR ''&'') s"
  shows "segs_out cur q0 s =
    concat (map nonempty_trim ((cur @ hd (split_pred segment_sep s)) # tl (split_pred segment_sep s)))"
  using assms
proof (induction s arbitrary: cur)
  case (Cons c s)
  then have c: "quote_branch q0 c = None" by (simp add: quote_branch_q0)
  obtain p ps where sp: "split_pred segment_sep s = p # ps" by (cases "split_pred segment_sep s") auto
  show ?case using Cons c sp by simp
qed simp

lemma concat_nonempty_trim: "concat (map nonempty_trim xs) = filter (\<lambda>p. p \<noteq> []) (map TrimSpace xs)"
  by (induction xs) (simp_all add: nonempty_trim_def)

section \<open>Quoted words\<close>

text \<open>A word in single quotes, as a caller that builds a command line writes it.\<close>

definition single_quoted :: "string \<Rightarrow> string" where
  "single_quoted w = squote # w @ [squote]"

abbreviation in_single :: quoting where
  "in_single \<equiv> q0\<lparr>inSingle := True\<rparr>"

lemma quote_branch_in_single:
  "quote_branch in_single c = (if c = squote then Some q0 else None)"
  by (simp add: quote_branch_def q0_def)

lemma words_in_single:
  "squote \<notin> set w \<Longrightarrow> shellWords_loop ws cur in_single (w @ s) = shellWords_loop ws (cur @ w) in_single s"
  by (induction w arbitrary: cur) (auto simp: quote_branch_in_single)

lemma words_single_quoted:
  assumes "squote \<notin> set w"
  shows "shellWords_loop ws cur q0 (single_quoted w @ s) = shellWords_loop ws (cur @ w) q0 s"
proof -
  have "quote_branch q0 squote = Some in_single" by (simp add: quote_branch_def q0_def)
  moreover have "quote_branch in_single squote = Some q0" by (simp add: quote_branch_in_single)
  ultimately show ?thesis
    using assms by (simp add: single_quoted_def words_in_single)
qed

lemma words_joined:
  "list_all (\<lambda>w. w \<noteq> [] \<and> squote \<notin> set w) vs \<Longrightarrow>
   shellWords_loop ws [] q0 (Join (map single_quoted vs) '' '') = ws @ vs"
proof (induction vs arbitrary: ws)
  case (Cons v vs)
  have sp: "quote_branch q0 (CHR '' '') = None" by (simp add: quote_branch_q0 quote_special_def)
  have one: "shellWords_loop ws [] q0 (single_quoted v @ s) = shellWords_loop ws v q0 s" for s
    using Cons.prems words_single_quoted[of v ws "[]" s] by simp
  show ?case
  proof (cases vs)
    case Nil
    then show ?thesis using one[of "[]"] Cons.prems by (simp add: flush_word_def)
  next
    case (Cons u us)
    then have J: "Join (map single_quoted (v # vs)) '' '' = single_quoted v @ '' '' @ Join (map single_quoted vs) '' ''"
      by simp
    show ?thesis unfolding J using one Cons.IH Cons.prems sp by (simp add: flush_word_def word_sep_def)
  qed
qed (simp add: flush_word_def)

lemma segs_in_single:
  "squote \<notin> set w \<Longrightarrow> segs_out cur in_single (w @ s) = segs_out (cur @ w) in_single s"
  by (induction w arbitrary: cur) (auto simp: quote_branch_in_single)

lemma segs_single_quoted:
  assumes "squote \<notin> set w"
  shows "segs_out cur q0 (single_quoted w @ s) = segs_out (cur @ single_quoted w) q0 s"
proof -
  have "quote_branch q0 squote = Some in_single" by (simp add: quote_branch_def q0_def)
  moreover have "quote_branch in_single squote = Some q0" by (simp add: quote_branch_in_single)
  ultimately show ?thesis
    using assms by (simp add: single_quoted_def segs_in_single)
qed

lemma segs_joined:
  "list_all (\<lambda>w. squote \<notin> set w) vs \<Longrightarrow>
   segs_out cur q0 (Join (map single_quoted vs) '' '') = nonempty_trim (cur @ Join (map single_quoted vs) '' '')"
proof (induction vs arbitrary: cur)
  case (Cons v vs)
  have sp: "quote_branch q0 (CHR '' '') = None" by (simp add: quote_branch_q0 quote_special_def)
  show ?case
  proof (cases vs)
    case Nil
    then show ?thesis using segs_single_quoted[of v cur "[]"] Cons.prems by simp
  next
    case (Cons u us)
    then have J: "Join (map single_quoted (v # vs)) '' '' = single_quoted v @ '' '' @ Join (map single_quoted vs) '' ''"
      by simp
    show ?thesis unfolding J using segs_single_quoted[of v cur] Cons.IH Cons.prems sp
      by (simp add: segment_sep_def)
  qed
qed simp

lemma Join_single_quoted_ends:
  "vs \<noteq> [] \<Longrightarrow> \<exists>m. Join (map single_quoted vs) '' '' = squote # m @ [squote]"
proof (induction vs)
  case (Cons v vs)
  show ?case
  proof (cases vs)
    case Nil
    then show ?thesis by (simp add: single_quoted_def)
  next
    case (Cons u us)
    then obtain m where m: "Join (map single_quoted vs) '' '' = squote # m @ [squote]"
      using Cons.IH by auto
    have "Join (map single_quoted (v # vs)) '' '' = single_quoted v @ '' '' @ Join (map single_quoted vs) '' ''"
      using Cons by simp
    then have "Join (map single_quoted (v # vs)) '' '' = squote # (v @ squote # CHR '' '' # squote # m) @ [squote]"
      by (simp only: m single_quoted_def append_Cons append_Nil append_assoc)
    then show ?thesis
      by (rule exI[where P = "\<lambda>m. Join (map single_quoted (v # vs)) '' '' = squote # m @ [squote]"])
  qed
qed simp

lemma TrimSpace_quoted: "TrimSpace (squote # m @ [squote]) = squote # m @ [squote]"
proof -
  have "space_len (squote # s) = 0" "space_len_rev (squote # s) = 0" for s
    by (simp_all add: space_len_def space_len_rev_def ascii_space_def is_ascii_def byte_def)
  then have "trim_left_space (squote # s) = squote # s" "trim_left_space_rev (squote # s) = squote # s" for s
    by (simp_all add: trim_left_space.simps[of "squote # s"] trim_left_space_rev.simps[of "squote # s"])
  then show ?thesis by (simp add: TrimSpace_def trim_right_space_def)
qed

section \<open>Relative paths\<close>

text \<open>
  What a path can name: its components are resolved one after the other against a directory
  (a list of names from the root down); an empty component and \<open>.\<close> stay, \<open>..\<close> goes up.
\<close>

definition resolve_step :: "string list \<Rightarrow> string \<Rightarrow> string list" where
  "resolve_step dir part =
     (if part = [] \<or> part = ''.'' then dir else if part = ''..'' then butlast dir else dir @ [part])"

definition resolve_path :: "string list \<Rightarrow> string \<Rightarrow> string list" where
  "resolve_path cwd path =
     foldl resolve_step (if HasPrefix path ''/'' then [] else cwd) (Split path (CHR ''/''))"

lemma resolve_beneath: "''..'' \<notin> set parts \<Longrightarrow> prefix dir (foldl resolve_step dir parts)"
proof (induction parts arbitrary: dir)
  case (Cons p parts)
  then have "prefix (resolve_step dir p) (foldl resolve_step (resolve_step dir p) parts)" by simp
  moreover have "prefix dir (resolve_step dir p)" using Cons.prems by (auto simp: resolve_step_def)
  ultimately show ?case by (simp add: prefix_order.order_trans)
qed simp

lemma ReplaceAll_char: "ReplaceAll s [a] [b] = map (\<lambda>c. if c = a then b else c) s"
proof (induction s)
  case (Cons c s)
  then show ?case by (simp add: ReplaceAll.simps[of "c # s"])
qed (simp add: ReplaceAll.simps)

lemma Split_not_Nil [simp]: "Split s c \<noteq> []"
  by (cases s) (auto split: list.split)

text \<open>Reading backslashes as separators too only splits components further.\<close>

lemma Split_replaced:
  assumes "a \<noteq> b" "a \<notin> set w"
  defines "s' \<equiv> \<lambda>s. map (\<lambda>c. if c = a then b else c) s"
  shows "(w = hd (Split s b) \<longrightarrow> w = hd (Split (s' s) b)) \<and> (w \<in> set (tl (Split s b)) \<longrightarrow> w \<in> set (tl (Split (s' s) b)))"
  using assms(2)
proof (induction s arbitrary: w)
  case (Cons c s)
  obtain p ps where sp: "Split s b = p # ps" by (cases "Split s b") auto
  obtain p' ps' where sp': "Split (s' s) b = p' # ps'" by (cases "Split (s' s) b") auto
  have IH: "a \<notin> set v \<Longrightarrow> (v = p \<longrightarrow> v = p') \<and> (v \<in> set ps \<longrightarrow> v \<in> set ps')" for v
    using Cons.IH[of v] sp sp' by simp
  have s'c: "s' (c # s) = (if c = a then b else c) # s' s" by (simp add: s'_def)
  show ?case
  proof (cases "c = b")
    case True
    with sp sp' s'c IH[OF Cons.prems] assms(1) show ?thesis by auto
  next
    case cb: False
    show ?thesis
    proof (cases "c = a")
      case True
      with sp sp' s'c cb IH[OF Cons.prems] Cons.prems assms(1) show ?thesis by auto
    next
      case False
      have "w = c # p \<Longrightarrow> p = p'" using IH[of p] Cons.prems by simp
      with sp sp' s'c cb False IH[OF Cons.prems] show ?thesis by auto
    qed
  qed
qed (simp add: s'_def)

lemma safe_relative_parts:
  assumes "safeRelativeShellPathArg v"
  defines "value \<equiv> Trim (TrimSpace v) quote_chars"
  shows "\<not> HasPrefix value ''/''" "''..'' \<notin> set (Split (ReplaceAll value [bslash] ''/'') (CHR ''/''))"
    "''..'' \<notin> set (Split value (CHR ''/''))"
proof -
  show 1: "\<not> HasPrefix value ''/''" "''..'' \<notin> set (Split (ReplaceAll value [bslash] ''/'') (CHR ''/''))"
    using assms by (auto simp: safeRelativeShellPathArg_def Let_def list_all_iff split: if_split_asm)
  have "w \<in> set (Split value (CHR ''/'')) \<Longrightarrow> bslash \<notin> set w \<Longrightarrow>
      w \<in> set (Split (ReplaceAll value [bslash] ''/'') (CHR ''/''))" for w
    using Split_replaced[of bslash "CHR ''/''" w "value"] unfolding ReplaceAll_char
    by (cases "Split value (CHR ''/'')";
        cases "Split (map (\<lambda>c. if c = bslash then CHR ''/'' else c) value) (CHR ''/'')") auto
  from this[of "''..''"] 1(2) show "''..'' \<notin> set (Split value (CHR ''/''))" by auto
qed

end
