(* ===== verification/WrapperLaws.thy ===== *)
theory WrapperLaws
  imports WordLaws
begin

text \<open>
  The wrapper commands are transparent: an inductive grammar of the wrapper prefixes, and the
  proof that stripping removes exactly such a prefix.
\<close>

definition command_word :: "string \<Rightarrow> bool" where
  "command_word w = (\<not> HasPrefix w ''-'' \<and> \<not> isSafeEnvAssignment w)"

definition wrapper_word :: "string \<Rightarrow> string \<Rightarrow> bool" where
  "wrapper_word name w = (filepathBase w = name \<and> command_word w)"

definition stdbuf_flag :: "string \<Rightarrow> bool" where
  "stdbuf_flag f = (length f > 2 \<and> f ! 0 = CHR ''-'' \<and> (f ! 1 = CHR ''i'' \<or> f ! 1 = CHR ''o'' \<or> f ! 1 = CHR ''e''))"

inductive wrapper_prefix :: "string list \<Rightarrow> bool" where
  time: "wrapper_word ''time'' w \<or> wrapper_word ''nohup'' w \<Longrightarrow> wrapper_prefix [w]"
| time_end: "wrapper_word ''time'' w \<or> wrapper_word ''nohup'' w \<Longrightarrow> wrapper_prefix [w, ''--'']"
| timeout: "wrapper_word ''timeout'' w \<Longrightarrow> isTimeoutDuration d \<Longrightarrow> wrapper_prefix [w, d]"
| timeout_signal: "wrapper_word ''timeout'' w \<Longrightarrow> isSafeWrapperValue v \<Longrightarrow> isTimeoutDuration d \<Longrightarrow>
    wrapper_prefix [w, ''-s'', v, d]"
| nice: "wrapper_word ''nice'' w \<Longrightarrow> wrapper_prefix [w]"
| nice_n: "wrapper_word ''nice'' w \<Longrightarrow> isSignedInteger n \<Longrightarrow> wrapper_prefix [w, ''-n'', n]"
| stdbuf: "wrapper_word ''stdbuf'' w \<Longrightarrow> stdbuf_flag f \<Longrightarrow> wrapper_prefix [w, f]"
| env: "wrapper_word ''env'' w \<Longrightarrow> list_all isSafeEnvAssignment vs \<Longrightarrow> wrapper_prefix (w # vs)"
| nest: "wrapper_prefix a \<Longrightarrow> wrapper_prefix b \<Longrightarrow> wrapper_prefix (a @ b)"

inductive_cases wrapper_prefix_NilE: "wrapper_prefix []"

lemma wrapper_prefix_head: "wrapper_prefix p \<Longrightarrow> p \<noteq> [] \<and> command_word (hd p)"
  by (induction rule: wrapper_prefix.induct) (auto simp: wrapper_word_def)

lemma command_word_facts:
  assumes "command_word x"
  shows "x \<noteq> ''--''" "x \<noteq> ''-n''" "\<not> HasPrefix x ''-''" "\<not> isSafeEnvAssignment x" "\<not> HasPrefix x ''--input=''"
    "\<not> HasPrefix x ''--output=''" "\<not> HasPrefix x ''--error=''" "x \<noteq> ''-i''" "x \<noteq> ''-o''" "x \<noteq> ''-e''"
    "x \<noteq> ''-0''" "x \<noteq> ''-v''" "x \<noteq> ''-u''" "\<not> (x \<noteq> [] \<and> x ! 0 = CHR ''-'')"
  using assms by (cases x; auto simp: command_word_def)+

lemma duration_facts:
  assumes "isTimeoutDuration d"
  shows "\<not> HasPrefix d ''-''" "d \<noteq> ''-v''" "d \<noteq> ''--''" "d \<noteq> ''-k''" "d \<noteq> ''-s''" "d \<noteq> ''--kill-after''"
    "d \<noteq> ''--signal''" "d \<noteq> ''--foreground''" "d \<noteq> ''--preserve-status''" "d \<noteq> ''--verbose''"
    "\<not> HasPrefix d ''-k''" "\<not> HasPrefix d ''-s''" "\<not> HasPrefix d ''--kill-after=''" "\<not> HasPrefix d ''--signal=''"
proof -
  obtain c cs where d: "d = c # cs" "is_digit c"
    using assms by (cases d) (auto simp: isTimeoutDuration_def Let_def split: if_split_asm)
  then have "c \<noteq> CHR ''-''" by (auto simp: in_range_def byte_def)
  with d show "\<not> HasPrefix d ''-''" "d \<noteq> ''-v''" "d \<noteq> ''--''" "d \<noteq> ''-k''" "d \<noteq> ''-s''" "d \<noteq> ''--kill-after''"
    "d \<noteq> ''--signal''" "d \<noteq> ''--foreground''" "d \<noteq> ''--preserve-status''" "d \<noteq> ''--verbose''"
    "\<not> HasPrefix d ''-k''" "\<not> HasPrefix d ''-s''" "\<not> HasPrefix d ''--kill-after=''" "\<not> HasPrefix d ''--signal=''"
    by auto
qed

lemma env_index_assignments:
  "list_all isSafeEnvAssignment vs \<Longrightarrow> command_word x \<Longrightarrow>
   args_loop envCommandIndex_step (\<lambda>_. None) i (vs @ x # xs) = Some (i + length vs)"
  by (induction vs arbitrary: i) (simp_all add: envCommandIndex_step_def command_word_facts)

lemmas strip_one_defs = strip_one_wrapper_def wrapper_word_def Let_def
lemmas timeout_defs = timeoutDurationIndex_def timeoutDurationIndex_step_def

lemma stdbuf_steps:
  "stdbuf_flag f \<Longrightarrow> stdbufCommandIndex_step (b, i) f rest = Continue (True, i + 1) 0"
  "command_word x \<Longrightarrow> stdbufCommandIndex_step (True, i) x rest = Return (Some i)"
proof -
  assume "stdbuf_flag f"
  moreover from this have "f \<noteq> ''-i''" "f \<noteq> ''-o''" "f \<noteq> ''-e''" by (auto simp: stdbuf_flag_def)
  ultimately show "stdbufCommandIndex_step (b, i) f rest = Continue (True, i + 1) 0"
    by (simp add: stdbuf_flag_def stdbufCommandIndex_step_def)
next
  assume x: "command_word x"
  then have "\<not> (length x > 2 \<and> x ! 0 = CHR ''-'')" using command_word_facts(14)[OF x] by auto
  with x show "stdbufCommandIndex_step (True, i) x rest = Return (Some i)"
    by (auto simp: stdbufCommandIndex_step_def command_word_facts)
qed

lemma strip_time:
  assumes "wrapper_word ''time'' w \<or> wrapper_word ''nohup'' w" "command_word x"
  shows "strip_one_wrapper (w # x # xs) = Some (x # xs)"
    "strip_one_wrapper (w # ''--'' # x # xs) = Some (x # xs)"
  using assms by (auto simp: strip_one_defs command_word_facts)

lemma strip_timeout:
  assumes "wrapper_word ''timeout'' w" "isTimeoutDuration d"
  shows "strip_one_wrapper (w # d # x # xs) = Some (x # xs)"
    "isSafeWrapperValue v \<Longrightarrow> strip_one_wrapper (w # ''-s'' # v # d # x # xs) = Some (x # xs)"
  using assms by (simp_all add: strip_one_defs timeout_defs duration_facts isSafeWrapperValue_def split: if_split_asm)

lemma strip_nice:
  assumes "wrapper_word ''nice'' w" "command_word x"
  shows "strip_one_wrapper (w # x # xs) = Some (x # xs)"
    "isSignedInteger n \<Longrightarrow> strip_one_wrapper (w # ''-n'' # n # x # xs) = Some (x # xs)"
  using assms by (simp_all add: strip_one_defs niceCommandIndex_def command_word_facts)

lemma strip_stdbuf:
  assumes "wrapper_word ''stdbuf'' w" "command_word x" "stdbuf_flag f"
  shows "strip_one_wrapper (w # f # x # xs) = Some (x # xs)"
  using assms by (simp add: strip_one_defs stdbufCommandIndex_def stdbuf_steps)

lemma strip_env:
  assumes "wrapper_word ''env'' w" "command_word x" "list_all isSafeEnvAssignment vs"
  shows "strip_one_wrapper (w # vs @ x # xs) = Some (x # xs)"
  using assms by (simp add: strip_one_defs envCommandIndex_def env_index_assignments)

lemmas strip_wrappers = strip_time strip_timeout strip_nice strip_stdbuf strip_env

lemma strip_loop_Some: "strip_one_wrapper ws = Some ws' \<Longrightarrow> stripSafeWrapper_loop ws = stripSafeWrapper_loop ws'"
  by (simp add: stripSafeWrapper_loop.simps[of ws])

lemma strip_loop_prefix:
  "wrapper_prefix pre \<Longrightarrow> command_word x \<Longrightarrow> stripSafeWrapper_loop (pre @ x # xs) = stripSafeWrapper_loop (x # xs)"
proof (induction pre arbitrary: x xs rule: wrapper_prefix.induct)
  case (nest a b)
  obtain y ys where b: "b = y # ys" "command_word y"
    using wrapper_prefix_head[OF nest.hyps(2)] by (cases b) auto
  then have "stripSafeWrapper_loop (a @ b @ x # xs) = stripSafeWrapper_loop (b @ x # xs)"
    using nest.IH(1)[of y "ys @ x # xs"] by simp
  with nest.IH(2) nest.prems show ?case by simp
qed (rule strip_loop_Some, simp add: strip_wrappers)+

lemma strip_words_prefix:
  assumes "wrapper_prefix pre" "command_word x"
  shows "stripSafeWrapperWords (pre @ x # xs) = stripSafeWrapperWords (x # xs)"
proof -
  obtain y ys where pre: "pre = y # ys" "command_word y"
    using wrapper_prefix_head[OF assms(1)] by (cases pre) auto
  show ?thesis
    using strip_loop_prefix[OF assms, of xs] pre assms(2)
    by (simp add: stripSafeWrapperWords_def stripLeadingSafeAssignments_def command_word_facts)
qed

end
