(* ===== verification/ArgLaws.thy ===== *)
theory ArgLaws
  imports WrapperLaws
begin

text \<open>
  Laws of the argument checks: the grammar that \<open>argsAllowPositionals\<close> accepts, what the words
  of an accepted path command can be, and what the scan of \<open>find\<close> arguments finds.
\<close>

section \<open>The grammar of flag tables\<close>

definition inline_flag :: "string \<Rightarrow> bool" where
  "inline_flag a = (HasPrefix a ''--'' \<and> Contains a ''='')"

text \<open>\<open>flag_args A W args n\<close>: the words \<open>args\<close> are flags of \<open>A\<close>, flags of \<open>W\<close> with their value
  and \<open>n\<close> positional words.\<close>

inductive flag_args :: "string list \<Rightarrow> string list \<Rightarrow> string list \<Rightarrow> nat \<Rightarrow> bool" for A W where
  none: "flag_args A W [] 0"
| stop: "flag_args A W (''--'' # rest) (length rest)"
| inline: "inline_flag a \<Longrightarrow> flag_name a \<in> set W \<Longrightarrow> flag_args A W rest n \<Longrightarrow> flag_args A W (a # rest) n"
| separate: "HasPrefix a ''-'' \<Longrightarrow> a \<noteq> ''--'' \<Longrightarrow> \<not> inline_flag a \<Longrightarrow> a \<in> set W \<Longrightarrow> flag_args A W rest n \<Longrightarrow>
    flag_args A W (a # v # rest) n"
| flag: "HasPrefix a ''-'' \<Longrightarrow> a \<noteq> ''--'' \<Longrightarrow> \<not> inline_flag a \<Longrightarrow> a \<in> set A \<Longrightarrow> a \<notin> set W \<or> rest = [] \<Longrightarrow>
    flag_args A W rest n \<Longrightarrow> flag_args A W (a # rest) n"
| positional: "\<not> HasPrefix a ''-'' \<Longrightarrow> flag_args A W rest n \<Longrightarrow> flag_args A W (a # rest) (Suc n)"

inductive_simps flag_args_Nil: "flag_args A W [] n"
inductive_simps flag_args_Cons: "flag_args A W (a # rest) n"

lemma HasPrefix_dashes: "HasPrefix a ''--'' \<Longrightarrow> HasPrefix a ''-''"
  by (cases a) auto

lemma inline_flag_facts: "inline_flag a \<Longrightarrow> HasPrefix a ''-'' \<and> a \<noteq> ''--''"
  by (auto simp: inline_flag_def HasPrefix_dashes)

lemma positionals_loop:
  "m < 0 \<or> p \<le> m \<Longrightarrow>
   args_loop (argsAllowPositionals_step A W m) (\<lambda>_. True) p args
     \<longleftrightarrow> (\<exists>n. flag_args A W args n \<and> (m < 0 \<or> p + int n \<le> m))"
proof (induction "length args" arbitrary: args p rule: less_induct)
  case less
  show ?case
  proof (cases args)
    case Nil
    with less.prems show ?thesis by (auto simp: flag_args_Nil)
  next
    case (Cons a rest)
    have IH: "m < 0 \<or> p' \<le> m \<Longrightarrow>
        args_loop (argsAllowPositionals_step A W m) (\<lambda>_. True) p' (drop k rest)
          \<longleftrightarrow> (\<exists>n. flag_args A W (drop k rest) n \<and> (m < 0 \<or> p' + int n \<le> m))" for k p'
      using less.hyps[of "drop k rest" p'] Cons by simp
    consider "a = ''--''" | "inline_flag a" | "HasPrefix a ''-''" "a \<noteq> ''--''" "\<not> inline_flag a" | "\<not> HasPrefix a ''-''"
      by blast
    then show ?thesis
    proof cases
      case 1
      then show ?thesis using Cons
        by (auto simp: argsAllowPositionals_step_def flag_args_Cons inline_flag_def)
    next
      case 2
      then show ?thesis using Cons IH[of p 0] less.prems inline_flag_facts[of a]
        by (auto simp: argsAllowPositionals_step_def flag_args_Cons inline_flag_def)
    next
      case 3
      have step: "argsAllowPositionals_step A W m p a rest =
          (if a \<in> set W \<and> rest \<noteq> [] then Continue p 1
           else if a \<notin> set A then Return False else Continue p 0)"
        using 3 by (auto simp: argsAllowPositionals_step_def inline_flag_def)
      show ?thesis using Cons IH[of p 0] IH[of p 1] less.prems 3 step
        by (cases rest) (auto simp: flag_args_Cons flag_args_Nil)
    next
      case 4
      then have "a \<noteq> ''--''" "\<not> HasPrefix a ''--''" "\<not> inline_flag a"
        using HasPrefix_dashes by (auto simp: inline_flag_def)
      with 4 have step: "argsAllowPositionals_step A W m p a rest =
            (if m \<ge> 0 \<and> p + 1 > m then Return False else Continue (p + 1) 0)"
        and args: "flag_args A W (a # rest) n \<longleftrightarrow> (\<exists>k. n = Suc k \<and> flag_args A W rest k)" for n
        by (auto simp: argsAllowPositionals_step_def flag_args_Cons Let_def inline_flag_def)
      show ?thesis
      proof (cases "m \<ge> 0 \<and> p + 1 > m")
        case True
        then show ?thesis by (auto simp: Cons step args)
      next
        case False
        then have "m < 0 \<or> p + 1 \<le> m" by auto
        from IH[OF this, of 0] False show ?thesis
          by (auto simp: Cons step args algebra_simps)
      qed
    qed
  qed
qed

section \<open>Path commands\<close>

lemma path_flag_value:
  "pathCommandPathFlagValue cmd a = Some vc \<Longrightarrow> HasPrefix a ''-'' \<and> cmd \<noteq> ''find''"
  by (cases a) (auto simp: pathCommandPathFlagValue_def split: if_split_asm)

lemma unsafe_word_find: "unsafeReadOnlyPathWord cmd a \<Longrightarrow> cmd = ''find''"
  by (simp add: unsafeReadOnlyPathWord_def split: if_split_asm)

text \<open>An accepted word is a flag, the value of a flag, or a safe relative path.\<close>

definition path_word_ok :: "string \<Rightarrow> string \<Rightarrow> bool" where
  "path_word_ok cmd a = ((HasPrefix a ''-'' \<or> safeRelativeShellPathArg a) \<and> \<not> unsafeReadOnlyPathWord cmd a)"

lemma path_step_cases:
  "readOnlyPathCommand_step cmd u a rest = Return False
   \<or> path_word_ok cmd a \<and>
     (readOnlyPathCommand_step cmd u a rest = Continue () 0
      \<or> readOnlyPathCommand_step cmd u a rest = Continue () 1 \<and> cmd \<noteq> ''find'' \<and> rest \<noteq> []
        \<and> safeRelativeShellPathArg (hd rest))"
proof (cases "a = ''--''")
  case True
  then show ?thesis
    by (simp add: readOnlyPathCommand_step_def path_word_ok_def unsafeReadOnlyPathWord_def)
next
  case dashes: False
  show ?thesis
  proof (cases "unsafeReadOnlyPathWord cmd a")
    case True
    with dashes show ?thesis by (simp add: readOnlyPathCommand_step_def)
  next
    case safe: False
    show ?thesis
    proof (cases "pathCommandPathFlagValue cmd a")
      case None
      with dashes safe show ?thesis
        by (cases "Cut a (CHR ''='')") (auto simp: readOnlyPathCommand_step_def path_word_ok_def split: if_splits)
    next
      case (Some vc)
      with path_flag_value[OF Some] dashes safe show ?thesis
        by (cases vc; cases rest) (auto simp: readOnlyPathCommand_step_def path_word_ok_def)
    qed
  qed
qed

lemma path_words_ok:
  "args_loop (readOnlyPathCommand_step cmd) (\<lambda>_. True) () args \<Longrightarrow> list_all (path_word_ok cmd) args"
proof (induction "length args" arbitrary: args rule: less_induct)
  case less
  show ?case
  proof (cases args)
    case (Cons a rest)
    from path_step_cases[of cmd "()" a rest] show ?thesis
    proof (elim disjE conjE)
      assume "readOnlyPathCommand_step cmd () a rest = Return False"
      with less.prems Cons show ?thesis by simp
    next
      assume "path_word_ok cmd a" "readOnlyPathCommand_step cmd () a rest = Continue () 0"
      with less.prems less.hyps[of rest] Cons show ?thesis by simp
    next
      assume s: "path_word_ok cmd a" "readOnlyPathCommand_step cmd () a rest = Continue () 1"
        "cmd \<noteq> ''find''" "rest \<noteq> []" "safeRelativeShellPathArg (hd rest)"
      then obtain v vs where rest: "rest = v # vs" by (cases rest) auto
      then have "path_word_ok cmd v" using s by (auto simp: path_word_ok_def dest: unsafe_word_find)
      moreover have "list_all (path_word_ok cmd) vs"
        using less.prems less.hyps[of vs] Cons s rest by simp
      ultimately show ?thesis using Cons rest s by simp
    qed
  qed simp
qed

section \<open>\<open>find\<close> arguments\<close>

lemma find_loop_iff:
  "destructiveFind_loop args \<longleftrightarrow>
   ''-delete'' \<in> set args
   \<or> (\<exists>before w command. args = before @ w # command \<and> isFindExec w \<and> command \<noteq> [] \<and> destructiveExecCommand command)"
proof (induction args)
  case (Cons w rest)
  have "(\<exists>before v command. w # rest = before @ v # command \<and> isFindExec v \<and> command \<noteq> [] \<and> destructiveExecCommand command)
    \<longleftrightarrow> isFindExec w \<and> rest \<noteq> [] \<and> destructiveExecCommand rest
      \<or> (\<exists>before v command. rest = before @ v # command \<and> isFindExec v \<and> command \<noteq> [] \<and> destructiveExecCommand command)"
    by (auto simp: Cons_eq_append_conv)
  with Cons show ?case by auto
qed simp

end
