(* ===== verification/BashLaws.thy ===== *)
theory BashLaws
  imports ArgLaws
begin

text \<open>
  Laws of the entry points of the classifier: nested commands, raw path operands, and the two
  text functions of the Bash tool.
\<close>

section \<open>Nested commands\<close>

definition nested_opener :: "char \<Rightarrow> bool" where
  "nested_opener c = (c = btick \<or> c = CHR ''$'' \<or> c = CHR ''('')"

lemma nested_skip:
  "list_all (\<lambda>c. \<not> nested_opener c) a \<Longrightarrow>
   hasNestedShellDestructiveCommand_loop q (a @ s) = hasNestedShellDestructiveCommand_loop (quoting_after q a) s"
  by (induction a arbitrary: q) (auto simp: nested_opener_def quote_step_def split: option.split)

lemma nested_paren:
  assumes "\<not> inSingle q" "\<not> escaped q"
    and "findShellClosingParen (d @ '')'' @ b) = Some (length d)" "IsDestructiveCommand d"
  shows "hasNestedShellDestructiveCommand_loop q (''$('' @ d @ '')'' @ b)"
    "\<not> inDouble q \<Longrightarrow> hasNestedShellDestructiveCommand_loop q (''('' @ d @ '')'' @ b)"
  using assms by (simp_all add: quote_branch_plain quote_special_def)

section \<open>Raw operands\<close>

text \<open>Trimming blanks and quotes off a word cannot make a \<open>..\<close> component or a leading slash
  appear or vanish.\<close>

definition path_char :: "char \<Rightarrow> bool" where
  "path_char c = (c = CHR ''/'' \<or> c = CHR ''.'')"

definition no_path_char :: "string \<Rightarrow> bool" where
  "no_path_char s = list_all (\<lambda>c. \<not> path_char c) s"

lemma no_path_char_simps [simp]:
  "no_path_char []" "no_path_char (c # s) \<longleftrightarrow> \<not> path_char c \<and> no_path_char s"
  "no_path_char (s @ t) \<longleftrightarrow> no_path_char s \<and> no_path_char t" "no_path_char (rev s) \<longleftrightarrow> no_path_char s"
  by (auto simp: no_path_char_def list_all_iff)

lemma space_bytes:
  "ascii_space c \<Longrightarrow> \<not> path_char c" "space2 a b \<Longrightarrow> \<not> path_char a \<and> \<not> path_char b"
  "space3 a b c \<Longrightarrow> \<not> path_char a \<and> \<not> path_char b \<and> \<not> path_char c"
  by (auto simp: ascii_space_def space2_def space3_def path_char_def in_range_def byte_def)

lemma space_len_no_path_char: "no_path_char (take (space_len s) s)"
  by (auto simp: space_len_def space_bytes split: list.split)

lemma space_len_rev_no_path_char: "no_path_char (take (space_len_rev s) s)"
  by (auto simp: space_len_rev_def space_bytes split: list.split)

lemma trim_left_space_decomp: "\<exists>l. s = l @ trim_left_space s \<and> no_path_char l"
proof (induction s rule: trim_left_space.induct)
  case (1 s)
  show ?case
  proof (cases "s \<noteq> [] \<and> space_len s \<noteq> 0")
    case True
    with "1" obtain l where l: "drop (space_len s) s = l @ trim_left_space (drop (space_len s) s)" "no_path_char l"
      by blast
    have "s = take (space_len s) s @ drop (space_len s) s" by simp
    also have "\<dots> = (take (space_len s) s @ l) @ trim_left_space s"
      using True l(1) by (simp add: trim_left_space.simps[of s])
    finally show ?thesis using l(2) space_len_no_path_char no_path_char_simps(3) by blast
  next
    case False
    then have "trim_left_space s = s" using trim_left_space.simps[of s] by auto
    then show ?thesis by (intro exI[of _ "[]"]) simp
  qed
qed

lemma trim_left_space_rev_decomp: "\<exists>l. s = l @ trim_left_space_rev s \<and> no_path_char l"
proof (induction s rule: trim_left_space_rev.induct)
  case (1 s)
  show ?case
  proof (cases "s \<noteq> [] \<and> space_len_rev s \<noteq> 0")
    case True
    with "1" obtain l where l: "drop (space_len_rev s) s = l @ trim_left_space_rev (drop (space_len_rev s) s)"
      "no_path_char l"
      by blast
    have "s = take (space_len_rev s) s @ drop (space_len_rev s) s" by simp
    also have "\<dots> = (take (space_len_rev s) s @ l) @ trim_left_space_rev s"
      using True l(1) by (simp add: trim_left_space_rev.simps[of s])
    finally show ?thesis using l(2) space_len_rev_no_path_char no_path_char_simps(3) by blast
  next
    case False
    then have "trim_left_space_rev s = s" using trim_left_space_rev.simps[of s] by auto
    then show ?thesis by (intro exI[of _ "[]"]) simp
  qed
qed

lemma TrimSpace_decomp: "\<exists>l r. s = l @ TrimSpace s @ r \<and> no_path_char l \<and> no_path_char r"
proof -
  obtain l where l: "s = l @ trim_left_space s" "no_path_char l" using trim_left_space_decomp by blast
  obtain r where r: "rev (trim_left_space s) = r @ trim_left_space_rev (rev (trim_left_space s))" "no_path_char r"
    using trim_left_space_rev_decomp by blast
  from r(1) have "trim_left_space s = TrimSpace s @ rev r"
    unfolding TrimSpace_def trim_right_space_def by (metis rev_append rev_rev_ident)
  with l r(2) show ?thesis by (intro exI[of _ l] exI[of _ "rev r"]) simp
qed

lemma Trim_decomp:
  assumes "list_all (\<lambda>c. \<not> path_char c) cs"
  shows "\<exists>l r. s = l @ Trim s cs @ r \<and> no_path_char l \<and> no_path_char r"
proof -
  let ?P = "\<lambda>c. c \<in> set cs"
  have n: "no_path_char (takeWhile ?P t)" for t
    using assms by (auto simp: no_path_char_def list_all_iff dest!: set_takeWhileD)
  have "TrimLeft s cs = Trim s cs @ rev (takeWhile ?P (rev (TrimLeft s cs)))"
    unfolding Trim_def TrimRight_def by (metis rev_append rev_rev_ident takeWhile_dropWhile_id)
  then have "s = takeWhile ?P s @ Trim s cs @ rev (takeWhile ?P (rev (TrimLeft s cs)))"
    by (metis TrimLeft_def takeWhile_dropWhile_id)
  with n show ?thesis by (metis no_path_char_simps(4))
qed

lemma Split_no_sep_left: "sep \<notin> set l \<Longrightarrow> Split (l @ s) sep = (l @ hd (Split s sep)) # tl (Split s sep)"
  by (induction l) (auto split: list.split)

lemma Split_no_sep_right: "sep \<notin> set r \<Longrightarrow> Split (s @ r) sep = butlast (Split s sep) @ [last (Split s sep) @ r]"
proof (induction s)
  case Nil
  then show ?case using Split_no_sep_left[of sep r "[]"] by simp
next
  case (Cons c s)
  obtain p ps where sp: "Split s sep = p # ps" by (cases "Split s sep") auto
  show ?case using Cons sp by (cases ps) auto
qed

lemma no_path_char_seps: "no_path_char s \<Longrightarrow> CHR ''/'' \<notin> set s \<and> CHR ''.'' \<notin> set s"
  by (auto simp: no_path_char_def list_all_iff path_char_def)

lemma dotdot_trimmed:
  assumes "no_path_char l" "no_path_char r" "''..'' \<in> set (Split (l @ v @ r) (CHR ''/''))"
  shows "''..'' \<in> set (Split v (CHR ''/''))"
proof -
  note ns = no_path_char_seps[OF assms(1)] no_path_char_seps[OF assms(2)]
  have left: "l @ x = ''..'' \<Longrightarrow> l = []" for x using ns by (cases l) auto
  have right: "x @ r = ''..'' \<Longrightarrow> r = []" for x using ns by (cases r rule: rev_cases) auto
  have "''..'' \<in> set (Split (v @ r) (CHR ''/''))"
    using assms(3) ns left[of "hd (Split (v @ r) (CHR ''/''))"] list.set_sel(1)[of "Split (v @ r) (CHR ''/'')"]
    by (auto simp: Split_no_sep_left[of "CHR ''/''" l] dest: list.set_sel(2)[OF Split_not_Nil])
  then show ?thesis
    using ns right[of "last (Split v (CHR ''/''))"] last_in_set[OF Split_not_Nil[of v "CHR ''/''"]]
    by (auto simp: Split_no_sep_right[of "CHR ''/''" r v] dest: in_set_butlastD)
qed

lemma slash_trimmed:
  "no_path_char l \<Longrightarrow> no_path_char r \<Longrightarrow> v \<noteq> [] \<Longrightarrow> HasPrefix (l @ v @ r) ''/'' \<Longrightarrow> HasPrefix v ''/''"
  by (cases l; cases v) (auto simp: path_char_def)

lemma quote_chars_no_path: "list_all (\<lambda>c. \<not> path_char c) quote_chars"
  by (simp add: quote_chars_def path_char_def)

text \<open>A word that passes \<open>safeRelativeShellPathArg\<close> names a file beneath the working directory.\<close>

lemma safe_relative_beneath:
  assumes "safeRelativeShellPathArg v"
  shows "prefix cwd (resolve_path cwd v)"
proof -
  let ?core = "Trim (TrimSpace v) quote_chars"
  obtain l1 r1 where 1: "v = l1 @ TrimSpace v @ r1" "no_path_char l1" "no_path_char r1"
    using TrimSpace_decomp by blast
  obtain l2 r2 where 2: "TrimSpace v = l2 @ ?core @ r2" "no_path_char l2" "no_path_char r2"
    using Trim_decomp[OF quote_chars_no_path] by blast
  have v: "v = (l1 @ l2) @ ?core @ (r2 @ r1)" using 1(1) 2(1) by (metis append_assoc)
  have n: "no_path_char (l1 @ l2)" "no_path_char (r2 @ r1)" using 1 2 by simp_all
  have ne: "?core \<noteq> []" using assms by (simp add: safeRelativeShellPathArg_def Let_def split: if_split_asm)
  have "''..'' \<notin> set (Split v (CHR ''/''))"
    using dotdot_trimmed[OF n, of ?core] v safe_relative_parts(3)[OF assms] by metis
  moreover have "\<not> HasPrefix v ''/''"
    using slash_trimmed[OF n ne] v safe_relative_parts(1)[OF assms] by metis
  ultimately show ?thesis by (simp add: resolve_path_def resolve_beneath)
qed

section \<open>Last lines\<close>

lemma Join_Cons: "xs \<noteq> [] \<Longrightarrow> Join (x # xs) sep = x @ sep @ Join xs sep"
  by (cases xs) simp_all

lemma Join_Split: "Join (Split s c) [c] = s"
proof (induction s)
  case (Cons a s)
  obtain p ps where sp: "Split s c = p # ps" by (cases "Split s c") auto
  show ?case using Cons sp by (cases ps) auto
qed simp

lemma Split_pieces: "p \<in> set (Split s c) \<Longrightarrow> c \<notin> set p"
  by (induction s arbitrary: p) (auto split: list.split_asm if_split_asm)

lemma Split_piece: "c \<notin> set x \<Longrightarrow> Split (x @ c # s) c = x # Split s c"
  by (simp add: Split_no_sep_left)

lemma Split_Join: "xs \<noteq> [] \<Longrightarrow> (\<And>x. x \<in> set xs \<Longrightarrow> c \<notin> set x) \<Longrightarrow> Split (Join xs [c]) c = xs"
proof (induction xs)
  case (Cons x xs)
  show ?case
  proof (cases xs)
    case Nil
    then show ?thesis using Cons.prems Split_no_sep_left[of c x "[]"] by simp
  next
    case (Cons y ys)
    then show ?thesis using Cons.IH Cons.prems by (simp add: Join_Cons Split_piece)
  qed
qed simp

lemma Join_suffix: "xs \<noteq> [] \<Longrightarrow> suffix (Join xs sep) (Join (ys @ xs) sep)"
  by (induction ys) (auto simp: Join_Cons suffix_appendI)

section \<open>Decimal numbers\<close>

lemma digit_char:
  assumes "d < 10"
  shows "byte (char_of (48 + d)) = 48 + d" "is_digit (char_of (48 + d))"
  using assms by (simp_all add: byte_def in_range_def)

lemma digits_value_snoc: "digits_value (s @ [c]) = digits_value s * 10 + (byte c - 48)"
  by (simp add: digits_value_def)

lemma dec_digits: "list_all is_digit (dec n) \<and> dec n \<noteq> []"
  by (induction n rule: dec.induct) (subst (1 2) dec.simps, auto simp: digit_char)

lemma digits_value_dec: "digits_value (dec n) = n"
proof (induction n rule: dec.induct)
  case (1 n)
  show ?case
  proof (cases "n < 10")
    case True
    then show ?thesis by (simp add: dec.simps[of n] digits_value_def digit_char)
  next
    case False
    with 1 show ?thesis
      by (simp add: dec.simps[of n] digits_value_snoc digit_char)
  qed
qed

lemma digit_facts:
  assumes "is_digit c"
  shows "\<not> quote_special c" "c \<noteq> CHR ''&''" "\<not> segment_sep c" "\<not> word_sep c" "\<not> blank c" "plain c"
  using assms
  by (auto simp: quote_special_def segment_sep_def word_sep_def blank_def plain_def is_ascii_def in_range_def byte_def)

lemma Atoi_dec: "n < 2 ^ 63 \<Longrightarrow> isUnsignedInteger (dec n) \<and> Atoi (dec n) = Some n"
  using dec_digits[of n] by (simp add: isUnsignedInteger_def Atoi_def digits_value_dec)

text \<open>The command line \<open>sleep N\<close>, alone or before a separator.\<close>

lemma segs_out_digits:
  "list_all is_digit ds \<Longrightarrow> segs_out cur q0 (ds @ s) = segs_out (cur @ ds) q0 s"
proof (induction ds arbitrary: cur)
  case (Cons d ds)
  then have "quote_branch q0 d = None" "\<not> segment_sep d" "d \<noteq> CHR ''&''"
    by (simp_all add: quote_branch_q0 digit_facts)
  with Cons show ?case by simp
qed simp

lemma words_digits:
  "list_all is_digit ds \<Longrightarrow> shellWords_loop ws cur q0 ds = flush_word ws (cur @ ds)"
proof (induction ds arbitrary: cur)
  case (Cons d ds)
  then have "quote_branch q0 d = None" "\<not> word_sep d" by (simp_all add: quote_branch_q0 digit_facts)
  with Cons show ?case by simp
qed simp

lemma sleep_words: "shellWords (''sleep '' @ dec n) = [''sleep'', dec n]"
  using dec_digits[of n]
  by (simp add: shellWords_def quote_branch_def word_sep_def flush_word_def words_digits)

lemma TrimSpace_sleep: "TrimSpace (''sleep '' @ dec n) = ''sleep '' @ dec n"
proof -
  obtain ds d where d: "dec n = ds @ [d]" "is_digit d"
    using dec_digits[of n] by (cases "dec n" rule: rev_cases) auto
  have "plain_text (dec n)" using dec_digits[of n] by (auto simp: plain_text_def list_all_iff digit_facts)
  then have "plain_text (''sleep '' @ dec n)" by (simp add: plain_def is_ascii_def byte_def)
  then have "TrimSpace (''sleep '' @ dec n) = trim_blanks (''sleep '' @ dec n)" by (rule TrimSpace_plain)
  also have "\<dots> = ''sleep '' @ dec n"
    using d digit_facts(5)[OF d(2)] by (simp add: trim_blanks_def blank_def)
  finally show ?thesis .
qed

lemma sleep_segments:
  "splitCommandSegments (''sleep '' @ dec n) = [''sleep '' @ dec n]"
  "segment_sep sep \<Longrightarrow>
   splitCommandSegments (''sleep '' @ dec n @ sep # s) = (''sleep '' @ dec n) # splitCommandSegments s"
proof -
  have run: "segs_out [] q0 (''sleep '' @ dec n @ s) = segs_out (''sleep '' @ dec n) q0 s" for s
    using dec_digits[of n]
    by (simp add: quote_branch_def segment_sep_def segs_out_digits)
  have nt: "nonempty_trim (''sleep '' @ dec n) = [''sleep '' @ dec n]"
    using TrimSpace_sleep[of n] by (simp add: nonempty_trim_def)
  show "splitCommandSegments (''sleep '' @ dec n) = [''sleep '' @ dec n]"
    using run[of "[]"] nt by (simp add: split_eq_out)
  assume sep: "segment_sep sep"
  then have "quote_branch q0 sep = None" by (simp add: quote_branch_q0 segment_sep_facts)
  then show "splitCommandSegments (''sleep '' @ dec n @ sep # s) = (''sleep '' @ dec n) # splitCommandSegments s"
    using run[of "sep # s"] nt sep by (simp add: split_eq_out)
qed

end
