(* ===== verification/BashProps.thy ===== *)
theory BashProps
  imports BashLaws
begin

text \<open>
  The properties of the Bash classifier: what a read-only verdict guarantees, that a
  destructive part is found wherever the scanner can reach it, and that the scanners agree
  with their reference descriptions.
\<close>

section \<open>What a read-only verdict guarantees\<close>

lemma read_only_facts:
  assumes "IsReadOnlyCommand c"
  defines "s \<equiv> TrimSpace (stripShellLineComments c)"
  shows "shellSyntaxComplete s" "\<not> hasShellMutationSyntax s" "\<not> IsDestructiveCommand s"
  using assms by (auto simp: IsReadOnlyCommand_def Let_def split: if_split_asm)

text \<open>C8: A command that \<open>IsReadOnlyCommand\<close> accepts is never one that \<open>IsDestructiveCommand\<close>
  reports, for every command text of ASCII bytes other than vertical tab and form feed. The two
  functions trim and strip the text differently, so this needs that comment removal is
  idempotent and that outer blanks are invisible to every scan.\<close>

theorem read_only_not_destructive:
  assumes "plain_text c" "IsReadOnlyCommand c"
  shows "\<not> IsDestructiveCommand c"
  using read_only_facts[OF assms(2)] destructive_trim[OF assms(1)] by simp

theorem read_only_not_destructive_witness:
  "\<not> IsDestructiveCommand ''ls -la src | wc -l  # count''"
  by (rule read_only_not_destructive) code_simp+

text \<open>C9: In a command that is accepted as read-only, every byte that is outside single quotes
  and is neither a quote nor escaped is no dollar sign and no backtick; outside double quotes
  it is no redirection and no ampersand either. So nothing is expanded, redirected or sent to
  the background; a list joined with two ampersands is refused too.\<close>

theorem read_only_no_expansion:
  assumes "IsReadOnlyCommand c" "TrimSpace (stripShellLineComments c) = p @ ch # r"
    and "quote_branch (quoting_after q0 p) ch = None" "\<not> inSingle (quoting_after q0 p)"
  shows "\<not> double_quoted_subst ch \<and>
    (inDouble (quoting_after q0 p) \<or> \<not> redirect_or_subst ch \<and> ch \<noteq> CHR ''&'')"
  using mutation_char[OF read_only_facts(2)[OF assms(1)] assms(2,3)] assms(4) by blast

theorem read_only_no_expansion_witness:
  "\<not> double_quoted_subst (CHR ''a'') \<and>
   (inDouble (quoting_after q0 ''echo \"'') \<or> \<not> redirect_or_subst (CHR ''a'') \<and> CHR ''a'' \<noteq> CHR ''&'')"
  by (rule read_only_no_expansion[where c = "''echo \"a b\"''" and r = "'' b\"''"]) code_simp+

text \<open>Every operand of an accepted path command (\<open>ls\<close>, \<open>cat\<close>, \<open>grep\<close>, \<open>find\<close> and the others)
  is a flag or names a file beneath the working directory, resolved component by component;
  and no word of an accepted \<open>find\<close> deletes, executes or writes.\<close>

theorem read_only_path_operands:
  assumes "readOnlyWords words" "stripSafeWrapperWords words = w # args"
    and "filepathBase w \<in> set pathCommands" "a \<in> set args"
  shows "(HasPrefix a ''-'' \<or> prefix cwd (resolve_path cwd a)) \<and>
    (filepathBase w = ''find'' \<longrightarrow> \<not> unsafeReadOnlyPathWord ''find'' a)"
proof -
  have "readOnlyPathCommand (w # args)"
    using assms(1-3) by (simp add: readOnlyWords_def Let_def)
  then have "list_all (path_word_ok (filepathBase w)) args"
    by (simp add: readOnlyPathCommand_def path_words_ok)
  with assms(4) have "path_word_ok (filepathBase w) a" by (simp add: list_all_iff)
  then show ?thesis using safe_relative_beneath[of a cwd] by (auto simp: path_word_ok_def)
qed

theorem read_only_path_operands_witness:
  "prefix [''home'', ''u''] (resolve_path [''home'', ''u''] ''src'') \<and> \<not> unsafeReadOnlyPathWord ''find'' ''src''"
proof -
  let ?words = "[''time'', ''find'', ''src'', ''-name'', ''*.go'']"
  have "readOnlyWords ?words" "stripSafeWrapperWords ?words = ''find'' # [''src'', ''-name'', ''*.go'']"
    "filepathBase ''find'' \<in> set pathCommands" "filepathBase ''find'' = ''find''"
    "\<not> HasPrefix ''src'' ''-''"
    by code_simp+
  with read_only_path_operands[of ?words "''find''" "[''src'', ''-name'', ''*.go'']" "''src''" "[''home'', ''u'']"]
  show ?thesis by simp
qed

section \<open>What a destructive part cannot hide behind\<close>

lemma strip_after_separator:
  assumes "shellSyntaxComplete a" "stripShellLineComments a = a" "segment_sep sep"
  shows "stripShellLineComments (a @ sep # b) = a @ sep # stripShellLineComments b"
proof -
  have a: "strip_out q0 True a = a" "quoting_after q0 a = q0"
    using assms(1,2) by (simp_all add: strip_eq_out shellSyntaxComplete_iff)
  obtain w' where "strip_out q0 True (a @ sep # b) = a @ strip_out q0 w' (sep # b)"
    using strip_out_append[OF a(1)] a(2) by auto
  moreover have "quote_branch q0 sep = None"
    using assms(3) by (simp add: quote_branch_q0 segment_sep_facts)
  ultimately show ?thesis using segment_sep_facts[OF assms(3)] by (simp add: strip_eq_out)
qed

lemma split_after_separator:
  assumes "shellSyntaxComplete a" "segment_sep sep"
  shows "splitCommandSegments (a @ sep # b) = splitCommandSegments a @ splitCommandSegments b"
  using segs_out_append[OF assms(2)] assms(1) by (simp add: split_eq_out shellSyntaxComplete_iff)

text \<open>A destructive segment is found behind any complete command text: if one of the segments
  of \<open>b\<close> (comments removed) is destructive then so is \<open>a\<close> followed by a separator and \<open>b\<close>, for
  every \<open>a\<close> whose quotes are closed and that holds no comment.\<close>

theorem destructive_after_separator:
  assumes "shellSyntaxComplete a" "stripShellLineComments a = a" "segment_sep sep"
    and "segment \<in> set (splitCommandSegments (stripShellLineComments b))"
    and "shellWords segment \<noteq> []" "destructiveWords (shellWords segment)"
  shows "IsDestructiveCommand (a @ sep # b)"
proof -
  have "segment \<in> set (splitCommandSegments (stripShellLineComments (a @ sep # b)))"
    using assms(4) by (simp add: strip_after_separator[OF assms(1-3)] split_after_separator[OF assms(1,3)])
  with assms(5,6) have "list_ex (\<lambda>segment. if shellWords segment = [] then False else destructiveWords (shellWords segment))
      (splitCommandSegments (stripShellLineComments (a @ sep # b)))"
    by (auto simp: list_ex_iff)
  then show ?thesis by (subst IsDestructiveCommand.simps) (simp only: Let_def simp_thms if_bool_eq_disj)
qed

theorem destructive_after_separator_witness: "IsDestructiveCommand (''echo hello'' @ CHR '';'' # '' ls | rm -rf x'')"
  by (rule destructive_after_separator[where segment = "''rm -rf x''"]) code_simp+

text \<open>A destructive command inside a command substitution or a subshell is found: in a command
  text (comments removed) that holds no opening bracket, dollar sign or backtick before it,
  that is not inside single quotes there (nor, for a subshell, double quotes) and whose closing
  parenthesis is the one the scanner finds.\<close>

theorem destructive_nested:
  assumes "stripShellLineComments c = a @ opener @ d @ '')'' @ b"
    and "list_all (\<lambda>x. \<not> nested_opener x) a"
    and "\<not> inSingle (quoting_after q0 a)" "\<not> escaped (quoting_after q0 a)"
    and "opener = ''$('' \<or> opener = ''('' \<and> \<not> inDouble (quoting_after q0 a)"
    and "findShellClosingParen (d @ '')'' @ b) = Some (length d)" "IsDestructiveCommand d"
  shows "IsDestructiveCommand c"
proof -
  have "hasNestedShellDestructiveCommand_loop (quoting_after q0 a) (opener @ d @ '')'' @ b)"
    using nested_paren[OF assms(3,4,6,7)] assms(5) by auto
  then have "hasNestedShellDestructiveCommand_loop q0 (stripShellLineComments c)"
    unfolding assms(1) by (simp only: nested_skip[OF assms(2)])
  then show ?thesis by (subst IsDestructiveCommand.simps) (simp only: Let_def if_True)
qed

theorem destructive_nested_witness: "IsDestructiveCommand ''echo \"v=$(git reset --hard)\"''"
  by (rule destructive_nested[where a = "''echo \"v=''" and opener = "''$(''" and d = "''git reset --hard''" and b = "''\"''"])
    code_simp+

text \<open>Wrapper commands change neither verdict: a command line behind any nesting of \<open>time\<close>,
  \<open>nohup\<close>, \<open>timeout\<close>, \<open>nice\<close>, \<open>stdbuf\<close> and \<open>env\<close> (with their options and the environment
  assignments known to be safe) is classified exactly as the command line itself.\<close>

theorem wrappers_transparent:
  assumes "wrapper_prefix pre" "command_word x"
  shows "destructiveWords (pre @ x # xs) = destructiveWords (x # xs) \<and>
    readOnlyWords (pre @ x # xs) = readOnlyWords (x # xs)"
  using strip_words_prefix[OF assms, of xs]
  by (simp add: destructiveWords.simps[of "pre @ x # xs"] destructiveWords.simps[of "x # xs"] readOnlyWords_def)

theorem wrappers_transparent_witness:
  "destructiveWords ([''time''] @ [''env'', ''GOOS=linux''] @ ''rm'' # [''x'']) = destructiveWords (''rm'' # [''x'']) \<and>
   readOnlyWords ([''time''] @ [''env'', ''GOOS=linux''] @ ''rm'' # [''x'']) = readOnlyWords (''rm'' # [''x''])"
proof -
  have "wrapper_prefix [''time'']" by (rule wrapper_prefix.time) code_simp
  moreover have "wrapper_prefix [''env'', ''GOOS=linux'']" by (rule wrapper_prefix.env) code_simp+
  ultimately have "wrapper_prefix ([''time''] @ [''env'', ''GOOS=linux''])" by (rule wrapper_prefix.nest)
  from wrappers_transparent[OF this, of "''rm''" "[''x'']"] show ?thesis by code_simp
qed

text \<open>The scan of \<open>find\<close> arguments reports exactly the command lines that hold \<open>-delete\<close> or
  an \<open>-exec\<close>, \<open>-execdir\<close>, \<open>-ok\<close> or \<open>-okdir\<close> followed by a destructive command.\<close>

theorem destructive_find_iff:
  assumes "stripLeadingAssignments (stripSafeWrapperWords words) = w # args" "filepathBase w = ''find''"
  shows "destructiveWords words \<longleftrightarrow>
    ''-delete'' \<in> set args \<or>
    (\<exists>before e command. args = before @ e # command \<and> isFindExec e \<and> command \<noteq> [] \<and> destructiveExecCommand command)"
  using assms by (simp add: destructiveWords.simps[of words] find_loop_iff alwaysDestructive_def)

theorem destructive_find_iff_witness:
  "destructiveWords [''find'', ''.'', ''-exec'', ''rm'', ''{}'', ''+''] \<longleftrightarrow>
    ''-delete'' \<in> set [''.'', ''-exec'', ''rm'', ''{}'', ''+''] \<or>
    (\<exists>before e command. [''.'', ''-exec'', ''rm'', ''{}'', ''+''] = before @ e # command \<and> isFindExec e
       \<and> command \<noteq> [] \<and> destructiveExecCommand command)"
  by (rule destructive_find_iff[where w = "''find''"]) code_simp+

section \<open>Agreement with reference descriptions\<close>

text \<open>\<open>argsAllowPositionals\<close> accepts exactly the word lists of the grammar \<open>flag_args\<close> (flags
  of the allowed table, flags of the other table with an inline or a separate value, positional
  words, everything after \<open>--\<close>) whose number of positional words is within the bound; a negative
  bound is none.\<close>

theorem argsAllowPositionals_grammar:
  "argsAllowPositionals args A W m \<longleftrightarrow> (\<exists>n. flag_args A W args n \<and> (m < 0 \<or> int n \<le> m))"
  using positionals_loop[of m 0 A W args] unfolding argsAllowPositionals_def by (cases "m < 0") auto

lemma strip_quoted:
  assumes "squote \<notin> set w"
  shows "strip_out q0 b (single_quoted w @ s) = single_quoted w @ strip_out q0 False s"
proof -
  have "strip_out in_single b' (w @ t) = w @ strip_out in_single (b' \<and> w = []) t" for b' t
    using assms by (induction w arbitrary: b') (auto simp: quote_branch_in_single)
  moreover have "quote_branch q0 squote = Some in_single" by (simp add: quote_branch_def q0_def)
  ultimately show ?thesis by (simp add: single_quoted_def quote_branch_in_single)
qed

lemma nested_quoted:
  assumes "squote \<notin> set w"
  shows "hasNestedShellDestructiveCommand_loop q0 (single_quoted w @ s) = hasNestedShellDestructiveCommand_loop q0 s"
proof -
  have "hasNestedShellDestructiveCommand_loop in_single (w @ t) = hasNestedShellDestructiveCommand_loop in_single t" for t
    using assms by (induction w) (auto simp: quote_branch_in_single)
  moreover have "quote_branch q0 squote = Some in_single" by (simp add: quote_branch_def q0_def)
  ultimately show ?thesis by (simp add: single_quoted_def quote_branch_in_single)
qed

lemma quoted_line_scans:
  "list_all (\<lambda>w. squote \<notin> set w) vs \<Longrightarrow>
   strip_out q0 b (Join (map single_quoted vs) '' '') = Join (map single_quoted vs) '' ''
   \<and> \<not> hasNestedShellDestructiveCommand_loop q0 (Join (map single_quoted vs) '' '')"
proof (induction vs arbitrary: b)
  case (Cons v vs)
  have sp: "quote_branch q0 (CHR '' '') = None" by (simp add: quote_branch_q0 quote_special_def)
  show ?case
  proof (cases vs)
    case Nil
    then show ?thesis using strip_quoted[of v b "[]"] nested_quoted[of v "[]"] Cons.prems by simp
  next
    case (Cons u us)
    then have J: "Join (map single_quoted (v # vs)) '' '' = single_quoted v @ '' '' @ Join (map single_quoted vs) '' ''"
      by simp
    show ?thesis unfolding J using strip_quoted[of v b] nested_quoted[of v] Cons.IH[of True] Cons.prems sp
      by (simp add: word_break_def)
  qed
qed simp

text \<open>The verdict on a command line built from quoted words is the verdict on the words: for
  non-empty words without a single quote, each put in single quotes and joined by blanks, the
  line is one segment, its words are read back, and it is destructive exactly when the word list is.\<close>

theorem quoted_words_round_trip:
  assumes "ws \<noteq> []" "list_all (\<lambda>w. w \<noteq> [] \<and> squote \<notin> set w) ws"
  defines "line \<equiv> Join (map single_quoted ws) '' ''"
  shows "splitCommandSegments line = [line] \<and> shellWords line = ws \<and>
    IsDestructiveCommand line = destructiveWords ws"
proof -
  have nq: "list_all (\<lambda>w. squote \<notin> set w) ws" using assms(2) by (simp add: list_all_iff)
  obtain m where m: "line = squote # m @ [squote]"
    using Join_single_quoted_ends[OF assms(1)] line_def by blast
  have segs: "splitCommandSegments line = [line]"
    using segs_joined[OF nq, of "[]"] TrimSpace_quoted[of m] m
    by (simp add: line_def[symmetric] split_eq_out nonempty_trim_def)
  moreover have words: "shellWords line = ws"
    using words_joined[OF assms(2), of "[]"] by (simp add: line_def shellWords_def)
  moreover have "stripShellLineComments line = line" "\<not> hasNestedShellDestructiveCommand_loop q0 line"
    using quoted_line_scans[OF nq, of True] by (simp_all add: line_def strip_eq_out)
  then have "IsDestructiveCommand line = destructiveWords ws"
    using segs words assms(1) by (simp add: IsDestructiveCommand.simps[of line])
  ultimately show ?thesis by blast
qed

theorem quoted_words_round_trip_witness:
  "splitCommandSegments (Join (map single_quoted [''rm'', ''a; b'']) '' '') = [Join (map single_quoted [''rm'', ''a; b'']) '' ''] \<and>
   shellWords (Join (map single_quoted [''rm'', ''a; b'']) '' '') = [''rm'', ''a; b''] \<and>
   IsDestructiveCommand (Join (map single_quoted [''rm'', ''a; b'']) '' '') = destructiveWords [''rm'', ''a; b'']"
  by (rule quoted_words_round_trip) code_simp+

text \<open>On text without quotes, backslashes and ampersands the scanners are the library
  functions: the words are the fields between blanks, tabs and newlines, and the segments are
  the non-empty trimmed pieces between semicolons, bars and line ends.\<close>

theorem plain_splitting:
  assumes "list_all (\<lambda>c. \<not> quote_special c \<and> c \<noteq> CHR ''&'') s"
  shows "shellWords s = FieldsFunc s word_sep \<and>
    splitCommandSegments s = filter (\<lambda>p. p \<noteq> []) (map TrimSpace (split_pred segment_sep s))"
proof
  have "list_all (\<lambda>c. \<not> quote_special c) s" using assms by (auto simp: list_all_iff)
  then show "shellWords s = FieldsFunc s word_sep"
    using shellWords_loop_plain[of s "[]" "[]"] by (simp add: shellWords_def FieldsFunc_def)
  have "splitCommandSegments s = concat (map nonempty_trim (split_pred segment_sep s))"
    using segs_out_plain[OF assms, of "[]"] by (simp add: split_eq_out del: concat.simps list.map)
  then show "splitCommandSegments s = filter (\<lambda>p. p \<noteq> []) (map TrimSpace (split_pred segment_sep s))"
    by (simp add: concat_nonempty_trim)
qed

theorem plain_splitting_witness:
  "shellWords ''ls -l ; wc'' = FieldsFunc ''ls -l ; wc'' word_sep \<and>
   splitCommandSegments ''ls -l ; wc'' = filter (\<lambda>p. p \<noteq> []) (map TrimSpace (split_pred segment_sep ''ls -l ; wc''))"
  by (rule plain_splitting) code_simp

text \<open>Comment removal is idempotent: what is left of a command has no comment.\<close>

theorem strip_comments_idempotent:
  "stripShellLineComments (stripShellLineComments c) = stripShellLineComments c"
  by (simp add: strip_eq_out strip_out_idem)

section \<open>Text functions\<close>

text \<open>A leading \<open>sleep N\<close> is blocked exactly when \<open>N\<close> is at least 2 (and fits a 64-bit integer),
  alone or before a separator, and the message repeats \<open>N\<close> and the rest of the command.\<close>

theorem sleep_blocked:
  assumes "n < 2 ^ 63" "segment_sep sep"
  shows "detectBlockedBashSleepPattern (''sleep '' @ dec n) =
      (if n < 2 then [] else ''standalone sleep '' @ dec n) \<and>
    detectBlockedBashSleepPattern (''sleep '' @ dec n @ sep # s) =
      (let rest = TrimSpace (Join (splitCommandSegments s) '' '') in
       if n < 2 then [] else if rest = [] then ''standalone sleep '' @ dec n
       else ''sleep '' @ dec n @ '' followed by: '' @ rest)"
  using Atoi_dec[OF assms(1)] sleep_words[of n] sleep_segments(1)[of n] sleep_segments(2)[of sep n s] assms(2)
  by (simp add: detectBlockedBashSleepPattern_def TrimSpace_plain trim_blanks_def Let_def)

theorem sleep_blocked_witness:
  "detectBlockedBashSleepPattern (''sleep '' @ dec 30) = (if (30::nat) < 2 then [] else ''standalone sleep '' @ dec 30) \<and>
   detectBlockedBashSleepPattern (''sleep '' @ dec 30 @ CHR '';'' # '' ls'') =
      (let rest = TrimSpace (Join (splitCommandSegments '' ls'') '' '') in
       if (30::nat) < 2 then [] else if rest = [] then ''standalone sleep '' @ dec 30
       else ''sleep '' @ dec 30 @ '' followed by: '' @ rest)"
  by (rule sleep_blocked) (simp_all add: segment_sep_def)

text \<open>\<open>tailText\<close> with a positive bound keeps the text when it has at most that many lines;
  otherwise its result has exactly the last \<open>n\<close> lines and is a suffix of the text without its
  trailing line ends.\<close>

theorem tailText_last_lines:
  assumes "0 < n" "text \<noteq> []"
  defines "parts \<equiv> Split (TrimRight text [nl]) nl"
  shows "if length parts \<le> n then tailText text (int n) = text
    else Split (tailText text (int n)) nl = drop (length parts - n) parts \<and>
      suffix (tailText text (int n)) (TrimRight text [nl])"
proof (cases "length parts \<le> n")
  case True
  with assms show ?thesis by (simp add: tailText_def)
next
  case False
  let ?last = "drop (length parts - n) parts"
  have t: "tailText text (int n) = Join ?last [nl]"
    using False assms by (simp add: tailText_def Let_def)
  have ne: "?last \<noteq> []" using False assms(1) by simp
  have "nl \<notin> set p" if "p \<in> set ?last" for p
    using that Split_pieces[of p _ nl] in_set_dropD[of p] unfolding parts_def by blast
  then have "Split (Join ?last [nl]) nl = ?last" by (rule Split_Join[OF ne])
  moreover have "suffix (Join ?last [nl]) (Join (take (length parts - n) parts @ ?last) [nl])"
    by (rule Join_suffix[OF ne])
  then have "suffix (Join ?last [nl]) (TrimRight text [nl])"
    unfolding append_take_drop_id unfolding parts_def Join_Split .
  ultimately show ?thesis using False t by simp
qed

theorem tailText_last_lines_witness:
  "if length (Split (TrimRight ''a'' [nl]) nl) \<le> 2 then tailText ''a'' (int 2) = ''a''
   else Split (tailText ''a'' (int 2)) nl = drop (length (Split (TrimRight ''a'' [nl]) nl) - 2) (Split (TrimRight ''a'' [nl]) nl) \<and>
     suffix (tailText ''a'' (int 2)) (TrimRight ''a'' [nl])"
  by (rule tailText_last_lines) code_simp+

end
