(* ===== verification/GoPath.thy ===== *)
theory GoPath
  imports Utf8
begin

text \<open>
  The parts of Go's \<open>path/filepath\<close> (on Unix) and \<open>strings\<close> that the permission code calls:
  \<open>Clean\<close>, \<open>Join\<close>, \<open>Dir\<close>, \<open>Base\<close>, \<open>IsAbs\<close>, \<open>Match\<close>, case folding and quoting.

  Unicode tables and the operating system are the environment \<open>go_env\<close>: what the code asks
  of them is a function of it. On ASCII text the case functions and \<open>%q\<close> are computed; on
  other text they are the environment's.
\<close>

record go_env =
  uni_lower :: "string \<Rightarrow> string"
  uni_fold :: "string \<Rightarrow> string \<Rightarrow> bool"
  uni_quote :: "string \<Rightarrow> string"
  uni_is_upper :: "nat \<Rightarrow> bool"
  user_home :: "string option"
  getwd :: "string option"
  config_dir :: string
  lstat_symlink :: "string \<Rightarrow> bool option"
  readlink :: "string \<Rightarrow> string option"
  eval_symlinks :: "string \<Rightarrow> string option"

section \<open>Case and quoting\<close>

definition lower_byte :: "char \<Rightarrow> char" where
  "lower_byte c = (if is_upper c then char_of (byte c + 32) else c)"

definition ToLower :: "go_env \<Rightarrow> string \<Rightarrow> string" where
  "ToLower env s = (if list_all is_ascii s then map lower_byte s else uni_lower env s)"

definition EqualFold :: "go_env \<Rightarrow> string \<Rightarrow> string \<Rightarrow> bool" where
  "EqualFold env s t =
     (if list_all is_ascii s \<and> list_all is_ascii t then map lower_byte s = map lower_byte t
      else uni_fold env s t)"

definition hex_digit :: "nat \<Rightarrow> char" where
  "hex_digit n = (if n < 10 then char_of (48 + n) else char_of (87 + n))"

definition quote_byte :: "char \<Rightarrow> string" where
  "quote_byte c =
     (if c = dquote then [bslash, dquote] else if c = bslash then [bslash, bslash]
      else if byte c = 7 then bslash # ''a'' else if byte c = 8 then bslash # ''b''
      else if byte c = 12 then bslash # ''f'' else if c = nl then bslash # ''n''
      else if c = cr then bslash # ''r'' else if c = tab then bslash # ''t''
      else if byte c = 11 then bslash # ''v''
      else if byte c < 32 \<or> byte c = 127 then [bslash, CHR ''x'', hex_digit (byte c div 16), hex_digit (byte c mod 16)]
      else [c])"

definition Quote :: "go_env \<Rightarrow> string \<Rightarrow> string" where
  "Quote env s =
     (if list_all is_ascii s then [dquote] @ concat (map quote_byte s) @ [dquote] else uni_quote env s)"

section \<open>Clean, Join, Dir, Base\<close>

definition IsAbs :: "string \<Rightarrow> bool" where
  "IsAbs path = HasPrefix path ''/''"

text \<open>One component after the other; the stack has the last component first. \<open>..\<close> removes
  the last component, is dropped at the root, and stays at the start of a relative path.\<close>

definition clean_step :: "bool \<Rightarrow> string list \<Rightarrow> string \<Rightarrow> string list" where
  "clean_step rooted stack part =
     (if part = [] \<or> part = ''.'' then stack
      else if part = ''..'' then
        (case stack of [] \<Rightarrow> if rooted then [] else [part]
         | upper # below \<Rightarrow> if upper = ''..'' then part # stack else below)
      else part # stack)"

definition clean_parts :: "string \<Rightarrow> string list" where
  "clean_parts path = rev (foldl (clean_step (IsAbs path)) [] (Split path (CHR ''/'')))"

definition Clean :: "string \<Rightarrow> string" where
  "Clean path =
     (let parts = clean_parts path in
      if IsAbs path then ''/'' @ Join parts ''/''
      else if parts = [] then ''.'' else Join parts ''/'')"

definition JoinPath :: "string list \<Rightarrow> string" where
  "JoinPath elems =
     (case dropWhile (\<lambda>e. e = []) elems of [] \<Rightarrow> [] | es \<Rightarrow> Clean (Join es ''/''))"

definition Dir :: "string \<Rightarrow> string" where
  "Dir path = Clean (rev (dropWhile (\<lambda>c. c \<noteq> CHR ''/'') (rev path)))"

definition Base :: "string \<Rightarrow> string" where
  "Base path =
     (if path = [] then ''.''
      else let p = TrimRight path ''/'';
               b = rev (takeWhile (\<lambda>c. c \<noteq> CHR ''/'') (rev p))
           in if b = [] then ''/'' else b)"

section \<open>Match\<close>

text \<open>
  \<open>filepath.Match\<close>, of which the code uses only whether it returns \<open>true\<close> without an error: a
  malformed chunk and a chunk that does not match both give \<open>None\<close>. (A malformed chunk is an
  error on every text, so no later position of a star can succeed with it.)
\<close>

definition getEsc :: "string \<Rightarrow> (nat \<times> string) option" where
  "getEsc chunk =
     (if chunk = [] \<or> hd chunk = CHR ''-'' \<or> hd chunk = CHR '']'' then None
      else let chunk = (if hd chunk = bslash then tl chunk else chunk) in
        if chunk = [] then None
        else let (r, n) = decode_rune chunk in
          if r = 0xFFFD \<and> n = 1 then None
          else if drop n chunk = [] then None
          else Some (r, drop n chunk))"

lemma getEsc_shorter: "getEsc chunk = Some (r, rest) \<Longrightarrow> length rest < length chunk"
proof -
  assume a: "getEsc chunk = Some (r, rest)"
  let ?c = "if hd chunk = bslash then tl chunk else chunk"
  from a have "?c \<noteq> []" "rest = drop (snd (decode_rune ?c)) ?c"
    by (auto simp: getEsc_def Let_def split: if_split_asm prod.split_asm)
  moreover have "length ?c \<le> length chunk" by simp
  ultimately show ?thesis using drop_rune_shorter[of ?c] by (metis length_drop less_le_trans)
qed

text \<open>One range of a class, and the ranges up to the closing bracket; \<open>nrange\<close> counts them,
  \<open>found\<close> is the source's \<open>match\<close>.\<close>

definition class_range :: "string \<Rightarrow> (nat \<times> nat \<times> string) option" where
  "class_range chunk =
     (case getEsc chunk of None \<Rightarrow> None
      | Some (lo, chunk1) \<Rightarrow>
          if hd chunk1 = CHR ''-'' then
            (case getEsc (tl chunk1) of None \<Rightarrow> None | Some (hi, chunk2) \<Rightarrow> Some (lo, hi, chunk2))
          else Some (lo, lo, chunk1))"

lemma class_range_shorter: "class_range chunk = Some (lo, hi, rest) \<Longrightarrow> length rest < length chunk"
  by (auto simp: class_range_def split: option.split_asm if_split_asm dest!: getEsc_shorter)

function match_ranges :: "nat \<Rightarrow> bool \<Rightarrow> nat \<Rightarrow> string \<Rightarrow> (bool \<times> string) option" where
  "match_ranges r found nrange chunk =
     (if chunk \<noteq> [] \<and> hd chunk = CHR '']'' \<and> nrange > 0 then Some (found, tl chunk)
      else (case class_range chunk of None \<Rightarrow> None
        | Some (lo, hi, rest) \<Rightarrow> match_ranges r (found \<or> lo \<le> r \<and> r \<le> hi) (nrange + 1) rest))"
  by pat_completeness auto
termination match_ranges
  by (relation "measure (\<lambda>(r, found, nrange, chunk). length chunk)") (auto dest: class_range_shorter)

declare match_ranges.simps [simp del]

lemma match_ranges_shorter: "match_ranges r found k chunk = Some (b, rest) \<Longrightarrow> length rest < length chunk"
proof (induction r found k chunk rule: match_ranges.induct)
  case (1 r found k chunk)
  show ?case
  proof (cases "chunk \<noteq> [] \<and> hd chunk = CHR '']'' \<and> k > 0")
    case True
    with "1.prems" show ?thesis by (auto simp: match_ranges.simps[of r found k chunk])
  next
    case False
    show ?thesis
    proof (cases "class_range chunk")
      case None
      with False "1.prems" show ?thesis by (subst (asm) match_ranges.simps) (simp only: if_False option.case option.distinct)
    next
      case (Some range)
      obtain lo hi next_chunk where range: "range = (lo, hi, next_chunk)" by (cases range)
      with False Some "1.prems" have "match_ranges r (found \<or> lo \<le> r \<and> r \<le> hi) (k + 1) next_chunk = Some (b, rest)"
        by (subst (asm) match_ranges.simps) (simp only: if_False option.case prod.case)
      from "1.IH"[OF False Some range[symmetric] refl this] show ?thesis
        using class_range_shorter[of chunk lo hi next_chunk] Some range by simp
    qed
  qed
qed

text \<open>\<open>matchChunk\<close>: \<open>Some rest\<close> is \<open>ok\<close>.\<close>

function matchChunk :: "string \<Rightarrow> string \<Rightarrow> string option" where
  "matchChunk [] s = Some s"
| "matchChunk (c # chunk) s =
     (if s = [] then None
      else if c = CHR ''['' then
        (let (r, n) = decode_rune s;
             negated = (chunk \<noteq> [] \<and> hd chunk = CHR ''^'');
             chunk = (if negated then tl chunk else chunk)
         in (case match_ranges r False 0 chunk of None \<Rightarrow> None
             | Some (found, chunk') \<Rightarrow> if found = negated then None else matchChunk chunk' (drop n s)))
      else if c = CHR ''?'' then
        (if hd s = CHR ''/'' then None else matchChunk chunk (drop (snd (decode_rune s)) s))
      else if c = bslash then
        (case chunk of [] \<Rightarrow> None
         | c' # chunk' \<Rightarrow> if c' \<noteq> hd s then None else matchChunk chunk' (tl s))
      else if c \<noteq> hd s then None else matchChunk chunk (tl s))"
  by pat_completeness auto
termination matchChunk
proof (relation "measure (\<lambda>(chunk, s). length chunk)", goal_cases)
  case (2 c chunk s p r n negated chunk1 x found chunk2)
  then have "length chunk2 < length chunk1" by (auto dest: match_ranges_shorter)
  with 2 show ?case by (auto split: if_split_asm)
qed auto

text \<open>\<open>scanChunk\<close>: whether the pattern starts with stars, the chunk up to the next star outside
  brackets, the rest.\<close>

fun scan_end :: "bool \<Rightarrow> string \<Rightarrow> nat" where
  "scan_end inrange [] = 0"
| "scan_end inrange (c # cs) =
     (if c = bslash then (case cs of [] \<Rightarrow> 1 | _ # cs' \<Rightarrow> 2 + scan_end inrange cs')
      else if c = CHR ''['' then 1 + scan_end True cs
      else if c = CHR '']'' then 1 + scan_end False cs
      else if c = CHR ''*'' \<and> \<not> inrange then 0
      else 1 + scan_end inrange cs)"

definition scanChunk :: "string \<Rightarrow> bool \<times> string \<times> string" where
  "scanChunk pattern =
     (let p = dropWhile (\<lambda>c. c = CHR ''*'') pattern; i = scan_end False p
      in (pattern \<noteq> [] \<and> hd pattern = CHR ''*'', take i p, drop i p))"

text \<open>The loop that skips \<open>i + 1\<close> bytes of the name, none of them a separator.\<close>

fun match_skip :: "string \<Rightarrow> bool \<Rightarrow> string \<Rightarrow> string option" where
  "match_skip chunk last_chunk [] = None"
| "match_skip chunk last_chunk (n # name) =
     (if n = CHR ''/'' then None
      else (case matchChunk chunk name of
              Some t \<Rightarrow> if last_chunk \<and> t \<noteq> [] then match_skip chunk last_chunk name else Some t
            | None \<Rightarrow> match_skip chunk last_chunk name))"

function Match_loop :: "string \<Rightarrow> string \<Rightarrow> bool" where
  "Match_loop pattern name =
     (if pattern = [] then name = []
      else let (star, chunk, rest) = scanChunk pattern in
        if star \<and> chunk = [] then CHR ''/'' \<notin> set name
        else (case (case matchChunk chunk name of
                      Some t \<Rightarrow> if t = [] \<or> rest \<noteq> [] then Some t else None
                    | None \<Rightarrow> None) of
                Some t \<Rightarrow> Match_loop rest t
              | None \<Rightarrow>
                  if star then
                    (case match_skip chunk (rest = []) name of
                       Some t \<Rightarrow> Match_loop rest t | None \<Rightarrow> False)
                  else False))"
  by pat_completeness auto

lemma scan_end_pos: "p \<noteq> [] \<Longrightarrow> hd p \<noteq> CHR ''*'' \<Longrightarrow> 0 < scan_end False p"
  by (cases p) (auto split: list.split)

lemma scanChunk_shorter:
  assumes "pattern \<noteq> []" "scanChunk pattern = (star, chunk, rest)" "\<not> (star \<and> chunk = [])"
  shows "length rest < length pattern"
proof -
  let ?p = "dropWhile (\<lambda>c. c = CHR ''*'') pattern"
  have rest: "rest = drop (scan_end False ?p) ?p" "chunk = take (scan_end False ?p) ?p"
    "star = (hd pattern = CHR ''*'')"
    using assms(1,2) by (auto simp: scanChunk_def Let_def)
  show ?thesis
  proof (cases "?p = []")
    case True
    then have "hd pattern = CHR ''*''" using assms(1) by (cases pattern) (auto split: if_split_asm)
    with True rest assms(3) show ?thesis by simp
  next
    case False
    then have "hd ?p \<noteq> CHR ''*''" using hd_dropWhile by blast
    with False have "0 < scan_end False ?p" by (rule scan_end_pos)
    then have "length rest < length ?p" using rest(1) False by simp
    also have "length ?p \<le> length pattern" by (rule length_dropWhile_le)
    finally show ?thesis .
  qed
qed

termination Match_loop
  by (relation "measure (\<lambda>(pattern, name). length pattern)") (auto dest: scanChunk_shorter[OF _ sym])

declare Match_loop.simps [simp del]

definition Match :: "string \<Rightarrow> string \<Rightarrow> bool" where
  "Match pattern name = Match_loop pattern name"

end
