(* ===== verification/PermTypes.thy ===== *)
theory PermTypes
  imports GoPath Complex_Main
begin

text \<open>
  The data of the permission system: \<open>internal/contracts/permissions.go\<close>, the request and rule
  of \<open>internal/permissions/rules.go\<close>, the internal paths of \<open>path.go\<close>.

  A Go string type with constants is \<open>string\<close>: a value read from a settings file can be any
  string. A Go map is a partial map; where the code tells a nil map from an empty one it is an
  \<open>option\<close>. A \<open>json.RawMessage\<close> is its text with the value it decodes to (\<open>None\<close> when it is
  malformed); decoded objects are association lists with distinct keys, and a number is the
  rational that its \<open>float64\<close> stands for.
\<close>

datatype json =
  JNull | JBool bool | JNum rat | JStr string | JArr "json list" | JObj "(string \<times> json) list"

record raw_message =
  raw_text :: string
  raw_value :: "json option"

text \<open>Decoding into a \<open>map[string]any\<close>: an object, or \<open>null\<close>, which leaves the map nil.\<close>

definition unmarshal_object :: "raw_message \<Rightarrow> (string \<rightharpoonup> json) option" where
  "unmarshal_object raw =
     (case raw_value raw of
        Some (JObj kvs) \<Rightarrow> Some (map_of kvs)
      | Some JNull \<Rightarrow> Some Map.empty
      | _ \<Rightarrow> None)"

type_synonym ID = string
type_synonym PermissionMode = string
type_synonym PermissionBehavior = string
type_synonym PermissionRuleSource = string

abbreviation PermissionDefault :: PermissionMode where "PermissionDefault \<equiv> ''default''"
abbreviation PermissionAcceptEdits :: PermissionMode where "PermissionAcceptEdits \<equiv> ''acceptEdits''"
abbreviation PermissionBypassPermissions :: PermissionMode where "PermissionBypassPermissions \<equiv> ''bypassPermissions''"
abbreviation PermissionDontAsk :: PermissionMode where "PermissionDontAsk \<equiv> ''dontAsk''"
abbreviation PermissionPlan :: PermissionMode where "PermissionPlan \<equiv> ''plan''"
abbreviation PermissionAuto :: PermissionMode where "PermissionAuto \<equiv> ''auto''"

abbreviation PermissionAllow :: PermissionBehavior where "PermissionAllow \<equiv> ''allow''"
abbreviation PermissionDeny :: PermissionBehavior where "PermissionDeny \<equiv> ''deny''"
abbreviation PermissionAsk :: PermissionBehavior where "PermissionAsk \<equiv> ''ask''"
abbreviation PermissionPassthrough :: PermissionBehavior where "PermissionPassthrough \<equiv> ''passthrough''"

abbreviation PermissionSourcePolicySettings :: PermissionRuleSource where
  "PermissionSourcePolicySettings \<equiv> ''policySettings''"
abbreviation PermissionSourceSession :: PermissionRuleSource where "PermissionSourceSession \<equiv> ''session''"

record PermissionRuleValue =
  valToolName :: string
  valRuleContent :: string

record PermissionUpdate =
  updType :: string
  updDestination :: string
  updRules :: "PermissionRuleValue list"
  updBehavior :: PermissionBehavior
  updMode :: PermissionMode
  updDirectories :: "string list"

text \<open>Of the decision, the fields that the engine and the executor read or write; the reason
  map holds one text.\<close>

record PermissionDecision =
  decBehavior :: PermissionBehavior
  decMessage :: string
  decReason :: string
  decToolUseID :: ID
  decBlockedPath :: string

record SandboxFilesystemPolicy =
  AllowWrite :: "string list"
  DenyWrite :: "string list"
  DenyRead :: "string list"
  AllowRead :: "string list"

record PermissionContext =
  ctxMode :: PermissionMode
  AdditionalWorkingDirectories :: "(string \<rightharpoonup> PermissionRuleSource) option"
  AlwaysAllowRules :: "PermissionRuleSource \<rightharpoonup> string list"
  AlwaysDenyRules :: "PermissionRuleSource \<rightharpoonup> string list"
  AlwaysAskRules :: "PermissionRuleSource \<rightharpoonup> string list"
  BypassAvailable :: bool
  AutoAvailable :: bool
  AllowUnsandboxedCommands :: "bool option"
  SandboxFilesystem :: "SandboxFilesystemPolicy option"

record PermissionsSetting =
  setAllow :: "string list"
  setDeny :: "string list"
  setAsk :: "string list"
  setDefaultMode :: PermissionMode
  setDisableBypassMode :: json
  setDisableAutoMode :: json
  setAdditionalDirectories :: "string list"

record InternalPathContext =
  ProjectDir :: string
  ProjectTempDir :: string
  SessionMemoryDir :: string
  ToolResultsDir :: string
  ScratchpadDir :: string
  ScratchpadEnabled :: bool
  PlansDir :: string
  PlanSlug :: string
  JobDir :: string
  JobsRoot :: string
  AgentMemoryDir :: string
  AutoMemoryDir :: string
  SkillDirs :: "string list"
  TasksDir :: string
  TeamsDir :: string
  LaunchConfigPath :: string

definition no_internal_paths :: InternalPathContext where
  "no_internal_paths =
     \<lparr>ProjectDir = [], ProjectTempDir = [], SessionMemoryDir = [], ToolResultsDir = [], ScratchpadDir = [],
      ScratchpadEnabled = False, PlansDir = [], PlanSlug = [], JobDir = [], JobsRoot = [], AgentMemoryDir = [],
      AutoMemoryDir = [], SkillDirs = [], TasksDir = [], TeamsDir = [], LaunchConfigPath = []\<rparr>"

record Request =
  reqToolUseID :: ID
  reqToolName :: string
  reqInput :: raw_message
  reqCommand :: string
  reqPath :: string
  reqWorkingDirectory :: string
  reqReadOnly :: bool
  reqWritesFiles :: bool
  reqDestructive :: bool
  reqDangerouslyDisableSandbox :: bool
  reqInternalPaths :: InternalPathContext

record Rule =
  ruleSource :: PermissionRuleSource
  ruleBehavior :: PermissionBehavior
  ruleToolName :: string
  rulePattern :: string
  ruleRaw :: string

end
