(* ===== verification/PermRules.thy ===== *)
theory PermRules
  imports PermTypes
begin

text \<open>
  \<open>internal/permissions/rules.go\<close>: the rule strings, and which request a rule matches.
  \<open>close\<close> and \<open>open\<close> of the source are byte indices; \<open>None\<close> is \<open>-1\<close>.
\<close>

section \<open>Escapes\<close>

definition isEscaped :: "string \<Rightarrow> nat \<Rightarrow> bool" where
  "isEscaped s index = odd (length (takeWhile (\<lambda>c. c = bslash) (rev (take index s))))"

definition unescaped_at :: "string \<Rightarrow> char \<Rightarrow> nat \<Rightarrow> bool" where
  "unescaped_at s c i = (s ! i = c \<and> \<not> isEscaped s i)"

definition findFirstUnescaped :: "string \<Rightarrow> char \<Rightarrow> nat option" where
  "findFirstUnescaped s c = List.find (unescaped_at s c) [0..<length s]"

definition findLastUnescaped :: "string \<Rightarrow> char \<Rightarrow> nat option" where
  "findLastUnescaped s c = List.find (unescaped_at s c) (rev [0..<length s])"

definition countUnescaped :: "string \<Rightarrow> char \<Rightarrow> nat" where
  "countUnescaped s c = length (filter (unescaped_at s c) [0..<length s])"

definition EscapeRuleContent :: "string \<Rightarrow> string" where
  "EscapeRuleContent content =
     (let content = ReplaceAll content [bslash] [bslash, bslash];
          content = ReplaceAll content ''('' [bslash, CHR ''('']
      in ReplaceAll content '')'' [bslash, CHR '')''])"

definition UnescapeRuleContent :: "string \<Rightarrow> string" where
  "UnescapeRuleContent content =
     (let content = ReplaceAll content [bslash, CHR ''(''] ''('';
          content = ReplaceAll content [bslash, CHR '')''] '')''
      in ReplaceAll content [bslash, bslash] [bslash])"

section \<open>Rule strings\<close>

definition normalizeLegacyToolName :: "string \<Rightarrow> string" where
  "normalizeLegacyToolName name =
     (if name = ''Task'' then ''Agent''
      else if name = ''KillShell'' \<or> name = ''TaskStop'' then ''KillTask''
      else if name = ''TaskResume'' then ''ResumeTask''
      else if name = ''AgentOutputTool'' \<or> name = ''BashOutputTool'' then ''TaskOutput''
      else name)"

definition tool_only :: "string \<Rightarrow> PermissionRuleValue" where
  "tool_only name = \<lparr>valToolName = normalizeLegacyToolName name, valRuleContent = []\<rparr>"

definition PermissionRuleValueFromString :: "string \<Rightarrow> PermissionRuleValue" where
  "PermissionRuleValueFromString raw =
     (case findFirstUnescaped raw (CHR ''('') of None \<Rightarrow> tool_only (TrimSpace raw)
      | Some opn \<Rightarrow>
        (case findLastUnescaped raw (CHR '')'') of None \<Rightarrow> tool_only (TrimSpace raw)
         | Some cls \<Rightarrow>
             if cls \<le> opn \<or> cls \<noteq> length raw - 1 then tool_only (TrimSpace raw)
             else let toolName = TrimSpace (take opn raw) in
               if toolName = [] then tool_only (TrimSpace raw)
               else let content = drop (opn + 1) (take cls raw) in
                 if content = [] \<or> content = ''*'' then tool_only toolName
                 else \<lparr>valToolName = normalizeLegacyToolName toolName,
                       valRuleContent = UnescapeRuleContent content\<rparr>))"

definition PermissionRuleValueToString :: "PermissionRuleValue \<Rightarrow> string" where
  "PermissionRuleValueToString value =
     (if valRuleContent value = [] then valToolName value
      else valToolName value @ ''('' @ EscapeRuleContent (valRuleContent value) @ '')'')"

definition RuleValuesFromStrings :: "string list \<Rightarrow> PermissionRuleValue list" where
  "RuleValuesFromStrings values = map PermissionRuleValueFromString values"

datatype rule_error = EmptyRule | EmptyBehavior string | MissingToolName string

definition ParseRule :: "PermissionRuleSource \<Rightarrow> PermissionBehavior \<Rightarrow> string \<Rightarrow> rule_error + Rule" where
  "ParseRule source behavior raw0 =
     (let raw = TrimSpace raw0 in
      if raw = [] then Inl EmptyRule
      else if behavior = [] then Inl (EmptyBehavior raw)
      else if raw = ''*'' then
        Inr \<lparr>ruleSource = source, ruleBehavior = behavior, ruleToolName = ''*'', rulePattern = ''*'', ruleRaw = raw\<rparr>
      else let value = PermissionRuleValueFromString raw;
               toolName = TrimSpace (valToolName value);
               pattern = TrimSpace (valRuleContent value)
        in if toolName = [] then Inl (MissingToolName raw)
           else Inr \<lparr>ruleSource = source, ruleBehavior = behavior, ruleToolName = toolName,
                     rulePattern = (if pattern = [] then ''*'' else pattern), ruleRaw = raw\<rparr>)"

text \<open>A loop over strings that parses each and stops at the first error.\<close>

fun parse_rules :: "PermissionRuleSource \<Rightarrow> PermissionBehavior \<Rightarrow> string list \<Rightarrow> rule_error + Rule list" where
  "parse_rules source behavior [] = Inr []"
| "parse_rules source behavior (raw # raws) =
     (case ParseRule source behavior raw of
        Inl e \<Rightarrow> Inl e
      | Inr rule \<Rightarrow> (case parse_rules source behavior raws of Inl e \<Rightarrow> Inl e | Inr rules \<Rightarrow> Inr (rule # rules)))"

definition RulesFromSettings ::
  "PermissionRuleSource \<Rightarrow> PermissionsSetting option \<Rightarrow> rule_error + Rule list" where
  "RulesFromSettings source settings =
     (case settings of None \<Rightarrow> Inr []
      | Some s \<Rightarrow>
        (case parse_rules source PermissionDeny (setDeny s) of Inl e \<Rightarrow> Inl e
         | Inr deny \<Rightarrow>
           (case parse_rules source PermissionAllow (setAllow s) of Inl e \<Rightarrow> Inl e
            | Inr allow \<Rightarrow>
              (case parse_rules source PermissionAsk (setAsk s) of Inl e \<Rightarrow> Inl e
               | Inr ask \<Rightarrow> Inr (deny @ allow @ ask)))))"

definition Rule_String :: "Rule \<Rightarrow> string" where
  "Rule_String r =
     (if ruleRaw r \<noteq> [] then ruleRaw r
      else if rulePattern r = [] \<or> rulePattern r = ''*'' then ruleToolName r
      else PermissionRuleValueToString \<lparr>valToolName = ruleToolName r, valRuleContent = rulePattern r\<rparr>)"

section \<open>Matching\<close>

text \<open>\<open>firstStringFromJSON\<close>: the value of the first key that holds a string.\<close>

fun first_string :: "(string \<rightharpoonup> json) \<Rightarrow> string list \<Rightarrow> string" where
  "first_string obj [] = []"
| "first_string obj (key # keys) =
     (case obj key of Some (JStr value) \<Rightarrow> value | _ \<Rightarrow> first_string obj keys)"

definition firstStringFromJSON :: "raw_message \<Rightarrow> string list \<Rightarrow> string" where
  "firstStringFromJSON raw keys =
     (if raw_text raw = [] then []
      else (case unmarshal_object raw of None \<Rightarrow> [] | Some obj \<Rightarrow> first_string obj keys))"

definition MatchTarget :: "Request \<Rightarrow> string" where
  "MatchTarget r =
     (if reqCommand r \<noteq> [] then reqCommand r
      else if reqPath r \<noteq> [] then reqPath r
      else let value = firstStringFromJSON (reqInput r)
                 [''command'', ''cmd'', ''path'', ''file_path'', ''url'', ''pattern'', ''query'', ''server_name'']
        in if value \<noteq> [] then value else raw_text (reqInput r))"

definition matchTool :: "go_env \<Rightarrow> string \<Rightarrow> string \<Rightarrow> bool" where
  "matchTool env pattern0 toolName0 =
     (let pattern = TrimSpace pattern0; toolName = TrimSpace toolName0 in
      if pattern = ''*'' then True
      else if EqualFold env pattern toolName then True
      else Match pattern toolName)"

definition permissionRuleExtractPrefix :: "string \<Rightarrow> string" where
  "permissionRuleExtractPrefix pattern =
     (if HasSuffix pattern '':*'' \<and> length pattern > 2 then TrimSuffix pattern '':*'' else [])"

definition hasUnescapedWildcard :: "string \<Rightarrow> bool" where
  "hasUnescapedWildcard pattern =
     (if HasSuffix pattern '':*'' then False else findFirstUnescaped pattern (CHR ''*'') \<noteq> None)"

text \<open>
  The regular expression that \<open>matchWildcardPattern\<close> builds is a sequence of quoted literals and
  \<open>.*\<close>, anchored at both ends, with \<open>(?s)\<close>; a final \<open>" .*"\<close> becomes an optional group when the
  pattern has one star only. A literal is \<open>string(byte)\<close>, the code point with the byte's value.
  The text it is matched against is a sequence of code points.
\<close>

datatype wild = Lit nat | Star | OptSpaceStar

fun wild_tokens :: "string \<Rightarrow> wild list" where
  "wild_tokens [] = []"
| "wild_tokens [c] = [if c = CHR ''*'' then Star else Lit (byte c)]"
| "wild_tokens (c # d # rest) =
     (if c = bslash \<and> (d = CHR ''*'' \<or> d = bslash) then Lit (byte d) # wild_tokens rest
      else (if c = CHR ''*'' then Star else Lit (byte c)) # wild_tokens (d # rest))"

definition optional_tail :: "nat \<Rightarrow> wild list \<Rightarrow> wild list" where
  "optional_tail stars ts =
     (if length ts \<ge> 2 \<and> last ts = Star \<and> last (butlast ts) = Lit 32 \<and> stars = 1
      then butlast (butlast ts) @ [OptSpaceStar] else ts)"

fun wild_match :: "wild list \<Rightarrow> nat list \<Rightarrow> bool" where
  "wild_match [] rs = (rs = [])"
| "wild_match (Lit c # ts) [] = False"
| "wild_match (Lit c # ts) (r # rs) = (c = r \<and> wild_match ts rs)"
| "wild_match (Star # ts) [] = wild_match ts []"
| "wild_match (Star # ts) (r # rs) = (wild_match ts (r # rs) \<or> wild_match (Star # ts) rs)"
| "wild_match (OptSpaceStar # ts) rs = (wild_match ts rs \<or> (case rs of [] \<Rightarrow> False | r # rs' \<Rightarrow> r = 32 \<and> list_ex (\<lambda>k. wild_match ts (drop k rs')) [0..<length rs' + 1]))"

text \<open>The code calls it with \<open>caseInsensitive = false\<close> only.\<close>

definition matchWildcardPattern :: "string \<Rightarrow> string \<Rightarrow> bool" where
  "matchWildcardPattern pattern0 target =
     (let pattern = TrimSpace pattern0
      in wild_match (optional_tail (countUnescaped pattern (CHR ''*'')) (wild_tokens pattern)) (runes target))"

definition matchPattern :: "string \<Rightarrow> string \<Rightarrow> bool" where
  "matchPattern pattern0 target0 =
     (let pattern = TrimSpace pattern0; target = TrimSpace target0 in
      if pattern = ''*'' then True
      else if pattern = target then True
      else let prefix = permissionRuleExtractPrefix pattern in
        if prefix \<noteq> [] then target = prefix \<or> HasPrefix target (prefix @ '' '')
        else if Match pattern target then True
        else if hasUnescapedWildcard pattern \<and> matchWildcardPattern pattern target then True
        else if \<not> ContainsAny pattern ''*?['' then Contains target pattern
        else False)"

definition Rule_Matches :: "go_env \<Rightarrow> Rule \<Rightarrow> Request \<Rightarrow> bool" where
  "Rule_Matches env r req =
     (if \<not> matchTool env (ruleToolName r) (reqToolName req) then False
      else if rulePattern r = [] \<or> rulePattern r = ''*'' then True
      else let target = MatchTarget req in
        if target = [] then False else matchPattern (rulePattern r) target)"

end
