(* ===== verification/PermPath.thy ===== *)
theory PermPath
  imports PermTypes "HOL-Library.AList"
begin

text \<open>
  \<open>internal/permissions/path.go\<close> and the path functions of \<open>internal/platform/paths.go\<close> that it
  calls, for Unix: which forms of a path are checked, when a path is inside a directory, and
  which paths are never edited without asking. The file system (links, existence), the home
  and the working directory come from the environment.
\<close>

section \<open>Platform\<close>

definition ExpandPath :: "go_env \<Rightarrow> string \<Rightarrow> string" where
  "ExpandPath env path =
     (let rest =
        (if IsAbs path then Clean path
         else (case getwd env of None \<Rightarrow> Clean path | Some cwd \<Rightarrow> Clean (JoinPath [cwd, path])))
      in if path = [] then path
         else if path = ''~'' \<or> HasPrefix path ''~/'' then
           (case user_home env of
              Some home \<Rightarrow> if path = ''~'' then home else JoinPath [home, drop 2 path]
            | None \<Rightarrow> rest)
         else rest)"

definition ClaudeHomeDir :: "go_env \<Rightarrow> string" where
  "ClaudeHomeDir env =
     (if config_dir env \<noteq> [] then config_dir env
      else (case user_home env of None \<Rightarrow> ''.claude'' | Some home \<Rightarrow> JoinPath [home, ''.claude'']))"

text \<open>\<open>filepath.Abs\<close>, which fails when the working directory is unknown.\<close>

definition Abs :: "go_env \<Rightarrow> string \<Rightarrow> string option" where
  "Abs env path =
     (if IsAbs path then Some (Clean path)
      else map_option (\<lambda>wd. JoinPath [wd, path]) (getwd env))"

definition abs_or_same :: "go_env \<Rightarrow> string \<Rightarrow> string" where
  "abs_or_same env path =
     (if \<not> IsAbs path then (case Abs env path of Some a \<Rightarrow> a | None \<Rightarrow> path) else path)"

section \<open>Comparison\<close>

definition normalizeCaseForComparison :: "go_env \<Rightarrow> string \<Rightarrow> string" where
  "normalizeCaseForComparison env path = ToLower env path"

definition normalizePathForComparison :: "go_env \<Rightarrow> string \<Rightarrow> string" where
  "normalizePathForComparison env path = ToLower env (Clean path)"

definition isUNCPath :: "string \<Rightarrow> bool" where
  "isUNCPath path = (HasPrefix path [bslash, bslash] \<or> HasPrefix path ''//'')"

definition PathInWorkingPath :: "go_env \<Rightarrow> string \<Rightarrow> string \<Rightarrow> bool" where
  "PathInWorkingPath env path0 workingPath0 =
     (let path = normalizePathForComparison env path0;
          workingPath = normalizePathForComparison env workingPath0
      in if path = workingPath then True
         else let workingPath = (if \<not> HasSuffix workingPath ''/'' then workingPath @ ''/'' else workingPath)
              in HasPrefix path workingPath)"

definition splitPathSegments :: "string \<Rightarrow> string list" where
  "splitPathSegments path =
     filter (\<lambda>item. item \<noteq> []) (Split (ReplaceAll path [bslash] ''/'') (CHR ''/''))"

definition expandPathForCwd :: "go_env \<Rightarrow> string \<Rightarrow> string \<Rightarrow> string" where
  "expandPathForCwd env path0 cwd0 =
     (let path = (if path0 = ''~'' \<or> HasPrefix path0 ''~/'' then ExpandPath env path0 else path0) in
      if IsAbs path then Clean path
      else let cwd = (if cwd0 = [] then ''.'' else cwd0)
           in Clean (JoinPath [ExpandPath env cwd, path]))"

section \<open>The forms of a path\<close>

lemma length_Join: "length (Join xs sep) = (\<Sum>x\<leftarrow>xs. length x) + length sep * (length xs - 1)"
  by (induction xs sep rule: Join.induct) simp_all

text \<open>\<open>resolveDeepestExistingAncestor\<close> climbs from the cleaned path to the first ancestor that
  resolves; the loop stops when \<open>Dir\<close> is a fixed point. \<open>fuel\<close> bounds the climbs: the length of
  the path is enough, since each proper \<open>Dir\<close> of a clean path is shorter.\<close>

fun resolve_climb :: "go_env \<Rightarrow> nat \<Rightarrow> string \<Rightarrow> string list \<Rightarrow> string option" where
  "resolve_climb env fuel clean suffix =
     (case eval_symlinks env clean of
        Some resolved \<Rightarrow> Some (JoinPath (resolved # rev suffix))
      | None \<Rightarrow>
          let parent = Dir clean in
          if parent = clean then Some []
          else (case fuel of 0 \<Rightarrow> None
                | Suc fuel' \<Rightarrow> resolve_climb env fuel' parent (suffix @ [Base clean])))"

declare resolve_climb.simps [simp del]

definition resolveDeepestExistingAncestor :: "go_env \<Rightarrow> string \<Rightarrow> string option" where
  "resolveDeepestExistingAncestor env path =
     (if isUNCPath path then Some [] else resolve_climb env (length (Clean path) + 1) (Clean path) [])"

text \<open>The closure \<open>add\<close>: \<open>(out, seen)\<close> are its variables.\<close>

definition add_candidate :: "go_env \<Rightarrow> string \<Rightarrow> string list \<times> string list \<Rightarrow> string list \<times> string list" where
  "add_candidate env candidate0 = (\<lambda>(out, seen).
     if candidate0 = [] then (out, seen)
     else let candidate = abs_or_same env candidate0;
              key = normalizePathForComparison env candidate
       in if key \<in> set seen then (out, seen) else (out @ [candidate], key # seen))"

definition link_target :: "string \<Rightarrow> string \<Rightarrow> string" where
  "link_target current target = Clean (if \<not> IsAbs target then JoinPath [Dir current, target] else target)"

text \<open>The loop over \<open>depth\<close>, at most 40 turns; \<open>None\<close> in the model of
  \<open>resolveDeepestExistingAncestor\<close> is never reached (see below), and adds nothing.\<close>

fun follow_links ::
  "go_env \<Rightarrow> nat \<Rightarrow> string \<Rightarrow> string \<Rightarrow> string list \<Rightarrow> string list \<times> string list \<Rightarrow> string list \<times> string list" where
  "follow_links env 0 path current visited acc = acc"
| "follow_links env (Suc depth) path current visited acc =
     (let key = normalizePathForComparison env current in
      if key \<in> set visited then acc
      else (case lstat_symlink env current of
          None \<Rightarrow>
            if current = path then
              add_candidate env (case resolveDeepestExistingAncestor env path of Some r \<Rightarrow> r | None \<Rightarrow> []) acc
            else acc
        | Some is_link \<Rightarrow>
            if \<not> is_link then acc
            else (case readlink env current of None \<Rightarrow> acc
              | Some target0 \<Rightarrow>
                  let target = link_target current target0
                  in follow_links env depth path target (key # visited) (add_candidate env target acc))))"

definition PathsForPermissionCheck :: "go_env \<Rightarrow> string \<Rightarrow> string list" where
  "PathsForPermissionCheck env path0 =
     (let path = abs_or_same env (ExpandPath env path0);
          acc = ([path], [normalizePathForComparison env path])
      in if isUNCPath path then fst acc
         else let acc = follow_links env 40 path path [] acc
           in fst (case eval_symlinks env path of
                     Some resolved \<Rightarrow> add_candidate env resolved acc | None \<Rightarrow> acc))"

section \<open>Sensitive paths\<close>

text \<open>The regular expressions of \<open>HasSuspiciousWindowsPathPattern\<close>, on bytes: each matches
  ASCII text only, \<open>\<backslash>s\<close> being tab, newline, form feed, carriage return and blank.\<close>

fun tilde_digit :: "string \<Rightarrow> bool" where
  "tilde_digit (c # d # rest) = (c = CHR ''~'' \<and> is_digit d \<or> tilde_digit (d # rest))"
| "tilde_digit _ = False"

definition dot_or_space :: "char \<Rightarrow> bool" where
  "dot_or_space c = (c = CHR ''.'' \<or> c = CHR '' '' \<or> c = tab \<or> c = nl \<or> c = CHR 0x0C \<or> c = cr)"

definition reserved_names :: "string list" where
  "reserved_names = [''con'', ''prn'', ''aux'', ''nul''] @
     [''com'' @ [d]. d \<leftarrow> ''123456789''] @ [''lpt'' @ [d]. d \<leftarrow> ''123456789'']"

definition reserved_suffix :: "string \<Rightarrow> bool" where
  "reserved_suffix path = list_ex (\<lambda>n. HasSuffix (map lower_byte path) (''.'' @ n)) reserved_names"

text \<open>A component (between slashes or backslashes) of three or more dots.\<close>

definition dots_component :: "string \<Rightarrow> bool" where
  "dots_component path =
     list_ex (\<lambda>p. length p \<ge> 3 \<and> list_all (\<lambda>c. c = CHR ''.'') p)
       (split_pred (\<lambda>c. c = CHR ''/'' \<or> c = bslash) path)"

definition HasSuspiciousWindowsPathPattern :: "string \<Rightarrow> bool" where
  "HasSuspiciousWindowsPathPattern path =
     (if tilde_digit path then True
      else if HasPrefix path [bslash, bslash, CHR ''?'', bslash] \<or> HasPrefix path [bslash, bslash, CHR ''.'', bslash]
              \<or> HasPrefix path ''//?/'' \<or> HasPrefix path ''//./'' then True
      else if path \<noteq> [] \<and> dot_or_space (last path) then True
      else if reserved_suffix path then True
      else dots_component path)"

fun dangerous_segments :: "string list \<Rightarrow> bool" where
  "dangerous_segments [] = False"
| "dangerous_segments (segment # rest) =
     (if segment \<in> {''.git'', ''.vscode'', ''.idea''} then True
      else if segment = ''.claude'' then
        (if rest \<noteq> [] \<and> hd rest = ''worktrees'' then dangerous_segments rest else True)
      else dangerous_segments rest)"

definition sensitive_files :: "string list" where
  "sensitive_files =
     [''.gitconfig'', ''.gitmodules'', ''.bashrc'', ''.bash_profile'', ''.zshrc'', ''.zprofile'', ''.profile'',
      ''.ripgreprc'', ''.mcp.json'', ''.claude.json'']"

definition IsDangerousFilePathToAutoEdit :: "go_env \<Rightarrow> string \<Rightarrow> bool" where
  "IsDangerousFilePathToAutoEdit env path =
     (if isUNCPath path then True
      else let segments = splitPathSegments (normalizeCaseForComparison env (Clean (ExpandPath env path))) in
        if dangerous_segments segments then True
        else if segments = [] then False
        else last segments \<in> set sensitive_files)"

definition isClaudeConfigFilePath :: "go_env \<Rightarrow> string \<Rightarrow> bool" where
  "isClaudeConfigFilePath env path =
     (let normalized = normalizeCaseForComparison env (Clean (ExpandPath env path)) in
      HasSuffix normalized ''/.claude/settings.json'' \<or> HasSuffix normalized ''/.claude/settings.local.json''
      \<or> Contains normalized ''/.claude/commands/'' \<or> Contains normalized ''/.claude/agents/''
      \<or> Contains normalized ''/.claude/skills/'')"

record PathSafetyResult =
  Safe :: bool
  SafetyMessage :: string
  ClassifierApprovable :: bool

definition CheckPathSafetyForAutoEdit :: "go_env \<Rightarrow> string \<Rightarrow> string list \<Rightarrow> PathSafetyResult" where
  "CheckPathSafetyForAutoEdit env path pathsToCheck0 =
     (let pathsToCheck = (if pathsToCheck0 = [] then PathsForPermissionCheck env path else pathsToCheck0) in
      if list_ex HasSuspiciousWindowsPathPattern pathsToCheck then
        \<lparr>Safe = False, SafetyMessage = ''path contains a suspicious Windows path pattern'', ClassifierApprovable = False\<rparr>
      else if list_ex (isClaudeConfigFilePath env) pathsToCheck then
        \<lparr>Safe = False, SafetyMessage = ''path targets Claude configuration files'', ClassifierApprovable = True\<rparr>
      else if list_ex (IsDangerousFilePathToAutoEdit env) pathsToCheck then
        \<lparr>Safe = False, SafetyMessage = ''path targets a sensitive file or directory'', ClassifierApprovable = True\<rparr>
      else \<lparr>Safe = True, SafetyMessage = [], ClassifierApprovable = False\<rparr>)"

text \<open>\<open>filepath.VolumeName\<close> is empty on Unix.\<close>

definition IsDangerousRemovalPath :: "go_env \<Rightarrow> string \<Rightarrow> bool" where
  "IsDangerousRemovalPath env path =
     (let norm = normalizePathForComparison env;
          resolved = norm (ExpandPath env path);
          home = norm (ExpandPath env ''~'');
          dangerous = [norm ''/'', norm ''/'', home, norm (JoinPath [home, ''.ssh'']),
                       norm (JoinPath [home, ''.config'']), norm (ClaudeHomeDir env)]
      in list_ex (\<lambda>item. item \<noteq> [] \<and> resolved = item) dangerous)"

section \<open>Internal paths\<close>

record PathCheckResult =
  Allowed :: bool
  Reason :: string
  BlockedPath :: string
  PathSource :: PermissionRuleSource

definition allowed_path :: "string \<Rightarrow> PathCheckResult" where
  "allowed_path reason = \<lparr>Allowed = True, Reason = reason, BlockedPath = [], PathSource = PermissionSourceSession\<rparr>"

definition not_allowed_path :: PathCheckResult where
  "not_allowed_path = \<lparr>Allowed = False, Reason = [], BlockedPath = [], PathSource = []\<rparr>"

definition blocked_path :: "string \<Rightarrow> string \<Rightarrow> PathCheckResult" where
  "blocked_path reason path = \<lparr>Allowed = False, Reason = reason, BlockedPath = path, PathSource = []\<rparr>"

definition isSessionPlanFile :: "go_env \<Rightarrow> string \<Rightarrow> InternalPathContext \<Rightarrow> bool" where
  "isSessionPlanFile env path internal =
     (if PlansDir internal = [] \<or> PlanSlug internal = [] then False
      else let prefix = JoinPath [ExpandPath env (PlansDir internal), PlanSlug internal];
               clean = Clean (ExpandPath env path)
        in HasPrefix (normalizePathForComparison env clean) (normalizePathForComparison env prefix)
           \<and> HasSuffix (ToLower env clean) ''.md'')"

definition jobDirAllows :: "go_env \<Rightarrow> string \<Rightarrow> InternalPathContext \<Rightarrow> bool" where
  "jobDirAllows env path internal =
     (if JobDir internal = [] \<or> JobsRoot internal = [] then False
      else let jobForms = PathsForPermissionCheck env (JobDir internal);
               rootForms = PathsForPermissionCheck env (JobsRoot internal)
        in if \<not> list_all (\<lambda>jobForm. list_ex (PathInWorkingPath env jobForm) rootForms) jobForms then False
           else list_all (\<lambda>targetForm. list_ex (PathInWorkingPath env targetForm) jobForms)
                  (PathsForPermissionCheck env path))"

definition pathInOptionalDir :: "go_env \<Rightarrow> string \<Rightarrow> string \<Rightarrow> bool" where
  "pathInOptionalDir env path dir =
     (if dir = [] then False else PathInWorkingPath env path (ExpandPath env dir))"

definition pathInAnyOptionalDir :: "go_env \<Rightarrow> string \<Rightarrow> string list \<Rightarrow> bool" where
  "pathInAnyOptionalDir env path dirs = list_ex (pathInOptionalDir env path) dirs"

definition CheckEditableInternalPath :: "go_env \<Rightarrow> string \<Rightarrow> InternalPathContext \<Rightarrow> PathCheckResult" where
  "CheckEditableInternalPath env path internal =
     (let normalized = Clean (ExpandPath env path) in
      if isSessionPlanFile env normalized internal then
        allowed_path ''plan files for current session are allowed for writing''
      else if ScratchpadEnabled internal \<and> pathInOptionalDir env normalized (ScratchpadDir internal) then
        allowed_path ''scratchpad files for current session are allowed for writing''
      else if jobDirAllows env normalized internal then
        allowed_path ''job directory files for current job are allowed for writing''
      else if pathInOptionalDir env normalized (AgentMemoryDir internal) then
        allowed_path ''agent memory files are allowed for writing''
      else if pathInOptionalDir env normalized (AutoMemoryDir internal) then
        allowed_path ''auto memory files are allowed for writing''
      else if LaunchConfigPath internal \<noteq> [] \<and> normalizePathForComparison env normalized
                = normalizePathForComparison env (ExpandPath env (LaunchConfigPath internal)) then
        allowed_path ''preview launch config is allowed for writing''
      else not_allowed_path)"

definition CheckReadableInternalPath :: "go_env \<Rightarrow> string \<Rightarrow> InternalPathContext \<Rightarrow> PathCheckResult" where
  "CheckReadableInternalPath env path internal =
     (let normalized = Clean (ExpandPath env path); inDir = pathInOptionalDir env normalized in
      if inDir (SessionMemoryDir internal) then allowed_path ''session memory files are allowed for reading''
      else if inDir (ProjectDir internal) then allowed_path ''project directory files are allowed for reading''
      else if isSessionPlanFile env normalized internal then
        allowed_path ''plan files for current session are allowed for reading''
      else if inDir (ToolResultsDir internal) then allowed_path ''tool result files are allowed for reading''
      else if ScratchpadEnabled internal \<and> inDir (ScratchpadDir internal) then
        allowed_path ''scratchpad files for current session are allowed for reading''
      else if inDir (ProjectTempDir internal) then
        allowed_path ''project temp directory files are allowed for reading''
      else if inDir (AgentMemoryDir internal) then allowed_path ''agent memory files are allowed for reading''
      else if inDir (AutoMemoryDir internal) then allowed_path ''auto memory files are allowed for reading''
      else if pathInAnyOptionalDir env normalized (SkillDirs internal) then
        allowed_path ''skill files are allowed for reading''
      else if inDir (TasksDir internal) then allowed_path ''task files are allowed for reading''
      else if inDir (TeamsDir internal) then allowed_path ''team files are allowed for reading''
      else not_allowed_path)"

section \<open>Working directories\<close>

text \<open>
  The maps of allowed directories are association lists with distinct keys. Go iterates over a
  map in an unspecified order: \<open>order\<close> is the order of one iteration, a rearrangement of the
  list.
\<close>

definition allowed_dirs ::
  "go_env \<Rightarrow> string \<Rightarrow> (string \<times> PermissionRuleSource) list \<Rightarrow> (string \<times> PermissionRuleSource) list" where
  "allowed_dirs env cwd additional =
     foldl (\<lambda>allowed (dir, source). AList.update (expandPathForCwd env dir cwd) source allowed)
       [(expandPathForCwd env cwd [], PermissionSourceSession)] additional"

text \<open>The first directory (in iteration order) that holds the path, with its source.\<close>

definition dir_of_path ::
  "go_env \<Rightarrow> (string \<times> PermissionRuleSource) list \<Rightarrow> string \<Rightarrow> PermissionRuleSource option" where
  "dir_of_path env allowed path =
     map_option snd
       (List.find (\<lambda>(dir, source). list_ex (PathInWorkingPath env path) (PathsForPermissionCheck env dir)) allowed)"

fun paths_loop ::
  "go_env \<Rightarrow> (string \<times> PermissionRuleSource) list \<Rightarrow> PermissionRuleSource \<Rightarrow> string list
   \<Rightarrow> PermissionRuleSource option" where
  "paths_loop env allowed matched [] = Some (if matched = [] then PermissionSourceSession else matched)"
| "paths_loop env allowed matched (path # paths) =
     (case dir_of_path env allowed path of
        None \<Rightarrow> None
      | Some source \<Rightarrow> paths_loop env allowed (if matched = [] then source else matched) paths)"

definition pathsInAllowedWorkingPaths ::
  "go_env \<Rightarrow> string list \<Rightarrow> (string \<times> PermissionRuleSource) list \<Rightarrow> PermissionRuleSource option" where
  "pathsInAllowedWorkingPaths env paths allowed = paths_loop env allowed [] paths"

definition IsPathAllowed ::
  "go_env \<Rightarrow> ((string \<times> PermissionRuleSource) list \<Rightarrow> (string \<times> PermissionRuleSource) list)
   \<Rightarrow> string \<Rightarrow> string \<Rightarrow> (string \<times> PermissionRuleSource) list \<Rightarrow> PathCheckResult" where
  "IsPathAllowed env order path cwd0 additional =
     (let cwd = (if cwd0 = [] then ''.'' else cwd0);
          resolved = expandPathForCwd env path cwd
      in case pathsInAllowedWorkingPaths env (PathsForPermissionCheck env resolved)
                (order (allowed_dirs env cwd additional)) of
           Some source \<Rightarrow>
             \<lparr>Allowed = True,
              Reason = (if source \<noteq> PermissionSourceSession then ''path is inside additional working directory''
                        else ''path is inside working directory''),
              BlockedPath = [], PathSource = source\<rparr>
         | None \<Rightarrow> blocked_path ''path is outside allowed working directories'' resolved)"

definition FileOperationRead :: string where "FileOperationRead = ''read''"
definition FileOperationWrite :: string where "FileOperationWrite = ''write''"

definition ValidatePathWithInternalContext ::
  "go_env \<Rightarrow> ((string \<times> PermissionRuleSource) list \<Rightarrow> (string \<times> PermissionRuleSource) list)
   \<Rightarrow> string \<Rightarrow> string \<Rightarrow> string \<Rightarrow> (string \<times> PermissionRuleSource) list \<Rightarrow> InternalPathContext \<Rightarrow> PathCheckResult" where
  "ValidatePathWithInternalContext env order path cwd0 operation additional internal =
     (let cwd = (if cwd0 = [] then ''.'' else cwd0) in
      if isUNCPath (ExpandPath env path) then blocked_path ''path appears to be a UNC/network path'' path
      else let resolved = expandPathForCwd env path cwd;
               pathsToCheck = PathsForPermissionCheck env resolved
        in case List.find isUNCPath pathsToCheck of
             Some item \<Rightarrow> blocked_path ''path appears to be a UNC/network path'' item
           | None \<Rightarrow>
               if operation \<noteq> FileOperationRead then
                 (if Allowed (CheckEditableInternalPath env resolved internal)
                  then CheckEditableInternalPath env resolved internal
                  else if IsDangerousRemovalPath env resolved then
                    blocked_path ''path targets a dangerous filesystem root'' resolved
                  else if \<not> Safe (CheckPathSafetyForAutoEdit env resolved pathsToCheck) then
                    blocked_path (SafetyMessage (CheckPathSafetyForAutoEdit env resolved pathsToCheck)) resolved
                  else IsPathAllowed env order resolved cwd additional)
               else if Allowed (CheckReadableInternalPath env resolved internal)
               then CheckReadableInternalPath env resolved internal
               else IsPathAllowed env order resolved cwd additional)"

definition ValidatePath ::
  "go_env \<Rightarrow> ((string \<times> PermissionRuleSource) list \<Rightarrow> (string \<times> PermissionRuleSource) list)
   \<Rightarrow> string \<Rightarrow> string \<Rightarrow> string \<Rightarrow> (string \<times> PermissionRuleSource) list \<Rightarrow> PathCheckResult" where
  "ValidatePath env order path cwd operation additional =
     ValidatePathWithInternalContext env order path cwd operation additional no_internal_paths"

end
