(* ===== verification/PermEngine.thy ===== *)
theory PermEngine
  imports PermRules PermPath
begin

text \<open>
  \<open>internal/permissions/engine.go\<close>: building an engine from settings, the decision on a request,
  and the updates. \<open>sort.SliceStable\<close> by behaviour rank is \<open>sort_key\<close>.
\<close>

record Engine =
  engMode :: PermissionMode
  engContext :: PermissionContext
  engRules :: "Rule list"

section \<open>Building an engine\<close>

definition NewEngine :: "PermissionContext \<Rightarrow> Rule list \<Rightarrow> Engine" where
  "NewEngine context rules =
     (let mode = (if ctxMode context = [] then PermissionDefault else ctxMode context)
      in \<lparr>engMode = mode, engContext = context\<lparr>ctxMode := mode\<rparr>, engRules = rules\<rparr>)"

definition truthy :: "json \<Rightarrow> bool" where
  "truthy value =
     (case value of JBool v \<Rightarrow> v
      | JStr v \<Rightarrow> v = ''true'' \<or> v = ''disable'' \<or> v = ''disabled''
      | _ \<Rightarrow> False)"

definition empty_context :: PermissionContext where
  "empty_context =
     \<lparr>ctxMode = PermissionDefault, AdditionalWorkingDirectories = Some Map.empty, AlwaysAllowRules = Map.empty,
      AlwaysDenyRules = Map.empty, AlwaysAskRules = Map.empty, BypassAvailable = True, AutoAvailable = True,
      AllowUnsandboxedCommands = None, SandboxFilesystem = None\<rparr>"

definition ContextFromSettings :: "PermissionRuleSource \<Rightarrow> PermissionsSetting option \<Rightarrow> PermissionContext" where
  "ContextFromSettings source settings =
     (case settings of None \<Rightarrow> empty_context
      | Some s \<Rightarrow>
          empty_context\<lparr>
            ctxMode := (if setDefaultMode s \<noteq> [] then setDefaultMode s else PermissionDefault),
            BypassAvailable := \<not> truthy (setDisableBypassMode s),
            AutoAvailable := \<not> truthy (setDisableAutoMode s),
            AdditionalWorkingDirectories :=
              Some (foldl (\<lambda>dirs dir. dirs(dir \<mapsto> source)) Map.empty (setAdditionalDirectories s)),
            AlwaysAllowRules := (if setAllow s \<noteq> [] then [source \<mapsto> setAllow s] else Map.empty),
            AlwaysDenyRules := (if setDeny s \<noteq> [] then [source \<mapsto> setDeny s] else Map.empty),
            AlwaysAskRules := (if setAsk s \<noteq> [] then [source \<mapsto> setAsk s] else Map.empty)\<rparr>)"

definition NewEngineFromSettings ::
  "PermissionRuleSource \<Rightarrow> PermissionsSetting option \<Rightarrow> rule_error + Engine" where
  "NewEngineFromSettings source settings =
     (case RulesFromSettings source settings of
        Inl e \<Rightarrow> Inl e
      | Inr rules \<Rightarrow> Inr (NewEngine (ContextFromSettings source settings) rules))"

text \<open>The sandbox settings are a decoded JSON object; \<open>None\<close> is a nil map.\<close>

definition sandboxAllowUnsandboxedCommands :: "(string \<rightharpoonup> json) option \<Rightarrow> bool option" where
  "sandboxAllowUnsandboxedCommands sandbox =
     (case sandbox of None \<Rightarrow> None
      | Some m \<Rightarrow> (case m ''allowUnsandboxedCommands'' of Some (JBool b) \<Rightarrow> Some b | _ \<Rightarrow> None))"

definition sandboxStringSlice :: "json option \<Rightarrow> string list" where
  "sandboxStringSlice value =
     (case value of
        Some (JArr items) \<Rightarrow>
          concat (map (\<lambda>item. case item of JStr text \<Rightarrow> if text \<noteq> [] then [text] else [] | _ \<Rightarrow> []) items)
      | _ \<Rightarrow> [])"

definition sandboxFilesystemPolicy :: "(string \<rightharpoonup> json) option \<Rightarrow> SandboxFilesystemPolicy option" where
  "sandboxFilesystemPolicy sandbox =
     (case sandbox of None \<Rightarrow> None
      | Some m \<Rightarrow>
        (case m ''filesystem'' of
           Some (JObj kvs) \<Rightarrow>
             (let fs = map_of kvs;
                  policy = \<lparr>AllowWrite = sandboxStringSlice (fs ''allowWrite''),
                            DenyWrite = sandboxStringSlice (fs ''denyWrite''),
                            DenyRead = sandboxStringSlice (fs ''denyRead''),
                            AllowRead = sandboxStringSlice (fs ''allowRead'')\<rparr>
              in if AllowWrite policy = [] \<and> DenyWrite policy = [] \<and> DenyRead policy = [] \<and> AllowRead policy = []
                 then None else Some policy)
         | _ \<Rightarrow> None))"

definition mergeUniqueStrings :: "string list \<Rightarrow> string list \<Rightarrow> string list" where
  "mergeUniqueStrings a b =
     foldl (\<lambda>out item. if item = [] \<or> item \<in> set out then out else out @ [item]) a b"

definition mergeSandboxFilesystemPolicy ::
  "SandboxFilesystemPolicy option \<Rightarrow> SandboxFilesystemPolicy \<Rightarrow> SandboxFilesystemPolicy" where
  "mergeSandboxFilesystemPolicy current nxt =
     (case current of None \<Rightarrow> nxt
      | Some c \<Rightarrow>
          \<lparr>AllowWrite = mergeUniqueStrings (AllowWrite c) (AllowWrite nxt),
           DenyWrite = mergeUniqueStrings (DenyWrite c) (DenyWrite nxt),
           DenyRead = mergeUniqueStrings (DenyRead c) (DenyRead nxt),
           AllowRead = mergeUniqueStrings (AllowRead c) (AllowRead nxt)\<rparr>)"

record SettingsSource =
  srcSource :: PermissionRuleSource
  srcPermissions :: "PermissionsSetting option"
  srcSandbox :: "(string \<rightharpoonup> json) option"

text \<open>The body of the loop of \<open>NewEngineFromSettingsSources\<close> before its rules part.\<close>

definition source_context :: "SettingsSource \<Rightarrow> PermissionContext \<Rightarrow> PermissionContext" where
  "source_context src context0 =
     (let sourceContext = ContextFromSettings (srcSource src) (srcPermissions src);
          context = (case sandboxAllowUnsandboxedCommands (srcSandbox src) of
                       Some b \<Rightarrow> context0\<lparr>AllowUnsandboxedCommands := Some b\<rparr> | None \<Rightarrow> context0);
          context = (case sandboxFilesystemPolicy (srcSandbox src) of
                       Some fs \<Rightarrow> context\<lparr>SandboxFilesystem :=
                                    Some (mergeSandboxFilesystemPolicy (SandboxFilesystem context) fs)\<rparr>
                     | None \<Rightarrow> context);
          context = (case srcPermissions src of
                       Some s \<Rightarrow> if setDefaultMode s \<noteq> [] then context\<lparr>ctxMode := ctxMode sourceContext\<rparr> else context
                     | None \<Rightarrow> context);
          context = (if \<not> BypassAvailable sourceContext then context\<lparr>BypassAvailable := False\<rparr> else context);
          context = (if \<not> AutoAvailable sourceContext then context\<lparr>AutoAvailable := False\<rparr> else context)
      in context\<lparr>AdditionalWorkingDirectories :=
           Some (the (AdditionalWorkingDirectories context) ++ the (AdditionalWorkingDirectories sourceContext))\<rparr>)"

definition source_rule_lists :: "PermissionRuleSource \<Rightarrow> PermissionsSetting \<Rightarrow> PermissionContext \<Rightarrow> PermissionContext" where
  "source_rule_lists source s context =
     context\<lparr>
       AlwaysAllowRules := (if setAllow s \<noteq> [] then (AlwaysAllowRules context)(source \<mapsto> setAllow s) else AlwaysAllowRules context),
       AlwaysDenyRules := (if setDeny s \<noteq> [] then (AlwaysDenyRules context)(source \<mapsto> setDeny s) else AlwaysDenyRules context),
       AlwaysAskRules := (if setAsk s \<noteq> [] then (AlwaysAskRules context)(source \<mapsto> setAsk s) else AlwaysAskRules context)\<rparr>"

fun sources_loop ::
  "bool \<Rightarrow> PermissionContext \<Rightarrow> Rule list \<Rightarrow> SettingsSource list \<Rightarrow> rule_error + Engine" where
  "sources_loop managedRulesOnly context rules [] = Inr (NewEngine context rules)"
| "sources_loop managedRulesOnly context rules (src # sources) =
     (if srcPermissions src = None \<and> srcSandbox src = None then
        sources_loop managedRulesOnly context rules sources
      else let context = source_context src context in
        (case srcPermissions src of
           None \<Rightarrow> sources_loop managedRulesOnly context rules sources
         | Some s \<Rightarrow>
             if managedRulesOnly \<and> srcSource src \<noteq> PermissionSourcePolicySettings then
               sources_loop managedRulesOnly context rules sources
             else (case RulesFromSettings (srcSource src) (Some s) of
                Inl e \<Rightarrow> Inl e
              | Inr sourceRules \<Rightarrow>
                  sources_loop managedRulesOnly (source_rule_lists (srcSource src) s context)
                    (rules @ sourceRules) sources)))"

definition NewEngineFromSettingsSources :: "bool \<Rightarrow> SettingsSource list \<Rightarrow> rule_error + Engine" where
  "NewEngineFromSettingsSources managedRulesOnly sources =
     sources_loop managedRulesOnly empty_context [] sources"

definition AddRule :: "Rule \<Rightarrow> Engine \<Rightarrow> Engine" where
  "AddRule rule e = e\<lparr>engRules := engRules e @ [rule]\<rparr>"

section \<open>Decisions\<close>

definition decision :: "PermissionBehavior \<Rightarrow> Request \<Rightarrow> string \<Rightarrow> string \<Rightarrow> PermissionDecision" where
  "decision behavior req reason message =
     \<lparr>decBehavior = behavior, decMessage = (if message = [] then reason else message), decReason = reason,
      decToolUseID = reqToolUseID req, decBlockedPath = []\<rparr>"

definition behaviorRank :: "PermissionBehavior \<Rightarrow> nat" where
  "behaviorRank behavior =
     (if behavior = PermissionDeny then 0 else if behavior = PermissionAllow then 1
      else if behavior = PermissionAsk then 2 else 3)"

definition matchingRules :: "go_env \<Rightarrow> Engine \<Rightarrow> Request \<Rightarrow> Rule list" where
  "matchingRules env e req =
     sort_key (\<lambda>r. behaviorRank (ruleBehavior r)) (filter (\<lambda>rule. Rule_Matches env rule req) (engRules e))"

definition firstByBehavior :: "Rule list \<Rightarrow> PermissionBehavior \<Rightarrow> Rule option" where
  "firstByBehavior rules behavior = List.find (\<lambda>rule. ruleBehavior rule = behavior) rules"

definition sandboxPathMatches :: "go_env \<Rightarrow> string list \<Rightarrow> string \<Rightarrow> string list \<Rightarrow> bool" where
  "sandboxPathMatches env pathsToCheck cwd configured =
     list_ex (\<lambda>configuredPath. configuredPath \<noteq> [] \<and>
       list_ex (\<lambda>candidate. PathInWorkingPath env candidate (expandPathForCwd env configuredPath cwd)) pathsToCheck)
       configured"

definition sandboxAllowsWritePath ::
  "go_env \<Rightarrow> SandboxFilesystemPolicy option \<Rightarrow> string list \<Rightarrow> string \<Rightarrow> bool" where
  "sandboxAllowsWritePath env policy pathsToCheck cwd =
     (case policy of None \<Rightarrow> False | Some p \<Rightarrow> sandboxPathMatches env pathsToCheck cwd (AllowWrite p))"

definition sandboxOverrideDecision :: "Engine \<Rightarrow> Request \<Rightarrow> PermissionDecision" where
  "sandboxOverrideDecision e req =
     (if AllowUnsandboxedCommands (engContext e) = Some False then
        decision PermissionDeny req ''sandbox.allowUnsandboxedCommands disables sandbox override'' []
      else if engMode e = PermissionBypassPermissions \<and> BypassAvailable (engContext e) then
        decision PermissionAllow req ''sandbox override allowed in bypassPermissions mode'' []
      else if engMode e = PermissionDontAsk then
        decision PermissionDeny req ''sandbox override requires confirmation'' []
      else decision PermissionAsk req ''sandbox override requires confirmation'' [])"

definition request_cwd :: "Request \<Rightarrow> string" where
  "request_cwd req = (if reqWorkingDirectory req = [] then ''.'' else reqWorkingDirectory req)"

definition sandboxFilesystemPathDecision ::
  "go_env \<Rightarrow> Engine \<Rightarrow> Request \<Rightarrow> string \<Rightarrow> string list \<Rightarrow> string \<Rightarrow> PermissionDecision option" where
  "sandboxFilesystemPathDecision env e req resolved pathsToCheck operation =
     (case SandboxFilesystem (engContext e) of None \<Rightarrow> None
      | Some policy \<Rightarrow>
        let cwd = request_cwd req in
        if operation = FileOperationRead then
          (if sandboxPathMatches env pathsToCheck cwd (DenyRead policy)
              \<and> \<not> sandboxPathMatches env pathsToCheck cwd (AllowRead policy)
           then Some ((decision PermissionDeny req ''sandbox.filesystem.denyRead blocks path'' [])\<lparr>decBlockedPath := resolved\<rparr>)
           else None)
        else if sandboxPathMatches env pathsToCheck cwd (DenyWrite policy) then
          Some ((decision PermissionDeny req ''sandbox.filesystem.denyWrite blocks path'' [])\<lparr>decBlockedPath := resolved\<rparr>)
        else None)"

definition request_operation :: "Request \<Rightarrow> string" where
  "request_operation req =
     (if reqReadOnly req \<and> \<not> reqWritesFiles req \<and> \<not> reqDestructive req then FileOperationRead
      else FileOperationWrite)"

definition pathDecision :: "go_env \<Rightarrow> Engine \<Rightarrow> Request \<Rightarrow> PermissionDecision option" where
  "pathDecision env e req =
     (if reqPath req = [] then None
      else let cwd = request_cwd req;
               resolved = expandPathForCwd env (reqPath req) cwd;
               operation = request_operation req;
               pathsToCheck = PathsForPermissionCheck env resolved
        in case sandboxFilesystemPathDecision env e req resolved pathsToCheck operation of
             Some d \<Rightarrow> Some d
           | None \<Rightarrow>
               if operation = FileOperationRead then
                 (let internal = CheckReadableInternalPath env resolved (reqInternalPaths req) in
                  if Allowed internal then Some (decision PermissionAllow req (Reason internal) []) else None)
               else let internal = CheckEditableInternalPath env resolved (reqInternalPaths req);
                        safety = CheckPathSafetyForAutoEdit env resolved pathsToCheck in
                 if Allowed internal then Some (decision PermissionAllow req (Reason internal) [])
                 else if IsDangerousRemovalPath env resolved then
                   Some ((decision PermissionAsk req ''path targets a dangerous filesystem root'' [])\<lparr>decBlockedPath := resolved\<rparr>)
                 else if \<not> Safe safety then
                   Some ((decision PermissionAsk req (SafetyMessage safety) [])\<lparr>decBlockedPath := resolved\<rparr>)
                 else if sandboxAllowsWritePath env (SandboxFilesystem (engContext e)) pathsToCheck cwd then
                   Some (decision PermissionAllow req ''sandbox.filesystem.allowWrite allows path'' [])
                 else None)"

text \<open>The final \<open>switch e.mode\<close>.\<close>

definition modeDecision :: "Engine \<Rightarrow> Request \<Rightarrow> PermissionDecision" where
  "modeDecision e req =
     (if engMode e = PermissionBypassPermissions then
        (if BypassAvailable (engContext e) then decision PermissionAllow req ''bypassPermissions mode'' []
         else decision PermissionAsk req ''bypassPermissions mode is disabled'' [])
      else if engMode e = PermissionDontAsk then
        (if reqReadOnly req then decision PermissionAllow req ''read-only tool in dontAsk mode'' []
         else decision PermissionDeny req ''dontAsk mode denies unmatched write or destructive tools'' [])
      else if engMode e = PermissionAcceptEdits then
        (if reqReadOnly req \<or> reqWritesFiles req then decision PermissionAllow req ''acceptEdits mode'' []
         else decision PermissionAsk req ''acceptEdits mode requires confirmation for non-file action'' [])
      else if engMode e = PermissionPlan then
        (if reqReadOnly req then decision PermissionAllow req ''read-only tool in plan mode'' []
         else decision PermissionAsk req ''plan mode requires confirmation for mutating tools'' [])
      else if engMode e = PermissionAuto then
        (if AutoAvailable (engContext e) \<and> reqReadOnly req \<and> \<not> reqDestructive req then
           decision PermissionAllow req ''auto mode allowed read-only tool'' []
         else if reqDestructive req then
           decision PermissionAsk req ''auto mode requires confirmation for destructive tool'' []
         else decision PermissionAsk req ''auto mode requires confirmation'' [])
      else if reqReadOnly req then decision PermissionAllow req ''default mode allowed read-only tool'' []
      else decision PermissionAsk req ''default mode requires confirmation'' [])"

definition rule_reason :: "go_env \<Rightarrow> string \<Rightarrow> Rule \<Rightarrow> string" where
  "rule_reason env verb rule = verb @ '' '' @ ruleSource rule @ '' rule '' @ Quote env (Rule_String rule)"

definition Decide :: "go_env \<Rightarrow> Engine \<Rightarrow> Request \<Rightarrow> PermissionDecision" where
  "Decide env e req =
     (if reqToolName req = [] then decision PermissionDeny req ''missing tool name'' []
      else let matched = matchingRules env e req in
        (case firstByBehavior matched PermissionDeny of
           Some rule \<Rightarrow> decision PermissionDeny req (rule_reason env ''denied by'' rule) []
         | None \<Rightarrow>
             if reqDangerouslyDisableSandbox req then sandboxOverrideDecision e req
             else (case pathDecision env e req of
                Some d \<Rightarrow> d
              | None \<Rightarrow>
                  (case firstByBehavior matched PermissionAllow of
                     Some rule \<Rightarrow> decision PermissionAllow req (rule_reason env ''allowed by'' rule) []
                   | None \<Rightarrow>
                       (case firstByBehavior matched PermissionAsk of
                          Some rule \<Rightarrow> decision PermissionAsk req (rule_reason env ''ask required by'' rule) []
                        | None \<Rightarrow> modeDecision e req)))))"

section \<open>Updates\<close>

datatype update_error = BadRule rule_error | MissingMode | UnsupportedType string

text \<open>
  \<open>ApplyUpdate\<close> returns the new engine, or an error; it has a value receiver, but the receiver
  shares its rules' backing array and its directory map with the new engine, and the code
  filters in place (\<open>next.rules[:0]\<close>) and writes the map. The first component is the receiver
  as it is after the call: \<open>overwritten old new\<close> is what a slice of \<open>length old\<close> elements shows
  when \<open>new\<close> has been appended to its empty prefix.
\<close>

definition overwritten :: "'a list \<Rightarrow> 'a list \<Rightarrow> 'a list" where
  "overwritten old new = take (length old) new @ drop (length new) old"

definition update_source :: "PermissionUpdate \<Rightarrow> PermissionRuleSource" where
  "update_source update =
     (if updDestination update \<noteq> [] then updDestination update else PermissionSourceSession)"

text \<open>Appending the update's rules one by one: the rules appended before an error, and the error.\<close>

fun append_rules ::
  "PermissionRuleSource \<Rightarrow> PermissionBehavior \<Rightarrow> PermissionRuleValue list \<Rightarrow> Rule list \<times> rule_error option" where
  "append_rules source behavior [] = ([], None)"
| "append_rules source behavior (value # values) =
     (case ParseRule source behavior (PermissionRuleValueToString value) of
        Inl e \<Rightarrow> ([], Some e)
      | Inr rule \<Rightarrow> (let (rules, err) = append_rules source behavior values in (rule # rules, err)))"

definition in_update :: "PermissionUpdate \<Rightarrow> Rule \<Rightarrow> bool" where
  "in_update update rule = (ruleSource rule = update_source update \<and> ruleBehavior rule = updBehavior update)"

definition ApplyUpdate :: "PermissionUpdate \<Rightarrow> Engine \<Rightarrow> Engine \<times> (update_error + Engine)" where
  "ApplyUpdate update e =
     (let typ = updType update; old = engRules e;
          (parsed, err) = append_rules (update_source update) (updBehavior update) (updRules update)
      in
      if typ \<in> {'''', ''rules'', ''addRules''} then
        (case err of Some x \<Rightarrow> (e, Inl (BadRule x)) | None \<Rightarrow> (e, Inr (e\<lparr>engRules := old @ parsed\<rparr>)))
      else if typ = ''replaceRules'' then
        (let new = filter (\<lambda>rule. \<not> in_update update rule) old @ parsed;
             receiver = e\<lparr>engRules := overwritten old new\<rparr>
         in case err of Some x \<Rightarrow> (receiver, Inl (BadRule x)) | None \<Rightarrow> (receiver, Inr (e\<lparr>engRules := new\<rparr>)))
      else if typ = ''removeRules'' then
        (let remove = map PermissionRuleValueToString (updRules update);
             new = filter (\<lambda>rule. \<not> (in_update update rule \<and> Rule_String rule \<in> set remove)) old
         in (e\<lparr>engRules := overwritten old new\<rparr>, Inr (e\<lparr>engRules := new\<rparr>)))
      else if typ = ''mode'' \<or> typ = ''setMode'' then
        (if updMode update = [] then (e, Inl MissingMode)
         else (e, Inr (e\<lparr>engMode := updMode update, engContext := (engContext e)\<lparr>ctxMode := updMode update\<rparr>\<rparr>)))
      else if typ = ''directories'' \<or> typ = ''addDirectories'' then
        (let add = (\<lambda>dirs. foldl (\<lambda>m dir. m(dir \<mapsto> update_source update)) dirs (updDirectories update));
             with_dirs = (\<lambda>dirs. e\<lparr>engContext := (engContext e)\<lparr>AdditionalWorkingDirectories := Some dirs\<rparr>\<rparr>)
         in (case AdditionalWorkingDirectories (engContext e) of
               None \<Rightarrow> (e, Inr (with_dirs (add Map.empty)))
             | Some dirs \<Rightarrow> (with_dirs (add dirs), Inr (with_dirs (add dirs)))))
      else if typ = ''removeDirectories'' then
        (case AdditionalWorkingDirectories (engContext e) of
           None \<Rightarrow> (e, Inr e)
         | Some dirs \<Rightarrow>
             let e' = e\<lparr>engContext := (engContext e)\<lparr>AdditionalWorkingDirectories :=
                          Some (foldl (\<lambda>m dir. m(dir := None)) dirs (updDirectories update))\<rparr>\<rparr>
             in (e', Inr e'))
      else (e, Inl (UnsupportedType typ)))"

end
