(* ===== verification/PathLaws.thy ===== *)
theory PathLaws
  imports PermPath BashLaws
begin

text \<open>
  Laws of \<open>Clean\<close> and of the path checks: a cleaned path is normal and \<open>Clean\<close> is idempotent,
  being inside a directory is a prefix relation on components, the climb to an existing
  ancestor ends within its fuel, and the forms of a path are bounded and distinct.
\<close>

section \<open>Cleaned components\<close>

definition proper_part :: "string \<Rightarrow> bool" where
  "proper_part p = (p \<noteq> [] \<and> p \<noteq> ''.'' \<and> p \<noteq> ''..'' \<and> CHR ''/'' \<notin> set p)"

text \<open>The stack of \<open>Clean\<close>: proper names on top of some \<open>..\<close>, none when the path is rooted.\<close>

definition clean_stack :: "bool \<Rightarrow> string list \<Rightarrow> bool" where
  "clean_stack rooted stack =
     (\<exists>names ups. stack = names @ ups \<and> list_all proper_part names \<and> list_all (\<lambda>p. p = ''..'') ups
        \<and> (rooted \<longrightarrow> ups = []))"

lemma clean_step_stack:
  assumes "clean_stack rooted stack" "CHR ''/'' \<notin> set part"
  shows "clean_stack rooted (clean_step rooted stack part)"
proof -
  obtain names ups where s: "stack = names @ ups" "list_all proper_part names" "list_all (\<lambda>p. p = ''..'') ups"
    "rooted \<longrightarrow> ups = []"
    using assms(1) unfolding clean_stack_def by blast
  consider "part = [] \<or> part = ''.''" | "part = ''..''" | "proper_part part"
    using assms(2) by (auto simp: proper_part_def)
  then show ?thesis
  proof cases
    case 1
    with assms(1) show ?thesis by (simp add: clean_step_def)
  next
    case 2
    show ?thesis
    proof (cases names)
      case Nil
      show ?thesis
      proof (cases ups)
        case Nil
        with \<open>names = []\<close> s 2 have "clean_step rooted stack part = (if rooted then [] else [''..''])"
          by (simp add: clean_step_def)
        moreover have "clean_stack rooted (if rooted then [] else [''..''])"
          unfolding clean_stack_def
          by (intro exI[of _ "[]"] exI[of _ "if rooted then [] else [''..'']"]) simp
        ultimately show ?thesis by simp
      next
        case (Cons u us)
        with Nil s 2 have "clean_step rooted stack part = [] @ (''..'' # ups)" "\<not> rooted"
          by (auto simp: clean_step_def)
        then show ?thesis using s(3) unfolding clean_stack_def by (intro exI[of _ "[]"] exI[of _ "''..'' # ups"]) simp
      qed
    next
      case (Cons n ns)
      with s 2 have "clean_step rooted stack part = ns @ ups"
        by (auto simp: clean_step_def proper_part_def)
      with s Cons show ?thesis unfolding clean_stack_def by (intro exI[of _ ns] exI[of _ ups]) simp
    qed
  next
    case 3
    with s have "clean_step rooted stack part = (part # names) @ ups"
      by (auto simp: clean_step_def proper_part_def)
    with s 3 show ?thesis unfolding clean_stack_def by (intro exI[of _ "part # names"] exI[of _ ups]) simp
  qed
qed

lemma clean_fold_stack:
  "clean_stack rooted stack \<Longrightarrow> (\<forall>p \<in> set parts. CHR ''/'' \<notin> set p) \<Longrightarrow>
   clean_stack rooted (foldl (clean_step rooted) stack parts)"
  by (induction parts arbitrary: stack) (simp_all add: clean_step_stack)

lemma clean_parts_stack: "clean_stack (IsAbs p) (rev (clean_parts p))"
proof -
  have "clean_stack (IsAbs p) []" by (simp add: clean_stack_def)
  then show ?thesis
    using clean_fold_stack[of "IsAbs p" "[]" "Split p (CHR ''/'')"] Split_pieces
    by (auto simp: clean_parts_def)
qed

lemma clean_parts_abs: "IsAbs p \<Longrightarrow> list_all proper_part (clean_parts p)"
  using clean_parts_stack[of p] by (auto simp: clean_stack_def list_all_iff rev_swap)

text \<open>Running the steps over a clean stack rebuilds it.\<close>

lemma clean_steps_names:
  "list_all proper_part names \<Longrightarrow> foldl (clean_step rooted) stack names = rev names @ stack"
  by (induction names arbitrary: stack) (auto simp: clean_step_def proper_part_def)

lemma clean_steps_ups:
  "list_all (\<lambda>p. p = ''..'') ups \<Longrightarrow> list_all (\<lambda>p. p = ''..'') stack \<Longrightarrow>
   foldl (clean_step False) stack ups = rev ups @ stack"
proof (induction ups arbitrary: stack)
  case (Cons u ups)
  then have "clean_step False stack u = u # stack" by (cases stack) (auto simp: clean_step_def)
  with Cons show ?case by simp
qed simp

lemma clean_steps_stack:
  assumes "clean_stack rooted stack"
  shows "foldl (clean_step rooted) [] (rev stack) = stack"
proof -
  obtain names ups where s: "stack = names @ ups" "list_all proper_part names" "list_all (\<lambda>p. p = ''..'') ups"
    "rooted \<longrightarrow> ups = []"
    using assms unfolding clean_stack_def by blast
  have "foldl (clean_step rooted) [] (rev ups) = ups"
    using s(3,4) clean_steps_ups[of "rev ups" "[]"] by (cases rooted) auto
  with s show ?thesis using clean_steps_names[of "rev names" rooted ups] by simp
qed

lemma clean_parts_no_slash:
  assumes "p \<in> set (clean_parts s)"
  shows "CHR ''/'' \<notin> set p" "p \<noteq> []"
proof -
  obtain names ups where "rev (clean_parts s) = names @ ups" "list_all proper_part names" "list_all (\<lambda>p. p = ''..'') ups"
    using clean_parts_stack[of s] unfolding clean_stack_def by blast
  moreover from this(1) have "p \<in> set names \<or> p \<in> set ups"
    using assms by (metis Un_iff set_append set_rev)
  ultimately show "CHR ''/'' \<notin> set p" "p \<noteq> []" by (auto simp: list_all_iff proper_part_def)
qed

lemma IsAbs_Cons: "IsAbs (c # s) \<longleftrightarrow> c = CHR ''/''"
  by (cases s) (auto simp: IsAbs_def)

lemma IsAbs_hd: "s \<noteq> [] \<Longrightarrow> IsAbs s \<longleftrightarrow> hd s = CHR ''/''"
  by (cases s) (simp_all add: IsAbs_Cons)

lemma Join_head: "xs \<noteq> [] \<Longrightarrow> hd xs \<noteq> [] \<Longrightarrow> Join xs sep \<noteq> [] \<and> hd (Join xs sep) = hd (hd xs)"
proof -
  assume "xs \<noteq> []" "hd xs \<noteq> []"
  then obtain c w rest where "xs = (c # w) # rest" by (metis list.exhaust_sel)
  then show ?thesis by (cases rest) simp_all
qed

text \<open>The components of a cleaned path are those of the path.\<close>

lemma clean_parts_Clean: "clean_parts (Clean p) = clean_parts p"
proof -
  let ?ps = "clean_parts p"
  have stack: "clean_stack (IsAbs p) (rev ?ps)" by (rule clean_parts_stack)
  have ns: "\<And>q. q \<in> set ?ps \<Longrightarrow> CHR ''/'' \<notin> set q" using clean_parts_no_slash by blast
  have steps: "foldl (clean_step (IsAbs p)) [] ?ps = rev ?ps" using clean_steps_stack[OF stack] by simp
  show ?thesis
  proof (cases "IsAbs p")
    case True
    then have c: "Clean p = CHR ''/'' # Join ?ps ''/''" by (simp add: Clean_def Let_def)
    have ab: "IsAbs (Clean p)" by (simp add: c IsAbs_Cons)
    have "foldl (clean_step True) [] (Split (Join ?ps ''/'') (CHR ''/'')) = rev ?ps"
    proof (cases "?ps = []")
      case True
      then show ?thesis by (simp add: clean_step_def)
    next
      case False
      with ns steps \<open>IsAbs p\<close> show ?thesis by (simp add: Split_Join)
    qed
    then show ?thesis using ab unfolding c clean_parts_def[of "CHR ''/'' # Join (clean_parts p) ''/''"]
      by (simp add: clean_step_def)
  next
    case rel: False
    show ?thesis
    proof (cases "?ps = []")
      case True
      with rel have "Clean p = ''.''" by (simp add: Clean_def Let_def)
      with True show ?thesis by (simp add: clean_parts_def clean_step_def IsAbs_def)
    next
      case False
      with rel have c: "Clean p = Join ?ps ''/''" by (simp add: Clean_def Let_def)
      have "hd ?ps \<in> set ?ps" using False by simp
      then have "hd ?ps \<noteq> []" "hd (hd ?ps) \<noteq> CHR ''/''"
        using clean_parts_no_slash[of "hd ?ps" p] by (auto dest: hd_in_set)
      then have "\<not> IsAbs (Clean p)" unfolding c using Join_head[OF False, of "''/''"] by (simp add: IsAbs_hd)
      moreover have "Split (Clean p) (CHR ''/'') = ?ps" unfolding c using False ns by (simp add: Split_Join)
      ultimately show ?thesis using steps rel by (simp add: clean_parts_def[of "Clean p"])
    qed
  qed
qed

lemma IsAbs_Clean: "IsAbs (Clean p) = IsAbs p"
proof (cases "IsAbs p")
  case True
  then show ?thesis by (simp add: Clean_def Let_def IsAbs_Cons)
next
  case rel: False
  show ?thesis
  proof (cases "clean_parts p = []")
    case True
    with rel show ?thesis by (simp add: Clean_def Let_def IsAbs_Cons)
  next
    case False
    then have "hd (clean_parts p) \<noteq> []" "hd (hd (clean_parts p)) \<noteq> CHR ''/''"
      using False clean_parts_no_slash[of "hd (clean_parts p)" p] by (auto dest: hd_in_set)
    then show ?thesis using rel False Join_head[OF False, of "''/''"]
      by (simp add: Clean_def Let_def IsAbs_hd)
  qed
qed

lemma Clean_idem: "Clean (Clean p) = Clean p"
  unfolding Clean_def[of "Clean p"] clean_parts_Clean IsAbs_Clean by (simp only: Clean_def)

section \<open>Being inside a directory\<close>

lemma HasPrefix_iff: "HasPrefix s p \<longleftrightarrow> prefix p s"
  by (induction s p rule: HasPrefix.induct) auto

lemma HasSuffix_iff: "HasSuffix s p \<longleftrightarrow> suffix p s"
  by (simp add: HasSuffix_def HasPrefix_iff suffix_to_prefix)

lemma lower_byte_ascii: "is_ascii c \<Longrightarrow> is_ascii (lower_byte c)"
  by (auto simp: lower_byte_def is_ascii_def in_range_def byte_def)

lemma lower_byte_eq:
  assumes "\<not> is_upper d" "\<not> is_lower d"
  shows "lower_byte c = d \<longleftrightarrow> c = d"
proof (cases "is_upper c")
  case True
  then have r: "65 \<le> byte c" "byte c \<le> 90" by (auto simp: in_range_def byte_def)
  then have "byte (lower_byte c) = byte c + 32" using True by (simp add: lower_byte_def byte_def)
  then have "is_lower (lower_byte c)" using r by (auto simp: in_range_def byte_def)
  then show ?thesis using assms True by auto
qed (auto simp: lower_byte_def)

lemma lower_byte_path: "lower_byte c = CHR ''/'' \<longleftrightarrow> c = CHR ''/''" "lower_byte c = CHR ''.'' \<longleftrightarrow> c = CHR ''.''"
  by (rule lower_byte_eq; simp add: in_range_def byte_def)+

lemma map_lower_dots:
  "map lower_byte s = ''.'' \<longleftrightarrow> s = ''.''" "map lower_byte s = ''..'' \<longleftrightarrow> s = ''..''"
  by (auto simp: map_eq_Cons_conv lower_byte_path)

lemma Split_lower: "Split (map lower_byte s) (CHR ''/'') = map (map lower_byte) (Split s (CHR ''/''))"
  by (induction s) (auto simp: lower_byte_path split: list.split)

lemma clean_step_lower:
  "clean_step r (map (map lower_byte) stack) (map lower_byte p) = map (map lower_byte) (clean_step r stack p)"
  by (cases stack) (auto simp: clean_step_def map_lower_dots)

lemma clean_fold_lower:
  "foldl (clean_step r) (map (map lower_byte) stack) (map (map lower_byte) ps)
   = map (map lower_byte) (foldl (clean_step r) stack ps)"
  by (induction ps arbitrary: stack) (simp_all add: clean_step_lower)

lemma IsAbs_lower: "IsAbs (map lower_byte s) = IsAbs s"
  by (cases s) (simp_all add: IsAbs_Cons lower_byte_path IsAbs_def)

lemma clean_parts_lower: "clean_parts (map lower_byte s) = map (map lower_byte) (clean_parts s)"
  using clean_fold_lower[of "IsAbs s" "[]" "Split s (CHR ''/'')"]
  by (simp add: clean_parts_def IsAbs_lower Split_lower rev_map)

lemma Join_lower: "map lower_byte (Join ps ''/'') = Join (map (map lower_byte) ps) ''/''"
proof (induction ps)
  case (Cons p ps)
  then show ?case by (cases ps) (simp_all add: lower_byte_path)
qed simp

lemma Clean_lower: "map lower_byte (Clean s) = Clean (map lower_byte s)"
  by (simp add: Clean_def Let_def IsAbs_lower clean_parts_lower Join_lower lower_byte_path)

lemma Split_bytes: "p \<in> set (Split s sep) \<Longrightarrow> set p \<subseteq> set s"
proof (induction s arbitrary: p)
  case (Cons c s)
  obtain q qs where sp: "Split s sep = q # qs" by (cases "Split s sep") auto
  have "set q \<subseteq> set s" using Cons.IH[of q] sp by simp
  with Cons sp show ?case by (fastforce split: if_split_asm)
qed simp

lemma clean_fold_bytes:
  "p \<in> set (foldl (clean_step r) stack ps) \<Longrightarrow> p \<in> set stack \<or> p \<in> set ps"
proof (induction ps arbitrary: stack)
  case (Cons q ps)
  from Cons.prems have "p \<in> set (clean_step r stack q) \<or> p \<in> set ps" using Cons.IH by simp
  then show ?case by (cases stack) (auto simp: clean_step_def split: if_split_asm)
qed simp

lemma Join_bytes: "set (Join ps sep) \<subseteq> (\<Union>p \<in> set ps. set p) \<union> set sep"
  by (induction ps sep rule: Join.induct) auto

lemma Clean_ascii: "list_all is_ascii s \<Longrightarrow> list_all is_ascii (Clean s)"
proof -
  assume a: "list_all is_ascii s"
  have "c \<in> set p \<Longrightarrow> p \<in> set (clean_parts s) \<Longrightarrow> is_ascii c" for c p
    using a clean_fold_bytes[of p "IsAbs s" "[]"] Split_bytes[of p s]
    by (fastforce simp: clean_parts_def list_all_iff)
  then have "c \<in> set (Join (clean_parts s) ''/'') \<Longrightarrow> is_ascii c" for c
    using Join_bytes[of "clean_parts s" "''/''"] by (auto simp: is_ascii_def byte_def)
  then show ?thesis by (auto simp: Clean_def Let_def list_all_iff is_ascii_def byte_def)
qed

text \<open>The components that the comparison sees.\<close>

definition path_names :: "string \<Rightarrow> string list" where
  "path_names p = clean_parts (map lower_byte p)"

lemma normalize_abs:
  assumes "IsAbs p" "list_all is_ascii p"
  shows "normalizePathForComparison env p = CHR ''/'' # Join (path_names p) ''/''"
  using assms Clean_ascii[OF assms(2)]
  by (simp add: normalizePathForComparison_def ToLower_def Clean_lower path_names_def Clean_def Let_def IsAbs_lower
      clean_parts_lower Join_lower lower_byte_path)

lemma path_names_proper: "IsAbs p \<Longrightarrow> list_all proper_part (path_names p)"
  by (simp add: path_names_def clean_parts_abs IsAbs_lower)

lemma Split_Join_rest:
  "ys \<noteq> [] \<Longrightarrow> (\<And>y. y \<in> set ys \<Longrightarrow> c \<notin> set y) \<Longrightarrow> Split (Join ys [c] @ c # t) c = ys @ Split t c"
proof (induction ys)
  case (Cons y ys)
  then show ?case by (cases ys) (simp_all add: Split_piece Join_Cons)
qed simp

lemma Join_append: "ys \<noteq> [] \<Longrightarrow> zs \<noteq> [] \<Longrightarrow> Join (ys @ zs) sep = Join ys sep @ sep @ Join zs sep"
proof (induction ys)
  case (Cons y ys)
  then show ?case by (cases ys) (simp_all add: Join_Cons)
qed simp

lemma proper_no_slash: "list_all proper_part xs \<Longrightarrow> x \<in> set xs \<Longrightarrow> CHR ''/'' \<notin> set x \<and> x \<noteq> []"
  by (auto simp: list_all_iff proper_part_def)

lemma joined_prefix:
  assumes "list_all proper_part xs" "list_all proper_part ys" "ys \<noteq> []"
  shows "prefix (Join ys ''/'' @ ''/'') (Join xs ''/'') \<longleftrightarrow> strict_prefix ys xs"
proof
  assume "prefix (Join ys ''/'' @ ''/'') (Join xs ''/'')"
  then obtain t where t: "Join xs ''/'' = Join ys ''/'' @ CHR ''/'' # t" by (auto simp: prefix_def)
  then have ne: "xs \<noteq> []" by auto
  have "xs = Split (Join xs ''/'') (CHR ''/'')"
    using ne proper_no_slash[OF assms(1)] by (intro Split_Join[symmetric]) auto
  also have "\<dots> = ys @ Split t (CHR ''/'')"
    unfolding t using assms(3) proper_no_slash[OF assms(2)] by (intro Split_Join_rest) auto
  finally have "xs = ys @ Split t (CHR ''/'')" .
  then show "strict_prefix ys xs" by (metis Split_not_Nil append_self_conv prefixI prefix_order.less_le)
next
  assume "strict_prefix ys xs"
  then obtain zs where "xs = ys @ zs" "zs \<noteq> []" by (auto simp: strict_prefix_def prefix_def)
  then show "prefix (Join ys ''/'' @ ''/'') (Join xs ''/'')"
    using assms(3) by (simp add: Join_append)
qed

lemma Join_last: "\<exists>u. Join (zs @ [x @ [c]]) sep = u @ [c]"
proof (induction zs)
  case (Cons z zs)
  then obtain u where "Join (zs @ [x @ [c]]) sep = u @ [c]" by blast
  then have "Join ((z # zs) @ [x @ [c]]) sep = (z @ sep @ u) @ [c]" by (simp add: Join_Cons)
  then show ?case by blast
qed simp

lemma joined_no_suffix:
  assumes "list_all proper_part ys" "ys \<noteq> []"
  shows "\<not> suffix ''/'' (CHR ''/'' # Join ys ''/'')" "Join ys ''/'' \<noteq> []"
proof -
  obtain y zs where ys: "ys = zs @ [y]" using assms(2) by (cases ys rule: rev_cases) auto
  obtain x c where y: "y = x @ [c]" "c \<noteq> CHR ''/''"
    using proper_no_slash[OF assms(1), of y] ys by (cases y rule: rev_cases) auto
  have "\<exists>u. Join ys ''/'' = u @ [c]"
    using Join_last[of zs x c] ys y(1) by simp
  then obtain u where u: "Join ys ''/'' = u @ [c]" by blast
  then show "\<not> suffix ''/'' (CHR ''/'' # Join ys ''/'')" using y(2) by (auto simp: suffix_def)
  show "Join ys ''/'' \<noteq> []" using u by simp
qed

lemma Join_inj:
  assumes "list_all proper_part xs" "list_all proper_part ys" "Join xs ''/'' = Join ys ''/''"
  shows "xs = ys"
proof (cases "xs = [] \<or> ys = []")
  case True
  then show ?thesis using assms joined_no_suffix(2) by (metis Join.simps(1))
next
  case False
  then show ?thesis using assms proper_no_slash Split_Join by metis
qed

lemma in_working_path:
  assumes "IsAbs p" "list_all is_ascii p" "IsAbs w" "list_all is_ascii w"
  shows "PathInWorkingPath env p w \<longleftrightarrow> prefix (path_names w) (path_names p)"
proof -
  let ?xs = "path_names p" and ?ys = "path_names w"
  have pr: "list_all proper_part ?xs" "list_all proper_part ?ys"
    using assms path_names_proper by blast+
  show ?thesis
  proof (cases "?ys = []")
    case True
    then show ?thesis
      by (auto simp: PathInWorkingPath_def normalize_abs assms Let_def HasPrefix_iff HasSuffix_iff)
  next
    case False
    have "PathInWorkingPath env p w \<longleftrightarrow> Join ?xs ''/'' = Join ?ys ''/'' \<or> prefix (Join ?ys ''/'' @ ''/'') (Join ?xs ''/'')"
      using joined_no_suffix(1)[OF pr(2) False]
      by (simp add: PathInWorkingPath_def normalize_abs assms Let_def HasPrefix_iff HasSuffix_iff)
    also have "\<dots> \<longleftrightarrow> ?xs = ?ys \<or> strict_prefix ?ys ?xs"
      using Join_inj[OF pr] joined_prefix[OF pr False] by auto
    finally show ?thesis by (auto simp: strict_prefix_def)
  qed
qed

end
