(* ===== verification/PathForms.thy ===== *)
theory PathForms
  imports PathLaws
begin

text \<open>
  The loops of \<open>PathsForPermissionCheck\<close>: the climb to the deepest existing ancestor returns
  (its fuel is enough because \<open>Dir\<close> shortens a path), and the list of forms starts with the
  absolute path, has no two forms that compare equal and at most 42 elements.
\<close>

section \<open>\<open>Dir\<close> shortens\<close>

definition parts_weight :: "string list \<Rightarrow> nat" where
  "parts_weight ps = (\<Sum>p\<leftarrow>ps. length p + 1)"

lemma parts_weight_simps [simp]:
  "parts_weight [] = 0" "parts_weight (p # ps) = length p + 1 + parts_weight ps"
  "parts_weight (ps @ qs) = parts_weight ps + parts_weight qs" "parts_weight (rev ps) = parts_weight ps"
  by (simp_all add: parts_weight_def rev_map[symmetric] sum_list_rev)

lemma weight_Split: "parts_weight (Split s c) = length s + 1"
  by (induction s) (auto split: list.split)

lemma weight_Join: "ps \<noteq> [] \<Longrightarrow> length (Join ps [c]) + 1 = parts_weight ps"
proof (induction ps)
  case (Cons p ps)
  then show ?case by (cases ps) (simp_all add: Join_Cons)
qed simp

lemma weight_clean_step: "parts_weight (clean_step r stack p) \<le> parts_weight stack + (if p = [] then 0 else length p + 1)"
  by (cases stack) (auto simp: clean_step_def)

lemma weight_clean_fold:
  "parts_weight (foldl (clean_step r) stack ps) \<le> parts_weight stack + parts_weight (filter (\<lambda>p. p \<noteq> []) ps)"
proof (induction ps arbitrary: stack)
  case (Cons p ps)
  have "parts_weight (foldl (clean_step r) (clean_step r stack p) ps)
      \<le> parts_weight (clean_step r stack p) + parts_weight (filter (\<lambda>p. p \<noteq> []) ps)" by (rule Cons)
  also have "\<dots> \<le> parts_weight stack + (if p = [] then 0 else length p + 1) + parts_weight (filter (\<lambda>p. p \<noteq> []) ps)"
    using weight_clean_step[of r stack p] by simp
  finally show ?case by (cases "p = []") simp_all
qed simp

lemma weight_filter: "parts_weight (filter (\<lambda>p. p \<noteq> []) ps) + length (filter (\<lambda>p. p = []) ps) = parts_weight ps"
  by (induction ps) auto

lemma weight_clean_parts:
  "parts_weight (clean_parts s) + length (filter (\<lambda>p. p = []) (Split s (CHR ''/''))) \<le> length s + 1"
  using weight_clean_fold[of "IsAbs s" "[]" "Split s (CHR ''/'')"] weight_filter[of "Split s (CHR ''/'')"]
  by (simp add: clean_parts_def weight_Split)

lemma Split_snoc_sep: "Split (s @ [c]) c = Split s c @ [[]]"
proof (induction s)
  case (Cons a s)
  obtain p ps where sp: "Split s c = p # ps" by (cases "Split s c") auto
  with Cons show ?case by auto
qed simp

text \<open>A path that ends in a slash and is not the root gets shorter.\<close>

lemma Clean_shorter:
  assumes "s = t @ ''/''" "t \<noteq> []"
  shows "length (Clean s) < length s"
proof -
  let ?e = "length (filter (\<lambda>p. p = []) (Split s (CHR ''/'')))"
  have sp: "Split s (CHR ''/'') = Split t (CHR ''/'') @ [[]]" by (simp only: assms(1) Split_snoc_sep)
  then have e1: "1 \<le> ?e" by simp
  have e2: "2 \<le> ?e" if ab: "IsAbs s"
  proof -
    obtain t' where "t = CHR ''/'' # t'" using ab assms by (cases t) (simp_all add: IsAbs_Cons)
    then have "Split t (CHR ''/'') = [] # Split t' (CHR ''/'')" by simp
    then show ?thesis by (simp add: sp)
  qed
  have w: "parts_weight (clean_parts s) + ?e \<le> length s + 1" by (rule weight_clean_parts)
  have l: "length s \<ge> 2" using assms by (cases t) auto
  show ?thesis
  proof (cases "clean_parts s = []")
    case True
    with l show ?thesis by (simp add: Clean_def Let_def)
  next
    case False
    with weight_Join[OF False, of "CHR ''/''"] w e1 e2 show ?thesis
      by (cases "IsAbs s") (simp_all add: Clean_def Let_def)
  qed
qed

text \<open>\<open>Dir\<close> has two fixed points, the root and the dot; everywhere else this measure goes down.\<close>

definition climb_measure :: "string \<Rightarrow> nat" where
  "climb_measure p = (if p = ''/'' \<or> p = ''.'' then 0 else length p)"

lemma Dir_fixed: "Dir ''/'' = ''/''" "Dir ''.'' = ''.''"
  by code_simp+

lemma Dir_shorter:
  assumes "p \<noteq> []" "Dir p \<noteq> p"
  shows "climb_measure (Dir p) < climb_measure p"
proof -
  have pn: "p \<noteq> ''/''" "p \<noteq> ''.''" using assms(2) Dir_fixed by auto
  let ?d = "rev (dropWhile (\<lambda>c. c \<noteq> CHR ''/'') (rev p))"
  have pre: "prefix ?d p"
    by (metis prefix_def rev_append rev_rev_ident takeWhile_dropWhile_id)
  have dir: "Dir p = Clean ?d" by (simp add: Dir_def)
  show ?thesis
  proof (cases "?d = []")
    case True
    then have "Dir p = ''.''" unfolding dir True by code_simp
    then show ?thesis using pn assms(1) by (simp add: climb_measure_def)
  next
    case False
    then have "hd (dropWhile (\<lambda>c. c \<noteq> CHR ''/'') (rev p)) = CHR ''/''"
      using hd_dropWhile[of "\<lambda>c. c \<noteq> CHR ''/''" "rev p"] by simp
    then obtain t where t: "?d = t @ ''/''"
      using False by (metis append_butlast_last_id hd_rev rev_rev_ident rev_is_Nil_conv last_rev)
    show ?thesis
    proof (cases "t = []")
      case True
      then have "Dir p = ''/''" unfolding dir t True by code_simp
      then show ?thesis using pn assms(1) by (simp add: climb_measure_def)
    next
      case ne: False
      have "length (Dir p) < length ?d" unfolding dir using Clean_shorter[OF t ne] .
      also have "length ?d \<le> length p" using pre by (rule prefix_length_le)
      finally show ?thesis using pn assms(1) by (simp add: climb_measure_def)
    qed
  qed
qed

lemma Clean_nonempty: "Clean p \<noteq> []"
proof (cases "clean_parts p = []")
  case False
  then have "hd (clean_parts p) \<noteq> []" using clean_parts_no_slash(2)[of "hd (clean_parts p)" p] by (auto dest: hd_in_set)
  with False show ?thesis using Join_head[OF False, of "''/''"] by (simp add: Clean_def Let_def)
qed (simp add: Clean_def Let_def)

lemma resolve_climb_total:
  "p \<noteq> [] \<Longrightarrow> climb_measure p < fuel \<Longrightarrow> \<exists>r. resolve_climb env fuel p sfx = Some r"
proof (induction fuel arbitrary: p sfx)
  case (Suc fuel)
  show ?case
  proof (cases "eval_symlinks env p = None \<and> Dir p \<noteq> p")
    case True
    then have "climb_measure (Dir p) < fuel" using Dir_shorter[OF Suc.prems(1)] Suc.prems(2) by simp
    moreover have "Dir p \<noteq> []" by (simp add: Dir_def Clean_nonempty)
    ultimately have "\<exists>r. resolve_climb env fuel (Dir p) (sfx @ [Base p]) = Some r" by (intro Suc.IH)
    with True show ?thesis by (simp add: resolve_climb.simps[of env "Suc fuel"] Let_def)
  next
    case False
    then show ?thesis
      by (cases "eval_symlinks env p") (simp_all add: resolve_climb.simps[of env "Suc fuel"] Let_def)
  qed
qed simp

lemma resolve_ancestor_total: "\<exists>r. resolveDeepestExistingAncestor env path = Some r"
  using resolve_climb_total[OF Clean_nonempty, of path "length (Clean path) + 1" env "[]"]
  by (simp add: resolveDeepestExistingAncestor_def climb_measure_def)

section \<open>The list of forms\<close>

text \<open>\<open>out\<close> starts with the path, \<open>seen\<close> holds the comparison keys of \<open>out\<close>, all distinct.\<close>

definition forms_inv :: "go_env \<Rightarrow> string \<Rightarrow> string list \<times> string list \<Rightarrow> bool" where
  "forms_inv env path = (\<lambda>(out, seen).
     out \<noteq> [] \<and> hd out = path \<and> distinct (map (normalizePathForComparison env) out)
     \<and> set seen = set (map (normalizePathForComparison env) out))"

lemma add_candidate_inv: "forms_inv env path acc \<Longrightarrow> forms_inv env path (add_candidate env c acc)"
  by (cases acc) (auto simp: forms_inv_def add_candidate_def Let_def)

lemma add_candidate_length: "length (fst (add_candidate env c acc)) \<le> Suc (length (fst acc))"
  by (cases acc) (auto simp: add_candidate_def Let_def)

lemma follow_links_inv:
  "forms_inv env path acc \<Longrightarrow> forms_inv env path (follow_links env depth p current visited acc)"
  by (induction depth arbitrary: current visited acc)
    (auto simp: Let_def add_candidate_inv split: option.split)

lemma follow_links_length:
  "length (fst (follow_links env depth p current visited acc)) \<le> length (fst acc) + depth"
proof (induction depth arbitrary: current visited acc)
  case (Suc depth)
  have one: "length (fst (add_candidate env c acc)) \<le> length (fst acc) + Suc depth" for c
    using add_candidate_length[of env c acc] by linarith
  have rec: "length (fst (follow_links env depth p t v (add_candidate env c acc))) \<le> length (fst acc) + Suc depth" for t v c
    using Suc.IH[of t v "add_candidate env c acc"] add_candidate_length[of env c acc] by linarith
  show ?case using one rec by (auto simp: Let_def split: option.split)
qed simp

lemma paths_for_check_inv:
  defines "p \<equiv> \<lambda>env path. abs_or_same env (ExpandPath env path)"
  shows "hd (PathsForPermissionCheck env path) = p env path \<and> PathsForPermissionCheck env path \<noteq> []
    \<and> distinct (map (normalizePathForComparison env) (PathsForPermissionCheck env path))
    \<and> length (PathsForPermissionCheck env path) \<le> 42"
proof -
  let ?p = "p env path"
  let ?start = "([?p], [normalizePathForComparison env ?p])"
  let ?links = "follow_links env 40 ?p ?p [] ?start"
  have s: "forms_inv env ?p ?start" by (simp add: forms_inv_def)
  have l: "forms_inv env ?p ?links" by (rule follow_links_inv[OF s])
  have n: "length (fst ?links) \<le> 41" using follow_links_length[of env 40 ?p ?p "[]" ?start] by simp
  have r: "forms_inv env ?p (add_candidate env c ?links)" "length (fst (add_candidate env c ?links)) \<le> 42" for c
    using add_candidate_inv[OF l] add_candidate_length[of env c ?links] n by auto
  have "\<exists>acc. PathsForPermissionCheck env path = fst acc \<and> forms_inv env ?p acc \<and> length (fst acc) \<le> 42"
  proof (cases "isUNCPath ?p")
    case True
    then show ?thesis using s by (intro exI[of _ ?start]) (simp add: PathsForPermissionCheck_def p_def Let_def)
  next
    case False
    let ?acc = "case eval_symlinks env ?p of None \<Rightarrow> ?links | Some c \<Rightarrow> add_candidate env c ?links"
    have "PathsForPermissionCheck env path = fst ?acc"
      using False by (simp add: PathsForPermissionCheck_def p_def Let_def split: option.split)
    moreover have "forms_inv env ?p ?acc \<and> length (fst ?acc) \<le> 42"
      using l n r by (simp split: option.split)
    ultimately show ?thesis by blast
  qed
  then show ?thesis by (auto simp: forms_inv_def)
qed

end
