(* ===== verification/PermValidation.thy ===== *)
theory PermValidation
  imports PermRules
begin

text \<open>
  \<open>internal/permissions/validation.go\<close>: the check of a rule string from a settings file, with
  its error and suggestion texts.
\<close>

record ValidationResult =
  Valid :: bool
  ErrorText :: string
  Suggestion :: string
  Examples :: "string list"

definition valid_rule :: ValidationResult where
  "valid_rule = \<lparr>Valid = True, ErrorText = [], Suggestion = [], Examples = []\<rparr>"

definition invalid_rule :: "string \<Rightarrow> string \<Rightarrow> string list \<Rightarrow> ValidationResult" where
  "invalid_rule err suggestion examples =
     \<lparr>Valid = False, ErrorText = err, Suggestion = suggestion, Examples = examples\<rparr>"

definition hasUnescapedEmptyParens :: "string \<Rightarrow> bool" where
  "hasUnescapedEmptyParens s =
     list_ex (\<lambda>i. s ! i = CHR ''('' \<and> s ! (i + 1) = CHR '')'' \<and> \<not> isEscaped s i) [0..<length s - 1]"

definition isMCPToolName :: "string \<Rightarrow> bool" where
  "isMCPToolName name = HasPrefix name ''mcp__''"

definition isShellTool :: "string \<Rightarrow> bool" where
  "isShellTool name = (name = ''Bash'' \<or> name = ''PowerShell'')"

definition isFilePatternTool :: "string \<Rightarrow> bool" where
  "isFilePatternTool name = (name \<in> {''Read'', ''Edit'', ''Write'', ''Glob'', ''Grep'', ''NotebookEdit''})"

text \<open>\<open>unicode.IsUpper\<close>, and \<open>strings.ToUpper\<close> of a one-byte string: a byte that is no ASCII
  is not valid UTF-8 on its own and becomes U+FFFD.\<close>

definition IsUpper :: "go_env \<Rightarrow> nat \<Rightarrow> bool" where
  "IsUpper env r = (if r < 128 then 65 \<le> r \<and> r \<le> 90 else uni_is_upper env r)"

definition upper_one_byte :: "char \<Rightarrow> string" where
  "upper_one_byte c =
     (if is_lower c then [char_of (byte c - 32)] else if is_ascii c then [c]
      else [CHR 0xEF, CHR 0xBF, CHR 0xBD])"

definition ValidatePermissionRule :: "go_env \<Rightarrow> string \<Rightarrow> ValidationResult" where
  "ValidatePermissionRule env raw =
     (if TrimSpace raw = [] then invalid_rule ''Permission rule cannot be empty'' [] []
      else if countUnescaped raw (CHR ''('') \<noteq> countUnescaped raw (CHR '')'') then
        invalid_rule ''Mismatched parentheses''
          ''Ensure all opening parentheses have matching closing parentheses'' []
      else if hasUnescapedEmptyParens raw then
        (let toolName = (case findFirstUnescaped raw (CHR ''('') of None \<Rightarrow> raw | Some idx \<Rightarrow> take idx raw) in
         if toolName = [] then
           invalid_rule ''Empty parentheses with no tool name'' ''Specify a tool name before the parentheses'' []
         else invalid_rule ''Empty parentheses''
                (''Either specify a pattern or use just '' @ Quote env toolName @ '' without parentheses'')
                [toolName, toolName @ ''(some-pattern)''])
      else let value = PermissionRuleValueFromString raw;
               name = valToolName value; content = valRuleContent value
        in if name = [] then invalid_rule ''Tool name cannot be empty'' [] []
           else if isMCPToolName name then
             (if content \<noteq> [] \<or> countUnescaped raw (CHR ''('') > 0 then
                invalid_rule ''MCP rules do not support patterns in parentheses''
                  (''Use '' @ Quote env name @ '' without parentheses'') []
              else valid_rule)
           else if \<not> IsUpper env (fst (decode_rune name)) \<and> fst (decode_rune name) \<noteq> 0x2A then
             invalid_rule ''Tool names must start with uppercase''
               (''Use '' @ upper_one_byte (hd name) @ tl name) []
           else if isShellTool name \<and> content \<noteq> [] \<and> Contains content '':*'' \<and> \<not> HasSuffix content '':*'' then
             invalid_rule ''The :* pattern must be at the end''
               ''Move :* to the end for prefix matching, or use * for wildcard matching''
               [''Bash(npm run:*)'', ''Bash(npm run *)'']
           else if isShellTool name \<and> content = '':*'' then
             invalid_rule ''Prefix cannot be empty before :*'' ''Specify a command prefix before :*''
               [''Bash(npm:*)'', ''Bash(git:*)'']
           else if name = ''WebSearch'' \<and> ContainsAny content ''*?'' then
             invalid_rule ''WebSearch does not support wildcards'' ''Use exact search terms without * or ?''
               [''WebSearch(claude ai)'', ''WebSearch(typescript tutorial)'']
           else if name = ''WebFetch'' \<and> (Contains content ''://'' \<or> HasPrefix content ''http'') then
             invalid_rule ''WebFetch permissions use domain format, not URLs''
               ''Use \"domain:hostname\" format''
               [''WebFetch(domain:example.com)'', ''WebFetch(domain:github.com)'']
           else if name = ''WebFetch'' \<and> content \<noteq> [] \<and> \<not> HasPrefix content ''domain:'' then
             invalid_rule ''WebFetch permissions must use \"domain:\" prefix''
               ''Use \"domain:hostname\" format''
               [''WebFetch(domain:example.com)'', ''WebFetch(domain:*.google.com)'']
           else if isFilePatternTool name \<and> content \<noteq> [] \<and> Contains content '':*'' then
             invalid_rule ''The \":*\" syntax is only for Bash prefix rules''
               ''Use glob patterns like \"*\" or \"**\" for file matching'' []
           else valid_rule)"

end
