(* ===== verification/RuleLaws.thy ===== *)
theory RuleLaws
  imports PermValidation BashLaws
begin

text \<open>
  Laws of the rule strings. \<open>codec\<close> is the contract of a printer and its parser: the parser
  reads back what the printer writes, for the values that are \<open>valid\<close>. The escaping of rule
  content and the rule strings themselves provide it; the updates of the engine, which
  identify rules by their strings, rely on it.
\<close>

locale codec =
  fixes enc :: "'a \<Rightarrow> string" and dec :: "string \<Rightarrow> 'a" and valid :: "'a \<Rightarrow> bool"
  assumes dec_enc: "valid x \<Longrightarrow> dec (enc x) = x"
begin

lemma enc_eq_iff: "valid x \<Longrightarrow> valid y \<Longrightarrow> enc x = enc y \<longleftrightarrow> x = y"
  using dec_enc by metis

lemma map_dec_enc: "list_all valid xs \<Longrightarrow> map dec (map enc xs) = xs"
  by (induction xs) (simp_all add: dec_enc)

lemma enc_mem_iff: "valid x \<Longrightarrow> list_all valid ys \<Longrightarrow> enc x \<in> set (map enc ys) \<longleftrightarrow> x \<in> set ys"
  by (auto simp: list_all_iff enc_eq_iff)

end

section \<open>Replacing\<close>

lemma ReplaceAll_Nil [simp]: "ReplaceAll [] old new = []"
  by (simp add: ReplaceAll.simps)

lemma ReplaceAll_byte: "ReplaceAll s [a] new = concat (map (\<lambda>c. if c = a then new else [c]) s)"
proof (induction s)
  case (Cons c s)
  then show ?case by (simp add: ReplaceAll.simps[of "c # s"])
qed simp

lemma ReplaceAll_pair:
  "ReplaceAll (a # b # s) [a, b] new = new @ ReplaceAll s [a, b] new"
  by (simp add: ReplaceAll.simps[of "a # b # s"])

lemma ReplaceAll_skip: "\<not> HasPrefix (c # s) [a, b] \<Longrightarrow> ReplaceAll (c # s) [a, b] new = c # ReplaceAll s [a, b] new"
  by (auto simp: ReplaceAll.simps[of "c # s"])

lemma ReplaceAll_skip_head:
  "t = [] \<or> hd t \<noteq> b \<Longrightarrow> ReplaceAll (c # t) [a, b] new = c # ReplaceAll t [a, b] new"
  by (cases t) (simp_all add: ReplaceAll_skip)

text \<open>Text that is a concatenation of pieces, one per byte; replacing one kind of piece.\<close>

definition esc_byte :: "char \<Rightarrow> string" where
  "esc_byte c = (if c = bslash \<or> c = CHR ''('' \<or> c = CHR '')'' then [bslash, c] else [c])"

lemma Escape_bytes: "EscapeRuleContent s = concat (map esc_byte s)"
proof -
  have "EscapeRuleContent s =
      concat (map (\<lambda>c. if c = CHR '')'' then [bslash, CHR '')''] else [c])
        (concat (map (\<lambda>c. if c = CHR ''('' then [bslash, CHR ''(''] else [c])
          (concat (map (\<lambda>c. if c = bslash then [bslash, bslash] else [c]) s)))))"
    by (simp add: EscapeRuleContent_def ReplaceAll_byte)
  also have "\<dots> = concat (map esc_byte s)"
    by (induction s) (auto simp: esc_byte_def)
  finally show ?thesis .
qed

definition half_esc :: "string \<Rightarrow> char \<Rightarrow> string" where
  "half_esc left c = (if c \<in> set left then [bslash, c] else [c])"

lemma half_esc_simps:
  "c \<in> set left \<Longrightarrow> half_esc left c = [bslash, c]" "c \<notin> set left \<Longrightarrow> half_esc left c = [c]"
  by (simp_all add: half_esc_def)

lemma half_esc_head: "concat (map (half_esc left) s) \<noteq> [] \<Longrightarrow> x \<in> set left \<Longrightarrow> x \<noteq> bslash \<Longrightarrow>
   hd (concat (map (half_esc left) s)) \<noteq> x"
  by (cases s) (auto simp: half_esc_def)

lemma unescape_one:
  assumes "x \<in> set left" "x \<noteq> bslash" "bslash \<in> set left"
  shows "ReplaceAll (concat (map (half_esc left) s)) [bslash, x] [x] = concat (map (half_esc (removeAll x left)) s)"
proof (induction s)
  case (Cons c s)
  let ?t = "concat (map (half_esc left) s)"
  have head: "?t = [] \<or> hd ?t \<noteq> x" using half_esc_head[of left s x] assms by blast
  then have skip: "ReplaceAll (d # ?t) [bslash, x] [x] = d # ReplaceAll ?t [bslash, x] [x]" for d
    by (rule ReplaceAll_skip_head)
  consider "c = x" | "c = bslash" | "c \<noteq> x" "c \<noteq> bslash" "c \<in> set left" | "c \<notin> set left" by blast
  then show ?case
  proof cases
    case 1
    with assms Cons show ?thesis by (simp add: half_esc_simps ReplaceAll_pair)
  next
    case 2
    have "ReplaceAll (bslash # bslash # ?t) [bslash, x] [x] = bslash # ReplaceAll (bslash # ?t) [bslash, x] [x]"
      using assms by (simp add: ReplaceAll_skip)
    with 2 assms Cons skip[of bslash] show ?thesis by (simp add: half_esc_simps)
  next
    case 3
    have "ReplaceAll (bslash # c # ?t) [bslash, x] [x] = bslash # ReplaceAll (c # ?t) [bslash, x] [x]"
      using 3 by (simp add: ReplaceAll_skip)
    with 3 Cons skip[of c] show ?thesis by (simp add: half_esc_simps)
  next
    case 4
    with Cons skip[of c] show ?thesis by (simp add: half_esc_simps)
  qed
qed simp

lemma unescape_backslash: "ReplaceAll (concat (map (half_esc [bslash]) s)) [bslash, bslash] [bslash] = s"
proof (induction s)
  case (Cons c s)
  then show ?case by (cases "c = bslash") (simp_all add: half_esc_def ReplaceAll_pair ReplaceAll_skip)
qed simp

lemma Unescape_Escape: "UnescapeRuleContent (EscapeRuleContent s) = s"
proof -
  have e: "esc_byte = half_esc [bslash, CHR ''('', CHR '')'']" by (rule ext) (auto simp: esc_byte_def half_esc_def)
  show ?thesis
    using unescape_one[of "CHR ''(''" "[bslash, CHR ''('', CHR '')'']" s]
      unescape_one[of "CHR '')''" "[bslash, CHR '')'']" s] unescape_backslash[of s]
    by (simp add: UnescapeRuleContent_def Escape_bytes e Let_def)
qed

interpretation escapes: codec EscapeRuleContent UnescapeRuleContent "\<lambda>_. True"
  by unfold_locales (rule Unescape_Escape)

section \<open>Finding the parentheses\<close>

lemma find_append: "List.find P (xs @ ys) = (case List.find P xs of None \<Rightarrow> List.find P ys | Some x \<Rightarrow> Some x)"
  by (induction xs) simp_all

lemma isEscaped_prefix: "i \<le> length a \<Longrightarrow> isEscaped (a @ b) i = isEscaped a i"
  by (simp add: isEscaped_def)

text \<open>The trailing backslashes of an escaped text are even in number.\<close>

definition trailing :: "string \<Rightarrow> nat" where
  "trailing s = length (takeWhile (\<lambda>c. c = bslash) (rev s))"

lemma trailing_snoc [simp]: "trailing (s @ [c]) = (if c = bslash then Suc (trailing s) else 0)"
  by (simp add: trailing_def)

lemma trailing_Nil [simp]: "trailing [] = 0"
  by (simp add: trailing_def)

lemma isEscaped_trailing: "isEscaped s i = odd (trailing (take i s))"
  by (simp add: isEscaped_def trailing_def)

lemma trailing_escaped: "even (trailing a) \<Longrightarrow> even (trailing (a @ concat (map esc_byte s)))"
proof (induction s arbitrary: a)
  case (Cons c s)
  have "even (trailing (a @ esc_byte c))"
    using Cons.prems trailing_snoc[of "a @ [bslash]" c] by (auto simp: esc_byte_def)
  from Cons.IH[OF this] show ?case by simp
qed simp

definition plain_name :: "string \<Rightarrow> bool" where
  "plain_name t = (t \<noteq> [] \<and> TrimSpace t = t \<and> list_all (\<lambda>c. c \<noteq> CHR ''('' \<and> c \<noteq> bslash) t)"

lemma trailing_plain: "list_all (\<lambda>c. c \<noteq> bslash) t \<Longrightarrow> trailing t = 0"
  by (cases t rule: rev_cases) auto

lemma find_none: "(\<And>x. x \<in> set xs \<Longrightarrow> \<not> P x) \<Longrightarrow> List.find P xs = None"
  by (induction xs) auto

lemma first_paren:
  assumes "plain_name t"
  shows "findFirstUnescaped (t @ ''('' @ s) (CHR ''('') = Some (length t)" "findFirstUnescaped t (CHR ''('') = None"
proof -
  have nt: "\<not> unescaped_at (t @ u) (CHR ''('') i" if "i < length t" for i u
    using assms that by (auto simp: unescaped_at_def plain_name_def list_all_iff nth_append)
  have "trailing t = 0" using assms by (intro trailing_plain) (auto simp: plain_name_def list_all_iff)
  then have at: "unescaped_at (t @ ''('' @ s) (CHR ''('') (length t)"
    by (simp add: unescaped_at_def isEscaped_trailing)
  have r: "[0..<length (t @ ''('' @ s)] = [0..<length t] @ length t # [Suc (length t)..<length (t @ ''('' @ s)]"
    using upt_add_eq_append[of 0 "length t" "Suc (length s)"] by (simp add: upt_conv_Cons del: upt_Suc)
  show "findFirstUnescaped (t @ ''('' @ s) (CHR ''('') = Some (length t)"
    unfolding findFirstUnescaped_def r find_append
    using find_none[of "[0..<length t]" "unescaped_at (t @ ''('' @ s) (CHR ''('')"] nt[of _ "''('' @ s"] at
    by simp
  show "findFirstUnescaped t (CHR ''('') = None"
    unfolding findFirstUnescaped_def using nt[of _ "[]"] by (intro find_none) simp
qed

lemma last_paren:
  assumes "even (trailing s)"
  shows "findLastUnescaped (s @ '')'') (CHR '')'') = Some (length s)"
  using assms by (simp add: findLastUnescaped_def unescaped_at_def isEscaped_trailing)

section \<open>Rule strings\<close>

definition proper_rule_value :: "PermissionRuleValue \<Rightarrow> bool" where
  "proper_rule_value v =
     (plain_name (valToolName v) \<and> normalizeLegacyToolName (valToolName v) = valToolName v \<and> valRuleContent v \<noteq> ''*'')"

lemma Escape_nontrivial:
  assumes "c \<noteq> []" "c \<noteq> ''*''"
  shows "EscapeRuleContent c \<noteq> []" "EscapeRuleContent c \<noteq> ''*''"
proof -
  have "UnescapeRuleContent [] = []" "UnescapeRuleContent ''*'' = ''*''" by code_simp+
  then show "EscapeRuleContent c \<noteq> []" "EscapeRuleContent c \<noteq> ''*''"
    using assms escapes.dec_enc[of c] by auto
qed

lemma FromString_ToString:
  assumes "proper_rule_value v"
  shows "PermissionRuleValueFromString (PermissionRuleValueToString v) = v"
proof -
  let ?t = "valToolName v" and ?c = "valRuleContent v"
  have t: "plain_name ?t" "normalizeLegacyToolName ?t = ?t" using assms by (auto simp: proper_rule_value_def)
  show ?thesis
  proof (cases "?c = []")
    case True
    then show ?thesis using t first_paren(2)[OF t(1)]
      by (simp add: PermissionRuleValueToString_def PermissionRuleValueFromString_def tool_only_def plain_name_def)
  next
    case False
    let ?E = "EscapeRuleContent ?c"
    have E: "?E \<noteq> []" "?E \<noteq> ''*''"
      using Escape_nontrivial[OF False] assms by (auto simp: proper_rule_value_def)
    have raw: "PermissionRuleValueToString v = ?t @ ''('' @ ?E @ '')''"
      using False by (simp add: PermissionRuleValueToString_def)
    have "trailing (?t @ ''('') = 0" by simp
    then have "even (trailing ((?t @ ''('') @ ?E))" unfolding Escape_bytes by (intro trailing_escaped) simp
    from last_paren[OF this] have l: "findLastUnescaped (?t @ ''('' @ ?E @ '')'') (CHR '')'') = Some (length ?t + length ?E + 1)"
      by simp
    show ?thesis
      unfolding raw PermissionRuleValueFromString_def first_paren(1)[OF t(1)] l
      using t E escapes.dec_enc[of ?c] by (simp add: plain_name_def Let_def)
  qed
qed

interpretation rule_strings: codec PermissionRuleValueToString PermissionRuleValueFromString proper_rule_value
  by unfold_locales (rule FromString_ToString)

section \<open>\<open>TrimSpace\<close> is idempotent\<close>

lemma space_len_shorter: "space_len (s @ t) = 0 \<Longrightarrow> space_len s = 0"
  by (cases s rule: remdups_adj.cases) (auto simp: space_len_def split: list.split_asm list.split if_split_asm)

lemma trim_left_done: "trim_left_space s = [] \<or> space_len (trim_left_space s) = 0"
proof (induction s rule: trim_left_space.induct)
  case (1 s)
  show ?case
  proof (cases "s \<noteq> [] \<and> space_len s \<noteq> 0")
    case True
    with "1" show ?thesis by (simp add: trim_left_space.simps[of s])
  qed (use trim_left_space.simps[of s] in auto)
qed

lemma trim_left_rev_done: "trim_left_space_rev s = [] \<or> space_len_rev (trim_left_space_rev s) = 0"
proof (induction s rule: trim_left_space_rev.induct)
  case (1 s)
  show ?case
  proof (cases "s \<noteq> [] \<and> space_len_rev s \<noteq> 0")
    case True
    with "1" show ?thesis by (simp add: trim_left_space_rev.simps[of s])
  qed (use trim_left_space_rev.simps[of s] in auto)
qed

lemma trim_right_prefix: "\<exists>r. s = trim_right_space s @ r"
  using trim_left_space_rev_decomp[of "rev s"]
  unfolding trim_right_space_def by (metis rev_append rev_rev_ident)

lemma TrimSpace_idem: "TrimSpace (TrimSpace s) = TrimSpace s"
proof -
  let ?l = "trim_left_space s" and ?m = "TrimSpace s"
  obtain r where r: "?l = ?m @ r" using trim_right_prefix[of ?l] by (auto simp: TrimSpace_def)
  have "?m = [] \<or> space_len ?m = 0"
    using trim_left_done[of s] space_len_shorter[of ?m r] r by auto
  then have "trim_left_space ?m = ?m" by (auto simp: trim_left_space.simps[of ?m])
  moreover have "rev ?m = [] \<or> space_len_rev (rev ?m) = 0"
    using trim_left_rev_done[of "rev ?l"] by (simp add: TrimSpace_def trim_right_space_def)
  then have "trim_right_space ?m = ?m"
    by (auto simp: trim_right_space_def trim_left_space_rev.simps[of "rev ?m"])
  ultimately show ?thesis by (simp add: TrimSpace_def[of ?m])
qed

section \<open>Parsing\<close>

lemma FromString_name:
  assumes "TrimSpace raw = raw" "raw \<noteq> []"
  shows "TrimSpace (valToolName (PermissionRuleValueFromString raw)) \<noteq> []"
proof -
  have n: "TrimSpace (normalizeLegacyToolName (TrimSpace x)) \<noteq> []" if "TrimSpace x \<noteq> []" for x
  proof (cases "normalizeLegacyToolName (TrimSpace x) = TrimSpace x")
    case True
    with that show ?thesis by (simp add: TrimSpace_idem)
  next
    case False
    then have "normalizeLegacyToolName (TrimSpace x) \<in> {''Agent'', ''KillTask'', ''ResumeTask'', ''TaskOutput''}"
      by (auto simp: normalizeLegacyToolName_def)
    moreover have "TrimSpace ''Agent'' \<noteq> []" "TrimSpace ''KillTask'' \<noteq> []" "TrimSpace ''ResumeTask'' \<noteq> []"
      "TrimSpace ''TaskOutput'' \<noteq> []" by code_simp+
    ultimately show ?thesis by auto
  qed
  have "TrimSpace raw \<noteq> []" using assms by simp
  then show ?thesis using n
    by (auto simp: PermissionRuleValueFromString_def tool_only_def Let_def split: option.split)
qed

lemma ParseRule_cases:
  "ParseRule source behavior raw =
     (if TrimSpace raw = [] then Inl EmptyRule else if behavior = [] then Inl (EmptyBehavior (TrimSpace raw))
      else Inr (projr (ParseRule source behavior raw)))"
  using FromString_name[OF TrimSpace_idem, of raw] by (simp add: ParseRule_def Let_def)

lemma ParseRule_fields:
  "ParseRule source behavior raw = Inr r \<Longrightarrow>
   ruleSource r = source \<and> ruleBehavior r = behavior \<and> ruleRaw r = TrimSpace raw \<and> ruleRaw r \<noteq> []"
  by (auto simp: ParseRule_def Let_def split: if_split_asm)

lemma parse_rules_fields:
  "parse_rules source behavior raws = Inr rs \<Longrightarrow> r \<in> set rs \<Longrightarrow> ruleSource r = source \<and> ruleBehavior r = behavior"
  by (induction raws arbitrary: rs) (auto split: sum.split_asm dest: ParseRule_fields)

end
