(* ===== verification/EngineLaws.thy ===== *)
theory EngineLaws
  imports PermEngine PathForms RuleLaws "HOL-Library.Multiset"
begin

text \<open>
  Laws of the permission engine: which rules the sorted search finds, what a path decision can
  be, and the contract of a permission decider as its clients see it.
\<close>

section \<open>The contract of a decider\<close>

text \<open>A decider gives one of the three final behaviours; one with deny rules refuses every
  request that a deny rule matches.\<close>

definition final_behavior :: "PermissionBehavior \<Rightarrow> bool" where
  "final_behavior b = (b = PermissionAllow \<or> b = PermissionDeny \<or> b = PermissionAsk)"

locale final_decider =
  fixes decide :: "'q \<Rightarrow> PermissionDecision"
  assumes final: "final_behavior (decBehavior (decide q))"
begin

lemma no_passthrough: "decBehavior (decide q) \<noteq> PermissionPassthrough" "decBehavior (decide q) \<noteq> []"
  using final[of q] by (auto simp: final_behavior_def)

lemma not_deny_not_ask: "decBehavior (decide q) \<noteq> PermissionDeny \<Longrightarrow> decBehavior (decide q) \<noteq> PermissionAsk \<Longrightarrow>
    decBehavior (decide q) = PermissionAllow"
  using final[of q] by (auto simp: final_behavior_def)

end

locale denying_decider = final_decider decide for decide :: "'q \<Rightarrow> PermissionDecision" +
  fixes denied :: "'q \<Rightarrow> bool"
  assumes deny: "denied q \<Longrightarrow> decBehavior (decide q) = PermissionDeny"
begin

lemma allowed_not_denied: "decBehavior (decide q) = PermissionAllow \<Longrightarrow> \<not> denied q"
  using deny[of q] by auto

end

section \<open>Searching the matching rules\<close>

definition has_rule :: "go_env \<Rightarrow> Engine \<Rightarrow> Request \<Rightarrow> PermissionBehavior \<Rightarrow> bool" where
  "has_rule env e req b = (\<exists>r \<in> set (engRules e). Rule_Matches env r req \<and> ruleBehavior r = b)"

lemma find_SomeD: "List.find P xs = Some x \<Longrightarrow> x \<in> set xs \<and> P x"
  by (induction xs) (auto split: if_split_asm)

lemma first_rule_Some:
  "firstByBehavior (matchingRules env e req) b = Some r \<Longrightarrow>
   r \<in> set (engRules e) \<and> Rule_Matches env r req \<and> ruleBehavior r = b"
  by (auto simp: firstByBehavior_def matchingRules_def dest!: find_SomeD)

lemma first_rule_None: "firstByBehavior (matchingRules env e req) b = None \<longleftrightarrow> \<not> has_rule env e req b"
  by (auto simp: firstByBehavior_def matchingRules_def find_None_iff has_rule_def)

lemma first_rule_cases:
  obtains (some) r where "firstByBehavior (matchingRules env e req) b = Some r" "has_rule env e req b"
  | (none) "firstByBehavior (matchingRules env e req) b = None" "\<not> has_rule env e req b"
  using first_rule_None[of env e req b] by (cases "firstByBehavior (matchingRules env e req) b") auto

text \<open>The first matching rule of a behaviour is the first one in the engine's order: the sort is
  stable.\<close>

lemma find_filter: "List.find P (filter Q xs) = List.find (\<lambda>x. Q x \<and> P x) xs"
  by (induction xs) auto

lemma find_insort_other: "\<not> P x \<Longrightarrow> List.find P (insort_key k x xs) = List.find P xs"
  by (induction xs) simp_all

lemma find_insort_same:
  assumes "P x" "\<And>y. P y \<Longrightarrow> k y = k x" "\<And>y. k y = k x \<Longrightarrow> y \<in> set xs \<Longrightarrow> P y" "sorted (map k xs)"
  shows "List.find P (insort_key k x xs) = Some x"
  using assms
proof (induction xs)
  case (Cons y ys)
  show ?case
  proof (cases "k x \<le> k y")
    case True
    with Cons.prems(1) show ?thesis by simp
  next
    case False
    then have "\<not> P y" using Cons.prems(2)[of y] by auto
    moreover have "List.find P (insort_key k x ys) = Some x"
    proof (rule Cons.IH)
      show "P x" by (rule Cons.prems(1))
      show "k z = k x" if "P z" for z using that by (rule Cons.prems(2))
      show "P z" if "k z = k x" "z \<in> set ys" for z
        using that(1) by (rule Cons.prems(3)) (simp add: that(2))
      show "sorted (map k ys)" using Cons.prems(4) by simp
    qed
    ultimately show ?thesis using False by simp
  qed
next
  case Nil
  show ?case using Nil.prems(1) by simp
qed

lemma behaviorRank_inj:
  "final_behavior b \<Longrightarrow> behaviorRank c = behaviorRank b \<longleftrightarrow> c = b"
  by (auto simp: behaviorRank_def final_behavior_def)

lemma first_rule_in_order:
  assumes "final_behavior b"
  shows "firstByBehavior (matchingRules env e req) b
    = List.find (\<lambda>r. Rule_Matches env r req \<and> ruleBehavior r = b) (engRules e)"
proof -
  let ?k = "\<lambda>r. behaviorRank (ruleBehavior r)" and ?P = "\<lambda>r. ruleBehavior r = b"
  have "List.find ?P (sort_key ?k rs) = List.find ?P rs" for rs :: "Rule list"
  proof (induction rs)
    case (Cons r rs)
    show ?case
    proof (cases "?P r")
      case True
      have "List.find ?P (insort_key ?k r (sort_key ?k rs)) = Some r"
        using True assms by (intro find_insort_same) (auto simp: behaviorRank_inj)
      with True show ?thesis by simp
    next
      case False
      with Cons show ?thesis by (simp add: find_insort_other)
    qed
  qed simp
  then show ?thesis by (simp add: firstByBehavior_def matchingRules_def find_filter)
qed

section \<open>Decisions\<close>

lemma decision_fields [simp]:
  "decBehavior (decision b req reason msg) = b" "decToolUseID (decision b req reason msg) = reqToolUseID req"
  by (simp_all add: decision_def)

lemma final_consts [simp]: "final_behavior PermissionAllow" "final_behavior PermissionDeny" "final_behavior PermissionAsk"
  by (simp_all add: final_behavior_def)

lemma final_modeDecision: "final_behavior (decBehavior (modeDecision e req))"
  by (simp add: modeDecision_def)

lemma final_override: "final_behavior (decBehavior (sandboxOverrideDecision e req))"
  by (simp add: sandboxOverrideDecision_def)

lemma sandbox_path_deny:
  "sandboxFilesystemPathDecision env e req p ps opn = Some d \<Longrightarrow> decBehavior d = PermissionDeny"
  by (auto simp: sandboxFilesystemPathDecision_def Let_def split: option.split_asm if_split_asm)

lemma final_pathDecision: "pathDecision env e req = Some d \<Longrightarrow> final_behavior (decBehavior d)"
  by (auto simp: pathDecision_def Let_def dest: sandbox_path_deny split: option.split_asm if_split_asm)

lemma final_Decide: "final_behavior (decBehavior (Decide env e req))"
  using final_pathDecision[of env e req] final_modeDecision[of e req] final_override[of e req]
  by (auto simp: Decide_def Let_def split: option.split)

lemma deny_Decide: "has_rule env e req PermissionDeny \<Longrightarrow> decBehavior (Decide env e req) = PermissionDeny"
  using first_rule_None[of env e req PermissionDeny]
  by (auto simp: Decide_def Let_def split: option.split)

text \<open>The engine provides the contract.\<close>

interpretation engine: denying_decider "Decide env e" "\<lambda>req. has_rule env e req PermissionDeny"
  by unfold_locales (simp_all add: final_Decide deny_Decide)

text \<open>What the engine decides when no deny rule matches.\<close>

lemma Decide_no_deny:
  assumes "reqToolName req \<noteq> []" "\<not> has_rule env e req PermissionDeny"
  shows "decBehavior (Decide env e req) =
    (if reqDangerouslyDisableSandbox req then decBehavior (sandboxOverrideDecision e req)
     else (case pathDecision env e req of Some d \<Rightarrow> decBehavior d
       | None \<Rightarrow> if has_rule env e req PermissionAllow then PermissionAllow
                else if has_rule env e req PermissionAsk then PermissionAsk
                else decBehavior (modeDecision e req)))"
proof -
  have d: "firstByBehavior (matchingRules env e req) PermissionDeny = None"
    using assms(2) by (simp add: first_rule_None)
  show ?thesis
    using assms(1) d first_rule_None[of env e req PermissionAllow] first_rule_None[of env e req PermissionAsk]
    by (auto simp: Decide_def Let_def split: option.split)
qed

section \<open>Order\<close>

lemma has_rule_mset:
  assumes "mset (engRules e') = mset (engRules e)"
  shows "has_rule env e' req b = has_rule env e req b"
  using mset_eq_setD[OF assms] by (simp add: has_rule_def)

end
