(* ===== verification/PermProps.thy ===== *)
theory PermProps
  imports EngineLaws
begin

text \<open>
  The properties of the permission system: what its decisions guarantee, that rule strings and
  paths are read the way they are written, and what settings and updates do to the rules.
\<close>

section \<open>Concrete values for the witnesses\<close>

definition example_env :: go_env where
  "example_env =
     \<lparr>uni_lower = id, uni_fold = (=), uni_quote = id, uni_is_upper = (\<lambda>_. False), user_home = Some ''/home/u'',
      getwd = Some ''/work'', config_dir = [], lstat_symlink = (\<lambda>_. Some False), readlink = (\<lambda>_. None),
      eval_symlinks = Some\<rparr>"

definition example_request :: "string \<Rightarrow> string \<Rightarrow> string \<Rightarrow> Request" where
  "example_request tool command path =
     \<lparr>reqToolUseID = ''t1'', reqToolName = tool, reqInput = \<lparr>raw_text = ''{}'', raw_value = Some (JObj [])\<rparr>,
      reqCommand = command, reqPath = path, reqWorkingDirectory = ''/work'', reqReadOnly = False,
      reqWritesFiles = True, reqDestructive = False, reqDangerouslyDisableSandbox = False,
      reqInternalPaths = no_internal_paths\<rparr>"

definition example_rule :: "PermissionBehavior \<Rightarrow> string \<Rightarrow> string \<Rightarrow> Rule" where
  "example_rule behavior tool pattern =
     \<lparr>ruleSource = ''userSettings'', ruleBehavior = behavior, ruleToolName = tool, rulePattern = pattern,
      ruleRaw = tool @ ''('' @ pattern @ '')''\<rparr>"

definition example_engine :: "PermissionMode \<Rightarrow> Rule list \<Rightarrow> Engine" where
  "example_engine mode rules = NewEngine (empty_context\<lparr>ctxMode := mode\<rparr>) rules"

section \<open>Decisions\<close>

text \<open>C1: A deny rule dominates: when a rule of the engine with behaviour deny matches the
  request the decision is deny, in every mode, whatever the other rules, the path, the sandbox
  policy and the sandbox override say.\<close>

theorem deny_rule_dominates:
  assumes "r \<in> set (engRules e)" "Rule_Matches env r req" "ruleBehavior r = PermissionDeny"
  shows "decBehavior (Decide env e req) = PermissionDeny"
  using assms by (intro engine.deny) (auto simp: has_rule_def)

theorem deny_rule_dominates_witness:
  "decBehavior (Decide example_env
     (example_engine PermissionBypassPermissions [example_rule ''allow'' ''Bash'' ''*'', example_rule ''deny'' ''Bash'' ''rm:*''])
     (example_request ''Bash'' ''rm -rf x'' '''')) = PermissionDeny"
  by (rule deny_rule_dominates[where r = "example_rule ''deny'' ''Bash'' ''rm:*''"]) code_simp+

definition mode_accepts :: "Engine \<Rightarrow> Request \<Rightarrow> bool" where
  "mode_accepts e req =
     (let m = engMode e; ctx = engContext e in
      m = PermissionBypassPermissions \<and> BypassAvailable ctx
      \<or> m = PermissionAcceptEdits \<and> (reqReadOnly req \<or> reqWritesFiles req)
      \<or> m = PermissionAuto \<and> AutoAvailable ctx \<and> reqReadOnly req \<and> \<not> reqDestructive req
      \<or> m \<notin> {PermissionBypassPermissions, PermissionAcceptEdits, PermissionAuto} \<and> reqReadOnly req)"

lemma mode_accepts: "decBehavior (modeDecision e req) = PermissionAllow \<longleftrightarrow> mode_accepts e req"
  by (auto simp: modeDecision_def mode_accepts_def Let_def)

lemma allowed_by_path:
  assumes "decBehavior (Decide env e req) = PermissionAllow" "\<not> reqDangerouslyDisableSandbox req"
    "pathDecision env e req = Some d"
  shows "decBehavior d = PermissionAllow"
proof -
  have "\<not> has_rule env e req PermissionDeny" using engine.allowed_not_denied[OF assms(1)] .
  moreover have "reqToolName req \<noteq> []" using assms(1) by (auto simp: Decide_def)
  ultimately show ?thesis using Decide_no_deny[of req env e] assms by simp
qed

text \<open>C11: Why a request is allowed: exactly when it has a tool name, no deny rule matches it and,
  for a sandbox override, the mode is an available bypass and overrides are not disabled;
  otherwise when its path decides so, or an allow rule matches it, or no ask rule does and the
  mode accepts it: bypass when available, accept-edits for reads and file writes, auto when
  available for reads that are not destructive, every other mode for reads only.\<close>

theorem allow_iff:
  "decBehavior (Decide env e req) = PermissionAllow \<longleftrightarrow>
   reqToolName req \<noteq> [] \<and> \<not> has_rule env e req PermissionDeny \<and>
   (if reqDangerouslyDisableSandbox req then
      AllowUnsandboxedCommands (engContext e) \<noteq> Some False \<and>
      engMode e = PermissionBypassPermissions \<and> BypassAvailable (engContext e)
    else (case pathDecision env e req of
            Some d \<Rightarrow> decBehavior d = PermissionAllow
          | None \<Rightarrow> has_rule env e req PermissionAllow \<or>
              (\<not> has_rule env e req PermissionAsk \<and> mode_accepts e req)))"
proof (cases "reqToolName req = [] \<or> has_rule env e req PermissionDeny")
  case True
  then have "decBehavior (Decide env e req) = PermissionDeny"
    using engine.deny[of env e req] by (auto simp: Decide_def)
  with True show ?thesis by auto
next
  case False
  then show ?thesis
    using Decide_no_deny[of req env e] mode_accepts[of e req]
    by (cases "pathDecision env e req"; cases "reqDangerouslyDisableSandbox req")
      (simp_all add: sandboxOverrideDecision_def)
qed

text \<open>The order of the rules does not decide: two engines with the same mode and context whose
  rules are rearrangements of each other give the same behaviour on every request; and the rule
  that a decision cites is the first matching one in the configured order.\<close>

theorem rule_order_irrelevant:
  assumes "mset (engRules e') = mset (engRules e)" "engMode e' = engMode e" "engContext e' = engContext e"
  shows "decBehavior (Decide env e' req) = decBehavior (Decide env e req) \<and>
    (final_behavior b \<longrightarrow> firstByBehavior (matchingRules env e req) b
       = List.find (\<lambda>r. Rule_Matches env r req \<and> ruleBehavior r = b) (engRules e))"
proof -
  have p: "pathDecision env e' req = pathDecision env e req" "sandboxOverrideDecision e' req = sandboxOverrideDecision e req"
    "modeDecision e' req = modeDecision e req"
    using assms(2,3) by (simp_all add: pathDecision_def sandboxFilesystemPathDecision_def sandboxOverrideDecision_def modeDecision_def Let_def)
  have "decBehavior (Decide env e' req) = decBehavior (Decide env e req)"
  proof (cases "reqToolName req = [] \<or> has_rule env e req PermissionDeny")
    case True
    then show ?thesis
      using engine.deny[of env e req] engine.deny[of env e' req] has_rule_mset[OF assms(1), of env req PermissionDeny]
      by (auto simp: Decide_def)
  next
    case False
    then show ?thesis
      using Decide_no_deny[of req env e] Decide_no_deny[of req env e'] p
      by (simp add: has_rule_mset[OF assms(1)] split: option.split)
  qed
  with first_rule_in_order show ?thesis by blast
qed

theorem rule_order_irrelevant_witness:
  "let ask = example_rule ''ask'' ''Bash'' ''*''; ls = example_rule ''allow'' ''Bash'' ''ls:*'';
       req = example_request ''Bash'' ''ls -l'' ''''
   in decBehavior (Decide example_env (example_engine PermissionPlan [ask, ls]) req)
        = decBehavior (Decide example_env (example_engine PermissionPlan [ls, ask]) req) \<and>
      firstByBehavior (matchingRules example_env (example_engine PermissionPlan [ls, ask]) req) PermissionAllow
        = List.find (\<lambda>r. Rule_Matches example_env r req \<and> ruleBehavior r = PermissionAllow)
            (engRules (example_engine PermissionPlan [ls, ask]))"
proof -
  let ?ask = "example_rule ''ask'' ''Bash'' ''*''" and ?ls = "example_rule ''allow'' ''Bash'' ''ls:*''"
  have "mset (engRules (example_engine PermissionPlan [?ask, ?ls])) = mset (engRules (example_engine PermissionPlan [?ls, ?ask]))"
    "engMode (example_engine PermissionPlan [?ask, ?ls]) = engMode (example_engine PermissionPlan [?ls, ?ask])"
    "engContext (example_engine PermissionPlan [?ask, ?ls]) = engContext (example_engine PermissionPlan [?ls, ?ask])"
    by (simp_all add: example_engine_def NewEngine_def Let_def)
  from rule_order_irrelevant[OF this, of example_env "example_request ''Bash'' ''ls -l'' ''''" PermissionAllow]
  show ?thesis by (simp add: Let_def final_behavior_def)
qed

definition request_resolved :: "go_env \<Rightarrow> Request \<Rightarrow> string" where
  "request_resolved env req = expandPathForCwd env (reqPath req) (request_cwd req)"

definition path_segments :: "go_env \<Rightarrow> string \<Rightarrow> string list" where
  "path_segments env p = splitPathSegments (normalizeCaseForComparison env (Clean (ExpandPath env p)))"

lemma dangerous_component: "s \<in> set segments \<Longrightarrow> s \<in> {''.git'', ''.vscode'', ''.idea''} \<Longrightarrow> dangerous_segments segments"
  by (induction segments) auto

lemma unsafe_form:
  assumes "f \<in> set ps" "s \<in> set (path_segments env f)" "s \<in> {''.git'', ''.vscode'', ''.idea''}"
  shows "\<not> Safe (CheckPathSafetyForAutoEdit env p ps)"
proof -
  have "IsDangerousFilePathToAutoEdit env f"
    using dangerous_component[OF assms(2,3)] by (simp add: IsDangerousFilePathToAutoEdit_def path_segments_def Let_def)
  with assms(1) have "list_ex (IsDangerousFilePathToAutoEdit env) ps" "ps \<noteq> []" by (auto simp: list_ex_iff)
  then show ?thesis by (simp add: CheckPathSafetyForAutoEdit_def Let_def)
qed

lemma unsafe_write_path:
  assumes "reqPath req \<noteq> []" "request_operation req = FileOperationWrite"
    and "\<not> Allowed (CheckEditableInternalPath env (request_resolved env req) (reqInternalPaths req))"
    and "IsDangerousRemovalPath env (request_resolved env req)
      \<or> \<not> Safe (CheckPathSafetyForAutoEdit env (request_resolved env req) (PathsForPermissionCheck env (request_resolved env req)))"
  shows "\<exists>d. pathDecision env e req = Some d \<and> decBehavior d \<noteq> PermissionAllow"
  using assms sandbox_path_deny
  by (auto simp: pathDecision_def request_resolved_def Let_def FileOperationRead_def FileOperationWrite_def
      split: option.split)

text \<open>C15: A write to a sensitive path is never allowed without a question: when one of the checked
  forms of the path (the path itself, what its links lead to) has a \<open>.git\<close>, \<open>.vscode\<close> or
  \<open>.idea\<close> component, the request is not allowed in any mode and by no allow rule, unless the
  path is one of the session's own or the sandbox override is used.\<close>

theorem sensitive_write_not_allowed:
  assumes "reqPath req \<noteq> []" "request_operation req = FileOperationWrite" "\<not> reqDangerouslyDisableSandbox req"
    and "\<not> Allowed (CheckEditableInternalPath env (request_resolved env req) (reqInternalPaths req))"
    and "form \<in> set (PathsForPermissionCheck env (request_resolved env req))"
    and "segment \<in> set (path_segments env form)" "segment \<in> {''.git'', ''.vscode'', ''.idea''}"
  shows "decBehavior (Decide env e req) \<noteq> PermissionAllow"
  using unsafe_write_path[OF assms(1,2,4), of e] unsafe_form[OF assms(5,6,7)] assms(3) allowed_by_path[of env e req]
  by auto

theorem sensitive_write_not_allowed_witness:
  "decBehavior (Decide example_env (example_engine PermissionBypassPermissions [example_rule ''allow'' ''Edit'' ''*''])
     (example_request ''Edit'' '''' ''sub/.git/config'')) \<noteq> PermissionAllow"
  by (rule sensitive_write_not_allowed[where form = "''/work/sub/.git/config''" and segment = "''.git''"]) code_simp+

text \<open>C16: A path that the sandbox denies for writing is refused: when one of the checked forms of
  the path lies in a directory of the policy's deny-write list, a request that is not a pure
  read (and not a sandbox override) is denied in every mode.\<close>

theorem sandbox_deny_write:
  assumes "reqPath req \<noteq> []" "request_operation req = FileOperationWrite" "\<not> reqDangerouslyDisableSandbox req"
    and "SandboxFilesystem (engContext e) = Some policy" "dir \<in> set (DenyWrite policy)" "dir \<noteq> []"
    and "form \<in> set (PathsForPermissionCheck env (request_resolved env req))"
    and "PathInWorkingPath env form (expandPathForCwd env dir (request_cwd req))"
  shows "decBehavior (Decide env e req) = PermissionDeny"
proof (cases "reqToolName req = [] \<or> has_rule env e req PermissionDeny")
  case True
  then show ?thesis using engine.deny[of env e req] by (auto simp: Decide_def)
next
  case False
  have m: "sandboxPathMatches env (PathsForPermissionCheck env (request_resolved env req)) (request_cwd req) (DenyWrite policy)"
    using assms(5-8) by (auto simp: sandboxPathMatches_def list_ex_iff)
  have "\<exists>d. pathDecision env e req = Some d \<and> decBehavior d = PermissionDeny"
    using assms(1,2,4) m
    by (simp add: pathDecision_def request_resolved_def sandboxFilesystemPathDecision_def Let_def
        FileOperationRead_def FileOperationWrite_def)
  then show ?thesis using Decide_no_deny[of req env e] False assms(3) by auto
qed

definition example_sandbox :: SandboxFilesystemPolicy where
  "example_sandbox = \<lparr>AllowWrite = [''.''], DenyWrite = [''secrets''], DenyRead = [], AllowRead = []\<rparr>"

theorem sandbox_deny_write_witness:
  "decBehavior (Decide example_env
     (NewEngine (empty_context\<lparr>ctxMode := PermissionAcceptEdits, SandboxFilesystem := Some example_sandbox\<rparr>) [])
     (example_request ''Write'' '''' ''a/../secrets/key'')) = PermissionDeny"
  by (rule sandbox_deny_write[where policy = example_sandbox and dir = "''secrets''" and form = "''/work/secrets/key''"])
    code_simp+

section \<open>Rule strings\<close>

text \<open>C40: A rule value survives printing and parsing: for a tool name that is trimmed, non-empty,
  free of backslashes and opening parentheses and no legacy name, and any content other than
  a single star, parsing the printed rule gives the value back.\<close>

theorem rule_value_round_trip:
  "proper_rule_value v \<Longrightarrow> PermissionRuleValueFromString (PermissionRuleValueToString v) = v"
  by (rule rule_strings.dec_enc)

theorem rule_value_round_trip_witness:
  "PermissionRuleValueFromString (PermissionRuleValueToString
     \<lparr>valToolName = ''Bash'', valRuleContent = ''echo (a) '' @ [bslash] @ '' b''\<rparr>) = \<lparr>valToolName = ''Bash'', valRuleContent = ''echo (a) '' @ [bslash] @ '' b''\<rparr>"
  by (rule rule_value_round_trip) code_simp

text \<open>Escaping rule content is undone by unescaping, for every text.\<close>

theorem escape_round_trip: "UnescapeRuleContent (EscapeRuleContent content) = content"
  by (rule escapes.dec_enc) simp

text \<open>A rule string is refused only when it is blank or has no behaviour: the error for a
  missing tool name is never returned, and a parsed rule carries its source, behaviour and the
  trimmed text.\<close>

theorem ParseRule_total:
  "(\<exists>r. ParseRule source behavior raw = Inr r \<and> ruleSource r = source \<and> ruleBehavior r = behavior \<and>
      ruleRaw r = TrimSpace raw) \<longleftrightarrow> TrimSpace raw \<noteq> [] \<and> behavior \<noteq> []"
  using ParseRule_cases[of source behavior raw] ParseRule_fields[of source behavior raw]
  by (metis Inl_Inr_False)

text \<open>A prefix rule matches exactly the commands that are the prefix or continue it after a
  blank, whatever follows: separators and further commands included.\<close>

theorem prefix_rule_matches:
  assumes "TrimSpace (p @ '':*'') = p @ '':*''" "TrimSpace target = target" "p \<noteq> []" "target \<noteq> p @ '':*''"
  shows "matchPattern (p @ '':*'') target \<longleftrightarrow> target = p \<or> (\<exists>rest. target = p @ '' '' @ rest)"
proof -
  have "permissionRuleExtractPrefix (p @ '':*'') = p"
    using assms(3) by (cases p) (simp_all add: permissionRuleExtractPrefix_def HasSuffix_iff TrimSuffix_def suffix_def)
  moreover have "p @ '':*'' \<noteq> ''*''" using assms(3) by (cases p) auto
  ultimately show ?thesis using assms by (auto simp: matchPattern_def Let_def HasPrefix_iff prefix_def)
qed

theorem prefix_rule_matches_witness:
  "matchPattern (''git status'' @ '':*'') ''git status; rm -rf x'' \<longleftrightarrow>
   ''git status; rm -rf x'' = ''git status'' \<or> (\<exists>rest. ''git status; rm -rf x'' = ''git status'' @ '' '' @ rest)"
  by (rule prefix_rule_matches) code_simp+

section \<open>Paths\<close>

text \<open>A path is inside a directory exactly when the directory's cleaned, lower-cased components
  are a prefix of the path's: no textual prefix such as \<open>/home/user2\<close> in \<open>/home/user\<close> counts, and
  no \<open>..\<close> component is left on either side. For absolute ASCII paths.\<close>

theorem inside_is_component_prefix:
  assumes "IsAbs p" "list_all is_ascii p" "IsAbs w" "list_all is_ascii w"
  shows "(PathInWorkingPath env p w \<longleftrightarrow> prefix (path_names w) (path_names p)) \<and>
    list_all proper_part (path_names p) \<and> list_all proper_part (path_names w)"
  using in_working_path[OF assms] path_names_proper assms by blast

theorem inside_is_component_prefix_witness:
  "(PathInWorkingPath example_env ''/home/user2/x'' ''/home/a/../user'' \<longleftrightarrow>
     prefix (path_names ''/home/a/../user'') (path_names ''/home/user2/x'')) \<and>
   list_all proper_part (path_names ''/home/user2/x'') \<and> list_all proper_part (path_names ''/home/a/../user'')"
  by (rule inside_is_component_prefix) code_simp+

lemma join_abs:
  assumes "IsAbs d"
  shows "IsAbs (JoinPath [d, x]) \<and> Clean (JoinPath [d, x]) = JoinPath [d, x]"
proof -
  have "d \<noteq> []" using assms by (auto simp: IsAbs_def)
  moreover have "IsAbs (d @ ''/'' @ x)" using assms by (auto simp: IsAbs_def HasPrefix_iff)
  ultimately show ?thesis by (simp add: JoinPath_def IsAbs_Clean Clean_idem)
qed

lemma expand_absolute: "IsAbs q \<Longrightarrow> ExpandPath env q = Clean q"
  by (auto simp: ExpandPath_def IsAbs_def Let_def HasPrefix_iff prefix_def)

text \<open>Expanding a path gives a clean absolute path and is idempotent, whenever the process has
  an absolute working directory and the home directory, if known, is a clean absolute path.\<close>

theorem expand_path_absolute:
  assumes "p \<noteq> []" "getwd env = Some d" "IsAbs d"
    and "\<And>h. user_home env = Some h \<Longrightarrow> IsAbs h \<and> Clean h = h"
  shows "IsAbs (ExpandPath env p) \<and> Clean (ExpandPath env p) = ExpandPath env p \<and>
    ExpandPath env (ExpandPath env p) = ExpandPath env p"
proof -
  have "IsAbs (ExpandPath env p) \<and> Clean (ExpandPath env p) = ExpandPath env p"
    using assms join_abs[OF assms(3), of p] join_abs[of _ "drop 2 p"]
    by (auto simp: ExpandPath_def Let_def IsAbs_Clean Clean_idem split: option.split)
  then show ?thesis by (simp add: expand_absolute)
qed

theorem expand_path_absolute_witness:
  "IsAbs (ExpandPath example_env ''~/a/../b'') \<and>
   Clean (ExpandPath example_env ''~/a/../b'') = ExpandPath example_env ''~/a/../b'' \<and>
   ExpandPath example_env (ExpandPath example_env ''~/a/../b'') = ExpandPath example_env ''~/a/../b''"
proof (rule expand_path_absolute)
  show "getwd example_env = Some ''/work''" by (simp add: example_env_def)
  have "user_home example_env = Some ''/home/u''" by (simp add: example_env_def)
  moreover have "IsAbs ''/home/u''" "Clean ''/home/u'' = ''/home/u''" by code_simp+
  ultimately show "IsAbs h \<and> Clean h = h" if "user_home example_env = Some h" for h
    using that by simp
qed code_simp+

text \<open>The forms of a path that are checked start with the absolute path, are at most 42 (the
  path, forty links, the fully resolved path), and no two of them compare equal.\<close>

theorem path_forms_bounded:
  "hd (PathsForPermissionCheck env path) = abs_or_same env (ExpandPath env path) \<and>
   PathsForPermissionCheck env path \<noteq> [] \<and> length (PathsForPermissionCheck env path) \<le> 42 \<and>
   distinct (map (normalizePathForComparison env) (PathsForPermissionCheck env path))"
  using paths_for_check_inv[of env path] by blast

text \<open>The climb to the deepest existing ancestor of a path ends on every file system.\<close>

theorem ancestor_climb_terminates: "\<exists>r. resolveDeepestExistingAncestor env path = Some r"
  by (rule resolve_ancestor_total)

lemma paths_loop_allowed:
  "paths_loop env allowed m paths \<noteq> None \<longleftrightarrow> list_all (\<lambda>p. dir_of_path env allowed p \<noteq> None) paths"
  by (induction paths arbitrary: m) (auto split: option.split)

lemma dir_of_path_iff:
  "dir_of_path env allowed p \<noteq> None \<longleftrightarrow>
   (\<exists>(dir, source) \<in> set allowed. list_ex (PathInWorkingPath env p) (PathsForPermissionCheck env dir))"
  by (auto simp: dir_of_path_def find_None_iff)

text \<open>Whether a path is allowed does not depend on the order in which Go iterates over the map
  of directories (the source that is reported may).\<close>

theorem path_allowed_order_free:
  assumes "\<And>xs. set (order xs) = set xs" "\<And>xs. set (order' xs) = set xs"
  shows "Allowed (IsPathAllowed env order path cwd additional) = Allowed (IsPathAllowed env order' path cwd additional)"
proof -
  have "pathsInAllowedWorkingPaths env ps (order ds) \<noteq> None \<longleftrightarrow> pathsInAllowedWorkingPaths env ps (order' ds) \<noteq> None"
    for ps ds
    unfolding pathsInAllowedWorkingPaths_def paths_loop_allowed dir_of_path_iff assms by (rule refl)
  then show ?thesis
    by (simp add: IsPathAllowed_def Let_def blocked_path_def split: option.split) (metis option.distinct(1))
qed

theorem path_allowed_order_free_witness:
  "Allowed (IsPathAllowed example_env rev ''src/x'' ''/work'' [(''/opt'', ''cliArg'')])
   = Allowed (IsPathAllowed example_env id ''src/x'' ''/work'' [(''/opt'', ''cliArg'')])"
  by (rule path_allowed_order_free) simp_all

section \<open>Settings and updates\<close>

lemma sources_loop_managed:
  "sources_loop True ctx rules srcs = Inr e \<Longrightarrow> (\<forall>r \<in> set rules. ruleSource r = PermissionSourcePolicySettings) \<Longrightarrow>
   r \<in> set (engRules e) \<Longrightarrow> ruleSource r = PermissionSourcePolicySettings"
proof (induction srcs arbitrary: ctx rules)
  case Nil
  then show ?case by (auto simp: NewEngine_def Let_def)
next
  case (Cons src srcs)
  show ?case
  proof (cases "srcPermissions src")
    case None
    with Cons show ?thesis by (auto simp: Let_def split: if_split_asm)
  next
    case (Some s)
    show ?thesis
    proof (cases "srcSource src = PermissionSourcePolicySettings")
      case True
      with Cons.prems(1) Some obtain rs ctx' where
        rs: "RulesFromSettings PermissionSourcePolicySettings (Some s) = Inr rs"
        and loop: "sources_loop True ctx' (rules @ rs) srcs = Inr e"
        by (auto simp: Let_def split: sum.split_asm)
      have "ruleSource r = PermissionSourcePolicySettings" if "r \<in> set rs" for r
        using rs that by (auto simp: RulesFromSettings_def split: sum.split_asm dest: parse_rules_fields)
      with Cons.prems(2) have "\<forall>r \<in> set (rules @ rs). ruleSource r = PermissionSourcePolicySettings" by auto
      from Cons.IH[OF loop this Cons.prems(3)] show ?thesis .
    next
      case False
      with Cons Some show ?thesis by (auto simp: Let_def)
    qed
  qed
qed

text \<open>With managed rules only, every rule of the engine comes from the policy settings.\<close>

theorem managed_rules_only:
  assumes "NewEngineFromSettingsSources True srcs = Inr e" "r \<in> set (engRules e)"
  shows "ruleSource r = PermissionSourcePolicySettings"
  using sources_loop_managed[of empty_context "[]" srcs e r] assms by (simp add: NewEngineFromSettingsSources_def)

definition example_sources :: "SettingsSource list" where
  "example_sources =
     (let s = \<lparr>setAllow = [''Bash''], setDeny = [''Bash(rm:*)''], setAsk = [], setDefaultMode = ''plan'',
               setDisableBypassMode = JNull, setDisableAutoMode = JNull, setAdditionalDirectories = []\<rparr>
      in [\<lparr>srcSource = ''userSettings'', srcPermissions = Some s, srcSandbox = None\<rparr>,
          \<lparr>srcSource = ''policySettings'', srcPermissions = Some s, srcSandbox = None\<rparr>])"

theorem managed_rules_only_witness:
  "ruleSource (hd (engRules (projr (NewEngineFromSettingsSources True example_sources)))) = PermissionSourcePolicySettings"
proof (rule managed_rules_only)
  have "\<not> isl (NewEngineFromSettingsSources True example_sources)" by code_simp
  then show "NewEngineFromSettingsSources True example_sources
      = Inr (projr (NewEngineFromSettingsSources True example_sources))" by (simp add: sum.collapse(2))
  show "hd (engRules (projr (NewEngineFromSettingsSources True example_sources)))
      \<in> set (engRules (projr (NewEngineFromSettingsSources True example_sources)))"
    by (rule hd_in_set) code_simp
qed

lemma append_rules_fields:
  assumes "append_rules source behavior vs = (rs, None)" "r \<in> set rs"
  shows "ruleSource r = source \<and> ruleBehavior r = behavior
    \<and> (\<exists>v \<in> set vs. Rule_String r = TrimSpace (PermissionRuleValueToString v))"
  using assms
proof (induction vs arbitrary: rs)
  case (Cons v vs)
  obtain r0 rs0 where p: "ParseRule source behavior (PermissionRuleValueToString v) = Inr r0"
    and rest: "append_rules source behavior vs = (rs0, None)" and rs: "rs = r0 # rs0"
    using Cons.prems(1) by (auto split: sum.split_asm prod.split_asm)
  have "Rule_String r0 = TrimSpace (PermissionRuleValueToString v)"
    using ParseRule_fields[OF p] by (auto simp: Rule_String_def)
  with ParseRule_fields[OF p] Cons.IH[OF rest] Cons.prems(2) rs show ?case by auto
qed simp

text \<open>Replacing the rules of a source and behaviour leaves the new engine with exactly the
  given rules for them, and with every other rule, in the old order.\<close>

theorem replace_rules_effect:
  assumes "updType u = ''replaceRules''" "snd (ApplyUpdate u e) = Inr e'"
  shows "filter (\<lambda>r. in_update u r) (engRules e') = fst (append_rules (update_source u) (updBehavior u) (updRules u)) \<and>
    filter (\<lambda>r. \<not> in_update u r) (engRules e') = filter (\<lambda>r. \<not> in_update u r) (engRules e)"
proof -
  obtain rs where rs: "append_rules (update_source u) (updBehavior u) (updRules u) = (rs, None)"
    and e': "engRules e' = filter (\<lambda>r. \<not> in_update u r) (engRules e) @ rs"
    using assms by (cases "append_rules (update_source u) (updBehavior u) (updRules u)")
      (auto simp: ApplyUpdate_def Let_def split: option.split_asm)
  have "\<forall>r \<in> set rs. in_update u r" using append_rules_fields[OF rs] by (auto simp: in_update_def)
  then show ?thesis by (simp add: e' rs)
qed

definition example_update :: "string \<Rightarrow> PermissionUpdate" where
  "example_update typ =
     \<lparr>updType = typ, updDestination = ''userSettings'',
      updRules = [\<lparr>valToolName = ''Bash'', valRuleContent = ''rm:*''\<rparr>], updBehavior = PermissionDeny,
      updMode = [], updDirectories = []\<rparr>"

theorem replace_rules_effect_witness:
  "filter (\<lambda>r. in_update (example_update ''replaceRules'') r)
      (engRules (projr (snd (ApplyUpdate (example_update ''replaceRules'') (example_engine ''plan'' [example_rule ''deny'' ''Edit'' ''*''])))))
    = fst (append_rules (update_source (example_update ''replaceRules'')) (updBehavior (example_update ''replaceRules''))
        (updRules (example_update ''replaceRules''))) \<and>
   filter (\<lambda>r. \<not> in_update (example_update ''replaceRules'') r)
      (engRules (projr (snd (ApplyUpdate (example_update ''replaceRules'') (example_engine ''plan'' [example_rule ''deny'' ''Edit'' ''*''])))))
    = filter (\<lambda>r. \<not> in_update (example_update ''replaceRules'') r) (engRules (example_engine ''plan'' [example_rule ''deny'' ''Edit'' ''*'']))"
proof (rule replace_rules_effect)
  show "updType (example_update ''replaceRules'') = ''replaceRules''" by (simp add: example_update_def)
  have "\<not> isl (snd (ApplyUpdate (example_update ''replaceRules'') (example_engine ''plan'' [example_rule ''deny'' ''Edit'' ''*''])))"
    by code_simp
  then show "snd (ApplyUpdate (example_update ''replaceRules'') (example_engine ''plan'' [example_rule ''deny'' ''Edit'' ''*'']))
      = Inr (projr (snd (ApplyUpdate (example_update ''replaceRules'') (example_engine ''plan'' [example_rule ''deny'' ''Edit'' ''*'']))))"
    by (simp add: sum.collapse(2))
qed

text \<open>Adding rules and then removing the same rule values gives the old rules back, when the
  printed values are trimmed and none of them names a rule that the engine already had for
  that source and behaviour.\<close>

theorem add_remove_rules:
  assumes "updType u \<in> {'''', ''rules'', ''addRules''}" "snd (ApplyUpdate u e) = Inr e1"
    and "list_all (\<lambda>v. TrimSpace (PermissionRuleValueToString v) = PermissionRuleValueToString v) (updRules u)"
    and "list_all (\<lambda>r. \<not> (in_update u r \<and> Rule_String r \<in> set (map PermissionRuleValueToString (updRules u)))) (engRules e)"
  shows "\<exists>e2. snd (ApplyUpdate (u\<lparr>updType := ''removeRules''\<rparr>) e1) = Inr e2 \<and> engRules e2 = engRules e"
proof -
  let ?del = "\<lambda>r. in_update u r \<and> Rule_String r \<in> set (map PermissionRuleValueToString (updRules u))"
  obtain rs where rs: "append_rules (update_source u) (updBehavior u) (updRules u) = (rs, None)"
    and e1: "engRules e1 = engRules e @ rs"
    using assms(1,2) by (cases "append_rules (update_source u) (updBehavior u) (updRules u)")
      (auto simp: ApplyUpdate_def Let_def split: option.split_asm)
  have "\<forall>r \<in> set rs. ?del r"
    using append_rules_fields[OF rs] assms(3) by (fastforce simp: in_update_def list_all_iff)
  then have "filter (\<lambda>r. \<not> ?del r) (engRules e1) = engRules e"
    using assms(4) unfolding e1 by (auto simp: list_all_iff filter_empty_conv intro!: filter_True)
  moreover have "in_update (u\<lparr>updType := ''removeRules''\<rparr>) = in_update u" by (rule ext) (simp add: in_update_def update_source_def)
  ultimately show ?thesis
    by (simp add: ApplyUpdate_def Let_def split: prod.split)
qed

theorem add_remove_rules_witness:
  "\<exists>e2. snd (ApplyUpdate ((example_update ''addRules'')\<lparr>updType := ''removeRules''\<rparr>)
      (projr (snd (ApplyUpdate (example_update ''addRules'') (example_engine ''plan'' [example_rule ''deny'' ''Edit'' ''*'']))))) = Inr e2 \<and>
    engRules e2 = engRules (example_engine ''plan'' [example_rule ''deny'' ''Edit'' ''*''])"
proof (rule add_remove_rules)
  show "updType (example_update ''addRules'') \<in> {'''', ''rules'', ''addRules''}" by (simp add: example_update_def)
  have "\<not> isl (snd (ApplyUpdate (example_update ''addRules'') (example_engine ''plan'' [example_rule ''deny'' ''Edit'' ''*''])))"
    by code_simp
  then show "snd (ApplyUpdate (example_update ''addRules'') (example_engine ''plan'' [example_rule ''deny'' ''Edit'' ''*'']))
      = Inr (projr (snd (ApplyUpdate (example_update ''addRules'') (example_engine ''plan'' [example_rule ''deny'' ''Edit'' ''*'']))))"
    by (simp add: sum.collapse(2))
qed code_simp+

lemma overwritten_same:
  "filter P xs @ drop (length (filter P xs)) xs = xs \<longleftrightarrow> (\<exists>ks ds. xs = ks @ ds \<and> list_all P ks \<and> list_all (\<lambda>x. \<not> P x) ds)"
  (is "?same \<longleftrightarrow> ?split")
proof
  let ?ds = "drop (length (filter P xs)) xs"
  assume same: ?same
  have "filter P (filter P xs @ ?ds) = filter P xs" by (simp only: same)
  then have "filter P ?ds = []" by simp
  then have "list_all (\<lambda>x. \<not> P x) ?ds" by (simp only: filter_empty_conv list_all_iff)
  moreover have "list_all P (filter P xs)" by (simp add: list_all_iff)
  ultimately show ?split using same[symmetric] by blast
next
  assume ?split
  then obtain ks ds where xs: "xs = ks @ ds" and P: "list_all P ks" "list_all (\<lambda>x. \<not> P x) ds" by blast
  have "filter P ks = ks" using P(1) by (simp add: list_all_iff)
  moreover have "filter P ds = []" using P(2) by (simp add: list_all_iff filter_empty_conv)
  ultimately show ?same by (simp add: xs)
qed

text \<open>Removing rules gives an engine without the rules of the update's source and behaviour
  that print as one of its values, and also changes the engine that the update is applied to,
  whose rule array the result shares: that engine keeps its rules exactly when the rules that
  are removed all stand at the end.\<close>

theorem removal_changes_receiver:
  assumes "updType u = ''removeRules''"
  defines "removed \<equiv> \<lambda>r. in_update u r \<and> Rule_String r \<in> set (map PermissionRuleValueToString (updRules u))"
  shows "snd (ApplyUpdate u e) = Inr (e\<lparr>engRules := filter (\<lambda>r. \<not> removed r) (engRules e)\<rparr>) \<and>
    (engRules (fst (ApplyUpdate u e)) = engRules e \<longleftrightarrow>
      (\<exists>kept tail. engRules e = kept @ tail \<and> list_all (\<lambda>r. \<not> removed r) kept \<and> list_all removed tail))"
  using assms overwritten_same[of "\<lambda>r. \<not> removed r" "engRules e"]
  by (simp add: ApplyUpdate_def overwritten_def Let_def split: prod.split)

theorem removal_changes_receiver_witness:
  "engRules (fst (ApplyUpdate (example_update ''removeRules'') (example_engine ''plan'' [example_rule ''deny'' ''Bash'' ''rm:*'', example_rule ''deny'' ''Edit'' ''*''])))
    \<noteq> engRules (example_engine ''plan'' [example_rule ''deny'' ''Bash'' ''rm:*'', example_rule ''deny'' ''Edit'' ''*''])"
proof -
  let ?u = "example_update ''removeRules''"
  let ?rm = "example_rule ''deny'' ''Bash'' ''rm:*''" and ?edit = "example_rule ''deny'' ''Edit'' ''*''"
  let ?e = "example_engine ''plan'' [?rm, ?edit]"
  let ?removed = "\<lambda>r. in_update ?u r \<and> Rule_String r \<in> set (map PermissionRuleValueToString (updRules ?u))"
  have facts: "?removed ?rm" "\<not> ?removed ?edit" "engRules ?e = [?rm, ?edit]" by code_simp+
  have "\<not> (\<exists>kept tail. engRules ?e = kept @ tail \<and> list_all (\<lambda>r. \<not> ?removed r) kept \<and> list_all ?removed tail)"
    unfolding facts(3) using facts(1,2) by (auto simp: Cons_eq_append_conv)
  moreover have "updType ?u = ''removeRules''" by (simp add: example_update_def)
  ultimately show ?thesis using removal_changes_receiver[of ?u ?e] by blast
qed

text \<open>Removing rules also changes the engine that the update is applied to: the in-place filter
  overwrites the rules that both share. Here the copy drops its first deny rule, and the
  original engine loses that rule too, having its last rule twice instead; it no longer denies
  the command.\<close>

lemma remove_rules_changes_receiver:
  "let e = example_engine ''default'' [example_rule ''deny'' ''Bash'' ''rm:*'', example_rule ''deny'' ''Edit'' ''*'',
             example_rule ''deny'' ''Read'' ''*''];
       req = example_request ''Edit'' '''' ''src/x.go'';
       receiver = fst (ApplyUpdate (example_update ''removeRules'') e)
   in decBehavior (Decide example_env e req) = PermissionDeny \<and>
      engRules receiver = [example_rule ''deny'' ''Edit'' ''*'', example_rule ''deny'' ''Read'' ''*'', example_rule ''deny'' ''Read'' ''*''] \<and>
      decBehavior (Decide example_env receiver (example_request ''Bash'' ''rm -rf x'' '''')) = PermissionAsk \<and>
      decBehavior (Decide example_env e (example_request ''Bash'' ''rm -rf x'' '''')) = PermissionDeny"
  by code_simp

end
