(* ===== verification/ToolTypes.thy ===== *)
theory ToolTypes
  imports PermEngine "HOL-Library.AList"
begin

text \<open>
  The data of the tool runtime: \<open>internal/contracts/tool.go\<close>, the interfaces of
  \<open>internal/tool/types.go\<close> and the fields of messages that the executor reads.

  A Go value of type \<open>any\<close> is a \<open>goany\<close>: the types that the runtime tells apart are its
  constructors. A \<open>map[string]any\<close> is an association list with distinct keys (a nil map is
  empty: the code only ever makes it before it writes).

  Everything a tool or a hook may do outside the program is a change of the world \<open>'w\<close>: an
  interface method that can have effects takes the world and gives its result with the world it
  leaves. A \<open>context.Context\<close> is the function that reads its error in a world. Hooks do not write
  through the pointers of their event (the hooks of \<open>internal/hooks\<close> only encode them).
\<close>

section \<open>Values\<close>

record ToolReference =
  refType :: string
  refToolName :: string

record CompactMetadata =
  cmTrigger :: string
  cmPreTokens :: int
  cmUserContext :: string
  cmMessagesSummarized :: int
  cmPreCompactDiscoveredTools :: "string list"

text \<open>A content block of a message, over the type of its field \<open>Content\<close>. The cache fields of a
  block, which nothing here reads, are left out.\<close>

datatype 'c block =
  ContentBlock (blockType: string) (blockText: string) (blockSource: 'c) (blockID: string) (blockName: string)
    (blockInput: raw_message) (blockContent: 'c) (blockIsError: bool) (blockToolUseID: string)

datatype goany =
  AnyNil
| AnyBool bool
| AnyNumber rat
| AnyInt int
| AnyString string
| AnySlice "goany list"
| AnyMap "(string \<times> goany) list"
| AnyMapSlice "(string \<times> goany) list list"
| AnyStrings "string list"
| AnyStringsMap "(string \<times> string list) list"
| AnyReference ToolReference
| AnyReferences "ToolReference list"
| AnyBlock "goany block"
| AnyBlocks "goany block list"
| AnyDecision PermissionDecision
| AnyCompact CompactMetadata
| AnyStruct "goany list option"

text \<open>\<open>AnyCompact\<close> is a \<open>session.CompactMetadata\<close> and \<open>AnyStruct\<close> any other struct value (both behind
  any pointers); of the latter it has what reflection sees of its field \<open>PreCompactDiscoveredTools\<close>:
  the slice, or \<open>None\<close> when there is no such slice.\<close>

type_synonym ContentBlock = "goany block"

type_synonym go_map = "(string \<times> goany) list"

definition set_key :: "string \<Rightarrow> goany \<Rightarrow> go_map \<Rightarrow> go_map" where
  "set_key k v m = AList.update k v m"

record ToolUse =
  useID :: ID
  useName :: string
  useInput :: raw_message

record ToolUseUsage =
  WebSearchRequests :: int
  WebFetchRequests :: int

record CacheCreationUsage =
  Ephemeral1hInputTokens :: int
  Ephemeral5mInputTokens :: int

record Usage =
  InputTokens :: int
  OutputTokens :: int
  CacheCreationInputTokens :: int
  CacheReadInputTokens :: int
  CacheDeletedInputTokens :: int
  ServerToolUse :: ToolUseUsage
  ServiceTier :: string
  CacheCreation :: CacheCreationUsage
  InferenceGeo :: string
  Iterations :: int
  Speed :: string
  CostUSD :: rat

record Message =
  msgID :: string
  msgType :: string
  msgUUID :: ID
  msgParentUUID :: "ID option"
  msgSessionID :: ID
  msgIsMeta :: bool
  msgTimestamp :: string
  msgContent :: "ContentBlock list"
  msgSubtype :: string
  msgModel :: string
  msgUsage :: "Usage option"
  msgRaw :: go_map

record ToolResult =
  resToolUseID :: ID
  resContent :: goany
  resIsError :: bool
  resNewMessages :: "Message list"
  resStructuredContent :: go_map
  resMeta :: go_map

record ToolProgress =
  prgToolUseID :: ID
  prgType :: string
  prgData :: go_map

record MCPToolRef =
  mcpServerName :: string
  mcpToolName :: string

text \<open>A tool definition, without its output schema and its cache control, which nothing here reads.\<close>

record ToolDefinition =
  defName :: string
  defAliases :: "string list"
  defDescription :: string
  defPrompt :: string
  defSearchHint :: string
  defInputSchema :: go_map
  defReadOnly :: bool
  defDestructive :: bool
  defConcurrencySafe :: bool
  defShouldDefer :: bool
  defAlwaysLoad :: bool
  defMaxResultSizeChars :: int
  defStrict :: bool
  defEagerInputStreaming :: bool
  defRequiresInteraction :: bool
  defInterruptBehavior :: string
  defMCP :: "MCPToolRef option"

text \<open>The metadata keys that the runtime reads. \<open>MetadataToolRegistryKey\<close> holds the executor's own
  registry, which it uses directly.\<close>

record Metadata =
  mdInternalPaths :: "InternalPathContext option"
  mdMessages :: "Message list option"
  mdModel :: string

record PromptContext =
  pcModel :: string
  pcWorkingDirectory :: string
  pcMetadata :: Metadata

text \<open>The permission deciders of the program: the engine, the policy of the built-in MCP server,
  and the allowlist of a subagent around another decider.\<close>

datatype decider =
  EnginePermissionDecider Engine
| readOnlyMCPPermissionDecider bool
| taskSubagentScopedPermissionDecider "decider option" "Rule list"

record 'w Context =
  cxContext :: "('w \<Rightarrow> string option) option"
  cxWorkingDirectory :: string
  cxSessionID :: ID
  cxPermissions :: "decider option"
  cxMetadata :: Metadata

section \<open>The interfaces\<close>

record HookEvent =
  evPhase :: string
  evToolUse :: ToolUse
  evToolName :: string
  evInput :: raw_message
  evDecision :: "PermissionDecision option"
  evResult :: "ToolResult option"
  evError :: string

record HookResult =
  hrBlock :: bool
  hrMessage :: string
  hrUpdatedInput :: raw_message
  hrPermissionDecision :: "PermissionDecision option"
  hrMetadata :: go_map

text \<open>\<open>hookPhases\<close> is \<open>None\<close> for a hook that is no \<open>PhaseHook\<close>.\<close>

record 'w Hook =
  hookPhases :: "string list option"
  RunToolHook :: "'w Context \<Rightarrow> HookEvent \<Rightarrow> 'w \<Rightarrow> (string + HookResult) \<times> 'w"

text \<open>\<open>Call\<close> also gives the progress that the tool sends to its sink.\<close>

record 'w Tool =
  toolName :: string
  toolAliases :: "string list"
  toolInputSchema :: "PromptContext \<Rightarrow> go_map"
  toolPrompt :: "PromptContext \<Rightarrow> string + string"
  toolContractDefinition :: "(PromptContext \<Rightarrow> string + ToolDefinition) option"
  toolValidate :: "'w Context \<Rightarrow> raw_message \<Rightarrow> 'w \<Rightarrow> string option \<times> 'w"
  toolCheckPermissions :: "'w Context \<Rightarrow> raw_message \<Rightarrow> 'w \<Rightarrow> (string + PermissionDecision) \<times> 'w"
  toolCall :: "'w Context \<Rightarrow> raw_message \<Rightarrow> 'w \<Rightarrow> ((ToolResult \<times> string option) \<times> ToolProgress list) \<times> 'w"
  toolIsReadOnly :: "raw_message \<Rightarrow> bool"
  toolIsConcurrencySafe :: "raw_message \<Rightarrow> bool"
  toolIsDestructive :: "raw_message \<Rightarrow> bool"
  toolInterruptBehavior :: string
  toolMaxResultSizeChars :: int

definition no_input :: raw_message where
  "no_input = \<lparr>raw_text = [], raw_value = None\<rparr>"

definition normalizeRawInput :: "raw_message \<Rightarrow> raw_message" where
  "normalizeRawInput raw =
     (if raw_text raw = [] then \<lparr>raw_text = ''{}'', raw_value = Some (JObj [])\<rparr> else raw)"

definition Definition :: "PromptContext \<Rightarrow> 'w Tool \<Rightarrow> string + ToolDefinition" where
  "Definition ctx t =
     (case toolContractDefinition t of
        Some provider \<Rightarrow> provider ctx
      | None \<Rightarrow>
        (case toolPrompt t ctx of
           Inl err \<Rightarrow> Inl err
         | Inr prompt \<Rightarrow> Inr
             \<lparr>defName = toolName t, defAliases = toolAliases t, defDescription = [], defPrompt = prompt,
              defSearchHint = [], defInputSchema = toolInputSchema t ctx, defReadOnly = toolIsReadOnly t no_input,
              defDestructive = toolIsDestructive t no_input,
              defConcurrencySafe = toolIsConcurrencySafe t no_input,
              defShouldDefer = False, defAlwaysLoad = False,
              defMaxResultSizeChars = toolMaxResultSizeChars t, defStrict = False,
              defEagerInputStreaming = False, defRequiresInteraction = False,
              defInterruptBehavior = toolInterruptBehavior t, defMCP = None\<rparr>))"

text \<open>\<open>strings.TrimSpace\<close> and \<open>strings.ToLower\<close> of a name.\<close>

definition normalizeName :: "go_env \<Rightarrow> string \<Rightarrow> string" where
  "normalizeName env name = ToLower env (TrimSpace name)"

end
