(* ===== verification/ToolRegistry.thy ===== *)
theory ToolRegistry
  imports ToolTypes "HOL-Library.Char_ord" "HOL-Library.List_Lexorder"
begin

text \<open>
  \<open>internal/tool/registry.go\<close>. The mutex makes each operation atomic; the two Go maps are partial
  maps. A nil tool is \<open>None\<close>. \<open>sort.Slice\<close> by name is \<open>sort_key\<close>, strings being compared byte by
  byte; it need not be stable in Go, which matters only for definitions of equal name.
\<close>

record 'w Registry =
  regTools :: "string \<rightharpoonup> 'w Tool"
  regAliases :: "string \<rightharpoonup> string"
  regOrder :: "string list"

definition empty_registry :: "'w Registry" where
  "empty_registry = \<lparr>regTools = Map.empty, regAliases = Map.empty, regOrder = []\<rparr>"

datatype register_error =
  NilTool
| EmptyToolName
| AlreadyRegistered string
| NameIsAlias string string
| EmptyAlias string
| AliasIsTool string string
| AliasIsAlias string string string

text \<open>The checks on the aliases: the first one that fails.\<close>

fun alias_error :: "go_env \<Rightarrow> 'w Registry \<Rightarrow> string \<Rightarrow> string list \<Rightarrow> register_error option" where
  "alias_error env r name [] = None"
| "alias_error env r name (alias # rest) =
     (let aliasKey = normalizeName env alias in
      if aliasKey = [] then Some (EmptyAlias name)
      else if regTools r aliasKey \<noteq> None then Some (AliasIsTool alias name)
      else (case regAliases r aliasKey of
              Some target \<Rightarrow> Some (AliasIsAlias alias name target)
            | None \<Rightarrow> alias_error env r name rest))"

definition Register :: "go_env \<Rightarrow> 'w Tool option \<Rightarrow> 'w Registry \<Rightarrow> register_error + 'w Registry" where
  "Register env tool r =
     (case tool of None \<Rightarrow> Inl NilTool
      | Some t \<Rightarrow>
        let name = TrimSpace (toolName t); key = normalizeName env name in
        if name = [] then Inl EmptyToolName
        else if regTools r key \<noteq> None then Inl (AlreadyRegistered name)
        else (case regAliases r key of
            Some target \<Rightarrow> Inl (NameIsAlias name target)
          | None \<Rightarrow>
            (case alias_error env r name (toolAliases t) of
               Some e \<Rightarrow> Inl e
             | None \<Rightarrow> Inr (r\<lparr>regTools := (regTools r)(key \<mapsto> t), regOrder := regOrder r @ [key],
                 regAliases := foldl (\<lambda>m alias. m(normalizeName env alias \<mapsto> key)) (regAliases r) (toolAliases t)\<rparr>))))"

fun register_all :: "go_env \<Rightarrow> 'w Tool option list \<Rightarrow> 'w Registry \<Rightarrow> register_error + 'w Registry" where
  "register_all env [] r = Inr r"
| "register_all env (t # ts) r =
     (case Register env t r of Inl e \<Rightarrow> Inl e | Inr r' \<Rightarrow> register_all env ts r')"

definition NewRegistry :: "go_env \<Rightarrow> 'w Tool option list \<Rightarrow> register_error + 'w Registry" where
  "NewRegistry env tools = register_all env tools empty_registry"

definition Lookup :: "go_env \<Rightarrow> 'w Registry \<Rightarrow> string \<Rightarrow> 'w Tool option" where
  "Lookup env r name =
     (let key = normalizeName env name in
      case regTools r key of
        Some t \<Rightarrow> Some t
      | None \<Rightarrow> (case regAliases r key of Some target \<Rightarrow> regTools r target | None \<Rightarrow> None))"

definition Names :: "'w Registry \<Rightarrow> string list" where
  "Names r = map toolName (List.map_filter (regTools r) (regOrder r))"

fun all_definitions :: "PromptContext \<Rightarrow> 'w Tool list \<Rightarrow> string + ToolDefinition list" where
  "all_definitions ctx [] = Inr []"
| "all_definitions ctx (t # ts) =
     (case Definition ctx t of Inl e \<Rightarrow> Inl e
      | Inr d \<Rightarrow> (case all_definitions ctx ts of Inl e \<Rightarrow> Inl e | Inr ds \<Rightarrow> Inr (d # ds)))"

definition Definitions :: "PromptContext \<Rightarrow> 'w Registry \<Rightarrow> string + ToolDefinition list" where
  "Definitions ctx r =
     (case all_definitions ctx (List.map_filter (regTools r) (regOrder r)) of
        Inl e \<Rightarrow> Inl e
      | Inr definitions \<Rightarrow> Inr (sort_key defName definitions))"

end
