(* ===== verification/RegistryLaws.thy ===== *)
theory RegistryLaws
  imports ToolRegistry RuleLaws
begin

text \<open>
  The registry as its clients see it: a table of names that only grows. The contract is the
  locale \<open>name_table\<close>; the registry of tools provides it.
\<close>

section \<open>The contract\<close>

locale name_table =
  fixes inv :: "'r \<Rightarrow> bool"
    and find :: "'r \<Rightarrow> string \<Rightarrow> 't option"
    and add :: "'t \<Rightarrow> 'r \<Rightarrow> 'r option"
    and answers_to :: "'t \<Rightarrow> string \<Rightarrow> bool"
  assumes inv_add: "inv r \<Longrightarrow> add t r = Some r' \<Longrightarrow> inv r'"
    and find_add: "inv r \<Longrightarrow> add t r = Some r' \<Longrightarrow> find r' n = (if answers_to t n then Some t else find r n)"
    and fresh: "inv r \<Longrightarrow> add t r = Some r' \<Longrightarrow> answers_to t n \<Longrightarrow> find r n = None"
begin

fun add_all :: "'t list \<Rightarrow> 'r \<Rightarrow> 'r option" where
  "add_all [] r = Some r"
| "add_all (t # ts) r = (case add t r of None \<Rightarrow> None | Some r' \<Rightarrow> add_all ts r')"

lemma inv_add_all: "inv r \<Longrightarrow> add_all ts r = Some r' \<Longrightarrow> inv r'"
  by (induction ts arbitrary: r) (auto split: option.split_asm dest: inv_add)

lemma find_stays: "inv r \<Longrightarrow> add_all ts r = Some r' \<Longrightarrow> find r n = Some t \<Longrightarrow> find r' n = Some t"
proof (induction ts arbitrary: r)
  case (Cons u us)
  then obtain r1 where r1: "add u r = Some r1" and rest: "add_all us r1 = Some r'"
    by (auto split: option.split_asm)
  have "\<not> answers_to u n" using fresh[OF Cons.prems(1) r1] Cons.prems(3) by auto
  then have "find r1 n = Some t" using find_add[OF Cons.prems(1) r1] Cons.prems(3) by simp
  with Cons.IH[OF inv_add[OF Cons.prems(1) r1] rest] show ?case .
qed simp

lemma find_added:
  "inv r \<Longrightarrow> add_all ts r = Some r' \<Longrightarrow> t \<in> set ts \<Longrightarrow> answers_to t n \<Longrightarrow> find r' n = Some t"
proof (induction ts arbitrary: r)
  case (Cons u us)
  then obtain r1 where r1: "add u r = Some r1" and rest: "add_all us r1 = Some r'"
    by (auto split: option.split_asm)
  have inv1: "inv r1" using inv_add[OF Cons.prems(1) r1] .
  show ?case
  proof (cases "t = u")
    case True
    then have "find r1 n = Some t" using find_add[OF Cons.prems(1) r1] Cons.prems(4) by simp
    then show ?thesis by (rule find_stays[OF inv1 rest])
  next
    case False
    with Cons.IH[OF inv1 rest] Cons.prems(3,4) show ?thesis by simp
  qed
qed simp

lemma find_only_added:
  "inv r \<Longrightarrow> add_all ts r = Some r' \<Longrightarrow> find r' n = Some t \<Longrightarrow> find r n = Some t \<or> t \<in> set ts \<and> answers_to t n"
proof (induction ts arbitrary: r)
  case (Cons u us)
  then obtain r1 where r1: "add u r = Some r1" and rest: "add_all us r1 = Some r'"
    by (auto split: option.split_asm)
  from Cons.IH[OF inv_add[OF Cons.prems(1) r1] rest Cons.prems(3)] find_add[OF Cons.prems(1) r1, of n]
  show ?case by (auto split: if_split_asm)
qed simp

end

section \<open>The registry\<close>

text \<open>Every alias names a registered tool; an alias that is the name of a tool is that tool's own;
  the order lists the keys of the tools, each once; and each tool stands under its own key.\<close>

definition registry_inv :: "go_env \<Rightarrow> 'w Registry \<Rightarrow> bool" where
  "registry_inv env r =
     ((\<forall>a k. regAliases r a = Some k \<longrightarrow> k \<in> dom (regTools r) \<and> (a \<in> dom (regTools r) \<longrightarrow> a = k)) \<and>
      distinct (regOrder r) \<and> set (regOrder r) = dom (regTools r) \<and>
      (\<forall>k t. regTools r k = Some t \<longrightarrow> k = normalizeName env (TrimSpace (toolName t))))"

definition tool_keys :: "go_env \<Rightarrow> 'w Tool \<Rightarrow> string set" where
  "tool_keys env t = insert (normalizeName env (TrimSpace (toolName t))) (normalizeName env ` set (toolAliases t))"

definition register_option :: "go_env \<Rightarrow> 'w Tool \<Rightarrow> 'w Registry \<Rightarrow> 'w Registry option" where
  "register_option env t r = (case Register env (Some t) r of Inl _ \<Rightarrow> None | Inr r' \<Rightarrow> Some r')"

lemma alias_error_None:
  "alias_error env r name as = None \<longleftrightarrow>
   (\<forall>a \<in> set as. normalizeName env a \<noteq> [] \<and> regTools r (normalizeName env a) = None \<and> regAliases r (normalizeName env a) = None)"
  by (induction as) (auto simp: Let_def split: option.split)

lemma alias_fold:
  "foldl (\<lambda>m a. m(f a \<mapsto> k)) m as x = (if x \<in> f ` set as then Some k else m x)"
  by (induction as arbitrary: m) auto

text \<open>What a successful registration has checked, and what it has done.\<close>

lemma Register_InrD:
  assumes "Register env (Some t) r = Inr r'"
  defines "key \<equiv> normalizeName env (TrimSpace (toolName t))"
  shows "TrimSpace (toolName t) \<noteq> []" "regTools r key = None" "regAliases r key = None"
    and "\<forall>a \<in> set (toolAliases t). normalizeName env a \<noteq> [] \<and>
           regTools r (normalizeName env a) = None \<and> regAliases r (normalizeName env a) = None"
    and "regTools r' = (regTools r)(key \<mapsto> t)" "regOrder r' = regOrder r @ [key]"
    and "\<And>x. regAliases r' x = (if x \<in> normalizeName env ` set (toolAliases t) then Some key else regAliases r x)"
  using assms alias_error_None[of env r "TrimSpace (toolName t)" "toolAliases t"]
  by (auto simp: Register_def Let_def alias_fold split: if_split_asm option.split_asm)

lemma register_optionD: "register_option env t r = Some r' \<Longrightarrow> Register env (Some t) r = Inr r'"
  by (simp add: register_option_def split: sum.split_asm)

lemma registry_inv_Register:
  assumes "registry_inv env r" "Register env (Some t) r = Inr r'"
  shows "registry_inv env r'"
proof -
  note d = Register_InrD[OF assms(2)]
  have "distinct (regOrder r')" "set (regOrder r') = dom (regTools r')"
    using assms(1) d(2) unfolding d(5,6) registry_inv_def by auto
  moreover have "\<forall>k u. regTools r' k = Some u \<longrightarrow> k = normalizeName env (TrimSpace (toolName u))"
    using assms(1) unfolding d(5) registry_inv_def by auto
  moreover have "k \<in> dom (regTools r') \<and> (a \<in> dom (regTools r') \<longrightarrow> a = k)" if "regAliases r' a = Some k" for a k
    using assms(1) d(2,3,4) that unfolding d(5) d(7) registry_inv_def by (auto split: if_split_asm)
  ultimately show ?thesis unfolding registry_inv_def by blast
qed

lemma find_registered:
  assumes "registry_inv env r" "Register env (Some t) r = Inr r'"
  shows "Lookup env r' n = (if normalizeName env n \<in> tool_keys env t then Some t else Lookup env r n)"
proof -
  note d = Register_InrD[OF assms(2)]
  let ?key = "normalizeName env (TrimSpace (toolName t))" and ?k = "normalizeName env n"
  have old: "k \<in> dom (regTools r)" if "regAliases r a = Some k" for a k
    using assms(1) that by (auto simp: registry_inv_def)
  consider "?k = ?key" | "?k \<noteq> ?key" "?k \<in> normalizeName env ` set (toolAliases t)"
    | "?k \<noteq> ?key" "?k \<notin> normalizeName env ` set (toolAliases t)" by blast
  then show ?thesis
  proof cases
    case 1
    then show ?thesis by (simp add: Lookup_def Let_def d(5) tool_keys_def)
  next
    case 2
    moreover from 2 have "regTools r ?k = None" using d(4) by auto
    ultimately show ?thesis by (simp add: Lookup_def Let_def d(5) d(7) tool_keys_def)
  next
    case 3
    moreover have "k \<noteq> ?key" if "regAliases r ?k = Some k" for k using old[OF that] d(2) by auto
    ultimately show ?thesis by (auto simp: Lookup_def Let_def d(5) d(7) tool_keys_def split: option.split)
  qed
qed

lemma key_not_found:
  assumes "Register env (Some t) r = Inr r'" "normalizeName env n \<in> tool_keys env t"
  shows "Lookup env r n = None"
  using Register_InrD(2,3,4)[OF assms(1)] assms(2) by (auto simp: Lookup_def Let_def tool_keys_def)

interpretation tools: name_table "registry_inv env" "Lookup env" "register_option env" "\<lambda>t n. normalizeName env n \<in> tool_keys env t"
  by unfold_locales
    (auto dest!: register_optionD simp: find_registered key_not_found intro: registry_inv_Register)

lemma registry_inv_empty: "registry_inv env empty_registry"
  by (simp add: registry_inv_def empty_registry_def)

lemma register_all_add_all:
  "register_all env (map Some ts) r = Inr r' \<longleftrightarrow> tools.add_all env ts r = Some r'"
  by (induction ts arbitrary: r) (auto simp: register_option_def split: sum.split)

end
