(* ===== verification/Effects.thy ===== *)
theory Effects
  imports Main
begin

text \<open>
  Code with effects. A piece of such code takes the world and gives its value, the actions it
  performs in order, and the world it leaves; what the actions are is a parameter. \<open>wp\<close> is the
  calculus in which the properties of such pieces are proved.
\<close>

type_synonym ('w, 'e, 'a) effects = "'w \<Rightarrow> 'a \<times> 'e list \<times> 'w"

definition done_p :: "'a \<Rightarrow> ('w, 'e, 'a) effects" where
  "done_p x = (\<lambda>w. (x, [], w))"

definition then_p :: "('w, 'e, 'a) effects \<Rightarrow> ('a \<Rightarrow> ('w, 'e, 'b) effects) \<Rightarrow> ('w, 'e, 'b) effects" where
  "then_p m f = (\<lambda>w. case m w of (x, es, w1) \<Rightarrow> (case f x w1 of (y, es', w2) \<Rightarrow> (y, es @ es', w2)))"

definition act :: "'e \<Rightarrow> ('w, 'e, unit) effects" where
  "act a = (\<lambda>w. ((), [a], w))"

text \<open>A call outside the executor, and the action that records it with its result.\<close>

definition ask_world :: "('w \<Rightarrow> 'a \<times> 'w) \<Rightarrow> ('a \<Rightarrow> 'e) \<Rightarrow> ('w, 'e, 'a) effects" where
  "ask_world g record_as = (\<lambda>w. case g w of (x, w') \<Rightarrow> (x, [record_as x], w'))"

text \<open>A call outside that is no action, and code that only looks at the world.\<close>

definition quietly :: "('w \<Rightarrow> 'a \<times> 'w) \<Rightarrow> ('w, 'e, 'a) effects" where
  "quietly g = (\<lambda>w. case g w of (x, w') \<Rightarrow> (x, [], w'))"

definition look :: "('w \<Rightarrow> 'a) \<Rightarrow> ('w, 'e, 'a) effects" where
  "look g = (\<lambda>w. (g w, [], w))"

text \<open>Early return: \<open>Inl\<close> ends the function with that value.\<close>

definition then_e :: "('w, 'e, 'x + 'a) effects \<Rightarrow> ('a \<Rightarrow> ('w, 'e, 'x + 'b) effects) \<Rightarrow> ('w, 'e, 'x + 'b) effects" where
  "then_e m f = then_p m (\<lambda>r. case r of Inl e \<Rightarrow> done_p (Inl e) | Inr x \<Rightarrow> f x)"

section \<open>What holds after a piece\<close>

text \<open>\<open>wp m Q w\<close>: run in the world \<open>w\<close>, the piece ends with a value, actions and a world that satisfy
  \<open>Q\<close>. Its equations take a piece apart from front to back.\<close>

definition wp :: "('w, 'e, 'a) effects \<Rightarrow> ('a \<Rightarrow> 'e list \<Rightarrow> 'w \<Rightarrow> bool) \<Rightarrow> 'w \<Rightarrow> bool" where
  "wp m Q w = (case m w of (x, es, w') \<Rightarrow> Q x es w')"

named_theorems wp_simps \<open>the equations of the pieces\<close>

lemma wp_done [wp_simps]: "wp (done_p x) Q w = Q x [] w"
  by (simp add: wp_def done_p_def)

lemma wp_act [wp_simps]: "wp (act a) Q w = Q () [a] w"
  by (simp add: wp_def act_def)

lemma wp_look [wp_simps]: "wp (look g) Q w = Q (g w) [] w"
  by (simp add: wp_def look_def)

lemma wp_ask [wp_simps]: "wp (ask_world g f) Q w = (case g w of (x, w') \<Rightarrow> Q x [f x] w')"
  by (simp add: wp_def ask_world_def split: prod.split)

lemma wp_quietly [wp_simps]: "wp (quietly g) Q w = (case g w of (x, w') \<Rightarrow> Q x [] w')"
  by (simp add: wp_def quietly_def split: prod.split)

lemma wp_then [wp_simps]:
  "wp (then_p m f) Q w = wp m (\<lambda>x es w1. wp (f x) (\<lambda>y es' w2. Q y (es @ es') w2) w1) w"
  by (simp add: wp_def then_p_def split: prod.split)

lemma wp_then_e [wp_simps]:
  "wp (then_e m f) Q w =
   wp m (\<lambda>r es w1. case r of Inl e \<Rightarrow> Q (Inl e) es w1 | Inr x \<Rightarrow> wp (f x) (\<lambda>y es' w2. Q y (es @ es') w2) w1) w"
  by (simp add: wp_def then_e_def then_p_def done_p_def split: prod.split sum.split)

lemma wp_mono: "wp m P w \<Longrightarrow> (\<And>x es w'. P x es w' \<Longrightarrow> Q x es w') \<Longrightarrow> wp m Q w"
  by (auto simp: wp_def split: prod.splits)

lemma wp_conj: "wp m P w \<Longrightarrow> wp m Q w \<Longrightarrow> wp m (\<lambda>x es w'. P x es w' \<and> Q x es w') w"
  by (auto simp: wp_def split: prod.splits)

lemma wpD: "wp m Q w \<Longrightarrow> m w = (x, es, w') \<Longrightarrow> Q x es w'"
  by (simp add: wp_def)

lemma wpI: "(\<And>x es w'. m w = (x, es, w') \<Longrightarrow> Q x es w') \<Longrightarrow> wp m Q w"
  by (auto simp: wp_def split: prod.split)

end
