(* ===== verification/ToolExec.thy ===== *)
theory ToolExec
  imports Effects ToolRegistry
begin

text \<open>
  \<open>internal/tool/executor.go\<close>: the execution of one tool use. \<open>Execute\<close> follows the source from
  top to bottom: what it does before the permission check (\<open>prepare\<close>), the check with its hooks
  (\<open>authorize\<close>), the call with what follows it (\<open>perform\<close>).

  The progress sink is an observer: what is sent to it is an action, and the error it may return
  is ignored by the source. Writing the overflow file (its error is ignored too) is an action.
\<close>

section \<open>Actions\<close>

text \<open>
  The effects of the executor. Its actions are what an observer of the executor sees: the progress
  it sends, and its calls to the tool, to hooks and to the file system.
\<close>

datatype action =
  Sent ToolProgress
| Validated raw_message "string option"
| HookRun HookEvent "string + HookResult"
| Checked raw_message "string + PermissionDecision"
| Called raw_message
| Wrote string string

type_synonym ('w, 'a) prog = "('w, action, 'a) effects"

record 'w Executor =
  exRegistry :: "'w Registry option"
  exResultStoreDir :: string
  exHooks :: "'w Hook option list"

section \<open>Errors\<close>

datatype exec_error =
  ContextError string
| NilRegistry
| UnknownTool string
| ValidationError string
| HookError string
| HookBlockedError string string go_map
| PermissionError PermissionDecision
| CheckError string
| CallError string

definition PermissionError_Error :: "PermissionDecision \<Rightarrow> string" where
  "PermissionError_Error d = (if decMessage d \<noteq> [] then decMessage d else ''permission denied'')"

fun error_text :: "exec_error \<Rightarrow> string" where
  "error_text (ContextError s) = s"
| "error_text NilRegistry = ''unknown tool: registry is nil''"
| "error_text (UnknownTool name) = ''unknown tool: '' @ name"
| "error_text (ValidationError s) = s"
| "error_text (HookError s) = s"
| "error_text (HookBlockedError phase message metadata) = message"
| "error_text (PermissionError d) = PermissionError_Error d"
| "error_text (CheckError s) = s"
| "error_text (CallError s) = s"

type_synonym outcome = "ToolResult \<times> exec_error option"

definition empty_result :: ToolResult where
  "empty_result = \<lparr>resToolUseID = [], resContent = AnyNil, resIsError = False, resNewMessages = [],
     resStructuredContent = [], resMeta = []\<rparr>"

definition ErrorResult :: "ToolUse \<Rightarrow> exec_error \<Rightarrow> ToolResult" where
  "ErrorResult use e = empty_result\<lparr>resToolUseID := useID use, resIsError := True, resContent := AnyString (error_text e)\<rparr>"

text \<open>\<open>return ErrorResult(use, err), err\<close>.\<close>

definition fail :: "ToolUse \<Rightarrow> exec_error \<Rightarrow> outcome" where
  "fail use e = (ErrorResult use e, Some e)"

definition contextError :: "'w Context \<Rightarrow> 'w \<Rightarrow> exec_error option" where
  "contextError ctx w =
     (case cxContext ctx of None \<Rightarrow> None | Some err \<Rightarrow> map_option ContextError (err w))"

section \<open>The hint that a schema was not sent\<close>

text \<open>The set of discovered names is the list of the names in the order they are added.\<close>

definition addDiscoveredToolName :: "go_env \<Rightarrow> string \<Rightarrow> string list" where
  "addDiscoveredToolName env name =
     (let trimmed = TrimSpace name in if trimmed \<noteq> [] then [ToLower env trimmed] else [])"

definition string_items :: "goany list \<Rightarrow> string list" where
  "string_items items = List.map_filter (\<lambda>i. case i of AnyString s \<Rightarrow> Some s | _ \<Rightarrow> None) items"

definition collectStringSliceToolReferences :: "go_env \<Rightarrow> goany \<Rightarrow> string list" where
  "collectStringSliceToolReferences env value =
     (case value of
        AnyStrings names \<Rightarrow> concat (map (addDiscoveredToolName env) names)
      | AnySlice items \<Rightarrow> concat (map (addDiscoveredToolName env) (string_items items))
      | _ \<Rightarrow> [])"

definition collectPreCompactDiscoveredToolsFromStruct :: "go_env \<Rightarrow> goany \<Rightarrow> string list" where
  "collectPreCompactDiscoveredToolsFromStruct env metadata =
     (case metadata of
        AnyCompact m \<Rightarrow> concat (map (addDiscoveredToolName env) (cmPreCompactDiscoveredTools m))
      | AnyStruct (Some field) \<Rightarrow> concat (map (addDiscoveredToolName env) (string_items field))
      | _ \<Rightarrow> [])"

definition map_value :: "go_map \<Rightarrow> string \<Rightarrow> goany" where
  "map_value m k = (case map_of m k of Some v \<Rightarrow> v | None \<Rightarrow> AnyNil)"

definition collectPreCompactDiscoveredTools :: "go_env \<Rightarrow> goany \<Rightarrow> string list" where
  "collectPreCompactDiscoveredTools env metadata =
     (let keys = [''preCompactDiscoveredTools'', ''pre_compact_discovered_tools''] in
      case metadata of
        AnyMap m \<Rightarrow> concat (map (\<lambda>key. collectStringSliceToolReferences env (map_value m key)) keys)
      | AnyStringsMap m \<Rightarrow>
          concat (map (\<lambda>key. collectStringSliceToolReferences env
            (AnyStrings (case map_of m key of Some v \<Rightarrow> v | None \<Rightarrow> []))) keys)
      | _ \<Rightarrow> collectPreCompactDiscoveredToolsFromStruct env metadata)"

definition collectCompactMetadataToolNames :: "go_env \<Rightarrow> Message \<Rightarrow> string list" where
  "collectCompactMetadataToolNames env message =
     (if msgType message \<noteq> ''system'' \<or> msgSubtype message \<noteq> ''compact_boundary'' \<or> msgRaw message = [] then []
      else concat (map (\<lambda>key. case map_of (msgRaw message) key of
                Some metadata \<Rightarrow> collectPreCompactDiscoveredTools env metadata | None \<Rightarrow> [])
             [''compactMetadata'', ''compact_metadata'']))"

fun stringMapField :: "go_map \<Rightarrow> string list \<Rightarrow> string option" where
  "stringMapField item [] = None"
| "stringMapField item (name # names) =
     (case map_of item name of
        Some (AnyString value) \<Rightarrow>
          if TrimSpace value \<noteq> [] then Some (TrimSpace value) else stringMapField item names
      | _ \<Rightarrow> stringMapField item names)"

definition toolReferenceType :: "go_map \<Rightarrow> bool" where
  "toolReferenceType item = (stringMapField item [''type''] = Some ''tool_reference'')"

definition map_reference :: "go_env \<Rightarrow> go_map \<Rightarrow> string list" where
  "map_reference env item =
     (case stringMapField item [''tool_name'', ''toolName'', ''name''] of
        Some name \<Rightarrow> if toolReferenceType item then addDiscoveredToolName env name else []
      | None \<Rightarrow> [])"

fun collectToolReferenceNames :: "go_env \<Rightarrow> goany \<Rightarrow> string list" where
  "collectToolReferenceNames env (AnyReference r) = addDiscoveredToolName env (refToolName r)"
| "collectToolReferenceNames env (AnyReferences rs) = concat (map (\<lambda>r. addDiscoveredToolName env (refToolName r)) rs)"
| "collectToolReferenceNames env (AnyMap item) = map_reference env item"
| "collectToolReferenceNames env (AnyMapSlice items) = concat (map (map_reference env) items)"
| "collectToolReferenceNames env (AnySlice items) = concat (map (collectToolReferenceNames env) items)"
| "collectToolReferenceNames env _ = []"

definition discoveredToolNamesFromMessages :: "go_env \<Rightarrow> Message list \<Rightarrow> string list" where
  "discoveredToolNamesFromMessages env messages =
     concat (map (\<lambda>message. collectCompactMetadataToolNames env message @
         concat (map (\<lambda>block. if blockType block \<noteq> ''tool_result'' then []
                              else collectToolReferenceNames env (blockContent block)) (msgContent message)))
       messages)"

definition toolDefinitionNameDiscovered :: "go_env \<Rightarrow> ToolDefinition \<Rightarrow> string list \<Rightarrow> bool" where
  "toolDefinitionNameDiscovered env definition discovered =
     (ToLower env (defName definition) \<in> set discovered \<or>
      list_ex (\<lambda>alias. ToLower env alias \<in> set discovered) (defAliases definition))"

definition toolSearchAvailable :: "go_env \<Rightarrow> 'w Registry \<Rightarrow> bool" where
  "toolSearchAvailable env registry = (Lookup env registry ''ToolSearch'' \<noteq> None)"

definition schema_hint_text :: "string \<Rightarrow> string" where
  "schema_hint_text name =
     [nl, nl] @ ''This tool'' @ [squote] @ ''s schema was not sent to the API - it was not in the discovered-tool set derived from message history. ''
     @ ''Without the schema in your prompt, typed parameters can be emitted as strings and the client-side parser rejects them. ''
     @ ''Load the tool first: call ToolSearch with query '' @ [dquote] @ ''select:'' @ name @ [dquote] @ '', then retry this call.''"

definition schemaNotSentHint :: "go_env \<Rightarrow> 'w Registry \<Rightarrow> 'w Context \<Rightarrow> 'w Tool \<Rightarrow> string" where
  "schemaNotSentHint env registry ctx t =
     (if \<not> toolSearchAvailable env registry then []
      else (case mdMessages (cxMetadata ctx) of None \<Rightarrow> []
        | Some messages \<Rightarrow>
          (case Definition \<lparr>pcModel = [], pcWorkingDirectory = cxWorkingDirectory ctx, pcMetadata = cxMetadata ctx\<rparr> t of
             Inl err \<Rightarrow> []
           | Inr definition \<Rightarrow>
               if \<not> defShouldDefer definition \<or> defAlwaysLoad definition then []
               else if toolDefinitionNameDiscovered env definition (discoveredToolNamesFromMessages env messages) then []
               else schema_hint_text (defName definition))))"

definition hint_marker :: string where
  "hint_marker = ''This tool'' @ [squote] @ ''s schema was not sent to the API''"

definition validationErrorWithSchemaHint ::
  "go_env \<Rightarrow> 'w Registry \<Rightarrow> 'w Context \<Rightarrow> 'w Tool \<Rightarrow> string \<Rightarrow> exec_error" where
  "validationErrorWithSchemaHint env registry ctx t err =
     (let hint = schemaNotSentHint env registry ctx t in
      if hint = [] \<or> Contains err hint_marker then ValidationError err else ValidationError (err @ hint))"

section \<open>The operating system\<close>

text \<open>What the executor asks of the system besides its context: a fresh identifier, and the
  effect of writing a file.\<close>

record 'w system =
  sysEnv :: go_env
  sysNewID :: "'w \<Rightarrow> ID \<times> 'w"
  sysWriteFile :: "string \<Rightarrow> string \<Rightarrow> 'w \<Rightarrow> 'w"

section \<open>Progress\<close>

definition SendProgress :: "ID \<Rightarrow> string \<Rightarrow> go_map \<Rightarrow> ('w, unit) prog" where
  "SendProgress toolUseID progressType data =
     act (Sent \<lparr>prgToolUseID = toolUseID, prgType = progressType, prgData = data\<rparr>)"

definition sendHookProgress ::
  "ID \<Rightarrow> 'w Tool \<Rightarrow> string \<Rightarrow> nat \<Rightarrow> string \<Rightarrow> go_map \<Rightarrow> ('w, unit) prog" where
  "sendHookProgress toolUseID t phase index progressType data =
     SendProgress toolUseID progressType
       (data @ [(''tool'', AnyString (toolName t)), (''phase'', AnyString phase), (''hook_index'', AnyInt (int index))])"

text \<open>\<open>defaultToolUseProgressSink\<close>: the progress of a tool that names no tool use is its own.\<close>

definition default_sink :: "ID \<Rightarrow> ToolProgress \<Rightarrow> ToolProgress" where
  "default_sink toolUseID progress =
     (if prgToolUseID progress = [] then progress\<lparr>prgToolUseID := toolUseID\<rparr> else progress)"

section \<open>Hooks\<close>

abbreviation HookPreToolUse :: string where "HookPreToolUse \<equiv> ''PreToolUse''"
abbreviation HookPostToolUse :: string where "HookPostToolUse \<equiv> ''PostToolUse''"
abbreviation HookPermissionRequest :: string where "HookPermissionRequest \<equiv> ''PermissionRequest''"
abbreviation HookPermissionDenied :: string where "HookPermissionDenied \<equiv> ''PermissionDenied''"

definition hookMatchesPhase :: "'w Hook \<Rightarrow> string \<Rightarrow> bool" where
  "hookMatchesPhase hook phase =
     (case hookPhases hook of None \<Rightarrow> True | Some phases \<Rightarrow> list_ex (\<lambda>candidate. candidate = phase) phases)"

definition hooksForPhase :: "'w Executor \<Rightarrow> string \<Rightarrow> 'w Hook list" where
  "hooksForPhase e phase =
     List.map_filter (\<lambda>h. case h of None \<Rightarrow> None
       | Some hook \<Rightarrow> if hookMatchesPhase hook phase then Some hook else None) (exHooks e)"

definition run_hook :: "'w Context \<Rightarrow> 'w Hook \<Rightarrow> HookEvent \<Rightarrow> ('w, string + HookResult) prog" where
  "run_hook ctx hook event = ask_world (RunToolHook hook ctx event) (HookRun event)"

definition has_input :: "HookResult \<Rightarrow> bool" where
  "has_input result = (raw_text (hrUpdatedInput result) \<noteq> [])"

definition hook_input :: "raw_message \<Rightarrow> HookResult \<Rightarrow> raw_message" where
  "hook_input current result = (if has_input result then normalizeRawInput (hrUpdatedInput result) else current)"

definition message_entry :: "HookResult \<Rightarrow> go_map" where
  "message_entry result = (if hrMessage result \<noteq> [] then [(''message'', AnyString (hrMessage result))] else [])"

definition input_entry :: "HookResult \<Rightarrow> go_map" where
  "input_entry result = (if has_input result then [(''updated_input'', AnyBool True)] else [])"

definition block_message :: "string \<Rightarrow> HookResult \<Rightarrow> string" where
  "block_message phase result =
     (if hrMessage result = [] then ''blocked by '' @ phase @ '' hook'' else hrMessage result)"

fun pre_hooks_loop ::
  "'w Context \<Rightarrow> ToolUse \<Rightarrow> 'w Tool \<Rightarrow> (nat \<times> 'w Hook) list \<Rightarrow> raw_message \<Rightarrow> ('w, exec_error + raw_message) prog" where
  "pre_hooks_loop ctx use t [] current = done_p (Inr current)"
| "pre_hooks_loop ctx use t ((idx, hook) # hooks) current =
     then_p (sendHookProgress (useID use) t HookPreToolUse idx ''hook_started'' []) (\<lambda>_.
     then_p (run_hook ctx hook
               \<lparr>evPhase = HookPreToolUse, evToolUse = use, evToolName = toolName t, evInput = current,
                evDecision = None, evResult = None, evError = []\<rparr>) (\<lambda>r.
     case r of
       Inl err \<Rightarrow>
         then_p (sendHookProgress (useID use) t HookPreToolUse idx ''hook_failed'' [(''error'', AnyString err)])
           (\<lambda>_. done_p (Inl (HookError err)))
     | Inr result \<Rightarrow>
         if hrBlock result then
           (let message = block_message HookPreToolUse result in
            then_p (sendHookProgress (useID use) t HookPreToolUse idx ''hook_blocked'' [(''message'', AnyString message)])
              (\<lambda>_. done_p (Inl (HookBlockedError HookPreToolUse message (hrMetadata result)))))
         else
           then_p (sendHookProgress (useID use) t HookPreToolUse idx ''hook_completed''
                     (input_entry result @ message_entry result))
             (\<lambda>_. pre_hooks_loop ctx use t hooks (hook_input current result))))"

definition runPreHooks ::
  "'w Executor \<Rightarrow> 'w Context \<Rightarrow> ToolUse \<Rightarrow> 'w Tool \<Rightarrow> raw_message \<Rightarrow> ('w, exec_error + raw_message) prog" where
  "runPreHooks e ctx use t raw =
     pre_hooks_loop ctx use t (enumerate 0 (hooksForPhase e HookPreToolUse)) (normalizeRawInput raw)"

text \<open>The permission hooks. The state of the loop is the result, the last verdict of a hook and
  the current input.\<close>

type_synonym permission_state = "ToolResult \<times> PermissionDecision option \<times> raw_message"

definition hook_decision :: "string \<Rightarrow> HookResult \<Rightarrow> PermissionDecision option \<Rightarrow> PermissionDecision option" where
  "hook_decision phase hookResult previous =
     (case hrPermissionDecision hookResult of
        Some d \<Rightarrow> Some d
      | None \<Rightarrow>
          if hrBlock hookResult then
            Some \<lparr>decBehavior = PermissionDeny, decMessage = block_message phase hookResult, decReason = [],
                  decToolUseID = [], decBlockedPath = []\<rparr>
          else previous)"

definition permission_meta :: "string \<Rightarrow> HookResult \<Rightarrow> ToolResult \<Rightarrow> ToolResult" where
  "permission_meta metaKey hookResult result =
     (let meta = resMeta result;
          meta = (if hrMessage hookResult \<noteq> [] then set_key (metaKey @ ''_message'') (AnyString (hrMessage hookResult)) meta else meta);
          meta = (if hrMetadata hookResult \<noteq> [] then set_key metaKey (AnyMap (hrMetadata hookResult)) meta else meta)
      in result\<lparr>resMeta := meta\<rparr>)"

definition permission_entry :: "HookResult \<Rightarrow> go_map" where
  "permission_entry hookResult =
     (case hrPermissionDecision hookResult of
        Some d \<Rightarrow> [(''permission_behavior'', AnyString (decBehavior d))] | None \<Rightarrow> [])"

fun permission_hooks_loop ::
  "'w Context \<Rightarrow> ToolUse \<Rightarrow> 'w Tool \<Rightarrow> string \<Rightarrow> string \<Rightarrow> PermissionDecision \<Rightarrow> (nat \<times> 'w Hook) list
     \<Rightarrow> permission_state \<Rightarrow> ('w, permission_state) prog" where
  "permission_hooks_loop ctx use t phase metaKey verdict [] state = done_p state"
| "permission_hooks_loop ctx use t phase metaKey verdict ((idx, hook) # hooks) (result, hookDecision, current) =
     (let behavior = (''behavior'', AnyString (decBehavior verdict)) in
      then_p (sendHookProgress (useID use) t phase idx ''hook_started'' [behavior]) (\<lambda>_.
      then_p (run_hook ctx hook
                \<lparr>evPhase = phase, evToolUse = use, evToolName = toolName t, evInput = current,
                 evDecision = Some verdict, evResult = Some result, evError = error_text (PermissionError verdict)\<rparr>) (\<lambda>r.
      case r of
        Inl err \<Rightarrow>
          then_p (sendHookProgress (useID use) t phase idx ''hook_failed'' [behavior, (''error'', AnyString err)])
            (\<lambda>_. permission_hooks_loop ctx use t phase metaKey verdict hooks
                    (result\<lparr>resMeta := set_key (metaKey @ ''_error'') (AnyString err) (resMeta result)\<rparr>, hookDecision, current))
      | Inr hookResult \<Rightarrow>
          then_p (sendHookProgress (useID use) t phase idx ''hook_completed''
                    (behavior # message_entry hookResult @ input_entry hookResult @ permission_entry hookResult))
            (\<lambda>_. permission_hooks_loop ctx use t phase metaKey verdict hooks
                    (permission_meta metaKey hookResult result, hook_decision phase hookResult hookDecision,
                     hook_input current hookResult)))))"

definition runPermissionHooks ::
  "'w Executor \<Rightarrow> 'w Context \<Rightarrow> ToolUse \<Rightarrow> 'w Tool \<Rightarrow> raw_message \<Rightarrow> PermissionDecision \<Rightarrow> ToolResult
     \<Rightarrow> string \<Rightarrow> string \<Rightarrow> ('w, permission_state) prog" where
  "runPermissionHooks e ctx use t raw verdict result phase metaKey =
     permission_hooks_loop ctx use t phase metaKey verdict (enumerate 0 (hooksForPhase e phase)) (result, None, raw)"

fun post_hooks_loop ::
  "'w Context \<Rightarrow> ToolUse \<Rightarrow> 'w Tool \<Rightarrow> raw_message \<Rightarrow> string \<Rightarrow> (nat \<times> 'w Hook) list \<Rightarrow> ToolResult
     \<Rightarrow> ('w, outcome) prog" where
  "post_hooks_loop ctx use t raw errText [] result = done_p (result, None)"
| "post_hooks_loop ctx use t raw errText ((idx, hook) # hooks) result =
     then_p (sendHookProgress (useID use) t HookPostToolUse idx ''hook_started'' []) (\<lambda>_.
     then_p (run_hook ctx hook
               \<lparr>evPhase = HookPostToolUse, evToolUse = use, evToolName = toolName t, evInput = raw,
                evDecision = None, evResult = Some result, evError = errText\<rparr>) (\<lambda>r.
     case r of
       Inl err \<Rightarrow>
         then_p (sendHookProgress (useID use) t HookPostToolUse idx ''hook_failed'' [(''error'', AnyString err)])
           (\<lambda>_. done_p (result, Some (HookError err)))
     | Inr hookResult \<Rightarrow>
         if hrBlock hookResult then
           (let message = block_message HookPostToolUse hookResult in
            then_p (sendHookProgress (useID use) t HookPostToolUse idx ''hook_blocked'' [(''message'', AnyString message)])
              (\<lambda>_. done_p (result, Some (HookBlockedError HookPostToolUse message (hrMetadata hookResult)))))
         else
           then_p (sendHookProgress (useID use) t HookPostToolUse idx ''hook_completed'' (message_entry hookResult))
             (\<lambda>_. post_hooks_loop ctx use t raw errText hooks
                     (if hrMetadata hookResult \<noteq> [] then
                        result\<lparr>resMeta := set_key ''post_tool_use_hook'' (AnyMap (hrMetadata hookResult)) (resMeta result)\<rparr>
                      else result))))"

definition runPostHooks ::
  "'w Executor \<Rightarrow> 'w Context \<Rightarrow> ToolUse \<Rightarrow> 'w Tool \<Rightarrow> raw_message \<Rightarrow> ToolResult \<Rightarrow> exec_error option
     \<Rightarrow> ('w, outcome) prog" where
  "runPostHooks e ctx use t raw result callErr =
     post_hooks_loop ctx use t raw (case callErr of None \<Rightarrow> [] | Some err \<Rightarrow> error_text err)
       (enumerate 0 (hooksForPhase e HookPostToolUse)) result"

section \<open>Large results\<close>

text \<open>\<open>strings.Map\<close> over the code points: a byte that is no valid UTF-8 becomes U+FFFD.\<close>

function map_file_name :: "string \<Rightarrow> string" where
  "map_file_name name =
     (if name = [] then []
      else let (r, width) = decode_rune name; piece = take width name in
        (if width = 1 \<and> r = 0xFFFD then [char_of (0xEF::nat), char_of (0xBF::nat), char_of (0xBD::nat)]
         else if r \<in> {0x2F, 0x5C, 0x3A, 0} then ''-''
         else piece) @ map_file_name (drop width name))"
  by pat_completeness auto
termination map_file_name
  by (relation "measure length") (metis drop_rune_shorter in_measure length_drop snd_conv wf_measure)+

declare map_file_name.simps [simp del]

definition sanitizeResultFileName :: "string \<Rightarrow> string" where
  "sanitizeResultFileName name =
     (let name = map_file_name (Base name) in
      if name = ''.'' \<or> name = ''/'' \<or> name = [] then ''tool-result'' else name)"

definition result_dir :: "go_env \<Rightarrow> 'w Executor \<Rightarrow> string" where
  "result_dir env e =
     (if exResultStoreDir e = [] then JoinPath [ClaudeHomeDir env, ''tool-results''] else exResultStoreDir e)"

definition truncated_text :: "string \<Rightarrow> nat \<Rightarrow> string \<Rightarrow> string" where
  "truncated_text content limit path =
     TrimRight (take limit content) [nl] @ [nl, nl] @ ''[Tool output truncated; full output saved to '' @ path @ '']''"

definition limitResult ::
  "'w system \<Rightarrow> 'w Executor \<Rightarrow> 'w Tool \<Rightarrow> ToolUse \<Rightarrow> ToolResult \<Rightarrow> ('w, ToolResult) prog" where
  "limitResult sys e t use result =
     (let limit = toolMaxResultSizeChars t in
      if limit \<le> 0 then done_p result
      else (case resContent result of
          AnyString content \<Rightarrow>
            if int (length content) \<le> limit then done_p result
            else
              then_p (if useID use = [] then (\<lambda>w. case sysNewID sys w of (i, w') \<Rightarrow> (i, [], w')) else done_p (useID use)) (\<lambda>name.
              let path = JoinPath [result_dir (sysEnv sys) e, sanitizeResultFileName name @ ''.txt''] in
              then_p (ask_world (\<lambda>w. ((), sysWriteFile sys path content w)) (\<lambda>_. Wrote path content)) (\<lambda>_.
              done_p (result\<lparr>resContent := AnyString (truncated_text content (nat limit) path),
                resMeta := set_key ''full_output_bytes'' (AnyInt (int (length content)))
                  (set_key ''full_output_path'' (AnyString path)
                    (set_key ''truncated'' (AnyBool True) (resMeta result)))\<rparr>)))
        | _ \<Rightarrow> done_p result))"

section \<open>Executing a tool use\<close>

definition check_context :: "'w Context \<Rightarrow> ToolUse \<Rightarrow> ('w, outcome + unit) prog" where
  "check_context ctx use =
     then_p (look (contextError ctx)) (\<lambda>e. done_p (case e of None \<Rightarrow> Inr () | Some err \<Rightarrow> Inl (fail use err)))"

definition validate ::
  "go_env \<Rightarrow> 'w Registry \<Rightarrow> 'w Context \<Rightarrow> ToolUse \<Rightarrow> 'w Tool \<Rightarrow> raw_message \<Rightarrow> ('w, outcome + unit) prog" where
  "validate env registry ctx use t raw =
     then_p (ask_world (toolValidate t ctx raw) (Validated raw)) (\<lambda>v. done_p
       (case v of None \<Rightarrow> Inr ()
        | Some err \<Rightarrow> Inl (fail use (validationErrorWithSchemaHint env registry ctx t err))))"

definition prepare ::
  "go_env \<Rightarrow> 'w Executor \<Rightarrow> 'w Registry \<Rightarrow> 'w Context \<Rightarrow> ToolUse \<Rightarrow> 'w Tool \<Rightarrow> ('w, outcome + raw_message) prog" where
  "prepare env e registry ctx use t =
     (let raw = normalizeRawInput (useInput use) in
      then_e (validate env registry ctx use t raw) (\<lambda>_.
      then_p (runPreHooks e ctx use t raw) (\<lambda>r.
      case r of Inl err \<Rightarrow> done_p (Inl (fail use err))
      | Inr raw \<Rightarrow>
        then_e (validate env registry ctx use t raw) (\<lambda>_.
        then_e (check_context ctx use) (\<lambda>_.
        then_p (SendProgress (useID use) ''started'' [(''tool'', AnyString (toolName t))]) (\<lambda>_.
        done_p (Inr raw)))))))"

definition permission_result :: "ToolUse \<Rightarrow> PermissionDecision \<Rightarrow> ToolResult" where
  "permission_result use verdict =
     empty_result\<lparr>resToolUseID := useID use, resIsError := True, resContent := AnyString (decMessage verdict),
       resMeta := [(''permission'', AnyDecision verdict)]\<rparr>"

definition tool_behavior :: "'w Tool \<Rightarrow> PermissionDecision \<Rightarrow> go_map" where
  "tool_behavior t verdict = [(''tool'', AnyString (toolName t)), (''behavior'', AnyString (decBehavior verdict))]"

definition denied ::
  "'w Executor \<Rightarrow> 'w Context \<Rightarrow> ToolUse \<Rightarrow> 'w Tool \<Rightarrow> raw_message \<Rightarrow> PermissionDecision \<Rightarrow> ('w, outcome + raw_message) prog" where
  "denied e ctx use t raw verdict =
     then_p (runPermissionHooks e ctx use t raw verdict (permission_result use verdict)
               HookPermissionDenied ''permission_denied_hook'') (\<lambda>(result, _, _).
     then_p (SendProgress (useID use) ''permission_denied'' (tool_behavior t verdict)) (\<lambda>_.
     done_p (Inl (result, Some (PermissionError verdict)))))"

definition asked ::
  "go_env \<Rightarrow> 'w Executor \<Rightarrow> 'w Registry \<Rightarrow> 'w Context \<Rightarrow> ToolUse \<Rightarrow> 'w Tool \<Rightarrow> raw_message \<Rightarrow> PermissionDecision
     \<Rightarrow> ('w, outcome + raw_message) prog" where
  "asked env e registry ctx use t raw verdict =
     then_p (runPermissionHooks e ctx use t raw verdict (permission_result use verdict)
               HookPermissionRequest ''permission_request_hook'') (\<lambda>(result, hookDecision, raw).
     case hookDecision of
       None \<Rightarrow>
         then_p (SendProgress (useID use) ''permission_requested'' (tool_behavior t verdict))
           (\<lambda>_. done_p (Inl (result, Some (PermissionError verdict))))
     | Some d \<Rightarrow>
         if decBehavior d = PermissionAsk then
           then_p (SendProgress (useID use) ''permission_requested'' (tool_behavior t verdict))
             (\<lambda>_. done_p (Inl (result, Some (PermissionError verdict))))
         else if decBehavior d = PermissionDeny then
           then_p (SendProgress (useID use) ''permission_denied'' (tool_behavior t d))
             (\<lambda>_. done_p (Inl
                ((if decMessage d \<noteq> [] then result\<lparr>resContent := AnyString (decMessage d)\<rparr> else result)
                   \<lparr>resMeta := set_key ''permission'' (AnyDecision d) (resMeta result)\<rparr>,
                 Some (PermissionError d))))
         else
           then_e (validate env registry ctx use t raw) (\<lambda>_.
           then_p (SendProgress (useID use) ''permission_allowed'' (tool_behavior t d)) (\<lambda>_.
           done_p (Inr raw))))"

definition authorize ::
  "go_env \<Rightarrow> 'w Executor \<Rightarrow> 'w Registry \<Rightarrow> 'w Context \<Rightarrow> ToolUse \<Rightarrow> 'w Tool \<Rightarrow> raw_message
     \<Rightarrow> ('w, outcome + raw_message) prog" where
  "authorize env e registry ctx use t raw =
     then_p (ask_world (toolCheckPermissions t ctx raw) (Checked raw)) (\<lambda>d.
     case d of
       Inl err \<Rightarrow>
         then_p (SendProgress (useID use) ''failed'' [(''tool'', AnyString (toolName t)), (''error'', AnyString err)])
           (\<lambda>_. done_p (Inl (fail use (CheckError err))))
     | Inr verdict \<Rightarrow>
         if decBehavior verdict = PermissionDeny then denied e ctx use t raw verdict
         else if decBehavior verdict = PermissionAsk then asked env e registry ctx use t raw verdict
         else done_p (Inr raw))"

text \<open>The call: the progress that the tool sends follows the action that records it.\<close>

definition call_tool :: "'w Context \<Rightarrow> ToolUse \<Rightarrow> 'w Tool \<Rightarrow> raw_message \<Rightarrow> ('w, ToolResult \<times> string option) prog" where
  "call_tool ctx use t raw =
     (\<lambda>w. case toolCall t ctx raw w of ((r, progress), w') \<Rightarrow>
        (r, Called raw # map (\<lambda>p. Sent (default_sink (useID use) p)) progress, w'))"

definition finish :: "ToolUse \<Rightarrow> 'w Tool \<Rightarrow> exec_error option \<Rightarrow> outcome \<Rightarrow> ('w, outcome) prog" where
  "finish use t err = (\<lambda>(result, hookErr).
     case (case err of Some x \<Rightarrow> Some x | None \<Rightarrow> hookErr) of
       Some x \<Rightarrow>
         then_p (SendProgress (useID use) ''failed'' [(''tool'', AnyString (toolName t)), (''error'', AnyString (error_text x))])
           (\<lambda>_. done_p ((if resContent result = AnyNil then result\<lparr>resContent := AnyString (error_text x)\<rparr> else result)
                          \<lparr>resIsError := True\<rparr>, Some x))
     | None \<Rightarrow>
         then_p (SendProgress (useID use) ''completed'' [(''tool'', AnyString (toolName t))])
           (\<lambda>_. done_p (result, None)))"

definition perform ::
  "'w system \<Rightarrow> 'w Executor \<Rightarrow> 'w Context \<Rightarrow> ToolUse \<Rightarrow> 'w Tool \<Rightarrow> raw_message \<Rightarrow> ('w, outcome) prog" where
  "perform sys e ctx use t raw =
     then_p (look (contextError ctx)) (\<lambda>c.
     case c of
       Some err \<Rightarrow>
         then_p (SendProgress (useID use) ''cancelled'' [(''tool'', AnyString (toolName t)), (''error'', AnyString (error_text err))])
           (\<lambda>_. done_p (fail use err))
     | None \<Rightarrow>
         then_p (call_tool ctx use t raw) (\<lambda>(result, callErr).
         let result = (if resToolUseID result = [] then result\<lparr>resToolUseID := useID use\<rparr> else result);
             err = map_option CallError callErr in
         then_p (if err = None then limitResult sys e t use result else done_p result) (\<lambda>result.
         then_p (runPostHooks e ctx use t raw result err) (finish use t err))))"

definition Execute :: "'w system \<Rightarrow> 'w Executor \<Rightarrow> 'w Context \<Rightarrow> ToolUse \<Rightarrow> ('w, outcome) prog" where
  "Execute sys e ctx use =
     then_p (look (contextError ctx)) (\<lambda>c.
     case c of Some err \<Rightarrow> done_p (fail use err)
     | None \<Rightarrow>
       (case exRegistry e of None \<Rightarrow> done_p (fail use NilRegistry)
        | Some registry \<Rightarrow>
          (case Lookup (sysEnv sys) registry (useName use) of
             None \<Rightarrow> done_p (fail use (UnknownTool (useName use)))
           | Some t \<Rightarrow>
             then_p (then_e (prepare (sysEnv sys) e registry ctx use t)
                       (authorize (sysEnv sys) e registry ctx use t)) (\<lambda>r.
             case r of Inl out \<Rightarrow> done_p out
             | Inr raw \<Rightarrow> perform sys e ctx use t raw))))"

end
