(* ===== verification/ToolRun.thy ===== *)
theory ToolRun
  imports ToolExec
begin

text \<open>
  \<open>internal/tool/orchestrator.go\<close>: the batches of a list of tool uses, and their runs.

  A batch of concurrency-safe uses runs as a pool: the loop that starts the goroutines, the
  goroutines that are running and the results they have stored. A step of the pool is a step of
  the loop, or one goroutine's whole \<open>Execute\<close>, in any order. \<open>RunTools\<close> is a relation between the
  world it starts in and the updates it sends with the world it ends in.
\<close>

record MessageUpdate =
  updToolUse :: ToolUse
  updResult :: ToolResult
  updErr :: "exec_error option"
  updDone :: bool

definition finished_update :: "ToolUse \<Rightarrow> outcome \<Rightarrow> MessageUpdate" where
  "finished_update use = (\<lambda>(result, err).
     \<lparr>updToolUse = use, updResult = result, updErr = err, updDone = True\<rparr>)"

section \<open>Batches\<close>

record toolBatch =
  concurrencySafe :: bool
  batchUses :: "ToolUse list"

definition use_is_safe :: "go_env \<Rightarrow> 'w Registry option \<Rightarrow> ToolUse \<Rightarrow> bool" where
  "use_is_safe env registry use =
     (case registry of None \<Rightarrow> False
      | Some r \<Rightarrow> (case Lookup env r (useName use) of None \<Rightarrow> False
          | Some t \<Rightarrow> toolIsConcurrencySafe t (normalizeRawInput (useInput use))))"

definition add_to_batches :: "bool \<Rightarrow> ToolUse \<Rightarrow> toolBatch list \<Rightarrow> toolBatch list" where
  "add_to_batches safe use batches =
     (let batches = (if batches = [] \<or> concurrencySafe (last batches) \<noteq> safe \<or> \<not> safe
                     then batches @ [\<lparr>concurrencySafe = safe, batchUses = []\<rparr>] else batches)
      in butlast batches @ [(last batches)\<lparr>batchUses := batchUses (last batches) @ [use]\<rparr>])"

definition partitionToolCalls :: "go_env \<Rightarrow> 'w Registry option \<Rightarrow> ToolUse list \<Rightarrow> toolBatch list" where
  "partitionToolCalls env registry uses =
     foldl (\<lambda>batches use. add_to_batches (use_is_safe env registry use) use batches) [] uses"

definition ToolUseFromBlock :: "'w system \<Rightarrow> ContentBlock \<Rightarrow> 'w \<Rightarrow> ToolUse \<times> 'w" where
  "ToolUseFromBlock sys b w =
     (let (i, w') = (if blockID b = [] then sysNewID sys w else (blockID b, w))
      in (\<lparr>useID = i, useName = blockName b, useInput = normalizeRawInput (blockInput b)\<rparr>, w'))"

section \<open>Concurrent batches\<close>

definition cancelled :: "'w Context \<Rightarrow> 'w \<Rightarrow> bool" where
  "cancelled ctx w = (case cxContext ctx of None \<Rightarrow> False | Some err \<Rightarrow> err w \<noteq> None)"

record 'w pool =
  poolNext :: nat
  poolReady :: bool
  poolStopped :: bool
  poolRunning :: "nat list"
  poolResults :: "MessageUpdate option list"
  poolWorld :: 'w

definition first_pool :: "ToolUse list \<Rightarrow> 'w \<Rightarrow> 'w pool" where
  "first_pool uses w =
     \<lparr>poolNext = 0, poolReady = False, poolStopped = False, poolRunning = [],
      poolResults = replicate (length uses) None, poolWorld = w\<rparr>"

definition batch_limit :: "int \<Rightarrow> ToolUse list \<Rightarrow> nat" where
  "batch_limit maxConcurrency uses = (if maxConcurrency \<le> 0 then length uses else nat maxConcurrency)"

text \<open>\<open>check\<close> and \<open>stop\<close> are the look at \<open>ctx.Done()\<close> before each use, \<open>start\<close> is the slot taken in
  the semaphore and the \<open>go\<close> statement, \<open>finish_use\<close> a goroutine.\<close>

inductive batch_step ::
  "'w system \<Rightarrow> 'w Executor \<Rightarrow> 'w Context \<Rightarrow> ToolUse list \<Rightarrow> nat \<Rightarrow> 'w pool \<Rightarrow> 'w pool \<Rightarrow> bool"
  for sys e ctx uses limit where
  check: "\<not> poolStopped p \<Longrightarrow> \<not> poolReady p \<Longrightarrow> poolNext p < length uses \<Longrightarrow> \<not> cancelled ctx (poolWorld p) \<Longrightarrow>
     batch_step sys e ctx uses limit p (p\<lparr>poolReady := True\<rparr>)"
| stop: "\<not> poolStopped p \<Longrightarrow> \<not> poolReady p \<Longrightarrow> poolNext p < length uses \<Longrightarrow> cancelled ctx (poolWorld p) \<Longrightarrow>
     batch_step sys e ctx uses limit p (p\<lparr>poolStopped := True\<rparr>)"
| start: "\<not> poolStopped p \<Longrightarrow> poolReady p \<Longrightarrow> length (poolRunning p) < limit \<Longrightarrow>
     batch_step sys e ctx uses limit p
       (p\<lparr>poolReady := False, poolNext := Suc (poolNext p), poolRunning := poolRunning p @ [poolNext p]\<rparr>)"
| finish_use: "i \<in> set (poolRunning p) \<Longrightarrow> Execute sys e ctx (uses ! i) (poolWorld p) = (out, es, w') \<Longrightarrow>
     batch_step sys e ctx uses limit p
       (p\<lparr>poolRunning := remove1 i (poolRunning p),
          poolResults := (poolResults p)[i := Some (finished_update (uses ! i) out)], poolWorld := w'\<rparr>)"

definition pool_done :: "ToolUse list \<Rightarrow> 'w pool \<Rightarrow> bool" where
  "pool_done uses p = (\<not> poolStopped p \<and> poolNext p = length uses \<and> poolRunning p = [])"

section \<open>Runs\<close>

text \<open>\<open>sendUpdate\<close>: an update is sent, or dropped when the context is done.\<close>

inductive sends :: "'w Context \<Rightarrow> 'w \<Rightarrow> MessageUpdate \<Rightarrow> MessageUpdate list \<Rightarrow> bool" for ctx w u where
  sent: "sends ctx w u [u]"
| dropped: "cancelled ctx w \<Longrightarrow> sends ctx w u []"

inductive sends_all :: "'w Context \<Rightarrow> 'w \<Rightarrow> MessageUpdate list \<Rightarrow> MessageUpdate list \<Rightarrow> bool" for ctx w where
  none: "sends_all ctx w [] []"
| more: "sends ctx w u xs \<Longrightarrow> sends_all ctx w us ys \<Longrightarrow> sends_all ctx w (u # us) (xs @ ys)"

text \<open>A run of one use after the other; the flag says that the context was done and the whole run
  stops.\<close>

inductive sequential_run ::
  "'w system \<Rightarrow> 'w Executor \<Rightarrow> 'w Context \<Rightarrow> ToolUse list \<Rightarrow> 'w \<Rightarrow> MessageUpdate list \<Rightarrow> bool \<Rightarrow> 'w \<Rightarrow> bool"
  for sys e ctx where
  seq_done: "sequential_run sys e ctx [] w [] False w"
| seq_stop: "cancelled ctx w \<Longrightarrow> sequential_run sys e ctx (use # uses) w [] True w"
| seq_use: "\<not> cancelled ctx w \<Longrightarrow> Execute sys e ctx use w = (out, es, w1) \<Longrightarrow>
     sends ctx w1 (finished_update use out) xs \<Longrightarrow> sequential_run sys e ctx uses w1 ys stopped w2 \<Longrightarrow>
     sequential_run sys e ctx (use # uses) w (xs @ ys) stopped w2"

inductive concurrent_run ::
  "'w system \<Rightarrow> 'w Executor \<Rightarrow> 'w Context \<Rightarrow> int \<Rightarrow> ToolUse list \<Rightarrow> 'w \<Rightarrow> MessageUpdate list \<Rightarrow> 'w \<Rightarrow> bool"
  for sys e ctx maxConcurrency uses w where
  all_results: "(batch_step sys e ctx uses (batch_limit maxConcurrency uses))\<^sup>*\<^sup>* (first_pool uses w) p \<Longrightarrow>
     pool_done uses p \<Longrightarrow> sends_all ctx (poolWorld p) (map the (poolResults p)) us \<Longrightarrow>
     concurrent_run sys e ctx maxConcurrency uses w us (poolWorld p)"
| abandoned: "(batch_step sys e ctx uses (batch_limit maxConcurrency uses))\<^sup>*\<^sup>* (first_pool uses w) p \<Longrightarrow>
     poolStopped p \<Longrightarrow> concurrent_run sys e ctx maxConcurrency uses w [] (poolWorld p)"

definition is_sequential :: "toolBatch \<Rightarrow> bool" where
  "is_sequential batch = (\<not> concurrencySafe batch \<or> length (batchUses batch) = 1)"

inductive run_batches ::
  "'w system \<Rightarrow> 'w Executor \<Rightarrow> 'w Context \<Rightarrow> int \<Rightarrow> toolBatch list \<Rightarrow> 'w \<Rightarrow> MessageUpdate list \<Rightarrow> 'w \<Rightarrow> bool"
  for sys e ctx maxConcurrency where
  no_more: "run_batches sys e ctx maxConcurrency [] w [] w"
| context_done: "cancelled ctx w \<Longrightarrow> run_batches sys e ctx maxConcurrency (b # bs) w [] w"
| stopped: "\<not> cancelled ctx w \<Longrightarrow> is_sequential b \<Longrightarrow> sequential_run sys e ctx (batchUses b) w us True w1 \<Longrightarrow>
     run_batches sys e ctx maxConcurrency (b # bs) w us w1"
| sequential: "\<not> cancelled ctx w \<Longrightarrow> is_sequential b \<Longrightarrow> sequential_run sys e ctx (batchUses b) w us False w1 \<Longrightarrow>
     run_batches sys e ctx maxConcurrency bs w1 vs w2 \<Longrightarrow>
     run_batches sys e ctx maxConcurrency (b # bs) w (us @ vs) w2"
| concurrent: "\<not> cancelled ctx w \<Longrightarrow> \<not> is_sequential b \<Longrightarrow>
     concurrent_run sys e ctx maxConcurrency (batchUses b) w us w1 \<Longrightarrow>
     run_batches sys e ctx maxConcurrency bs w1 vs w2 \<Longrightarrow>
     run_batches sys e ctx maxConcurrency (b # bs) w (us @ vs) w2"

definition RunTools ::
  "'w system \<Rightarrow> 'w Executor \<Rightarrow> 'w Context \<Rightarrow> ToolUse list \<Rightarrow> int \<Rightarrow> 'w \<Rightarrow> MessageUpdate list \<Rightarrow> 'w \<Rightarrow> bool" where
  "RunTools sys e ctx uses maxConcurrency w us w' =
     run_batches sys e ctx maxConcurrency (partitionToolCalls (sysEnv sys) (exRegistry e) uses) w us w'"

end
