(* ===== verification/RunLaws.thy ===== *)
theory RunLaws
  imports ToolRun
begin

text \<open>
  Laws of the orchestrator: what the batches are, an invariant of the pool by rule induction, its
  progress and the measure that every step decreases.
\<close>

section \<open>Batches\<close>

definition batch_ok :: "(ToolUse \<Rightarrow> bool) \<Rightarrow> toolBatch \<Rightarrow> bool" where
  "batch_ok safe b =
     (batchUses b \<noteq> [] \<and> list_all (\<lambda>use. safe use = concurrencySafe b) (batchUses b) \<and>
      (concurrencySafe b \<or> length (batchUses b) = 1))"

definition apart :: "toolBatch \<Rightarrow> toolBatch \<Rightarrow> bool" where
  "apart a b = (\<not> (concurrencySafe a \<and> concurrencySafe b))"

definition batches_ok :: "(ToolUse \<Rightarrow> bool) \<Rightarrow> ToolUse list \<Rightarrow> toolBatch list \<Rightarrow> bool" where
  "batches_ok safe uses bs =
     (concat (map batchUses bs) = uses \<and> list_all (batch_ok safe) bs \<and> successively apart bs)"

lemma add_to_batches_ok:
  assumes "batches_ok safe uses bs"
  shows "batches_ok safe (uses @ [use]) (add_to_batches (safe use) use bs)"
proof (cases "bs = [] \<or> concurrencySafe (last bs) \<noteq> safe use \<or> \<not> safe use")
  case True
  have apart: "apart (last bs) \<lparr>concurrencySafe = safe use, batchUses = [use]\<rparr>" if "bs \<noteq> []"
    using True that by (auto simp: apart_def)
  have "add_to_batches (safe use) use bs = bs @ [\<lparr>concurrencySafe = safe use, batchUses = [use]\<rparr>]"
    using True by (simp add: add_to_batches_def)
  then show ?thesis
    using assms apart by (auto simp: batches_ok_def batch_ok_def successively_append_iff)
next
  case False
  obtain bs' b where bs: "bs = bs' @ [b]" using False by (metis append_butlast_last_id)
  have "add_to_batches (safe use) use bs = bs' @ [b\<lparr>batchUses := batchUses b @ [use]\<rparr>]"
    using False bs by (simp add: add_to_batches_def)
  moreover have "safe use" "concurrencySafe b" using False bs by auto
  ultimately show ?thesis
    using assms by (auto simp: bs batches_ok_def batch_ok_def successively_append_iff apart_def)
qed

lemma partition_ok: "batches_ok (use_is_safe env registry) uses (partitionToolCalls env registry uses)"
proof (induction uses rule: rev_induct)
  case Nil
  then show ?case by (simp add: partitionToolCalls_def batches_ok_def)
next
  case (snoc use uses)
  from add_to_batches_ok[OF snoc] show ?case by (simp add: partitionToolCalls_def)
qed

text \<open>The conditions determine the batches.\<close>

lemma batches_ok_unique:
  "batches_ok safe uses bs \<Longrightarrow> bs = foldl (\<lambda>bs use. add_to_batches (safe use) use bs) [] uses"
proof (induction uses arbitrary: bs rule: rev_induct)
  case Nil
  then show ?case by (cases bs) (auto simp: batches_ok_def batch_ok_def)
next
  case (snoc u us)
  have "bs \<noteq> []" using snoc.prems by (auto simp: batches_ok_def)
  then obtain bs' b where bs: "bs = bs' @ [b]" by (metis append_butlast_last_id)
  have b: "batchUses b \<noteq> []" "concat (map batchUses bs') @ batchUses b = us @ [u]"
    "list_all (\<lambda>use. safe use = concurrencySafe b) (batchUses b)" "concurrencySafe b \<or> length (batchUses b) = 1"
    using snoc.prems by (auto simp: bs batches_ok_def batch_ok_def)
  then obtain vs where vs: "batchUses b = vs @ [u]" "concat (map batchUses bs') @ vs = us"
    by (metis append_assoc append_butlast_last_id butlast_append last_appendR last_snoc butlast_snoc)
  have safe: "safe u = concurrencySafe b" using b(3) vs(1) by simp
  have rest: "list_all (batch_ok safe) bs'" "successively apart bs'" "bs' \<noteq> [] \<Longrightarrow> apart (last bs') b"
    using snoc.prems by (auto simp: bs batches_ok_def successively_append_iff)
  show ?case
  proof (cases "vs = []")
    case True
    then have "batches_ok safe us bs'" using rest vs by (simp add: batches_ok_def)
    then have IH: "bs' = foldl (\<lambda>bs use. add_to_batches (safe use) use bs) [] us" by (rule snoc.IH)
    have "b = \<lparr>concurrencySafe = safe u, batchUses = [u]\<rparr>" using True vs safe by simp
    then have "add_to_batches (safe u) u bs' = bs"
      using rest(3) safe by (auto simp: add_to_batches_def bs apart_def)
    then show ?thesis using IH by simp
  next
    case False
    then have conc: "concurrencySafe b" using b(4) vs(1) by simp
    let ?b = "b\<lparr>batchUses := vs\<rparr>"
    have "batches_ok safe us (bs' @ [?b])"
      using rest False vs b(3) conc by (auto simp: batches_ok_def batch_ok_def successively_append_iff apart_def)
    then have IH: "bs' @ [?b] = foldl (\<lambda>bs use. add_to_batches (safe use) use bs) [] us" by (rule snoc.IH)
    have "add_to_batches (safe u) u (bs' @ [?b]) = bs"
      using conc safe vs by (simp add: add_to_batches_def bs)
    then show ?thesis using IH by simp
  qed
qed

section \<open>The pool\<close>

text \<open>An update that some execution of its use has produced.\<close>

definition is_update :: "'w system \<Rightarrow> 'w Executor \<Rightarrow> 'w Context \<Rightarrow> ToolUse \<Rightarrow> MessageUpdate \<Rightarrow> bool" where
  "is_update sys e ctx use u = (\<exists>w. u = finished_update use (fst (Execute sys e ctx use w)))"

definition pool_inv ::
  "'w system \<Rightarrow> 'w Executor \<Rightarrow> 'w Context \<Rightarrow> ToolUse list \<Rightarrow> nat \<Rightarrow> 'w pool \<Rightarrow> bool" where
  "pool_inv sys e ctx uses limit p =
     (length (poolResults p) = length uses \<and> poolNext p \<le> length uses \<and>
      (poolReady p \<longrightarrow> poolNext p < length uses) \<and> distinct (poolRunning p) \<and>
      length (poolRunning p) \<le> limit \<and> (\<forall>i \<in> set (poolRunning p). i < poolNext p) \<and>
      (\<forall>i < length uses. case poolResults p ! i of
         None \<Rightarrow> i \<in> set (poolRunning p) \<or> poolNext p \<le> i
       | Some u \<Rightarrow> i < poolNext p \<and> i \<notin> set (poolRunning p) \<and> is_update sys e ctx (uses ! i) u))"

lemma pool_inv_first: "pool_inv sys e ctx uses limit (first_pool uses w)"
  by (simp add: pool_inv_def first_pool_def)

lemma pool_inv_start:
  assumes "pool_inv sys e ctx uses limit p" "poolReady p" "length (poolRunning p) < limit"
  shows "pool_inv sys e ctx uses limit
    (p\<lparr>poolReady := False, poolNext := Suc (poolNext p), poolRunning := poolRunning p @ [poolNext p]\<rparr>)"
  using assms unfolding pool_inv_def
  by (auto split: option.splits simp: less_Suc_eq)

lemma pool_inv_finish:
  assumes "pool_inv sys e ctx uses limit p" "i \<in> set (poolRunning p)"
    and "Execute sys e ctx (uses ! i) (poolWorld p) = (out, es, w')"
  shows "pool_inv sys e ctx uses limit
    (p\<lparr>poolRunning := remove1 i (poolRunning p),
       poolResults := (poolResults p)[i := Some (finished_update (uses ! i) out)], poolWorld := w'\<rparr>)"
proof -
  have u: "is_update sys e ctx (uses ! i) (finished_update (uses ! i) out)"
    unfolding is_update_def by (rule exI[where x = "poolWorld p"]) (simp add: assms(3))
  have len: "length (remove1 i (poolRunning p)) \<le> limit"
    using assms(1) unfolding pool_inv_def by (metis diff_le_self le_trans length_remove1)
  let ?p = "p\<lparr>poolRunning := remove1 i (poolRunning p),
    poolResults := (poolResults p)[i := Some (finished_update (uses ! i) out)], poolWorld := w'\<rparr>"
  have slot: "case poolResults ?p ! j of None \<Rightarrow> j \<in> set (poolRunning ?p) \<or> poolNext ?p \<le> j
       | Some v \<Rightarrow> j < poolNext ?p \<and> j \<notin> set (poolRunning ?p) \<and> is_update sys e ctx (uses ! j) v"
    if "j < length uses" for j
  proof (cases "j = i")
    case True
    then show ?thesis using assms(1,2) u that by (simp add: pool_inv_def)
  next
    case False
    then have "poolResults ?p ! j = poolResults p ! j" "j \<in> set (poolRunning ?p) \<longleftrightarrow> j \<in> set (poolRunning p)"
      using assms(1) by (simp_all add: pool_inv_def)
    then show ?thesis using assms(1) that by (simp add: pool_inv_def cong: option.case_cong)
  qed
  have "\<forall>j \<in> set (poolRunning ?p). j < poolNext ?p" "distinct (poolRunning ?p)"
    using assms(1) by (auto simp: pool_inv_def dest: notin_set_remove1)
  with slot len show ?thesis using assms(1) by (simp add: pool_inv_def cong: option.case_cong)
qed

lemma pool_inv_step:
  "batch_step sys e ctx uses limit p p' \<Longrightarrow> pool_inv sys e ctx uses limit p \<Longrightarrow> pool_inv sys e ctx uses limit p'"
proof (induction rule: batch_step.induct)
  case (start p)
  then show ?case by (intro pool_inv_start)
next
  case (finish_use i p out es w')
  then show ?case by (intro pool_inv_finish)
qed (simp_all add: pool_inv_def cong: option.case_cong)

lemma pool_inv_reachable:
  "(batch_step sys e ctx uses limit)\<^sup>*\<^sup>* (first_pool uses w) p \<Longrightarrow> pool_inv sys e ctx uses limit p"
  by (induction rule: rtranclp_induct) (auto intro: pool_inv_first pool_inv_step)

text \<open>What is left to do; every step does some of it.\<close>

definition pool_left :: "ToolUse list \<Rightarrow> 'w pool \<Rightarrow> nat" where
  "pool_left uses p =
     3 * (length uses - poolNext p) + (if poolReady p then 0 else 1) + length (poolRunning p)
     + (if poolStopped p then 0 else 1)"

lemma pool_left_step:
  "batch_step sys e ctx uses limit p p' \<Longrightarrow> pool_inv sys e ctx uses limit p \<Longrightarrow> pool_left uses p' < pool_left uses p"
proof (induction rule: batch_step.induct)
  case (finish_use i p out es w')
  then have "length (poolRunning p) \<noteq> 0" by auto
  with finish_use show ?case by (simp add: pool_left_def length_remove1)
qed (auto simp: pool_left_def pool_inv_def)

lemma pool_left_steps:
  "(batch_step sys e ctx uses limit ^^ k) (first_pool uses w) p \<Longrightarrow> k + pool_left uses p \<le> 3 * length uses + 2"
proof (induction k arbitrary: p)
  case 0
  then show ?case by (auto simp: pool_left_def first_pool_def)
next
  case (Suc k)
  then obtain q where q: "(batch_step sys e ctx uses limit ^^ k) (first_pool uses w) q"
    "batch_step sys e ctx uses limit q p" by auto
  then have "pool_inv sys e ctx uses limit q" by (intro pool_inv_reachable) (rule relpowp_imp_rtranclp)
  from pool_left_step[OF q(2) this] Suc.IH[OF q(1)] show ?case by simp
qed

lemma pool_progress:
  assumes "pool_inv sys e ctx uses limit p" "0 < limit" "\<not> pool_done uses p" "\<not> poolStopped p"
  shows "\<exists>p'. batch_step sys e ctx uses limit p p'"
proof (cases "poolRunning p = []")
  case False
  then obtain i where "i \<in> set (poolRunning p)" by (cases "poolRunning p") auto
  then show ?thesis
    using batch_step.finish_use by (metis prod_cases3)
next
  case True
  show ?thesis
  proof (cases "poolReady p")
    case r: True
    show ?thesis
      by (rule exI) (rule batch_step.start, use True r assms in simp_all)
  next
    case False
    then have "poolNext p < length uses" using assms True by (auto simp: pool_inv_def pool_done_def)
    then show ?thesis
      using False assms(4) batch_step.check[of p uses ctx] batch_step.stop[of p uses ctx] by blast
  qed
qed

lemma pool_ends:
  assumes "pool_inv sys e ctx uses limit p" "0 < limit"
  shows "\<exists>p'. (batch_step sys e ctx uses limit)\<^sup>*\<^sup>* p p' \<and> (pool_done uses p' \<or> poolStopped p')"
  using assms(1)
proof (induction "pool_left uses p" arbitrary: p rule: less_induct)
  case less
  show ?case
  proof (cases "pool_done uses p \<or> poolStopped p")
    case False
    then obtain q where q: "batch_step sys e ctx uses limit p q"
      using pool_progress[OF less.prems assms(2)] by blast
    from less.hyps[OF pool_left_step[OF q less.prems] pool_inv_step[OF q less.prems]]
    show ?thesis using q by (meson converse_rtranclp_into_rtranclp)
  qed blast
qed

text \<open>A pool that is done holds the update of every use, in the order of the uses.\<close>

lemma pool_done_results:
  assumes "pool_inv sys e ctx uses limit p" "pool_done uses p"
  shows "list_all2 (is_update sys e ctx) uses (map the (poolResults p))"
proof -
  have "is_update sys e ctx (uses ! i) (the (poolResults p ! i))" if "i < length uses" for i
    using assms that unfolding pool_inv_def pool_done_def by (auto split: option.splits)
  then show ?thesis using assms(1) by (auto simp: list_all2_conv_all_nth pool_inv_def)
qed

section \<open>Runs without cancellation\<close>

lemma sends_not_cancelled: "sends ctx w u xs \<Longrightarrow> \<not> cancelled ctx w \<Longrightarrow> xs = [u]"
  by (auto elim: sends.cases)

lemma sends_all_not_cancelled: "sends_all ctx w us xs \<Longrightarrow> \<not> cancelled ctx w \<Longrightarrow> xs = us"
  by (induction rule: sends_all.induct) (auto dest: sends_not_cancelled)

lemma sends_all_total: "sends_all ctx w us us"
proof (induction us)
  case (Cons u us)
  from sends_all.more[OF sends.sent Cons, of u] show ?case by simp
qed (rule sends_all.none)

lemma stop_never:
  "(batch_step sys e ctx uses limit)\<^sup>*\<^sup>* (first_pool uses w) p \<Longrightarrow> (\<And>v. \<not> cancelled ctx v) \<Longrightarrow> \<not> poolStopped p"
proof (induction rule: rtranclp_induct)
  case (step p q)
  from step(2) step.IH[OF step.prems] step.prems show ?case by (cases rule: batch_step.cases) auto
qed (simp add: first_pool_def)

lemma sequential_updates:
  "sequential_run sys e ctx uses w us stop w' \<Longrightarrow> (\<And>v. \<not> cancelled ctx v) \<Longrightarrow>
   \<not> stop \<and> list_all2 (is_update sys e ctx) uses us"
proof (induction rule: sequential_run.induct)
  case (seq_use w use out es w1 xs uses ys stop w2)
  have "xs = [finished_update use out]" using sends_not_cancelled[OF seq_use(3) seq_use.prems] .
  moreover have "is_update sys e ctx use (finished_update use out)"
    unfolding is_update_def by (rule exI[where x = w]) (simp add: seq_use(2))
  ultimately show ?case using seq_use by simp
qed auto

lemma sequential_total:
  assumes "\<And>v. \<not> cancelled ctx v"
  shows "\<exists>us w'. sequential_run sys e ctx uses w us False w'"
proof (induction uses arbitrary: w)
  case Nil
  show ?case by (intro exI) (rule sequential_run.seq_done)
next
  case (Cons use uses)
  obtain out es w1 where ex: "Execute sys e ctx use w = (out, es, w1)" by (metis prod_cases3)
  obtain us w2 where "sequential_run sys e ctx uses w1 us False w2" using Cons by blast
  from sequential_run.seq_use[OF assms ex sends.sent this] show ?case by blast
qed

lemma concurrent_updates:
  assumes "concurrent_run sys e ctx m uses w us w'" "\<And>v. \<not> cancelled ctx v"
  shows "list_all2 (is_update sys e ctx) uses us"
  using assms(1)
proof (cases rule: concurrent_run.cases)
  case (all_results p)
  have "us = map the (poolResults p)" using sends_all_not_cancelled[OF all_results(4) assms(2)] .
  with pool_done_results[OF pool_inv_reachable[OF all_results(2)] all_results(3)] show ?thesis by simp
next
  case (abandoned p)
  with stop_never[OF abandoned(3) assms(2)] show ?thesis by simp
qed

lemma concurrent_total:
  assumes "uses \<noteq> []" "\<And>v. \<not> cancelled ctx v"
  shows "\<exists>us w'. concurrent_run sys e ctx m uses w us w'"
proof -
  let ?step = "batch_step sys e ctx uses (batch_limit m uses)"
  have "0 < batch_limit m uses" using assms(1) by (simp add: batch_limit_def)
  with pool_ends[OF pool_inv_first[of sys e ctx uses "batch_limit m uses" w]] obtain p where
    p: "?step\<^sup>*\<^sup>* (first_pool uses w) p" "pool_done uses p \<or> poolStopped p" by blast
  then have "pool_done uses p" using stop_never[OF p(1) assms(2)] by blast
  from concurrent_run.all_results[OF p(1) this sends_all_total] show ?thesis by (intro exI)
qed

lemma run_batches_updates:
  "run_batches sys e ctx m bs w us w' \<Longrightarrow> (\<And>v. \<not> cancelled ctx v) \<Longrightarrow>
   list_all2 (is_update sys e ctx) (concat (map batchUses bs)) us"
proof (induction rule: run_batches.induct)
  case (stopped w b us w1 bs)
  then show ?case using sequential_updates[OF stopped(3)] by blast
next
  case (sequential w b us w1 bs vs w2)
  then show ?case using sequential_updates[OF sequential(3)] by (simp add: list_all2_appendI)
next
  case (concurrent w b us w1 bs vs w2)
  then show ?case using concurrent_updates[OF concurrent(3)] by (simp add: list_all2_appendI)
qed auto

lemma run_batches_total:
  assumes "\<And>v. \<not> cancelled ctx v"
  shows "list_all (\<lambda>b. batchUses b \<noteq> []) bs \<Longrightarrow> \<exists>us w'. run_batches sys e ctx m bs w us w'"
proof (induction bs arbitrary: w)
  case Nil
  show ?case by (intro exI) (rule run_batches.no_more)
next
  case (Cons b bs)
  have IH: "\<exists>us w'. run_batches sys e ctx m bs v us w'" for v using Cons.IH[of v] Cons.prems by simp
  show ?case
  proof (cases "is_sequential b")
    case True
    obtain us w1 where "sequential_run sys e ctx (batchUses b) w us False w1"
      using sequential_total[OF assms] by blast
    moreover obtain vs w2 where "run_batches sys e ctx m bs w1 vs w2" using IH by blast
    ultimately show ?thesis using run_batches.sequential[OF assms True] by blast
  next
    case False
    have "batchUses b \<noteq> []" using Cons.prems by simp
    from concurrent_total[OF this assms, of sys e m w]
    obtain us w1 where "concurrent_run sys e ctx m (batchUses b) w us w1" by blast
    moreover obtain vs w2 where "run_batches sys e ctx m bs w1 vs w2" using IH by blast
    ultimately show ?thesis using run_batches.concurrent[OF assms False] by blast
  qed
qed

end
