(* ===== verification/ExecLaws.thy ===== *)
theory ExecLaws
  imports ToolExec
begin

text \<open>
  What the pieces of the executor do, read off their actions: hooks make no call and send only
  hook progress, a call comes after a validation of its input and a permission, and the signals
  \<open>started\<close>, \<open>completed\<close> and so on come in their order.
\<close>

section \<open>Signals\<close>

definition final_signals :: "string list" where
  "final_signals = [''completed'', ''failed'', ''cancelled'', ''permission_denied'', ''permission_requested'']"

definition is_signal :: "string \<Rightarrow> bool" where
  "is_signal typ = (typ = ''started'' \<or> typ \<in> set final_signals)"

text \<open>The signals that a list of actions sends, in order.\<close>

fun signals :: "action list \<Rightarrow> string list" where
  "signals [] = []"
| "signals (Sent p # es) = (if is_signal (prgType p) then prgType p # signals es else signals es)"
| "signals (_ # es) = signals es"

fun calls :: "action list \<Rightarrow> raw_message list" where
  "calls [] = []"
| "calls (Called raw # es) = raw # calls es"
| "calls (_ # es) = calls es"

lemma signals_append [simp]: "signals (es @ es') = signals es @ signals es'"
  by (induction es rule: signals.induct) auto

lemma calls_append [simp]: "calls (es @ es') = calls es @ calls es'"
  by (induction es rule: calls.induct) auto

definition silent :: "action list \<Rightarrow> bool" where
  "silent es = (signals es = [] \<and> calls es = [])"

lemma silent_simps [simp]:
  "silent []" "silent (es @ es') \<longleftrightarrow> silent es \<and> silent es'"
  by (auto simp: silent_def)

lemma calls_iff: "raw \<in> set (calls es) \<longleftrightarrow> Called raw \<in> set es"
  by (induction es rule: calls.induct) auto

section \<open>Hooks\<close>

definition hook_types :: "string list" where
  "hook_types = [''hook_started'', ''hook_failed'', ''hook_blocked'', ''hook_completed'']"

text \<open>The actions of a hook loop.\<close>

fun hook_action :: "string \<Rightarrow> action \<Rightarrow> bool" where
  "hook_action phase (Sent p) = (prgType p \<in> set hook_types)"
| "hook_action phase (HookRun event r) = (evPhase event = phase)"
| "hook_action phase _ = False"

lemma hook_actions_silent: "list_all (hook_action phase) es \<Longrightarrow> silent es"
proof (induction es)
  case (Cons a es)
  then show ?case
    by (cases a) (auto simp: silent_def is_signal_def final_signals_def hook_types_def)
qed simp

lemma hook_types_mem [simp]:
  "''hook_started'' \<in> set hook_types" "''hook_failed'' \<in> set hook_types"
  "''hook_blocked'' \<in> set hook_types" "''hook_completed'' \<in> set hook_types"
  by (simp_all add: hook_types_def)

lemmas progress_defs = sendHookProgress_def SendProgress_def run_hook_def

lemma pre_hooks_actions:
  "wp (pre_hooks_loop ctx use t hooks current) (\<lambda>r es w'. list_all (hook_action HookPreToolUse) es) w"
proof (induction hooks arbitrary: current w)
  case (Cons h hooks)
  then show ?case
    by (cases h) (auto simp: wp_simps progress_defs Let_def split: sum.split prod.split intro: wp_mono[OF Cons.IH])
qed (simp add: wp_simps)

lemma permission_hooks_actions:
  "wp (permission_hooks_loop ctx use t phase metaKey verdict hooks (result, d, current))
     (\<lambda>(result', d', current') es w'. list_all (hook_action phase) es \<and> resIsError result' = resIsError result) w"
proof (induction hooks arbitrary: result d current w)
  case (Cons h hooks)
  have same: "resIsError (permission_meta metaKey r res) = resIsError res" for r res
    by (simp add: permission_meta_def Let_def)
  show ?case
    by (cases h) (auto simp: wp_simps progress_defs Let_def same split: sum.split prod.split intro!: wp_mono[OF Cons.IH])
qed (simp add: wp_simps)

lemma post_hooks_actions:
  "wp (post_hooks_loop ctx use t raw errText hooks result)
     (\<lambda>out es w'. list_all (hook_action HookPostToolUse) es) w"
proof (induction hooks arbitrary: result w)
  case (Cons h hooks)
  then show ?case
    by (cases h) (auto simp: wp_simps progress_defs Let_def split: sum.split prod.split intro!: wp_mono[OF Cons.IH])
qed (simp add: wp_simps)

section \<open>Approval by a hook\<close>

definition hook_reply :: "string \<Rightarrow> HookResult \<Rightarrow> action list \<Rightarrow> bool" where
  "hook_reply phase r es = (\<exists>event. HookRun event (Inr r) \<in> set es \<and> evPhase event = phase)"

lemma hook_reply_simps [simp]:
  "\<not> hook_reply phase r []"
  "hook_reply phase r (es @ es') \<longleftrightarrow> hook_reply phase r es \<or> hook_reply phase r es'"
  "hook_reply phase r (Sent p # es) = hook_reply phase r es"
  "hook_reply phase r (Validated raw v # es) = hook_reply phase r es"
  "hook_reply phase r (Checked raw c # es) = hook_reply phase r es"
  "hook_reply phase r (HookRun event x # es) = (x = Inr r \<and> evPhase event = phase \<or> hook_reply phase r es)"
  by (auto simp: hook_reply_def)

text \<open>A decision that is left at the end and does not deny is a hook's own; an input that is left
  at the end is the first one or a hook's own.\<close>

lemma permission_hooks_decision:
  "wp (permission_hooks_loop ctx use t phase metaKey verdict hooks (result, d, current))
     (\<lambda>(result', d', current') es w'.
        (\<forall>x. d' = Some x \<longrightarrow> d = Some x \<or> decBehavior x = PermissionDeny \<or> (\<exists>r. hook_reply phase r es \<and> hrPermissionDecision r = Some x)) \<and>
        (current' = current \<or> (\<exists>r. hook_reply phase r es \<and> has_input r \<and> current' = normalizeRawInput (hrUpdatedInput r)))) w"
proof (induction hooks arbitrary: result d current w)
  case (Cons h hooks)
  have dec: "hook_decision phase r d = Some x \<Longrightarrow> d = Some x \<or> decBehavior x = PermissionDeny \<or> hrPermissionDecision r = Some x" for r x
    by (auto simp: hook_decision_def split: option.splits if_split_asm)
  have inp: "hook_input current r = current \<or> has_input r \<and> hook_input current r = normalizeRawInput (hrUpdatedInput r)" for r
    by (simp add: hook_input_def)
  show ?case
    by (cases h) (auto simp: wp_simps progress_defs Let_def split: sum.split prod.split
        intro!: wp_mono[OF Cons.IH] dest!: dec, (metis inp)+)
qed (simp add: wp_simps)

section \<open>The phases\<close>

lemma validate_spec:
  "wp (validate env registry ctx use t raw)
     (\<lambda>r es w'. (r = Inr () \<and> es = [Validated raw None]) \<or>
        (\<exists>err err'. r = Inl (fail use err') \<and> es = [Validated raw (Some err)])) w"
  by (auto simp: validate_def wp_simps split: prod.split option.split)

definition error_outcome :: "outcome \<Rightarrow> bool" where
  "error_outcome out = (snd out \<noteq> None \<and> resIsError (fst out))"

lemma error_outcome_fail [simp]: "error_outcome (fail use err)"
  by (simp add: error_outcome_def fail_def ErrorResult_def)

lemma error_outcome_pair [simp]: "error_outcome (result, Some e) = resIsError result" "\<not> error_outcome (result, None)"
  by (simp_all add: error_outcome_def)

lemma error_outcome_eq: "fail use err = out \<Longrightarrow> error_outcome out"
  using error_outcome_fail by blast

lemma is_signal_simps [simp]:
  "is_signal ''started''" "is_signal ''completed''" "is_signal ''failed''" "is_signal ''cancelled''"
  "is_signal ''permission_denied''" "is_signal ''permission_requested''" "\<not> is_signal ''permission_allowed''"
  by (simp_all add: is_signal_def final_signals_def)

lemma silentD: "silent es \<Longrightarrow> signals es = []" "silent es \<Longrightarrow> calls es = []"
  by (simp_all add: silent_def)

lemma prepare_spec:
  "wp (prepare env e registry ctx use t)
     (\<lambda>r es w'. calls es = [] \<and>
        (case r of Inl out \<Rightarrow> error_outcome out \<and> signals es = []
         | Inr raw \<Rightarrow> Validated raw None \<in> set es \<and> signals es = [''started''])) w"
  unfolding prepare_def Let_def runPreHooks_def
  by (auto simp: wp_simps SendProgress_def check_context_def silentD[OF hook_actions_silent]
      split: sum.split option.split
      intro!: wp_mono[OF validate_spec] wp_mono[OF pre_hooks_actions] dest: error_outcome_eq)

text \<open>How a permission question ends: a decision of the tool that is neither deny nor ask keeps the
  input; an ask needs a hook that decides otherwise, and the input it leaves is validated.\<close>

definition approving_reply :: "action list \<Rightarrow> bool" where
  "approving_reply es = (\<exists>r d. hook_reply HookPermissionRequest r es \<and> hrPermissionDecision r = Some d \<and>
     decBehavior d \<noteq> PermissionAsk \<and> decBehavior d \<noteq> PermissionDeny)"

lemma approving_reply_simps [simp]:
  "\<not> approving_reply []"
  "approving_reply (es @ es') \<longleftrightarrow> approving_reply es \<or> approving_reply es'"
  "approving_reply (Sent p # es) = approving_reply es"
  "approving_reply (Validated raw v # es) = approving_reply es"
  "approving_reply (Checked raw c # es) = approving_reply es"
  by (auto simp: approving_reply_def)

lemma approving_replyI:
  "hook_reply HookPermissionRequest r es \<Longrightarrow> hrPermissionDecision r = Some d \<Longrightarrow> decBehavior d \<noteq> PermissionAsk \<Longrightarrow>
   decBehavior d \<noteq> PermissionDeny \<Longrightarrow> approving_reply es"
  by (auto simp: approving_reply_def)

definition granted ::
  "'w Context \<Rightarrow> 'w Tool \<Rightarrow> raw_message \<Rightarrow> raw_message \<Rightarrow> PermissionDecision \<Rightarrow> action list \<Rightarrow> bool" where
  "granted ctx t raw raw' d es =
     ((\<exists>w. fst (toolCheckPermissions t ctx raw w) = Inr d) \<and> Checked raw (Inr d) \<in> set es \<and>
      decBehavior d \<noteq> PermissionDeny \<and>
      (if decBehavior d = PermissionAsk then
         approving_reply es \<and> Validated raw' None \<in> set es \<and>
         (raw' = raw \<or> (\<exists>r. hook_reply HookPermissionRequest r es \<and> has_input r \<and> raw' = normalizeRawInput (hrUpdatedInput r)))
       else raw' = raw))"

lemma denied_spec:
  "wp (denied e ctx use t raw verdict)
     (\<lambda>r es w'. calls es = [] \<and> signals es = [''permission_denied''] \<and> (\<exists>out. r = Inl out \<and> error_outcome out)) w"
  unfolding denied_def runPermissionHooks_def
  by (auto simp: wp_simps SendProgress_def silentD[OF hook_actions_silent] permission_result_def
      intro!: wp_mono[OF permission_hooks_actions])

lemma asked_spec:
  "wp (asked env e registry ctx use t raw verdict)
     (\<lambda>r es w'. calls es = [] \<and>
        (case r of
           Inl out \<Rightarrow> error_outcome out \<and>
             (signals es = [''permission_denied''] \<or> signals es = [''permission_requested''] \<or>
              signals es = [] \<and> (\<exists>raw' err. es \<noteq> [] \<and> last es = Validated raw' (Some err)))
         | Inr raw' \<Rightarrow> signals es = [] \<and> approving_reply es \<and> Validated raw' None \<in> set es \<and>
             (raw' = raw \<or> (\<exists>r. hook_reply HookPermissionRequest r es \<and> has_input r \<and> raw' = normalizeRawInput (hrUpdatedInput r))))) w"
  unfolding asked_def runPermissionHooks_def
  by (auto simp: wp_simps SendProgress_def silentD[OF hook_actions_silent] permission_result_def
      split: option.split
      intro!: wp_mono[OF wp_conj[OF permission_hooks_actions permission_hooks_decision]] wp_mono[OF validate_spec]
      dest: error_outcome_eq)
    (blast intro: approving_replyI)+

lemma authorize_spec:
  "wp (authorize env e registry ctx use t raw)
     (\<lambda>r es w'. calls es = [] \<and>
        (case r of
           Inl out \<Rightarrow> error_outcome out \<and>
             ((\<exists>x \<in> set final_signals. x \<noteq> ''completed'' \<and> signals es = [x]) \<or>
              signals es = [] \<and> (\<exists>raw' err. es \<noteq> [] \<and> last es = Validated raw' (Some err)))
         | Inr raw' \<Rightarrow> signals es = [] \<and> (\<exists>d. granted ctx t raw raw' d es))) w"
proof -
  obtain c w1 where c: "toolCheckPermissions t ctx raw w = (c, w1)" by fastforce
  have granted: "granted ctx t raw raw' d (Checked raw (Inr d) # es)"
    if "c = Inr d" "decBehavior d \<noteq> PermissionDeny"
      and "if decBehavior d = PermissionAsk then approving_reply es \<and> Validated raw' None \<in> set es \<and>
             (raw' = raw \<or> (\<exists>r. hook_reply HookPermissionRequest r es \<and> has_input r \<and> raw' = normalizeRawInput (hrUpdatedInput r)))
           else raw' = raw" for raw' d es
  proof -
    have "\<exists>w. fst (toolCheckPermissions t ctx raw w) = Inr d" using c that(1) by (metis fst_conv)
    then show ?thesis using that by (auto simp: granted_def split: if_split_asm)
  qed
  show ?thesis
  proof (cases c)
    case (Inl err)
    then show ?thesis
      by (auto simp: authorize_def wp_simps c SendProgress_def final_signals_def dest: error_outcome_eq)
  next
    case (Inr d)
    consider "decBehavior d = PermissionDeny" | "decBehavior d = PermissionAsk"
      | "decBehavior d \<noteq> PermissionDeny" "decBehavior d \<noteq> PermissionAsk" by blast
    then show ?thesis
    proof cases
      case 1
      then show ?thesis
        by (auto simp: authorize_def wp_simps c Inr final_signals_def intro!: wp_mono[OF denied_spec])
    next
      case 2
      then have "authorize env e registry ctx use t raw w
          = then_p (ask_world (toolCheckPermissions t ctx raw) (Checked raw)) (\<lambda>_. asked env e registry ctx use t raw d) w"
        by (simp add: authorize_def then_p_def ask_world_def c Inr)
      then have *: "wp (authorize env e registry ctx use t raw) Q w
          = wp (asked env e registry ctx use t raw d) (\<lambda>r es. Q r (Checked raw (Inr d) # es)) w1" for Q
        by (simp add: wp_def then_p_def ask_world_def c Inr split: prod.split)
      have asked_granted: "\<exists>x. granted ctx t raw raw' x (Checked raw (Inr d) # es)"
        if "approving_reply es" "Validated raw' None \<in> set es"
          "raw' = raw \<or> (\<exists>r. hook_reply HookPermissionRequest r es \<and> has_input r \<and> raw' = normalizeRawInput (hrUpdatedInput r))"
        for raw' es
        using granted[OF Inr, where raw'=raw' and es=es] that 2 by auto
      show ?thesis unfolding *
        by (rule wp_mono[OF asked_spec]) (auto simp: final_signals_def intro!: asked_granted split: sum.splits)
    next
      case 3
      then show ?thesis
        using granted[OF Inr, where raw'=raw and es="[]"] by (auto simp: authorize_def wp_simps c Inr)
    qed
  qed
qed

section \<open>The call\<close>

text \<open>A tool whose own progress carries no signal of the executor.\<close>

definition quiet_tool :: "'w Tool \<Rightarrow> bool" where
  "quiet_tool t = (\<forall>ctx raw w. list_all (\<lambda>p. \<not> is_signal (prgType p)) (snd (fst (toolCall t ctx raw w))))"

lemma tool_progress:
  "calls (map (\<lambda>p. Sent (default_sink i p)) ps) = []"
  "list_all (\<lambda>p. \<not> is_signal (prgType p)) ps \<Longrightarrow> signals (map (\<lambda>p. Sent (default_sink i p)) ps) = []"
  by (induction ps) (auto simp: default_sink_def)

lemma call_tool_spec:
  "wp (call_tool ctx use t raw)
     (\<lambda>r es w'. \<exists>es'. es = Called raw # es' \<and> calls es' = [] \<and> (quiet_tool t \<longrightarrow> signals es' = [])) w"
proof -
  obtain r ps w1 where c: "toolCall t ctx raw w = ((r, ps), w1)" by (metis prod.collapse)
  have "list_all (\<lambda>p. \<not> is_signal (prgType p)) ps" if "quiet_tool t"
    using that c unfolding quiet_tool_def by (metis fst_conv snd_conv)
  then show ?thesis by (simp add: wp_def call_tool_def c tool_progress)
qed

lemma limitResult_silent: "wp (limitResult sys e t use result) (\<lambda>r es w'. silent es) w"
  by (auto simp: limitResult_def Let_def wp_simps wp_def[of "\<lambda>w. case sysNewID sys w of (i, w') \<Rightarrow> (i, [], w')"]
      silent_def split: goany.split prod.split)

text \<open>How a call ends: with no error after \<open>completed\<close>, or with an error result after \<open>failed\<close>.\<close>

definition ended :: "action list \<Rightarrow> outcome \<Rightarrow> bool" where
  "ended es out = (signals es = [''completed''] \<and> snd out = None \<or> signals es = [''failed''] \<and> error_outcome out)"

lemma ended_silent: "silent es \<Longrightarrow> ended (es @ es') out = ended es' out" "signals es = [] \<Longrightarrow> ended (es @ es') out = ended es' out"
  by (simp_all add: ended_def silentD)

lemma finish_spec: "wp (finish use t err (result, hookErr)) (\<lambda>out es w'. calls es = [] \<and> ended es out) w"
  by (auto simp: finish_def wp_simps SendProgress_def default_sink_def ended_def split: option.split)

lemma after_call_spec:
  "wp (then_p (if err = None then limitResult sys e t use result else done_p result) (\<lambda>result.
       then_p (runPostHooks e ctx use t raw result err) (finish use t err)))
     (\<lambda>out es w'. calls es = [] \<and> ended es out) w"
proof -
  have post: "wp (runPostHooks e ctx use t raw result err) (\<lambda>r es w'. silent es) v" for result v
    unfolding runPostHooks_def by (rule wp_mono[OF post_hooks_actions]) (rule hook_actions_silent)
  have last: "wp (then_p (runPostHooks e ctx use t raw result err) (finish use t err))
      (\<lambda>out es w'. calls es = [] \<and> ended es out) v" for result v
    unfolding wp_then
    by (rule wp_mono[OF post]) (auto simp: silentD ended_silent intro!: wp_mono[OF finish_spec])
  have limit: "wp (if err = None then limitResult sys e t use result else done_p result) (\<lambda>r es w'. silent es) w"
    by (simp add: limitResult_silent wp_simps)
  show ?thesis
    unfolding wp_then[of "if _ then _ else _"]
    by (rule wp_mono[OF limit], rule wp_mono[OF last]) (auto simp: silentD ended_silent)
qed

lemma perform_spec:
  "wp (perform sys e ctx use t raw)
     (\<lambda>out es w'. (calls es = [] \<and> signals es = [''cancelled''] \<and> error_outcome out) \<or>
        (\<exists>es'. es = Called raw # es' \<and> calls es' = [] \<and> (quiet_tool t \<longrightarrow> ended es' out))) w"
proof (cases "contextError ctx w")
  case (Some err)
  then show ?thesis by (simp add: perform_def wp_simps SendProgress_def default_sink_def)
next
  case None
  let ?run = "\<lambda>result err. then_p (if err = None then limitResult sys e t use result else done_p result)
    (\<lambda>result. then_p (runPostHooks e ctx use t raw result err) (finish use t err))"
  have "wp (?run result err)
      (\<lambda>out es w'. (\<exists>es'. es1 @ es = Called raw # es' \<and> calls es' = [] \<and> (quiet_tool t \<longrightarrow> ended es' out))) v"
    if "\<exists>es'. es1 = Called raw # es' \<and> calls es' = [] \<and> (quiet_tool t \<longrightarrow> signals es' = [])" for es1 result err v
    using that by (intro wp_mono[OF after_call_spec]) (auto simp: ended_silent)
  then have "wp (then_p (call_tool ctx use t raw) (\<lambda>(result, callErr).
        ?run (if resToolUseID result = [] then result\<lparr>resToolUseID := useID use\<rparr> else result) (map_option CallError callErr)))
      (\<lambda>out es w'. (\<exists>es'. es = Called raw # es' \<and> calls es' = [] \<and> (quiet_tool t \<longrightarrow> ended es' out))) w"
    unfolding wp_then[of "call_tool _ _ _ _"] split_beta
    by (intro wp_mono[OF call_tool_spec]) blast
  then have "wp (perform sys e ctx use t raw)
      (\<lambda>out es w'. (\<exists>es'. es = Called raw # es' \<and> calls es' = [] \<and> (quiet_tool t \<longrightarrow> ended es' out))) w"
    using None by (simp add: perform_def wp_then[of "look _"] wp_look Let_def)
  then show ?thesis by (rule wp_mono) blast
qed

section \<open>A whole execution\<close>

text \<open>What precedes a call: the use names a registered tool, the input of the call passed the
  tool's validation, and a permission was granted for it.\<close>

definition cleared :: "'w system \<Rightarrow> 'w Executor \<Rightarrow> 'w Context \<Rightarrow> ToolUse \<Rightarrow> raw_message \<Rightarrow> action list \<Rightarrow> bool" where
  "cleared sys e ctx use raw es =
     (\<exists>registry t raw0 d. exRegistry e = Some registry \<and> Lookup (sysEnv sys) registry (useName use) = Some t \<and>
        Validated raw0 None \<in> set es \<and> Validated raw None \<in> set es \<and> granted ctx t raw0 raw d es)"

lemma granted_later: "granted ctx t raw raw' d es \<Longrightarrow> granted ctx t raw raw' d (es0 @ es)"
  by (auto simp: granted_def)

lemma granted_validated: "granted ctx t raw raw' d es \<Longrightarrow> Validated raw None \<in> set es \<Longrightarrow> Validated raw' None \<in> set es"
  by (auto simp: granted_def split: if_split_asm)

text \<open>The three ways an execution ends: before \<open>started\<close>, between \<open>started\<close> and the call, and after
  the call.\<close>

definition refused_outcome :: "action list \<Rightarrow> outcome \<Rightarrow> bool" where
  "refused_outcome es out =
     (calls es = [] \<and> error_outcome out \<and>
      (signals es = [] \<or> (\<exists>x \<in> set final_signals. x \<noteq> ''completed'' \<and> signals es = [''started'', x]) \<or>
       signals es = [''started''] \<and> (\<exists>raw err. es \<noteq> [] \<and> last es = Validated raw (Some err))))"

definition called_outcome ::
  "'w system \<Rightarrow> 'w Executor \<Rightarrow> 'w Context \<Rightarrow> ToolUse \<Rightarrow> action list \<Rightarrow> outcome \<Rightarrow> bool" where
  "called_outcome sys e ctx use es out =
     (\<exists>raw before after registry t. es = before @ Called raw # after \<and> calls before = [] \<and> calls after = [] \<and>
        exRegistry e = Some registry \<and> Lookup (sysEnv sys) registry (useName use) = Some t \<and>
        cleared sys e ctx use raw before \<and> signals before = [''started''] \<and>
        (quiet_tool t \<longrightarrow> ended after out))"

lemma prepare_authorize_spec:
  "wp (then_e (prepare env e registry ctx use t) (authorize env e registry ctx use t))
     (\<lambda>r es w'. case r of
        Inl out \<Rightarrow> refused_outcome es out
      | Inr raw \<Rightarrow> calls es = [] \<and> signals es = [''started''] \<and>
          (\<exists>raw0 d. Validated raw0 None \<in> set es \<and> granted ctx t raw0 raw d es)) w"
  unfolding wp_then_e
  by (rule wp_mono[OF prepare_spec])
    (auto simp: refused_outcome_def split: sum.splits intro!: wp_mono[OF authorize_spec], blast intro: granted_later)

lemma Execute_spec:
  "wp (Execute sys e ctx use) (\<lambda>out es w'. refused_outcome es out \<or> called_outcome sys e ctx use es out) w"
proof (cases "contextError ctx w")
  case (Some err)
  then show ?thesis by (simp add: Execute_def wp_simps refused_outcome_def)
next
  case None
  show ?thesis
  proof (cases "exRegistry e")
    case None
    with \<open>contextError ctx w = None\<close> show ?thesis by (simp add: Execute_def wp_simps refused_outcome_def)
  next
    case (Some registry)
    show ?thesis
    proof (cases "Lookup (sysEnv sys) registry (useName use)")
      case None
      with \<open>contextError ctx w = None\<close> Some show ?thesis by (simp add: Execute_def wp_simps refused_outcome_def)
    next
      case (Some t)
      have performed: "wp (perform sys e ctx use t raw)
          (\<lambda>out es' w'. refused_outcome (es @ es') out \<or> called_outcome sys e ctx use (es @ es') out) v"
        if "calls es = []" "signals es = [''started'']" "Validated raw0 None \<in> set es" "granted ctx t raw0 raw d es"
        for raw raw0 d es v
      proof -
        have "cleared sys e ctx use raw es"
          using that \<open>exRegistry e = Some registry\<close> Some granted_validated unfolding cleared_def by blast
        then have "called_outcome sys e ctx use (es @ Called raw # after) out"
          if "calls after = []" "quiet_tool t \<longrightarrow> ended after out" for after out
          using that \<open>calls es = []\<close> \<open>signals es = [''started'']\<close> \<open>exRegistry e = Some registry\<close> Some
          unfolding called_outcome_def by blast
        then show ?thesis
          using that by (auto simp: refused_outcome_def final_signals_def intro!: wp_mono[OF perform_spec])
      qed
      have "wp (then_p (then_e (prepare (sysEnv sys) e registry ctx use t) (authorize (sysEnv sys) e registry ctx use t))
              (\<lambda>r. case r of Inl out \<Rightarrow> done_p out | Inr raw \<Rightarrow> perform sys e ctx use t raw))
          (\<lambda>out es w'. refused_outcome es out \<or> called_outcome sys e ctx use es out) w"
        unfolding wp_then
        by (rule wp_mono[OF prepare_authorize_spec]) (auto simp: wp_done split: sum.splits intro!: performed)
      with \<open>contextError ctx w = None\<close> \<open>exRegistry e = Some registry\<close> Some show ?thesis
        by (simp add: Execute_def wp_then[of "look _"] wp_look)
    qed
  qed
qed

end
