(* ===== verification/ResultLaws.thy ===== *)
theory ResultLaws
  imports ExecLaws PathForms
begin

text \<open>
  What \<open>limitResult\<close> does to a long result: the name of the file that keeps the full output, its
  place below the result directory, and the size of the text that stays.
\<close>

section \<open>The file's name\<close>

lemma slash_byte: "CHR ''/'' \<noteq> char_of (239::nat)" "CHR ''/'' \<noteq> char_of (191::nat)" "CHR ''/'' \<noteq> char_of (189::nat)"
  by code_simp+

lemma decode_piece:
  assumes "s \<noteq> []" "snd (decode_rune s) \<noteq> 1"
  shows "\<forall>c \<in> set (take (snd (decode_rune s)) s). 0x80 \<le> byte c"
  using assms
  by (auto simp: decode_rune_def second_byte_bounds_def cont_def Let_def split: list.split_asm if_split_asm prod.split_asm)

lemma decode_single:
  assumes "s \<noteq> []" "snd (decode_rune s) = 1"
  shows "fst (decode_rune s) = 0xFFFD \<or> fst (decode_rune s) = byte (hd s)"
  using assms
  by (auto simp: decode_rune_def Let_def split: list.split_asm if_split_asm prod.split_asm)

lemma no_slash_piece:
  assumes "s \<noteq> []" "fst (decode_rune s) \<noteq> 0x2F" "\<not> (snd (decode_rune s) = 1 \<and> fst (decode_rune s) = 0xFFFD)"
  shows "CHR ''/'' \<notin> set (take (snd (decode_rune s)) s)"
proof (cases "snd (decode_rune s) = 1")
  case True
  then have "byte (hd s) \<noteq> 0x2F" using decode_single[OF assms(1) True] assms(2,3) by auto
  moreover have "take (snd (decode_rune s)) s = [hd s]" using True assms(1) by (cases s) auto
  moreover have "byte (CHR ''/'') = 0x2F" by (simp add: byte_def)
  ultimately show ?thesis by (metis empty_iff empty_set set_ConsD)
next
  case False
  have "\<not> 0x80 \<le> byte (CHR ''/'')" by (simp add: byte_def)
  with decode_piece[OF assms(1) False] show ?thesis by blast
qed

lemma map_file_name_no_slash: "CHR ''/'' \<notin> set (map_file_name name)"
proof (induction name rule: map_file_name.induct)
  case (1 name)
  obtain r width where d: "decode_rune name = (r, width)" by fastforce
  show ?case
  proof (cases "name = []")
    case True
    then show ?thesis by (simp add: map_file_name.simps)
  next
    case False
    have rest: "CHR ''/'' \<notin> set (map_file_name (drop width name))"
      using 1[OF False d[symmetric] refl refl] by simp
    show ?thesis
      using rest False d no_slash_piece[OF False] slash_byte by (subst map_file_name.simps) auto
  qed
qed

lemma sanitized_name: "CHR ''/'' \<notin> set (sanitizeResultFileName name)"
  using map_file_name_no_slash[of "Base name"] by (simp add: sanitizeResultFileName_def Let_def)

lemma sanitized_file: "proper_part (sanitizeResultFileName name @ ''.txt'')"
proof -
  have "length (sanitizeResultFileName name @ ''.txt'') > 2" by simp
  then have "sanitizeResultFileName name @ ''.txt'' \<notin> {[], ''.'', ''..''}" by auto
  then show ?thesis using sanitized_name[of name] by (simp add: proper_part_def)
qed

section \<open>Its place\<close>

lemma Split_append: "Split (s @ c # t) c = Split s c @ Split t c"
proof (induction s)
  case (Cons a s)
  then show ?case by (cases "Split s c") (auto split: list.split)
qed simp

lemma Split_single: "c \<notin> set s \<Longrightarrow> Split s c = [s]"
  by (induction s) auto

lemma join_child:
  assumes "dir \<noteq> []" "proper_part name"
  shows "clean_parts (JoinPath [dir, name]) = clean_parts dir @ [name]" "IsAbs (JoinPath [dir, name]) = IsAbs dir"
proof -
  have ns: "CHR ''/'' \<notin> set name" "name \<noteq> []" using assms(2) by (auto simp: proper_part_def)
  have j: "JoinPath [dir, name] = Clean (dir @ CHR ''/'' # name)" using assms(1) ns by (simp add: JoinPath_def)
  have abs: "IsAbs (dir @ CHR ''/'' # name) = IsAbs dir" using assms(1) by (cases dir) (simp_all add: IsAbs_Cons)
  show "IsAbs (JoinPath [dir, name]) = IsAbs dir" by (simp add: j IsAbs_Clean abs)
  have "clean_parts (dir @ CHR ''/'' # name)
      = rev (clean_step (IsAbs dir) (foldl (clean_step (IsAbs dir)) [] (Split dir (CHR ''/''))) name)"
    by (simp add: clean_parts_def abs Split_append Split_single[OF ns(1)])
  also have "\<dots> = clean_parts dir @ [name]"
    using assms(2) by (auto simp: clean_step_def clean_parts_def proper_part_def)
  finally show "clean_parts (JoinPath [dir, name]) = clean_parts dir @ [name]" by (simp add: j clean_parts_Clean)
qed

section \<open>Its size\<close>

lemma TrimRight_length: "length (TrimRight s cs) \<le> length s"
  by (metis TrimRight_def length_dropWhile_le length_rev)

lemma truncated_text_length:
  "length (truncated_text content limit path) \<le> limit + length path + 51"
  using TrimRight_length[of "take limit content" "[nl]"] by (simp add: truncated_text_def)

text \<open>A result that is text longer than the tool's limit.\<close>

definition over_limit :: "'w Tool \<Rightarrow> ToolResult \<Rightarrow> string \<Rightarrow> bool" where
  "over_limit t result content =
     (resContent result = AnyString content \<and> 0 < toolMaxResultSizeChars t \<and>
      toolMaxResultSizeChars t < int (length content))"

lemma limitResult_spec:
  "wp (limitResult sys e t use result)
     (\<lambda>r es w'.
        (\<exists>content name path. over_limit t result content \<and>
           path = JoinPath [result_dir (sysEnv sys) e, sanitizeResultFileName name @ ''.txt''] \<and>
           (useID use \<noteq> [] \<longrightarrow> name = useID use) \<and> es = [Wrote path content] \<and>
           resContent r = AnyString (truncated_text content (nat (toolMaxResultSizeChars t)) path) \<and>
           resToolUseID r = resToolUseID result \<and> resIsError r = resIsError result) \<or>
        (\<forall>content. \<not> over_limit t result content) \<and> r = result \<and> es = []) w"
  by (auto simp: limitResult_def over_limit_def Let_def wp_simps wp_def[of "\<lambda>w. case sysNewID sys w of (i, w') \<Rightarrow> (i, [], w')"]
      split: goany.split prod.split)

end
