(* ===== verification/ToolSchema.thy ===== *)
theory ToolSchema
  imports ToolTypes "HOL-Library.Char_ord" "HOL-Library.List_Lexorder"
begin

text \<open>
  \<open>internal/tool/schema.go\<close>: the validation of a tool's input against its JSON schema.

  A value and a schema are \<open>goany\<close>: \<open>JSONSchema\<close> and \<open>map[string]any\<close> are both \<open>AnyMap\<close>. A
  \<open>float64\<close> is the rational it stands for; the rounding of a division, the two formats of a float
  and the regular expressions are the environment's. Go iterates over a map in an order of its
  own; here it is the order of the association list, which decides only which of several errors
  is reported. The integers of a schema are within the range that \<open>float64\<close> holds exactly.
\<close>

record schema_env = go_env +
  float_div :: "rat \<Rightarrow> rat \<Rightarrow> rat"
  format_v :: "rat \<Rightarrow> string"
  format_g :: "rat \<Rightarrow> string"
  format_other :: "goany \<Rightarrow> string"
  regexp_compile :: "string \<Rightarrow> string + (string \<Rightarrow> bool)"
  json_error :: "string \<Rightarrow> string"

section \<open>Values\<close>

fun any_of_json :: "json \<Rightarrow> goany" where
  "any_of_json JNull = AnyNil"
| "any_of_json (JBool b) = AnyBool b"
| "any_of_json (JNum n) = AnyNumber n"
| "any_of_json (JStr s) = AnyString s"
| "any_of_json (JArr xs) = AnySlice (map any_of_json xs)"
| "any_of_json (JObj kvs) = AnyMap (map (\<lambda>(k, v). (k, any_of_json v)) kvs)"

text \<open>\<open>fmt.Sprint\<close> of one value; a map is printed in the order of its keys.\<close>

fun sprint :: "schema_env \<Rightarrow> goany \<Rightarrow> string" where
  "sprint env AnyNil = ''<nil>''"
| "sprint env (AnyBool b) = (if b then ''true'' else ''false'')"
| "sprint env (AnyNumber n) = format_v env n"
| "sprint env (AnyInt i) = int_text i"
| "sprint env (AnyString s) = s"
| "sprint env (AnyStrings ss) = ''['' @ Join ss '' '' @ '']''"
| "sprint env (AnySlice xs) = ''['' @ Join (map (sprint env) xs) '' '' @ '']''"
| "sprint env (AnyMap kvs) =
     ''map['' @ Join (map (\<lambda>(k, s). k @ '':'' @ s) (sort_key fst (map (\<lambda>(k, v). (k, sprint env v)) kvs))) '' '' @ '']''"
| "sprint env v = format_other env v"

definition schemaMap :: "goany \<Rightarrow> go_map option" where
  "schemaMap value = (case value of AnyMap m \<Rightarrow> Some m | _ \<Rightarrow> None)"

definition objectMap :: "goany \<Rightarrow> go_map option" where
  "objectMap value = (case value of AnyMap m \<Rightarrow> Some m | _ \<Rightarrow> None)"

definition schemaList :: "goany \<Rightarrow> go_map list" where
  "schemaList value =
     (case value of AnySlice items \<Rightarrow> List.map_filter schemaMap items | AnyMapSlice ms \<Rightarrow> ms | _ \<Rightarrow> [])"

definition field :: "go_map \<Rightarrow> string \<Rightarrow> goany" where
  "field m k = (case map_of m k of Some v \<Rightarrow> v | None \<Rightarrow> AnyNil)"

definition has_key :: "go_map \<Rightarrow> string \<Rightarrow> bool" where
  "has_key m k = (map_of m k \<noteq> None)"

definition any_strings :: "goany list \<Rightarrow> string list" where
  "any_strings items = List.map_filter (\<lambda>i. case i of AnyString s \<Rightarrow> Some s | _ \<Rightarrow> None) items"

definition stringSlice :: "goany \<Rightarrow> string list" where
  "stringSlice value = (case value of AnySlice items \<Rightarrow> any_strings items | AnyStrings ss \<Rightarrow> ss | _ \<Rightarrow> [])"

definition stringOrStrings :: "goany \<Rightarrow> string list" where
  "stringOrStrings value =
     (case value of AnyString s \<Rightarrow> [s] | AnySlice items \<Rightarrow> any_strings items | AnyStrings ss \<Rightarrow> ss | _ \<Rightarrow> [])"

section \<open>Numbers\<close>

definition integral :: "rat \<Rightarrow> bool" where
  "integral r = (of_int \<lfloor>r\<rfloor> = r)"

definition schemaNumber :: "goany \<Rightarrow> rat option" where
  "schemaNumber value = (case value of AnyNumber r \<Rightarrow> Some r | AnyInt i \<Rightarrow> Some (of_int i) | _ \<Rightarrow> None)"

definition exclusiveNumberConstraint :: "goany \<Rightarrow> goany \<Rightarrow> rat option" where
  "exclusiveNumberConstraint value pairedLimit =
     (case value of AnyBool typed \<Rightarrow> if \<not> typed then None else schemaNumber pairedLimit
      | _ \<Rightarrow> schemaNumber value)"

text \<open>\<open>math.Round\<close> rounds half away from zero.\<close>

definition go_round :: "rat \<Rightarrow> rat" where
  "go_round q = (if q < 0 then - of_int \<lfloor>- q + 1 / 2\<rfloor> else of_int \<lfloor>q + 1 / 2\<rfloor>)"

definition isMultipleOf :: "schema_env \<Rightarrow> rat \<Rightarrow> rat \<Rightarrow> bool" where
  "isMultipleOf env number multiple =
     (let quotient = float_div env number multiple in \<bar>quotient - go_round quotient\<bar> < 1 / 1000000000)"

definition intSchemaConstraint :: "goany \<Rightarrow> int option" where
  "intSchemaConstraint value =
     (case value of AnyInt i \<Rightarrow> Some i | AnyNumber r \<Rightarrow> if integral r then Some \<lfloor>r\<rfloor> else None | _ \<Rightarrow> None)"

definition describeSchemaNumber :: "schema_env \<Rightarrow> rat \<Rightarrow> string" where
  "describeSchemaNumber env r = (if integral r then int_text \<lfloor>r\<rfloor> else format_g env r)"

section \<open>Comparing values\<close>

text \<open>In the last case \<open>reflect.DeepEqual\<close> is subsumed: values that it equates print the same.\<close>

definition equalSchemaValue :: "schema_env \<Rightarrow> goany \<Rightarrow> goany \<Rightarrow> bool" where
  "equalSchemaValue env a b =
     (case (schemaNumber a, schemaNumber b) of
        (Some af, Some bf) \<Rightarrow> af = bf
      | _ \<Rightarrow>
        (case a of
           AnyString av \<Rightarrow> (case b of AnyString bv \<Rightarrow> av = bv | _ \<Rightarrow> False)
         | AnyBool av \<Rightarrow> (case b of AnyBool bv \<Rightarrow> av = bv | _ \<Rightarrow> False)
         | AnyNil \<Rightarrow> b = AnyNil
         | _ \<Rightarrow> sprint env a = sprint env b))"

definition schemaEnumValues :: "goany \<Rightarrow> goany list option" where
  "schemaEnumValues value =
     (case value of
        AnySlice v \<Rightarrow> if v = [] then None else Some v
      | AnyStrings v \<Rightarrow> if v = [] then None else Some (map AnyString v)
      | _ \<Rightarrow> None)"

definition matchesEnumValue :: "schema_env \<Rightarrow> goany \<Rightarrow> goany list \<Rightarrow> bool" where
  "matchesEnumValue env value enumValues = list_ex (equalSchemaValue env value) enumValues"

definition describeEnumValues :: "schema_env \<Rightarrow> goany list \<Rightarrow> string" where
  "describeEnumValues env enumValues = Join (map (sprint env) enumValues) '', ''"

fun arrayItemsUnique :: "schema_env \<Rightarrow> goany list \<Rightarrow> bool" where
  "arrayItemsUnique env [] = True"
| "arrayItemsUnique env (x # xs) = (\<not> list_ex (equalSchemaValue env x) xs \<and> arrayItemsUnique env xs)"

definition matches_type :: "goany \<Rightarrow> string \<Rightarrow> bool" where
  "matches_type value typ =
     (if typ = ''object'' then (case value of AnyMap _ \<Rightarrow> True | _ \<Rightarrow> False)
      else if typ = ''array'' then (case value of AnySlice _ \<Rightarrow> True | _ \<Rightarrow> False)
      else if typ = ''string'' then (case value of AnyString _ \<Rightarrow> True | _ \<Rightarrow> False)
      else if typ = ''boolean'' then (case value of AnyBool _ \<Rightarrow> True | _ \<Rightarrow> False)
      else if typ = ''number'' then (case value of AnyNumber _ \<Rightarrow> True | _ \<Rightarrow> False)
      else if typ = ''integer'' then (case value of AnyNumber n \<Rightarrow> integral n | _ \<Rightarrow> False)
      else if typ = ''null'' then value = AnyNil
      else False)"

definition matchesAnyType :: "string list \<Rightarrow> goany \<Rightarrow> bool" where
  "matchesAnyType types value = list_ex (matches_type value) types"

section \<open>Checks that look at one value\<close>

text \<open>A check is its error or \<open>None\<close>; the first error is returned.\<close>

fun first_error :: "'e option list \<Rightarrow> 'e option" where
  "first_error [] = None"
| "first_error (Some e # rest) = Some e"
| "first_error (None # rest) = first_error rest"

definition error_if :: "bool \<Rightarrow> string \<Rightarrow> string option" where
  "error_if b message = (if b then Some message else None)"

definition rune_count :: "string \<Rightarrow> int" where
  "rune_count s = int (length (runes s))"

definition type_checks :: "schema_env \<Rightarrow> go_map \<Rightarrow> goany \<Rightarrow> string \<Rightarrow> string option list" where
  "type_checks env schema value path =
     [let types = stringOrStrings (field schema ''type'') in
        error_if (types \<noteq> [] \<and> \<not> matchesAnyType types value) (path @ '' must be '' @ Join types '' or ''),
      (case map_of schema ''const'' of None \<Rightarrow> None
       | Some c \<Rightarrow> error_if (\<not> equalSchemaValue env value c) (path @ '' must be '' @ sprint env c)),
      (case schemaEnumValues (field schema ''enum'') of None \<Rightarrow> None
       | Some vs \<Rightarrow> error_if (\<not> matchesEnumValue env value vs) (path @ '' must be one of '' @ describeEnumValues env vs))]"

definition bound_check ::
  "schema_env \<Rightarrow> goany \<Rightarrow> string \<Rightarrow> rat option \<Rightarrow> (rat \<Rightarrow> rat \<Rightarrow> bool) \<Rightarrow> string \<Rightarrow> string option" where
  "bound_check env value path limit bad message =
     (case (limit, schemaNumber value) of
        (Some bound, Some number) \<Rightarrow> error_if (bad number bound) (path @ message @ describeSchemaNumber env bound)
      | _ \<Rightarrow> None)"

definition number_checks :: "schema_env \<Rightarrow> go_map \<Rightarrow> goany \<Rightarrow> string \<Rightarrow> string option list" where
  "number_checks env schema value path =
     [bound_check env value path (schemaNumber (field schema ''minimum'')) (\<lambda>n b. n < b) '' must be at least '',
      bound_check env value path (exclusiveNumberConstraint (field schema ''exclusiveMinimum'') (field schema ''minimum''))
        (\<lambda>n b. n \<le> b) '' must be greater than '',
      bound_check env value path (schemaNumber (field schema ''maximum'')) (\<lambda>n b. n > b) '' must be at most '',
      bound_check env value path (exclusiveNumberConstraint (field schema ''exclusiveMaximum'') (field schema ''maximum''))
        (\<lambda>n b. n \<ge> b) '' must be less than '',
      (case schemaNumber (field schema ''multipleOf'') of None \<Rightarrow> None
       | Some multiple \<Rightarrow>
           if multiple \<le> 0 then Some (path @ '' has invalid multipleOf '' @ describeSchemaNumber env multiple)
           else bound_check env value path (Some multiple) (\<lambda>n m. \<not> isMultipleOf env n m) '' must be a multiple of '')]"

definition string_checks :: "schema_env \<Rightarrow> go_map \<Rightarrow> goany \<Rightarrow> string \<Rightarrow> string option list" where
  "string_checks env schema value path =
     (case value of
        AnyString text \<Rightarrow>
          [(case intSchemaConstraint (field schema ''minLength'') of None \<Rightarrow> None
            | Some n \<Rightarrow> error_if (rune_count text < n) (path @ '' must be at least '' @ int_text n @ '' characters'')),
           (case intSchemaConstraint (field schema ''maxLength'') of None \<Rightarrow> None
            | Some n \<Rightarrow> error_if (rune_count text > n) (path @ '' must be at most '' @ int_text n @ '' characters'')),
           (case field schema ''pattern'' of
              AnyString pattern \<Rightarrow>
                if pattern = [] then None
                else (case regexp_compile env pattern of
                  Inl err \<Rightarrow> Some (path @ '' has invalid pattern '' @ Quote (go_env.truncate env) pattern @ '': '' @ err)
                | Inr matched \<Rightarrow> error_if (\<not> matched text) (path @ '' must match pattern '' @ pattern))
            | _ \<Rightarrow> None)]
      | _ \<Rightarrow> [])"

definition item_count_checks :: "schema_env \<Rightarrow> go_map \<Rightarrow> goany \<Rightarrow> string \<Rightarrow> string option list" where
  "item_count_checks env schema value path =
     (case value of
        AnySlice items \<Rightarrow>
          [(case intSchemaConstraint (field schema ''minItems'') of None \<Rightarrow> None
            | Some n \<Rightarrow> error_if (int (length items) < n) (path @ '' must contain at least '' @ int_text n @ '' items'')),
           (case intSchemaConstraint (field schema ''maxItems'') of None \<Rightarrow> None
            | Some n \<Rightarrow> error_if (int (length items) > n) (path @ '' must contain at most '' @ int_text n @ '' items'')),
           error_if (field schema ''uniqueItems'' = AnyBool True \<and> \<not> arrayItemsUnique env items)
             (path @ '' must contain unique items'')]
      | _ \<Rightarrow> [])"

definition required_checks :: "go_map \<Rightarrow> goany \<Rightarrow> string \<Rightarrow> string option list" where
  "required_checks schema value path =
     (let required = stringSlice (field schema ''required'') in
      if required = [] then []
      else (case value of
          AnyMap obj \<Rightarrow> map (\<lambda>key. error_if (\<not> has_key obj key) (path @ ''.'' @ key @ '' is required'')) required
        | _ \<Rightarrow> [Some (path @ '' must be object to check required fields'')]))"

definition property_count_checks :: "go_map \<Rightarrow> go_map \<Rightarrow> string \<Rightarrow> string option list" where
  "property_count_checks schema obj path =
     [(case intSchemaConstraint (field schema ''minProperties'') of None \<Rightarrow> None
       | Some n \<Rightarrow> error_if (int (length obj) < n) (path @ '' must contain at least '' @ int_text n @ '' properties'')),
      (case intSchemaConstraint (field schema ''maxProperties'') of None \<Rightarrow> None
       | Some n \<Rightarrow> error_if (int (length obj) > n) (path @ '' must contain at most '' @ int_text n @ '' properties''))]"

definition dependent_required_checks :: "go_map \<Rightarrow> go_map \<Rightarrow> string \<Rightarrow> string option list" where
  "dependent_required_checks schema obj path =
     (case objectMap (field schema ''dependentRequired'') of None \<Rightarrow> []
      | Some deps \<Rightarrow> concat (map (\<lambda>(key, requiredValue).
          if \<not> has_key obj key then []
          else map (\<lambda>requiredKey. error_if (\<not> has_key obj requiredKey)
                 (path @ ''.'' @ requiredKey @ '' is required when '' @ path @ ''.'' @ key @ '' is present''))
               (stringSlice requiredValue)) deps))"

section \<open>Pattern properties\<close>

definition pattern_schemas :: "go_map \<Rightarrow> go_map" where
  "pattern_schemas schema = (case objectMap (field schema ''patternProperties'') of Some patterns \<Rightarrow> patterns | None \<Rightarrow> [])"

definition pattern_defines :: "schema_env \<Rightarrow> go_map \<Rightarrow> string \<Rightarrow> bool" where
  "pattern_defines env schema key =
     list_ex (\<lambda>(pattern, rawSchema). case regexp_compile env pattern of Inl _ \<Rightarrow> False
         | Inr matches \<Rightarrow> schemaMap rawSchema \<noteq> None \<and> matches key) (pattern_schemas schema)"

definition properties_of :: "go_map \<Rightarrow> go_map" where
  "properties_of schema = (case objectMap (field schema ''properties'') of Some p \<Rightarrow> p | None \<Rightarrow> [])"

definition undefined_key :: "schema_env \<Rightarrow> go_map \<Rightarrow> string \<Rightarrow> bool" where
  "undefined_key env schema key = (\<not> has_key (properties_of schema) key \<and> \<not> pattern_defines env schema key)"

definition index_path :: "string \<Rightarrow> nat \<Rightarrow> string" where
  "index_path path idx = path @ ''['' @ dec idx @ '']''"

section \<open>Validation\<close>

text \<open>Every schema that the validation of a schema asks about is a part of it, so it ends on every
  schema and every value.\<close>

fun any_weight :: "goany \<Rightarrow> nat" where
  "any_weight (AnySlice xs) = Suc (sum_list (map any_weight xs))"
| "any_weight (AnyMap kvs) = Suc (sum_list (map (\<lambda>(k, v). any_weight v) kvs))"
| "any_weight (AnyMapSlice ms) = Suc (sum_list (map (\<lambda>m. Suc (sum_list (map (\<lambda>(k, v). any_weight v) m))) ms))"
| "any_weight v = 1"

definition map_weight :: "go_map \<Rightarrow> nat" where
  "map_weight m = Suc (sum_list (map (\<lambda>(k, v). any_weight v) m))"

lemma any_weight_pos: "0 < any_weight v"
  by (cases v) simp_all

lemma map_weight_value: "(k, v) \<in> set m \<Longrightarrow> any_weight v < map_weight m"
  by (induction m) (auto simp: map_weight_def)

lemma map_weight_field: "map_of m k = Some v \<Longrightarrow> any_weight v < map_weight m"
  by (rule map_weight_value[OF map_of_SomeD])

lemma schemaMap_weight: "schemaMap v = Some s \<Longrightarrow> map_weight s \<le> any_weight v"
  by (cases v) (auto simp: schemaMap_def map_weight_def)

lemma objectMap_weight: "objectMap v = Some s \<Longrightarrow> map_weight s \<le> any_weight v"
  by (cases v) (auto simp: objectMap_def map_weight_def)

lemma field_weight: "schemaMap (field m k) = Some s \<Longrightarrow> map_weight s < map_weight m"
  using schemaMap_weight[of "field m k" s] map_weight_field[of m k]
  by (cases "map_of m k") (auto simp: field_def schemaMap_def)

lemma sum_list_member: "x \<in> set xs \<Longrightarrow> (f x :: nat) \<le> sum_list (map f xs)"
  by (induction xs) auto

lemma schemaList_weight:
  assumes "s \<in> set (schemaList v)"
  shows "map_weight s \<le> any_weight v"
proof (cases v)
  case (AnySlice xs)
  then obtain x where "x \<in> set xs" "schemaMap x = Some s"
    using assms by (auto simp: schemaList_def map_filter_def)
  then show ?thesis
    using schemaMap_weight[of x s] sum_list_member[of x xs any_weight] AnySlice by simp
next
  case (AnyMapSlice ms)
  then have "s \<in> set ms" using assms by (simp add: schemaList_def)
  then show ?thesis
    using sum_list_member[of s ms "\<lambda>m. Suc (sum_list (map (\<lambda>(k, v). any_weight v) m))"] AnyMapSlice
    by (simp add: map_weight_def)
qed (use assms in \<open>simp_all add: schemaList_def\<close>)

lemma schemaList_field_weight: "s \<in> set (schemaList (field m k)) \<Longrightarrow> map_weight s < map_weight m"
proof (cases "map_of m k")
  case (Some v)
  then show "s \<in> set (schemaList (field m k)) \<Longrightarrow> map_weight s < map_weight m"
    using schemaList_weight[of s v] map_weight_field[OF Some] by (simp add: field_def)
qed (simp add: field_def schemaList_def)

lemma objectMap_field_weight:
  "objectMap (field m k) = Some ps \<Longrightarrow> (key, v) \<in> set ps \<Longrightarrow> schemaMap v = Some s \<Longrightarrow> map_weight s < map_weight m"
  using map_weight_value[of key v ps] schemaMap_weight[of v s] objectMap_weight[of "field m k" ps] map_weight_field[of m k]
  by (auto simp: field_def objectMap_def split: option.splits)

lemma properties_weight: "(key, v) \<in> set (properties_of m) \<Longrightarrow> schemaMap v = Some s \<Longrightarrow> map_weight s < map_weight m"
  by (auto simp: properties_of_def split: option.split_asm dest: objectMap_field_weight[OF sym])

lemma patterns_weight: "(key, v) \<in> set (pattern_schemas m) \<Longrightarrow> schemaMap v = Some s \<Longrightarrow> map_weight s < map_weight m"
  by (auto simp: pattern_schemas_def split: option.split_asm dest: objectMap_field_weight[OF sym])

lemma prefix_items_weight:
  "(idx, s, item) \<in> set (enumerate n (zip (schemaList (field m k)) items)) \<Longrightarrow> map_weight s < map_weight m"
proof -
  assume "(idx, s, item) \<in> set (enumerate n (zip (schemaList (field m k)) items))"
  then have "(s, item) \<in> set (zip (schemaList (field m k)) items)"
    unfolding enumerate_eq_zip by (rule set_zip_rightD)
  then show ?thesis by (blast dest: set_zip_leftD intro: schemaList_field_weight)
qed

lemmas schema_weights =
  field_weight schemaList_field_weight objectMap_field_weight properties_weight patterns_weight prefix_items_weight

function validateValue :: "schema_env \<Rightarrow> go_map \<Rightarrow> goany \<Rightarrow> string \<Rightarrow> string option" where
  "validateValue env schema value path = first_error
    (map (\<lambda>s. validateValue env s value path) (schemaList (field schema ''allOf''))
   @ [let anyOf = schemaList (field schema ''anyOf'') in
        error_if (anyOf \<noteq> [] \<and> \<not> list_ex (\<lambda>s. validateValue env s value path = None) anyOf)
          (path @ '' must match at least one allowed schema''),
      let oneOf = schemaList (field schema ''oneOf'') in
        error_if (oneOf \<noteq> [] \<and> length (filter (\<lambda>s. validateValue env s value path = None) oneOf) \<noteq> 1)
          (path @ '' must match exactly one allowed schema''),
      (case schemaMap (field schema ''not'') of None \<Rightarrow> None
       | Some s \<Rightarrow> error_if (validateValue env s value path = None) (path @ '' must not match disallowed schema'')),
      (case schemaMap (field schema ''if'') of None \<Rightarrow> None
       | Some s \<Rightarrow>
           if validateValue env s value path = None then
             (case schemaMap (field schema ''then'') of None \<Rightarrow> None | Some t \<Rightarrow> validateValue env t value path)
           else
             (case schemaMap (field schema ''else'') of None \<Rightarrow> None | Some t \<Rightarrow> validateValue env t value path))]
   @ type_checks env schema value path @ number_checks env schema value path
   @ string_checks env schema value path @ item_count_checks env schema value path
   @ (case value of
        AnySlice items \<Rightarrow>
          (let start = length (schemaList (field schema ''prefixItems'')) in
           map (\<lambda>(idx, s, item). validateValue env s item (index_path path idx))
             (enumerate 0 (zip (schemaList (field schema ''prefixItems'')) items))
         @ (case schemaMap (field schema ''items'') of
              Some s \<Rightarrow> map (\<lambda>(idx, item). validateValue env s item (index_path path idx)) (enumerate start (drop start items))
            | None \<Rightarrow> [error_if (field schema ''items'' = AnyBool False \<and> length items > start)
                        (index_path path start @ '' is not allowed'')])
         @ (case schemaMap (field schema ''contains'') of
              None \<Rightarrow> []
            | Some s \<Rightarrow>
                (let matches = int (length (filter (\<lambda>(idx, item). validateValue env s item (index_path path idx) = None)
                                 (enumerate 0 items)));
                     minContains = (case intSchemaConstraint (field schema ''minContains'') of Some n \<Rightarrow> n | None \<Rightarrow> 1)
                 in [error_if (matches < minContains) (path @ '' must contain at least '' @ int_text minContains @ '' matching items''),
                     (case intSchemaConstraint (field schema ''maxContains'') of None \<Rightarrow> None
                      | Some maxContains \<Rightarrow> error_if (matches > maxContains)
                          (path @ '' must contain at most '' @ int_text maxContains @ '' matching items''))])))
      | _ \<Rightarrow> [])
   @ required_checks schema value path
   @ (case value of
        AnyMap obj \<Rightarrow>
          property_count_checks schema obj path
        @ (case schemaMap (field schema ''propertyNames'') of None \<Rightarrow> []
           | Some s \<Rightarrow> map (\<lambda>(key, _). validateValue env s (AnyString key)
                 (path @ '' property name '' @ Quote (go_env.truncate env) key)) obj)
        @ map (\<lambda>(key, propertySchema).
              case map_of obj key of None \<Rightarrow> None
              | Some child \<Rightarrow> (case schemaMap propertySchema of None \<Rightarrow> None
                  | Some s \<Rightarrow> validateValue env s child (path @ ''.'' @ key))) (properties_of schema)
        @ (case objectMap (field schema ''dependentSchemas'') of None \<Rightarrow> []
           | Some deps \<Rightarrow> map (\<lambda>(key, rawSchema).
                if \<not> has_key obj key then None
                else (case schemaMap rawSchema of None \<Rightarrow> None | Some s \<Rightarrow> validateValue env s value path)) deps)
        @ concat (map (\<lambda>(pattern, rawSchema).
              case regexp_compile env pattern of
                Inl err \<Rightarrow> [Some (path @ '' has invalid patternProperties pattern ''
                                 @ Quote (go_env.truncate env) pattern @ '': '' @ err)]
              | Inr matches \<Rightarrow> (case schemaMap rawSchema of None \<Rightarrow> []
                  | Some s \<Rightarrow> map (\<lambda>(key, child).
                        if \<not> matches key then None else validateValue env s child (path @ ''.'' @ key)) obj))
            (pattern_schemas schema))
        @ dependent_required_checks schema obj path
        @ (case schemaMap (field schema ''additionalProperties'') of
             Some s \<Rightarrow> map (\<lambda>(key, child).
                 if \<not> undefined_key env schema key then None
                 else validateValue env s child (path @ ''.'' @ key)) obj
           | None \<Rightarrow>
               if field schema ''additionalProperties'' = AnyBool False then
                 map (\<lambda>(key, child). error_if (undefined_key env schema key) (path @ ''.'' @ key @ '' is not allowed'')) obj
               else [])
      | _ \<Rightarrow> []))"
  by pat_completeness auto
termination validateValue
  by (relation "measure (\<lambda>(env, schema, value, path). map_weight schema)") (auto intro: schema_weights)

declare validateValue.simps [simp del]

definition ValidateSchema :: "schema_env \<Rightarrow> go_map \<Rightarrow> raw_message \<Rightarrow> string option" where
  "ValidateSchema env schema raw =
     (if schema = [] then None
      else (case raw_value (normalizeRawInput raw) of
          None \<Rightarrow> Some (json_error env (raw_text raw))
        | Some v \<Rightarrow> validateValue env schema (any_of_json v) ''input''))"

end
