(* ===== verification/ToolFunc.thy ===== *)
theory ToolFunc
  imports ToolSchema EngineLaws
begin

text \<open>
  \<open>internal/tool/func_tool.go\<close>: the tools made of functions, and the permission deciders that they
  ask: the engine's, the built-in MCP server's (\<open>internal/mcp/builtin_server.go\<close>) and the
  allowlist of a subagent (\<open>internal/conversation/task_agent.go\<close>).
\<close>

section \<open>Reading the input\<close>

definition firstInputString :: "raw_message \<Rightarrow> string list \<Rightarrow> string" where
  "firstInputString raw keys = (case unmarshal_object raw of None \<Rightarrow> [] | Some obj \<Rightarrow> first_string obj keys)"

fun first_bool :: "(string \<rightharpoonup> json) \<Rightarrow> (string \<Rightarrow> bool) \<Rightarrow> string list \<Rightarrow> bool" where
  "first_bool obj is_true [] = False"
| "first_bool obj is_true (key # keys) =
     (case obj key of
        Some (JBool value) \<Rightarrow> value
      | Some (JStr value) \<Rightarrow> is_true value
      | _ \<Rightarrow> first_bool obj is_true keys)"

definition firstInputBool :: "raw_message \<Rightarrow> string list \<Rightarrow> bool" where
  "firstInputBool raw keys =
     (case unmarshal_object raw of None \<Rightarrow> False
      | Some obj \<Rightarrow> first_bool obj (\<lambda>value. value = ''true'') keys)"

fun first_trimmed :: "(string \<rightharpoonup> json) \<Rightarrow> string list \<Rightarrow> string" where
  "first_trimmed obj [] = []"
| "first_trimmed obj (key # keys) =
     (case obj key of
        Some (JStr value) \<Rightarrow> if TrimSpace value \<noteq> [] then TrimSpace value else first_trimmed obj keys
      | _ \<Rightarrow> first_trimmed obj keys)"

definition taskFirstInputString :: "raw_message \<Rightarrow> string list \<Rightarrow> string" where
  "taskFirstInputString raw keys = (case unmarshal_object raw of None \<Rightarrow> [] | Some obj \<Rightarrow> first_trimmed obj keys)"

definition taskFirstInputBool :: "go_env \<Rightarrow> raw_message \<Rightarrow> string list \<Rightarrow> bool" where
  "taskFirstInputBool env raw keys =
     (case unmarshal_object raw of None \<Rightarrow> False
      | Some obj \<Rightarrow> first_bool obj (\<lambda>value. EqualFold env (TrimSpace value) ''true'') keys)"

definition InternalPathContextFromMetadata :: "Metadata \<Rightarrow> InternalPathContext" where
  "InternalPathContextFromMetadata metadata =
     (case mdInternalPaths metadata of Some value \<Rightarrow> value | None \<Rightarrow> no_internal_paths)"

section \<open>Deciders\<close>

text \<open>What a decider reads of the tool and of the context.\<close>

record tool_facts =
  factName :: string
  factReadOnly :: "raw_message \<Rightarrow> bool"
  factDestructive :: "raw_message \<Rightarrow> bool"

record context_facts =
  factDirectory :: string
  factMetadata :: Metadata

abbreviation command_keys :: "string list" where "command_keys \<equiv> [''command'', ''cmd'']"
abbreviation path_keys :: "string list" where "path_keys \<equiv> [''file_path'', ''notebook_path'', ''path'']"
abbreviation sandbox_keys :: "string list" where
  "sandbox_keys \<equiv> [''dangerouslyDisableSandbox'', ''dangerously_disable_sandbox'']"

definition engine_request :: "tool_facts \<Rightarrow> raw_message \<Rightarrow> context_facts \<Rightarrow> Request" where
  "engine_request t raw0 ctx =
     (let raw = normalizeRawInput raw0 in
      \<lparr>reqToolUseID = [], reqToolName = factName t, reqInput = raw,
       reqCommand = firstInputString raw command_keys, reqPath = firstInputString raw path_keys,
       reqWorkingDirectory = factDirectory ctx, reqReadOnly = factReadOnly t raw,
       reqWritesFiles = (\<not> factReadOnly t raw \<and> \<not> factDestructive t raw), reqDestructive = factDestructive t raw,
       reqDangerouslyDisableSandbox = firstInputBool raw sandbox_keys,
       reqInternalPaths = InternalPathContextFromMetadata (factMetadata ctx)\<rparr>)"

definition taskPermissionRequest :: "go_env \<Rightarrow> tool_facts \<Rightarrow> raw_message \<Rightarrow> context_facts \<Rightarrow> Request" where
  "taskPermissionRequest env t raw ctx =
     \<lparr>reqToolUseID = [], reqToolName = factName t, reqInput = raw,
      reqCommand = taskFirstInputString raw command_keys, reqPath = taskFirstInputString raw path_keys,
      reqWorkingDirectory = factDirectory ctx, reqReadOnly = factReadOnly t raw,
      reqWritesFiles = (\<not> factReadOnly t raw \<and> \<not> factDestructive t raw), reqDestructive = factDestructive t raw,
      reqDangerouslyDisableSandbox = taskFirstInputBool env raw sandbox_keys,
      reqInternalPaths = InternalPathContextFromMetadata (factMetadata ctx)\<rparr>"

definition taskPermissionRuleMatchesTool :: "go_env \<Rightarrow> Rule \<Rightarrow> string \<Rightarrow> bool" where
  "taskPermissionRuleMatchesTool env rule name0 =
     (let pattern = TrimSpace (ruleToolName rule); name = TrimSpace name0 in
      if pattern = ''*'' then True
      else if EqualFold env pattern name then True
      else Match pattern name)"

fun scoped_loop :: "go_env \<Rightarrow> bool \<Rightarrow> Rule list \<Rightarrow> string \<Rightarrow> bool" where
  "scoped_loop env scoped [] name = scoped"
| "scoped_loop env scoped (rule # rules) name =
     (if \<not> taskPermissionRuleMatchesTool env rule name then scoped_loop env scoped rules name
      else if rulePattern rule = [] \<or> rulePattern rule = ''*'' then False
      else scoped_loop env True rules name)"

definition taskPermissionToolHasScopedRules :: "go_env \<Rightarrow> Rule list \<Rightarrow> string \<Rightarrow> bool" where
  "taskPermissionToolHasScopedRules env rules name = scoped_loop env False rules name"

definition taskPermissionAnyRuleMatches :: "go_env \<Rightarrow> Rule list \<Rightarrow> Request \<Rightarrow> bool" where
  "taskPermissionAnyRuleMatches env rules req = list_ex (\<lambda>rule. Rule_Matches env rule req) rules"

definition plain_decision :: "PermissionBehavior \<Rightarrow> string \<Rightarrow> string \<Rightarrow> PermissionDecision" where
  "plain_decision behavior message reason =
     \<lparr>decBehavior = behavior, decMessage = message, decReason = reason, decToolUseID = [], decBlockedPath = []\<rparr>"

fun DecideTool :: "go_env \<Rightarrow> decider \<Rightarrow> tool_facts \<Rightarrow> raw_message \<Rightarrow> context_facts \<Rightarrow> PermissionDecision" where
  "DecideTool env (EnginePermissionDecider e) t raw ctx = Decide env e (engine_request t raw ctx)"
| "DecideTool env (readOnlyMCPPermissionDecider allowMutating) t raw ctx =
     (if allowMutating \<or> factReadOnly t raw then
        plain_decision PermissionAllow [] ''mcp builtin server policy''
      else plain_decision PermissionDeny ''mutating tools are disabled for this MCP server''
             ''mcp builtin server read-only policy'')"
| "DecideTool env (taskSubagentScopedPermissionDecider base rules) t raw ctx =
     (let req = taskPermissionRequest env t raw ctx in
      if taskPermissionToolHasScopedRules env rules (reqToolName req) \<and> \<not> taskPermissionAnyRuleMatches env rules req then
        plain_decision PermissionDeny (reqToolName req @ '' is not allowed by this agent'' @ [squote] @ ''s tool allowlist'')
          ''agent allowed-tools pattern did not match''
      else (case base of
          Some d \<Rightarrow> DecideTool env d t raw ctx
        | None \<Rightarrow> plain_decision PermissionAllow [] ''agent tool allowlist matched''))"

section \<open>The deciders of a subagent\<close>

fun allowlist_rules :: "string list \<Rightarrow> Rule list" where
  "allowlist_rules [] = []"
| "allowlist_rules (raw0 # rest) =
     (let raw = TrimSpace raw0 in
      if raw = [] \<or> raw = ''*'' then allowlist_rules rest
      else (case ParseRule PermissionSourceSession PermissionAllow raw of
          Inl err \<Rightarrow> allowlist_rules rest
        | Inr rule \<Rightarrow> rule # allowlist_rules rest))"

definition taskSubagentAllowedToolPermissionRules :: "string list \<Rightarrow> Rule list" where
  "taskSubagentAllowedToolPermissionRules allowedTools = allowlist_rules allowedTools"

definition taskPermissionDeciderWithRules :: "decider option \<Rightarrow> Rule list \<Rightarrow> decider option" where
  "taskPermissionDeciderWithRules base rules =
     (if rules = [] then base
      else (case base of
          Some (EnginePermissionDecider e) \<Rightarrow>
            Some (EnginePermissionDecider (NewEngine (engContext e) (engRules e @ rules)))
        | _ \<Rightarrow> base))"

definition taskSubagentAllowedToolPermissions :: "decider option \<Rightarrow> string list \<Rightarrow> decider option" where
  "taskSubagentAllowedToolPermissions base allowedTools =
     (let rules = taskSubagentAllowedToolPermissionRules allowedTools in
      if rules = [] then base
      else Some (taskSubagentScopedPermissionDecider (taskPermissionDeciderWithRules base rules) rules))"

section \<open>Tools made of functions\<close>

record 'w FuncTool =
  DefinitionValue :: ToolDefinition
  NormalizeFunc :: "(raw_message \<Rightarrow> string + raw_message) option"
  ValidateFunc :: "('w Context \<Rightarrow> raw_message \<Rightarrow> 'w \<Rightarrow> string option \<times> 'w) option"
  PermissionFunc :: "('w Context \<Rightarrow> raw_message \<Rightarrow> 'w \<Rightarrow> (string + PermissionDecision) \<times> 'w) option"
  CallFunc :: "('w Context \<Rightarrow> raw_message \<Rightarrow> 'w \<Rightarrow> ((ToolResult \<times> string option) \<times> ToolProgress list) \<times> 'w) option"
  ReadOnlyFunc :: "(raw_message \<Rightarrow> bool) option"
  ConcurrencyFunc :: "(raw_message \<Rightarrow> bool) option"
  DestructiveFunc :: "(raw_message \<Rightarrow> bool) option"
  InterruptValue :: string
  MaxResultSize :: int
  PromptFunc :: "(PromptContext \<Rightarrow> string + string) option"
  InputSchemaFunc :: "(PromptContext \<Rightarrow> go_map) option"

definition normalizeInput :: "'w FuncTool \<Rightarrow> raw_message \<Rightarrow> string + raw_message" where
  "normalizeInput t raw =
     (let normalized = normalizeRawInput raw in
      case NormalizeFunc t of None \<Rightarrow> Inr normalized | Some f \<Rightarrow> f normalized)"

definition fn_InputSchema :: "'w FuncTool \<Rightarrow> PromptContext \<Rightarrow> go_map" where
  "fn_InputSchema t ctx =
     (case InputSchemaFunc t of Some f \<Rightarrow> f ctx | None \<Rightarrow> defInputSchema (DefinitionValue t))"

definition fn_Prompt :: "'w FuncTool \<Rightarrow> PromptContext \<Rightarrow> string + string" where
  "fn_Prompt t ctx = (case PromptFunc t of Some f \<Rightarrow> f ctx | None \<Rightarrow> Inr (defPrompt (DefinitionValue t)))"

definition fn_predicate :: "'w FuncTool \<Rightarrow> (raw_message \<Rightarrow> bool) option \<Rightarrow> bool \<Rightarrow> raw_message \<Rightarrow> bool" where
  "fn_predicate t f otherwise raw =
     (case f of None \<Rightarrow> otherwise
      | Some p \<Rightarrow> p (case normalizeInput t raw of Inl err \<Rightarrow> normalizeRawInput raw | Inr normalized \<Rightarrow> normalized))"

definition fn_IsReadOnly :: "'w FuncTool \<Rightarrow> raw_message \<Rightarrow> bool" where
  "fn_IsReadOnly t = fn_predicate t (ReadOnlyFunc t) (defReadOnly (DefinitionValue t))"

definition fn_IsConcurrencySafe :: "'w FuncTool \<Rightarrow> raw_message \<Rightarrow> bool" where
  "fn_IsConcurrencySafe t = fn_predicate t (ConcurrencyFunc t) (defConcurrencySafe (DefinitionValue t))"

definition fn_IsDestructive :: "'w FuncTool \<Rightarrow> raw_message \<Rightarrow> bool" where
  "fn_IsDestructive t = fn_predicate t (DestructiveFunc t) (defDestructive (DefinitionValue t))"

definition fn_InterruptBehavior :: "'w FuncTool \<Rightarrow> string" where
  "fn_InterruptBehavior t =
     (if InterruptValue t \<noteq> [] then InterruptValue t
      else if defInterruptBehavior (DefinitionValue t) \<noteq> [] then defInterruptBehavior (DefinitionValue t)
      else ''block'')"

definition fn_MaxResultSizeChars :: "'w FuncTool \<Rightarrow> int" where
  "fn_MaxResultSizeChars t =
     (if MaxResultSize t \<noteq> 0 then MaxResultSize t else defMaxResultSizeChars (DefinitionValue t))"

definition fn_ContractDefinition :: "'w FuncTool \<Rightarrow> PromptContext \<Rightarrow> string + ToolDefinition" where
  "fn_ContractDefinition t ctx =
     (case fn_Prompt t ctx of Inl err \<Rightarrow> Inl err
      | Inr prompt \<Rightarrow> Inr ((DefinitionValue t)
          \<lparr>defPrompt := prompt, defInputSchema := fn_InputSchema t ctx, defReadOnly := fn_IsReadOnly t no_input,
           defConcurrencySafe := fn_IsConcurrencySafe t no_input, defDestructive := fn_IsDestructive t no_input,
           defInterruptBehavior := fn_InterruptBehavior t, defMaxResultSizeChars := fn_MaxResultSizeChars t\<rparr>))"

definition validationSchema :: "'w FuncTool \<Rightarrow> 'w Context \<Rightarrow> go_map" where
  "validationSchema t ctx =
     (if InputSchemaFunc t = None then defInputSchema (DefinitionValue t)
      else fn_InputSchema t \<lparr>pcModel = [], pcWorkingDirectory = cxWorkingDirectory ctx, pcMetadata = cxMetadata ctx\<rparr>)"

definition fn_Validate :: "schema_env \<Rightarrow> 'w FuncTool \<Rightarrow> 'w Context \<Rightarrow> raw_message \<Rightarrow> 'w \<Rightarrow> string option \<times> 'w" where
  "fn_Validate env t ctx raw w =
     (case normalizeInput t raw of Inl err \<Rightarrow> (Some err, w)
      | Inr normalized \<Rightarrow>
        (case ValidateSchema env (validationSchema t ctx) normalized of
           Some err \<Rightarrow> (Some err, w)
         | None \<Rightarrow> (case ValidateFunc t of Some f \<Rightarrow> f ctx normalized w | None \<Rightarrow> (None, w))))"

definition fn_facts :: "'w FuncTool \<Rightarrow> tool_facts" where
  "fn_facts t = \<lparr>factName = defName (DefinitionValue t), factReadOnly = fn_IsReadOnly t, factDestructive = fn_IsDestructive t\<rparr>"

definition fn_context :: "'w Context \<Rightarrow> context_facts" where
  "fn_context ctx = \<lparr>factDirectory = cxWorkingDirectory ctx, factMetadata = cxMetadata ctx\<rparr>"

definition fn_CheckPermissions ::
  "schema_env \<Rightarrow> 'w FuncTool \<Rightarrow> 'w Context \<Rightarrow> raw_message \<Rightarrow> 'w \<Rightarrow> (string + PermissionDecision) \<times> 'w" where
  "fn_CheckPermissions env t ctx raw w =
     (case normalizeInput t raw of Inl err \<Rightarrow> (Inl err, w)
      | Inr normalized \<Rightarrow>
        (case PermissionFunc t of Some f \<Rightarrow> f ctx normalized w
         | None \<Rightarrow>
           (case cxPermissions ctx of
              None \<Rightarrow> (Inr (plain_decision PermissionAllow [] ''no permission engine configured''), w)
            | Some d \<Rightarrow> (Inr (DecideTool (go_env.truncate env) d (fn_facts t) normalized (fn_context ctx)), w))))"

definition fn_Call ::
  "'w FuncTool \<Rightarrow> 'w Context \<Rightarrow> raw_message \<Rightarrow> 'w \<Rightarrow> ((ToolResult \<times> string option) \<times> ToolProgress list) \<times> 'w" where
  "fn_Call t ctx raw w =
     (let nothing = \<lparr>resToolUseID = [], resContent = AnyNil, resIsError = False, resNewMessages = [],
                     resStructuredContent = [], resMeta = []\<rparr> in
      case CallFunc t of None \<Rightarrow> (((nothing, Some ''tool has no call function''), []), w)
      | Some f \<Rightarrow>
        (case normalizeInput t raw of Inl err \<Rightarrow> (((nothing, Some err), []), w)
         | Inr normalized \<Rightarrow> f ctx normalized w))"

definition func_tool :: "schema_env \<Rightarrow> 'w FuncTool \<Rightarrow> 'w Tool" where
  "func_tool env t =
     \<lparr>toolName = defName (DefinitionValue t), toolAliases = defAliases (DefinitionValue t),
      toolInputSchema = fn_InputSchema t, toolPrompt = fn_Prompt t,
      toolContractDefinition = Some (fn_ContractDefinition t),
      toolValidate = fn_Validate env t, toolCheckPermissions = fn_CheckPermissions env t, toolCall = fn_Call t,
      toolIsReadOnly = fn_IsReadOnly t, toolIsConcurrencySafe = fn_IsConcurrencySafe t,
      toolIsDestructive = fn_IsDestructive t, toolInterruptBehavior = fn_InterruptBehavior t,
      toolMaxResultSizeChars = fn_MaxResultSizeChars t\<rparr>"

end
