(* ===== verification/ToolProps.thy ===== *)
theory ToolProps
  imports RegistryLaws RunLaws ResultLaws ToolFunc PermProps
begin

text \<open>
  The properties of the tool runtime: the registry, the batches and the pool of the orchestrator,
  what an execution may do before it calls a tool and what it reports, and how the deciders of the
  permission system take part.
\<close>

section \<open>Concrete values for the witnesses\<close>

definition example_schema_env :: schema_env where
  "example_schema_env = go_env.extend example_env
     \<lparr>float_div = (\<lambda>a b. a / b), format_v = (\<lambda>_. []), format_g = (\<lambda>_. []), format_other = (\<lambda>_. []),
      regexp_compile = (\<lambda>_. Inr (\<lambda>_. True)), json_error = id\<rparr>"

definition example_definition :: "string \<Rightarrow> bool \<Rightarrow> ToolDefinition" where
  "example_definition name safe =
     \<lparr>defName = name, defAliases = [name @ ''Tool''], defDescription = [], defPrompt = [], defSearchHint = [],
      defInputSchema = [], defReadOnly = safe, defDestructive = False, defConcurrencySafe = safe, defShouldDefer = False,
      defAlwaysLoad = False, defMaxResultSizeChars = 100, defStrict = False, defEagerInputStreaming = False,
      defRequiresInteraction = False, defInterruptBehavior = [], defMCP = None\<rparr>"

definition example_func :: "string \<Rightarrow> bool \<Rightarrow> unit FuncTool" where
  "example_func name safe =
     \<lparr>DefinitionValue = example_definition name safe, NormalizeFunc = None, ValidateFunc = None, PermissionFunc = None,
      CallFunc = Some (\<lambda>ctx raw w. (((empty_result\<lparr>resContent := AnyString ''output''\<rparr>, None), []), w)),
      ReadOnlyFunc = None, ConcurrencyFunc = None, DestructiveFunc = None, InterruptValue = [], MaxResultSize = 0,
      PromptFunc = None, InputSchemaFunc = None\<rparr>"

definition example_tool :: "string \<Rightarrow> bool \<Rightarrow> unit Tool" where
  "example_tool name safe = func_tool example_schema_env (example_func name safe)"

definition example_registry :: "unit Registry" where
  "example_registry =
     (case NewRegistry example_env [Some (example_tool ''Bash'' False), Some (example_tool ''Read'' True)] of
        Inr r \<Rightarrow> r | Inl _ \<Rightarrow> empty_registry)"

definition example_system :: "unit system" where
  "example_system = \<lparr>sysEnv = example_env, sysNewID = (\<lambda>w. (''id'', w)), sysWriteFile = (\<lambda>_ _ w. w)\<rparr>"

definition example_executor :: "unit Executor" where
  "example_executor = \<lparr>exRegistry = Some example_registry, exResultStoreDir = ''/tmp/r'', exHooks = []\<rparr>"

definition example_context :: "decider option \<Rightarrow> unit Context" where
  "example_context permissions =
     \<lparr>cxContext = None, cxWorkingDirectory = ''/work'', cxSessionID = ''s'',
      cxPermissions = permissions,
      cxMetadata = \<lparr>mdInternalPaths = None, mdMessages = None, mdModel = []\<rparr>\<rparr>"

definition example_use :: "string \<Rightarrow> ToolUse" where
  "example_use name =
     \<lparr>useID = ''u1'', useName = name,
      useInput = \<lparr>raw_text = ''{}'', raw_value = Some (JObj [])\<rparr>\<rparr>"

lemma example_new_registry:
  "NewRegistry example_env [Some (example_tool ''Bash'' False), Some (example_tool ''Read'' True)] = Inr example_registry"
proof -
  have "\<not> isl (NewRegistry example_env [Some (example_tool ''Bash'' False), Some (example_tool ''Read'' True)])"
    by code_simp
  then show ?thesis by (auto simp: example_registry_def split: sum.split)
qed

lemma example_names:
  "normalizeName example_env (TrimSpace ''Read'') = ''read''" "normalizeName example_env ''Read'' = ''read''"
  "normalizeName example_env (TrimSpace ''Bash'') = ''bash''" "normalizeName example_env ''Bash'' = ''bash''"
  "normalizeName example_env ''ReadTool'' = ''readtool''" "normalizeName example_env ''BashTool'' = ''bashtool''"
  "TrimSpace ''Read'' = ''Read''" "TrimSpace ''Bash'' = ''Bash''"
  by code_simp+

lemma example_tool_names [simp]:
  "toolName (example_tool name safe) = name" "toolAliases (example_tool name safe) = [name @ ''Tool'']"
  by (simp_all add: example_tool_def func_tool_def example_func_def example_definition_def)

lemma example_registered:
  "NewRegistry example_env [Some (example_tool ''Bash'' False), Some (example_tool ''Read'' True)]
   = Inr \<lparr>regTools = [''bash'' \<mapsto> example_tool ''Bash'' False, ''read'' \<mapsto> example_tool ''Read'' True],
          regAliases = [''bashtool'' \<mapsto> ''bash'', ''readtool'' \<mapsto> ''read''], regOrder = [''bash'', ''read'']\<rparr>"
  by (simp add: NewRegistry_def empty_registry_def Register_def Let_def example_names)

lemma example_lookup:
  "Lookup example_env example_registry ''Bash'' = Some (example_tool ''Bash'' False)"
  "Lookup example_env example_registry ''Read'' = Some (example_tool ''Read'' True)"
  by (simp_all add: example_registry_def example_registered Lookup_def example_names)

definition example_decider :: decider where
  "example_decider = EnginePermissionDecider (example_engine ''default'' [example_rule ''deny'' ''Bash'' ''rm:*''])"

abbreviation example_raw :: raw_message where
  "example_raw \<equiv> \<lparr>raw_text = ''{}'', raw_value = Some (JObj [])\<rparr>"

lemma example_valid:
  "toolValidate (example_tool ''Read'' True) ctx example_raw w = (None, w)"
  by (simp add: example_tool_def func_tool_def fn_Validate_def example_func_def example_definition_def
      normalizeInput_def normalizeRawInput_def validationSchema_def ValidateSchema_def)

lemma example_checked:
  "\<exists>d. toolCheckPermissions (example_tool ''Read'' True) (example_context (Some example_decider)) example_raw w = (Inr d, w) \<and>
     decBehavior d = PermissionAllow"
proof -
  let ?req = "engine_request (fn_facts (example_func ''Read'' True)) example_raw (fn_context (example_context (Some example_decider)))"
  have "decBehavior (DecideTool example_env example_decider (fn_facts (example_func ''Read'' True)) example_raw
      (fn_context (example_context (Some example_decider)))) = PermissionAllow"
    by code_simp
  moreover have "go_env.truncate example_schema_env = example_env"
    by (simp add: example_schema_env_def go_env.defs example_env_def)
  ultimately show ?thesis
    by (simp add: example_tool_def func_tool_def fn_CheckPermissions_def example_func_def
        normalizeInput_def normalizeRawInput_def example_context_def)
qed

lemma example_called:
  "toolCall (example_tool ''Read'' True) ctx example_raw w
   = (((empty_result\<lparr>resContent := AnyString ''output''\<rparr>, None), []), w)"
  by (simp add: example_tool_def func_tool_def fn_Call_def example_func_def
      normalizeInput_def normalizeRawInput_def)

lemma example_max [simp]: "toolMaxResultSizeChars (example_tool name safe) = 100"
  by (simp add: example_tool_def func_tool_def fn_MaxResultSizeChars_def example_func_def example_definition_def)

lemma example_quiet: "quiet_tool (example_tool name safe)"
  by (auto simp: quiet_tool_def example_tool_def func_tool_def fn_Call_def example_func_def Let_def split: sum.split)

definition example_read_rule :: Rule where
  "example_read_rule = \<lparr>ruleSource = PermissionSourceSession, ruleBehavior = PermissionAllow, ruleToolName = ''Read'',
     rulePattern = ''*'', ruleRaw = ''Read''\<rparr>"

text \<open>A run of the example tool: it is checked, called and completes.\<close>

definition example_actions :: "PermissionDecision \<Rightarrow> action list" where
  "example_actions d =
     [Validated example_raw None, Validated example_raw None,
      Sent \<lparr>prgToolUseID = ''u1'', prgType = ''started'', prgData = [(''tool'', AnyString ''Read'')]\<rparr>,
      Checked example_raw (Inr d), Called example_raw,
      Sent \<lparr>prgToolUseID = ''u1'', prgType = ''completed'', prgData = [(''tool'', AnyString ''Read'')]\<rparr>]"

lemma example_run:
  obtains d where "Execute example_system example_executor (example_context (Some example_decider)) (example_use ''Read'') ()
      = ((empty_result\<lparr>resToolUseID := ''u1'', resContent := AnyString ''output''\<rparr>, None), example_actions d, ())"
    "decBehavior d = PermissionAllow"
  using example_checked
  by (auto simp: Execute_def then_p_def look_def contextError_def example_context_def example_executor_def example_system_def
     example_lookup prepare_def Let_def then_e_def validate_def ask_world_def done_p_def example_valid normalizeRawInput_def
     example_use_def runPreHooks_def hooksForPhase_def map_filter_simps check_context_def SendProgress_def act_def authorize_def
     perform_def call_tool_def example_called limitResult_def runPostHooks_def finish_def empty_result_def example_actions_def)

section \<open>The registry\<close>

text \<open>C21: A registry made of tools keeps its invariant, and a name finds a tool exactly when the tool
  is one of those the registry was made of and the name is, but for case and surrounding space,
  the tool's name or one of its aliases. So no two of the tools answer to one name.\<close>

theorem registry_of_tools:
  assumes "NewRegistry env (map Some ts) = Inr r"
  shows "registry_inv env r \<and>
    (\<forall>n t. Lookup env r n = Some t \<longleftrightarrow> t \<in> set ts \<and> normalizeName env n \<in> tool_keys env t)"
proof -
  have all: "tools.add_all env ts empty_registry = Some r"
    using assms by (simp add: NewRegistry_def register_all_add_all)
  have none: "Lookup env empty_registry n = None" for n
    by (simp add: Lookup_def empty_registry_def Let_def)
  have "Lookup env r n = Some t \<longleftrightarrow> t \<in> set ts \<and> normalizeName env n \<in> tool_keys env t" for n t
    using tools.find_added[OF registry_inv_empty all] tools.find_only_added[OF registry_inv_empty all] none
    by (metis option.distinct(1))
  then show ?thesis using tools.inv_add_all[OF registry_inv_empty all] by blast
qed

theorem registry_of_tools_witness:
  "Lookup example_env example_registry ''READTOOL'' = Some (example_tool ''Read'' True)"
proof -
  have "NewRegistry example_env (map Some [example_tool ''Bash'' False, example_tool ''Read'' True]) = Inr example_registry"
    by (simp add: example_registry_def example_registered)
  from registry_of_tools[OF this] have "Lookup example_env example_registry ''READTOOL'' = Some (example_tool ''Read'' True) \<longleftrightarrow>
      normalizeName example_env ''READTOOL'' \<in> tool_keys example_env (example_tool ''Read'' True)" by simp
  moreover have "normalizeName example_env ''READTOOL'' = ''readtool''" by code_simp
  ultimately show ?thesis by (simp add: tool_keys_def example_names)
qed

text \<open>A tool is registered exactly when its name is not blank, no alias is blank, and no name or
  alias that the registry holds is one of the tool's; otherwise the registry reports an error, and
  a nil tool is always an error.\<close>

theorem register_succeeds_iff:
  "(\<exists>r'. Register env tool r = Inr r') \<longleftrightarrow>
   (case tool of None \<Rightarrow> False
    | Some t \<Rightarrow> TrimSpace (toolName t) \<noteq> [] \<and> [] \<notin> normalizeName env ` set (toolAliases t) \<and>
        tool_keys env t \<inter> (dom (regTools r) \<union> dom (regAliases r)) = {})"
proof (cases tool)
  case None
  then show ?thesis by (simp add: Register_def)
next
  case (Some t)
  have "alias_error env r (TrimSpace (toolName t)) (toolAliases t) = None \<longleftrightarrow>
      [] \<notin> normalizeName env ` set (toolAliases t) \<and>
      normalizeName env ` set (toolAliases t) \<inter> (dom (regTools r) \<union> dom (regAliases r)) = {}"
    by (auto simp: alias_error_None image_iff) (metis (full_types))?
  then show ?thesis
    using Some by (auto simp: Register_def Let_def tool_keys_def split: option.split)
qed

section \<open>The orchestrator\<close>

text \<open>C20: The batches of a list of tool uses are the only ones that hold the uses in their order, put
  in one batch only uses of the same safety, leave every unsafe use alone, and never have two safe
  batches next to each other.\<close>

theorem partition_characterized:
  "bs = partitionToolCalls env registry uses \<longleftrightarrow> batches_ok (use_is_safe env registry) uses bs"
  using partition_ok batches_ok_unique unfolding partitionToolCalls_def by blast

text \<open>C19: A concurrent batch ends. Whatever the order in which goroutines run, at most three steps
  for each use and two more are possible, never more goroutines than the limit run at once, and
  when no step is possible all the uses are done, unless the context was done before.\<close>

theorem concurrent_batch_ends:
  assumes "0 < limit" "(batch_step sys e ctx uses limit ^^ k) (first_pool uses w) p"
  shows "k \<le> 3 * length uses + 2 \<and> length (poolRunning p) \<le> limit \<and>
    (pool_done uses p \<or> poolStopped p \<or> (\<exists>p'. batch_step sys e ctx uses limit p p'))"
proof -
  have inv: "pool_inv sys e ctx uses limit p"
    using assms(2) by (intro pool_inv_reachable) (rule relpowp_imp_rtranclp)
  then show ?thesis
    using pool_left_steps[OF assms(2)] pool_progress[OF inv assms(1)] by (auto simp: pool_inv_def)
qed

theorem concurrent_batch_ends_witness:
  "\<exists>p. batch_step example_system example_executor (example_context None) [example_use ''Read'', example_use ''Read''] 1
     (first_pool [example_use ''Read'', example_use ''Read''] ()) p"
proof -
  let ?uses = "[example_use ''Read'', example_use ''Read'']"
  have "(batch_step example_system example_executor (example_context None) ?uses 1 ^^ 0) (first_pool ?uses ()) (first_pool ?uses ())"
    by simp
  from concurrent_batch_ends[OF _ this] show ?thesis by (simp add: pool_done_def first_pool_def)
qed

text \<open>C18: Without cancellation \<open>RunTools\<close> answers: it has a run, and every run sends exactly one
  finished update for each use, in the order of the uses, whose result is that of an execution of
  that use, however the concurrent batches were scheduled.\<close>

theorem run_answers_every_use:
  assumes "\<And>v. \<not> cancelled ctx v"
  shows "(\<exists>us w'. RunTools sys e ctx uses m w us w') \<and>
    (\<forall>us w'. RunTools sys e ctx uses m w us w' \<longrightarrow> list_all2 (is_update sys e ctx) uses us)"
proof -
  let ?bs = "partitionToolCalls (sysEnv sys) (exRegistry e) uses"
  have ok: "batches_ok (use_is_safe (sysEnv sys) (exRegistry e)) uses ?bs" by (rule partition_ok)
  then have "list_all (\<lambda>b. batchUses b \<noteq> []) ?bs" "concat (map batchUses ?bs) = uses"
    by (auto simp: batches_ok_def batch_ok_def list_all_iff)
  then show ?thesis
    using run_batches_total[OF assms] run_batches_updates[of sys e ctx m ?bs w] assms
    unfolding RunTools_def by metis
qed

theorem run_answers_every_use_witness:
  "\<exists>u v w'. RunTools example_system example_executor (example_context None) [example_use ''Read'', example_use ''Bash''] 4 () [u, v] w'"
proof -
  have "\<not> cancelled (example_context None) v" for v by (simp add: cancelled_def example_context_def)
  from run_answers_every_use[OF this, of example_system example_executor "[example_use ''Read'', example_use ''Bash'']" 4 "()"]
  obtain us w' where run: "RunTools example_system example_executor (example_context None) [example_use ''Read'', example_use ''Bash''] 4 () us w'"
    and all: "list_all2 (is_update example_system example_executor (example_context None)) [example_use ''Read'', example_use ''Bash''] us"
    by blast
  from all obtain u v where "us = [u, v]" by (auto simp: list_all2_Cons1)
  with run show ?thesis by blast
qed

section \<open>One execution\<close>

lemma executed_call:
  assumes "Execute sys e ctx use w = (out, es, w')" "Called raw \<in> set es"
  shows "called_outcome sys e ctx use es out"
  using wpD[OF Execute_spec assms(1)] calls_iff[of raw es] assms(2) by (auto simp: refused_outcome_def)

lemma call_split:
  "es1 @ Called r1 # es2 = es3 @ Called r3 # es4 \<Longrightarrow> calls es1 = [] \<Longrightarrow> calls es2 = [] \<Longrightarrow>
   es1 = es3 \<and> r1 = r3 \<and> es2 = es4"
proof (induction es1 arbitrary: es3)
  case Nil
  then show ?case by (cases es3) auto
next
  case (Cons a es1)
  then show ?case by (cases es3; cases a) auto
qed

text \<open>C4: A tool is called at most once in an execution, and only after the name of the use was found
  in the registry, the tool's validation accepted the very input of the call, and the tool's
  permission check granted it: a decision that does not deny, and if it asks, a hook that decided
  otherwise after it. When no hook supplied an input, the checked input is the called one.\<close>

theorem no_call_without_clearance:
  assumes "Execute sys e ctx use w = (out, es, w')" "es = before @ Called raw # after"
  shows "calls before = [] \<and> calls after = [] \<and> cleared sys e ctx use raw before"
proof -
  have "Called raw \<in> set es" using assms(2) by simp
  from executed_call[OF assms(1) this] obtain raw1 before1 after1 where
    c: "es = before1 @ Called raw1 # after1" "calls before1 = []" "calls after1 = []" "cleared sys e ctx use raw1 before1"
    unfolding called_outcome_def by blast
  from call_split[OF c(1)[unfolded assms(2), symmetric] c(2,3)] c show ?thesis by simp
qed

theorem no_call_without_clearance_witness:
  "\<exists>d. cleared example_system example_executor (example_context (Some example_decider)) (example_use ''Read'') example_raw
     (take 4 (example_actions d))"
proof -
  obtain d out where "Execute example_system example_executor (example_context (Some example_decider)) (example_use ''Read'') ()
      = (out, example_actions d, ())" by (metis example_run)
  from no_call_without_clearance[OF this, of "take 4 (example_actions d)" example_raw "drop 5 (example_actions d)"]
  show ?thesis by (auto simp: example_actions_def)
qed

text \<open>C17: What an execution reports. When the tool itself sends no signal of the executor, the
  signals of an execution are none, or \<open>started\<close> and one final signal, or \<open>started\<close> alone when the
  input that a hook approved fails its validation; the execution returns without an error exactly
  when it reports \<open>completed\<close>; and an execution with an error gives an error result.\<close>

theorem progress_protocol:
  assumes "Execute sys e ctx use w = (out, es, w')"
    and "\<And>registry t. exRegistry e = Some registry \<Longrightarrow> Lookup (sysEnv sys) registry (useName use) = Some t \<Longrightarrow> quiet_tool t"
  shows "(signals es \<in> {[], [''started'']} \<or> (\<exists>x \<in> set final_signals. signals es = [''started'', x])) \<and>
    (signals es = [''started''] \<longrightarrow> (\<exists>raw err. last es = Validated raw (Some err))) \<and>
    (snd out = None \<longleftrightarrow> signals es = [''started'', ''completed'']) \<and>
    (snd out \<noteq> None \<longrightarrow> resIsError (fst out))"
proof -
  consider "refused_outcome es out" | "called_outcome sys e ctx use es out"
    using wpD[OF Execute_spec assms(1)] by blast
  then show ?thesis
  proof cases
    case 1
    then show ?thesis by (auto simp: refused_outcome_def error_outcome_def)
  next
    case 2
    then obtain before raw after where "es = before @ Called raw # after" "signals before = [''started'']" "ended after out"
      using assms(2) unfolding called_outcome_def by blast
    then show ?thesis by (auto simp: ended_def final_signals_def error_outcome_def)
  qed
qed

theorem progress_protocol_witness:
  "\<exists>d. signals (example_actions d) = [''started'', ''completed'']"
proof -
  obtain d result where run: "Execute example_system example_executor (example_context (Some example_decider)) (example_use ''Read'') ()
      = ((result, None), example_actions d, ())" by (metis example_run)
  have "quiet_tool t" if "exRegistry example_executor = Some registry"
    "Lookup (sysEnv example_system) registry (useName (example_use ''Read'')) = Some t" for registry t
    using that example_quiet by (auto simp: example_executor_def example_system_def example_use_def example_lookup)
  with progress_protocol[OF run] have "signals (example_actions d) = [''started'', ''completed'']" by simp
  then show ?thesis by blast
qed

section \<open>Tools under a permission decider\<close>

text \<open>C3: The tool runtime and the permission engine together. When a tool made of functions, with no
  permission function of its own, is called, the engine decided on some input of it: no deny rule
  of the engine matches the request of that input, and either the engine allowed it and it is the
  input of the call, or the engine asked and a hook of the permission request approved. Only then
  may the input of the call be another one, which the hook supplied.\<close>

theorem deny_rule_blocks_call:
  assumes "exRegistry e = Some registry" "Lookup (sysEnv sys) registry (useName use) = Some (func_tool env t)"
    and "PermissionFunc t = None" "cxPermissions ctx = Some (EnginePermissionDecider eng)"
    and "Execute sys e ctx use w = (out, es, w')" "Called raw \<in> set es"
  shows "\<exists>raw0 normalized. normalizeInput t raw0 = Inr normalized \<and>
    (let request = engine_request (fn_facts t) normalized (fn_context ctx);
         verdict = decBehavior (Decide (go_env.truncate env) eng request) in
     \<not> has_rule (go_env.truncate env) eng request PermissionDeny \<and>
     (verdict = PermissionAllow \<and> raw = raw0 \<or>
      verdict = PermissionAsk \<and> approving_reply es \<and>
        (raw = raw0 \<or> (\<exists>r. hook_reply HookPermissionRequest r es \<and> has_input r \<and> raw = normalizeRawInput (hrUpdatedInput r)))))"
proof -
  obtain before raw1 after where es: "es = before @ Called raw1 # after" "calls before = []" "calls after = []"
    and "cleared sys e ctx use raw1 before"
    using executed_call[OF assms(5,6)] unfolding called_outcome_def by blast
  moreover have "raw1 = raw" using es assms(6) by (simp add: calls_iff[symmetric])
  ultimately obtain raw0 d where g: "granted ctx (func_tool env t) raw0 raw d before"
    using assms(1,2) unfolding cleared_def by auto
  then obtain v where "fst (toolCheckPermissions (func_tool env t) ctx raw0 v) = Inr d" by (auto simp: granted_def)
  then obtain normalized where n: "normalizeInput t raw0 = Inr normalized"
    and d: "d = Decide (go_env.truncate env) eng (engine_request (fn_facts t) normalized (fn_context ctx))"
    using assms(3,4) by (auto simp: func_tool_def fn_CheckPermissions_def split: sum.split_asm)
  have verdict: "final_behavior (decBehavior d)" using final_Decide d by simp
  have later: "approving_reply before \<Longrightarrow> approving_reply es" "hook_reply phase r before \<Longrightarrow> hook_reply phase r es" for phase r
    by (simp_all add: es)
  have "\<not> has_rule (go_env.truncate env) eng (engine_request (fn_facts t) normalized (fn_context ctx)) PermissionDeny"
    using g deny_Decide[of "go_env.truncate env" eng] by (auto simp: granted_def d)
  moreover have "decBehavior d = PermissionAllow \<and> raw = raw0 \<or>
      decBehavior d = PermissionAsk \<and> approving_reply es \<and>
        (raw = raw0 \<or> (\<exists>r. hook_reply HookPermissionRequest r es \<and> has_input r \<and> raw = normalizeRawInput (hrUpdatedInput r)))"
    using g verdict later by (auto simp: granted_def final_behavior_def split: if_split_asm)
  ultimately show ?thesis using n d by (metis (no_types, lifting))
qed

theorem deny_rule_blocks_call_witness:
  "\<exists>normalized. \<not> has_rule (go_env.truncate example_schema_env) (example_engine ''default'' [example_rule ''deny'' ''Bash'' ''rm:*''])
     (engine_request (fn_facts (example_func ''Read'' True)) normalized (fn_context (example_context (Some example_decider)))) PermissionDeny"
proof -
  obtain d out where run: "Execute example_system example_executor (example_context (Some example_decider)) (example_use ''Read'') ()
      = (out, example_actions d, ())" by (metis example_run)
  have "exRegistry example_executor = Some example_registry"
    "Lookup (sysEnv example_system) example_registry (useName (example_use ''Read'')) = Some (func_tool example_schema_env (example_func ''Read'' True))"
    "PermissionFunc (example_func ''Read'' True) = None"
    "cxPermissions (example_context (Some example_decider)) = Some (EnginePermissionDecider (example_engine ''default'' [example_rule ''deny'' ''Bash'' ''rm:*'']))"
    "Called example_raw \<in> set (example_actions d)"
    by (simp_all add: example_executor_def example_system_def example_use_def example_lookup example_tool_def)
      (simp_all add: example_func_def example_context_def example_decider_def example_actions_def)
  from deny_rule_blocks_call[OF this(1,2,3,4) run this(5)] show ?thesis by (auto simp: Let_def)
qed

text \<open>Rules that match nothing of a request change nothing in its decision.\<close>

lemma more_rules_decide:
  assumes "\<not> (\<exists>rule \<in> set rules. Rule_Matches env rule req)"
  shows "Decide env (e\<lparr>engRules := engRules e @ rules\<rparr>) req = Decide env e req"
proof -
  have "filter (\<lambda>rule. Rule_Matches env rule req) rules = []" using assms by (simp add: filter_empty_conv)
  then have "matchingRules env (e\<lparr>engRules := engRules e @ rules\<rparr>) req = matchingRules env e req" by (simp add: matchingRules_def)
  moreover have "sandboxOverrideDecision (e\<lparr>engRules := rs\<rparr>) req = sandboxOverrideDecision e req"
    "modeDecision (e\<lparr>engRules := rs\<rparr>) req = modeDecision e req" for rs
    by (simp_all add: sandboxOverrideDecision_def modeDecision_def)
  moreover have "engContext (e\<lparr>engRules := rs\<rparr>) = engContext e" for rs by simp
  then have "pathDecision env (e\<lparr>engRules := rs\<rparr>) req = pathDecision env e req" for rs
    unfolding pathDecision_def sandboxFilesystemPathDecision_def by (simp only:)
  ultimately show ?thesis by (simp only: Decide_def)
qed

text \<open>The engines that \<open>NewEngine\<close> makes: their mode is set, and their context has it.\<close>

definition of_NewEngine :: "Engine \<Rightarrow> bool" where
  "of_NewEngine e = (engMode e = ctxMode (engContext e) \<and> engMode e \<noteq> [])"

lemma of_NewEngine_NewEngine: "of_NewEngine (NewEngine context rules)"
  by (simp add: of_NewEngine_def NewEngine_def Let_def)

text \<open>What an allowlist of a subagent does with the engine: unless one of its entries matches the request, the
  decision is the engine's or a denial.\<close>

lemma subagent_decision:
  assumes "taskSubagentAllowedToolPermissions (Some (EnginePermissionDecider eng)) allowed = Some d" "of_NewEngine eng"
    and "\<not> taskPermissionAnyRuleMatches env (taskSubagentAllowedToolPermissionRules allowed) (engine_request t raw ctx)"
    and "decBehavior (DecideTool env d t raw ctx) \<noteq> PermissionDeny"
  shows "DecideTool env d t raw ctx = Decide env eng (engine_request t raw ctx)"
proof (cases "taskSubagentAllowedToolPermissionRules allowed")
  case Nil
  then show ?thesis using assms(1) by (auto simp: taskSubagentAllowedToolPermissions_def)
next
  case (Cons rule rules)
  have same: "NewEngine (engContext eng) (engRules eng @ rule # rules) = eng\<lparr>engRules := engRules eng @ rule # rules\<rparr>"
    using assms(2) by (cases eng) (auto simp: of_NewEngine_def NewEngine_def Let_def)
  have "d = taskSubagentScopedPermissionDecider (Some (EnginePermissionDecider (eng\<lparr>engRules := engRules eng @ rule # rules\<rparr>))) (rule # rules)"
    using assms(1) Cons by (simp add: taskSubagentAllowedToolPermissions_def taskPermissionDeciderWithRules_def Let_def same)
  then have "DecideTool env d t raw ctx = Decide env (eng\<lparr>engRules := engRules eng @ rule # rules\<rparr>) (engine_request t raw ctx)"
    using assms(4) by (auto simp: Let_def plain_decision_def split: if_split_asm)
  also have "\<dots> = Decide env eng (engine_request t raw ctx)"
    using assms(3) Cons by (intro more_rules_decide) (auto simp: taskPermissionAnyRuleMatches_def list_ex_iff)
  finally show ?thesis .
qed

text \<open>C39: What the allowlist of a subagent can change under an engine that \<open>NewEngine\<close> made. What the subagent is
  not denied, no deny rule of the
  engine matches; a tool that the allowlist names only with patterns is denied unless one of them matches the
  request; and the decision is the one of the engine itself unless an entry of the allowlist matches the
  request (an entry that does is an allow rule: it can allow what the engine would ask about).\<close>

theorem subagent_permissions:
  assumes "taskSubagentAllowedToolPermissions (Some (EnginePermissionDecider eng)) allowed = Some d" "of_NewEngine eng"
    and "decBehavior (DecideTool env d t raw ctx) \<noteq> PermissionDeny"
  shows "\<not> has_rule env eng (engine_request t raw ctx) PermissionDeny \<and>
    (let rules = taskSubagentAllowedToolPermissionRules allowed in
     (taskPermissionAnyRuleMatches env rules (taskPermissionRequest env t raw ctx) \<or>
      \<not> taskPermissionToolHasScopedRules env rules (factName t)) \<and>
     (taskPermissionAnyRuleMatches env rules (engine_request t raw ctx) \<or>
      DecideTool env d t raw ctx = Decide env eng (engine_request t raw ctx)))"
proof (cases "taskSubagentAllowedToolPermissionRules allowed")
  case Nil
  then show ?thesis
    using assms deny_Decide[of env eng "engine_request t raw ctx"]
    by (auto simp: taskSubagentAllowedToolPermissions_def taskPermissionToolHasScopedRules_def)
next
  case (Cons rule rules)
  let ?all = "rule # rules" and ?more = "NewEngine (engContext eng) (engRules eng @ rule # rules)"
  have d: "d = taskSubagentScopedPermissionDecider (Some (EnginePermissionDecider ?more)) ?all"
    using assms(1) Cons by (simp add: taskSubagentAllowedToolPermissions_def taskPermissionDeciderWithRules_def Let_def)
  have name: "reqToolName (taskPermissionRequest env t raw ctx) = factName t" by (simp add: taskPermissionRequest_def)
  have scope: "taskPermissionAnyRuleMatches env ?all (taskPermissionRequest env t raw ctx) \<or>
      \<not> taskPermissionToolHasScopedRules env ?all (factName t)"
    and "decBehavior (Decide env ?more (engine_request t raw ctx)) \<noteq> PermissionDeny"
    using assms(3) by (auto simp: d name Let_def plain_decision_def split: if_split_asm)
  then have "\<not> has_rule env ?more (engine_request t raw ctx) PermissionDeny" using deny_Decide by blast
  then have "\<not> has_rule env eng (engine_request t raw ctx) PermissionDeny"
    by (auto simp: has_rule_def NewEngine_def Let_def)
  with scope Cons subagent_decision[OF assms(1,2) _ assms(3)] show ?thesis by (auto simp: Let_def)
qed

text \<open>A result that is text longer than the tool's limit is cut, and the whole text is written
  first, to a file that stands directly in the result directory under a name made from the tool
  use; what remains is no longer than the limit, the path and a notice of 51 characters. Every
  other result stays as it is and nothing is written.\<close>

theorem long_result_saved:
  assumes "limitResult sys e t use result w = (r, es, w')"
  shows "(\<exists>content name path text. over_limit t result content \<and> es = [Wrote path content] \<and>
      clean_parts path = clean_parts (result_dir (sysEnv sys) e) @ [sanitizeResultFileName name @ ''.txt''] \<and>
      IsAbs path = IsAbs (result_dir (sysEnv sys) e) \<and> (useID use \<noteq> [] \<longrightarrow> name = useID use) \<and>
      resContent r = AnyString text \<and> int (length text) \<le> toolMaxResultSizeChars t + int (length path) + 51) \<or>
    (\<forall>content. \<not> over_limit t result content) \<and> r = result \<and> es = []"
proof -
  have dir: "result_dir (sysEnv sys) e \<noteq> []"
    using Clean_nonempty by (auto simp: result_dir_def JoinPath_def split: list.split)
  note child = join_child[OF dir sanitized_file]
  have size: "int (length (truncated_text content (nat m) path)) \<le> m + int (length path) + 51" if "0 < m" for content m path
    using truncated_text_length[of content "nat m" path] that by linarith
  from wpD[OF limitResult_spec assms] show ?thesis
    using child size by (fastforce simp: over_limit_def)
qed

theorem subagent_permissions_witness:
  "\<not> has_rule example_env (example_engine ''default'' [example_rule ''deny'' ''Bash'' ''rm:*''])
     (engine_request (fn_facts (example_func ''Read'' True)) example_raw (fn_context (example_context None))) PermissionDeny"
proof -
  let ?eng = "example_engine ''default'' [example_rule ''deny'' ''Bash'' ''rm:*'']"
  have "taskSubagentAllowedToolPermissionRules [''Read''] = [example_read_rule]" by code_simp
  then have "taskSubagentAllowedToolPermissions (Some (EnginePermissionDecider ?eng)) [''Read'']
      = Some (taskSubagentScopedPermissionDecider
          (Some (EnginePermissionDecider (NewEngine (engContext ?eng) (engRules ?eng @ [example_read_rule])))) [example_read_rule])"
    by (simp add: taskSubagentAllowedToolPermissions_def taskPermissionDeciderWithRules_def Let_def)
  moreover have "decBehavior (DecideTool example_env (taskSubagentScopedPermissionDecider
          (Some (EnginePermissionDecider (NewEngine (engContext ?eng) (engRules ?eng @ [example_read_rule])))) [example_read_rule])
        (fn_facts (example_func ''Read'' True)) example_raw (fn_context (example_context None))) \<noteq> PermissionDeny"
    by code_simp
  moreover have "of_NewEngine ?eng" by code_simp
  ultimately show ?thesis using subagent_permissions by blast
qed

theorem long_result_saved_witness:
  "\<exists>path. IsAbs path \<and>
     fst (snd (limitResult example_system example_executor (example_tool ''Read'' True) (example_use ''Read'')
       (empty_result\<lparr>resContent := AnyString (replicate 101 (CHR ''x''))\<rparr>) ())) = [Wrote path (replicate 101 (CHR ''x''))]"
proof -
  let ?result = "empty_result\<lparr>resContent := AnyString (replicate 101 (CHR ''x''))\<rparr>"
  obtain r es w' where run: "limitResult example_system example_executor (example_tool ''Read'' True) (example_use ''Read'') ?result ()
      = (r, es, w')" by (metis prod_cases3)
  have over: "over_limit (example_tool ''Read'' True) ?result content \<longleftrightarrow> content = replicate 101 (CHR ''x'')" for content
    by (auto simp: over_limit_def)
  have "IsAbs (result_dir (sysEnv example_system) example_executor)"
    by (simp add: result_dir_def example_executor_def IsAbs_def)
  with long_result_saved[OF run] show ?thesis unfolding over run by auto
qed

end
