(* ===== verification/ApiTypes.thy ===== *)
theory ApiTypes
  imports ToolSchema
begin

text \<open>
  The data of the API client, \<open>internal/api/anthropic\<close>: requests and responses (\<open>types.go\<close>),
  usage and cost (\<open>usage.go\<close>, \<open>cost.go\<close>), and the accumulator of streamed events
  (\<open>stream_accumulator.go\<close>).

  A \<open>float64\<close> is the rational it stands for, and an operation on two of them is the exact result
  rounded by the environment's \<open>float_round\<close> (Go fuses no operations on amd64). The environment
  also has the process environment, the decoding and encoding of JSON (\<open>decode_blocks\<close> encodes a value
  and decodes it as blocks), and the window of a model in \<open>model.DefaultRegistry\<close>. Cache control, temperature, and the raw copies of bodies, which the
  code only passes on, are left out.
\<close>

record prog_env = schema_env +
  getenv :: "string \<Rightarrow> string"
  parse_float :: "string \<Rightarrow> rat option"
  float_round :: "rat \<Rightarrow> rat"
  json_decode :: "string \<Rightarrow> json option"
  json_block :: "ContentBlock \<Rightarrow> string"
  json_schema :: "go_map \<Rightarrow> string option"
  url_host :: "string \<Rightarrow> string option"
  context_window :: "string \<Rightarrow> int option"
  wrapped_summary :: "string \<Rightarrow> string option"
  json_any :: "goany \<Rightarrow> string option"
  json_indented :: "ContentBlock list \<Rightarrow> string option"
  decode_blocks :: "goany \<Rightarrow> ContentBlock list option"

abbreviation genv :: "prog_env \<Rightarrow> go_env" where "genv env \<equiv> go_env.truncate env"

abbreviation nl :: string where "nl \<equiv> [CHR 0x0A]"

text \<open>A \<open>json.RawMessage\<close> made of a text.\<close>

definition raw_of :: "prog_env \<Rightarrow> string \<Rightarrow> raw_message" where
  "raw_of env s = \<lparr>raw_text = s, raw_value = json_decode env s\<rparr>"

section \<open>Blocks\<close>

abbreviation ContentText :: string where "ContentText \<equiv> ''text''"
abbreviation ContentThinking :: string where "ContentThinking \<equiv> ''thinking''"
abbreviation ContentToolUse :: string where "ContentToolUse \<equiv> ''tool_use''"
abbreviation ContentToolResult :: string where "ContentToolResult \<equiv> ''tool_result''"

text \<open>\<open>contracts.ContentBlock{}\<close>, and the assignments to fields of a block.\<close>

definition blank_block :: ContentBlock where
  "blank_block = ContentBlock [] [] AnyNil [] [] no_input AnyNil False []"

definition with_text :: "string \<Rightarrow> ContentBlock \<Rightarrow> ContentBlock" where
  "with_text t b = ContentBlock (blockType b) t (blockSource b) (blockID b) (blockName b) (blockInput b) (blockContent b)
     (blockIsError b) (blockToolUseID b)"

definition with_input :: "raw_message \<Rightarrow> ContentBlock \<Rightarrow> ContentBlock" where
  "with_input i b = ContentBlock (blockType b) (blockText b) (blockSource b) (blockID b) (blockName b) i (blockContent b)
     (blockIsError b) (blockToolUseID b)"

definition with_content :: "goany \<Rightarrow> ContentBlock \<Rightarrow> ContentBlock" where
  "with_content c b = ContentBlock (blockType b) (blockText b) (blockSource b) (blockID b) (blockName b) (blockInput b) c
     (blockIsError b) (blockToolUseID b)"

definition NewTextBlock :: "string \<Rightarrow> ContentBlock" where
  "NewTextBlock text = ContentBlock ContentText text AnyNil [] [] no_input AnyNil False []"

section \<open>Requests and responses\<close>

record APIMessage =
  apiRole :: string
  apiContent :: "ContentBlock list"

record ApiTool =
  apiToolName :: string
  apiToolDescription :: string
  apiToolInputSchema :: go_map
  apiToolStrict :: bool
  apiToolDeferLoading :: bool
  apiToolEagerInputStreaming :: bool

record ApiRequest =
  reqModel :: string
  reqMaxTokens :: int
  reqMessages :: "APIMessage list"
  reqSystem :: string
  reqTools :: "ApiTool list"
  reqThinking :: "go_map option"
  reqStream :: bool

record CountTokensRequest =
  ctrModel :: string
  ctrMessages :: "APIMessage list"
  ctrTools :: "ApiTool list"

record Response =
  respID :: string
  respType :: string
  respRole :: string
  respModel :: string
  respContent :: "ContentBlock list"
  respStopReason :: string
  respStopSequence :: string
  respUsage :: Usage

record StreamEvent =
  sevType :: string
  sevIndex :: int
  sevMessage :: "Response option"
  sevContentBlock :: "ContentBlock option"
  sevDelta :: go_map
  sevUsage :: "Usage option"

fun first_nonblank :: "string list \<Rightarrow> string" where
  "first_nonblank [] = []"
| "first_nonblank (value # values) = (if TrimSpace value \<noteq> [] then TrimSpace value else first_nonblank values)"

definition toolDescriptionFromContract :: "ToolDefinition \<Rightarrow> string" where
  "toolDescriptionFromContract def = first_nonblank [defDescription def, defPrompt def, defSearchHint def]"

definition toolDeferLoadingFromContract :: "ToolDefinition \<Rightarrow> bool" where
  "toolDeferLoadingFromContract def = (if defAlwaysLoad def then False else defShouldDefer def \<or> defMCP def \<noteq> None)"

definition ToolFromContract :: "ToolDefinition \<Rightarrow> ApiTool" where
  "ToolFromContract def =
     \<lparr>apiToolName = defName def, apiToolDescription = toolDescriptionFromContract def,
      apiToolInputSchema = defInputSchema def, apiToolStrict = defStrict def,
      apiToolDeferLoading = toolDeferLoadingFromContract def,
      apiToolEagerInputStreaming = defEagerInputStreaming def\<rparr>"

definition ToolsFromContracts :: "ToolDefinition list \<Rightarrow> ApiTool list" where
  "ToolsFromContracts defs = map ToolFromContract defs"

section \<open>Usage\<close>

definition zero_usage :: Usage where
  "zero_usage = \<lparr>InputTokens = 0, OutputTokens = 0, CacheCreationInputTokens = 0, CacheReadInputTokens = 0,
     CacheDeletedInputTokens = 0, ServerToolUse = \<lparr>WebSearchRequests = 0, WebFetchRequests = 0\<rparr>, ServiceTier = [],
     CacheCreation = \<lparr>Ephemeral1hInputTokens = 0, Ephemeral5mInputTokens = 0\<rparr>, InferenceGeo = [], Iterations = 0,
     Speed = [], CostUSD = 0\<rparr>"

definition pos_or :: "int \<Rightarrow> int \<Rightarrow> int" where
  "pos_or new old = (if new > 0 then new else old)"

definition nonzero_or :: "int \<Rightarrow> int \<Rightarrow> int" where
  "nonzero_or new old = (if new \<noteq> 0 then new else old)"

definition nonempty_or :: "string \<Rightarrow> string \<Rightarrow> string" where
  "nonempty_or new old = (if new \<noteq> [] then new else old)"

definition UpdateUsage :: "Usage \<Rightarrow> Usage \<Rightarrow> Usage" where
  "UpdateUsage current part =
     \<lparr>InputTokens = pos_or (InputTokens part) (InputTokens current),
      OutputTokens = nonzero_or (OutputTokens part) (OutputTokens current),
      CacheCreationInputTokens = pos_or (CacheCreationInputTokens part) (CacheCreationInputTokens current),
      CacheReadInputTokens = pos_or (CacheReadInputTokens part) (CacheReadInputTokens current),
      CacheDeletedInputTokens = pos_or (CacheDeletedInputTokens part) (CacheDeletedInputTokens current),
      ServerToolUse =
        \<lparr>WebSearchRequests = nonzero_or (WebSearchRequests (ServerToolUse part)) (WebSearchRequests (ServerToolUse current)),
         WebFetchRequests = nonzero_or (WebFetchRequests (ServerToolUse part)) (WebFetchRequests (ServerToolUse current))\<rparr>,
      ServiceTier = nonempty_or (ServiceTier part) (ServiceTier current),
      CacheCreation =
        \<lparr>Ephemeral1hInputTokens =
           nonzero_or (Ephemeral1hInputTokens (CacheCreation part)) (Ephemeral1hInputTokens (CacheCreation current)),
         Ephemeral5mInputTokens =
           nonzero_or (Ephemeral5mInputTokens (CacheCreation part)) (Ephemeral5mInputTokens (CacheCreation current))\<rparr>,
      InferenceGeo = nonempty_or (InferenceGeo part) (InferenceGeo current),
      Iterations = nonzero_or (Iterations part) (Iterations current),
      Speed = nonempty_or (Speed part) (Speed current),
      CostUSD = CostUSD current\<rparr>"

definition AccumulateUsage :: "prog_env \<Rightarrow> Usage \<Rightarrow> Usage \<Rightarrow> Usage" where
  "AccumulateUsage env acc message =
     \<lparr>InputTokens = InputTokens acc + InputTokens message,
      OutputTokens = OutputTokens acc + OutputTokens message,
      CacheCreationInputTokens = CacheCreationInputTokens acc + CacheCreationInputTokens message,
      CacheReadInputTokens = CacheReadInputTokens acc + CacheReadInputTokens message,
      CacheDeletedInputTokens = CacheDeletedInputTokens acc + CacheDeletedInputTokens message,
      ServerToolUse =
        \<lparr>WebSearchRequests = WebSearchRequests (ServerToolUse acc) + WebSearchRequests (ServerToolUse message),
         WebFetchRequests = WebFetchRequests (ServerToolUse acc) + WebFetchRequests (ServerToolUse message)\<rparr>,
      ServiceTier = ServiceTier message,
      CacheCreation =
        \<lparr>Ephemeral1hInputTokens = Ephemeral1hInputTokens (CacheCreation acc) + Ephemeral1hInputTokens (CacheCreation message),
         Ephemeral5mInputTokens = Ephemeral5mInputTokens (CacheCreation acc) + Ephemeral5mInputTokens (CacheCreation message)\<rparr>,
      InferenceGeo = InferenceGeo message,
      Iterations = Iterations message,
      Speed = Speed message,
      CostUSD = float_round env (CostUSD acc + CostUSD message)\<rparr>"

definition MaxNonStreamingTokens :: int where "MaxNonStreamingTokens = 64000"

definition intFromAny :: "goany \<Rightarrow> int option" where
  "intFromAny value =
     (case value of AnyInt v \<Rightarrow> Some v
      | AnyNumber v \<Rightarrow> Some (if v \<ge> 0 then \<lfloor>v\<rfloor> else \<lceil>v\<rceil>)
      | _ \<Rightarrow> None)"

definition is_string :: "goany \<Rightarrow> string \<Rightarrow> bool" where
  "is_string value s = (case value of AnyString t \<Rightarrow> t = s | _ \<Rightarrow> False)"

definition thinking_budget :: "ApiRequest \<Rightarrow> int option" where
  "thinking_budget request =
     (case reqThinking request of None \<Rightarrow> None
      | Some thinking \<Rightarrow> if is_string (field thinking ''type'') ''enabled''
          then intFromAny (field thinking ''budget_tokens'') else None)"

definition AdjustRequestForNonStreaming :: "ApiRequest \<Rightarrow> int \<Rightarrow> ApiRequest" where
  "AdjustRequestForNonStreaming request maxTokensCap =
     (let maxTokensCap = (if maxTokensCap \<le> 0 then MaxNonStreamingTokens else maxTokensCap);
          request = (if reqMaxTokens request > maxTokensCap then request\<lparr>reqMaxTokens := maxTokensCap\<rparr> else request)
      in (case thinking_budget request of
            Some budget \<Rightarrow>
              if budget \<ge> reqMaxTokens request
              then request\<lparr>reqThinking :=
                     map_option (set_key ''budget_tokens'' (AnyInt (reqMaxTokens request - 1))) (reqThinking request)\<rparr>
              else request
          | None \<Rightarrow> request))"

section \<open>Cost\<close>

record ModelCosts =
  costInputTokens :: rat
  costOutputTokens :: rat
  costPromptCacheWriteTokens :: rat
  costPromptCacheReadTokens :: rat
  costWebSearchRequests :: rat

definition model_costs :: "prog_env \<Rightarrow> rat \<Rightarrow> rat \<Rightarrow> rat \<Rightarrow> rat \<Rightarrow> ModelCosts" where
  "model_costs env input output cacheWrite cacheRead =
     \<lparr>costInputTokens = float_round env input, costOutputTokens = float_round env output,
      costPromptCacheWriteTokens = float_round env cacheWrite, costPromptCacheReadTokens = float_round env cacheRead,
      costWebSearchRequests = float_round env (1 / 100)\<rparr>"

definition CostTier3_15 :: "prog_env \<Rightarrow> ModelCosts" where
  "CostTier3_15 env = model_costs env 3 15 (375 / 100) (3 / 10)"
definition CostTier15_75 :: "prog_env \<Rightarrow> ModelCosts" where
  "CostTier15_75 env = model_costs env 15 75 (1875 / 100) (15 / 10)"
definition CostTier5_25 :: "prog_env \<Rightarrow> ModelCosts" where
  "CostTier5_25 env = model_costs env 5 25 (625 / 100) (5 / 10)"
definition CostTier30_150 :: "prog_env \<Rightarrow> ModelCosts" where
  "CostTier30_150 env = model_costs env 30 150 (375 / 10) 3"
definition CostHaiku35 :: "prog_env \<Rightarrow> ModelCosts" where
  "CostHaiku35 env = model_costs env (8 / 10) 4 1 (8 / 100)"
definition CostHaiku45 :: "prog_env \<Rightarrow> ModelCosts" where
  "CostHaiku45 env = model_costs env 1 5 (125 / 100) (1 / 10)"

definition canonical_names :: "string list" where
  "canonical_names = [''claude-opus-4-6'', ''claude-opus-4-5'', ''claude-opus-4-1'', ''claude-opus-4'', ''claude-sonnet-4-6'',
     ''claude-sonnet-4-5'', ''claude-sonnet-4'', ''claude-haiku-4-5'', ''claude-3-7-sonnet'', ''claude-3-5-sonnet'',
     ''claude-3-5-haiku'']"

definition CanonicalName :: "prog_env \<Rightarrow> string \<Rightarrow> string" where
  "CanonicalName env name =
     (let lower = ToLower (genv env) name
      in case find (Contains lower) canonical_names of Some canonical \<Rightarrow> canonical | None \<Rightarrow> lower)"

definition modelCosts :: "prog_env \<Rightarrow> string \<rightharpoonup> ModelCosts" where
  "modelCosts env = map_of
     [(''claude-3-5-haiku'', CostHaiku35 env), (''claude-haiku-4-5'', CostHaiku45 env),
      (''claude-3-5-sonnet'', CostTier3_15 env), (''claude-3-7-sonnet'', CostTier3_15 env),
      (''claude-sonnet-4'', CostTier3_15 env), (''claude-sonnet-4-5'', CostTier3_15 env),
      (''claude-sonnet-4-6'', CostTier3_15 env), (''claude-opus-4'', CostTier15_75 env),
      (''claude-opus-4-1'', CostTier15_75 env), (''claude-opus-4-5'', CostTier5_25 env),
      (''claude-opus-4-6'', CostTier5_25 env)]"

definition CostsForModel :: "prog_env \<Rightarrow> string \<Rightarrow> Usage \<Rightarrow> ModelCosts \<times> bool" where
  "CostsForModel env name usage =
     (let canonical = CanonicalName env (TrimSuffix (TrimSpace name) ''[1m]'')
      in if canonical = ''claude-opus-4-6'' \<and> Speed usage = ''fast'' then (CostTier30_150 env, True)
         else case modelCosts env canonical of Some costs \<Rightarrow> (costs, True) | None \<Rightarrow> (CostTier5_25 env, False))"

definition priced :: "prog_env \<Rightarrow> int \<Rightarrow> rat \<Rightarrow> rat" where
  "priced env tokens price = float_round env (float_round env (float_round env (of_int tokens) / 1000000) * price)"

definition TokensToUSDCost :: "prog_env \<Rightarrow> ModelCosts \<Rightarrow> Usage \<Rightarrow> rat" where
  "TokensToUSDCost env costs usage =
     foldl (\<lambda>sum x. float_round env (sum + x))
       (priced env (InputTokens usage) (costInputTokens costs))
       [priced env (OutputTokens usage) (costOutputTokens costs),
        priced env (CacheReadInputTokens usage) (costPromptCacheReadTokens costs),
        priced env (CacheCreationInputTokens usage) (costPromptCacheWriteTokens costs),
        float_round env (float_round env (of_int (WebSearchRequests (ServerToolUse usage))) * costWebSearchRequests costs)]"

definition CalculateUSDCost :: "prog_env \<Rightarrow> string \<Rightarrow> Usage \<Rightarrow> rat" where
  "CalculateUSDCost env resolvedModel usage = TokensToUSDCost env (fst (CostsForModel env resolvedModel usage)) usage"

definition UsageWithCost :: "prog_env \<Rightarrow> string \<Rightarrow> Usage \<Rightarrow> Usage" where
  "UsageWithCost env resolvedModel usage = usage\<lparr>CostUSD := CalculateUSDCost env resolvedModel usage\<rparr>"

section \<open>Streamed events\<close>

record StreamAccumulator =
  accResponse :: Response
  accUsage :: Usage
  accJsonBuf :: "int \<Rightarrow> string"

definition blank_response :: Response where
  "blank_response = \<lparr>respID = [], respType = [], respRole = [], respModel = [], respContent = [], respStopReason = [],
     respStopSequence = [], respUsage = zero_usage\<rparr>"

definition NewStreamAccumulator :: StreamAccumulator where
  "NewStreamAccumulator = \<lparr>accResponse = blank_response, accUsage = zero_usage, accJsonBuf = (\<lambda>_. [])\<rparr>"

definition ensureIndex :: "int \<Rightarrow> ContentBlock list \<Rightarrow> ContentBlock list" where
  "ensureIndex index content = content @ replicate (nat (index + 1) - length content) blank_block"

text \<open>The assignment to one block: \<open>None\<close> is the panic of a negative index.\<close>

definition update_block ::
  "int \<Rightarrow> (ContentBlock \<Rightarrow> ContentBlock) \<Rightarrow> StreamAccumulator \<Rightarrow> StreamAccumulator option" where
  "update_block index f a =
     (if index < 0 then None
      else let content = ensureIndex index (respContent (accResponse a))
           in Some (a\<lparr>accResponse := (accResponse a)\<lparr>respContent := content[nat index := f (content ! nat index)]\<rparr>\<rparr>))"

definition delta_block :: "go_map \<Rightarrow> ContentBlock \<Rightarrow> ContentBlock" where
  "delta_block delta b =
     (if is_string (field delta ''type'') ''text_delta''
      then case field delta ''text'' of AnyString text \<Rightarrow> with_text (blockText b @ text) b | _ \<Rightarrow> b
      else b)"

definition delta_json :: "int \<Rightarrow> go_map \<Rightarrow> (int \<Rightarrow> string) \<Rightarrow> int \<Rightarrow> string" where
  "delta_json index delta buf =
     (if is_string (field delta ''type'') ''input_json_delta''
      then case field delta ''partial_json'' of AnyString partial \<Rightarrow> buf(index := buf index @ partial) | _ \<Rightarrow> buf
      else buf)"

definition stop_fields :: "go_map \<Rightarrow> Response \<Rightarrow> Response" where
  "stop_fields delta r =
     (let r = (case field delta ''stop_reason'' of AnyString stop \<Rightarrow> r\<lparr>respStopReason := stop\<rparr> | _ \<Rightarrow> r)
      in case field delta ''stop_sequence'' of AnyString stop \<Rightarrow> r\<lparr>respStopSequence := stop\<rparr> | _ \<Rightarrow> r)"

definition Add :: "prog_env \<Rightarrow> StreamEvent \<Rightarrow> StreamAccumulator \<Rightarrow> StreamAccumulator option" where
  "Add env event a =
     (if sevType event = ''message_start'' then
        (case sevMessage event of Some message \<Rightarrow> Some (a\<lparr>accResponse := message, accUsage := respUsage message\<rparr>)
         | None \<Rightarrow> Some a)
      else if sevType event = ''content_block_start'' then
        (case sevContentBlock event of Some block \<Rightarrow> update_block (sevIndex event) (\<lambda>_. block) a | None \<Rightarrow> Some a)
      else if sevType event = ''content_block_delta'' then
        map_option (\<lambda>a. a\<lparr>accJsonBuf := delta_json (sevIndex event) (sevDelta event) (accJsonBuf a)\<rparr>)
          (update_block (sevIndex event) (delta_block (sevDelta event)) a)
      else if sevType event = ''content_block_stop'' then
        (if accJsonBuf a (sevIndex event) = [] then Some a
         else update_block (sevIndex event) (with_input (raw_of env (accJsonBuf a (sevIndex event)))) a)
      else if sevType event = ''message_delta'' then
        Some (a\<lparr>accResponse := stop_fields (sevDelta event) (accResponse a),
                accUsage := (case sevUsage event of Some usage \<Rightarrow> UpdateUsage (accUsage a) usage | None \<Rightarrow> accUsage a)\<rparr>)
      else Some a)"

fun add_events :: "prog_env \<Rightarrow> StreamEvent list \<Rightarrow> StreamAccumulator \<Rightarrow> StreamAccumulator option" where
  "add_events env [] a = Some a"
| "add_events env (event # events) a = (case Add env event a of None \<Rightarrow> None | Some a' \<Rightarrow> add_events env events a')"

definition Finish :: "prog_env \<Rightarrow> StreamAccumulator \<Rightarrow> Response" where
  "Finish env a =
     (let r = (accResponse a)\<lparr>respUsage := accUsage a\<rparr>
      in if respModel r \<noteq> [] then r\<lparr>respUsage := UsageWithCost env (respModel r) (respUsage r)\<rparr> else r)"

end
