(* ===== verification/ApiClient.thy ===== *)
theory ApiClient
  imports ApiTypes Effects
begin

text \<open>
  The client of \<open>internal/api/anthropic\<close>: which errors are retried and after what delay
  (\<open>errors.go\<close>, \<open>retry.go\<close>), the parser of a streamed body (\<open>stream.go\<close>) and the retry loops of
  \<open>client.go\<close>.

  One HTTP exchange is a parameter: it gives the body, or the error of the transport or of the
  status. So are the refresh of the access token, the sleep, the random number and the decoding of
  bodies. An \<open>error\<close> is its text, the \<open>APIError\<close> that \<open>errors.As\<close> finds in it, and whether it is a
  context's error. A \<open>time.Duration\<close> is in nanoseconds; a \<open>MaxDelay\<close> is below \<open>2 ^ 62\<close>.
\<close>

section \<open>Errors\<close>

record APIError =
  aeStatusCode :: int
  aeType :: string
  aeMessage :: string
  aeHeader :: "string \<Rightarrow> string"

record call_error =
  ceText :: string
  ceAPI :: "APIError option"
  ceCanceled :: bool

definition plain_error :: "string \<Rightarrow> call_error" where
  "plain_error text = \<lparr>ceText = text, ceAPI = None, ceCanceled = False\<rparr>"

record ContextOverflow =
  ovInputTokens :: int
  ovMaxTokens :: int
  ovContextLimit :: int

definition AuthError :: "APIError \<Rightarrow> bool" where
  "AuthError e = (aeStatusCode e = 401 \<or> aeStatusCode e = 403 \<or> aeType e = ''authentication_error'' \<or>
     aeType e = ''permission_error'')"

definition IsOverloadedError :: "APIError \<Rightarrow> bool" where
  "IsOverloadedError e = (aeStatusCode e = 529 \<or>
     Contains (aeMessage e) (CHR 0x22 # ''type'' @ [CHR 0x22, CHR '':'', CHR 0x22] @ ''overloaded_error'' @ [CHR 0x22]) \<or>
     aeType e = ''overloaded_error'')"

definition overflow_words :: string where
  "overflow_words = ''input length and `max_tokens` exceed context limit''"

text \<open>A run of digits and what follows it; a fixed text and what follows it.\<close>

definition digits_then :: "string \<Rightarrow> (string \<times> string) option" where
  "digits_then s = (if takeWhile is_digit s = [] then None else Some (takeWhile is_digit s, dropWhile is_digit s))"

definition text_then :: "string \<Rightarrow> string \<Rightarrow> string option" where
  "text_then p s = (if HasPrefix s p then Some (drop (length p) s) else None)"

definition overflow_at :: "string \<Rightarrow> (string \<times> string \<times> string) option" where
  "overflow_at s =
     (case text_then (overflow_words @ '': '') s of None \<Rightarrow> None | Some s \<Rightarrow>
      (case digits_then s of None \<Rightarrow> None | Some (a, s) \<Rightarrow>
      (case text_then '' + '' s of None \<Rightarrow> None | Some s \<Rightarrow>
      (case digits_then s of None \<Rightarrow> None | Some (b, s) \<Rightarrow>
      (case text_then '' > '' s of None \<Rightarrow> None | Some s \<Rightarrow>
      (case digits_then s of None \<Rightarrow> None | Some (c, _) \<Rightarrow> Some (a, b, c)))))))"

fun find_overflow :: "string \<Rightarrow> (string \<times> string \<times> string) option" where
  "find_overflow [] = None"
| "find_overflow (c # s) = (case overflow_at (c # s) of Some m \<Rightarrow> Some m | None \<Rightarrow> find_overflow s)"

definition ParseMaxTokensContextOverflowError :: "APIError \<Rightarrow> ContextOverflow option" where
  "ParseMaxTokensContextOverflowError e =
     (if aeStatusCode e \<noteq> 400 \<or> \<not> Contains (aeMessage e) overflow_words then None
      else case find_overflow (aeMessage e) of
             None \<Rightarrow> None
           | Some (a, b, c) \<Rightarrow>
             (case (Atoi a, Atoi b, Atoi c) of
                (Some inputTokens, Some maxTokens, Some contextLimit) \<Rightarrow>
                  Some \<lparr>ovInputTokens = int inputTokens, ovMaxTokens = int maxTokens, ovContextLimit = int contextLimit\<rparr>
              | _ \<Rightarrow> None))"

definition ShouldRetryAPIError :: "prog_env \<Rightarrow> APIError \<Rightarrow> bool" where
  "ShouldRetryAPIError env e =
     (let shouldRetry = ToLower (genv env) (aeHeader e ''x-should-retry'')
      in if IsOverloadedError e then True
         else if ParseMaxTokensContextOverflowError e \<noteq> None then True
         else if shouldRetry = ''true'' then True
         else if shouldRetry = ''false'' \<and>
                 \<not> (EqualFold (genv env) (TrimSpace (getenv env ''USER_TYPE'')) ''ant'' \<and> aeStatusCode e \<ge> 500) then False
         else if aeStatusCode e \<in> {408, 409, 429, 401} then True
         else aeStatusCode e \<ge> 500)"

definition ShouldRetryError :: "prog_env \<Rightarrow> call_error \<Rightarrow> bool" where
  "ShouldRetryError env e =
     (if ceCanceled e then False
      else case ceAPI e of None \<Rightarrow> True | Some apiErr \<Rightarrow> ShouldRetryAPIError env apiErr)"

definition FloorOutputTokens :: int where "FloorOutputTokens = 3000"

definition AdjustMaxTokensForContextOverflow :: "ContextOverflow \<Rightarrow> int \<Rightarrow> int option" where
  "AdjustMaxTokensForContextOverflow info thinkingBudget =
     (let availableContext = max 0 (wrap64 (ovContextLimit info - ovInputTokens info - 1000))
      in if availableContext < FloorOutputTokens then None
         else Some (max (max availableContext FloorOutputTokens) (wrap64 (thinkingBudget + 1))))"

section \<open>Delays\<close>

record RetryConfig =
  rcMaxRetries :: int
  rcBaseDelay :: int
  rcMaxDelay :: int
  rcJitterFraction :: rat

abbreviation second :: int where "second \<equiv> 1000000000"

definition DefaultRetryConfig :: RetryConfig where
  "DefaultRetryConfig = \<lparr>rcMaxRetries = 10, rcBaseDelay = 500000000, rcMaxDelay = 32 * second, rcJitterFraction = 1 / 4\<rparr>"

text \<open>The loop that doubles the delay.\<close>

fun backoff :: "nat \<Rightarrow> int \<Rightarrow> int \<Rightarrow> int" where
  "backoff 0 delay maxDelay = delay"
| "backoff (Suc n) delay maxDelay = (if 2 * delay \<ge> maxDelay then maxDelay else backoff n (2 * delay) maxDelay)"

definition truncate_rat :: "rat \<Rightarrow> int" where
  "truncate_rat r = (if r \<ge> 0 then \<lfloor>r\<rfloor> else \<lceil>r\<rceil>)"

definition jitter :: "prog_env \<Rightarrow> rat \<Rightarrow> RetryConfig \<Rightarrow> int \<Rightarrow> int" where
  "jitter env random config delay =
     (if rcJitterFraction config > 0
      then truncate_rat (float_round env (float_round env (random * rcJitterFraction config) * float_round env (of_int delay)))
      else 0)"

definition retry_after_seconds :: "string \<Rightarrow> int option" where
  "retry_after_seconds header = (if header \<noteq> [] then Atoi_text (TrimSpace header) else None)"

definition RetryDelay :: "prog_env \<Rightarrow> rat \<Rightarrow> int \<Rightarrow> string \<Rightarrow> RetryConfig \<Rightarrow> int" where
  "RetryDelay env random attempt retryAfterHeader config =
     (case retry_after_seconds retryAfterHeader of
        Some seconds \<Rightarrow> wrap64 (seconds * second)
      | None \<Rightarrow>
        let baseDelay = (if rcBaseDelay config \<le> 0 then rcBaseDelay DefaultRetryConfig else rcBaseDelay config);
            maxDelay = (if rcMaxDelay config \<le> 0 then rcMaxDelay DefaultRetryConfig else rcMaxDelay config);
            delay = backoff (nat (attempt - 1)) baseDelay maxDelay
        in delay + jitter env random config delay)"

section \<open>The parser of a stream\<close>

text \<open>\<open>ParseStream\<close> over the lines of the body and the error of the scanner, with a handler that
  keeps a state. The decoder of an event is a parameter.\<close>

record parse_state =
  psEventName :: string
  psData :: string

definition named_event :: "string \<Rightarrow> string \<times> StreamEvent \<Rightarrow> StreamEvent" where
  "named_event eventName = (\<lambda>(event, e).
     (let event = (if event = [] then eventName else event)
      in if sevType e = [] then e\<lparr>sevType := event\<rparr> else e))"

definition dispatchEvent ::
  "(string \<Rightarrow> string + string \<times> StreamEvent) \<Rightarrow> string \<Rightarrow> string \<Rightarrow> (StreamEvent \<Rightarrow> 's \<Rightarrow> string option \<times> 's) \<Rightarrow> 's \<Rightarrow>
   string option \<times> 's" where
  "dispatchEvent decode eventName data handle s =
     (if TrimSpace data = ''[DONE]'' then (None, s)
      else case decode data of Inl err \<Rightarrow> (Some err, s) | Inr event \<Rightarrow> handle (named_event eventName event) s)"

definition parse_line :: "string \<Rightarrow> parse_state \<Rightarrow> parse_state" where
  "parse_line line p =
     (if HasPrefix line ''event:'' then p\<lparr>psEventName := TrimSpace (TrimPrefix line ''event:'')\<rparr>
      else if HasPrefix line ''data:''
      then p\<lparr>psData := psData p @ (if psData p \<noteq> [] then nl else []) @ TrimSpace (TrimPrefix line ''data:'')\<rparr>
      else p)"

fun parse_lines ::
  "(string \<Rightarrow> string + string \<times> StreamEvent) \<Rightarrow> (StreamEvent \<Rightarrow> 's \<Rightarrow> string option \<times> 's) \<Rightarrow> string option \<Rightarrow>
   string list \<Rightarrow> parse_state \<Rightarrow> 's \<Rightarrow> string option \<times> 's" where
  "parse_lines decode handle scanErr [] p s =
     (case scanErr of Some err \<Rightarrow> (Some err, s)
      | None \<Rightarrow> if psData p \<noteq> [] then dispatchEvent decode (psEventName p) (psData p) handle s else (None, s))"
| "parse_lines decode handle scanErr (line # lines) p s =
     (if line = []
      then if psData p \<noteq> []
           then (case dispatchEvent decode (psEventName p) (psData p) handle s of
                   (Some err, s') \<Rightarrow> (Some err, s')
                 | (None, s') \<Rightarrow> parse_lines decode handle scanErr lines \<lparr>psEventName = [], psData = []\<rparr> s')
           else parse_lines decode handle scanErr lines p s
      else parse_lines decode handle scanErr lines (parse_line line p) s)"

definition ParseStream ::
  "(string \<Rightarrow> string + string \<times> StreamEvent) \<Rightarrow> string list \<Rightarrow> string option \<Rightarrow> (StreamEvent \<Rightarrow> 's \<Rightarrow> string option \<times> 's) \<Rightarrow>
   's \<Rightarrow> string option \<times> 's" where
  "ParseStream decode lines scanErr handle s =
     parse_lines decode handle scanErr lines \<lparr>psEventName = [], psData = []\<rparr> s"

section \<open>The client\<close>

datatype payload =
  MessagesPayload ApiRequest
| CountTokensPayload CountTokensRequest

text \<open>What opening a stream gives: the request could not be made or was not answered, an error status, or
  the lines of the body and the error at their end.\<close>

datatype open_reply =
  NotMade call_error
| NoReply call_error
| BadStatus call_error
| Body "string list" "string option"

text \<open>\<open>clExchange\<close> is \<open>doJSONOnce\<close> and \<open>clOpen\<close> its counterpart for a stream; both read the access token that \<open>clSetToken\<close> sets.\<close>

record 'w Client =
  clEnv :: prog_env
  clRetry :: RetryConfig
  clExchange :: "string \<Rightarrow> payload \<Rightarrow> 'w \<Rightarrow> (call_error + string) \<times> 'w"
  clOpen :: "ApiRequest \<Rightarrow> 'w \<Rightarrow> open_reply \<times> 'w"
  clRefresh :: "('w \<Rightarrow> (string + string) \<times> 'w) option"
  clSetToken :: "string \<Rightarrow> 'w \<Rightarrow> 'w"
  clRandom :: "'w \<Rightarrow> rat \<times> 'w"
  clSleep :: "int \<Rightarrow> 'w \<Rightarrow> call_error option \<times> 'w"
  clDecodeResponse :: "string \<Rightarrow> string + Response"
  clDecodeTokens :: "string \<Rightarrow> string + int"
  clDecodeEvent :: "string \<Rightarrow> string + string \<times> StreamEvent"

datatype api_action =
  Exchanged payload bool
| Opened ApiRequest bool
| TokenRefreshed bool
| Slept int

definition is_ok :: "'a + 'b \<Rightarrow> bool" where
  "is_ok r = (case r of Inl _ \<Rightarrow> False | Inr _ \<Rightarrow> True)"

text \<open>\<open>refreshAccessToken\<close> is \<open>Inr False\<close> without a provider.\<close>

definition refreshAccessToken :: "'w Client \<Rightarrow> ('w, api_action, string + bool) effects" where
  "refreshAccessToken c =
     (case clRefresh c of
        None \<Rightarrow> done_p (Inr False)
      | Some refresh \<Rightarrow>
        then_p (ask_world refresh (TokenRefreshed \<circ> is_ok)) (\<lambda>r.
          case r of
            Inl err \<Rightarrow> done_p (Inl err)
          | Inr token \<Rightarrow>
            if TrimSpace token = [] then done_p (Inl ''oauth refresh returned empty access token'')
            else then_p (quietly (\<lambda>w. ((), clSetToken c (TrimSpace token) w))) (\<lambda>_. done_p (Inr True))))"

definition refresh_failed :: "call_error \<Rightarrow> string \<Rightarrow> call_error" where
  "refresh_failed err text = err\<lparr>ceText := ceText err @ ''; oauth refresh failed: '' @ text\<rparr>"

text \<open>The refresh that a 401 or 403 leads to, at most once in a call.\<close>

definition try_refresh :: "'w Client \<Rightarrow> call_error \<Rightarrow> bool \<Rightarrow> ('w, api_action, call_error + bool) effects" where
  "try_refresh c err authRefreshed =
     (case ceAPI err of
        Some apiErr \<Rightarrow>
          if AuthError apiErr \<and> \<not> authRefreshed
          then then_p (refreshAccessToken c) (\<lambda>r.
                 done_p (case r of Inl text \<Rightarrow> Inl (refresh_failed err text) | Inr refreshed \<Rightarrow> Inr refreshed))
          else done_p (Inr False)
      | None \<Rightarrow> done_p (Inr False))"

definition adjustRequestPayloadForContextOverflow :: "payload \<Rightarrow> ContextOverflow \<Rightarrow> payload option" where
  "adjustRequestPayloadForContextOverflow payload overflow =
     (case payload of
        CountTokensPayload _ \<Rightarrow> None
      | MessagesPayload request \<Rightarrow>
        let budget = (case thinking_budget request of Some budget \<Rightarrow> budget | None \<Rightarrow> 0)
        in map_option (\<lambda>adjusted. MessagesPayload (request\<lparr>reqMaxTokens := adjusted\<rparr>))
             (AdjustMaxTokensForContextOverflow overflow budget))"

definition smaller_payload :: "'w Client \<Rightarrow> int \<Rightarrow> call_error \<Rightarrow> payload \<Rightarrow> payload option" where
  "smaller_payload c attempt err payload =
     (case Option.bind (ceAPI err) ParseMaxTokensContextOverflowError of
        Some overflow \<Rightarrow>
          if attempt \<le> rcMaxRetries (clRetry c) then adjustRequestPayloadForContextOverflow payload overflow else None
      | None \<Rightarrow> None)"

definition retry_after :: "call_error \<Rightarrow> string" where
  "retry_after err = (case ceAPI err of Some apiErr \<Rightarrow> aeHeader apiErr ''retry-after'' | None \<Rightarrow> [])"

text \<open>\<open>sleepWithConfig\<close> of the delay of an attempt.\<close>

definition wait :: "'w Client \<Rightarrow> int \<Rightarrow> string \<Rightarrow> ('w, api_action, call_error option) effects" where
  "wait c attempt retryAfter =
     then_p (if retry_after_seconds retryAfter = None \<and> rcJitterFraction (clRetry c) > 0
             then quietly (clRandom c) else done_p 0) (\<lambda>random.
       let delay = RetryDelay (clEnv c) random attempt retryAfter (clRetry c)
       in if delay \<le> 0 then done_p None else ask_world (clSleep c delay) (\<lambda>_. Slept delay))"

text \<open>The body of the loops after an error: \<open>Inl\<close> ends the call, \<open>Inr\<close> goes on.\<close>

definition retry_or_fail ::
  "'w Client \<Rightarrow> int \<Rightarrow> call_error \<Rightarrow> 's \<Rightarrow> ('w, api_action, call_error + 's) effects" where
  "retry_or_fail c attempt err next =
     (if attempt > rcMaxRetries (clRetry c) \<or> \<not> ShouldRetryError (clEnv c) err then done_p (Inl err)
      else then_p (wait c attempt (retry_after err)) (\<lambda>r. done_p (case r of Some e \<Rightarrow> Inl e | None \<Rightarrow> Inr next)))"

definition doJSON_attempt ::
  "'w Client \<Rightarrow> string \<Rightarrow> int \<Rightarrow> payload \<times> bool \<Rightarrow> ('w, api_action, (call_error + string) + payload \<times> bool) effects" where
  "doJSON_attempt c path attempt = (\<lambda>(payload, authRefreshed).
     then_p (ask_world (clExchange c path payload) (Exchanged payload \<circ> is_ok)) (\<lambda>r.
       case r of
         Inr body \<Rightarrow> done_p (Inl (Inr body))
       | Inl err \<Rightarrow>
         then_p (try_refresh c err authRefreshed) (\<lambda>r.
           case r of
             Inl e \<Rightarrow> done_p (Inl (Inl e))
           | Inr True \<Rightarrow> done_p (Inr (payload, True))
           | Inr False \<Rightarrow>
             (case smaller_payload c attempt err payload of
                Some adjusted \<Rightarrow> done_p (Inr (adjusted, authRefreshed))
              | None \<Rightarrow>
                then_p (retry_or_fail c attempt err (payload, authRefreshed)) (\<lambda>r.
                  done_p (case r of Inl e \<Rightarrow> Inl (Inl e) | Inr next \<Rightarrow> Inr next))))))"

definition goes_on :: "RetryConfig \<Rightarrow> int \<Rightarrow> bool \<Rightarrow> bool \<Rightarrow> bool" where
  "goes_on config attempt before after =
     ((attempt \<le> rcMaxRetries config \<and> after = before) \<or> (\<not> before \<and> after))"

lemma wp_try_refresh:
  "wp (try_refresh c err b) (\<lambda>r es w'. (r = Inr True \<longrightarrow> \<not> b)) w"
  by (auto simp: try_refresh_def wp_simps wp_def[of "refreshAccessToken c"] split: option.split prod.split sum.split)

lemma wp_retry_or_fail:
  "wp (retry_or_fail c attempt err next) (\<lambda>r es w'. \<forall>n. r = Inr n \<longrightarrow> attempt \<le> rcMaxRetries (clRetry c) \<and> n = next) w"
  by (auto simp: retry_or_fail_def wp_simps wp_def[of "wait c attempt (retry_after err)"] split: option.split prod.split)

lemma smaller_payload_attempt:
  "smaller_payload c attempt err payload = Some p \<Longrightarrow> attempt \<le> rcMaxRetries (clRetry c)"
  by (auto simp: smaller_payload_def split: option.splits if_splits)

lemma doJSON_goes_on:
  "wp (doJSON_attempt c path attempt (payload, before))
     (\<lambda>r es w'. \<forall>p after. r = Inr (p, after) \<longrightarrow> goes_on (clRetry c) attempt before after) w"
  unfolding doJSON_attempt_def prod.case
  by (simp add: wp_simps goes_on_def split: prod.split sum.split bool.split option.split)
     (intro allI impI conjI wp_mono[OF wp_try_refresh] wp_mono[OF wp_retry_or_fail];
      auto simp: wp_simps dest: smaller_payload_attempt intro!: wp_mono[OF wp_retry_or_fail] split: option.split bool.split sum.splits)

lemma doJSON_attempt_next:
  "doJSON_attempt c path attempt s w = (Inr s', es, w') \<Longrightarrow> goes_on (clRetry c) attempt (snd s) (snd s')"
  using wpD[OF doJSON_goes_on, of c path attempt "fst s" "snd s" w] by (cases s, cases s') auto

function doJSON_loop ::
  "'w Client \<Rightarrow> string \<Rightarrow> int \<Rightarrow> payload \<times> bool \<Rightarrow> ('w, api_action, call_error + string) effects" where
  "doJSON_loop c path attempt s w =
     (case doJSON_attempt c path attempt s w of
        (Inl result, es, w1) \<Rightarrow> (result, es, w1)
      | (Inr s', es, w1) \<Rightarrow>
        (case doJSON_loop c path (attempt + 1) s' w1 of (result, es', w2) \<Rightarrow> (result, es @ es', w2)))"
  by auto

termination
  by (relation "measure (\<lambda>(c, path, attempt, s, w).
         nat (rcMaxRetries (clRetry c) + 1 - attempt) + (if snd s then 0 else 1))")
     (auto simp: goes_on_def dest!: doJSON_attempt_next[OF sym])

declare doJSON_loop.simps [simp del]

definition doJSON :: "'w Client \<Rightarrow> string \<Rightarrow> payload \<Rightarrow> ('w, api_action, call_error + string) effects" where
  "doJSON c path payload = doJSON_loop c path 1 (payload, False)"

definition validateRequest :: "ApiRequest \<Rightarrow> call_error option" where
  "validateRequest request =
     (if TrimSpace (reqModel request) = [] then Some (plain_error ''anthropic request missing model'')
      else if reqMaxTokens request \<le> 0 then Some (plain_error ''anthropic request max_tokens must be positive'')
      else if reqMessages request = [] then Some (plain_error ''anthropic request missing messages'')
      else None)"

definition CreateMessage :: "'w Client \<Rightarrow> ApiRequest \<Rightarrow> ('w, api_action, call_error + Response) effects" where
  "CreateMessage c request0 =
     (let request = request0\<lparr>reqStream := False\<rparr>
      in case validateRequest request of
           Some err \<Rightarrow> done_p (Inl err)
         | None \<Rightarrow>
           then_e (doJSON c ''/v1/messages'' (MessagesPayload request)) (\<lambda>body.
             done_p (case clDecodeResponse c body of
                 Inl text \<Rightarrow> Inl (plain_error text)
               | Inr response \<Rightarrow>
                 Inr (response\<lparr>respUsage := UsageWithCost (clEnv c)
                   (if respModel response = [] then reqModel request else respModel response) (respUsage response)\<rparr>))))"

definition CountTokens :: "'w Client \<Rightarrow> CountTokensRequest \<Rightarrow> ('w, api_action, call_error + int) effects" where
  "CountTokens c request0 =
     (if TrimSpace (ctrModel request0) = [] then done_p (Inl (plain_error ''anthropic count tokens request missing model''))
      else
        let request = (if ctrMessages request0 = []
                       then request0\<lparr>ctrMessages := [\<lparr>apiRole = ''user'', apiContent = [NewTextBlock ''foo'']\<rparr>]\<rparr>
                       else request0)
        in then_e (doJSON c ''/v1/messages/count_tokens'' (CountTokensPayload request)) (\<lambda>body.
             done_p (case clDecodeTokens c body of Inl text \<Rightarrow> Inl (plain_error text) | Inr tokens \<Rightarrow> Inr tokens)))"

section \<open>Streaming\<close>

text \<open>One attempt: \<open>Inl\<close> ends with an error or the body's lines and the error at their end.\<close>

definition stream_attempt ::
  "'w Client \<Rightarrow> ApiRequest \<Rightarrow> int \<Rightarrow> bool \<Rightarrow>
   ('w, api_action, (call_error + string list \<times> string option) + bool) effects" where
  "stream_attempt c request attempt authRefreshed =
     then_p (ask_world (clOpen c request) (\<lambda>r. Opened request (case r of Body _ _ \<Rightarrow> True | _ \<Rightarrow> False))) (\<lambda>r.
       case r of
         NotMade err \<Rightarrow> done_p (Inl (Inl err))
       | NoReply err \<Rightarrow>
         then_p (retry_or_fail c attempt (err\<lparr>ceAPI := None\<rparr>) authRefreshed) (\<lambda>r.
           done_p (case r of Inl e \<Rightarrow> Inl (Inl e) | Inr next \<Rightarrow> Inr next))
       | BadStatus err \<Rightarrow>
         then_p (try_refresh c err authRefreshed) (\<lambda>r.
           case r of
             Inl e \<Rightarrow> done_p (Inl (Inl e))
           | Inr True \<Rightarrow> done_p (Inr True)
           | Inr False \<Rightarrow>
             then_p (retry_or_fail c attempt err authRefreshed) (\<lambda>r.
               done_p (case r of Inl e \<Rightarrow> Inl (Inl e) | Inr next \<Rightarrow> Inr next)))
       | Body lines scanErr \<Rightarrow> done_p (Inl (Inr (lines, scanErr))))"

lemma stream_goes_on:
  "wp (stream_attempt c request attempt before)
     (\<lambda>r es w'. \<forall>after. r = Inr after \<longrightarrow> goes_on (clRetry c) attempt before after) w"
  unfolding stream_attempt_def
  by (simp add: wp_simps goes_on_def split: prod.split sum.split bool.split option.split open_reply.split)
     (intro allI impI conjI wp_mono[OF wp_try_refresh] wp_mono[OF wp_retry_or_fail];
      auto simp: wp_simps intro!: wp_mono[OF wp_retry_or_fail] split: option.split bool.split sum.splits)

lemma stream_attempt_next:
  "stream_attempt c request attempt before w = (Inr after, es, w') \<Longrightarrow> goes_on (clRetry c) attempt before after"
  using wpD[OF stream_goes_on] by fast

function stream_loop ::
  "'w Client \<Rightarrow> ApiRequest \<Rightarrow> int \<Rightarrow> bool \<Rightarrow> ('w, api_action, call_error + string list \<times> string option) effects" where
  "stream_loop c request attempt authRefreshed w =
     (case stream_attempt c request attempt authRefreshed w of
        (Inl result, es, w1) \<Rightarrow> (result, es, w1)
      | (Inr refreshed, es, w1) \<Rightarrow>
        (case stream_loop c request (attempt + 1) refreshed w1 of (result, es', w2) \<Rightarrow> (result, es @ es', w2)))"
  by auto

termination
  by (relation "measure (\<lambda>(c, request, attempt, b, w).
         nat (rcMaxRetries (clRetry c) + 1 - attempt) + (if b then 0 else 1))")
     (auto simp: goes_on_def dest!: stream_attempt_next[OF sym])

declare stream_loop.simps [simp del]

definition StreamMessages ::
  "'w Client \<Rightarrow> ApiRequest \<Rightarrow> (StreamEvent \<Rightarrow> 's \<Rightarrow> string option \<times> 's) \<Rightarrow> 's \<Rightarrow> ('w, api_action, call_error option \<times> 's) effects" where
  "StreamMessages c request0 handle s =
     (let request = request0\<lparr>reqStream := True\<rparr>
      in case validateRequest request of
           Some err \<Rightarrow> done_p (Some err, s)
         | None \<Rightarrow>
           then_p (stream_loop c request 1 False) (\<lambda>r.
             done_p (case r of
                 Inl err \<Rightarrow> (Some err, s)
               | Inr (lines, scanErr) \<Rightarrow>
                 (case ParseStream (clDecodeEvent c) lines scanErr handle s of
                    (err, s') \<Rightarrow> (map_option plain_error err, s')))))"

end
