(* ===== verification/ApiLaws.thy ===== *)
theory ApiLaws
  imports ApiClient
begin

text \<open>
  Facts about the API client: what one attempt of a call does and, by induction over the loop, what
  the call does; the delay without jitter; and what accumulating a well-formed stream gives.
\<close>

section \<open>Calls\<close>

definition exchanges :: "api_action list \<Rightarrow> (payload \<times> bool) list" where
  "exchanges es = List.map_filter (\<lambda>a. case a of Exchanged p ok \<Rightarrow> Some (p, ok) | _ \<Rightarrow> None) es"

definition refreshes :: "api_action list \<Rightarrow> nat" where
  "refreshes es = length (filter (\<lambda>a. case a of TokenRefreshed _ \<Rightarrow> True | _ \<Rightarrow> False) es)"

definition same_but_max_tokens :: "payload \<Rightarrow> payload \<Rightarrow> bool" where
  "same_but_max_tokens p q =
     (case (p, q) of
        (MessagesPayload a, MessagesPayload b) \<Rightarrow> a\<lparr>reqMaxTokens := 0\<rparr> = b\<lparr>reqMaxTokens := 0\<rparr>
      | (CountTokensPayload a, CountTokensPayload b) \<Rightarrow> a = b
      | _ \<Rightarrow> False)"

lemma exchanges_simps [simp]:
  "exchanges [] = []"
  "exchanges (a # es) = (case a of Exchanged p ok \<Rightarrow> [(p, ok)] | _ \<Rightarrow> []) @ exchanges es"
  "exchanges (es @ es') = exchanges es @ exchanges es'"
  by (auto simp: exchanges_def List.map_filter_def split: api_action.split)

lemma refreshes_simps [simp]:
  "refreshes [] = 0"
  "refreshes (a # es) = (case a of TokenRefreshed _ \<Rightarrow> 1 | _ \<Rightarrow> 0) + refreshes es"
  "refreshes (es @ es') = refreshes es + refreshes es'"
  by (auto simp: refreshes_def split: api_action.split)

lemma same_refl [simp]: "same_but_max_tokens p p"
  by (simp add: same_but_max_tokens_def split: payload.split)

lemma same_trans: "same_but_max_tokens p q \<Longrightarrow> same_but_max_tokens q r \<Longrightarrow> same_but_max_tokens p r"
  by (auto simp: same_but_max_tokens_def split: payload.splits)

lemma same_smaller: "smaller_payload c attempt err p = Some q \<Longrightarrow> same_but_max_tokens p q"
  by (auto simp: smaller_payload_def adjustRequestPayloadForContextOverflow_def same_but_max_tokens_def Let_def
      split: option.splits payload.splits if_splits)

lemma refreshAccessToken_spec:
  "wp (refreshAccessToken c) (\<lambda>r es w'. exchanges es = [] \<and> refreshes es = (if r = Inr False then 0 else 1)) w"
  by (auto simp: refreshAccessToken_def wp_simps split: option.split sum.split prod.split)

lemma try_refresh_spec:
  "wp (try_refresh c err b)
     (\<lambda>r es w'. exchanges es = [] \<and> refreshes es \<le> (if b then 0 else 1) \<and> (r = Inr True \<longrightarrow> \<not> b \<and> refreshes es = 1) \<and>
        (r = Inr False \<longrightarrow> refreshes es = 0)) w"
  by (auto simp: try_refresh_def wp_simps split: option.splits sum.splits
      intro!: wp_mono[OF refreshAccessToken_spec])

lemma wait_spec: "wp (wait c attempt after) (\<lambda>r es w'. exchanges es = [] \<and> refreshes es = 0) w"
  by (auto simp: wait_def Let_def wp_simps split: prod.split)

lemma retry_or_fail_spec:
  "wp (retry_or_fail c attempt err next)
     (\<lambda>r es w'. exchanges es = [] \<and> refreshes es = 0 \<and>
        (case r of Inl _ \<Rightarrow> True | Inr n \<Rightarrow> attempt \<le> rcMaxRetries (clRetry c) \<and> n = next)) w"
  by (auto simp: retry_or_fail_def wp_simps split: option.splits sum.splits intro!: wp_mono[OF wait_spec])

definition attempt_ok :: "'w Client \<Rightarrow> int \<Rightarrow> payload \<times> bool \<Rightarrow> (call_error + string) + payload \<times> bool \<Rightarrow> api_action list \<Rightarrow> bool" where
  "attempt_ok c attempt s r es =
     (case r of
        Inl result \<Rightarrow> exchanges es = [(fst s, is_ok result)] \<and> refreshes es \<le> (if snd s then 0 else 1)
      | Inr s' \<Rightarrow> exchanges es = [(fst s, False)] \<and> same_but_max_tokens (fst s) (fst s') \<and>
          goes_on (clRetry c) attempt (snd s) (snd s') \<and> refreshes es = (if snd s' \<and> \<not> snd s then 1 else 0))"

lemma doJSON_attempt_spec:
  "wp (doJSON_attempt c path attempt (p, b)) (\<lambda>r es w'. attempt_ok c attempt (p, b) r es) w"
proof -
  have after: "wp (then_p (retry_or_fail c attempt err (p, b))
      (\<lambda>r. done_p (case r of Inl e \<Rightarrow> Inl (Inl e) | Inr next \<Rightarrow> Inr next)))
      (\<lambda>r es' w'. attempt_ok c attempt (p, b) r (Exchanged p False # es @ es')) w1"
    if "exchanges es = []" "refreshes es = 0" for err es w1
    using that by (auto simp: wp_simps attempt_ok_def is_ok_def goes_on_def split: sum.splits
        intro!: wp_mono[OF retry_or_fail_spec])
  show ?thesis
    unfolding doJSON_attempt_def prod.case
    by (auto simp: wp_then[of "ask_world _ _"] wp_ask wp_then[of "try_refresh _ _ _"] wp_done attempt_ok_def[of _ _ _ "Inl _"]
        is_ok_def goes_on_def attempt_ok_def[of _ _ _ "Inr (_, True)"] attempt_ok_def[of _ _ _ "Inr (the _, _)"]
        split: prod.split sum.split bool.split option.split
        intro!: wp_mono[OF try_refresh_spec] after)
      (auto simp: attempt_ok_def goes_on_def dest: same_smaller smaller_payload_attempt)
qed

definition call_ok :: "'w Client \<Rightarrow> int \<Rightarrow> payload \<times> bool \<Rightarrow> call_error + string \<Rightarrow> api_action list \<Rightarrow> bool" where
  "call_ok c attempt s r es =
     (map snd (exchanges es) = replicate (length (exchanges es) - 1) False @ [is_ok r] \<and>
      list_all (same_but_max_tokens (fst s) \<circ> fst) (exchanges es) \<and>
      length (exchanges es) \<le> nat (rcMaxRetries (clRetry c) + 1 - attempt) + (if snd s then 1 else 2) \<and>
      refreshes es \<le> (if snd s then 0 else 1))"

lemma call_ok_step:
  assumes "attempt_ok c attempt s (Inr s') es" "call_ok c (attempt + 1) s' r es'"
  shows "call_ok c attempt s r (es @ es')"
proof -
  have pos: "exchanges es' \<noteq> []" and "goes_on (clRetry c) attempt (snd s) (snd s')"
    using assms by (auto simp: call_ok_def attempt_ok_def)
  then have "length (exchanges es') \<le> nat (rcMaxRetries (clRetry c) - attempt) + (if snd s' then 1 else 2) \<Longrightarrow>
      Suc (length (exchanges es')) \<le> nat (rcMaxRetries (clRetry c) + 1 - attempt) + (if snd s then 1 else 2)"
    by (auto simp: goes_on_def split: if_splits)
  with assms pos show ?thesis
    by (cases "exchanges es'") (auto simp: call_ok_def attempt_ok_def goes_on_def list_all_iff add.commute intro: same_trans split: if_splits)
qed

lemma doJSON_loop_spec: "wp (doJSON_loop c path attempt s) (\<lambda>r es w'. call_ok c attempt s r es) w"
proof (induction c path attempt s w rule: doJSON_loop.induct)
  case (1 c path attempt s w)
  obtain p b where s: "s = (p, b)" by fastforce
  obtain x es w1 where x: "doJSON_attempt c path attempt s w = (x, es, w1)" using prod_cases3 by blast
  have ok: "attempt_ok c attempt s x es" using wpD[OF doJSON_attempt_spec x[unfolded s]] s by simp
  show ?case
  proof (cases x)
    case (Inl r)
    then show ?thesis using x ok
      by (auto simp: wp_def doJSON_loop.simps[of c path attempt s w] attempt_ok_def call_ok_def split: if_splits)
  next
    case (Inr s')
    then have "wp (doJSON_loop c path (attempt + 1) s') (\<lambda>r es' w'. call_ok c (attempt + 1) s' r es') w1"
      using "1.IH" x by simp
    then show ?thesis using x call_ok_step[OF ok[unfolded Inr]] Inr
      by (auto simp: wp_def doJSON_loop.simps[of c path attempt s w] split: prod.splits)
  qed
qed

section \<open>Delays\<close>

lemma backoff_closed: "0 < delay \<Longrightarrow> delay \<le> m \<Longrightarrow> backoff n delay m = min (delay * 2 ^ n) m"
proof (induction n arbitrary: delay)
  case (Suc n)
  have le: "2 * delay \<le> delay * 2 ^ Suc n" using Suc.prems by simp
  show ?case
  proof (cases "2 * delay \<ge> m")
    case True
    then have "m \<le> delay * 2 ^ Suc n" using le by linarith
    then show ?thesis using True by simp
  next
    case False
    then show ?thesis using Suc.IH[of "2 * delay"] Suc.prems by (simp add: mult.commute mult.left_commute)
  qed
qed simp

section \<open>Streams\<close>

datatype piece = TextPiece string | JsonPiece string

definition blank_event :: StreamEvent where
  "blank_event = \<lparr>sevType = [], sevIndex = 0, sevMessage = None, sevContentBlock = None, sevDelta = [], sevUsage = None\<rparr>"

fun piece_delta :: "piece \<Rightarrow> go_map" where
  "piece_delta (TextPiece t) = [(''type'', AnyString ''text_delta''), (''text'', AnyString t)]"
| "piece_delta (JsonPiece t) = [(''type'', AnyString ''input_json_delta''), (''partial_json'', AnyString t)]"

definition block_events :: "nat \<Rightarrow> ContentBlock \<times> piece list \<Rightarrow> StreamEvent list" where
  "block_events i = (\<lambda>(b, pieces).
     blank_event\<lparr>sevType := ''content_block_start'', sevIndex := int i, sevContentBlock := Some b\<rparr> #
     map (\<lambda>p. blank_event\<lparr>sevType := ''content_block_delta'', sevIndex := int i, sevDelta := piece_delta p\<rparr>) pieces @
     [blank_event\<lparr>sevType := ''content_block_stop'', sevIndex := int i\<rparr>])"

fun all_block_events :: "nat \<Rightarrow> (ContentBlock \<times> piece list) list \<Rightarrow> StreamEvent list" where
  "all_block_events i [] = []"
| "all_block_events i (x # xs) = block_events i x @ all_block_events (Suc i) xs"

definition text_of :: "piece list \<Rightarrow> string" where
  "text_of ps = concat (map (\<lambda>p. case p of TextPiece t \<Rightarrow> t | JsonPiece _ \<Rightarrow> []) ps)"

definition json_of :: "piece list \<Rightarrow> string" where
  "json_of ps = concat (map (\<lambda>p. case p of TextPiece _ \<Rightarrow> [] | JsonPiece t \<Rightarrow> t) ps)"

definition assembled :: "prog_env \<Rightarrow> ContentBlock \<times> piece list \<Rightarrow> ContentBlock" where
  "assembled env = (\<lambda>(b, ps).
     (let b' = with_text (blockText b @ text_of ps) b in if json_of ps = [] then b' else with_input (raw_of env (json_of ps)) b'))"

definition message_events ::
  "Response \<Rightarrow> (ContentBlock \<times> piece list) list \<Rightarrow> string \<Rightarrow> Usage \<Rightarrow> StreamEvent list" where
  "message_events response blocks stop usage =
     blank_event\<lparr>sevType := ''message_start'', sevMessage := Some (response\<lparr>respContent := []\<rparr>)\<rparr> #
     all_block_events 0 blocks @
     [blank_event\<lparr>sevType := ''message_delta'', sevDelta := [(''stop_reason'', AnyString stop)], sevUsage := Some usage\<rparr>,
      blank_event\<lparr>sevType := ''message_stop''\<rparr>]"

lemma add_events_append: "add_events env (xs @ ys) a = Option.bind (add_events env xs a) (add_events env ys)"
  by (induction xs arbitrary: a) (auto split: option.split)

lemma update_last:
  "respContent (accResponse a) = cs @ [b] \<Longrightarrow>
   update_block (int (length cs)) f a = Some (a\<lparr>accResponse := (accResponse a)\<lparr>respContent := cs @ [f b]\<rparr>\<rparr>)"
  by (simp add: update_block_def ensureIndex_def nat_add_distrib)

lemma update_new:
  "respContent (accResponse a) = cs \<Longrightarrow>
   update_block (int (length cs)) f a = Some (a\<lparr>accResponse := (accResponse a)\<lparr>respContent := cs @ [f blank_block]\<rparr>\<rparr>)"
  by (simp add: update_block_def ensureIndex_def nat_add_distrib)

lemma with_text_simps [simp]:
  "blockText (with_text t b) = t" "with_text t (with_text u b) = with_text t b" "with_text (blockText b) b = b"
  by (cases b; simp add: with_text_def)+

lemma text_json_simps [simp]:
  "text_of [] = []" "json_of [] = []"
  "text_of (TextPiece t # ps) = t @ text_of ps" "text_of (JsonPiece t # ps) = text_of ps"
  "json_of (TextPiece t # ps) = json_of ps" "json_of (JsonPiece t # ps) = t @ json_of ps"
  by (simp_all add: text_of_def json_of_def)

definition delta_event :: "nat \<Rightarrow> piece \<Rightarrow> StreamEvent" where
  "delta_event i p = blank_event\<lparr>sevType := ''content_block_delta'', sevIndex := int i, sevDelta := piece_delta p\<rparr>"

lemma add_delta:
  assumes "respContent (accResponse a) = cs @ [b]"
  shows "Add env (delta_event (length cs) p) a =
    Some (a\<lparr>accResponse := (accResponse a)\<lparr>respContent := cs @ [with_text (blockText b @ text_of [p]) b]\<rparr>,
      accJsonBuf := (accJsonBuf a)(int (length cs) := accJsonBuf a (int (length cs)) @ json_of [p])\<rparr>)"
  using update_last[OF assms]
  by (cases p) (auto simp: Add_def delta_event_def blank_event_def delta_block_def delta_json_def field_def is_string_def)

lemma add_deltas:
  assumes "respContent (accResponse a) = cs @ [b]"
  shows "add_events env (map (delta_event (length cs)) ps) a =
    Some (a\<lparr>accResponse := (accResponse a)\<lparr>respContent := cs @ [with_text (blockText b @ text_of ps) b]\<rparr>,
      accJsonBuf := (accJsonBuf a)(int (length cs) := accJsonBuf a (int (length cs)) @ json_of ps)\<rparr>)"
  using assms
proof (induction ps arbitrary: a b)
  case Nil
  then show ?case by (cases a; cases "accResponse a") simp
next
  case (Cons p ps)
  have parts: "text_of (p # ps) = text_of [p] @ text_of ps" "json_of (p # ps) = json_of [p] @ json_of ps"
    by (cases p; simp)+
  show ?case
    unfolding list.map add_events.simps add_delta[OF Cons.prems] option.case
    by (subst Cons.IH[where b = "with_text (blockText b @ text_of [p]) b"]) (simp_all add: parts del: text_json_simps)
qed

lemma add_block:
  assumes "respContent (accResponse a) = cs" "accJsonBuf a (int (length cs)) = []"
  shows "\<exists>buf. add_events env (block_events (length cs) x) a =
      Some (a\<lparr>accResponse := (accResponse a)\<lparr>respContent := cs @ [assembled env x]\<rparr>, accJsonBuf := buf\<rparr>) \<and>
      (\<forall>j. j \<noteq> int (length cs) \<longrightarrow> buf j = accJsonBuf a j)"
proof -
  obtain b ps where x: "x = (b, ps)" by fastforce
  let ?a = "a\<lparr>accResponse := (accResponse a)\<lparr>respContent := cs @ [b]\<rparr>\<rparr>"
  have start: "Add env (blank_event\<lparr>sevType := ''content_block_start'', sevIndex := int (length cs), sevContentBlock := Some b\<rparr>) a = Some ?a"
    using update_new[OF assms(1)] by (simp add: Add_def blank_event_def)
  have events: "block_events (length cs) x =
      [blank_event\<lparr>sevType := ''content_block_start'', sevIndex := int (length cs), sevContentBlock := Some b\<rparr>] @
      map (delta_event (length cs)) ps @ [blank_event\<lparr>sevType := ''content_block_stop'', sevIndex := int (length cs)\<rparr>]"
    by (simp add: block_events_def x delta_event_def[abs_def])
  show ?thesis
    unfolding events add_events_append add_events.simps start option.case bind.simps
    by (subst add_deltas[where cs = cs and b = b])
       (auto simp: Add_def blank_event_def assms update_last assembled_def x Let_def
         intro!: exI[of _ "(accJsonBuf a)(int (length cs) := json_of ps)"] StreamAccumulator.equality)
qed

lemma add_blocks:
  assumes "respContent (accResponse a) = cs" "\<forall>j \<ge> int (length cs). accJsonBuf a j = []"
  shows "\<exists>buf. add_events env (all_block_events (length cs) xs) a =
      Some (a\<lparr>accResponse := (accResponse a)\<lparr>respContent := cs @ map (assembled env) xs\<rparr>, accJsonBuf := buf\<rparr>)"
  using assms
proof (induction xs arbitrary: a cs)
  case Nil
  then show ?case by (intro exI[of _ "accJsonBuf a"]) (cases a; cases "accResponse a"; simp)
next
  case (Cons x xs)
  obtain buf where buf: "add_events env (block_events (length cs) x) a =
      Some (a\<lparr>accResponse := (accResponse a)\<lparr>respContent := cs @ [assembled env x]\<rparr>, accJsonBuf := buf\<rparr>)"
      "\<forall>j. j \<noteq> int (length cs) \<longrightarrow> buf j = accJsonBuf a j"
    using add_block[OF Cons.prems(1), of env x] Cons.prems(2) by auto
  have "\<exists>buf'. add_events env (all_block_events (length (cs @ [assembled env x])) xs)
      (a\<lparr>accResponse := (accResponse a)\<lparr>respContent := cs @ [assembled env x]\<rparr>, accJsonBuf := buf\<rparr>) =
      Some (a\<lparr>accResponse := (accResponse a)\<lparr>respContent := (cs @ [assembled env x]) @ map (assembled env) xs\<rparr>, accJsonBuf := buf'\<rparr>)"
    using Cons.IH[of "a\<lparr>accResponse := (accResponse a)\<lparr>respContent := cs @ [assembled env x]\<rparr>, accJsonBuf := buf\<rparr>" "cs @ [assembled env x]"]
      Cons.prems(2) buf(2) by fastforce
  then show ?case by (simp add: add_events_append buf(1))
qed

end
