(* ===== verification/ApiProps.thy ===== *)
theory ApiProps
  imports ApiLaws ToolProps
begin

text \<open>
  The properties of the API client: how often a call is sent and what its last exchange decides, the
  delays between attempts, and the message that a stream is accumulated to.
\<close>

definition example_prog_env :: prog_env where
  "example_prog_env = schema_env.extend example_schema_env
     \<lparr>getenv = (\<lambda>_. []), parse_float = (\<lambda>_. None), float_round = id, json_decode = (\<lambda>_. None), json_block = (\<lambda>_. []),
      json_schema = (\<lambda>_. None), url_host = (\<lambda>_. None), context_window = (\<lambda>_. None), wrapped_summary = (\<lambda>_. None),
      json_any = (\<lambda>_. None), json_indented = (\<lambda>_. None), decode_blocks = (\<lambda>_. None)\<rparr>"

text \<open>C36: A call of the API ends. It is sent at most \<open>MaxRetries + 2\<close> times (twice when \<open>MaxRetries\<close> is
  not positive), and the access token is refreshed at most once. Every exchange but the last failed,
  and the call gives a body exactly when the last one succeeded. Between the exchanges the request
  may change in its \<open>max_tokens\<close> only.\<close>

theorem call_attempts_bounded:
  "case doJSON c path payload w of (r, es, w') \<Rightarrow>
     length (exchanges es) \<le> nat (rcMaxRetries (clRetry c)) + 2 \<and> refreshes es \<le> 1 \<and>
     map snd (exchanges es) = replicate (length (exchanges es) - 1) False @ [is_ok r] \<and>
     list_all (same_but_max_tokens payload \<circ> fst) (exchanges es)"
  using doJSON_loop_spec[of c path 1 "(payload, False)" w]
  by (auto simp: doJSON_def wp_def call_ok_def split: prod.split)

text \<open>C37: A message that is streamed as its start, for every block the start, the pieces of its text or
  of its input and the stop, and the stop reason with the usage, is accumulated to the message: the
  texts of each block joined in order, an input that is the joined JSON, the stop reason, and the
  last usage with its cost.\<close>

theorem stream_reassembles:
  "map_option (Finish env) (add_events env (message_events response blocks stop usage) NewStreamAccumulator) =
   Some (let used = UpdateUsage (respUsage response) usage
         in response\<lparr>respContent := map (assembled env) blocks, respStopReason := stop,
              respUsage := if respModel response = [] then used else UsageWithCost env (respModel response) used\<rparr>)"
proof -
  let ?a = "NewStreamAccumulator\<lparr>accResponse := response\<lparr>respContent := []\<rparr>, accUsage := respUsage response\<rparr>"
  obtain buf where buf: "add_events env (all_block_events 0 blocks) ?a =
      Some (?a\<lparr>accResponse := (accResponse ?a)\<lparr>respContent := map (assembled env) blocks\<rparr>, accJsonBuf := buf\<rparr>)"
    using add_blocks[of ?a "[]" env blocks] by (auto simp: NewStreamAccumulator_def)
  show ?thesis
    unfolding message_events_def add_events.simps add_events_append
    by (simp add: Add_def blank_event_def buf stop_fields_def field_def Finish_def Let_def)
qed

text \<open>Without jitter and without a \<open>retry-after\<close> header, the delay before the retry after attempt
  \<open>n\<close> is the base delay doubled \<open>n - 1\<close> times, up to the largest delay.\<close>

theorem retry_delay_doubles:
  assumes "rcJitterFraction config \<le> 0" "0 < rcBaseDelay config" "rcBaseDelay config \<le> rcMaxDelay config"
  shows "RetryDelay env random (int n + 1) [] config = min (rcBaseDelay config * 2 ^ n) (rcMaxDelay config)"
  using assms by (simp add: RetryDelay_def retry_after_seconds_def jitter_def backoff_closed)

lemma retry_delay_doubles_witness:
  "RetryDelay example_prog_env 0 7 [] (DefaultRetryConfig\<lparr>rcJitterFraction := 0\<rparr>) = 32 * second \<and>
   RetryDelay example_prog_env 0 3 [] (DefaultRetryConfig\<lparr>rcJitterFraction := 0\<rparr>) = 2 * second"
  using retry_delay_doubles[of "DefaultRetryConfig\<lparr>rcJitterFraction := 0\<rparr>" example_prog_env 0 6]
    retry_delay_doubles[of "DefaultRetryConfig\<lparr>rcJitterFraction := 0\<rparr>" example_prog_env 0 2]
  by (simp add: DefaultRetryConfig_def)

end
