(* ===== verification/Messages.thy ===== *)
theory Messages
  imports ToolRun ApiTypes
begin

text \<open>
  The messages of a conversation: \<open>internal/messages\<close>, and the helpers of
  \<open>internal/conversation/run.go\<close> that make messages, chain them and read the tool uses out of
  them.

  \<open>contracts.NewID\<close> is a parameter that changes the world. An attachment's payload is decoded
  JSON or the map that the program built; it holds no \<open>[]byte\<close>.
\<close>

type_synonym 'w ids = "'w \<Rightarrow> ID \<times> 'w"

abbreviation MessageUser :: string where "MessageUser \<equiv> ''user''"
abbreviation MessageAssistant :: string where "MessageAssistant \<equiv> ''assistant''"
abbreviation MessageSystem :: string where "MessageSystem \<equiv> ''system''"
abbreviation MessageAttachment :: string where "MessageAttachment \<equiv> ''attachment''"


text \<open>The zero value \<open>contracts.Message{}\<close>.\<close>

definition blank_message :: Message where
  "blank_message = \<lparr>msgID = [], msgType = [], msgUUID = [], msgParentUUID = None, msgSessionID = [], msgIsMeta = False,
     msgTimestamp = [], msgContent = [], msgSubtype = [], msgModel = [], msgUsage = None, msgRaw = []\<rparr>"

definition tool_result_block :: "ID \<Rightarrow> goany \<Rightarrow> bool \<Rightarrow> ContentBlock" where
  "tool_result_block toolUseID content isError =
     ContentBlock ContentToolResult [] AnyNil [] [] no_input content isError toolUseID"

section \<open>Builders\<close>

definition UserText :: "'w ids \<Rightarrow> string \<Rightarrow> 'w \<Rightarrow> Message \<times> 'w" where
  "UserText newID text w =
     (case newID w of (i, w') \<Rightarrow>
        (blank_message\<lparr>msgType := MessageUser, msgUUID := i, msgContent := [NewTextBlock text]\<rparr>, w'))"

definition AssistantText :: "'w ids \<Rightarrow> string \<Rightarrow> string \<Rightarrow> Usage option \<Rightarrow> 'w \<Rightarrow> Message \<times> 'w" where
  "AssistantText newID text model usage w =
     (case newID w of (i, w') \<Rightarrow>
        (blank_message\<lparr>msgType := MessageAssistant, msgUUID := i, msgModel := model, msgUsage := usage,
           msgContent := [NewTextBlock text]\<rparr>, w'))"

definition SystemText :: "'w ids \<Rightarrow> string \<Rightarrow> string \<Rightarrow> 'w \<Rightarrow> Message \<times> 'w" where
  "SystemText newID subtype text w =
     (case newID w of (i, w') \<Rightarrow>
        (blank_message\<lparr>msgType := MessageSystem, msgUUID := i, msgSubtype := subtype, msgContent := [NewTextBlock text]\<rparr>, w'))"

definition ToolResultMessage :: "'w ids \<Rightarrow> ID \<Rightarrow> goany \<Rightarrow> bool \<Rightarrow> 'w \<Rightarrow> Message \<times> 'w" where
  "ToolResultMessage newID toolUseID content isError w =
     (case newID w of (i, w') \<Rightarrow>
        (blank_message\<lparr>msgType := MessageUser, msgUUID := i, msgContent := [tool_result_block toolUseID content isError]\<rparr>, w'))"

definition block_texts :: "ContentBlock list \<Rightarrow> string list" where
  "block_texts content = List.map_filter (\<lambda>b. if blockType b = ContentText \<and> blockText b \<noteq> [] then Some (blockText b) else None) content"

definition TextContent :: "Message \<Rightarrow> string" where
  "TextContent message = Join (block_texts (msgContent message)) [CHR 0x0A]"

section \<open>What is sent to the API\<close>

definition attachmentString :: "goany \<Rightarrow> string" where
  "attachmentString value = (case value of AnyString s \<Rightarrow> s | _ \<Rightarrow> [])"

definition cleanStringSlice :: "string list \<Rightarrow> string list" where
  "cleanStringSlice values = filter (\<lambda>s. s \<noteq> []) (map TrimSpace values)"

definition list_separator :: "char \<Rightarrow> bool" where
  "list_separator c = (c \<in> {CHR '','', CHR 0x0A, CHR 0x0D, CHR 0x09})"

definition one_string_slice :: "goany \<Rightarrow> string list" where
  "one_string_slice value =
     (case value of
        AnyStrings typed \<Rightarrow> cleanStringSlice typed
      | AnySlice typed \<Rightarrow> cleanStringSlice (map attachmentString typed)
      | AnyString typed \<Rightarrow> cleanStringSlice (FieldsFunc typed list_separator)
      | _ \<Rightarrow> [])"

fun attachmentStringSlice :: "goany list \<Rightarrow> string list" where
  "attachmentStringSlice [] = []"
| "attachmentStringSlice (value # values) =
     (if one_string_slice value \<noteq> [] then one_string_slice value else attachmentStringSlice values)"

definition attachmentPayload :: "Message \<Rightarrow> go_map option" where
  "attachmentPayload msg =
     (if msgType msg \<noteq> MessageAttachment \<or> msgRaw msg = [] then None
      else (case field (msgRaw msg) ''attachment'' of AnyMap payload \<Rightarrow> Some payload | _ \<Rightarrow> None))"

definition added_text :: string where
  "added_text = ''The following deferred tools are now available via ToolSearch:'' @ [CHR 0x0A]"

definition removed_text :: string where
  "removed_text = ''The following deferred tools are no longer available (their MCP server disconnected). Do not search for them - ToolSearch will return no match:'' @ [CHR 0x0A]"

definition attachment_parts :: "go_map \<Rightarrow> string list" where
  "attachment_parts payload =
     (let added = attachmentStringSlice (map (field payload) [''addedLines'', ''added_lines'', ''addedNames'', ''added_names'']);
          removed = attachmentStringSlice (map (field payload) [''removedNames'', ''removed_names''])
      in (if added \<noteq> [] then [added_text @ Join added [CHR 0x0A]] else []) @
         (if removed \<noteq> [] then [removed_text @ Join removed [CHR 0x0A]] else []))"

definition attachmentMessageForAPI :: "Message \<Rightarrow> APIMessage option" where
  "attachmentMessageForAPI msg =
     (case attachmentPayload msg of
        None \<Rightarrow> None
      | Some payload \<Rightarrow>
        if TrimSpace (attachmentString (field payload ''type'')) \<noteq> ''deferred_tools_delta'' then None
        else if attachment_parts payload = [] then None
        else Some \<lparr>apiRole = ''user'', apiContent = [NewTextBlock (Join (attachment_parts payload) [CHR 0x0A, CHR 0x0A])]\<rparr>)"

definition api_message :: "Message \<Rightarrow> APIMessage option" where
  "api_message msg =
     (if msgType msg = MessageUser then Some \<lparr>apiRole = ''user'', apiContent = msgContent msg\<rparr>
      else if msgType msg = MessageAssistant then Some \<lparr>apiRole = ''assistant'', apiContent = msgContent msg\<rparr>
      else if msgType msg = MessageAttachment then attachmentMessageForAPI msg
      else None)"

definition NormalizeForAPI :: "Message list \<Rightarrow> APIMessage list" where
  "NormalizeForAPI messages = List.map_filter api_message messages"

section \<open>The parent chain\<close>

fun link_loop :: "'w ids \<Rightarrow> ID option \<Rightarrow> Message list \<Rightarrow> 'w \<Rightarrow> Message list \<times> 'w" where
  "link_loop newID parent [] w = ([], w)"
| "link_loop newID parent (m # ms) w =
     (let (i, w1) = (if msgUUID m = [] then newID w else (msgUUID m, w));
          (linked, w2) = link_loop newID (Some i) ms w1
      in (m\<lparr>msgUUID := i, msgParentUUID := parent\<rparr> # linked, w2))"

definition LinkParentChain :: "'w ids \<Rightarrow> Message list \<Rightarrow> 'w \<Rightarrow> Message list \<times> 'w" where
  "LinkParentChain newID messages w = link_loop newID None messages w"

text \<open>A message without an ID gets one.\<close>

definition with_uuid :: "'w ids \<Rightarrow> Message \<Rightarrow> 'w \<Rightarrow> Message \<times> 'w" where
  "with_uuid newID m w =
     (if msgUUID m = [] then (case newID w of (i, w') \<Rightarrow> (m\<lparr>msgUUID := i\<rparr>, w')) else (m, w))"

definition appendMessage :: "'w ids \<Rightarrow> Message list \<Rightarrow> Message \<Rightarrow> 'w \<Rightarrow> (Message list \<times> Message) \<times> 'w" where
  "appendMessage newID history message w =
     (let (message, w1) = with_uuid newID message w
      in if history = [] then (([message], message), w1)
         else let (final, w2) = with_uuid newID (last history) w1;
                  message = message\<lparr>msgParentUUID := Some (msgUUID final)\<rparr>
              in ((butlast history @ [final, message], message), w2))"

section \<open>Responses and tool uses\<close>

definition messageFromResponse :: "'w ids \<Rightarrow> ID \<Rightarrow> Response \<Rightarrow> 'w \<Rightarrow> Message \<times> 'w" where
  "messageFromResponse newID sessionID response w =
     (case newID w of (i, w') \<Rightarrow>
        (blank_message\<lparr>msgID := respID response, msgType := MessageAssistant, msgUUID := i, msgSessionID := sessionID,
           msgModel := respModel response, msgContent := respContent response, msgUsage := Some (respUsage response),
           msgRaw := [(''id'', AnyString (respID response)), (''type'', AnyString (respType response)),
             (''stop_reason'', AnyString (respStopReason response)), (''stop_sequence'', AnyString (respStopSequence response))]\<rparr>, w'))"

definition normalizeRunInput :: "raw_message \<Rightarrow> raw_message" where
  "normalizeRunInput raw =
     (if raw_text raw = [] then \<lparr>raw_text = ''{}'', raw_value = Some (JObj [])\<rparr> else raw)"

fun tool_uses_loop :: "'w ids \<Rightarrow> ContentBlock list \<Rightarrow> 'w \<Rightarrow> ToolUse list \<times> 'w" where
  "tool_uses_loop newID [] w = ([], w)"
| "tool_uses_loop newID (b # bs) w =
     (if blockType b \<noteq> ContentToolUse then tool_uses_loop newID bs w
      else let (i, w1) = (if blockID b = [] then newID w else (blockID b, w));
               (uses, w2) = tool_uses_loop newID bs w1
           in (\<lparr>useID = i, useName = blockName b, useInput = normalizeRunInput (blockInput b)\<rparr> # uses, w2))"

definition ToolUses :: "'w ids \<Rightarrow> Message \<Rightarrow> 'w \<Rightarrow> ToolUse list \<times> 'w" where
  "ToolUses newID message w = tool_uses_loop newID (msgContent message) w"

end
