(* ===== verification/Compaction.thy ===== *)
theory Compaction
  imports Messages ApiClient
begin

text \<open>
  The compaction of a conversation, \<open>internal/compact\<close>: the estimate of tokens (\<open>estimate.go\<close>), the
  thresholds (\<open>threshold.go\<close>), the prompt (\<open>prompt.go\<close>), the plan (\<open>plan.go\<close>) and the runner
  (\<open>runner.go\<close>).

  The world gives new IDs, the time and the reply of the client (never a nil response without an
  error). A summary that a provider has wrapped in JSON is read by \<open>micro.go\<close>, which is a parameter
  (\<open>wrapped_summary\<close>). Lengths are far below the range of \<open>int\<close>.
\<close>

abbreviation TriggerManual :: string where "TriggerManual \<equiv> ''manual''"
abbreviation TriggerAuto :: string where "TriggerAuto \<equiv> ''auto''"

record 'w sources =
  srcNewID :: "'w ids"
  srcNow :: "'w \<Rightarrow> string \<times> 'w"

section \<open>The estimate\<close>

definition block_chars :: "prog_env \<Rightarrow> ContentBlock \<Rightarrow> nat" where
  "block_chars env b =
     (if blockType b = ContentText \<or> blockType b = ContentThinking then length (blockText b)
      else if blockType b = ContentToolUse then length (blockName b) + length (raw_text (blockInput b))
      else if blockType b = ContentToolResult
      then length (blockToolUseID b) + length (sprint (schema_env.truncate env) (blockContent b))
      else length (json_block env b))"

definition message_chars :: "prog_env \<Rightarrow> Message \<Rightarrow> nat" where
  "message_chars env m =
     length (msgID m) + length (msgModel m) + length (msgSubtype m) + sum_list (map (block_chars env) (msgContent m))"

definition EstimateTokens :: "prog_env \<Rightarrow> Message list \<Rightarrow> int" where
  "EstimateTokens env messages =
     (let chars = sum_list (map (message_chars env) messages)
      in if chars = 0 then 0 else int (chars div 4) + (if chars mod 4 \<noteq> 0 then 1 else 0))"

section \<open>Thresholds\<close>

record WindowConfig =
  wcContextWindow :: int
  wcMaxOutputTokens :: int
  wcAutoCompactEnabled :: bool
  wcAutoCompactOverride :: "rat option"
  wcBlockingLimit :: int

record WarningState =
  wsPercentLeft :: int
  wsIsAboveWarningThreshold :: bool
  wsIsAboveErrorThreshold :: bool
  wsIsAboveAutoCompactThreshold :: bool
  wsIsAtBlockingLimit :: bool

definition EffectiveContextWindow :: "WindowConfig \<Rightarrow> int" where
  "EffectiveContextWindow config =
     (let contextWindow = (if wcContextWindow config \<le> 0 then 200000 else wcContextWindow config);
          outputTokens = (if wcMaxOutputTokens config \<le> 0 \<or> wcMaxOutputTokens config > 20000 then 20000
                          else wcMaxOutputTokens config)
      in max 0 (contextWindow - outputTokens))"

definition percent_threshold :: "prog_env \<Rightarrow> int \<Rightarrow> rat \<Rightarrow> int" where
  "percent_threshold env effective override =
     \<lfloor>float_round env (float_round env (of_int effective) * float_round env (override / 100))\<rfloor>"

definition AutoCompactThreshold :: "prog_env \<Rightarrow> WindowConfig \<Rightarrow> int" where
  "AutoCompactThreshold env config =
     (let effective = EffectiveContextWindow config;
          threshold = effective - 13000
      in max 0 (case wcAutoCompactOverride config of
                  Some override \<Rightarrow>
                    if 0 < override \<and> override \<le> 100 \<and> percent_threshold env effective override < threshold
                    then percent_threshold env effective override else threshold
                | None \<Rightarrow> threshold))"

definition CalculateWarningState :: "prog_env \<Rightarrow> int \<Rightarrow> WindowConfig \<Rightarrow> WarningState" where
  "CalculateWarningState env tokenUsage config =
     (let autoThreshold = AutoCompactThreshold env config;
          threshold = (if wcAutoCompactEnabled config then autoThreshold else EffectiveContextWindow config)
      in if threshold \<le> 0
         then \<lparr>wsPercentLeft = 0, wsIsAboveWarningThreshold = True, wsIsAboveErrorThreshold = True,
               wsIsAboveAutoCompactThreshold = wcAutoCompactEnabled config, wsIsAtBlockingLimit = True\<rparr>
         else
           let percentLeft = \<lfloor>go_round (float_round env (float_round env
                   (float_round env (of_int (threshold - tokenUsage)) / float_round env (of_int threshold)) * 100))\<rfloor>;
               blockingLimit = (if wcBlockingLimit config \<le> 0 then EffectiveContextWindow config - 3000
                                else wcBlockingLimit config)
           in \<lparr>wsPercentLeft = max 0 percentLeft,
               wsIsAboveWarningThreshold = (tokenUsage \<ge> threshold - 20000),
               wsIsAboveErrorThreshold = (tokenUsage \<ge> threshold - 20000),
               wsIsAboveAutoCompactThreshold = (wcAutoCompactEnabled config \<and> tokenUsage \<ge> autoThreshold),
               wsIsAtBlockingLimit = (tokenUsage \<ge> blockingLimit)\<rparr>)"

definition ShouldAutoCompact :: "prog_env \<Rightarrow> int \<Rightarrow> WindowConfig \<Rightarrow> bool" where
  "ShouldAutoCompact env tokenUsage config =
     (if getenv env ''DISABLE_COMPACT'' \<noteq> [] \<or> getenv env ''DISABLE_AUTO_COMPACT'' \<noteq> [] then False
      else if \<not> wcAutoCompactEnabled config then False
      else tokenUsage \<ge> AutoCompactThreshold env config)"

definition env_override :: "prog_env \<Rightarrow> rat option" where
  "env_override env =
     (let raw = getenv env ''CLAUDE_AUTOCOMPACT_PCT_OVERRIDE''
      in if raw = [] then None
         else case parse_float env raw of
                Some parsed \<Rightarrow> if parsed > 0 \<and> parsed \<le> 100 then Some parsed else None
              | None \<Rightarrow> None)"

definition env_blocking_limit :: "prog_env \<Rightarrow> int option" where
  "env_blocking_limit env =
     (let raw = getenv env ''CLAUDE_CODE_BLOCKING_LIMIT_OVERRIDE''
      in if raw = [] then None
         else case Atoi_text raw of Some parsed \<Rightarrow> if parsed > 0 then Some parsed else None | None \<Rightarrow> None)"

definition WindowConfigFromEnv :: "prog_env \<Rightarrow> WindowConfig \<Rightarrow> WindowConfig" where
  "WindowConfigFromEnv env conf =
     (let conf = (case env_override env of Some parsed \<Rightarrow> conf\<lparr>wcAutoCompactOverride := Some parsed\<rparr> | None \<Rightarrow> conf)
      in case env_blocking_limit env of Some parsed \<Rightarrow> conf\<lparr>wcBlockingLimit := parsed\<rparr> | None \<Rightarrow> conf)"

section \<open>When to compact\<close>

record AutoConfig =
  acEnabled :: bool
  acForce :: bool
  acWindow :: WindowConfig
  acKeepLast :: int
  acMinMessages :: int
  acExtraInstructions :: string
  acTokenUsage :: int
  acConsecutiveFailures :: int
  acMaxConsecutiveFailures :: int

definition FailureLimit :: "AutoConfig \<Rightarrow> int" where
  "FailureLimit config = (if acMaxConsecutiveFailures config > 0 then acMaxConsecutiveFailures config else 3)"

definition FailureLimitReached :: "AutoConfig \<Rightarrow> bool" where
  "FailureLimitReached config = (acConsecutiveFailures config \<ge> FailureLimit config)"

definition RecordFailure :: "AutoConfig option \<Rightarrow> AutoConfig option" where
  "RecordFailure config = map_option (\<lambda>c. c\<lparr>acConsecutiveFailures := acConsecutiveFailures c + 1\<rparr>) config"

definition RecordSuccess :: "AutoConfig option \<Rightarrow> AutoConfig option" where
  "RecordSuccess config = map_option (\<lambda>c. c\<lparr>acConsecutiveFailures := 0\<rparr>) config"

definition ShouldRun :: "prog_env \<Rightarrow> Message list \<Rightarrow> AutoConfig \<Rightarrow> bool" where
  "ShouldRun env history config =
     (if \<not> acEnabled config then False
      else if \<not> acForce config \<and> FailureLimitReached config then False
      else if acMinMessages config > 0 \<and> int (length history) < acMinMessages config then False
      else if acForce config then True
      else
        let usage = (if acTokenUsage config \<le> 0 then EstimateTokens env history else acTokenUsage config);
            window = (WindowConfigFromEnv env (acWindow config))\<lparr>wcAutoCompactEnabled := True\<rparr>
        in ShouldAutoCompact env usage window)"

section \<open>The plan\<close>

text \<open>The names in a tool result, before they are trimmed.\<close>

fun plan_references :: "goany \<Rightarrow> string list" where
  "plan_references (AnyReference reference) = [refToolName reference]"
| "plan_references (AnyReferences references) = map refToolName references"
| "plan_references (AnyMap typed) =
     (if is_string (field typed ''type'') ''tool_reference''
      then case field typed ''tool_name'' of AnyString name \<Rightarrow> if name \<noteq> [] then [name] else [] | _ \<Rightarrow> []
      else [])"
| "plan_references (AnySlice items) = concat (map plan_references items)"
| "plan_references _ = []"

definition addToolReferenceName :: "prog_env \<Rightarrow> string list \<Rightarrow> string \<Rightarrow> string list" where
  "addToolReferenceName env out name0 =
     (let name = TrimSpace name0
      in if name = [] then out
         else if ToLower (genv env) name \<in> set (map (ToLower (genv env)) out) then out
         else out @ [name])"

definition result_contents :: "Message \<Rightarrow> goany list" where
  "result_contents m = map blockContent (filter (\<lambda>b. blockType b = ContentToolResult) (msgContent m))"

definition discoveredToolReferences :: "prog_env \<Rightarrow> Message list \<Rightarrow> string list" where
  "discoveredToolReferences env history =
     foldl (addToolReferenceName env) [] (concat (map plan_references (concat (map result_contents history))))"

record PlanOptions =
  poTrigger :: string
  poPreTokens :: int
  poUserContext :: string
  poKeepLast :: int
  poSummary :: string
  poBoundaryUUID :: ID
  poSummaryUUID :: ID
  poPreserveRecent :: bool

record Plan =
  planSummarized :: "Message list"
  planKept :: "Message list"
  planBoundary :: Message
  planSummary :: Message
  planOutput :: "Message list"
  planMetadata :: CompactMetadata

definition kept_count :: "Message list \<Rightarrow> int \<Rightarrow> nat" where
  "kept_count history keepLast = nat (min (max 0 keepLast) (int (length history)))"

text \<open>The kept messages, each after the one before it.\<close>

fun relink :: "ID \<Rightarrow> Message list \<Rightarrow> Message list" where
  "relink parent [] = []"
| "relink parent (m # ms) = m\<lparr>msgParentUUID := Some parent\<rparr> # relink (msgUUID m) ms"

definition no_summary_text :: string where
  "no_summary_text = ''Previous conversation was compacted; no summary was provided.''"

definition id_or_new :: "'w sources \<Rightarrow> ID \<Rightarrow> 'w \<Rightarrow> ID \<times> 'w" where
  "id_or_new src i w = (if i = [] then srcNewID src w else (i, w))"

definition BuildPlan :: "prog_env \<Rightarrow> 'w sources \<Rightarrow> Message list \<Rightarrow> PlanOptions \<Rightarrow> 'w \<Rightarrow> Plan \<times> 'w" where
  "BuildPlan env src history options w =
     (let split_at = length history - kept_count history (poKeepLast options);
          summarized = take split_at history;
          kept = drop split_at history;
          (boundaryID, w1) = id_or_new src (poBoundaryUUID options) w;
          (summaryID, w2) = id_or_new src (poSummaryUUID options) w1;
          metadata = \<lparr>cmTrigger = (if poTrigger options = [] then TriggerManual else poTrigger options),
            cmPreTokens = poPreTokens options, cmUserContext = poUserContext options,
            cmMessagesSummarized = int (length summarized),
            cmPreCompactDiscoveredTools = discoveredToolReferences env history\<rparr>;
          (now, w3) = srcNow src w2;
          boundary = blank_message\<lparr>msgType := MessageSystem, msgUUID := boundaryID, msgSubtype := ''compact_boundary'',
            msgTimestamp := now, msgRaw := [(''compactMetadata'', AnyCompact metadata)]\<rparr>;
          summaryText = (if TrimSpace (poSummary options) = [] then no_summary_text else TrimSpace (poSummary options));
          (text, w4) = UserText (srcNewID src) (''Context summary from previous conversation:'' @ nl @ nl @ summaryText) w3;
          summary = text\<lparr>msgUUID := summaryID, msgParentUUID := Some boundaryID\<rparr>
      in (\<lparr>planSummarized = summarized, planKept = kept, planBoundary = boundary, planSummary = summary,
           planOutput = [boundary, summary] @ (if poPreserveRecent options then relink summaryID kept else []),
           planMetadata = metadata\<rparr>, w4))"

section \<open>The summary request\<close>

definition NoToolsPreamble :: string where
  "NoToolsPreamble =
     ''CRITICAL: Respond with TEXT ONLY. Do NOT call any tools.'' @ nl @ nl @
     ''- Do NOT use Read, Bash, Grep, Glob, Edit, Write, or ANY other tool.'' @ nl @
     ''- You already have all the context you need in the conversation above.'' @ nl @
     ''- Tool calls will be REJECTED and will waste your only turn -- you will fail the task.'' @ nl @
     ''- Your entire response must be plain text: an <analysis> block followed by a <summary> block.'' @ nl"

definition BaseSummaryPrompt :: string where
  "BaseSummaryPrompt =
     ''Your task is to create a detailed summary of the conversation so far, paying close attention to the user'' @ [CHR 0x27] @
     ''s explicit requests and your previous actions.'' @ nl @
     ''This summary should be thorough in capturing technical details, code patterns, and architectural decisions that would be essential for continuing development work without losing context.'' @ nl @ nl @
     ''Your summary should include:'' @ nl @ nl @
     ''1. Primary Request and Intent'' @ nl @ ''2. Key Technical Concepts'' @ nl @ ''3. Files and Code Sections'' @ nl @
     ''4. Errors and fixes'' @ nl @ ''5. Problem Solving'' @ nl @ ''6. All user messages'' @ nl @ ''7. Pending Tasks'' @ nl @
     ''8. Current Work'' @ nl @ ''9. Optional Next Step'' @ nl"

definition SummaryPrompt :: "bool \<Rightarrow> string \<Rightarrow> string" where
  "SummaryPrompt partial extraInstructions =
     NoToolsPreamble @ nl @ BaseSummaryPrompt @
     (if partial then nl @ ''Focus on the recent messages only; earlier retained context will remain available.'' @ nl else []) @
     (if TrimSpace extraInstructions \<noteq> []
      then nl @ ''Additional compact instructions:'' @ nl @ TrimSpace extraInstructions @ nl else [])"

definition SummaryRequestMessage :: "'w ids \<Rightarrow> bool \<Rightarrow> string \<Rightarrow> 'w \<Rightarrow> Message \<times> 'w" where
  "SummaryRequestMessage newID partial extraInstructions w = UserText newID (SummaryPrompt partial extraInstructions) w"

record 'w CompactRunner =
  crClient :: "(ApiRequest \<Rightarrow> 'w \<Rightarrow> (call_error + Response) \<times> 'w) option"
  crModel :: string
  crMaxTokens :: int
  crKeepLast :: int
  crExtraInstructions :: string

record CompactResult =
  crsPlan :: "Plan option"
  crsResponse :: "Response option"
  crsRequest :: "ApiRequest option"

definition BuildRequest :: "'w sources \<Rightarrow> 'w CompactRunner \<Rightarrow> Message list \<Rightarrow> 'w \<Rightarrow> ApiRequest \<times> 'w" where
  "BuildRequest src r history w =
     (case SummaryRequestMessage (srcNewID src) (crKeepLast r > 0) (crExtraInstructions r) w of (question, w') \<Rightarrow>
        (\<lparr>reqModel = (if crModel r = [] then ''sonnet'' else crModel r),
          reqMaxTokens = (if crMaxTokens r \<le> 0 then 20000 else crMaxTokens r),
          reqMessages = NormalizeForAPI (history @ [question]), reqSystem = [], reqTools = [], reqThinking = None,
          reqStream = False\<rparr>, w'))"

definition responseText :: "prog_env \<Rightarrow> Response \<Rightarrow> string" where
  "responseText env response =
     (let text = TrimSpace (Join (block_texts (respContent response)) nl)
      in case wrapped_summary env text of Some summary \<Rightarrow> summary | None \<Rightarrow> text)"

definition Compact ::
  "prog_env \<Rightarrow> 'w sources \<Rightarrow> 'w CompactRunner \<Rightarrow> Message list \<Rightarrow> string \<Rightarrow> int \<Rightarrow> string \<Rightarrow> 'w \<Rightarrow>
   (CompactResult \<times> call_error option) \<times> 'w" where
  "Compact env src r history trigger preTokens userContext w =
     (case crClient r of
        None \<Rightarrow> ((\<lparr>crsPlan = None, crsResponse = None, crsRequest = None\<rparr>, Some (plain_error ''compact runner missing client'')), w)
      | Some createMessage \<Rightarrow>
        let (request, w1) = BuildRequest src r history w;
            (reply, w2) = createMessage request w1
        in case reply of
             Inl err \<Rightarrow> ((\<lparr>crsPlan = None, crsResponse = None, crsRequest = Some request\<rparr>, Some err), w2)
           | Inr response \<Rightarrow>
             let (plan, w3) = BuildPlan env src history
                   \<lparr>poTrigger = trigger, poPreTokens = preTokens, poUserContext = userContext, poKeepLast = crKeepLast r,
                    poSummary = TrimSpace (responseText env response), poBoundaryUUID = [], poSummaryUUID = [],
                    poPreserveRecent = True\<rparr> w2
             in ((\<lparr>crsPlan = Some plan, crsResponse = Some response, crsRequest = Some request\<rparr>, None), w3))"

end
