(* ===== verification/ToolSearch.thy ===== *)
theory ToolSearch
  imports Compaction
begin

text \<open>
  Which tools a request carries: the deferred tools of \<open>internal/conversation/request.go\<close>, that are
  sent only once the model has discovered them with the tool \<open>ToolSearch\<close>.

  Like \<open>executor.go\<close>, the file has its own copies of the functions that collect the names of
  discovered tools; where a copy does the same as the original, the definition of \<open>ToolExec\<close> is
  used (a set of names is the list of its members). The count of tokens is a parameter: \<open>None\<close> when
  there is no counter or it fails.
\<close>

section \<open>Deferred tools\<close>

definition isToolSearchDefinition :: "prog_env \<Rightarrow> ToolDefinition \<Rightarrow> bool" where
  "isToolSearchDefinition env d =
     (if EqualFold (genv env) (TrimSpace (defName d)) ''ToolSearch'' then True
      else list_ex (\<lambda>alias. EqualFold (genv env) (TrimSpace alias) ''ToolSearch'') (defAliases d))"

definition hasToolSearchDefinition :: "prog_env \<Rightarrow> ToolDefinition list \<Rightarrow> bool" where
  "hasToolSearchDefinition env definitions = list_ex (isToolSearchDefinition env) definitions"

definition withoutToolSearchDefinition :: "prog_env \<Rightarrow> ToolDefinition list \<Rightarrow> ToolDefinition list" where
  "withoutToolSearchDefinition env definitions = filter (\<lambda>d. \<not> isToolSearchDefinition env d) definitions"

definition toolDefinitionDeferred :: "prog_env \<Rightarrow> ToolDefinition \<Rightarrow> bool" where
  "toolDefinitionDeferred env d =
     (if defAlwaysLoad d \<or> isToolSearchDefinition env d then False else defMCP d \<noteq> None \<or> defShouldDefer d)"

definition deferredToolNames :: "prog_env \<Rightarrow> ToolDefinition list \<Rightarrow> string list" where
  "deferredToolNames env definitions =
     sort (map defName (filter (toolDefinitionDeferred env) definitions))"

definition loaded :: "ToolDefinition \<Rightarrow> ToolDefinition" where
  "loaded d = d\<lparr>defAlwaysLoad := True, defShouldDefer := False\<rparr>"

definition loadAllDeferredTools :: "prog_env \<Rightarrow> ToolDefinition list \<Rightarrow> ToolDefinition list" where
  "loadAllDeferredTools env definitions = map (\<lambda>d. if toolDefinitionDeferred env d then loaded d else d) definitions"

section \<open>Discovered tools\<close>

definition collectCompactMetadataToolReferences :: "prog_env \<Rightarrow> goany \<Rightarrow> string list" where
  "collectCompactMetadataToolReferences env metadata =
     (case metadata of
        AnyCompact m \<Rightarrow> concat (map (addDiscoveredToolName (genv env)) (cmPreCompactDiscoveredTools m))
      | AnyMap m \<Rightarrow> concat (map (\<lambda>key. collectStringSliceToolReferences (genv env) (field m key))
                     [''preCompactDiscoveredTools'', ''pre_compact_discovered_tools''])
      | _ \<Rightarrow> [])"

definition collectCompactBoundaryToolReferences :: "prog_env \<Rightarrow> Message \<Rightarrow> string list" where
  "collectCompactBoundaryToolReferences env message =
     (if msgType message \<noteq> MessageSystem \<or> msgSubtype message \<noteq> ''compact_boundary'' \<or> msgRaw message = [] then []
      else concat (map (\<lambda>key. case map_of (msgRaw message) key of
                Some metadata \<Rightarrow> collectCompactMetadataToolReferences env metadata | None \<Rightarrow> [])
             [''compactMetadata'', ''compact_metadata'']))"

definition discoveredToolReferenceNames :: "prog_env \<Rightarrow> Message list \<Rightarrow> string list" where
  "discoveredToolReferenceNames env history =
     concat (map (\<lambda>m. collectCompactBoundaryToolReferences env m @
                      concat (map (collectToolReferenceNames (genv env)) (result_contents m))) history)"

definition toolDefinitionDiscovered :: "prog_env \<Rightarrow> ToolDefinition \<Rightarrow> string list \<Rightarrow> bool" where
  "toolDefinitionDiscovered env d discovered =
     (if ToLower (genv env) (defName d) \<in> set discovered then True
      else list_ex (\<lambda>alias. ToLower (genv env) alias \<in> set discovered) (defAliases d))"

definition applyDiscoveredToolReferences :: "prog_env \<Rightarrow> ToolDefinition list \<Rightarrow> Message list \<Rightarrow> ToolDefinition list" where
  "applyDiscoveredToolReferences env definitions history =
     (let discovered = discoveredToolReferenceNames env history
      in if discovered = [] \<or> definitions = [] then definitions
         else map (\<lambda>d. if toolDefinitionDiscovered env d discovered then loaded d else d) definitions)"

definition filterToolSearchDefinitionsWithDecision ::
  "prog_env \<Rightarrow> ToolDefinition list \<Rightarrow> Message list \<Rightarrow> bool \<Rightarrow> ToolDefinition list \<times> string list \<times> bool" where
  "filterToolSearchDefinitionsWithDecision env definitions history toolSearchEnabled =
     (if definitions = [] then (definitions, [], False)
      else if \<not> hasToolSearchDefinition env definitions
      then (applyDiscoveredToolReferences env definitions history, [], False)
      else if \<not> toolSearchEnabled
      then (loadAllDeferredTools env (withoutToolSearchDefinition env definitions), [], False)
      else
        let deferredNames = deferredToolNames env definitions;
            discovered = discoveredToolReferenceNames env history
        in if deferredNames = [] then (withoutToolSearchDefinition env definitions, [], False)
           else (List.map_filter (\<lambda>d.
                   if isToolSearchDefinition env d \<or> \<not> toolDefinitionDeferred env d then Some d
                   else if toolDefinitionDiscovered env d discovered then Some (loaded d)
                   else None) definitions, deferredNames, True))"

section \<open>When tool search is on\<close>

definition parseLeadingInt :: "string \<Rightarrow> int option" where
  "parseLeadingInt value0 =
     (let value = TrimLeft value0 [CHR '' '', CHR 0x09, CHR 0x0D, CHR 0x0A];
          signed = (value \<noteq> [] \<and> hd value \<in> {CHR ''-'', CHR ''+''});
          digits = takeWhile is_digit (if signed then tl value else value);
          parsed = foldl (\<lambda>n c. if n > 100 then n else n * 10 + int (byte c - 48)) 0 digits
      in if value = [] \<or> digits = [] then None
         else Some (if signed \<and> hd value = CHR ''-'' then - parsed else parsed))"

definition autoToolSearchPercent :: "string \<Rightarrow> int option" where
  "autoToolSearchPercent value =
     (if \<not> HasPrefix value ''auto:'' then None
      else map_option (\<lambda>percent. min 100 (max 0 percent)) (parseLeadingInt (drop 5 value)))"

definition isAutoToolSearchMode :: "string \<Rightarrow> bool" where
  "isAutoToolSearchMode value = (value = ''auto'' \<or> HasPrefix value ''auto:'')"

definition autoToolSearchPercentage :: "prog_env \<Rightarrow> int" where
  "autoToolSearchPercentage env =
     (let value = getenv env ''ENABLE_TOOL_SEARCH''
      in if value = ''auto'' then 10
         else case autoToolSearchPercent value of Some percent \<Rightarrow> percent | None \<Rightarrow> 10)"

definition IsEnvTruthy :: "prog_env \<Rightarrow> string \<Rightarrow> bool" where
  "IsEnvTruthy env value =
     (if value = [] then False else ToLower (genv env) (TrimSpace value) \<in> {''1'', ''true'', ''yes'', ''on''})"

definition isEnvDefinedFalsy :: "prog_env \<Rightarrow> string \<Rightarrow> bool" where
  "isEnvDefinedFalsy env value = (ToLower (genv env) (TrimSpace value) \<in> {''0'', ''false'', ''no'', ''off''})"

datatype toolSearchMode = toolSearchModeTST | toolSearchModeTSTAuto | toolSearchModeStandard

definition toolSearchModeFromEnv :: "prog_env \<Rightarrow> toolSearchMode" where
  "toolSearchModeFromEnv env =
     (let value = getenv env ''ENABLE_TOOL_SEARCH''
      in if IsEnvTruthy env (getenv env ''CLAUDE_CODE_DISABLE_EXPERIMENTAL_BETAS'') then toolSearchModeStandard
         else if autoToolSearchPercent value = Some 0 then toolSearchModeTST
         else if autoToolSearchPercent value = Some 100 then toolSearchModeStandard
         else if isAutoToolSearchMode value then toolSearchModeTSTAuto
         else if IsEnvTruthy env value then toolSearchModeTST
         else if isEnvDefinedFalsy env value then toolSearchModeStandard
         else toolSearchModeTST)"

definition modelSupportsToolReference :: "prog_env \<Rightarrow> string \<Rightarrow> bool" where
  "modelSupportsToolReference env model = (\<not> Contains (ToLower (genv env) (TrimSpace model)) ''haiku'')"

definition trimOneMillionContextSuffix :: "prog_env \<Rightarrow> string \<Rightarrow> string" where
  "trimOneMillionContextSuffix env modelName =
     (let trimmed = TrimSpace modelName
      in if HasSuffix (ToLower (genv env) trimmed) ''[1m]'' then TrimSpace (take (length trimmed - 4) trimmed) else modelName)"

definition toolSearchContextWindowTokens :: "prog_env \<Rightarrow> string \<Rightarrow> int" where
  "toolSearchContextWindowTokens env modelName =
     (let override = (if getenv env ''USER_TYPE'' = ''ant'' then Atoi_text (getenv env ''CLAUDE_CODE_MAX_CONTEXT_TOKENS'') else None);
          lookupName = (if IsEnvTruthy env (getenv env ''CLAUDE_CODE_DISABLE_1M_CONTEXT'')
                        then trimOneMillionContextSuffix env modelName else modelName);
          otherwise = (case context_window env lookupName of
                         Some tokens \<Rightarrow> if tokens > 0 then tokens else 200000 | None \<Rightarrow> 200000)
      in case override of Some tokens \<Rightarrow> if tokens > 0 then tokens else otherwise | None \<Rightarrow> otherwise)"

definition autoToolSearchTokenThreshold :: "prog_env \<Rightarrow> string \<Rightarrow> int" where
  "autoToolSearchTokenThreshold env modelName =
     (toolSearchContextWindowTokens env modelName * autoToolSearchPercentage env) div 100"

definition autoToolSearchCharThreshold :: "prog_env \<Rightarrow> string \<Rightarrow> int" where
  "autoToolSearchCharThreshold env modelName =
     truncate_rat (float_round env (float_round env (of_int (autoToolSearchTokenThreshold env modelName)) * (5 / 2)))"

definition toolSearchDescriptionText :: "ToolDefinition \<Rightarrow> string" where
  "toolSearchDescriptionText d = first_nonblank [defDescription d, defPrompt d, defSearchHint d]"

definition deferredToolDescriptionChars :: "prog_env \<Rightarrow> ToolDefinition list \<Rightarrow> int" where
  "deferredToolDescriptionChars env definitions =
     sum_list (map (\<lambda>d. int (length (defName d)) + int (length (toolSearchDescriptionText d)) +
         (if defInputSchema d = [] then 0
          else case json_schema env (defInputSchema d) of Some encoded \<Rightarrow> int (length encoded) | None \<Rightarrow> 0))
       (filter (toolDefinitionDeferred env) definitions))"

definition isFirstPartyAnthropicBaseURL :: "prog_env \<Rightarrow> string \<Rightarrow> bool" where
  "isFirstPartyAnthropicBaseURL env raw =
     (if TrimSpace raw = [] then True
      else case url_host env (TrimSpace raw) of
             None \<Rightarrow> False
           | Some host \<Rightarrow>
             if host = [] then False
             else if host = ''api.anthropic.com'' then True
             else getenv env ''USER_TYPE'' = ''ant'' \<and> host = ''api-staging.anthropic.com'')"

record toolSearchDecision =
  tsEnabled :: bool
  tsMode :: toolSearchMode
  tsReason :: string
  tsCheckedModel :: string
  tsMCPToolCount :: nat
  tsUserType :: string
  tsDeferredToolTokens :: int
  tsThreshold :: int
  tsDeferredToolDescriptionChars :: int
  tsCharThreshold :: int

definition countMCPToolDefinitions :: "ToolDefinition list \<Rightarrow> nat" where
  "countMCPToolDefinitions definitions = length (filter (\<lambda>d. defMCP d \<noteq> None) definitions)"

definition toolSearchUserType :: "prog_env \<Rightarrow> string" where
  "toolSearchUserType env =
     (let userType = TrimSpace (getenv env ''USER_TYPE'') in if userType \<noteq> [] then userType else ''external'')"

definition by_threshold :: "bool \<Rightarrow> toolSearchDecision \<Rightarrow> toolSearchDecision" where
  "by_threshold enabled d =
     d\<lparr>tsEnabled := enabled, tsReason := if enabled then ''auto_above_threshold'' else ''auto_below_threshold''\<rparr>"

definition toolSearchDecisionForRequest ::
  "prog_env \<Rightarrow> string \<Rightarrow> ToolDefinition list \<Rightarrow> (ToolDefinition list \<Rightarrow> int option) \<Rightarrow> toolSearchDecision" where
  "toolSearchDecisionForRequest env model definitions tokenCounter =
     (let mode = toolSearchModeFromEnv env;
          decision = \<lparr>tsEnabled = False, tsMode = mode, tsReason = [], tsCheckedModel = model,
            tsMCPToolCount = countMCPToolDefinitions definitions, tsUserType = toolSearchUserType env,
            tsDeferredToolTokens = 0, tsThreshold = 0, tsDeferredToolDescriptionChars = 0, tsCharThreshold = 0\<rparr>
      in if \<not> modelSupportsToolReference env model
         then decision\<lparr>tsMode := toolSearchModeStandard, tsReason := ''model_unsupported''\<rparr>
         else if \<not> hasToolSearchDefinition env definitions
         then decision\<lparr>tsMode := toolSearchModeStandard, tsReason := ''mcp_search_unavailable''\<rparr>
         else if mode = toolSearchModeStandard then decision\<lparr>tsReason := ''standard_mode''\<rparr>
         else if getenv env ''ENABLE_TOOL_SEARCH'' = [] \<and>
                 \<not> isFirstPartyAnthropicBaseURL env (getenv env ''ANTHROPIC_BASE_URL'')
         then decision\<lparr>tsReason := ''non_first_party_base_url''\<rparr>
         else if mode = toolSearchModeTSTAuto
         then (case tokenCounter definitions of
                 Some tokens \<Rightarrow>
                   by_threshold (tokens \<ge> autoToolSearchTokenThreshold env model)
                     (decision\<lparr>tsDeferredToolTokens := tokens, tsThreshold := autoToolSearchTokenThreshold env model\<rparr>)
               | None \<Rightarrow>
                   let chars = deferredToolDescriptionChars env definitions;
                       charThreshold = autoToolSearchCharThreshold env model
                   in by_threshold (chars \<ge> charThreshold)
                        (decision\<lparr>tsDeferredToolDescriptionChars := chars, tsCharThreshold := charThreshold\<rparr>))
         else decision\<lparr>tsEnabled := True, tsReason := ''tst_enabled''\<rparr>)"

section \<open>References in the messages\<close>

definition toolReferenceItem :: "goany \<Rightarrow> bool" where
  "toolReferenceItem item =
     (case item of
        AnyReference typed \<Rightarrow> refType typed = ''tool_reference''
      | AnyMap typed \<Rightarrow> toolReferenceType typed
      | AnyBlock typed \<Rightarrow> blockType typed = ''tool_reference''
      | _ \<Rightarrow> False)"

definition toolResultContentItems :: "goany \<Rightarrow> goany list option" where
  "toolResultContentItems content =
     (case content of
        AnySlice typed \<Rightarrow> Some typed
      | AnyReferences typed \<Rightarrow> Some (map AnyReference typed)
      | AnyBlocks typed \<Rightarrow> Some (map AnyBlock typed)
      | _ \<Rightarrow> None)"

definition removed_references :: goany where
  "removed_references = AnyBlocks [NewTextBlock ''[Tool references removed - tool search not enabled]'']"

definition stripToolReferenceItems :: "goany \<Rightarrow> goany option" where
  "stripToolReferenceItems content =
     (case toolResultContentItems content of
        None \<Rightarrow> None
      | Some items \<Rightarrow>
        if \<not> list_ex toolReferenceItem items then None
        else Some (let filtered = filter (\<lambda>i. \<not> toolReferenceItem i) items
                   in if filtered = [] then removed_references else AnySlice filtered))"

definition stripToolReferenceBlocksFromContent :: "ContentBlock list \<Rightarrow> ContentBlock list" where
  "stripToolReferenceBlocksFromContent content =
     map (\<lambda>b. if blockType b \<noteq> ContentToolResult then b
              else case stripToolReferenceItems (blockContent b) of Some stripped \<Rightarrow> with_content stripped b | None \<Rightarrow> b) content"

definition stripToolReferenceBlocksFromAPIMessages :: "APIMessage list \<Rightarrow> APIMessage list" where
  "stripToolReferenceBlocksFromAPIMessages messages =
     map (\<lambda>m. if apiRole m \<noteq> ''user'' then m
              else m\<lparr>apiContent := stripToolReferenceBlocksFromContent (apiContent m)\<rparr>) messages"

definition prependAvailableDeferredToolsMessage :: "APIMessage list \<Rightarrow> string list \<Rightarrow> APIMessage list" where
  "prependAvailableDeferredToolsMessage messages toolNames =
     (if toolNames = [] then messages
      else \<lparr>apiRole = ''user'', apiContent = [NewTextBlock
             (''<available-deferred-tools>'' @ nl @ Join toolNames nl @ nl @ ''</available-deferred-tools>'')]\<rparr> # messages)"

end
