(* ===== verification/DeferredTools.thy ===== *)
theory DeferredTools
  imports ToolSearch
begin

text \<open>
  The announcement of deferred tools, \<open>internal/conversation/deferred_tools_delta.go\<close>: what earlier
  attachments of the history have announced, and the attachment that tells the model the change.

  A set of names is the list of its members in the order they were added. An attachment is the map
  the program built or decoded JSON, so it is no \<open>map[string]string\<close> and holds no \<open>[]byte\<close>.
\<close>

record DeferredToolsPoolChange =
  pcAddedCount :: nat
  pcRemovedCount :: nat
  pcPriorAnnouncedCount :: nat
  pcMessagesLength :: nat
  pcAttachmentCount :: nat
  pcDeferredToolsDeltaCount :: nat
  pcCallSite :: string
  pcQuerySource :: string
  pcAttachmentTypesSeen :: string

record deferredToolsDelta =
  dtAddedNames :: "string list"
  dtAddedLines :: "string list"
  dtRemovedNames :: "string list"
  dtPoolChange :: DeferredToolsPoolChange

text \<open>\<open>stringValue\<close> and \<open>stringSliceValue\<close> do what \<open>attachmentString\<close> and \<open>attachmentStringSlice\<close> of
  \<open>normalize.go\<close> do.\<close>

definition stringValue :: "goany \<Rightarrow> string" where
  "stringValue value = (case value of AnyString typed \<Rightarrow> typed | _ \<Rightarrow> [])"

definition string_slice_of :: "goany \<Rightarrow> string list" where
  "string_slice_of value =
     (case value of
        AnyStrings typed \<Rightarrow> filter (\<lambda>s. s \<noteq> []) (map TrimSpace typed)
      | AnySlice typed \<Rightarrow> filter (\<lambda>s. s \<noteq> []) (map (\<lambda>item. TrimSpace (stringValue item)) typed)
      | AnyString typed \<Rightarrow> filter (\<lambda>s. s \<noteq> []) (map TrimSpace (FieldsFunc typed list_separator))
      | _ \<Rightarrow> [])"

fun stringSliceValue :: "goany list \<Rightarrow> string list" where
  "stringSliceValue [] = []"
| "stringSliceValue (value # values) =
     (if string_slice_of value \<noteq> [] then string_slice_of value else stringSliceValue values)"

definition attachmentMessageType :: "Message \<Rightarrow> string" where
  "attachmentMessageType message =
     (if msgType message \<noteq> MessageAttachment \<or> msgRaw message = [] then []
      else case field (msgRaw message) ''attachment'' of
             AnyMap payload \<Rightarrow> TrimSpace (stringValue (field payload ''type'')) | _ \<Rightarrow> [])"

definition deferredToolsDeltaAttachmentPayload :: "Message \<Rightarrow> go_map option" where
  "deferredToolsDeltaAttachmentPayload message =
     (if msgType message \<noteq> MessageAttachment \<or> msgRaw message = [] then None
      else case field (msgRaw message) ''attachment'' of
             AnyMap payload \<Rightarrow>
               if TrimSpace (stringValue (field payload ''type'')) \<noteq> ''deferred_tools_delta'' then None else Some payload
           | _ \<Rightarrow> None)"

definition add_name :: "string list \<Rightarrow> string \<Rightarrow> string list" where
  "add_name names name = (if name \<in> set names then names else names @ [name])"

text \<open>What one message of the history adds to the announced names and takes from them.\<close>

definition announce :: "string list \<Rightarrow> Message \<Rightarrow> string list" where
  "announce announced message =
     (case deferredToolsDeltaAttachmentPayload message of
        None \<Rightarrow> announced
      | Some payload \<Rightarrow>
        let added = stringSliceValue [field payload ''addedNames'', field payload ''added_names''];
            removed = stringSliceValue [field payload ''removedNames'', field payload ''removed_names'']
        in filter (\<lambda>name. name \<notin> set removed) (foldl add_name announced added))"

definition announced_names :: "Message list \<Rightarrow> string list" where
  "announced_names history = foldl announce [] history"

definition sortedStringSet :: "string list \<Rightarrow> string list" where
  "sortedStringSet values = sort (filter (\<lambda>s. s \<noteq> []) (map TrimSpace values))"

definition attachments :: "Message list \<Rightarrow> Message list" where
  "attachments history = filter (\<lambda>m. msgType m = MessageAttachment) history"

definition deferredToolsDeltaFromHistory ::
  "prog_env \<Rightarrow> ToolDefinition list \<Rightarrow> Message list \<Rightarrow> deferredToolsDelta option" where
  "deferredToolsDeltaFromHistory env definitions history =
     (let announced = announced_names history;
          pool = filter (\<lambda>d. TrimSpace (defName d) \<noteq> []) definitions;
          deferredNames = map defName (filter (toolDefinitionDeferred env) pool);
          poolNames = map defName pool;
          addedNames = filter (\<lambda>name. name \<notin> set announced) deferredNames;
          removedNames = filter (\<lambda>name. name \<notin> set deferredNames \<and> name \<notin> set poolNames) announced
      in if addedNames = [] \<and> removedNames = [] then None
         else Some
           \<lparr>dtAddedNames = sort addedNames, dtAddedLines = sort addedNames, dtRemovedNames = sort removedNames,
            dtPoolChange =
              \<lparr>pcAddedCount = length addedNames, pcRemovedCount = length removedNames,
               pcPriorAnnouncedCount = length announced, pcMessagesLength = length history,
               pcAttachmentCount = length (attachments history),
               pcDeferredToolsDeltaCount = length (filter (\<lambda>m. deferredToolsDeltaAttachmentPayload m \<noteq> None) history),
               pcCallSite = [], pcQuerySource = [],
               pcAttachmentTypesSeen =
                 Join (sortedStringSet (foldl add_name [] (filter (\<lambda>t. t \<noteq> []) (map attachmentMessageType (attachments history))))) '',''\<rparr>\<rparr>)"

definition deferredToolsDeltaMessage :: "'w ids \<Rightarrow> deferredToolsDelta \<Rightarrow> 'w \<Rightarrow> Message \<times> 'w" where
  "deferredToolsDeltaMessage newID delta w =
     (case newID w of (i, w') \<Rightarrow>
        (blank_message\<lparr>msgType := MessageAttachment, msgUUID := i, msgSubtype := ''deferred_tools_delta'', msgIsMeta := True,
           msgRaw := [(''attachment'', AnyMap
             [(''type'', AnyString ''deferred_tools_delta''), (''addedNames'', AnyStrings (dtAddedNames delta)),
              (''addedLines'', AnyStrings (dtAddedLines delta)), (''removedNames'', AnyStrings (dtRemovedNames delta))])]\<rparr>, w'))"

end
