(* ===== verification/MessageLaws.thy ===== *)
theory MessageLaws
  imports DeferredTools ToolProps
begin

text \<open>
  Facts about messages: the parent chain and what keeps it, the plan of a compaction, and the tools
  that are discovered before and after it.
\<close>

section \<open>The parent chain\<close>

text \<open>Every message has an ID, and every message after the first names the one before it as its
  parent.\<close>

fun chained_from :: "ID \<Rightarrow> Message list \<Rightarrow> bool" where
  "chained_from parent [] = True"
| "chained_from parent (m # ms) = (msgUUID m \<noteq> [] \<and> msgParentUUID m = Some parent \<and> chained_from (msgUUID m) ms)"

definition chained :: "Message list \<Rightarrow> bool" where
  "chained ms = (case ms of [] \<Rightarrow> True | m # ms' \<Rightarrow> msgUUID m \<noteq> [] \<and> chained_from (msgUUID m) ms')"

text \<open>A source of IDs that never gives the empty one.\<close>

definition proper_ids :: "'w ids \<Rightarrow> bool" where
  "proper_ids newID = (\<forall>w. fst (newID w) \<noteq> [])"

definition last_id :: "ID \<Rightarrow> Message list \<Rightarrow> ID" where
  "last_id parent ms = (if ms = [] then parent else msgUUID (last ms))"

lemma last_id_simps [simp]: "last_id p [] = p" "last_id p (m # ms) = last_id (msgUUID m) ms"
  "last_id p (ms @ [m]) = msgUUID m"
  by (auto simp: last_id_def)

lemma chained_from_append:
  "chained_from p (xs @ ys) = (chained_from p xs \<and> chained_from (last_id p xs) ys)"
  by (induction xs arbitrary: p) auto

lemma chained_append:
  "xs \<noteq> [] \<Longrightarrow> chained (xs @ ys) = (chained xs \<and> chained_from (msgUUID (last xs)) ys)"
  by (cases xs) (auto simp: chained_def chained_from_append last_id_def)

lemma chained_uuids: "chained ms \<Longrightarrow> \<forall>m \<in> set ms. msgUUID m \<noteq> []"
proof -
  have "chained_from p ms \<Longrightarrow> \<forall>m \<in> set ms. msgUUID m \<noteq> []" for p ms
    by (induction ms arbitrary: p) auto
  then show "chained ms \<Longrightarrow> ?thesis" by (cases ms) (auto simp: chained_def)
qed

lemma with_uuid_proper: "proper_ids newID \<Longrightarrow> with_uuid newID m w = (m', w') \<Longrightarrow> msgUUID m' \<noteq> []"
  by (auto simp: with_uuid_def proper_ids_def split: if_splits prod.splits) (metis fst_conv)

lemma with_uuid_same: "msgUUID m \<noteq> [] \<Longrightarrow> with_uuid newID m w = (m, w)"
  by (simp add: with_uuid_def)

lemma with_uuid_fields:
  "with_uuid newID m w = (m', w') \<Longrightarrow> \<exists>i. m' = m\<lparr>msgUUID := i\<rparr> \<and> (msgUUID m \<noteq> [] \<longrightarrow> i = msgUUID m)"
  by (auto simp: with_uuid_def split: if_splits prod.splits intro: exI[of _ "msgUUID m"])

lemma appendMessage_chained:
  assumes "proper_ids newID" "chained history" "appendMessage newID history m w = ((history', m'), w')"
  shows "chained history' \<and> (\<exists>i. i \<noteq> [] \<and> (msgUUID m \<noteq> [] \<longrightarrow> i = msgUUID m) \<and> history' = history @ [m'] \<and>
           m' = m\<lparr>msgUUID := i, msgParentUUID := (if history = [] then msgParentUUID m else Some (msgUUID (last history)))\<rparr>)"
proof -
  obtain m1 w1 where m1: "with_uuid newID m w = (m1, w1)" by fastforce
  obtain i where i: "m1 = m\<lparr>msgUUID := i\<rparr>" "msgUUID m \<noteq> [] \<longrightarrow> i = msgUUID m" using with_uuid_fields[OF m1] by blast
  have "i \<noteq> []" using with_uuid_proper[OF assms(1) m1] i by simp
  show ?thesis
  proof (cases "history = []")
    case True
    then show ?thesis using assms(3) m1 i \<open>i \<noteq> []\<close>
      by (auto simp: appendMessage_def chained_def intro!: exI[of _ i])
  next
    case False
    then have "msgUUID (last history) \<noteq> []" using chained_uuids[OF assms(2)] by simp
    moreover have "butlast history @ [last history, x] = history @ [x]" for x
      using False by (metis append_butlast_last_id append_Cons append_Nil append_assoc)
    ultimately have "history' = history @ [m'] \<and> m' = m1\<lparr>msgParentUUID := Some (msgUUID (last history))\<rparr>"
      using assms(3) m1 False by (auto simp: appendMessage_def with_uuid_same Let_def)
    then show ?thesis using assms(2) False i \<open>i \<noteq> []\<close>
      by (auto simp: chained_append intro!: exI[of _ i])
  qed
qed

lemma link_loop_chained:
  "proper_ids newID \<Longrightarrow> link_loop newID parent ms w = (ms', w') \<Longrightarrow>
   (case parent of Some p \<Rightarrow> chained_from p ms' | None \<Rightarrow> chained ms') \<and> length ms' = length ms"
proof (induction newID parent ms w arbitrary: ms' w' rule: link_loop.induct)
  case (2 newID parent m ms w)
  obtain i w1 where i: "(if msgUUID m = [] then newID w else (msgUUID m, w)) = (i, w1)" by fastforce
  then have "i \<noteq> []" using 2(2) by (auto simp: proper_ids_def split: if_splits) (metis fst_conv)
  obtain linked w2 where linked: "link_loop newID (Some i) ms w1 = (linked, w2)" by fastforce
  show ?case using 2(1)[OF i[symmetric] _ _ linked] 2(2,3) i linked \<open>i \<noteq> []\<close>
    by (auto simp: chained_def Let_def split: option.splits prod.splits)
qed (auto simp: chained_def split: option.split)

lemma relink_chained: "\<forall>m \<in> set ms. msgUUID m \<noteq> [] \<Longrightarrow> chained_from p (relink p ms)"
  by (induction p ms rule: relink.induct) auto

lemma relink_fields:
  "map (\<lambda>m. m\<lparr>msgParentUUID := None\<rparr>) (relink p ms) = map (\<lambda>m. m\<lparr>msgParentUUID := None\<rparr>) ms"
  by (induction p ms rule: relink.induct) auto

section \<open>The plan\<close>

lemma kept_count_le: "kept_count history k \<le> length history"
  by (auto simp: kept_count_def)

lemma BuildPlan_fields:
  assumes "BuildPlan env src history options w = (plan, w')"
  shows "planSummarized plan @ planKept plan = history"
    "length (planKept plan) = kept_count history (poKeepLast options)"
    "planOutput plan = [planBoundary plan, planSummary plan] @
       (if poPreserveRecent options then relink (msgUUID (planSummary plan)) (planKept plan) else [])"
    "planBoundary plan = blank_message\<lparr>msgType := MessageSystem, msgUUID := msgUUID (planBoundary plan),
       msgSubtype := ''compact_boundary'', msgTimestamp := msgTimestamp (planBoundary plan),
       msgRaw := [(''compactMetadata'', AnyCompact (planMetadata plan))]\<rparr>"
    "msgParentUUID (planSummary plan) = Some (msgUUID (planBoundary plan))"
    "msgType (planSummary plan) = MessageUser"
    "\<exists>text. msgContent (planSummary plan) = [NewTextBlock text]"
    "cmPreCompactDiscoveredTools (planMetadata plan) = discoveredToolReferences env history"
    "cmMessagesSummarized (planMetadata plan) = int (length (planSummarized plan))"
  using assms kept_count_le[of history "poKeepLast options"]
  by (auto simp: BuildPlan_def Let_def UserText_def split: prod.splits)

lemma BuildPlan_ids:
  assumes "proper_ids (srcNewID src)" "BuildPlan env src history options w = (plan, w')"
  shows "msgUUID (planBoundary plan) \<noteq> []" "msgUUID (planSummary plan) \<noteq> []"
proof -
  have "id_or_new src i w = (j, w') \<Longrightarrow> j \<noteq> []" for i w j w'
    using assms(1) by (auto simp: id_or_new_def proper_ids_def split: if_splits) (metis fst_conv)
  then show "msgUUID (planBoundary plan) \<noteq> []" "msgUUID (planSummary plan) \<noteq> []" using assms(2)
    by (auto simp: BuildPlan_def Let_def UserText_def split: prod.splits)
qed

lemma BuildPlan_chained:
  assumes "proper_ids (srcNewID src)" "chained history" "poPreserveRecent options"
    "BuildPlan env src history options w = (plan, w')"
  shows "chained (planOutput plan)"
proof -
  note fields = BuildPlan_fields[OF assms(4)] and ids = BuildPlan_ids[OF assms(1,4)]
  have "set (planKept plan) \<subseteq> set history" using fields(1) by (metis set_append Un_upper2)
  then have "\<forall>m \<in> set (planKept plan). msgUUID m \<noteq> []" using chained_uuids[OF assms(2)] by blast
  then show ?thesis using fields(3,5) ids assms(3) relink_chained by (simp add: chained_def)
qed

section \<open>Discovered tools\<close>

abbreviation lower_name :: "prog_env \<Rightarrow> string \<Rightarrow> string" where
  "lower_name env name \<equiv> ToLower (genv env) (TrimSpace name)"

lemma set_addDiscovered:
  "set (addDiscoveredToolName g name) = (if TrimSpace name = [] then {} else {ToLower g (TrimSpace name)})"
  by (simp add: addDiscoveredToolName_def Let_def)

lemma fold_names:
  "(\<lambda>n. lower_name env n) ` set (foldl (addToolReferenceName env) out names) =
   (\<lambda>n. lower_name env n) ` set out \<union> (\<lambda>n. lower_name env n) ` {n \<in> set names. TrimSpace n \<noteq> []}"
  if "\<forall>n \<in> set out. TrimSpace n = n"
  using that
proof (induction names arbitrary: out)
  case (Cons n names)
  have ok: "\<forall>m \<in> set (addToolReferenceName env out n). TrimSpace m = m"
    using Cons.prems by (auto simp: addToolReferenceName_def Let_def TrimSpace_idem)
  have "(\<lambda>m. lower_name env m) ` set (addToolReferenceName env out n) =
      (\<lambda>m. lower_name env m) ` set out \<union> (if TrimSpace n = [] then {} else {lower_name env n})"
    using Cons.prems by (auto simp: addToolReferenceName_def Let_def TrimSpace_idem image_iff)
  then show ?case unfolding foldl.simps Cons.IH[OF ok] by (auto split: if_splits)
qed simp

lemma fold_names_trimmed:
  "\<forall>n \<in> set out. TrimSpace n = n \<and> n \<noteq> [] \<Longrightarrow>
   \<forall>n \<in> set (foldl (addToolReferenceName env) out names). TrimSpace n = n \<and> n \<noteq> []"
proof (induction names arbitrary: out)
  case (Cons n names)
  have "\<forall>m \<in> set (addToolReferenceName env out n). TrimSpace m = m \<and> m \<noteq> []"
    using Cons.prems by (auto simp: addToolReferenceName_def Let_def TrimSpace_idem)
  then show ?case unfolding foldl.simps by (rule Cons.IH)
qed simp

text \<open>The names that a plan finds in a history, as the names of tools are compared.\<close>

definition plan_names :: "prog_env \<Rightarrow> Message list \<Rightarrow> string set" where
  "plan_names env history =
     (\<lambda>n. lower_name env n) ` {n \<in> set (concat (map plan_references (concat (map result_contents history)))). TrimSpace n \<noteq> []}"

lemma plan_metadata_names:
  "set (concat (map (addDiscoveredToolName (genv env)) (discoveredToolReferences env history))) = plan_names env history"
proof -
  let ?out = "discoveredToolReferences env history"
  have "\<forall>n \<in> set ?out. TrimSpace n = n \<and> n \<noteq> []"
    unfolding discoveredToolReferences_def by (rule fold_names_trimmed) simp
  then have "set (concat (map (addDiscoveredToolName (genv env)) ?out)) = (\<lambda>n. lower_name env n) ` set ?out"
    by (auto simp: set_addDiscovered image_iff)
  then show ?thesis using fold_names[of "[]" env] by (simp add: plan_names_def discoveredToolReferences_def)
qed

lemma discovered_append:
  "discoveredToolReferenceNames env (xs @ ys) = discoveredToolReferenceNames env xs @ discoveredToolReferenceNames env ys"
  by (simp add: discoveredToolReferenceNames_def)

lemma boundary_names:
  assumes "m = blank_message\<lparr>msgType := MessageSystem, msgUUID := i, msgSubtype := ''compact_boundary'', msgTimestamp := t,
       msgRaw := [(''compactMetadata'', AnyCompact metadata)]\<rparr>"
  shows "discoveredToolReferenceNames env [m] =
    concat (map (addDiscoveredToolName (genv env)) (cmPreCompactDiscoveredTools metadata))"
  by (simp add: assms discoveredToolReferenceNames_def collectCompactBoundaryToolReferences_def blank_message_def
      collectCompactMetadataToolReferences_def result_contents_def)

lemma text_message_names:
  assumes "msgType m = MessageUser" "msgContent m = [NewTextBlock text]"
  shows "discoveredToolReferenceNames env [m] = []" "result_contents m = []"
  using assms by (simp_all add: discoveredToolReferenceNames_def collectCompactBoundaryToolReferences_def
      result_contents_def NewTextBlock_def)

lemma relink_names: "discoveredToolReferenceNames env (relink p ms) = discoveredToolReferenceNames env ms"
  by (induction p ms rule: relink.induct)
     (auto simp: discoveredToolReferenceNames_def collectCompactBoundaryToolReferences_def result_contents_def)

lemma plan_output_names:
  assumes "BuildPlan env src history options w = (plan, w')" "poPreserveRecent options"
  shows "set (discoveredToolReferenceNames env (planOutput plan)) =
    plan_names env history \<union> set (discoveredToolReferenceNames env (planKept plan))"
proof -
  note fields = BuildPlan_fields[OF assms(1)]
  obtain t where "msgContent (planSummary plan) = [NewTextBlock t]" using fields(7) by blast
  then have summary: "discoveredToolReferenceNames env [planSummary plan] = []"
    using text_message_names(1)[OF fields(6)] by blast
  have cons: "discoveredToolReferenceNames env (m # ms) =
      discoveredToolReferenceNames env [m] @ discoveredToolReferenceNames env ms" for m ms
    using discovered_append[of env "[m]" ms] by simp
  have "discoveredToolReferenceNames env (planOutput plan) =
      discoveredToolReferenceNames env [planBoundary plan] @ discoveredToolReferenceNames env [planSummary plan] @
      discoveredToolReferenceNames env (planKept plan)"
    using cons[of "planBoundary plan" "planSummary plan # relink (msgUUID (planSummary plan)) (planKept plan)"]
      cons[of "planSummary plan" "relink (msgUUID (planSummary plan)) (planKept plan)"]
    by (simp add: fields(3) assms(2) relink_names)
  then show ?thesis using boundary_names[OF fields(4), of env] plan_metadata_names[of env history] summary
    by (simp only: fields(8)) simp
qed

lemma delta_type: "TrimSpace ''deferred_tools_delta'' = ''deferred_tools_delta''"
  by code_simp

section \<open>The announced names settle\<close>

lemma set_fold_add_name [simp]: "set (foldl add_name names added) = set names \<union> set added"
  by (induction added arbitrary: names) (auto simp: add_name_def)

lemma announced_snoc: "announced_names (history @ [m]) = announce (announced_names history) m"
  by (simp add: announced_names_def)

lemma string_slice_trimmed:
  "\<forall>n \<in> set ns. TrimSpace n = n \<and> n \<noteq> [] \<Longrightarrow> stringSliceValue [AnyStrings ns, AnyNil] = ns"
  by (induction ns) (auto simp: string_slice_of_def split: if_splits)

lemma string_slice_of_trimmed: "n \<in> set (string_slice_of v) \<Longrightarrow> TrimSpace n = n \<and> n \<noteq> []"
  by (auto simp: string_slice_of_def TrimSpace_idem split: goany.splits)

lemma stringSliceValue_trimmed: "n \<in> set (stringSliceValue vs) \<Longrightarrow> TrimSpace n = n \<and> n \<noteq> []"
  by (induction vs) (auto dest: string_slice_of_trimmed split: if_splits)

lemma announced_trimmed: "n \<in> set (announced_names history) \<Longrightarrow> TrimSpace n = n \<and> n \<noteq> []"
proof (induction history rule: rev_induct)
  case (snoc m history)
  then have "n \<in> set (announced_names history) \<or> (\<exists>vs. n \<in> set (stringSliceValue vs))"
    by (auto simp: announced_snoc announce_def Let_def simp del: stringSliceValue.simps split: option.splits)
  then show ?case using snoc.IH stringSliceValue_trimmed by blast
qed (simp add: announced_names_def)

lemma announce_delta:
  assumes "deferredToolsDeltaMessage newID delta w = (m, w')"
    "\<forall>n \<in> set (dtAddedNames delta @ dtRemovedNames delta). TrimSpace n = n \<and> n \<noteq> []"
  shows "set (announce announced (m\<lparr>msgParentUUID := p\<rparr>)) =
    (set announced \<union> set (dtAddedNames delta)) - set (dtRemovedNames delta)"
proof -
  have "deferredToolsDeltaAttachmentPayload (m\<lparr>msgParentUUID := p\<rparr>) = Some
      [(''type'', AnyString ''deferred_tools_delta''), (''addedNames'', AnyStrings (dtAddedNames delta)),
       (''addedLines'', AnyStrings (dtAddedLines delta)), (''removedNames'', AnyStrings (dtRemovedNames delta))]"
    using assms(1) by (auto simp: deferredToolsDeltaMessage_def deferredToolsDeltaAttachmentPayload_def field_def
        stringValue_def blank_message_def delta_type split: prod.splits)
  then show ?thesis using assms(2) string_slice_trimmed[of "dtAddedNames delta"] string_slice_trimmed[of "dtRemovedNames delta"]
    by (auto simp: announce_def field_def Let_def)
qed

abbreviation named :: "ToolDefinition list \<Rightarrow> ToolDefinition list" where
  "named definitions \<equiv> filter (\<lambda>d. defName d \<noteq> []) definitions"

lemma pool_named:
  "\<forall>d \<in> set definitions. TrimSpace (defName d) = defName d \<Longrightarrow>
   filter (\<lambda>d. TrimSpace (defName d) \<noteq> []) definitions = named definitions"
  by (rule filter_cong) auto

abbreviation deferred_set :: "prog_env \<Rightarrow> ToolDefinition list \<Rightarrow> string set" where
  "deferred_set env definitions \<equiv> set (map defName (filter (toolDefinitionDeferred env) (named definitions)))"

abbreviation pool_set :: "ToolDefinition list \<Rightarrow> string set" where
  "pool_set definitions \<equiv> set (map defName (named definitions))"

lemma delta_names:
  assumes "deferredToolsDeltaFromHistory env definitions history = Some delta"
    and "\<forall>d \<in> set definitions. TrimSpace (defName d) = defName d"
  shows "set (dtAddedNames delta) = deferred_set env definitions - set (announced_names history)"
    "set (dtRemovedNames delta) = set (announced_names history) - pool_set definitions"
proof -
  have "deferred_set env definitions \<subseteq> pool_set definitions" by auto
  then show "set (dtAddedNames delta) = deferred_set env definitions - set (announced_names history)"
    "set (dtRemovedNames delta) = set (announced_names history) - pool_set definitions"
    using assms(1) unfolding deferredToolsDeltaFromHistory_def Let_def pool_named[OF assms(2)]
    by (auto simp del: set_map split: if_splits)
qed

lemma delta_None:
  assumes "\<forall>d \<in> set definitions. TrimSpace (defName d) = defName d"
    "deferred_set env definitions \<subseteq> set (announced_names history)" "set (announced_names history) \<subseteq> pool_set definitions"
  shows "deferredToolsDeltaFromHistory env definitions history = None"
  using assms(2,3) unfolding deferredToolsDeltaFromHistory_def Let_def pool_named[OF assms(1)]
  by (auto simp: filter_empty_conv simp del: set_map)

lemma delta_settled:
  assumes "\<forall>d \<in> set definitions. TrimSpace (defName d) = defName d"
    "deferredToolsDeltaFromHistory env definitions history = Some delta"
    "deferredToolsDeltaMessage newID delta w = (m, w')"
  shows "deferredToolsDeltaFromHistory env definitions (history @ [m\<lparr>msgParentUUID := p\<rparr>]) = None"
proof -
  note names = delta_names[OF assms(2,1)]
  have trimmed: "\<forall>n \<in> set (announced_names history). TrimSpace n = n \<and> n \<noteq> []" using announced_trimmed by blast
  have "\<forall>n \<in> set (dtAddedNames delta @ dtRemovedNames delta). TrimSpace n = n \<and> n \<noteq> []"
    using names assms(1) trimmed by auto
  then have "set (announced_names (history @ [m\<lparr>msgParentUUID := p\<rparr>])) =
      (set (announced_names history) \<union> set (dtAddedNames delta)) - set (dtRemovedNames delta)"
    using announce_delta[OF assms(3)] by (simp add: announced_snoc)
  then show ?thesis using names by (intro delta_None[OF assms(1)]) auto
qed

end
