(* ===== verification/ConvProps.thy ===== *)
theory ConvProps
  imports MessageLaws ApiProps
begin

text \<open>
  The properties of conversations: compaction, the tools that requests carry, and when a
  conversation is compacted.
\<close>

section \<open>Concrete values for the witnesses\<close>

definition example_sources :: "nat sources" where
  "example_sources = \<lparr>srcNewID = (\<lambda>n. (''id'' @ dec n, Suc n)), srcNow = (\<lambda>n. (''now'', n))\<rparr>"

definition example_plan_options :: PlanOptions where
  "example_plan_options = \<lparr>poTrigger = ''auto'', poPreTokens = 9, poUserContext = [], poKeepLast = 0, poSummary = ''done'',
     poBoundaryUUID = ''b'', poSummaryUUID = ''s'', poPreserveRecent = True\<rparr>"

definition example_found :: Message where
  "example_found = blank_message\<lparr>msgType := MessageUser, msgUUID := ''u'', msgContent :=
     [tool_result_block ''t'' (AnyReferences [\<lparr>refType = ''tool_reference'', refToolName = ''Bash''\<rparr>]) False]\<rparr>"

lemma example_ids: "proper_ids (srcNewID example_sources)"
  by (simp add: proper_ids_def example_sources_def)

section \<open>Compaction\<close>

text \<open>C38: The plan of a compaction keeps the last messages and summarizes the ones before: together
  they are the history, and as many are kept as asked for, within the history. The output is the
  boundary, the summary and the kept messages, of which only the parents change, and in it every
  message names the one before it as its parent.\<close>

theorem compaction_plan:
  assumes "proper_ids (srcNewID src)" "chained history" "poPreserveRecent options"
    "BuildPlan env src history options w = (plan, w')"
  shows "planSummarized plan @ planKept plan = history \<and>
    length (planKept plan) = nat (min (max 0 (poKeepLast options)) (int (length history))) \<and>
    map (\<lambda>m. m\<lparr>msgParentUUID := None\<rparr>) (planOutput plan) =
      map (\<lambda>m. m\<lparr>msgParentUUID := None\<rparr>) ([planBoundary plan, planSummary plan] @ planKept plan) \<and>
    chained (planOutput plan)"
proof -
  note fields = BuildPlan_fields[OF assms(4)]
  show ?thesis using fields(1,2,3) assms(3) relink_fields BuildPlan_chained[OF assms] by (simp add: kept_count_def)
qed

lemma compaction_plan_witness:
  "chained (planOutput (fst (BuildPlan example_prog_env example_sources [example_found] (example_plan_options\<lparr>poKeepLast := 7\<rparr>) 0)))"
proof -
  obtain plan w' where plan: "BuildPlan example_prog_env example_sources [example_found] (example_plan_options\<lparr>poKeepLast := 7\<rparr>) 0 = (plan, w')"
    by fastforce
  have "chained [example_found]" by (simp add: chained_def example_found_def)
  then show ?thesis using compaction_plan[OF example_ids _ _ plan] plan by (simp add: example_plan_options_def)
qed

text \<open>Tools that the model has discovered before a compaction stay discovered: the names that the
  requests read out of the output are those that the plan has found in the tool results of the whole
  history, in its form of a reference, with those of the kept messages.\<close>

theorem discovered_tools_survive:
  assumes "BuildPlan env src history options w = (plan, w')" "poPreserveRecent options"
  shows "set (discoveredToolReferenceNames env (planOutput plan)) =
    plan_names env history \<union> set (discoveredToolReferenceNames env (planKept plan))"
  by (rule plan_output_names[OF assms])

lemma base_example: "genv example_prog_env = example_env"
  by (simp add: example_prog_env_def example_schema_env_def go_env.defs schema_env.defs)

lemma example_lower: "ToLower (genv example_prog_env) ''Bash'' = ''bash''"
  unfolding base_example by code_simp

lemma example_plan_names: "plan_names example_prog_env [example_found] = {''bash''}"
  by (simp add: plan_names_def example_found_def result_contents_def blank_message_def tool_result_block_def)
     (auto simp: example_names example_lower)

lemma discovered_tools_survive_witness:
  "set (discoveredToolReferenceNames example_prog_env
     (planOutput (fst (BuildPlan example_prog_env example_sources [example_found] example_plan_options 0)))) = {''bash''}"
proof -
  obtain plan w' where plan: "BuildPlan example_prog_env example_sources [example_found] example_plan_options 0 = (plan, w')"
    by fastforce
  have "planKept plan = []" using BuildPlan_fields(2)[OF plan] by (simp add: kept_count_def example_plan_options_def)
  then show ?thesis using discovered_tools_survive[OF plan] plan example_plan_names
    by (simp add: example_plan_options_def discoveredToolReferenceNames_def)
qed

text \<open>A second compaction forgets them: when nothing is kept, the requests after it see only what
  was found in the messages since the first one, because the plan reads tool results and not the
  metadata of the boundary that the first compaction left.\<close>

theorem second_compaction_forgets:
  assumes "BuildPlan env src history options w = (plan, w')" "poKeepLast options \<le> 0"
    "BuildPlan env src (planOutput plan @ since) options w1 = (plan2, w2)" "poPreserveRecent options"
  shows "set (discoveredToolReferenceNames env (planOutput plan2)) = plan_names env since"
proof -
  note fields = BuildPlan_fields[OF assms(1)]
  have kept: "planKept plan = []" "planKept plan2 = []"
    using fields(2) BuildPlan_fields(2)[OF assms(3)] assms(2) by (simp_all add: kept_count_def)
  obtain t where "msgContent (planSummary plan) = [NewTextBlock t]" using fields(7) by blast
  then have "result_contents (planSummary plan) = []" using text_message_names(2)[OF fields(6)] by blast
  moreover have "result_contents (planBoundary plan) = []"
    by (subst fields(4)) (simp add: result_contents_def blank_message_def)
  ultimately have "plan_names env (planOutput plan @ since) = plan_names env since"
    by (simp add: plan_names_def fields(3) kept assms(4))
  then show ?thesis using plan_output_names[OF assms(3,4)] kept by (simp add: discoveredToolReferenceNames_def)
qed

lemma second_compaction_forgets_witness:
  "let plan = fst (BuildPlan example_prog_env example_sources [example_found] example_plan_options 0);
       plan2 = fst (BuildPlan example_prog_env example_sources (planOutput plan @ []) example_plan_options 3)
   in discoveredToolReferenceNames example_prog_env (planOutput plan2) = []"
proof -
  obtain plan w' where plan: "BuildPlan example_prog_env example_sources [example_found] example_plan_options 0 = (plan, w')"
    by fastforce
  obtain plan2 w2 where plan2: "BuildPlan example_prog_env example_sources (planOutput plan @ []) example_plan_options 3 = (plan2, w2)"
    by fastforce
  show ?thesis using second_compaction_forgets[OF plan _ plan2] plan plan2
    by (simp add: example_plan_options_def plan_names_def Let_def)
qed

section \<open>When a conversation is compacted\<close>

text \<open>After the \<open>n\<close>-th failure in a row, a conversation is compacted under the same condition as
  without failures as long as \<open>n\<close> is below the limit, and not at all from the limit on; a success
  starts the count again.\<close>

theorem compaction_circuit_breaker:
  "let fresh = conf\<lparr>acForce := False, acConsecutiveFailures := 0\<rparr>;
       failed = (RecordFailure ^^ n) (Some fresh)
   in ShouldRun env history (the failed) = (ShouldRun env history fresh \<and> int n < FailureLimit conf) \<and>
      RecordSuccess failed = Some fresh"
proof -
  have "(RecordFailure ^^ n) (Some (conf\<lparr>acForce := False, acConsecutiveFailures := 0\<rparr>)) =
      Some (conf\<lparr>acForce := False, acConsecutiveFailures := int n\<rparr>)"
    by (induction n) (simp_all add: RecordFailure_def)
  then show ?thesis
    by (auto simp: Let_def ShouldRun_def FailureLimitReached_def FailureLimit_def RecordSuccess_def)
qed

section \<open>The tools of a request\<close>

text \<open>With tool search on, a request carries exactly the tools that are not deferred and those that
  the model has discovered, in the order of the definitions; except for the search tool itself none
  of them is marked as deferred, and the names of all deferred tools are announced.\<close>

theorem deferred_tools_sent:
  assumes "hasToolSearchDefinition env definitions" "deferredToolNames env definitions \<noteq> []"
  shows "case filterToolSearchDefinitionsWithDecision env definitions history True of (sent, names, active) \<Rightarrow>
      map defName sent = map defName (filter (\<lambda>d. \<not> toolDefinitionDeferred env d \<or>
          toolDefinitionDiscovered env d (discoveredToolReferenceNames env history)) definitions) \<and>
      list_all (\<lambda>d. isToolSearchDefinition env d \<or> \<not> apiToolDeferLoading (ToolFromContract d)) sent \<and>
      mset names = mset (map defName (filter (toolDefinitionDeferred env) definitions)) \<and> active"
proof -
  have nonempty: "definitions \<noteq> []" using assms(1) by (auto simp: hasToolSearchDefinition_def)
  let ?f = "\<lambda>d. if isToolSearchDefinition env d \<or> \<not> toolDefinitionDeferred env d then Some d
      else if toolDefinitionDiscovered env d (discoveredToolReferenceNames env history) then Some (loaded d) else None"
  have names: "map defName (List.map_filter ?f ds) = map defName (filter (\<lambda>d. \<not> toolDefinitionDeferred env d \<or>
      toolDefinitionDiscovered env d (discoveredToolReferenceNames env history)) ds)" for ds
    by (induction ds) (auto simp: List.map_filter_simps loaded_def toolDefinitionDeferred_def)
  have "list_all (\<lambda>d. isToolSearchDefinition env d \<or> \<not> apiToolDeferLoading (ToolFromContract d)) (List.map_filter ?f ds)" for ds
    by (induction ds) (auto simp: List.map_filter_simps loaded_def toolDefinitionDeferred_def ToolFromContract_def
        toolDeferLoadingFromContract_def split: if_splits)
  then show ?thesis using assms nonempty names
    by (simp add: filterToolSearchDefinitionsWithDecision_def Let_def deferredToolNames_def)
qed

definition example_tools :: "ToolDefinition list" where
  "example_tools = [example_definition ''ToolSearch'' True, (example_definition ''Bash'' True)\<lparr>defShouldDefer := True\<rparr>,
     (example_definition ''Other'' True)\<lparr>defShouldDefer := True\<rparr>]"

lemma deferred_tools_sent_witness:
  "case filterToolSearchDefinitionsWithDecision example_prog_env example_tools [example_found] True of (sent, names, active) \<Rightarrow>
     list_all (\<lambda>d. isToolSearchDefinition example_prog_env d \<or> \<not> apiToolDeferLoading (ToolFromContract d)) sent \<and> active"
proof -
  have "hasToolSearchDefinition example_prog_env example_tools" "deferredToolNames example_prog_env example_tools \<noteq> []"
    unfolding hasToolSearchDefinition_def deferredToolNames_def toolDefinitionDeferred_def[abs_def]
      isToolSearchDefinition_def[abs_def] base_example by code_simp+
  then show ?thesis using deferred_tools_sent[of example_prog_env example_tools "[example_found]"]
    by (simp split: prod.splits)
qed

text \<open>The announcement of deferred tools settles: once the attachment with a change has been appended
  to the history, there is no further change to announce, whatever parent it gets.\<close>

theorem announcement_settles:
  assumes "\<forall>d \<in> set definitions. TrimSpace (defName d) = defName d"
    "deferredToolsDeltaFromHistory env definitions history = Some delta"
    "deferredToolsDeltaMessage newID delta w = (m, w')"
  shows "deferredToolsDeltaFromHistory env definitions (history @ [m\<lparr>msgParentUUID := parent\<rparr>]) = None"
  by (rule delta_settled[OF assms])

definition example_deferred :: ToolDefinition where
  "example_deferred = (example_definition ''Bash'' True)\<lparr>defAlwaysLoad := False, defShouldDefer := True\<rparr>"

lemma announcement_settles_witness:
  "\<exists>delta. deferredToolsDeltaFromHistory example_prog_env [example_deferred] [] = Some delta \<and>
     deferredToolsDeltaFromHistory example_prog_env [example_deferred]
       ([] @ [(fst (deferredToolsDeltaMessage (srcNewID example_sources) delta 0))\<lparr>msgParentUUID := None\<rparr>]) = None"
proof -
  have search: "EqualFold (genv example_prog_env) (TrimSpace ''Bash'') ''ToolSearch'' = False"
    "EqualFold (genv example_prog_env) (TrimSpace ''BashTool'') ''ToolSearch'' = False"
    unfolding base_example by code_simp+
  have "toolDefinitionDeferred example_prog_env example_deferred"
    using search by (simp add: toolDefinitionDeferred_def isToolSearchDefinition_def example_deferred_def example_definition_def)
  then obtain delta where delta: "deferredToolsDeltaFromHistory example_prog_env [example_deferred] [] = Some delta"
    using example_names by (simp add: deferredToolsDeltaFromHistory_def Let_def announced_names_def example_deferred_def example_definition_def)
  obtain m w' where m: "deferredToolsDeltaMessage (srcNewID example_sources) delta 0 = (m, w')" by fastforce
  have "\<forall>d \<in> set [example_deferred]. TrimSpace (defName d) = defName d"
    using example_names by (simp add: example_deferred_def example_definition_def)
  then show ?thesis using announcement_settles[OF _ delta m, of None] delta m by simp
qed

end
