(* ===== verification/Budget.thy ===== *)
theory Budget
  imports Messages
begin

text \<open>
  The budget of tool results, \<open>internal/session/content_replacement.go\<close>: results that are too large
  for a request are written to files, and a short text stands for them from then on.

  A map from IDs is an association list, a set of IDs the list of its members. A size is below \<open>2 ^ 53\<close>,
  so that a division by 1024 is exact. Writing a file (with the directory before it) is a parameter.
\<close>

abbreviation PersistedOutputTag :: string where "PersistedOutputTag \<equiv> ''<persisted-output>''"

record ContentReplacementState =
  SeenIDs :: "string list"
  Replacements :: "(string \<times> string) list"

record ToolResultBudgetOptions =
  LimitChars :: int
  StoreDir :: string
  SkipToolNames :: "string list"

record toolResultCandidate =
  candToolUseID :: string
  candContent :: goany
  candSize :: nat

record ContentReplacementRecord =
  crKind :: string
  crToolUseID :: string
  crReplacement :: string

definition NewContentReplacementState :: ContentReplacementState where
  "NewContentReplacementState = \<lparr>SeenIDs = [], Replacements = []\<rparr>"

section \<open>The content of a result\<close>

definition contentBlocksFromAny :: "prog_env \<Rightarrow> goany \<Rightarrow> ContentBlock list option" where
  "contentBlocksFromAny env content =
     (case content of
        AnyBlocks value \<Rightarrow> Some value
      | AnySlice value \<Rightarrow> decode_blocks env content
      | _ \<Rightarrow> (case decode_blocks env content of Some (b # bs) \<Rightarrow> Some (b # bs) | _ \<Rightarrow> None))"

definition isPersistedToolResult :: "goany \<Rightarrow> bool" where
  "isPersistedToolResult content = (case content of AnyString text \<Rightarrow> HasPrefix text PersistedOutputTag | _ \<Rightarrow> False)"

definition hasImageContent :: "prog_env \<Rightarrow> goany \<Rightarrow> bool" where
  "hasImageContent env content =
     (case contentBlocksFromAny env content of None \<Rightarrow> False | Some blocks \<Rightarrow> list_ex (\<lambda>b. blockType b = ''image'') blocks)"

definition toolResultContentSize :: "prog_env \<Rightarrow> goany \<Rightarrow> nat" where
  "toolResultContentSize env content =
     (case content of
        AnyString text \<Rightarrow> length text
      | _ \<Rightarrow>
        (case contentBlocksFromAny env content of
           None \<Rightarrow> (case json_any env content of None \<Rightarrow> 0 | Some data \<Rightarrow> length data)
         | Some blocks \<Rightarrow> sum_list (map (\<lambda>b. length (blockText b)) (filter (\<lambda>b. blockType b = ContentText) blocks))))"

definition is_candidate :: "prog_env \<Rightarrow> ContentBlock \<Rightarrow> bool" where
  "is_candidate env b =
     (\<not> (blockType b \<noteq> ContentToolResult \<or> blockToolUseID b = [] \<or> blockContent b = AnyNil) \<and>
      \<not> (isPersistedToolResult (blockContent b) \<or> hasImageContent env (blockContent b)))"

definition candidate_of :: "prog_env \<Rightarrow> ContentBlock \<Rightarrow> toolResultCandidate" where
  "candidate_of env b =
     \<lparr>candToolUseID = blockToolUseID b, candContent = blockContent b, candSize = toolResultContentSize env (blockContent b)\<rparr>"

definition collectToolResultCandidates :: "prog_env \<Rightarrow> Message \<Rightarrow> toolResultCandidate list" where
  "collectToolResultCandidates env message = map (candidate_of env) (filter (is_candidate env) (msgContent message))"

text \<open>\<open>flush\<close> closes the group of results that one answer of the model led to; the messages of one
  answer have the same ID.\<close>

definition flush :: "toolResultCandidate list list \<times> toolResultCandidate list \<times> string list \<Rightarrow>
    toolResultCandidate list list \<times> toolResultCandidate list \<times> string list" where
  "flush = (\<lambda>(groups, current, seen). (if current \<noteq> [] then groups @ [current] else groups, [], seen))"

definition group_step ::
  "prog_env \<Rightarrow> toolResultCandidate list list \<times> toolResultCandidate list \<times> string list \<Rightarrow> Message \<Rightarrow>
   toolResultCandidate list list \<times> toolResultCandidate list \<times> string list" where
  "group_step env st message =
     (case st of (groups, current, seen) \<Rightarrow>
        if msgType message = MessageUser then (groups, current @ collectToolResultCandidates env message, seen)
        else if msgType message = MessageAssistant
        then if msgID message = [] then flush st
             else if msgID message \<notin> set seen then flush (groups, current, msgID message # seen)
             else st
        else st)"

definition collectToolResultCandidatesByMessage :: "prog_env \<Rightarrow> Message list \<Rightarrow> toolResultCandidate list list" where
  "collectToolResultCandidatesByMessage env messages = fst (flush (foldl (group_step env) ([], [], []) messages))"

definition tool_names :: "Message \<Rightarrow> (string \<times> string) list" where
  "tool_names message =
     (if msgType message \<noteq> MessageAssistant then []
      else map (\<lambda>b. (blockID b, blockName b)) (filter (\<lambda>b. blockType b = ContentToolUse \<and> blockID b \<noteq> []) (msgContent message)))"

definition buildToolNameMap :: "Message list \<Rightarrow> string \<Rightarrow> string" where
  "buildToolNameMap messages i =
     (case map_of (rev (concat (map tool_names messages))) i of Some name \<Rightarrow> name | None \<Rightarrow> [])"

section \<open>What is replaced\<close>

fun take_largest :: "toolResultCandidate list \<Rightarrow> int \<Rightarrow> int \<Rightarrow> toolResultCandidate list" where
  "take_largest [] remaining limit = []"
| "take_largest (candidate # cs) remaining limit =
     (if remaining \<le> limit then [] else candidate # take_largest cs (remaining - int (candSize candidate)) limit)"

definition total_size :: "toolResultCandidate list \<Rightarrow> int" where
  "total_size cs = sum_list (map (\<lambda>c. int (candSize c)) cs)"

definition selectFreshToolResultsToReplace :: "toolResultCandidate list \<Rightarrow> int \<Rightarrow> int \<Rightarrow> toolResultCandidate list" where
  "selectFreshToolResultsToReplace fresh frozenSize limit =
     take_largest (sort_key (\<lambda>c. - int (candSize c)) fresh) (frozenSize + total_size fresh) limit"

definition replace_block :: "(string \<times> string) list \<Rightarrow> ContentBlock \<Rightarrow> ContentBlock" where
  "replace_block replacementMap b =
     (case map_of replacementMap (blockToolUseID b) of
        Some replacement \<Rightarrow> if blockType b \<noteq> ContentToolResult then b else with_content (AnyString replacement) b
      | None \<Rightarrow> b)"

definition replaceToolResultContents :: "Message list \<Rightarrow> (string \<times> string) list \<Rightarrow> Message list" where
  "replaceToolResultContents messages replacementMap =
     map (\<lambda>m. if msgType m \<noteq> MessageUser then m else m\<lparr>msgContent := map (replace_block replacementMap) (msgContent m)\<rparr>) messages"

definition see :: "ContentReplacementState \<Rightarrow> toolResultCandidate list \<Rightarrow> ContentReplacementState" where
  "see state cs = state\<lparr>SeenIDs := SeenIDs state @ map candToolUseID cs\<rparr>"

text \<open>One group: its replacements from before, and the candidates to persist.\<close>

definition budget_group ::
  "ToolResultBudgetOptions \<Rightarrow> (string \<Rightarrow> string) \<Rightarrow> int \<Rightarrow>
   ContentReplacementState \<times> (string \<times> string) list \<times> toolResultCandidate list \<Rightarrow> toolResultCandidate list \<Rightarrow>
   ContentReplacementState \<times> (string \<times> string) list \<times> toolResultCandidate list" where
  "budget_group options nameByToolUseID limit = (\<lambda>(state, replacementMap, toPersist) candidates.
     let replaced = filter (\<lambda>c. map_of (Replacements state) (candToolUseID c) \<noteq> None) candidates;
         others = filter (\<lambda>c. map_of (Replacements state) (candToolUseID c) = None) candidates;
         replacementMap = replacementMap @
           map (\<lambda>c. (candToolUseID c, the (map_of (Replacements state) (candToolUseID c)))) replaced;
         frozen = filter (\<lambda>c. candToolUseID c \<in> set (SeenIDs state)) others;
         fresh = filter (\<lambda>c. candToolUseID c \<notin> set (SeenIDs state)) others
     in if fresh = [] then (see state candidates, replacementMap, toPersist)
        else
          let skipped = filter (\<lambda>c. nameByToolUseID (candToolUseID c) \<in> set (SkipToolNames options)) fresh;
              eligible = filter (\<lambda>c. nameByToolUseID (candToolUseID c) \<notin> set (SkipToolNames options)) fresh;
              frozenSize = total_size frozen;
              selected = (if frozenSize + total_size eligible > limit
                          then selectFreshToolResultsToReplace eligible frozenSize limit else []);
              unselected = filter (\<lambda>c. candToolUseID c \<notin> set (map candToolUseID selected)) candidates
          in (see (see state skipped) unselected, replacementMap, toPersist @ selected))"

section \<open>Writing a result\<close>

definition half_even :: "rat \<Rightarrow> int" where
  "half_even r = (let n = \<lfloor>r\<rfloor>; d = r - of_int n
     in if d < 1/2 then n else if d > 1/2 then n + 1 else if even n then n else n + 1)"

text \<open>\<open>fmt.Sprintf("%.1f", r)\<close> of a value that is not negative.\<close>

definition one_decimal :: "rat \<Rightarrow> string" where
  "one_decimal r = (let n = nat (half_even (r * 10)) in dec (n div 10) @ ''.'' @ dec (n mod 10))"

fun size_in_units :: "rat \<Rightarrow> string list \<Rightarrow> string" where
  "size_in_units value [] = one_decimal (value / 1024) @ '' TB''"
| "size_in_units value (suffix # units) =
     (if value / 1024 < 1024 then one_decimal (value / 1024) @ '' '' @ suffix else size_in_units (value / 1024) units)"

definition formatFileSize :: "nat \<Rightarrow> string" where
  "formatFileSize n = (if n < 1024 then dec n @ '' B'' else size_in_units (of_nat n) [''KB'', ''MB'', ''GB''])"

definition sanitizeToolResultID :: "string \<Rightarrow> string" where
  "sanitizeToolResultID i =
     (let name = map_file_name (Base i)
      in if name = [] \<or> name = ''.'' \<or> name = ''/'' then ''tool-result'' else name)"

definition serializableToolResultContent :: "prog_env \<Rightarrow> goany \<Rightarrow> (string \<times> bool) option" where
  "serializableToolResultContent env content =
     (case content of
        AnyString text \<Rightarrow> Some (text, False)
      | _ \<Rightarrow>
        (case contentBlocksFromAny env content of
           None \<Rightarrow> None
         | Some blocks \<Rightarrow>
           if list_ex (\<lambda>b. blockType b \<noteq> ContentText) blocks then None
           else map_option (\<lambda>data. (data, True)) (json_indented env blocks)))"

text \<open>The place of the last newline.\<close>

fun last_newline :: "string \<Rightarrow> nat option" where
  "last_newline [] = None"
| "last_newline (c # s) =
     (case last_newline s of Some i \<Rightarrow> Some (Suc i) | None \<Rightarrow> if c = CHR 0x0A then Some 0 else None)"

definition generateToolResultPreview :: "string \<Rightarrow> nat \<Rightarrow> string \<times> bool" where
  "generateToolResultPreview content maxBytes =
     (if length content \<le> maxBytes then (content, False)
      else case last_newline (take maxBytes content) of
             Some idx \<Rightarrow> if idx > maxBytes div 2 then (take idx content, True) else (take maxBytes content, True)
           | None \<Rightarrow> (take maxBytes content, True))"

definition buildPersistedOutputMessage :: "string \<Rightarrow> nat \<Rightarrow> string \<Rightarrow> bool \<Rightarrow> string" where
  "buildPersistedOutputMessage path originalSize preview hasMore =
     PersistedOutputTag @ nl @
     ''Output too large ('' @ formatFileSize originalSize @ ''). Full output saved to: '' @ path @ nl @ nl @
     ''Preview (first '' @ formatFileSize 2000 @ ''):'' @ nl @
     preview @ (if hasMore then nl @ ''...'' @ nl else nl) @ ''</persisted-output>''"

definition result_path :: "prog_env \<Rightarrow> string \<Rightarrow> string \<Rightarrow> bool \<Rightarrow> string" where
  "result_path env storeDir toolUseID isJSON =
     JoinPath [if storeDir = [] then JoinPath [ClaudeHomeDir (genv env), ''tool-results''] else storeDir,
               sanitizeToolResultID toolUseID @ ''.'' @ (if isJSON then ''json'' else ''txt'')]"

text \<open>\<open>write\<close> makes the directory and writes the file unless it exists; it tells whether that failed.\<close>

definition buildToolResultReplacement ::
  "prog_env \<Rightarrow> (string \<Rightarrow> string \<Rightarrow> 'w \<Rightarrow> bool \<times> 'w) \<Rightarrow> toolResultCandidate \<Rightarrow> string \<Rightarrow> 'w \<Rightarrow> string option \<times> 'w" where
  "buildToolResultReplacement env write candidate storeDir w =
     (case serializableToolResultContent env (candContent candidate) of
        None \<Rightarrow> (None, w)
      | Some (content, isJSON) \<Rightarrow>
        let path = result_path env storeDir (candToolUseID candidate) isJSON
        in case write path content w of (failed, w') \<Rightarrow>
             (if failed then None
              else case generateToolResultPreview content 2000 of (preview, hasMore) \<Rightarrow>
                     Some (buildPersistedOutputMessage path (length content) preview hasMore), w'))"

fun persist_loop ::
  "prog_env \<Rightarrow> (string \<Rightarrow> string \<Rightarrow> 'w \<Rightarrow> bool \<times> 'w) \<Rightarrow> string \<Rightarrow> toolResultCandidate list \<Rightarrow>
   ContentReplacementState \<times> (string \<times> string) list \<times> ContentReplacementRecord list \<Rightarrow> 'w \<Rightarrow>
   (ContentReplacementState \<times> (string \<times> string) list \<times> ContentReplacementRecord list) \<times> 'w" where
  "persist_loop env write storeDir [] st w = (st, w)"
| "persist_loop env write storeDir (candidate # cs) (state, replacementMap, records) w =
     (let state = see state [candidate]
      in case buildToolResultReplacement env write candidate storeDir w of
           (None, w1) \<Rightarrow> persist_loop env write storeDir cs (state, replacementMap, records) w1
         | (Some replacement, w1) \<Rightarrow>
           persist_loop env write storeDir cs
             (state\<lparr>Replacements := AList.update (candToolUseID candidate) replacement (Replacements state)\<rparr>,
              AList.update (candToolUseID candidate) replacement replacementMap,
              records @ [\<lparr>crKind = ''tool-result'', crToolUseID = candToolUseID candidate, crReplacement = replacement\<rparr>]) w1)"

definition ApplyToolResultBudget ::
  "prog_env \<Rightarrow> (string \<Rightarrow> string \<Rightarrow> 'w \<Rightarrow> bool \<times> 'w) \<Rightarrow> ToolResultBudgetOptions \<Rightarrow> Message list \<Rightarrow> ContentReplacementState \<Rightarrow>
   'w \<Rightarrow> (Message list \<times> ContentReplacementRecord list \<times> ContentReplacementState) \<times> 'w" where
  "ApplyToolResultBudget env write options messages state w =
     (let limit = (if LimitChars options \<le> 0 then 200000 else LimitChars options);
          (state, replacementMap, toPersist) =
            foldl (budget_group options (buildToolNameMap messages) limit) (state, [], [])
              (collectToolResultCandidatesByMessage env messages)
      in if replacementMap = [] \<and> toPersist = [] then ((messages, [], state), w)
         else case persist_loop env write (StoreDir options) toPersist (state, replacementMap, []) w of
                ((state, replacementMap, records), w') \<Rightarrow>
                  if replacementMap = [] then ((messages, [], state), w')
                  else ((replaceToolResultContents messages replacementMap, records, state), w'))"

section \<open>The state of a resumed session\<close>

definition record_applies :: "string list \<Rightarrow> ContentReplacementRecord \<Rightarrow> bool" where
  "record_applies candidateIDs r =
     (\<not> (crToolUseID r = [] \<or> crReplacement r = []) \<and> \<not> (crKind r \<noteq> [] \<and> crKind r \<noteq> ''tool-result'') \<and>
      crToolUseID r \<in> set candidateIDs)"

definition ReconstructContentReplacementState ::
  "prog_env \<Rightarrow> Message list \<Rightarrow> ContentReplacementRecord list \<Rightarrow> ContentReplacementState" where
  "ReconstructContentReplacementState env messages records =
     (let ids = map candToolUseID (concat (collectToolResultCandidatesByMessage env messages))
      in \<lparr>SeenIDs = ids,
          Replacements = foldl (\<lambda>m r. AList.update (crToolUseID r) (crReplacement r) m) [] (filter (record_applies ids) records)\<rparr>)"

end
