(* ===== verification/Commands.thy ===== *)
theory Commands
  imports Messages
begin

text \<open>
  The registry of slash commands and skills, \<open>internal/commands/registry.go\<close>, with the policy on
  customization that it asks (\<open>internal/config/plugin_only.go\<close>).

  A command is a value: the copies that the source makes of its slices are the value itself. Three of
  its fields, which nothing here reads, are left out. What is found on disk (skills, plugins) is given
  to \<open>Load\<close> as the commands that were loaded; of the settings it has the one field it reads.
\<close>

abbreviation CommandPrompt :: string where "CommandPrompt \<equiv> ''prompt''"
abbreviation CommandLocal :: string where "CommandLocal \<equiv> ''local''"
abbreviation CommandLocalJSX :: string where "CommandLocalJSX \<equiv> ''local-jsx''"
abbreviation CommandSourceBuiltin :: string where "CommandSourceBuiltin \<equiv> ''builtin''"

record Command =
  cmdType :: string
  cmdName :: string
  cmdAliases :: "string list"
  cmdDisplayName :: string
  cmdDescription :: string
  cmdArgumentHint :: string
  cmdArgumentNames :: "string list"
  cmdSource :: string
  cmdLoadedFrom :: string
  cmdSkillRoot :: string
  cmdDisableModelInvocation :: bool
  cmdSupportsNonInteractive :: bool
  cmdImmediate :: bool
  cmdSensitive :: bool
  cmdHidden :: bool
  cmdAllowedTools :: "string list"
  cmdWhenToUse :: string
  cmdVersion :: string
  cmdModel :: string
  cmdContext :: string
  cmdAgent :: string
  cmdEffort :: string
  cmdPaths :: "string list"
  cmdAvailability :: "string list"
  cmdUserConfig :: go_map
  cmdHasUserSpecifiedDetails :: bool

definition blank_command :: Command where
  "blank_command =
     \<lparr>cmdType = [], cmdName = [], cmdAliases = [], cmdDisplayName = [], cmdDescription = [], cmdArgumentHint = [],
      cmdArgumentNames = [], cmdSource = [], cmdLoadedFrom = [], cmdSkillRoot = [], cmdDisableModelInvocation = False,
      cmdSupportsNonInteractive = False, cmdImmediate = False, cmdSensitive = False, cmdHidden = False,
      cmdAllowedTools = [], cmdWhenToUse = [], cmdVersion = [], cmdModel = [], cmdContext = [], cmdAgent = [],
      cmdEffort = [], cmdPaths = [], cmdAvailability = [], cmdUserConfig = [], cmdHasUserSpecifiedDetails = False\<rparr>"

record PromptTemplate =
  ptCommand :: Command
  ptContent :: string

record Sources =
  BundledSkillPrompts :: "PromptTemplate list"
  BundledSkills :: "Command list"
  BuiltinPluginSkillPrompts :: "PromptTemplate list"
  BuiltinPluginSkills :: "Command list"
  ProjectSkillPrompts :: "PromptTemplate list"
  ProjectSkills :: "Command list"
  WorkflowCommands :: "Command list"
  PluginCommands :: "Command list"
  PluginSkillPrompts :: "PromptTemplate list"
  PluginSkills :: "Command list"
  DynamicSkillPrompts :: "PromptTemplate list"
  DynamicSkills :: "Command list"
  Builtins :: "Command list option"

record CommandRegistry =
  rgCommands :: "Command list"
  rgPromptTemplates :: "(string \<times> PromptTemplate) list"

section \<open>Names\<close>

definition UserFacingName :: "Command \<Rightarrow> string" where
  "UserFacingName cmd = (if cmdDisplayName cmd \<noteq> [] then cmdDisplayName cmd else cmdName cmd)"

definition commandKeys :: "Command \<Rightarrow> string list" where
  "commandKeys cmd =
     (if cmdName cmd \<noteq> [] then [cmdName cmd] else []) @
     (if UserFacingName cmd \<noteq> [] \<and> UserFacingName cmd \<noteq> cmdName cmd then [UserFacingName cmd] else []) @
     cmdAliases cmd"

definition FindCommand :: "string \<Rightarrow> Command list \<Rightarrow> Command option" where
  "FindCommand name commands =
     find (\<lambda>cmd. cmdName cmd = TrimSpace name \<or> UserFacingName cmd = TrimSpace name \<or>
                 TrimSpace name \<in> set (cmdAliases cmd)) commands"

section \<open>The commands of a registry\<close>

text \<open>A template is kept under every key of its command that has none yet.\<close>

definition registerPromptTemplate :: "(string \<times> PromptTemplate) list \<Rightarrow> PromptTemplate \<Rightarrow> (string \<times> PromptTemplate) list" where
  "registerPromptTemplate templates prompt =
     (if cmdName (ptCommand prompt) = [] then templates
      else foldl (\<lambda>templates key. if key = [] then templates
                    else if map_of templates key \<noteq> None then templates else templates @ [(key, prompt)])
             templates (commandKeys (ptCommand prompt)))"

definition appendPromptCommands ::
  "Command list \<times> (string \<times> PromptTemplate) list \<Rightarrow> PromptTemplate list \<Rightarrow> Command list \<times> (string \<times> PromptTemplate) list" where
  "appendPromptCommands bt prompts =
     (fst bt @ map ptCommand prompts, foldl registerPromptTemplate (snd bt) prompts)"

definition appendCommands ::
  "Command list \<times> (string \<times> PromptTemplate) list \<Rightarrow> Command list \<Rightarrow> Command list \<times> (string \<times> PromptTemplate) list" where
  "appendCommands bt commands = (fst bt @ commands, snd bt)"

definition commandKnown :: "string list \<Rightarrow> Command \<Rightarrow> bool" where
  "commandKnown seen cmd = list_ex (\<lambda>key. key \<in> set seen) (commandKeys cmd)"

definition add_dynamic_prompt ::
  "string list \<times> Command list \<times> (string \<times> PromptTemplate) list \<Rightarrow> PromptTemplate \<Rightarrow>
   string list \<times> Command list \<times> (string \<times> PromptTemplate) list" where
  "add_dynamic_prompt = (\<lambda>(seen, cmds, templates) prompt.
     if commandKnown seen (ptCommand prompt) then (seen, cmds, templates)
     else (seen @ commandKeys (ptCommand prompt), cmds @ [ptCommand prompt], registerPromptTemplate templates prompt))"

definition add_dynamic_skill ::
  "string list \<times> Command list \<times> (string \<times> PromptTemplate) list \<Rightarrow> Command \<Rightarrow>
   string list \<times> Command list \<times> (string \<times> PromptTemplate) list" where
  "add_dynamic_skill = (\<lambda>(seen, cmds, templates) cmd.
     if commandKnown seen cmd then (seen, cmds, templates) else (seen @ commandKeys cmd, cmds @ [cmd], templates))"

definition FromSources :: "Sources \<Rightarrow> CommandRegistry" where
  "FromSources sources =
     (let bt = appendPromptCommands ([], []) (BundledSkillPrompts sources);
          bt = appendCommands bt (BundledSkills sources);
          bt = appendPromptCommands bt (BuiltinPluginSkillPrompts sources);
          bt = appendCommands bt (BuiltinPluginSkills sources);
          bt = appendPromptCommands bt (ProjectSkillPrompts sources);
          bt = appendCommands bt (ProjectSkills sources);
          bt = appendCommands bt (WorkflowCommands sources);
          bt = appendCommands bt (PluginCommands sources);
          bt = appendPromptCommands bt (PluginSkillPrompts sources);
          bt = appendCommands bt (PluginSkills sources);
          seen = concat (map commandKeys (fst bt));
          st = foldl add_dynamic_prompt (seen, bt) (DynamicSkillPrompts sources);
          (_, cmds, templates) = foldl add_dynamic_skill st (DynamicSkills sources)
      in \<lparr>rgCommands = cmds @ (case Builtins sources of Some cs \<Rightarrow> cs | None \<Rightarrow> []), rgPromptTemplates = templates\<rparr>)"

definition Visible :: "CommandRegistry \<Rightarrow> Command list" where
  "Visible r = filter (\<lambda>cmd. \<not> cmdHidden cmd) (rgCommands r)"

definition Find :: "CommandRegistry \<Rightarrow> string \<Rightarrow> Command option" where
  "Find r name = FindCommand name (rgCommands r)"

definition LookupPromptTemplate :: "CommandRegistry \<Rightarrow> string \<Rightarrow> PromptTemplate option" where
  "LookupPromptTemplate r name =
     (case map_of (rgPromptTemplates r) (TrimSpace name) of
        Some template \<Rightarrow> Some template
      | None \<Rightarrow> (case Find r name of Some command \<Rightarrow> map_of (rgPromptTemplates r) (cmdName command) | None \<Rightarrow> None))"

section \<open>Selections\<close>

definition isAlwaysSkillLoadedFrom :: "string \<Rightarrow> bool" where
  "isAlwaysSkillLoadedFrom loadedFrom = (loadedFrom \<in> {''bundled'', ''skills'', ''commands_DEPRECATED''})"

definition SkillToolCommands :: "Command list \<Rightarrow> Command list" where
  "SkillToolCommands commands =
     filter (\<lambda>cmd. \<not> (cmdType cmd \<noteq> CommandPrompt \<or> cmdDisableModelInvocation cmd \<or> cmdSource cmd = CommandSourceBuiltin) \<and>
       (isAlwaysSkillLoadedFrom (cmdLoadedFrom cmd) \<or> cmdHasUserSpecifiedDetails cmd \<or> cmdWhenToUse cmd \<noteq> [])) commands"

definition SlashCommandToolSkills :: "Command list \<Rightarrow> Command list" where
  "SlashCommandToolSkills commands =
     filter (\<lambda>cmd. \<not> (cmdType cmd \<noteq> CommandPrompt \<or> cmdSource cmd = CommandSourceBuiltin) \<and>
       \<not> (\<not> cmdHasUserSpecifiedDetails cmd \<and> cmdWhenToUse cmd = []) \<and>
       (cmdLoadedFrom cmd = ''skills'' \<or> cmdLoadedFrom cmd = ''plugin'' \<or> cmdLoadedFrom cmd = ''bundled'' \<or>
        cmdDisableModelInvocation cmd)) commands"

definition MCPSkillCommands :: "Command list \<Rightarrow> Command list" where
  "MCPSkillCommands commands =
     filter (\<lambda>cmd. cmdType cmd = CommandPrompt \<and> cmdLoadedFrom cmd = ''mcp'' \<and> \<not> cmdDisableModelInvocation cmd) commands"

definition IsBridgeSafeCommand :: "Command \<Rightarrow> bool" where
  "IsBridgeSafeCommand cmd =
     (if cmdType cmd = CommandPrompt then True
      else if cmdType cmd = CommandLocalJSX then False
      else if cmdType cmd = CommandLocal
      then cmdName cmd \<in> {''compact'', ''clear'', ''cost'', ''summary'', ''release-notes'', ''files''}
      else False)"

section \<open>The policy on customization\<close>

definition IsRestrictedToPluginOnly :: "goany \<Rightarrow> string \<Rightarrow> bool" where
  "IsRestrictedToPluginOnly strict surface0 =
     (let surface = TrimSpace surface0
      in if surface = [] then False
         else case strict of
                AnyBool policy \<Rightarrow> policy
              | AnyStrings policy \<Rightarrow> list_ex (\<lambda>item. TrimSpace item = surface) policy
              | AnySlice policy \<Rightarrow> list_ex (\<lambda>item. case item of AnyString value \<Rightarrow> TrimSpace value = surface | _ \<Rightarrow> False) policy
              | _ \<Rightarrow> False)"

definition IsAdminTrustedCustomizationSource :: "string \<Rightarrow> bool" where
  "IsAdminTrustedCustomizationSource source =
     (TrimSpace source \<in> {''plugin'', ''policySettings'', ''built-in'', ''builtin'', ''bundled''})"

definition sanitizeAgentRestrictedCommand :: "Command \<Rightarrow> Command" where
  "sanitizeAgentRestrictedCommand cmd =
     (if IsAdminTrustedCustomizationSource (cmdSource cmd) \<or> IsAdminTrustedCustomizationSource (cmdLoadedFrom cmd) then cmd
      else cmd\<lparr>cmdContext := [], cmdAgent := [], cmdEffort := []\<rparr>)"

definition sanitizeAgentRestrictedCommands :: "Command list \<Rightarrow> Command list" where
  "sanitizeAgentRestrictedCommands commands = map sanitizeAgentRestrictedCommand commands"

definition sanitizeAgentRestrictedPromptTemplates :: "PromptTemplate list \<Rightarrow> PromptTemplate list" where
  "sanitizeAgentRestrictedPromptTemplates prompts =
     map (\<lambda>p. p\<lparr>ptCommand := sanitizeAgentRestrictedCommand (ptCommand p)\<rparr>) prompts"

definition sanitizeAgentRestrictedSources :: "Sources \<Rightarrow> Sources" where
  "sanitizeAgentRestrictedSources s =
     \<lparr>BundledSkillPrompts = sanitizeAgentRestrictedPromptTemplates (BundledSkillPrompts s),
      BundledSkills = sanitizeAgentRestrictedCommands (BundledSkills s),
      BuiltinPluginSkillPrompts = sanitizeAgentRestrictedPromptTemplates (BuiltinPluginSkillPrompts s),
      BuiltinPluginSkills = sanitizeAgentRestrictedCommands (BuiltinPluginSkills s),
      ProjectSkillPrompts = sanitizeAgentRestrictedPromptTemplates (ProjectSkillPrompts s),
      ProjectSkills = sanitizeAgentRestrictedCommands (ProjectSkills s),
      WorkflowCommands = sanitizeAgentRestrictedCommands (WorkflowCommands s),
      PluginCommands = sanitizeAgentRestrictedCommands (PluginCommands s),
      PluginSkillPrompts = sanitizeAgentRestrictedPromptTemplates (PluginSkillPrompts s),
      PluginSkills = sanitizeAgentRestrictedCommands (PluginSkills s),
      DynamicSkillPrompts = sanitizeAgentRestrictedPromptTemplates (DynamicSkillPrompts s),
      DynamicSkills = sanitizeAgentRestrictedCommands (DynamicSkills s),
      Builtins = map_option sanitizeAgentRestrictedCommands (Builtins s)\<rparr>"

section \<open>Loading\<close>

definition builtin :: "string \<Rightarrow> string \<Rightarrow> string list \<Rightarrow> string \<Rightarrow> string \<Rightarrow> bool \<Rightarrow> bool \<Rightarrow> Command" where
  "builtin ctype name aliases hint description supportsNonInteractive immediate =
     blank_command\<lparr>cmdType := ctype, cmdName := name, cmdAliases := aliases, cmdArgumentHint := hint,
       cmdDescription := description, cmdSource := CommandSourceBuiltin,
       cmdSupportsNonInteractive := supportsNonInteractive, cmdImmediate := immediate\<rparr>"

definition BuiltinCommands :: "Command list" where
  "BuiltinCommands =
     [builtin CommandLocalJSX ''help'' [] [] ''Show help and available commands'' False False,
      builtin CommandLocalJSX ''config'' [''settings''] [] ''Open config panel'' False False,
      builtin CommandLocalJSX ''mcp'' [] ''[enable|disable [server-name]]'' ''Manage MCP servers'' False True,
      builtin CommandLocalJSX ''plugin'' [''plugins'', ''marketplace''] [] ''Manage plugins'' False False,
      builtin CommandLocalJSX ''skills'' [] [] ''List available skills'' False False,
      builtin CommandLocalJSX ''memory'' [] [] ''Edit memory files'' False False,
      builtin CommandLocal ''native'' [] ''clipboard|chrome|voice|computer'' ''Run explicit native integration commands'' True False,
      builtin CommandLocalJSX ''resume'' [''continue''] ''[conversation id or search term]'' ''Resume a previous conversation'' False False,
      builtin CommandLocal ''clear'' [''reset'', ''new''] [] ''Clear conversation history and free up context'' True False,
      builtin CommandLocal ''compact'' [] [] ''Compact the current conversation'' True False,
      builtin CommandLocal ''cost'' [] [] ''Show the total cost and duration of the current session'' True False,
      builtin CommandLocal ''summary'' [] [] ''Show a local conversation summary'' True False,
      builtin CommandLocal ''release-notes'' [] [] ''Show bundled release notes status'' True False,
      builtin CommandLocal ''files'' [] [] ''Show local workspace files'' True False,
      builtin CommandLocal ''issue'' [] ''[description]'' ''Prepare a local issue report context'' True False,
      builtin CommandLocalJSX ''status'' [] []
        ''Show Claude Code status including version, model, account, API connectivity, and tool statuses'' False True,
      builtin CommandLocalJSX ''model'' [] ''[model]'' ''Set the AI model for Claude Code'' False True,
      builtin CommandLocalJSX ''output-style'' [] [] ''Deprecated: use /config to change output style'' False False]"

text \<open>The settings of policy when they say anything, else the merged settings.\<close>

definition effectivePolicySettings :: "goany \<Rightarrow> goany \<Rightarrow> goany" where
  "effectivePolicySettings strict policyStrict = (if policyStrict \<noteq> AnyNil then policyStrict else strict)"

record LoadOptions =
  loCWD :: string
  loSources :: Sources
  loDisableProjectSkills :: bool
  loDisableBuiltins :: bool
  loStrict :: goany
  loPolicyStrict :: goany

definition Load :: "(string \<Rightarrow> PromptTemplate list) \<Rightarrow> (string \<Rightarrow> PromptTemplate list \<times> Command list) \<Rightarrow> LoadOptions \<Rightarrow> CommandRegistry" where
  "Load loadProjectSkillPrompts loadProjectPluginCommands opts =
     (let sources = loSources opts;
          policy = effectivePolicySettings (loStrict opts) (loPolicyStrict opts);
          sources = (if IsRestrictedToPluginOnly policy ''skills''
             then sources\<lparr>ProjectSkillPrompts := [], ProjectSkills := [], DynamicSkillPrompts := [], DynamicSkills := []\<rparr>
             else if \<not> loDisableProjectSkills opts \<and> loCWD opts \<noteq> [] \<and> ProjectSkills sources = [] \<and> ProjectSkillPrompts sources = []
             then sources\<lparr>ProjectSkillPrompts := loadProjectSkillPrompts (loCWD opts)\<rparr>
             else sources);
          sources = (if loCWD opts \<noteq> [] \<and> PluginCommands sources = [] \<and> PluginSkillPrompts sources = [] \<and> PluginSkills sources = []
             then sources\<lparr>PluginSkillPrompts := fst (loadProjectPluginCommands (loCWD opts)),
                          PluginCommands := snd (loadProjectPluginCommands (loCWD opts))\<rparr>
             else sources);
          sources = (if \<not> loDisableBuiltins opts \<and> Builtins sources = None
             then sources\<lparr>Builtins := Some BuiltinCommands\<rparr> else sources)
      in FromSources (if IsRestrictedToPluginOnly policy ''agents'' then sanitizeAgentRestrictedSources sources else sources))"

end
