(* ===== verification/Prompts.thy ===== *)
theory Prompts
  imports Commands Utf8
begin

text \<open>
  Prompt templates, \<open>internal/commands/prompt.go\<close>: the arguments of a command and the user's
  configuration of a plugin are put into the text of the prompt.

  The parser of arguments goes through their runes, so a byte that is not valid UTF-8 comes out as U+FFFD.
  A plugin's configuration is decoded JSON.
\<close>

section \<open>Arguments\<close>

text \<open>\<open>strings.Fields\<close>: the pieces between runs of white space.\<close>

fun fields_from :: "nat \<Rightarrow> string \<Rightarrow> string \<Rightarrow> string list" where
  "fields_from skip current [] = (if current = [] then [] else [current])"
| "fields_from skip current (c # cs) =
     (if skip > 0 then fields_from (skip - 1) current cs
      else if space_len (c # cs) > 0
      then (if current = [] then [] else [current]) @ fields_from (space_len (c # cs) - 1) [] cs
      else fields_from 0 (current @ [c]) cs)"

definition Fields :: "string \<Rightarrow> string list" where
  "Fields s = fields_from 0 [] s"

record argument_state =
  asOut :: "string list"
  asCurrent :: string
  asQuote :: "string option"
  asEscaped :: bool
  asHaveToken :: bool

text \<open>One rune of the arguments, as the text that \<open>WriteRune\<close> writes for it.\<close>

definition argument_step :: "argument_state \<Rightarrow> string \<Rightarrow> argument_state" where
  "argument_step s r =
     (let write = s\<lparr>asCurrent := asCurrent s @ r, asHaveToken := True\<rparr>
      in if asEscaped s then write\<lparr>asEscaped := False\<rparr>
         else if asQuote s \<noteq> Some [CHR 0x27] \<and> r = [CHR 0x5C] then s\<lparr>asEscaped := True, asHaveToken := True\<rparr>
         else case asQuote s of
                Some quote \<Rightarrow> if r = quote then s\<lparr>asQuote := None, asHaveToken := True\<rparr> else write
              | None \<Rightarrow>
                if r = [CHR 0x27] \<or> r = [CHR 0x22] then s\<lparr>asQuote := Some r, asHaveToken := True\<rparr>
                else if r \<in> {'' '', [CHR 0x09], [CHR 0x0A], [CHR 0x0D]}
                then if asHaveToken s then s\<lparr>asOut := asOut s @ [asCurrent s], asCurrent := [], asHaveToken := False\<rparr> else s
                else write)"

definition no_arguments :: argument_state where
  "no_arguments = \<lparr>asOut = [], asCurrent = [], asQuote = None, asEscaped = False, asHaveToken = False\<rparr>"

definition parseShellLikeArguments :: "string \<Rightarrow> string list option" where
  "parseShellLikeArguments args =
     (let s = foldl argument_step no_arguments (rune_strings args)
      in if asEscaped s \<or> asQuote s \<noteq> None then None
         else Some (if asHaveToken s then asOut s @ [asCurrent s] else asOut s))"

definition ParseArguments :: "string \<Rightarrow> string list" where
  "ParseArguments args =
     (if TrimSpace args = [] then []
      else case parseShellLikeArguments args of Some parsed \<Rightarrow> parsed | None \<Rightarrow> Fields args)"

section \<open>Substitution\<close>

text \<open>What a scanner makes of the text at its place: the text it writes and what is left, which is
  shorter. Elsewhere one byte is copied.\<close>

function substitute :: "(string \<Rightarrow> (string \<times> string) option) \<Rightarrow> string \<Rightarrow> string" where
  "substitute f s =
     (case s of [] \<Rightarrow> []
      | c # cs \<Rightarrow>
        (case f s of
           Some (out, rest) \<Rightarrow> if length rest < length s then out @ substitute f rest else c # substitute f cs
         | None \<Rightarrow> c # substitute f cs))"
  by pat_completeness auto
termination by (relation "measure (\<lambda>(f, s). length s)") auto

declare substitute.simps [simp del]

definition wordByte :: "char \<Rightarrow> bool" where
  "wordByte b = (b = CHR ''_'' \<or> is_lower b \<or> is_upper b \<or> is_digit b)"

definition named_argument :: "string \<Rightarrow> string \<Rightarrow> string \<Rightarrow> (string \<times> string) option" where
  "named_argument target value content =
     (if \<not> HasPrefix content target then None
      else let after = drop (length target) content
           in Some (if after \<noteq> [] \<and> (hd after = CHR ''['' \<or> wordByte (hd after)) then target else value, after))"

definition replaceNamedArgument :: "string \<Rightarrow> string \<Rightarrow> string \<Rightarrow> string" where
  "replaceNamedArgument content name value = substitute (named_argument (CHR ''$'' # name) value) content"

text \<open>The index is an \<open>int\<close> of 64 bits.\<close>

definition indexedArg :: "string list \<Rightarrow> string \<Rightarrow> string" where
  "indexedArg args rawIndex =
     (let index = foldl (\<lambda>index r. wrap64 (wrap64 (index * 10) + int (byte r - 48))) 0 rawIndex
      in if index < 0 \<or> index \<ge> int (length args) then [] else args ! nat index)"

definition arguments_index :: "string list \<Rightarrow> string \<Rightarrow> (string \<times> string) option" where
  "arguments_index args content =
     (if \<not> HasPrefix content ''$ARGUMENTS['' then None
      else let rest = drop 11 content; digits = takeWhile is_digit rest; after = dropWhile is_digit rest
           in if digits = [] \<or> after = [] \<or> hd after \<noteq> CHR '']'' then Some (''$ARGUMENTS['', rest)
              else Some (indexedArg args digits, tl after))"

definition replaceArgumentsIndexes :: "string \<Rightarrow> string list \<Rightarrow> string" where
  "replaceArgumentsIndexes content args = substitute (arguments_index args) content"

definition numeric_shorthand :: "string list \<Rightarrow> string \<Rightarrow> (string \<times> string) option" where
  "numeric_shorthand args content =
     (if \<not> HasPrefix content ''$'' then None
      else let rest = drop 1 content; digits = takeWhile is_digit rest; after = dropWhile is_digit rest
           in if digits = [] then Some (''$'', rest)
              else if after \<noteq> [] \<and> wordByte (hd after) then Some (''$'' @ digits, after)
              else Some (indexedArg args digits, after))"

definition replaceNumericShorthand :: "string \<Rightarrow> string list \<Rightarrow> string" where
  "replaceNumericShorthand content args = substitute (numeric_shorthand args) content"

text \<open>The arguments by name, in the order of the names.\<close>

fun replace_named :: "string \<Rightarrow> string list \<Rightarrow> string list \<Rightarrow> string" where
  "replace_named content [] parsedArgs = content"
| "replace_named content (name # names) parsedArgs =
     replace_named (if name = [] then content
                    else replaceNamedArgument content name (case parsedArgs of [] \<Rightarrow> [] | value # _ \<Rightarrow> value))
       names (tl parsedArgs)"

definition SubstituteArguments :: "string \<Rightarrow> string \<Rightarrow> bool \<Rightarrow> string list \<Rightarrow> string" where
  "SubstituteArguments content0 args appendIfNoPlaceholder argumentNames =
     (let parsedArgs = ParseArguments args;
          content = replace_named content0 argumentNames parsedArgs;
          content = replaceArgumentsIndexes content parsedArgs;
          content = replaceNumericShorthand content parsedArgs;
          content = ReplaceAll content ''$ARGUMENTS'' args
      in if content = content0 \<and> appendIfNoPlaceholder \<and> args \<noteq> []
         then content @ nl @ nl @ ''ARGUMENTS: '' @ args else content)"

section \<open>The user's configuration\<close>

definition formatUserConfigValue :: "prog_env \<Rightarrow> goany \<Rightarrow> string" where
  "formatUserConfigValue env value =
     (case value of
        AnyNil \<Rightarrow> []
      | AnyString typed \<Rightarrow> typed
      | AnyBool typed \<Rightarrow> if typed then ''true'' else ''false''
      | AnyMap _ \<Rightarrow> (case json_any env value of Some data \<Rightarrow> data | None \<Rightarrow> sprint (schema_env.truncate env) value)
      | AnySlice _ \<Rightarrow> (case json_any env value of Some data \<Rightarrow> data | None \<Rightarrow> sprint (schema_env.truncate env) value)
      | AnyStrings _ \<Rightarrow> (case json_any env value of Some data \<Rightarrow> data | None \<Rightarrow> sprint (schema_env.truncate env) value)
      | _ \<Rightarrow> sprint (schema_env.truncate env) value)"

fun config_at :: "goany \<Rightarrow> string list \<Rightarrow> goany option" where
  "config_at current [] = Some current"
| "config_at current (part # parts) =
     (if TrimSpace part = [] then None
      else case current of
             AnyMap typed \<Rightarrow> (case map_of typed (TrimSpace part) of Some value \<Rightarrow> config_at value parts | None \<Rightarrow> None)
           | _ \<Rightarrow> None)"

text \<open>The value, empty when there is none.\<close>

definition userConfigValue :: "prog_env \<Rightarrow> go_map \<Rightarrow> string \<Rightarrow> string" where
  "userConfigValue env userConfig path =
     (if userConfig = [] \<or> TrimSpace path = [] then []
      else case map_of userConfig path of
             Some value \<Rightarrow> formatUserConfigValue env value
           | None \<Rightarrow> (case config_at (AnyMap userConfig) (Split path (CHR ''.'')) of
                        Some value \<Rightarrow> formatUserConfigValue env value | None \<Rightarrow> []))"

text \<open>\<open>(user_config|userConfig|USER_CONFIG)\.\<close> at the start of a text: what follows.\<close>

definition config_name :: "string \<Rightarrow> string option" where
  "config_name s =
     map_option (\<lambda>name. drop (length name) s)
       (find (HasPrefix s) [''user_config.'', ''userConfig.'', ''USER_CONFIG.''])"

definition path_byte :: "char \<Rightarrow> bool" where
  "path_byte b = (is_alpha b \<or> is_digit b \<or> b = CHR ''_'' \<or> b = CHR ''-'')"

text \<open>\<open>[A-Za-z0-9_-]+(?:\.[A-Za-z0-9_-]+)*\<close> at the start of a text, as long as it gets: the path and what
  follows.\<close>

function config_path :: "string \<Rightarrow> (string \<times> string) option" where
  "config_path s =
     (let part = takeWhile path_byte s; after = dropWhile path_byte s
      in if part = [] then None
         else if after \<noteq> [] \<and> hd after = CHR ''.''
         then (case config_path (tl after) of
                 Some (path, rest) \<Rightarrow> Some (part @ ''.'' @ path, rest)
               | None \<Rightarrow> Some (part, after))
         else Some (part, after))"
  by pat_completeness auto
termination
proof (relation "measure length")
  fix s :: string and part after
  assume "after = dropWhile path_byte s" "after \<noteq> [] \<and> hd after = CHR ''.''"
  then have "length (tl after) < length after" "length after \<le> length s"
    using length_dropWhile_le[of path_byte s] by simp_all
  then show "(tl after, s) \<in> measure length" by simp
qed simp

declare config_path.simps [simp del]

definition name_and_path :: "string \<Rightarrow> (string \<times> string) option" where
  "name_and_path s = Option.bind (config_name s) config_path"

definition bracedUserConfig :: "(string \<Rightarrow> string) \<Rightarrow> string \<Rightarrow> (string \<times> string) option" where
  "bracedUserConfig value s =
     (if \<not> HasPrefix s (CHR ''$'' # ''{'') then None
      else case name_and_path (drop 2 s) of
             Some (path, rest) \<Rightarrow> if HasPrefix rest ''}'' then Some (value path, drop 1 rest) else None
           | None \<Rightarrow> None)"

definition regex_space :: "char \<Rightarrow> bool" where
  "regex_space c = (c \<in> {CHR 0x09, CHR 0x0A, CHR 0x0C, CHR 0x0D, CHR '' ''})"

definition mustacheUserConfig :: "(string \<Rightarrow> string) \<Rightarrow> string \<Rightarrow> (string \<times> string) option" where
  "mustacheUserConfig value s =
     (if \<not> HasPrefix s ''{{'' then None
      else case name_and_path (dropWhile regex_space (drop 2 s)) of
             Some (path, rest) \<Rightarrow>
               let rest = dropWhile regex_space rest
               in if HasPrefix rest ''}}'' then Some (value path, drop 2 rest) else None
           | None \<Rightarrow> None)"

definition dollarUserConfig :: "(string \<Rightarrow> string) \<Rightarrow> string \<Rightarrow> (string \<times> string) option" where
  "dollarUserConfig value s =
     (if \<not> HasPrefix s ''$'' then None
      else map_option (\<lambda>(path, rest). (value path, rest)) (name_and_path (drop 1 s)))"

definition SubstituteUserConfig :: "prog_env \<Rightarrow> string \<Rightarrow> go_map \<Rightarrow> string" where
  "SubstituteUserConfig env content userConfig =
     (let value = userConfigValue env userConfig
      in substitute (dollarUserConfig value) (substitute (mustacheUserConfig value) (substitute (bracedUserConfig value) content)))"

section \<open>The prompt\<close>

record PromptExpansion =
  peCommand :: Command
  peContent :: string
  peContentBlocks :: "ContentBlock list"
  peMessage :: Message

definition expanded_content :: "prog_env \<Rightarrow> PromptTemplate \<Rightarrow> string \<Rightarrow> ID \<Rightarrow> string" where
  "expanded_content env template args sessionID =
     (let cmd = ptCommand template;
          content = SubstituteArguments (ptContent template) args True (cmdArgumentNames cmd);
          content = SubstituteUserConfig env content (cmdUserConfig cmd);
          content = (if cmdSkillRoot cmd \<noteq> [] \<and> cmdLoadedFrom cmd \<noteq> ''mcp''
                     then ReplaceAll content (CHR ''$'' # ''{CLAUDE_SKILL_DIR}'') (cmdSkillRoot cmd) else content)
      in ReplaceAll content (CHR ''$'' # ''{CLAUDE_SESSION_ID}'') sessionID)"

definition ExpandPrompt ::
  "prog_env \<Rightarrow> 'w ids \<Rightarrow> CommandRegistry \<Rightarrow> string \<Rightarrow> string \<Rightarrow> ID \<Rightarrow> 'w \<Rightarrow> (string + PromptExpansion) \<times> 'w" where
  "ExpandPrompt env newID r name args sessionID w =
     (case LookupPromptTemplate r name of
        None \<Rightarrow> (Inl (''prompt command '' @ Quote (genv env) (TrimSpace name) @ '' not found or has no prompt template''), w)
      | Some template \<Rightarrow>
        if cmdType (ptCommand template) \<noteq> CommandPrompt
        then (Inl (''command '' @ Quote (genv env) (cmdName (ptCommand template)) @ '' is '' @
                   Quote (genv env) (cmdType (ptCommand template)) @ '', not prompt''), w)
        else
          let content = expanded_content env template args sessionID; blocks = [NewTextBlock content]
          in case newID w of (i, w') \<Rightarrow>
               (Inr \<lparr>peCommand = ptCommand template, peContent = content, peContentBlocks = blocks,
                     peMessage = blank_message\<lparr>msgType := MessageUser, msgUUID := i, msgSessionID := sessionID,
                       msgIsMeta := True, msgContent := blocks\<rparr>\<rparr>, w'))"

end
