(* ===== verification/CommandPerms.thy ===== *)
theory CommandPerms
  imports Messages ToolFunc
begin

text \<open>
  The permissions that messages carry: a slash command or a skill that runs in a turn may bring a
  list of allowed tools and a model (\<open>internal/commands/slash.go\<close>), from which
  \<open>internal/conversation/run.go\<close> makes the decider of the turn; and the permission mode of a subagent
  (\<open>task_agent.go\<close>). Tool lists are valid UTF-8.
\<close>

abbreviation CommandPermissionsSubtype :: string where "CommandPermissionsSubtype \<equiv> ''command_permissions''"
abbreviation PermissionSourceCommand :: string where "PermissionSourceCommand \<equiv> ''command''"

record CommandPermissions =
  cpAllowedTools :: "string list"
  cpModel :: string

section \<open>Lists of tools\<close>

definition add_part :: "string list \<Rightarrow> string \<Rightarrow> string list" where
  "add_part result current = (if TrimSpace current \<noteq> [] then result @ [TrimSpace current] else result)"

fun tool_list_loop :: "string list \<Rightarrow> string \<Rightarrow> bool \<Rightarrow> string \<Rightarrow> string list" where
  "tool_list_loop result current inParens [] = add_part result current"
| "tool_list_loop result current inParens (c # cs) =
     (if c = CHR ''('' then tool_list_loop result (current @ [c]) True cs
      else if c = CHR '')'' then tool_list_loop result (current @ [c]) False cs
      else if c \<in> {CHR '','', CHR '' '', CHR 0x09, CHR 0x0A, CHR 0x0D}
      then if inParens then tool_list_loop result (current @ [c]) inParens cs
           else tool_list_loop (add_part result current) [] inParens cs
      else tool_list_loop result (current @ [c]) inParens cs)"

definition ParseToolList :: "string list \<Rightarrow> string list" where
  "ParseToolList tools = foldl (\<lambda>result toolString. tool_list_loop result [] False toolString) [] tools"

fun firstStringSlice :: "go_map \<Rightarrow> string list \<Rightarrow> string list" where
  "firstStringSlice obj [] = []"
| "firstStringSlice obj (key # keys) =
     (case map_of obj key of
        Some (AnyStrings typed) \<Rightarrow> typed
      | Some (AnySlice typed) \<Rightarrow> string_items typed
      | Some (AnyString typed) \<Rightarrow> [typed]
      | _ \<Rightarrow> firstStringSlice obj keys)"

fun firstString :: "go_map \<Rightarrow> string list \<Rightarrow> string" where
  "firstString obj [] = []"
| "firstString obj (key # keys) =
     (case map_of obj key of Some (AnyString value) \<Rightarrow> value | _ \<Rightarrow> firstString obj keys)"

section \<open>The permissions in messages\<close>

definition CommandPermissionsAttachment :: "'w ids \<Rightarrow> string list \<Rightarrow> string \<Rightarrow> ID \<Rightarrow> 'w \<Rightarrow> Message \<times> 'w" where
  "CommandPermissionsAttachment newID allowedTools model sessionID w =
     (let allowedTools = ParseToolList allowedTools; model = TrimSpace model
      in if allowedTools = [] \<and> model = [] then (blank_message, w)
         else case newID w of (i, w') \<Rightarrow>
           (blank_message\<lparr>msgType := MessageAttachment, msgUUID := i, msgSessionID := sessionID,
              msgSubtype := CommandPermissionsSubtype,
              msgRaw := [(''attachment'', AnyMap
                ([(''type'', AnyString CommandPermissionsSubtype), (''allowedTools'', AnyStrings allowedTools)] @
                 (if model \<noteq> [] then [(''model'', AnyString model)] else [])))]\<rparr>, w'))"

definition CommandPermissionsFromMessage :: "Message \<Rightarrow> CommandPermissions option" where
  "CommandPermissionsFromMessage message =
     (if msgType message \<noteq> MessageAttachment \<and> msgSubtype message \<noteq> CommandPermissionsSubtype then None
      else
        let payload = (case field (msgRaw message) ''attachment'' of AnyMap payload \<Rightarrow> payload | _ \<Rightarrow> msgRaw message)
        in if msgSubtype message \<noteq> CommandPermissionsSubtype \<and> \<not> is_string (field payload ''type'') CommandPermissionsSubtype
           then None
           else
             let result = \<lparr>cpAllowedTools = ParseToolList (firstStringSlice payload [''allowedTools'', ''allowed_tools'', ''tools'']),
                           cpModel = TrimSpace (firstString payload [''model''])\<rparr>
             in if cpAllowedTools result = [] \<and> cpModel result = [] then None else Some result)"

definition add_command_permissions :: "CommandPermissions \<Rightarrow> Message \<Rightarrow> CommandPermissions" where
  "add_command_permissions out message =
     (case CommandPermissionsFromMessage message of
        None \<Rightarrow> out
      | Some item \<Rightarrow>
        \<lparr>cpAllowedTools = foldl (\<lambda>tools tool. if tool \<in> set tools then tools else tools @ [tool]) (cpAllowedTools out) (cpAllowedTools item),
         cpModel = (if cpModel item \<noteq> [] then cpModel item else cpModel out)\<rparr>)"

definition CommandPermissionsFromMessages :: "Message list \<Rightarrow> CommandPermissions" where
  "CommandPermissionsFromMessages messages = foldl add_command_permissions \<lparr>cpAllowedTools = [], cpModel = []\<rparr> messages"

section \<open>The decider of a turn\<close>

fun commandPermissionRules :: "string list \<Rightarrow> Rule list" where
  "commandPermissionRules [] = []"
| "commandPermissionRules (raw # raws) =
     (case ParseRule PermissionSourceCommand PermissionAllow raw of
        Inl err \<Rightarrow> commandPermissionRules raws
      | Inr rule \<Rightarrow> rule # commandPermissionRules raws)"

definition permissionsForTurn :: "decider option \<Rightarrow> Message list \<Rightarrow> decider option" where
  "permissionsForTurn permissions messages =
     (let allowed = cpAllowedTools (CommandPermissionsFromMessages messages);
          rules = commandPermissionRules allowed
      in if allowed = [] then permissions
         else if rules = [] then permissions
         else case permissions of
                Some (EnginePermissionDecider e) \<Rightarrow>
                  Some (EnginePermissionDecider (NewEngine (engContext e) (engRules e @ rules)))
              | _ \<Rightarrow> permissions)"

section \<open>The mode of a subagent\<close>

definition known_modes :: "string list" where
  "known_modes = [PermissionDefault, PermissionAcceptEdits, PermissionBypassPermissions, PermissionDontAsk, PermissionPlan,
     PermissionAuto, ''bubble'']"

definition parsePermissionMode :: "go_env \<Rightarrow> string \<Rightarrow> PermissionMode option" where
  "parsePermissionMode env raw =
     (if TrimSpace raw \<in> set known_modes then Some (TrimSpace raw)
      else
        let lower = ToLower env (ReplaceAll (TrimSpace raw) ''_'' ''-'')
        in if lower = ''accept-edits'' then Some PermissionAcceptEdits
           else if lower \<in> {''bypass'', ''bypass-permissions''} then Some PermissionBypassPermissions
           else if lower \<in> {''dontask'', ''dont-ask''} then Some PermissionDontAsk
           else None)"

text \<open>The context of a decider that is made without one.\<close>

definition mode_context :: "PermissionMode \<Rightarrow> PermissionContext" where
  "mode_context mode =
     \<lparr>ctxMode = mode, AdditionalWorkingDirectories = None, AlwaysAllowRules = Map.empty, AlwaysDenyRules = Map.empty,
      AlwaysAskRules = Map.empty, BypassAvailable = False, AutoAvailable = False, AllowUnsandboxedCommands = None,
      SandboxFilesystem = None\<rparr>"

definition taskSubagentPermissionMode :: "go_env \<Rightarrow> decider option \<Rightarrow> string \<Rightarrow> decider option" where
  "taskSubagentPermissionMode env base rawMode =
     (case parsePermissionMode env rawMode of
        None \<Rightarrow> base
      | Some mode \<Rightarrow>
        (case base of
           Some (EnginePermissionDecider e) \<Rightarrow>
             Some (EnginePermissionDecider (NewEngine ((engContext e)\<lparr>ctxMode := mode\<rparr>) (engRules e)))
         | None \<Rightarrow> Some (EnginePermissionDecider (NewEngine (mode_context mode) []))
         | _ \<Rightarrow> base))"

end
