(* ===== verification/Slash.thy ===== *)
theory Slash
  imports Prompts CommandPerms
begin

text \<open>
  Slash commands, \<open>internal/commands/slash.go\<close>: what a line that starts with a slash means, the messages
  it leaves in the conversation, and the texts of the commands \<open>/help\<close> and \<open>/skills\<close>. (The permissions
  that a command carries are in \<open>CommandPerms\<close>.)
\<close>

record SlashCommand =
  scCommandName :: string
  scArgs :: string
  scIsMCP :: bool

datatype LocalCommandResultType =
  LocalCommandResultText | LocalCommandResultSkip | LocalCommandResultClear | LocalCommandResultCompact
| LocalCommandResultCost | LocalCommandResultSummary | LocalCommandResultRelease | LocalCommandResultFiles
| LocalCommandResultIssue | LocalCommandResultStatus | LocalCommandResultModel | LocalCommandResultMCP
| LocalCommandResultResume | LocalCommandResultConfig | LocalCommandResultPlugin | LocalCommandResultMemory
| LocalCommandResultNative

record LocalCommandResult =
  lcType :: LocalCommandResultType
  lcValue :: string

record SlashResult =
  slCommand :: Command
  slMessages :: "Message list"
  slShouldQuery :: bool
  slModel :: string
  slAllowedTools :: "string list"
  slResultText :: string
  slLocalResult :: "LocalCommandResult option"
  slUnknown :: bool
  slUnsupported :: bool

definition blank_slash_result :: SlashResult where
  "blank_slash_result =
     \<lparr>slCommand = blank_command, slMessages = [], slShouldQuery = False, slModel = [], slAllowedTools = [],
      slResultText = [], slLocalResult = None, slUnknown = False, slUnsupported = False\<rparr>"

section \<open>Parsing\<close>

definition IsSlashInput :: "string \<Rightarrow> bool" where
  "IsSlashInput input = HasPrefix (TrimSpace input) ''/''"

definition ParseSlashCommand :: "string \<Rightarrow> SlashCommand option" where
  "ParseSlashCommand input =
     (if \<not> IsSlashInput input then None
      else
        let words = Split (TrimPrefix (TrimSpace input) ''/'') (CHR '' '')
        in if words = [] \<or> hd words = [] then None
           else if length words > 1 \<and> words ! 1 = ''(MCP)''
           then Some \<lparr>scCommandName = hd words @ '' (MCP)'', scArgs = Join (drop 2 words) '' '', scIsMCP = True\<rparr>
           else Some \<lparr>scCommandName = hd words, scArgs = Join (drop 1 words) '' '', scIsMCP = False\<rparr>)"

definition LooksLikeCommand :: "string \<Rightarrow> bool" where
  "LooksLikeCommand commandName =
     (commandName \<noteq> [] \<and>
      list_all (\<lambda>r. is_lower r \<or> is_upper r \<or> is_digit r \<or> r = CHR '':'' \<or> r = CHR ''-'' \<or> r = CHR ''_'') commandName)"

definition wrapTag :: "string \<Rightarrow> string \<Rightarrow> string" where
  "wrapTag tag body = ''<'' @ tag @ ''>'' @ body @ ''</'' @ tag @ ''>''"

definition FormatCommandInputTags :: "string \<Rightarrow> string \<Rightarrow> string" where
  "FormatCommandInputTags commandName args =
     Join [wrapTag ''command-name'' (''/'' @ commandName), wrapTag ''command-message'' commandName,
           wrapTag ''command-args'' args] nl"

definition slashUserText :: "'w ids \<Rightarrow> string \<Rightarrow> ID \<Rightarrow> ID \<Rightarrow> bool \<Rightarrow> 'w \<Rightarrow> Message \<times> 'w" where
  "slashUserText newID body sessionID uuid meta w =
     (let (i, w') = (if uuid = [] then newID w else (uuid, w))
      in (blank_message\<lparr>msgType := MessageUser, msgUUID := i, msgSessionID := sessionID, msgIsMeta := meta,
            msgContent := [NewTextBlock body]\<rparr>, w'))"

section \<open>The texts of local commands\<close>

definition isSkillCommand :: "Command \<Rightarrow> bool" where
  "isSkillCommand cmd = (cmdType cmd = CommandPrompt \<and> cmdSource cmd \<noteq> CommandSourceBuiltin)"

definition formatCommandListLine :: "Command \<Rightarrow> string" where
  "formatCommandListLine cmd =
     (let name = ''/'' @ UserFacingName cmd; description = TrimSpace (cmdDescription cmd)
      in if description = [] then name else name @ '' - '' @ description)"

definition commandMatchesQuery :: "prog_env \<Rightarrow> Command \<Rightarrow> string \<Rightarrow> bool" where
  "commandMatchesQuery env cmd query0 =
     (let query = ToLower (genv env) (TrimSpace query0)
      in query \<noteq> [] \<and>
         list_ex (\<lambda>value. Contains (ToLower (genv env) value) query)
           ([cmdName cmd, cmdDisplayName cmd, UserFacingName cmd, cmdDescription cmd, cmdWhenToUse cmd, cmdType cmd,
             cmdSource cmd, cmdLoadedFrom cmd, cmdArgumentHint cmd] @ cmdAliases cmd))"

definition subcommandArgs :: "prog_env \<Rightarrow> string \<Rightarrow> string \<Rightarrow> string" where
  "subcommandArgs env raw0 subcommand0 =
     (let raw = TrimSpace raw0; subcommand = TrimSpace subcommand0
      in if raw = [] \<or> subcommand = [] \<or> length raw < length subcommand \<or>
            \<not> EqualFold (genv env) (take (length subcommand) raw) subcommand
         then raw else TrimSpace (drop (length subcommand) raw))"

definition searchQuery :: "prog_env \<Rightarrow> string \<Rightarrow> string option" where
  "searchQuery env raw =
     (case Fields (TrimSpace raw) of
        [] \<Rightarrow> None
      | arg # _ \<Rightarrow>
        if ToLower (genv env) arg \<in> {''search'', ''find'', ''query''}
        then Some (TrimSpace (subcommandArgs env raw arg)) else None)"

definition detailTarget :: "prog_env \<Rightarrow> string \<Rightarrow> string option" where
  "detailTarget env raw =
     (case Fields (TrimSpace raw) of
        [] \<Rightarrow> None
      | arg # args \<Rightarrow>
        if ToLower (genv env) arg \<in> {''list'', ''ls''} then None
        else if ToLower (genv env) arg \<in> {''show'', ''info'', ''detail'', ''details''}
        then (case args of
                [] \<Rightarrow> None
              | target # _ \<Rightarrow> if TrimSpace target = [] then None else Some (TrimSpace (TrimPrefix target ''/'')))
        else Some (TrimSpace (TrimPrefix arg ''/'')))"

definition sortedMapKeys :: "go_map \<Rightarrow> string list" where
  "sortedMapKeys values = sort (filter (\<lambda>key. key \<noteq> []) (map (TrimSpace \<circ> fst) values))"

definition line_if :: "bool \<Rightarrow> string \<Rightarrow> string list" where
  "line_if present line = (if present then [line] else [])"

definition formatCommandDetail :: "string \<Rightarrow> Command \<Rightarrow> string" where
  "formatCommandDetail title cmd =
     Join (concat
       [[title],
        line_if (cmdName cmd \<noteq> [] \<and> UserFacingName cmd \<noteq> cmdName cmd) (''Name: /'' @ cmdName cmd),
        [''Type: '' @ cmdType cmd],
        line_if (cmdSource cmd \<noteq> []) (''Source: '' @ cmdSource cmd),
        line_if (cmdLoadedFrom cmd \<noteq> []) (''Loaded from: '' @ cmdLoadedFrom cmd),
        line_if (cmdDescription cmd \<noteq> []) (''Description: '' @ TrimSpace (cmdDescription cmd)),
        line_if (cmdWhenToUse cmd \<noteq> []) (''When to use: '' @ TrimSpace (cmdWhenToUse cmd)),
        line_if (cmdArgumentHint cmd \<noteq> []) (''Argument hint: '' @ cmdArgumentHint cmd),
        line_if (cmdArgumentNames cmd \<noteq> []) (''Arguments: '' @ Join (cmdArgumentNames cmd) '', ''),
        line_if (cmdAliases cmd \<noteq> []) (''Aliases: '' @ Join (cmdAliases cmd) '', ''),
        line_if (cmdAllowedTools cmd \<noteq> []) (''Allowed tools: '' @ Join (cmdAllowedTools cmd) '', ''),
        line_if (cmdModel cmd \<noteq> []) (''Model: '' @ cmdModel cmd),
        line_if (cmdContext cmd \<noteq> []) (''Context: '' @ cmdContext cmd),
        line_if (cmdAgent cmd \<noteq> []) (''Agent: '' @ cmdAgent cmd),
        line_if (cmdEffort cmd \<noteq> []) (''Effort: '' @ cmdEffort cmd),
        line_if (cmdSkillRoot cmd \<noteq> []) (''Skill root: '' @ cmdSkillRoot cmd),
        line_if (cmdVersion cmd \<noteq> []) (''Version: '' @ cmdVersion cmd),
        line_if (cmdPaths cmd \<noteq> []) (''Paths: '' @ Join (cmdPaths cmd) '', ''),
        line_if (cmdAvailability cmd \<noteq> []) (''Availability: '' @ Join (cmdAvailability cmd) '', ''),
        line_if (cmdUserConfig cmd \<noteq> []) (''User config keys: '' @ Join (sortedMapKeys (cmdUserConfig cmd)) '', ''),
        line_if (cmdImmediate cmd) ''Immediate: true'',
        line_if (cmdSupportsNonInteractive cmd) ''Supports non-interactive: true'',
        line_if (cmdDisableModelInvocation cmd) ''Disable model invocation: true'',
        line_if (cmdHidden cmd) ''Hidden: true'']) nl"

definition formatHelpSearch :: "prog_env \<Rightarrow> CommandRegistry \<Rightarrow> string \<Rightarrow> string" where
  "formatHelpSearch env registry query0 =
     (let query = TrimSpace query0; matches = filter (\<lambda>cmd. commandMatchesQuery env cmd query) (Visible registry)
      in if matches = [] then ''No commands matched '' @ query @ ''.''
         else Join ([''Help search: '' @ query, ''Matches: '' @ dec (length matches)] @ map formatCommandListLine matches) nl)"

definition formatHelpText :: "prog_env \<Rightarrow> CommandRegistry \<Rightarrow> string \<Rightarrow> string" where
  "formatHelpText env registry raw =
     (case searchQuery env raw of
        Some query \<Rightarrow> if query = [] then ''Usage: /help search <query>'' else formatHelpSearch env registry query
      | None \<Rightarrow>
        (case detailTarget env raw of
           Some target \<Rightarrow>
             (case Find registry target of
                None \<Rightarrow> ''Command '' @ target @ '' was not found.''
              | Some cmd \<Rightarrow> formatCommandDetail (''Command /'' @ UserFacingName cmd) cmd)
         | None \<Rightarrow>
           if Visible registry = [] then ''No commands available.''
           else Join (''Available commands:'' # map formatCommandListLine (Visible registry)) nl))"

definition formatSkillSearch :: "prog_env \<Rightarrow> CommandRegistry \<Rightarrow> string \<Rightarrow> string" where
  "formatSkillSearch env registry query0 =
     (let query = TrimSpace query0;
          matches = filter (\<lambda>cmd. isSkillCommand cmd \<and> commandMatchesQuery env cmd query) (Visible registry)
      in if matches = [] then ''No skills matched '' @ query @ ''.''
         else Join ([''Skills search: '' @ query, ''Matches: '' @ dec (length matches)] @ map formatCommandListLine matches) nl)"

definition skill_line :: "Command \<Rightarrow> string" where
  "skill_line cmd =
     (let name = ''/'' @ UserFacingName cmd; description = TrimSpace (first_nonblank [cmdDescription cmd, cmdWhenToUse cmd])
      in if description = [] then name else name @ '' - '' @ description)"

definition formatSkillsText :: "prog_env \<Rightarrow> CommandRegistry \<Rightarrow> string \<Rightarrow> string" where
  "formatSkillsText env registry raw =
     (case searchQuery env raw of
        Some query \<Rightarrow> if query = [] then ''Usage: /skills search <query>'' else formatSkillSearch env registry query
      | None \<Rightarrow>
        (case detailTarget env raw of
           Some target \<Rightarrow>
             (case Find registry target of
                None \<Rightarrow> ''Skill '' @ target @ '' was not found.''
              | Some cmd \<Rightarrow> if \<not> isSkillCommand cmd then ''Skill '' @ target @ '' was not found.''
                            else formatCommandDetail (''Skill /'' @ UserFacingName cmd) cmd)
         | None \<Rightarrow>
           (let lines = map skill_line (filter isSkillCommand (Visible registry))
            in if lines = [] then ''No skills available.'' else ''Available skills:'' @ nl @ Join lines nl)))"

section \<open>Executing\<close>

definition deprecated_text :: string where
  "deprecated_text = ''/output-style has been deprecated. Use /config to change your output style, or set it in your settings file. Changes take effect on the next session.''"

definition local_types :: "(string \<times> LocalCommandResultType) list" where
  "local_types =
     [(''config'', LocalCommandResultConfig), (''mcp'', LocalCommandResultMCP), (''plugin'', LocalCommandResultPlugin),
      (''compact'', LocalCommandResultCompact), (''cost'', LocalCommandResultCost), (''summary'', LocalCommandResultSummary),
      (''release-notes'', LocalCommandResultRelease), (''files'', LocalCommandResultFiles), (''issue'', LocalCommandResultIssue),
      (''status'', LocalCommandResultStatus), (''model'', LocalCommandResultModel), (''resume'', LocalCommandResultResume),
      (''memory'', LocalCommandResultMemory), (''native'', LocalCommandResultNative)]"

definition ExecuteBuiltinLocalCommand :: "prog_env \<Rightarrow> CommandRegistry \<Rightarrow> Command \<Rightarrow> string \<Rightarrow> LocalCommandResult option" where
  "ExecuteBuiltinLocalCommand env registry cmd args =
     (if cmdSource cmd \<noteq> CommandSourceBuiltin then None
      else if cmdName cmd = ''help'' then Some \<lparr>lcType = LocalCommandResultText, lcValue = formatHelpText env registry args\<rparr>
      else if cmdName cmd = ''clear'' then Some \<lparr>lcType = LocalCommandResultClear, lcValue = []\<rparr>
      else if cmdName cmd = ''output-style'' then Some \<lparr>lcType = LocalCommandResultText, lcValue = deprecated_text\<rparr>
      else if cmdName cmd = ''skills'' then Some \<lparr>lcType = LocalCommandResultText, lcValue = formatSkillsText env registry args\<rparr>
      else map_option (\<lambda>t. \<lparr>lcType = t, lcValue = TrimSpace args\<rparr>) (map_of local_types (cmdName cmd)))"

text \<open>A reply that only says something: one message and no query.\<close>

definition say :: "'w ids \<Rightarrow> string \<Rightarrow> ID \<Rightarrow> ID \<Rightarrow> SlashResult \<Rightarrow> 'w \<Rightarrow> (string + SlashResult option) \<times> 'w" where
  "say newID body sessionID uuid result w =
     (case slashUserText newID body sessionID uuid False w of (m, w') \<Rightarrow>
        (Inr (Some (result\<lparr>slMessages := [m], slResultText := body\<rparr>)), w'))"

definition execute_prompt ::
  "prog_env \<Rightarrow> 'w ids \<Rightarrow> CommandRegistry \<Rightarrow> SlashCommand \<Rightarrow> Command \<Rightarrow> ID \<Rightarrow> ID \<Rightarrow> 'w \<Rightarrow> (string + SlashResult option) \<times> 'w" where
  "execute_prompt env newID registry parsed cmd sessionID uuid w =
     (case ExpandPrompt env newID registry (scCommandName parsed) (scArgs parsed) sessionID w of
        (Inl err, w1) \<Rightarrow> (Inl err, w1)
      | (Inr expanded, w1) \<Rightarrow>
        let allowedTools = ParseToolList (cmdAllowedTools cmd);
            (commandMessage, w2) = slashUserText newID (FormatCommandInputTags (cmdName cmd) (scArgs parsed)) sessionID uuid False w1;
            (attachment, w3) = CommandPermissionsAttachment newID allowedTools (cmdModel cmd) sessionID w2
        in (Inr (Some (blank_slash_result\<lparr>slCommand := cmd,
                slMessages := [commandMessage, peMessage expanded] @ (if msgType attachment \<noteq> [] then [attachment] else []),
                slShouldQuery := True, slModel := cmdModel cmd, slAllowedTools := allowedTools\<rparr>)), w3))"

definition unsupported_text :: "Command \<Rightarrow> string" where
  "unsupported_text cmd =
     ''Slash command /'' @ cmdName cmd @ '' is registered as a local command, but this runtime cannot execute it.''"

definition local_messages :: "'w ids \<Rightarrow> Command \<Rightarrow> string \<Rightarrow> LocalCommandResult \<Rightarrow> ID \<Rightarrow> ID \<Rightarrow> 'w \<Rightarrow> Message list \<times> 'w" where
  "local_messages newID cmd args local sessionID uuid w =
     (if lcType local = LocalCommandResultSkip then ([], w)
      else
        let (m, w1) = slashUserText newID (FormatCommandInputTags (cmdName cmd) args) sessionID uuid False w
        in if lcType local = LocalCommandResultText \<and> TrimSpace (lcValue local) \<noteq> []
           then (case slashUserText newID (lcValue local) sessionID [] False w1 of (m2, w2) \<Rightarrow> ([m, m2], w2))
           else ([m], w1))"

definition execute_local ::
  "prog_env \<Rightarrow> 'w ids \<Rightarrow> CommandRegistry \<Rightarrow> SlashCommand \<Rightarrow> Command \<Rightarrow> ID \<Rightarrow> ID \<Rightarrow> 'w \<Rightarrow> (string + SlashResult option) \<times> 'w" where
  "execute_local env newID registry parsed cmd sessionID uuid w =
     (let args = (if cmdSensitive cmd \<and> TrimSpace (scArgs parsed) \<noteq> [] then ''***'' else scArgs parsed)
      in case ExecuteBuiltinLocalCommand env registry cmd (scArgs parsed) of
           Some local \<Rightarrow>
             (case local_messages newID cmd args local sessionID uuid w of (messages, w') \<Rightarrow>
                (Inr (Some (blank_slash_result\<lparr>slCommand := cmd, slMessages := messages, slResultText := lcValue local,
                   slLocalResult := Some local\<rparr>)), w'))
         | None \<Rightarrow>
             let (m, w1) = slashUserText newID (FormatCommandInputTags (cmdName cmd) args) sessionID uuid False w;
                 (m2, w2) = slashUserText newID (wrapTag ''local-command-stderr'' (unsupported_text cmd)) sessionID [] False w1
             in (Inr (Some (blank_slash_result\<lparr>slCommand := cmd, slMessages := [m, m2],
                   slResultText := unsupported_text cmd, slUnsupported := True\<rparr>)), w2))"

text \<open>An error, a result, or \<open>None\<close> for a line that is no command and is sent as it is.\<close>

definition ExecuteSlashCommand ::
  "prog_env \<Rightarrow> 'w ids \<Rightarrow> CommandRegistry \<Rightarrow> string \<Rightarrow> ID \<Rightarrow> ID \<Rightarrow> 'w \<Rightarrow> (string + SlashResult option) \<times> 'w" where
  "ExecuteSlashCommand env newID registry input sessionID uuid w =
     (case ParseSlashCommand input of
        None \<Rightarrow> if IsSlashInput input
                then say newID ''Commands are in the form `/command [args]`'' sessionID uuid blank_slash_result w
                else (Inr None, w)
      | Some parsed \<Rightarrow>
        (case Find registry (scCommandName parsed) of
           None \<Rightarrow>
             if \<not> LooksLikeCommand (scCommandName parsed) then (Inr None, w)
             else say newID (''Unknown skill: '' @ scCommandName parsed) sessionID uuid (blank_slash_result\<lparr>slUnknown := True\<rparr>) w
         | Some cmd \<Rightarrow>
           if cmdType cmd = CommandPrompt \<and> cmdHidden cmd
           then say newID (''This skill can only be invoked by Claude, not directly by users. Ask Claude to use the '' @
                    Quote (genv env) (scCommandName parsed) @ '' skill for you.'') sessionID uuid
                  (blank_slash_result\<lparr>slCommand := cmd\<rparr>) w
           else if cmdType cmd = CommandPrompt then execute_prompt env newID registry parsed cmd sessionID uuid w
           else if cmdType cmd = CommandLocal \<or> cmdType cmd = CommandLocalJSX
           then execute_local env newID registry parsed cmd sessionID uuid w
           else (Inl (''unsupported slash command type '' @ Quote (genv env) (cmdType cmd)), w)))"

end
