(* ===== verification/TurnTypes.thy ===== *)
theory TurnTypes
  imports Budget DeferredTools Slash
begin

text \<open>
  The data of a turn, \<open>internal/conversation/types.go\<close>: the runner, its events and its result, and
  the effects of a turn.

  What a turn changes is \<open>turn_state\<close>: the runner's model, what its fields \<open>AutoCompact\<close> and
  \<open>ContentBudget\<close> point to, and the world. What other parts of the program and the outside do in a turn
  is the record \<open>services\<close>. An event is an action, whatever its listener and the telemetry make of it;
  so are the calls to the model for an answer (with it, when there is one) and for a summary, the calls
  to hooks, the records written to the transcript, and the runs of tools. Durations are left out.
\<close>

record TokenWarning =
  twTokenUsage :: int
  twWindow :: WindowConfig
  twState :: WarningState

record RetryInfo =
  riAttempt :: nat
  riMaxAttempts :: nat
  riFailedModel :: string
  riNextModel :: string
  riFallback :: bool

datatype Event =
  EventUserMessage Message
| EventAssistantMessage Message string
| EventToolUse ToolUse
| EventToolResult Message ToolResult
| EventToolProgress ToolProgress
| EventRetry string call_error RetryInfo
| EventTokenWarning TokenWarning
| EventCompact CompactResult "call_error option"
| EventStreamEvent StreamEvent string
| EventDeferredPoolChange DeferredToolsPoolChange
| EventToolSearchDecision toolSearchDecision

datatype turn_action =
  Emitted Event
| Requested ApiRequest "Response option"
| Summarized CompactResult "call_error option"
| HookAsked HookEvent "string + HookResult"
| Recorded Message bool
| RecordedPlan Plan bool
| Ran "decider option" "ToolUse list" "MessageUpdate list"

section \<open>The runner\<close>

text \<open>A client that does not stream has no \<open>mcStreamMessages\<close>. The state of the handler of a stream is
  the events it has seen and the accumulator.\<close>

type_synonym stream_state = "StreamEvent list \<times> StreamAccumulator"

record 'w MessageClient =
  mcCreateMessage :: "ApiRequest \<Rightarrow> 'w \<Rightarrow> (call_error + Response) \<times> 'w"
  mcStreamMessages :: "(ApiRequest \<Rightarrow> (StreamEvent \<Rightarrow> stream_state \<Rightarrow> string option \<times> stream_state) \<Rightarrow> stream_state \<Rightarrow>
    'w \<Rightarrow> (call_error option \<times> stream_state) \<times> 'w) option"

text \<open>The client of \<open>internal/api/anthropic\<close>.\<close>

definition anthropic_client :: "'w Client \<Rightarrow> 'w MessageClient" where
  "anthropic_client c =
     \<lparr>mcCreateMessage = (\<lambda>request w. case CreateMessage c request w of (r, _, w') \<Rightarrow> (r, w')),
      mcStreamMessages = Some (\<lambda>request handle s w. case StreamMessages c request handle s w of (r, _, w') \<Rightarrow> (r, w'))\<rparr>"

record 'w Runner =
  rnClient :: "'w MessageClient option"
  rnTools :: "'w Executor"
  rnPermissions :: "decider option"
  rnModel :: string
  rnFallbackModels :: "string list"
  rnMaxTokens :: int
  rnMaxToolRounds :: int
  rnUseStreaming :: bool
  rnSessionID :: ID
  rnSessionPath :: string
  rnWorkingDirectory :: string
  rnContentBudgetDir :: string
  rnContentBudgetMax :: int
  rnSkipBudgetTools :: "string list"
  rnCompactClient :: "'w MessageClient option"
  rnCompactMaxTokens :: int

definition maxTokens :: "'w Runner \<Rightarrow> int" where
  "maxTokens r = (if rnMaxTokens r > 0 then rnMaxTokens r else 4096)"

definition runner_model :: "'w Runner \<Rightarrow> string" where
  "runner_model r = (if rnModel r \<noteq> [] then rnModel r else ''sonnet'')"

definition maxToolRounds :: "'w Runner \<Rightarrow> int" where
  "maxToolRounds r = (if rnMaxToolRounds r > 0 then rnMaxToolRounds r else 8)"

record Result =
  rsMessages :: "Message list"
  rsAssistant :: Message
  rsToolResults :: "ToolResult list"
  rsStopReason :: string
  rsUsage :: Usage
  rsFinalRequest :: "ApiRequest option"
  rsModelsAttempt :: "string list"
  rsCompacted :: bool
  rsCompact :: "CompactResult option"
  rsCleared :: bool

definition blank_result :: Result where
  "blank_result =
     \<lparr>rsMessages = [], rsAssistant = blank_message, rsToolResults = [], rsStopReason = [], rsUsage = zero_usage,
      rsFinalRequest = None, rsModelsAttempt = [], rsCompacted = False, rsCompact = None, rsCleared = False\<rparr>"

section \<open>The effects of a turn\<close>

record 'w turn_state =
  tsModel :: string
  tsAutoCompact :: "AutoConfig option"
  tsContentBudget :: "ContentReplacementState option"
  tsWorld :: 'w

type_synonym ('w, 'a) turn = "('w turn_state, turn_action, 'a) effects"

definition in_world :: "('w \<Rightarrow> 'a \<times> 'w) \<Rightarrow> 'w turn_state \<Rightarrow> 'a \<times> 'w turn_state" where
  "in_world g s = (case g (tsWorld s) of (x, w) \<Rightarrow> (x, s\<lparr>tsWorld := w\<rparr>))"

abbreviation outside :: "('w \<Rightarrow> 'a \<times> 'w) \<Rightarrow> ('w, 'a) turn" where
  "outside g \<equiv> quietly (in_world g)"

abbreviation look_outside :: "('w \<Rightarrow> 'a) \<Rightarrow> ('w, 'a) turn" where
  "look_outside g \<equiv> look (\<lambda>s. g (tsWorld s))"

abbreviation set_state :: "('w turn_state \<Rightarrow> 'w turn_state) \<Rightarrow> ('w, unit) turn" where
  "set_state f \<equiv> quietly (\<lambda>s. ((), f s))"

abbreviation emit :: "Event \<Rightarrow> ('w, unit) turn" where
  "emit event \<equiv> act (Emitted event)"

text \<open>\<open>if err != nil { return value, err }\<close>.\<close>

definition or_return :: "'r \<Rightarrow> ('w, call_error + 'a) turn \<Rightarrow> ('w, ('r \<times> call_error option) + 'a) turn" where
  "or_return value m = then_p m (\<lambda>r. done_p (case r of Inl err \<Rightarrow> Inl (value, Some err) | Inr x \<Rightarrow> Inr x))"

definition unless_error :: "('w, call_error option) turn \<Rightarrow> ('w, call_error + unit) turn" where
  "unless_error m = then_p m (\<lambda>err. done_p (case err of Some e \<Rightarrow> Inl e | None \<Rightarrow> Inr ()))"

text \<open>How memories are recalled into a history.\<close>

type_synonym 'w recall = "Message list \<Rightarrow> 'w \<Rightarrow> (call_error + Message list) \<times> 'w"

text \<open>
  \<open>svSources\<close>: fresh IDs and the time. \<open>svRefresh\<close>: what a turn first brings up to date (settings,
  policies, manifests, language servers). \<open>svCommands\<close>: \<open>commands.Load\<close>. \<open>svHooks\<close>: the hooks of the
  merged settings and of plugins. \<open>svMarshal\<close>: JSON of a hook's payload. \<open>svMCPTools\<close> and
  \<open>svAdvancedTools\<close>: the executor with the tools of MCP servers, and how to close them, and with the
  tools that the settings ask for. \<open>svSchedules\<close>: due schedules. \<open>svRecall\<close>: the recall of memories;
  \<open>svPrefetched\<close>: the same from the prefetch that a turn starts with its history, when it is awaited. \<open>svCountTokens\<close>: the count of the tokens of
  definitions, for which the client may be asked: such a request is no action. \<open>svRunTools\<close>: one run of
  tools, as \<open>RunTools\<close> allows it. \<open>svSubagent\<close>: what the run of a subagent makes of a result. That is a
  whole run of a runner of its own, whose requests and runs of tools are no actions of the turn. The rest writes to the session.
\<close>

record 'w services =
  svEnv :: prog_env
  svSystem :: "'w system"
  svSources :: "'w sources"
  svContext :: "'w \<Rightarrow> string option"
  svRefresh :: "'w \<Rightarrow> unit \<times> 'w"
  svCommands :: "'w \<Rightarrow> CommandRegistry"
  svHooks :: "'w \<Rightarrow> 'w Hook option list"
  svMarshal :: "go_map \<Rightarrow> string + raw_message"
  svMetadata :: "'w \<Rightarrow> Metadata"
  svLocalText :: "LocalCommandResult \<Rightarrow> Message list \<Rightarrow> 'w \<Rightarrow> (call_error + string) \<times> 'w"
  svMCPTools :: "'w Executor \<Rightarrow> 'w \<Rightarrow> (call_error + 'w Executor \<times> ('w \<Rightarrow> unit \<times> 'w)) \<times> 'w"
  svAdvancedTools :: "'w Executor \<Rightarrow> 'w \<Rightarrow> (call_error + 'w Executor) \<times> 'w"
  svSchedules :: "'w \<Rightarrow> unit \<times> 'w"
  svRecall :: "'w recall"
  svPrefetched :: "Message list \<Rightarrow> 'w \<Rightarrow> (call_error + 'w recall) \<times> 'w"
  svDeltaEnabled :: "'w \<Rightarrow> bool"
  svSystemPrompt :: "'w \<Rightarrow> string"
  svCountTokens :: "string \<Rightarrow> 'w \<Rightarrow> ToolDefinition list \<Rightarrow> int option"
  svRunTools :: "'w Executor \<Rightarrow> 'w Context \<Rightarrow> ToolUse list \<Rightarrow> 'w \<Rightarrow> MessageUpdate list \<times> 'w"
  svSubagent :: "ToolUse \<Rightarrow> ToolResult \<Rightarrow> 'w \<Rightarrow> ToolResult \<times> 'w"
  svExtractMemory :: "string \<Rightarrow> Message list \<Rightarrow> 'w \<Rightarrow> call_error option \<times> 'w"
  svAppendTranscript :: "Message \<Rightarrow> 'w \<Rightarrow> call_error option \<times> 'w"
  svAppendCompact :: "Plan \<Rightarrow> 'w \<Rightarrow> call_error option \<times> 'w"
  svAppendReplacements :: "ContentReplacementRecord list \<Rightarrow> 'w \<Rightarrow> call_error option \<times> 'w"
  svWriteOnce :: "string \<Rightarrow> string \<Rightarrow> 'w \<Rightarrow> bool \<times> 'w"

abbreviation newID :: "'w services \<Rightarrow> 'w ids" where "newID sv \<equiv> srcNewID (svSources sv)"

definition appendTranscript :: "'w services \<Rightarrow> 'w Runner \<Rightarrow> Message \<Rightarrow> ('w, call_error option) turn" where
  "appendTranscript sv r message =
     (if rnSessionPath r = [] then done_p None
      else ask_world (in_world (svAppendTranscript sv message)) (\<lambda>err. Recorded message (err = None)))"

text \<open>The record of a compaction also goes to the session's memory, so it is asked for in any case.\<close>

definition appendCompactTranscript :: "'w services \<Rightarrow> Plan \<Rightarrow> ('w, call_error option) turn" where
  "appendCompactTranscript sv plan =
     ask_world (in_world (svAppendCompact sv plan)) (\<lambda>err. RecordedPlan plan (err = None))"

end
