(* ===== verification/ConvHooks.thy ===== *)
theory ConvHooks
  imports TurnTypes
begin

text \<open>
  The hooks of a conversation, \<open>internal/conversation/hooks.go\<close>: when the user submits a prompt, before
  a compaction, and when a turn stops.

  A hook's event carries its payload as the JSON input.
\<close>

definition emitConversationHookProgress :: "string \<Rightarrow> nat \<Rightarrow> string \<Rightarrow> go_map \<Rightarrow> ('w, unit) turn" where
  "emitConversationHookProgress phase index progressType data =
     emit (EventToolProgress
       \<lparr>prgToolUseID = ''hook_'' @ phase, prgType = progressType,
        prgData = set_key ''scope'' (AnyString ''conversation'')
          (set_key ''hook_index'' (AnyInt (int index)) (set_key ''phase'' (AnyString phase) data))\<rparr>)"

definition conversationHooksForPhase :: "'w Hook option list \<Rightarrow> string \<Rightarrow> 'w Hook list" where
  "conversationHooksForPhase hooks phase =
     filter (\<lambda>hook. case hookPhases hook of None \<Rightarrow> True | Some phases \<Rightarrow> phase \<in> set phases)
       (List.map_filter id hooks)"

definition hook_context :: "'w services \<Rightarrow> 'w Runner \<Rightarrow> Metadata \<Rightarrow> 'w Context" where
  "hook_context sv r metadata =
     \<lparr>cxContext = Some (svContext sv), cxWorkingDirectory = rnWorkingDirectory r, cxSessionID = rnSessionID r,
      cxPermissions = None, cxMetadata = metadata\<rparr>"

definition conversation_hook_event :: "string \<Rightarrow> raw_message \<Rightarrow> HookEvent" where
  "conversation_hook_event phase input =
     \<lparr>evPhase = phase, evToolUse = \<lparr>useID = [], useName = [], useInput = no_input\<rparr>, evToolName = [], evInput = input,
      evDecision = None, evResult = None, evError = []\<rparr>"

definition no_hook_result :: HookResult where
  "no_hook_result =
     \<lparr>hrBlock = False, hrMessage = [], hrUpdatedInput = no_input, hrPermissionDecision = None, hrMetadata = []\<rparr>"

text \<open>\<open>combined\<close> and the messages so far.\<close>

fun hooks_loop ::
  "'w Context \<Rightarrow> HookEvent \<Rightarrow> nat \<Rightarrow> 'w Hook list \<Rightarrow> HookResult \<Rightarrow> string list \<Rightarrow> ('w, string + HookResult) turn" where
  "hooks_loop cx event idx [] combined messages = done_p (Inr (combined\<lparr>hrMessage := Join messages nl\<rparr>))"
| "hooks_loop cx event idx (hook # hooks) combined messages =
     then_p (emitConversationHookProgress (evPhase event) idx ''hook_started'' []) (\<lambda>_.
     then_p (ask_world (in_world (RunToolHook hook cx event)) (HookAsked event)) (\<lambda>r.
       case r of
         Inl err \<Rightarrow>
           then_p (emitConversationHookProgress (evPhase event) idx ''hook_failed'' [(''error'', AnyString err)]) (\<lambda>_.
           done_p (Inl err))
       | Inr result \<Rightarrow>
           let combined = (if hrMetadata result \<noteq> []
                 then combined\<lparr>hrMetadata := set_key (''hook_'' @ dec idx) (AnyMap (hrMetadata result)) (hrMetadata combined)\<rparr>
                 else combined);
               messages = (if TrimSpace (hrMessage result) \<noteq> [] then messages @ [TrimSpace (hrMessage result)] else messages)
           in if hrBlock result
              then let combined = combined\<lparr>hrBlock := True, hrMessage := Join messages nl\<rparr>
                   in then_p (emitConversationHookProgress (evPhase event) idx ''hook_blocked''
                              [(''message'', AnyString (hrMessage combined))]) (\<lambda>_.
                      done_p (Inr combined))
              else then_p (emitConversationHookProgress (evPhase event) idx ''hook_completed''
                            (if hrMessage result \<noteq> [] then [(''message'', AnyString (hrMessage result))] else [])) (\<lambda>_.
                   hooks_loop cx event (Suc idx) hooks combined messages)))"

definition runConversationHooks :: "'w services \<Rightarrow> 'w Runner \<Rightarrow> string \<Rightarrow> go_map \<Rightarrow> ('w, string + HookResult) turn" where
  "runConversationHooks sv r phase payload =
     then_p (look_outside (\<lambda>w. (conversationHooksForPhase (svHooks sv w) phase, svMetadata sv w))) (\<lambda>(hooks, metadata).
       if hooks = [] then done_p (Inr no_hook_result)
       else case svMarshal sv payload of
              Inl err \<Rightarrow> done_p (Inl err)
            | Inr input \<Rightarrow>
              hooks_loop (hook_context sv r metadata) (conversation_hook_event phase input) 0 hooks no_hook_result [])"

section \<open>Submitting a prompt\<close>

fun prompt_text_loop :: "Message list \<Rightarrow> string" where
  "prompt_text_loop [] = []"
| "prompt_text_loop (m # ms) =
     (if msgType m = MessageUser \<and> TrimSpace (TextContent m) \<noteq> [] then TextContent m else prompt_text_loop ms)"

definition userPromptText :: "Message list \<Rightarrow> string" where
  "userPromptText messages = prompt_text_loop (rev messages)"

fun add_context :: "string \<Rightarrow> ContentBlock list \<Rightarrow> ContentBlock list" where
  "add_context contextText [] = [NewTextBlock contextText]"
| "add_context contextText (b # bs) =
     (if blockType b = ContentText then with_text (TrimRight (blockText b) nl @ nl @ nl @ contextText) b # bs
      else b # add_context contextText bs)"

text \<open>The messages from the last one back.\<close>

fun context_loop :: "string \<Rightarrow> Message list \<Rightarrow> Message list" where
  "context_loop contextText [] = []"
| "context_loop contextText (m # ms) =
     (if msgType m \<noteq> MessageUser then m # context_loop contextText ms
      else m\<lparr>msgContent := add_context contextText (msgContent m)\<rparr> # ms)"

definition appendUserPromptContext :: "Message list \<Rightarrow> string \<Rightarrow> Message list" where
  "appendUserPromptContext messages contextText =
     (if TrimSpace contextText = [] then messages else rev (context_loop (TrimSpace contextText) (rev messages)))"

text \<open>The messages, or the text with which the prompt is blocked.\<close>

definition applyUserPromptSubmitHooks ::
  "'w services \<Rightarrow> 'w Runner \<Rightarrow> Message list \<Rightarrow> ('w, call_error + Message list \<times> string option) turn" where
  "applyUserPromptSubmitHooks sv r messages =
     (if TrimSpace (userPromptText messages) = [] then done_p (Inr (messages, None))
      else
        then_p (runConversationHooks sv r ''UserPromptSubmit'' [(''prompt'', AnyString (userPromptText messages))]) (\<lambda>result.
          done_p (case result of
              Inl err \<Rightarrow> Inl (plain_error err)
            | Inr result \<Rightarrow>
              if hrBlock result
              then Inr (messages, Some (if TrimSpace (hrMessage result) = [] then ''blocked by UserPromptSubmit hook''
                                        else hrMessage result))
              else if TrimSpace (hrMessage result) \<noteq> []
              then Inr (appendUserPromptContext messages (hrMessage result), None)
              else Inr (messages, None))))"

section \<open>Stopping and compacting\<close>

definition stop_error :: "string \<Rightarrow> string + HookResult \<Rightarrow> call_error option" where
  "stop_error otherwise result =
     (case result of
        Inl err \<Rightarrow> Some (plain_error err)
      | Inr result \<Rightarrow>
        if hrBlock result
        then Some (plain_error (if TrimSpace (hrMessage result) = [] then otherwise else hrMessage result))
        else None)"

definition runStopHooks ::
  "'w services \<Rightarrow> 'w Runner \<Rightarrow> Response \<Rightarrow> Message \<Rightarrow> ('w, call_error option) turn" where
  "runStopHooks sv r response assistant =
     then_p (runConversationHooks sv r ''Stop''
         [(''model'', AnyString (respModel response)), (''stop_reason'', AnyString (respStopReason response)),
          (''stop_sequence'', AnyString (respStopSequence response)), (''assistant_text'', AnyString (TextContent assistant)),
          (''message_id'', AnyString (msgID assistant)), (''message_uuid'', AnyString (msgUUID assistant))]) (\<lambda>result.
       done_p (stop_error ''blocked by Stop hook'' result))"

definition runSubagentStopHooks :: "'w services \<Rightarrow> 'w Runner \<Rightarrow> go_map \<Rightarrow> ('w, call_error option) turn" where
  "runSubagentStopHooks sv r payload =
     then_p (runConversationHooks sv r ''SubagentStop'' payload) (\<lambda>result.
       done_p (stop_error ''blocked by SubagentStop hook'' result))"

text \<open>The instructions that the hooks add, and whether they block.\<close>

definition runPreCompactHooks ::
  "'w services \<Rightarrow> 'w Runner \<Rightarrow> string \<Rightarrow> int \<Rightarrow> nat \<Rightarrow> string \<Rightarrow> string \<Rightarrow> ('w, string + string \<times> bool) turn" where
  "runPreCompactHooks sv r trigger tokenUsage messageCount userContext extraInstructions =
     then_p (runConversationHooks sv r ''PreCompact''
         [(''trigger'', AnyString trigger), (''token_usage'', AnyInt tokenUsage),
          (''message_count'', AnyInt (int messageCount)), (''user_context'', AnyString userContext),
          (''extra_instructions'', AnyString extraInstructions), (''custom_instructions'', AnyString userContext)]) (\<lambda>result.
       done_p (case result of Inl err \<Rightarrow> Inl err | Inr result \<Rightarrow> Inr (hrMessage result, hrBlock result)))"

definition appendHookInstructions :: "string \<Rightarrow> string \<Rightarrow> string" where
  "appendHookInstructions base extra =
     (if TrimSpace base = [] then TrimSpace extra
      else if TrimSpace extra = [] then TrimSpace base
      else TrimSpace base @ nl @ nl @ TrimSpace extra)"

end
