(* ===== verification/Turn.thy ===== *)
theory Turn
  imports ConvHooks
begin

text \<open>
  One turn of the conversation, \<open>internal/conversation/run.go\<close> with \<open>buildRequest\<close> of \<open>request.go\<close>
  and \<open>maybeAppendDeferredToolsDeltaAttachment\<close> of \<open>deferred_tools_delta.go\<close>: the user's message or
  command, the requests to the model with their fallbacks, and the rounds of tool uses.

  The updates of a run of tools are handled when the run has ended. The index of a streamed event is
  not negative (it would be a panic). Counting tokens only looks at the world. The calls of a run of
  tools share one map of metadata in the code, which a call may change for the next: here a context
  has its metadata fixed.
\<close>

section \<open>Requests\<close>

definition toolPromptContext :: "'w Runner \<Rightarrow> Metadata \<Rightarrow> PromptContext" where
  "toolPromptContext r metadata =
     \<lparr>pcModel = runner_model r, pcWorkingDirectory = rnWorkingDirectory r, pcMetadata = metadata\<rparr>"

text \<open>The definitions of the tools; \<open>None\<close> without a registry.\<close>

definition definitions_of :: "'w services \<Rightarrow> 'w Runner \<Rightarrow> ('w, call_error + ToolDefinition list option) turn" where
  "definitions_of sv r =
     (case exRegistry (rnTools r) of
        None \<Rightarrow> done_p (Inr None)
      | Some registry \<Rightarrow>
        then_p (look_outside (svMetadata sv)) (\<lambda>metadata.
          done_p (case Definitions (toolPromptContext r metadata) registry of
                    Inl err \<Rightarrow> Inl (plain_error err) | Inr defs \<Rightarrow> Inr (Some defs))))"

text \<open>The tools of a request: the definitions, the deferred names, and whether tool search is active.\<close>

definition request_tools ::
  "'w services \<Rightarrow> 'w Runner \<Rightarrow> string \<Rightarrow> Message list \<Rightarrow> ('w, call_error + ToolDefinition list \<times> string list \<times> bool) turn" where
  "request_tools sv r model history =
     then_e (definitions_of sv r) (\<lambda>defs.
       case defs of
         None \<Rightarrow> done_p (Inr ([], [], False))
       | Some defs \<Rightarrow>
         then_p (look_outside (svCountTokens sv model)) (\<lambda>counter.
           let decision = toolSearchDecisionForRequest (svEnv sv) model defs counter
           in then_p (emit (EventToolSearchDecision decision)) (\<lambda>_.
              done_p (Inr (filterToolSearchDefinitionsWithDecision (svEnv sv) defs history (tsEnabled decision))))))"

text \<open>\<open>recall\<close> adds the memories of the session, of the prefetch or of the folder to the history.\<close>

definition buildRequest ::
  "'w services \<Rightarrow> 'w Runner \<Rightarrow> (Message list \<Rightarrow> 'w \<Rightarrow> (call_error + Message list) \<times> 'w) \<Rightarrow> Message list \<Rightarrow> string \<Rightarrow>
   ('w, call_error + ApiRequest) turn" where
  "buildRequest sv r recall history model =
     then_e (outside (recall history)) (\<lambda>history.
     then_e (request_tools sv r model history) (\<lambda>(definitions, deferredToolNames, toolSearchActive).
     then_p (look_outside (\<lambda>w. (svDeltaEnabled sv w, svSystemPrompt sv w))) (\<lambda>(deltaEnabled, system).
       let apiMessages = NormalizeForAPI history;
           apiMessages = (if \<not> toolSearchActive then stripToolReferenceBlocksFromAPIMessages apiMessages else apiMessages);
           apiMessages = (if deferredToolNames \<noteq> [] \<and> \<not> deltaEnabled
                          then prependAvailableDeferredToolsMessage apiMessages deferredToolNames else apiMessages)
       in done_p (Inr \<lparr>reqModel = model, reqMaxTokens = maxTokens r, reqMessages = apiMessages, reqSystem = system,
            reqTools = ToolsFromContracts definitions, reqThinking = None, reqStream = False\<rparr>))))"

definition budget_options :: "'w Runner \<Rightarrow> ToolResultBudgetOptions" where
  "budget_options r =
     \<lparr>LimitChars = rnContentBudgetMax r,
      StoreDir = (if rnContentBudgetDir r = [] \<and> rnSessionPath r \<noteq> [] \<and> rnSessionID r \<noteq> []
                  then JoinPath [Dir (rnSessionPath r), rnSessionID r, ''tool-results''] else rnContentBudgetDir r),
      SkipToolNames = rnSkipBudgetTools r\<rparr>"

definition applyToolResultBudget :: "'w services \<Rightarrow> 'w Runner \<Rightarrow> Message list \<Rightarrow> ('w, call_error + Message list) turn" where
  "applyToolResultBudget sv r history =
     then_p (look tsContentBudget) (\<lambda>budget.
       case budget of
         None \<Rightarrow> done_p (Inr history)
       | Some state \<Rightarrow>
         then_p (outside (ApplyToolResultBudget (svEnv sv) (svWriteOnce sv) (budget_options r) history state)) (\<lambda>(updated, records, state).
         then_p (set_state (\<lambda>s. s\<lparr>tsContentBudget := Some state\<rparr>)) (\<lambda>_.
           if records \<noteq> [] \<and> rnSessionPath r \<noteq> []
           then then_e (unless_error (outside (svAppendReplacements sv records))) (\<lambda>_. done_p (Inr updated))
           else done_p (Inr updated))))"

section \<open>Answers\<close>

definition isFallbackEligible :: "prog_env \<Rightarrow> call_error \<Rightarrow> bool" where
  "isFallbackEligible env err = (case ceAPI err of Some apiErr \<Rightarrow> ShouldRetryAPIError env apiErr | None \<Rightarrow> False)"

text \<open>One call of the client, and the answer that it gave.\<close>

definition answer_of :: "call_error + Response \<Rightarrow> Response option" where
  "answer_of r = (case r of Inl _ \<Rightarrow> None | Inr response \<Rightarrow> Some response)"

definition call_client :: "'w MessageClient \<Rightarrow> ApiRequest \<Rightarrow> ('w, call_error + Response) turn" where
  "call_client client request =
     ask_world (in_world (mcCreateMessage client request)) (\<lambda>r. Requested request (answer_of r))"

definition handle_event :: "prog_env \<Rightarrow> StreamEvent \<Rightarrow> stream_state \<Rightarrow> string option \<times> stream_state" where
  "handle_event env event = (\<lambda>(seen, acc).
     (None, (seen @ [event], case Add env event acc of Some acc \<Rightarrow> acc | None \<Rightarrow> acc)))"

fun emit_stream :: "string \<Rightarrow> StreamEvent list \<Rightarrow> ('w, unit) turn" where
  "emit_stream model [] = done_p ()"
| "emit_stream model (event # events) = then_p (emit (EventStreamEvent event model)) (\<lambda>_. emit_stream model events)"

definition createMessage :: "'w services \<Rightarrow> 'w Runner \<Rightarrow> 'w MessageClient \<Rightarrow> ApiRequest \<Rightarrow> ('w, call_error + Response) turn" where
  "createMessage sv r client request =
     (case (rnUseStreaming r, mcStreamMessages client) of
        (True, Some stream) \<Rightarrow>
          let streamRequest = request\<lparr>reqStream := True\<rparr>
          in then_p (ask_world (in_world (stream streamRequest (handle_event (svEnv sv)) ([], NewStreamAccumulator)))
                       (\<lambda>(err, _, acc). Requested streamRequest (if err = None then Some (Finish (svEnv sv) acc) else None))) (\<lambda>(err, events, acc).
             then_p (emit_stream (reqModel streamRequest) events) (\<lambda>_.
               case err of
                 None \<Rightarrow> done_p (Inr (Finish (svEnv sv) acc))
               | Some e \<Rightarrow> if events = [] then call_client client (request\<lparr>reqStream := False\<rparr>) else done_p (Inl e)))
      | _ \<Rightarrow> call_client client request)"

text \<open>The attempts with one model after the other: the last request, the models tried, and the answer.\<close>

fun send_loop ::
  "'w services \<Rightarrow> 'w Runner \<Rightarrow> 'w MessageClient \<Rightarrow> (Message list \<Rightarrow> 'w \<Rightarrow> (call_error + Message list) \<times> 'w) \<Rightarrow> Message list \<Rightarrow>
   string list \<Rightarrow> string \<Rightarrow> string list \<Rightarrow> ('w, ApiRequest option \<times> string list \<times> (call_error + Response)) turn" where
  "send_loop sv r client recall history attempts model rest =
     then_p (then_e (applyToolResultBudget sv r history) (\<lambda>h. buildRequest sv r recall h model)) (\<lambda>built.
       case built of
         Inl err \<Rightarrow> done_p (None, attempts, Inl err)
       | Inr request \<Rightarrow>
         then_p (createMessage sv r client request) (\<lambda>answer.
           case answer of
             Inr response \<Rightarrow> done_p (Some request, attempts @ [model], Inr response)
           | Inl err \<Rightarrow>
             (case rest of
                [] \<Rightarrow> done_p (Some request, attempts @ [model], Inl err)
              | next # rest' \<Rightarrow>
                if \<not> isFallbackEligible (svEnv sv) err then done_p (Some request, attempts @ [model], Inl err)
                else then_p (emit (EventRetry model err
                         \<lparr>riAttempt = Suc (length attempts), riMaxAttempts = length attempts + 1 + length rest,
                          riFailedModel = model, riNextModel = next, riFallback = True\<rparr>)) (\<lambda>_.
                       send_loop sv r client recall history (attempts @ [model]) next rest'))))"

declare send_loop.simps [simp del]

text \<open>\<open>await\<close> waits for the prefetch, when there is one.\<close>

definition send ::
  "'w services \<Rightarrow> 'w Runner \<Rightarrow> 'w MessageClient \<Rightarrow> ('w \<Rightarrow> (call_error + 'w recall) \<times> 'w) \<Rightarrow> Message list \<Rightarrow>
   ('w, ApiRequest option \<times> string list \<times> (call_error + Response)) turn" where
  "send sv r client await history =
     then_p (outside await) (\<lambda>relevantMemory.
       case relevantMemory of
         Inl err \<Rightarrow> done_p (None, [], Inl err)
       | Inr recall \<Rightarrow> send_loop sv r client recall history [] (runner_model r) (rnFallbackModels r))"

section \<open>Tool uses\<close>

fun emit_uses :: "ToolUse list \<Rightarrow> ('w, unit) turn" where
  "emit_uses [] = done_p ()"
| "emit_uses (use # uses) = then_p (emit (EventToolUse use)) (\<lambda>_. emit_uses uses)"

definition tool_context :: "'w services \<Rightarrow> 'w Runner \<Rightarrow> Metadata \<Rightarrow> Message list \<Rightarrow> 'w Context" where
  "tool_context sv r metadata turnMessages =
     \<lparr>cxContext = Some (svContext sv), cxWorkingDirectory = rnWorkingDirectory r, cxSessionID = rnSessionID r,
      cxPermissions = permissionsForTurn (rnPermissions r) turnMessages,
      cxMetadata = metadata\<lparr>mdMessages := Some turnMessages\<rparr>\<rparr>"

definition in_session :: "'w Runner \<Rightarrow> Message \<Rightarrow> Message" where
  "in_session r m = (if rnSessionID r \<noteq> [] then m\<lparr>msgSessionID := rnSessionID r\<rparr> else m)"

definition complete_message :: "'w services \<Rightarrow> 'w Runner \<Rightarrow> Message \<Rightarrow> 'w \<Rightarrow> Message \<times> 'w" where
  "complete_message sv r m w =
     (let m = (if msgType m = [] then m\<lparr>msgType := MessageUser\<rparr> else m)
      in case with_uuid (newID sv) m w of (m, w') \<Rightarrow>
           (if msgSessionID m = [] then in_session r m else m, w'))"

fun new_messages :: "'w services \<Rightarrow> 'w Runner \<Rightarrow> Message list \<Rightarrow> ('w, Message list) turn" where
  "new_messages sv r [] = done_p []"
| "new_messages sv r (m # ms) =
     then_p (outside (complete_message sv r m)) (\<lambda>m.
     then_p (emit (EventUserMessage m)) (\<lambda>_.
     then_p (new_messages sv r ms) (\<lambda>rest. done_p (m # rest))))"

definition update_result :: "MessageUpdate \<Rightarrow> ToolResult" where
  "update_result update =
     (case updErr update of
        Some err \<Rightarrow> if resContent (updResult update) = AnyNil then ErrorResult (updToolUse update) err else updResult update
      | None \<Rightarrow> updResult update)"

text \<open>The messages and the result of one update.\<close>

definition handle_update :: "'w services \<Rightarrow> 'w Runner \<Rightarrow> MessageUpdate \<Rightarrow> ('w, Message list \<times> ToolResult) turn" where
  "handle_update sv r update =
     then_p (outside (svSubagent sv (updToolUse update) (update_result update))) (\<lambda>result.
     then_p (outside (ToolResultMessage (newID sv) (useID (updToolUse update)) (resContent result) (resIsError result))) (\<lambda>message.
       let message = in_session r message
       in then_p (emit (EventToolResult message result)) (\<lambda>_.
          then_p (if resIsError result then done_p [] else new_messages sv r (resNewMessages result)) (\<lambda>ms.
          done_p (message # ms, result)))))"

fun handle_updates :: "'w services \<Rightarrow> 'w Runner \<Rightarrow> MessageUpdate list \<Rightarrow> ('w, Message list \<times> ToolResult list) turn" where
  "handle_updates sv r [] = done_p ([], [])"
| "handle_updates sv r (update # updates) =
     then_p (handle_update sv r update) (\<lambda>(ms, result).
     then_p (handle_updates sv r updates) (\<lambda>(ms', results). done_p (ms @ ms', result # results)))"

definition executeToolUses ::
  "'w services \<Rightarrow> 'w Runner \<Rightarrow> ToolUse list \<Rightarrow> Metadata \<Rightarrow> Message list \<Rightarrow> ('w, Message list \<times> ToolResult list) turn" where
  "executeToolUses sv r uses metadata turnMessages =
     then_p (emit_uses uses) (\<lambda>_.
     then_p (look_outside (svHooks sv)) (\<lambda>hooks.
       let executor = (rnTools r)\<lparr>exHooks := exHooks (rnTools r) @ hooks\<rparr>;
           toolCtx = tool_context sv r metadata turnMessages
       in then_p (ask_world (in_world (svRunTools sv executor toolCtx uses)) (Ran (cxPermissions toolCtx) uses))
            (handle_updates sv r)))"

section \<open>Compaction\<close>

definition maybeEmitTokenWarning :: "'w services \<Rightarrow> Message list \<Rightarrow> ('w, unit) turn" where
  "maybeEmitTokenWarning sv history =
     then_p (look tsAutoCompact) (\<lambda>auto.
       case auto of
         None \<Rightarrow> done_p ()
       | Some config \<Rightarrow>
         let tokenUsage = (if acTokenUsage config \<le> 0 then EstimateTokens (svEnv sv) history else acTokenUsage config);
             window = (WindowConfigFromEnv (svEnv sv) (acWindow config))\<lparr>wcAutoCompactEnabled := acEnabled config\<rparr>;
             state = CalculateWarningState (svEnv sv) tokenUsage window
         in if \<not> wsIsAboveWarningThreshold state \<and> \<not> wsIsAboveErrorThreshold state \<and>
               \<not> wsIsAboveAutoCompactThreshold state \<and> \<not> wsIsAtBlockingLimit state
            then done_p ()
            else emit (EventTokenWarning \<lparr>twTokenUsage = tokenUsage, twWindow = window, twState = state\<rparr>))"

definition compact_runner :: "'w Runner \<Rightarrow> int \<Rightarrow> string \<Rightarrow> 'w CompactRunner" where
  "compact_runner r keepLast extraInstructions =
     \<lparr>crClient = map_option mcCreateMessage (case rnCompactClient r of Some client \<Rightarrow> Some client | None \<Rightarrow> rnClient r),
      crModel = runner_model r, crMaxTokens = rnCompactMaxTokens r, crKeepLast = keepLast,
      crExtraInstructions = extraInstructions\<rparr>"

text \<open>A compaction asks a client for a summary.\<close>

definition ask_summary ::
  "'w services \<Rightarrow> 'w CompactRunner \<Rightarrow> Message list \<Rightarrow> string \<Rightarrow> int \<Rightarrow> string \<Rightarrow>
   ('w, CompactResult \<times> call_error option) turn" where
  "ask_summary sv c history trigger preTokens userContext =
     ask_world (in_world (Compact (svEnv sv) (svSources sv) c history trigger preTokens userContext))
       (\<lambda>(result, err). Summarized result err)"

text \<open>The compacted history and the result; \<open>None\<close> when the history stays as it is.\<close>

definition maybeAutoCompact ::
  "'w services \<Rightarrow> 'w Runner \<Rightarrow> Message list \<Rightarrow> ('w, (Plan \<times> CompactResult) option) turn" where
  "maybeAutoCompact sv r history =
     then_p (look tsAutoCompact) (\<lambda>auto.
       case auto of
         None \<Rightarrow> done_p None
       | Some config0 \<Rightarrow>
         let config = (if acTokenUsage config0 \<le> 0 then config0\<lparr>acTokenUsage := EstimateTokens (svEnv sv) history\<rparr> else config0)
         in if \<not> ShouldRun (svEnv sv) history config then done_p None
            else
              then_p (runPreCompactHooks sv r TriggerAuto (acTokenUsage config) (length history) [] (acExtraInstructions config)) (\<lambda>h.
                case h of
                  Inl err \<Rightarrow> done_p None
                | Inr (additional, True) \<Rightarrow> done_p None
                | Inr (additional, False) \<Rightarrow>
                  then_p (ask_summary sv
                      (compact_runner r (acKeepLast config) (appendHookInstructions (acExtraInstructions config) additional))
                      history TriggerAuto (acTokenUsage config) []) (\<lambda>(result, err).
                    case (err, crsPlan result) of
                      (None, Some plan) \<Rightarrow>
                        then_p (set_state (\<lambda>s. s\<lparr>tsAutoCompact := RecordSuccess (tsAutoCompact s)\<rparr>)) (\<lambda>_.
                        done_p (Some (plan, result)))
                    | _ \<Rightarrow>
                        then_p (set_state (\<lambda>s. s\<lparr>tsAutoCompact := RecordFailure (tsAutoCompact s)\<rparr>)) (\<lambda>_.
                        then_p (emit (EventCompact result err)) (\<lambda>_. done_p None)))))"

definition manualCompact ::
  "'w services \<Rightarrow> 'w Runner \<Rightarrow> Message list \<Rightarrow> string \<Rightarrow> ('w, call_error + CompactResult) turn" where
  "manualCompact sv r history userContext =
     then_p (look tsAutoCompact) (\<lambda>auto.
       let keepLast = (case auto of Some config \<Rightarrow> acKeepLast config | None \<Rightarrow> 0);
           extraInstructions = (case auto of Some config \<Rightarrow> acExtraInstructions config | None \<Rightarrow> []);
           tokenUsage = EstimateTokens (svEnv sv) history
       in then_p (runPreCompactHooks sv r TriggerManual tokenUsage (length history) userContext extraInstructions) (\<lambda>h.
            case h of
              Inl err \<Rightarrow> done_p (Inl (plain_error err))
            | Inr (additional, True) \<Rightarrow> done_p (Inl (plain_error ''blocked by PreCompact hook''))
            | Inr (additional, False) \<Rightarrow>
              then_p (ask_summary sv
                  (compact_runner r keepLast (appendHookInstructions extraInstructions additional))
                  history TriggerManual tokenUsage userContext) (\<lambda>(result, err).
                case (err, crsPlan result) of
                  (None, Some plan) \<Rightarrow>
                    then_e (unless_error (appendCompactTranscript sv plan)) (\<lambda>_.
                    then_p (emit (EventCompact result None)) (\<lambda>_. done_p (Inr result)))
                | (err, _) \<Rightarrow>
                    then_p (emit (EventCompact result err)) (\<lambda>_.
                    done_p (Inl (case err of Some e \<Rightarrow> e | None \<Rightarrow> plain_error []))))))"

section \<open>Deferred tools\<close>

definition maybeAppendDeferredToolsDeltaAttachment ::
  "'w services \<Rightarrow> 'w Runner \<Rightarrow> Message list \<Rightarrow> ('w, call_error + (Message list \<times> Message) option) turn" where
  "maybeAppendDeferredToolsDeltaAttachment sv r history =
     then_p (look_outside (svDeltaEnabled sv)) (\<lambda>enabled.
       if \<not> enabled then done_p (Inr None)
       else then_e (definitions_of sv r) (\<lambda>defs.
         case defs of
           None \<Rightarrow> done_p (Inr None)
         | Some definitions \<Rightarrow>
           then_p (look_outside (svCountTokens sv (runner_model r))) (\<lambda>counter.
             if \<not> hasToolSearchDefinition (svEnv sv) definitions then done_p (Inr None)
             else if \<not> tsEnabled (toolSearchDecisionForRequest (svEnv sv) (runner_model r) definitions counter) then done_p (Inr None)
             else case deferredToolsDeltaFromHistory (svEnv sv) definitions history of
                    None \<Rightarrow> done_p (Inr None)
                  | Some delta \<Rightarrow>
                    let poolChange = (dtPoolChange delta)\<lparr>pcCallSite := ''attachments_main'',
                          pcQuerySource := (if pcQuerySource (dtPoolChange delta) = [] then ''unknown''
                                            else pcQuerySource (dtPoolChange delta))\<rparr>
                    in then_p (emit (EventDeferredPoolChange poolChange)) (\<lambda>_.
                       then_p (outside (deferredToolsDeltaMessage (newID sv) delta)) (\<lambda>message.
                       then_p (outside (appendMessage (newID sv) history message)) (\<lambda>next.
                       done_p (Inr (Some next))))))))"

end
