(* ===== verification/RunTurn.thy ===== *)
theory RunTurn
  imports Turn
begin

text \<open>
  \<open>RunTurn\<close> of \<open>internal/conversation/run.go\<close>: from the user's message to the answer. A turn that asks
  the model goes through rounds; a round without tool uses ends it, and there are at most
  \<open>maxToolRounds\<close> of them.
\<close>

section \<open>The user's messages\<close>

definition user_message :: "'w services \<Rightarrow> 'w Runner \<Rightarrow> Message \<Rightarrow> 'w \<Rightarrow> Message \<times> 'w" where
  "user_message sv r user w =
     (let user = (if msgType user = [] then user\<lparr>msgType := MessageUser\<rparr> else user)
      in case with_uuid (newID sv) user w of (user, w') \<Rightarrow> (in_session r user, w'))"

text \<open>The messages, whether the model is asked, and what a local command asks for. A command may set
  the runner's model.\<close>

definition initialUserMessages ::
  "'w services \<Rightarrow> 'w Runner \<Rightarrow> Message \<Rightarrow> ('w, call_error + Message list \<times> bool \<times> LocalCommandResult option) turn" where
  "initialUserMessages sv r user =
     (if TextContent user = [] then done_p (Inr ([user], True, None))
      else if \<not> IsSlashInput (TextContent user) then done_p (Inr ([user], True, None))
      else
        then_p (look_outside (svCommands sv)) (\<lambda>registry.
        then_p (outside (ExecuteSlashCommand (svEnv sv) (newID sv) registry (TextContent user) (rnSessionID r) (msgUUID user))) (\<lambda>slash.
          case slash of
            Inl err \<Rightarrow> done_p (Inl (plain_error err))
          | Inr None \<Rightarrow> done_p (Inr ([user], True, None))
          | Inr (Some slash) \<Rightarrow>
            then_p (if slModel slash \<noteq> [] then set_state (\<lambda>s. s\<lparr>tsModel := slModel slash\<rparr>) else done_p ()) (\<lambda>_.
            done_p (Inr (slMessages slash, slShouldQuery slash, slLocalResult slash))))))"

text \<open>The messages are appended, recorded and announced one after the other.\<close>

fun add_messages ::
  "'w services \<Rightarrow> 'w Runner \<Rightarrow> Message list \<Rightarrow> Message list \<Rightarrow> Message list \<Rightarrow>
   ('w, (Result \<times> call_error option) + Message list \<times> Message list) turn" where
  "add_messages sv r history added [] = done_p (Inr (history, added))"
| "add_messages sv r history added (m # ms) =
     then_p (outside (appendMessage (newID sv) history m)) (\<lambda>(history, m).
     then_e (or_return blank_result (unless_error (appendTranscript sv r m))) (\<lambda>_.
     then_p (emit (EventUserMessage m)) (\<lambda>_.
     add_messages sv r history (added @ [m]) ms)))"

definition appendLocalTextResult ::
  "'w services \<Rightarrow> 'w Runner \<Rightarrow> Result \<Rightarrow> Message list \<Rightarrow> string \<Rightarrow> ('w, Result \<times> call_error option) turn" where
  "appendLocalTextResult sv r result history answer =
     then_p (outside (UserText (newID sv) answer)) (\<lambda>message.
     then_p (outside (appendMessage (newID sv) history (in_session r message))) (\<lambda>(history, message).
       let result = result\<lparr>rsMessages := rsMessages result @ [message]\<rparr>
       in then_p (appendTranscript sv r message) (\<lambda>err.
            case err of
              Some e \<Rightarrow> done_p (result, Some e)
            | None \<Rightarrow> then_p (emit (EventUserMessage message)) (\<lambda>_. done_p (result, None)))))"

text \<open>A turn that does not ask the model.\<close>

definition local_turn ::
  "'w services \<Rightarrow> 'w Runner \<Rightarrow> Result \<Rightarrow> Message list \<Rightarrow> Message list \<Rightarrow> LocalCommandResult option \<Rightarrow>
   ('w, Result \<times> call_error option) turn" where
  "local_turn sv r result originalHistory history localResult =
     (case localResult of
        None \<Rightarrow> done_p (result, None)
      | Some local \<Rightarrow>
        (case lcType local of
           LocalCommandResultClear \<Rightarrow> done_p (result\<lparr>rsCleared := True\<rparr>, None)
         | LocalCommandResultCompact \<Rightarrow>
             then_p (manualCompact sv r originalHistory (lcValue local)) (\<lambda>compacted.
               done_p (case compacted of
                   Inl err \<Rightarrow> (result, Some err)
                 | Inr compactResult \<Rightarrow>
                   (result\<lparr>rsCompacted := True, rsCompact := Some compactResult,
                      rsMessages := rsMessages result @
                        (case crsPlan compactResult of Some plan \<Rightarrow> [planBoundary plan, planSummary plan] | None \<Rightarrow> [])\<rparr>, None)))
         | LocalCommandResultText \<Rightarrow> done_p (result, None)
         | LocalCommandResultSkip \<Rightarrow> done_p (result, None)
         | _ \<Rightarrow>
             then_p (outside (svLocalText sv local originalHistory)) (\<lambda>answer.
               case answer of
                 Inl err \<Rightarrow> done_p (result, Some err)
               | Inr answer \<Rightarrow> appendLocalTextResult sv r result history answer)))"

section \<open>The rounds\<close>

definition answered :: "Result \<Rightarrow> Message \<Rightarrow> Response \<Rightarrow> Result" where
  "answered result assistant response =
     result\<lparr>rsMessages := rsMessages result @ [assistant], rsAssistant := assistant,
       rsStopReason := respStopReason response, rsUsage := respUsage response\<rparr>"

text \<open>The end of a turn.\<close>

definition finish_turn ::
  "'w services \<Rightarrow> 'w Runner \<Rightarrow> Result \<Rightarrow> Response \<Rightarrow> Message \<Rightarrow> ('w, Result \<times> call_error option) turn" where
  "finish_turn sv r result response assistant =
     then_p (outside (svExtractMemory sv (runner_model r) (rsMessages result))) (\<lambda>err.
       case err of
         Some e \<Rightarrow> done_p (result, Some e)
       | None \<Rightarrow> then_p (runStopHooks sv r response assistant) (\<lambda>err. done_p (result, err)))"

fun add_tool_messages ::
  "'w services \<Rightarrow> 'w Runner \<Rightarrow> Message list \<Rightarrow> Result \<Rightarrow> Message list \<Rightarrow> ('w, (Result \<times> call_error option) + Message list \<times> Result) turn" where
  "add_tool_messages sv r history result [] = done_p (Inr (history, result))"
| "add_tool_messages sv r history result (m # ms) =
     then_p (outside (appendMessage (newID sv) history m)) (\<lambda>(history, m).
       let result = result\<lparr>rsMessages := rsMessages result @ [m]\<rparr>
       in then_e (or_return result (unless_error (appendTranscript sv r m))) (\<lambda>_.
          add_tool_messages sv r history result ms))"

definition model_of_messages :: "'w Runner \<Rightarrow> Message list \<Rightarrow> 'w Runner" where
  "model_of_messages r messages =
     (let model = cpModel (CommandPermissionsFromMessages messages) in if model \<noteq> [] then r\<lparr>rnModel := model\<rparr> else r)"

text \<open>One round: the request, the answer and its tool uses. \<open>Inl\<close> ends the turn.\<close>

definition turn_round ::
  "'w services \<Rightarrow> 'w MessageClient \<Rightarrow> Metadata \<Rightarrow> ('w \<Rightarrow> (call_error + 'w recall) \<times> 'w) \<Rightarrow> 'w Runner \<times> Message list \<times> Result \<Rightarrow>
   ('w, (Result \<times> call_error option) + 'w Runner \<times> Message list \<times> Result) turn" where
  "turn_round sv client metadata await = (\<lambda>(r, history, result).
     then_p (send sv r client await history) (\<lambda>(request, attempts, answer).
       let result = result\<lparr>rsFinalRequest := request, rsModelsAttempt := rsModelsAttempt result @ attempts\<rparr>
       in then_e (or_return result (done_p answer)) (\<lambda>response.
          then_p (outside (messageFromResponse (newID sv) (rnSessionID r) response)) (\<lambda>assistant.
          then_p (outside (appendMessage (newID sv) history assistant)) (\<lambda>(history, assistant).
            let result = answered result assistant response
            in then_e (or_return result (unless_error (appendTranscript sv r assistant))) (\<lambda>_.
               then_p (emit (EventAssistantMessage assistant (respModel response))) (\<lambda>_.
               then_p (outside (ToolUses (newID sv) assistant)) (\<lambda>uses.
                 if uses = [] then then_p (finish_turn sv r result response assistant) (\<lambda>ended. done_p (Inl ended))
                 else
                   then_p (executeToolUses sv r uses metadata (rsMessages result)) (\<lambda>(toolMessages, toolResults).
                   then_e (add_tool_messages sv r history result toolMessages) (\<lambda>(history, result).
                   done_p (Inr (model_of_messages r toolMessages, history,
                     result\<lparr>rsToolResults := rsToolResults result @ toolResults\<rparr>))))))))))))"

text \<open>\<open>left\<close> rounds are left.\<close>

fun rounds_loop ::
  "'w services \<Rightarrow> 'w MessageClient \<Rightarrow> Metadata \<Rightarrow> int \<Rightarrow> nat \<Rightarrow> ('w \<Rightarrow> (call_error + 'w recall) \<times> 'w) \<Rightarrow>
   'w Runner \<times> Message list \<times> Result \<Rightarrow> ('w, Result \<times> call_error option) turn" where
  "rounds_loop sv client metadata limit 0 await (r, history, result) =
     done_p (result, Some (plain_error (''maximum tool rounds exceeded: '' @ int_text limit)))"
| "rounds_loop sv client metadata limit (Suc left) await st =
     then_p (turn_round sv client metadata await st) (\<lambda>next.
       case next of
         Inl ended \<Rightarrow> done_p ended
       | Inr st \<Rightarrow> rounds_loop sv client metadata limit left (\<lambda>w. (Inr (svRecall sv), w)) st)"

section \<open>A turn\<close>

text \<open>What precedes the rounds: the due schedules, a warning, a compaction, and the announcement of
  deferred tools.\<close>

definition before_rounds ::
  "'w services \<Rightarrow> 'w Runner \<Rightarrow> Message list \<Rightarrow> Result \<Rightarrow> ('w, (Result \<times> call_error option) + Message list \<times> Result) turn" where
  "before_rounds sv r history result =
     then_p (outside (svSchedules sv)) (\<lambda>_.
     then_p (maybeEmitTokenWarning sv history) (\<lambda>_.
     then_p (maybeAutoCompact sv r history) (\<lambda>compacted.
     then_e (case compacted of
               None \<Rightarrow> done_p (Inr (history, result))
             | Some (plan, compactResult) \<Rightarrow>
               let result = result\<lparr>rsCompacted := True, rsCompact := Some compactResult,
                     rsMessages := rsMessages result @ [planBoundary plan, planSummary plan]\<rparr>
               in then_e (or_return result (unless_error (appendCompactTranscript sv plan))) (\<lambda>_.
                  then_p (emit (EventCompact compactResult None)) (\<lambda>_.
                  done_p (Inr (planOutput plan, result))))) (\<lambda>(history, result).
     then_e (or_return result (maybeAppendDeferredToolsDeltaAttachment sv r history)) (\<lambda>announced.
       case announced of
         None \<Rightarrow> done_p (Inr (history, result))
       | Some (history, attachment) \<Rightarrow>
         let result = result\<lparr>rsMessages := rsMessages result @ [attachment]\<rparr>
         in then_e (or_return result (unless_error (appendTranscript sv r attachment))) (\<lambda>_.
            done_p (Inr (history, result))))))))"

definition query_turn ::
  "'w services \<Rightarrow> 'w MessageClient \<Rightarrow> 'w Runner \<Rightarrow> Message list \<Rightarrow> Result \<Rightarrow> ('w, Result \<times> call_error option) turn" where
  "query_turn sv client r history result =
     then_p (before_rounds sv r history result) (\<lambda>prepared.
       case prepared of
         Inl ended \<Rightarrow> done_p ended
       | Inr (compacted, result) \<Rightarrow>
         then_p (look_outside (svMetadata sv)) (\<lambda>metadata.
         rounds_loop sv client metadata (maxToolRounds r) (nat (maxToolRounds r)) (svPrefetched sv history) (r, compacted, result)))"

text \<open>With the tools of MCP servers, which are closed at the end, and the tools of the settings.\<close>

definition with_tools ::
  "'w services \<Rightarrow> 'w Runner \<Rightarrow> Result \<Rightarrow> ('w Runner \<Rightarrow> ('w, Result \<times> call_error option) turn) \<Rightarrow> ('w, Result \<times> call_error option) turn" where
  "with_tools sv r result body =
     then_p (outside (svMCPTools sv (rnTools r))) (\<lambda>mcp.
       case mcp of
         Inl err \<Rightarrow> done_p (result, Some err)
       | Inr (tools, closeMCP) \<Rightarrow>
         then_p
           (then_p (outside (svAdvancedTools sv tools)) (\<lambda>advanced.
              case advanced of
                Inl err \<Rightarrow> done_p (result, Some err)
              | Inr tools \<Rightarrow> body (r\<lparr>rnTools := tools\<rparr>)))
           (\<lambda>ended. then_p (outside closeMCP) (\<lambda>_. done_p ended)))"

text \<open>The hooks of a submitted prompt, for a turn that asks the model.\<close>

definition submit_hooks ::
  "'w services \<Rightarrow> 'w Runner \<Rightarrow> bool \<Rightarrow> Message list \<Rightarrow> ('w, call_error + Message list \<times> string option) turn" where
  "submit_hooks sv r shouldQuery messages =
     (if shouldQuery then applyUserPromptSubmitHooks sv r messages else done_p (Inr (messages, None)))"

definition RunTurn ::
  "'w services \<Rightarrow> 'w Runner \<Rightarrow> Message list \<Rightarrow> Message \<Rightarrow> ('w, Result \<times> call_error option) turn" where
  "RunTurn sv r history user =
     (case rnClient r of
        None \<Rightarrow> done_p (blank_result, Some (plain_error ''conversation runner missing client''))
      | Some client \<Rightarrow>
        then_p (outside (svRefresh sv)) (\<lambda>_.
        then_p (look tsModel) (\<lambda>persistentModel.
        then_p (outside (user_message sv r user)) (\<lambda>user.
        then_p (initialUserMessages sv r user) (\<lambda>initial.
          case initial of
            Inl err \<Rightarrow> done_p (blank_result, Some err)
          | Inr (messages, shouldQuery, localResult) \<Rightarrow>
            then_p (look tsModel) (\<lambda>turnModel.
            let r = r\<lparr>rnModel := turnModel\<rparr>
            in then_p (submit_hooks sv r shouldQuery messages) (\<lambda>submitted.
              case submitted of
                Inl err \<Rightarrow> done_p (blank_result, Some err)
              | Inr (messages, blocked) \<Rightarrow>
                then_p (add_messages sv r history [] messages) (\<lambda>added.
                  case added of
                    Inl ended \<Rightarrow> done_p ended
                  | Inr (extended, messages) \<Rightarrow>
                    let result = blank_result\<lparr>rsMessages := messages\<rparr>
                    in case blocked of
                         Some blockMessage \<Rightarrow> appendLocalTextResult sv r result extended blockMessage
                       | None \<Rightarrow>
                         if \<not> shouldQuery then local_turn sv r result history extended localResult
                         else
                           then_p (set_state (\<lambda>s. s\<lparr>tsModel := persistentModel\<rparr>)) (\<lambda>_.
                           with_tools sv r result (\<lambda>r. query_turn sv client r extended result))))))))))"

end
