(* ===== verification/TurnLaws.thy ===== *)
theory TurnLaws
  imports RunTurn MessageLaws RunLaws EngineLaws
begin

text \<open>
  Laws of a turn. A property of what a piece of a turn does, that holds of doing nothing and of one
  thing after another, is an interpretation of \<open>step_invariant\<close>; the pieces that a turn is made of then
  have it when their actions have it (\<open>turn_invariant\<close>), a compaction when its summary has it
  (\<open>compacting_turn\<close>), the rounds when each round has it (\<open>rounds_turn\<close>), a round when its requests and
  its tool runs have it (\<open>asking_turn\<close>), and a whole turn when all of these have it (\<open>whole_turn\<close>).
\<close>

section \<open>Properties that hold along\<close>

locale step_invariant =
  fixes R :: "'s \<Rightarrow> 'e list \<Rightarrow> 's \<Rightarrow> bool"
  assumes idle: "\<And>s. R s [] s"
    and after: "\<And>s es s1 es' s2. R s es s1 \<Longrightarrow> R s1 es' s2 \<Longrightarrow> R s (es @ es') s2"
begin

definition every :: "('s, 'e, 'a) effects \<Rightarrow> bool" where
  "every m = (\<forall>s. wp m (\<lambda>x es s'. R s es s') s)"

lemma everyD: "every m \<Longrightarrow> m s = (x, es, s') \<Longrightarrow> R s es s'"
  by (metis every_def wpD)

lemma every_done: "every (done_p x)"
  by (simp add: every_def wp_simps idle)

lemma every_look: "every (look g)"
  by (simp add: every_def wp_simps idle)

lemma every_then_dep:
  assumes "every m" "\<And>s x es s'. m s = (x, es, s') \<Longrightarrow> every (f x)"
  shows "every (then_p m f)"
  unfolding every_def wp_then
proof
  fix s
  show "wp m (\<lambda>x es w1. wp (f x) (\<lambda>y es' w2. R s (es @ es') w2) w1) s"
  proof (rule wpI)
    fix x es s1
    assume m: "m s = (x, es, s1)"
    then have "R s es s1" using everyD[OF assms(1)] by blast
    with everyD[OF assms(2)[OF m]] after show "wp (f x) (\<lambda>y es' w2. R s (es @ es') w2) s1"
      by (intro wpI) blast
  qed
qed

lemma every_then: "every m \<Longrightarrow> (\<And>x. every (f x)) \<Longrightarrow> every (then_p m f)"
  by (rule every_then_dep)

lemma every_case_sum: "(\<And>x. every (f x)) \<Longrightarrow> (\<And>x. every (g x)) \<Longrightarrow> every (case r of Inl x \<Rightarrow> f x | Inr x \<Rightarrow> g x)"
  by (cases r) auto

lemma every_case_option: "every m \<Longrightarrow> (\<And>x. every (f x)) \<Longrightarrow> every (case r of None \<Rightarrow> m | Some x \<Rightarrow> f x)"
  by (cases r) auto

lemma every_case_prod: "(\<And>x y. every (f x y)) \<Longrightarrow> every (case p of (x, y) \<Rightarrow> f x y)"
  by (cases p) auto

lemma every_case_bool: "every m \<Longrightarrow> every n \<Longrightarrow> every (case b of True \<Rightarrow> m | False \<Rightarrow> n)"
  by (cases b) auto

lemma every_case_list: "every m \<Longrightarrow> (\<And>x xs. every (f x xs)) \<Longrightarrow> every (case l of [] \<Rightarrow> m | x # xs \<Rightarrow> f x xs)"
  by (cases l) auto

lemma every_if: "every m \<Longrightarrow> every n \<Longrightarrow> every (if b then m else n)"
  by auto

lemma every_then_e: "every m \<Longrightarrow> (\<And>x. every (f x)) \<Longrightarrow> every (then_e m f)"
  unfolding then_e_def by (intro every_then every_case_sum every_done) auto

lemmas every_rules = every_done every_look every_then every_then_e
  every_case_sum every_case_option every_case_prod every_case_bool every_case_list every_if

end

section \<open>The pieces of a turn\<close>

text \<open>The actions that tie a turn to the model and to the tools.\<close>

definition central :: "turn_action \<Rightarrow> bool" where
  "central a =
     (case a of Requested _ _ \<Rightarrow> True | Ran _ _ _ \<Rightarrow> True
      | Emitted event \<Rightarrow> (case event of EventToolUse _ \<Rightarrow> True | EventToolResult _ _ \<Rightarrow> True | EventRetry _ _ _ \<Rightarrow> True
                          | EventStreamEvent _ _ \<Rightarrow> True | _ \<Rightarrow> False)
      | _ \<Rightarrow> False)"

text \<open>Those that are none of these, no summary and no answer.\<close>

definition routine :: "turn_action \<Rightarrow> bool" where
  "routine a =
     (\<not> central a \<and> (case a of Summarized _ _ \<Rightarrow> False
        | Emitted event \<Rightarrow> (case event of EventAssistantMessage _ _ \<Rightarrow> False | _ \<Rightarrow> True) | _ \<Rightarrow> True))"

locale turn_invariant = step_invariant R
  for R :: "'w turn_state \<Rightarrow> turn_action list \<Rightarrow> 'w turn_state \<Rightarrow> bool" +
  assumes world_changes: "R s [] (s\<lparr>tsWorld := w\<rparr>)"
    and auto_changes: "R s [] (s\<lparr>tsAutoCompact := c\<rparr>)"
    and budget_changes: "R s [] (s\<lparr>tsContentBudget := b\<rparr>)"
    and minor: "routine a \<Longrightarrow> R s [a] s"
begin

lemma every_act: "routine a \<Longrightarrow> every (act a)"
  by (simp add: every_def wp_simps minor)

lemma every_outside: "every (outside g)"
  by (simp add: every_def wp_simps in_world_def world_changes split: prod.split)

lemma every_set_auto: "every (set_state (\<lambda>s. s\<lparr>tsAutoCompact := f s\<rparr>))"
  by (simp add: every_def wp_simps auto_changes)

lemma every_set_budget: "every (set_state (\<lambda>s. s\<lparr>tsContentBudget := f s\<rparr>))"
  by (simp add: every_def wp_simps budget_changes)

lemma every_ask:
  assumes "\<And>x. routine (f x)"
  shows "every (ask_world (in_world g) f)"
  unfolding every_def wp_ask in_world_def
  using after[OF minor world_changes] assms by (auto split: prod.split)

lemma every_or_return: "every m \<Longrightarrow> every (or_return value m)"
  unfolding or_return_def by (intro every_rules)

lemma every_unless_error: "every m \<Longrightarrow> every (unless_error m)"
  unfolding unless_error_def by (intro every_rules)

lemmas turn_rules = every_rules every_act every_outside every_set_auto every_set_budget every_ask
  every_or_return every_unless_error

lemma every_appendTranscript: "every (appendTranscript sv r m)"
  unfolding appendTranscript_def by (intro turn_rules; simp add: routine_def central_def)

lemma every_appendCompactTranscript: "every (appendCompactTranscript sv plan)"
  unfolding appendCompactTranscript_def by (intro turn_rules; simp add: routine_def central_def)

lemma every_progress: "every (emitConversationHookProgress phase i kind data)"
  unfolding emitConversationHookProgress_def by (intro turn_rules; simp add: routine_def central_def)

lemma every_hooks_loop: "every (hooks_loop cx event i hooks combined messages)"
proof (induction hooks arbitrary: i combined messages)
  case (Cons hook hooks)
  show ?case unfolding hooks_loop.simps Let_def
    by (intro turn_rules every_progress Cons.IH; simp add: routine_def central_def)
qed (simp add: every_done)

lemma every_hooks: "every (runConversationHooks sv r phase payload)"
  unfolding runConversationHooks_def by (intro turn_rules every_hooks_loop)

lemma every_submit: "every (submit_hooks sv r b ms)"
  unfolding submit_hooks_def applyUserPromptSubmitHooks_def by (intro turn_rules every_hooks)

lemma every_stop: "every (runStopHooks sv r response m)"
  unfolding runStopHooks_def by (intro turn_rules every_hooks)

lemma every_preCompact: "every (runPreCompactHooks sv r trigger tokens n u x)"
  unfolding runPreCompactHooks_def by (intro turn_rules every_hooks)

lemma every_definitions: "every (definitions_of sv r)"
  unfolding definitions_of_def by (intro turn_rules)

lemma every_buildRequest: "every (buildRequest sv r recall history model)"
  unfolding buildRequest_def request_tools_def Let_def
  by (intro turn_rules every_definitions; simp add: routine_def central_def)

lemma every_budget: "every (applyToolResultBudget sv r history)"
  unfolding applyToolResultBudget_def by (intro turn_rules)

lemma every_warning: "every (maybeEmitTokenWarning sv history)"
  unfolding maybeEmitTokenWarning_def Let_def by (intro turn_rules; simp add: routine_def central_def)

lemma every_announcement: "every (maybeAppendDeferredToolsDeltaAttachment sv r history)"
  unfolding maybeAppendDeferredToolsDeltaAttachment_def Let_def
  by (intro turn_rules every_definitions; simp add: routine_def central_def)

lemma every_add_messages: "every (add_messages sv r history added ms)"
proof (induction ms arbitrary: history added)
  case (Cons m ms)
  show ?case unfolding add_messages.simps
    by (intro turn_rules every_appendTranscript Cons.IH; simp add: routine_def central_def)
qed (simp add: every_done)

lemma every_add_tool_messages: "every (add_tool_messages sv r history result ms)"
proof (induction ms arbitrary: history result)
  case (Cons m ms)
  show ?case unfolding add_tool_messages.simps Let_def
    by (intro turn_rules every_appendTranscript Cons.IH)
qed (simp add: every_done)

lemma every_new_messages: "every (new_messages sv r ms)"
proof (induction ms)
  case (Cons m ms)
  show ?case unfolding new_messages.simps by (intro turn_rules Cons.IH; simp add: routine_def central_def)
qed (simp add: every_done)

lemma every_local_text: "every (appendLocalTextResult sv r result history answer)"
  unfolding appendLocalTextResult_def Let_def
  by (intro turn_rules every_appendTranscript; simp add: routine_def central_def)

lemma every_finish: "every (finish_turn sv r result response assistant)"
  unfolding finish_turn_def by (intro turn_rules every_stop)

end

section \<open>Compactions\<close>

locale compacting_turn = turn_invariant R
  for R :: "'w turn_state \<Rightarrow> turn_action list \<Rightarrow> 'w turn_state \<Rightarrow> bool" +
  assumes summarized: "R s [Summarized result err] s"
begin

lemma every_summary: "every (ask_summary sv c history trigger tokens u)"
  unfolding ask_summary_def every_def wp_ask in_world_def
  using after[OF summarized world_changes] by (auto split: prod.split)

lemma every_autoCompact: "every (maybeAutoCompact sv r history)"
  unfolding maybeAutoCompact_def Let_def by (intro turn_rules every_preCompact every_summary; simp add: routine_def central_def)

lemma every_manualCompact: "every (manualCompact sv r history u)"
  unfolding manualCompact_def Let_def
  by (intro turn_rules every_preCompact every_summary every_appendCompactTranscript; simp add: routine_def central_def)

lemma every_before_rounds: "every (before_rounds sv r history result)"
  unfolding before_rounds_def Let_def
  by (intro turn_rules every_warning every_autoCompact every_appendCompactTranscript every_announcement every_appendTranscript;
      simp add: routine_def central_def)

lemma every_local_turn: "every (local_turn sv r result original history local)"
proof -
  have "every (case t of LocalCommandResultClear \<Rightarrow> a | LocalCommandResultCompact \<Rightarrow> b
      | LocalCommandResultText \<Rightarrow> d | LocalCommandResultSkip \<Rightarrow> d | _ \<Rightarrow> e)"
    if "every a" "every b" "every d" "every e" for t and a b d e :: "('w, Result \<times> call_error option) turn"
    using that by (cases t) auto
  then show ?thesis unfolding local_turn_def
    by (intro every_case_option) (simp_all add: turn_rules every_manualCompact every_local_text)
qed

end

section \<open>A whole turn\<close>

text \<open>A round changes nothing of the runner but its model.\<close>

definition only_model :: "'w Runner \<Rightarrow> 'w Runner \<Rightarrow> bool" where
  "only_model r r' = (\<exists>m. r' = r\<lparr>rnModel := m\<rparr>)"

lemma only_model_refl [simp]: "only_model r r"
  unfolding only_model_def by (rule exI[of _ "rnModel r"]) simp

lemma only_model_trans: "only_model r r1 \<Longrightarrow> only_model r1 r2 \<Longrightarrow> only_model r r2"
  by (auto simp: only_model_def)

lemma only_model_fields:
  assumes "only_model r r'"
  shows "rnPermissions r' = rnPermissions r" "rnFallbackModels r' = rnFallbackModels r" "rnTools r' = rnTools r"
    "rnSessionPath r' = rnSessionPath r"
  using assms by (auto simp: only_model_def)

lemma model_of_messages_only: "only_model r (model_of_messages r ms)"
  by (auto simp: model_of_messages_def Let_def only_model_def[of r "r\<lparr>rnModel := m\<rparr>" for m])

text \<open>What every value of a piece satisfies.\<close>

definition gives :: "('a \<Rightarrow> bool) \<Rightarrow> ('s, 'e, 'a) effects \<Rightarrow> bool" where
  "gives P m = (\<forall>s. wp m (\<lambda>x es s'. P x) s)"

lemma givesD: "gives P m \<Longrightarrow> m s = (x, es, s') \<Longrightarrow> P x"
  by (metis gives_def wpD)

lemma gives_done: "P x \<Longrightarrow> gives P (done_p x)"
  by (simp add: gives_def wp_simps)

lemma gives_then: "(\<And>x. gives P (f x)) \<Longrightarrow> gives P (then_p m f)"
  by (auto simp: gives_def wp_then intro: wpI)

lemma gives_then_e: "(\<And>e. P (Inl e)) \<Longrightarrow> (\<And>x. gives P (f x)) \<Longrightarrow> gives P (then_e m f)"
  unfolding then_e_def by (intro gives_then) (auto intro: gives_done split: sum.split)

lemma gives_prod: "(\<And>x y. gives P (f x y)) \<Longrightarrow> gives P (case p of (x, y) \<Rightarrow> f x y)"
  by (cases p) auto

lemma gives_if: "(b \<Longrightarrow> gives P m) \<Longrightarrow> (\<not> b \<Longrightarrow> gives P n) \<Longrightarrow> gives P (if b then m else n)"
  by auto

lemmas gives_rules = gives_then gives_then_e gives_prod gives_if gives_done

lemma turn_round_runner:
  assumes "turn_round sv client metadata await (r, h, res) s = (Inr (r', h', res'), es, s')"
  shows "only_model r r'"
proof -
  have "gives (\<lambda>x. \<forall>r' h' res'. x = Inr (r', h', res') \<longrightarrow> only_model r r') (turn_round sv client metadata await (r, h, res))"
    unfolding turn_round_def prod.case Let_def
    by (intro gives_rules; simp add: model_of_messages_only)
  then show ?thesis using assms by (auto dest: givesD)
qed

text \<open>The rounds have it when each round of a runner with the same permissions has it.\<close>

locale rounds_turn = turn_invariant R
  for R :: "'w turn_state \<Rightarrow> turn_action list \<Rightarrow> 'w turn_state \<Rightarrow> bool" +
  fixes sv :: "'w services" and r0 :: "'w Runner"
  assumes round: "rnPermissions r = rnPermissions r0 \<Longrightarrow> every (turn_round sv client metadata await (r, h, res))"
begin

lemma every_rounds: "rnPermissions r = rnPermissions r0 \<Longrightarrow> every (rounds_loop sv client metadata limit left await (r, h, res))"
proof (induction left arbitrary: await r h res)
  case (Suc left)
  show ?case unfolding rounds_loop.simps
  proof (rule every_then_dep[OF round[OF Suc.prems]])
    fix s x es s'
    assume x: "turn_round sv client metadata await (r, h, res) s = (x, es, s')"
    show "every (case x of Inl e \<Rightarrow> done_p e
        | Inr st \<Rightarrow> rounds_loop sv client metadata limit left (\<lambda>w. (Inr (svRecall sv), w)) st)"
    proof (cases x)
      case (Inr st)
      obtain r' h' res' where st: "st = (r', h', res')" by (cases st)
      then have "only_model r r'" using turn_round_runner x Inr by blast
      then have "rnPermissions r' = rnPermissions r0" using Suc.prems only_model_fields(1) by metis
      then show ?thesis using Suc.IH Inr st by simp
    qed (simp add: every_done)
  qed
qed (simp add: every_done)

end

text \<open>And a round has it when what it does with the model and the tools has it.\<close>

locale asking_turn = turn_invariant R
  for R :: "'w turn_state \<Rightarrow> turn_action list \<Rightarrow> 'w turn_state \<Rightarrow> bool" +
  fixes sv :: "'w services" and r0 :: "'w Runner"
  assumes requested: "R s [Requested request answer] s"
    and assistant: "R s [Emitted (EventAssistantMessage message m)] s"
    and streamed: "R s [Emitted (EventStreamEvent event m)] s"
    and retried: "R s [Emitted (EventRetry m err info)] s"
    and tools: "rnPermissions r = rnPermissions r0 \<Longrightarrow> every (executeToolUses sv r uses metadata ms)"
begin

lemma every_ask_request: "every (ask_world (in_world g) (\<lambda>x. Requested request (answer x)))"
  unfolding every_def wp_ask in_world_def
  using after[OF requested world_changes] by (auto split: prod.split)

lemma every_call: "every (call_client client request)"
  unfolding call_client_def by (rule every_ask_request)

lemma every_emit_stream: "every (emit_stream m events)"
  by (induction events) (auto intro!: every_rules simp: every_def[of "act _"] wp_simps streamed)

lemma every_open: "every (ask_world (in_world g) (\<lambda>(err, seen, acc). Requested request (answer err acc)))"
  using every_ask_request[of g request "\<lambda>(err, seen, acc). answer err acc"] by (simp add: case_prod_unfold)

lemma every_createMessage: "every (createMessage sv r client request)"
proof (cases "rnUseStreaming r")
  case True
  show ?thesis
  proof (cases "mcStreamMessages client")
    case (Some stream)
    show ?thesis unfolding createMessage_def True Some prod.case bool.case option.case Let_def
      by (intro every_rules every_open every_emit_stream every_call)
  qed (simp add: createMessage_def True every_call)
qed (simp add: createMessage_def every_call)

lemma every_retry: "every (emit (EventRetry m err info))"
  by (simp add: every_def wp_simps retried)

lemma every_send_loop: "every (send_loop sv r client recall history attempts model rest)"
proof (induction rest arbitrary: model attempts)
  case Nil
  show ?case unfolding send_loop.simps[of _ _ _ _ _ _ _ "[]"] list.case
    by (intro turn_rules every_budget every_buildRequest every_createMessage)
next
  case (Cons m rest)
  show ?case unfolding send_loop.simps[of _ _ _ _ _ _ _ "_ # _"] list.case
    by (intro turn_rules every_budget every_buildRequest every_createMessage every_retry Cons.IH)
qed

lemma every_send: "every (send sv r client await history)"
  unfolding send_def by (intro turn_rules every_send_loop)

lemma every_announced: "every (emit (EventAssistantMessage message m))"
  by (simp add: every_def wp_simps assistant)

lemma every_round: "rnPermissions r = rnPermissions r0 \<Longrightarrow> every (turn_round sv client metadata await (r, h, res))"
  unfolding turn_round_def prod.case Let_def
  by (intro every_rules every_outside every_or_return every_unless_error every_announced every_send every_appendTranscript
      every_finish tools every_add_tool_messages)

end

sublocale asking_turn \<subseteq> rounds_turn R sv r0
  by unfold_locales (rule every_round)

locale querying_turn = compacting_turn R + rounds_turn R sv r0
  for R :: "'w turn_state \<Rightarrow> turn_action list \<Rightarrow> 'w turn_state \<Rightarrow> bool" and sv :: "'w services" and r0 :: "'w Runner"
begin

lemma every_query_turn: "rnPermissions r = rnPermissions r0 \<Longrightarrow> every (query_turn sv client r h res)"
  unfolding query_turn_def by (intro turn_rules every_before_rounds every_rounds)

lemma every_with_tools: "(\<And>tools. every (body (r\<lparr>rnTools := tools\<rparr>))) \<Longrightarrow> every (with_tools sv r res body)"
  unfolding with_tools_def by (intro turn_rules)

lemma every_asked:
  "rnPermissions r = rnPermissions r0 \<Longrightarrow> every (with_tools sv r res (\<lambda>r. query_turn sv client r h res))"
  by (intro every_with_tools every_query_turn) simp

end

locale whole_turn = querying_turn R sv r0
  for R :: "'w turn_state \<Rightarrow> turn_action list \<Rightarrow> 'w turn_state \<Rightarrow> bool" and sv :: "'w services" and r0 :: "'w Runner" +
  assumes model_changes: "R s [] (s\<lparr>tsModel := m\<rparr>)"
begin

lemma every_set_model: "every (set_state (\<lambda>s. s\<lparr>tsModel := m\<rparr>))"
  by (simp add: every_def wp_simps model_changes)

lemma every_initial: "every (initialUserMessages sv r user)"
  unfolding initialUserMessages_def by (intro turn_rules every_set_model)

lemma every_turn: "every (RunTurn sv r0 history user)"
  unfolding RunTurn_def Let_def
  by (intro turn_rules every_initial every_submit every_add_messages every_local_text every_local_turn every_set_model
      every_asked) simp_all

end

section \<open>The permissions of the tools\<close>

text \<open>A run of tools has the decider of the runner, or one made of it and of the messages of the turn.\<close>

definition permitted :: "decider option \<Rightarrow> turn_action \<Rightarrow> bool" where
  "permitted perms a = (case a of Ran p _ _ \<Rightarrow> (\<exists>ms. p = permissionsForTurn perms ms) | _ \<Rightarrow> True)"

interpretation permitted: compacting_turn "\<lambda>s es s'. list_all (permitted perms) es" for perms
  by unfold_locales (auto simp: permitted_def routine_def central_def split: turn_action.splits)

lemma permitted_act: "permitted perms a \<Longrightarrow> permitted.every perms (act a)"
  by (simp add: permitted.every_def wp_simps)

lemma permitted_ask: "(\<And>x. permitted perms (f x)) \<Longrightarrow> permitted.every perms (ask_world g f)"
  by (simp add: permitted.every_def wp_simps split: prod.split)

lemma permitted_event: "permitted perms (Emitted event)"
  by (simp add: permitted_def)

lemma permitted_handle: "permitted.every perms (handle_updates sv r us)"
proof (induction us)
  case (Cons u us)
  have "permitted.every perms (handle_update sv r u)" unfolding handle_update_def Let_def
    by (intro permitted.turn_rules permitted.every_new_messages permitted_act permitted_event)
  then show ?case unfolding handle_updates.simps by (intro permitted.turn_rules Cons.IH)
qed (simp add: permitted.every_done)

lemma permitted_uses: "permitted.every perms (emit_uses uses)"
  by (induction uses) (simp_all add: permitted.every_done permitted.every_then permitted_act permitted_event)

lemma permitted_tools: "rnPermissions r = perms \<Longrightarrow> permitted.every perms (executeToolUses sv r uses metadata ms)"
  unfolding executeToolUses_def Let_def
  by (intro permitted.every_then permitted.every_look permitted_uses permitted_ask permitted_handle)
     (auto simp: permitted_def tool_context_def)

interpretation permitted_round: asking_turn "\<lambda>s es s'. list_all (permitted (rnPermissions r0)) es" sv r0 for sv r0
  by unfold_locales (auto simp: permitted_def permitted_tools)

interpretation permitted_turn: whole_turn "\<lambda>s es s'. list_all (permitted (rnPermissions r0)) es" sv r0 for sv r0
  by unfold_locales auto

lemma permissionsForTurn_denies:
  assumes "permissionsForTurn (Some (EnginePermissionDecider e)) ms = Some (EnginePermissionDecider e')"
    "has_rule env e req PermissionDeny"
  shows "has_rule env e' req PermissionDeny"
  using assms by (auto simp: permissionsForTurn_def Let_def has_rule_def NewEngine_def split: if_splits)

lemma permissionsForTurn_engine:
  "\<exists>e'. permissionsForTurn (Some (EnginePermissionDecider e)) ms = Some (EnginePermissionDecider e')"
  by (auto simp: permissionsForTurn_def Let_def)

section \<open>The runner's model\<close>

text \<open>Nothing but a command and the end of the preparation of a turn sets the runner's model, and what
  comes before that has no request.\<close>

interpretation same_model: compacting_turn "\<lambda>s es s'. tsModel s' = tsModel s"
  by unfold_locales auto

lemma same_model_act: "same_model.every (act a)"
  by (simp add: same_model.every_def wp_simps)

lemma same_model_ask: "same_model.every (ask_world (in_world g) f)"
  by (simp add: same_model.every_def wp_simps in_world_def split: prod.split)

lemma same_model_tools: "same_model.every (executeToolUses sv r uses metadata ms)"
proof -
  have uses: "same_model.every (emit_uses uses)"
    by (induction uses) (simp_all add: same_model.every_done same_model.every_then same_model_act)
  have one: "same_model.every (handle_update sv r u)" for u
    unfolding handle_update_def Let_def
    by (intro same_model.turn_rules same_model.every_new_messages same_model_act)
  have "same_model.every (handle_updates sv r us)" for us
  proof (induction us)
    case (Cons u us)
    show ?case unfolding handle_updates.simps by (intro same_model.turn_rules one Cons.IH)
  qed (simp add: same_model.every_done)
  then show ?thesis unfolding executeToolUses_def Let_def
    by (intro same_model.every_then same_model.every_look uses same_model_ask)
qed

interpretation same_model_round: asking_turn "\<lambda>s es s'. tsModel s' = tsModel s" sv r0 for sv r0
  by unfold_locales (auto simp: same_model_tools)

interpretation same_model_turn: querying_turn "\<lambda>s es s'. tsModel s' = tsModel s" sv r0 for sv r0
  by unfold_locales

interpretation not_central: compacting_turn "\<lambda>s es s'. list_all (\<lambda>a. \<not> central a) es"
  by unfold_locales (auto simp: routine_def central_def)

lemma not_central_initial: "not_central.every (initialUserMessages sv r user)"
proof -
  have "not_central.every (set_state f)" for f :: "'b turn_state \<Rightarrow> 'b turn_state"
    by (simp add: not_central.every_def wp_simps)
  then show ?thesis unfolding initialUserMessages_def by (intro not_central.turn_rules)
qed

section \<open>How often a turn asks\<close>

text \<open>For an answer, and for a summary. What an action counts for is a parameter of the calculus:
  \<open>costs P n m\<close> says that a piece performs at most \<open>n\<close> actions that satisfy \<open>P\<close>.\<close>

definition is_request :: "turn_action \<Rightarrow> bool" where
  "is_request a = (case a of Requested _ _ \<Rightarrow> True | _ \<Rightarrow> False)"

definition is_summary :: "turn_action \<Rightarrow> bool" where
  "is_summary a = (case a of Summarized _ _ \<Rightarrow> True | _ \<Rightarrow> False)"

definition count_of :: "(turn_action \<Rightarrow> bool) \<Rightarrow> turn_action list \<Rightarrow> nat" where
  "count_of P es = length (filter P es)"

lemma count_of_simps [simp]: "count_of P [] = 0" "count_of P (a # es) = (if P a then 1 else 0) + count_of P es"
  "count_of P (es @ es') = count_of P es + count_of P es'"
  by (simp_all add: count_of_def)

lemma routine_counts [simp]: "routine a \<Longrightarrow> \<not> is_request a" "routine a \<Longrightarrow> \<not> is_summary a"
  by (auto simp: is_request_def is_summary_def routine_def central_def split: turn_action.splits)

lemma counted_simps [simp]: "is_request (Requested q answer)" "is_summary (Summarized result err)"
  "\<not> is_request (Summarized result err)" "\<not> is_summary (Requested q answer)"
  "\<not> is_request (Emitted event)" "\<not> is_summary (Emitted event)"
  "\<not> is_request (Ran p uses us)" "\<not> is_summary (Ran p uses us)"
  by (simp_all add: is_request_def is_summary_def)

definition costs :: "(turn_action \<Rightarrow> bool) \<Rightarrow> nat \<Rightarrow> ('w, 'a) turn \<Rightarrow> bool" where
  "costs P n m = (\<forall>s. wp m (\<lambda>x es s'. count_of P es \<le> n) s)"

lemma costsD: "costs P n m \<Longrightarrow> m s = (x, es, s') \<Longrightarrow> count_of P es \<le> n"
  by (metis costs_def wpD)

lemma costs_then_dep:
  assumes "costs P a m" "\<And>s x es s'. m s = (x, es, s') \<Longrightarrow> costs P b (f x)"
  shows "costs P (a + b) (then_p m f)"
  unfolding costs_def wp_then
proof
  fix s
  show "wp m (\<lambda>x es w1. wp (f x) (\<lambda>y es' w2. count_of P (es @ es') \<le> a + b) w1) s"
  proof (rule wpI)
    fix x es s1
    assume m: "m s = (x, es, s1)"
    show "wp (f x) (\<lambda>y es' w2. count_of P (es @ es') \<le> a + b) s1"
      using costsD[OF assms(1) m] costsD[OF assms(2)[OF m]] by (intro wpI) fastforce
  qed
qed

lemma costs_then: "costs P a m \<Longrightarrow> (\<And>x. costs P b (f x)) \<Longrightarrow> costs P (a + b) (then_p m f)"
  by (rule costs_then_dep)

lemma costs_after: "costs P 0 m \<Longrightarrow> (\<And>x. costs P n (f x)) \<Longrightarrow> costs P n (then_p m f)"
  using costs_then[of P 0 m n f] by simp

lemma costs_before: "costs P n m \<Longrightarrow> (\<And>x. costs P 0 (f x)) \<Longrightarrow> costs P n (then_p m f)"
  using costs_then[of P n m 0 f] by simp

lemma costs_done: "costs P n (done_p x)"
  by (simp add: costs_def wp_simps)

lemma costs_after_e: "costs P 0 m \<Longrightarrow> (\<And>x. costs P n (f x)) \<Longrightarrow> costs P n (then_e m f)"
  unfolding then_e_def by (erule costs_after) (auto intro: costs_done split: sum.split)

lemma costs_before_e: "costs P n m \<Longrightarrow> (\<And>x. costs P 0 (f x)) \<Longrightarrow> costs P n (then_e m f)"
  unfolding then_e_def by (erule costs_before) (auto intro: costs_done split: sum.split)

lemma costs_case_sum: "(\<And>x. costs P n (f x)) \<Longrightarrow> (\<And>x. costs P n (g x)) \<Longrightarrow> costs P n (case r of Inl x \<Rightarrow> f x | Inr x \<Rightarrow> g x)"
  by (cases r) auto

lemma costs_case_option: "costs P n m \<Longrightarrow> (\<And>x. costs P n (f x)) \<Longrightarrow> costs P n (case r of None \<Rightarrow> m | Some x \<Rightarrow> f x)"
  by (cases r) auto

lemma costs_case_prod: "(\<And>x y. costs P n (f x y)) \<Longrightarrow> costs P n (case p of (x, y) \<Rightarrow> f x y)"
  by (cases p) auto

lemma costs_if: "costs P n m \<Longrightarrow> costs P n m' \<Longrightarrow> costs P n (if b then m else m')"
  by auto

lemma costs_case_bool: "costs P n m \<Longrightarrow> costs P n m' \<Longrightarrow> costs P n (case b of True \<Rightarrow> m | False \<Rightarrow> m')"
  by (cases b) auto

lemmas costs_rules = costs_done costs_case_sum costs_case_option costs_case_prod costs_case_bool costs_if

text \<open>What is no action costs nothing.\<close>

lemma costs_outside: "costs P 0 (outside g)"
  by (simp add: costs_def wp_simps split: prod.split)

lemma costs_look: "costs P 0 (look g)"
  by (simp add: costs_def wp_simps)

lemma costs_set_state: "costs P 0 (set_state f)"
  by (simp add: costs_def wp_simps)

lemmas costs_quiet = costs_after[OF costs_outside] costs_after[OF costs_look] costs_after[OF costs_set_state]

lemma costs_weaken: "costs P n m \<Longrightarrow> n \<le> n' \<Longrightarrow> costs P n' m"
  unfolding costs_def by (auto intro: wp_mono)

text \<open>A piece that performs no such action; a compaction asks for no answer.\<close>

interpretation no_request: compacting_turn "\<lambda>s es s'. count_of is_request es = 0"
  by unfold_locales auto

interpretation no_summary: turn_invariant "\<lambda>s es s'. count_of is_summary es = 0"
  by unfold_locales auto

lemma costs_free: "no_request.every m \<Longrightarrow> costs is_request n m" "no_summary.every m \<Longrightarrow> costs is_summary n m"
  unfolding costs_def by (auto intro!: wpI dest: no_request.everyD no_summary.everyD)

lemma no_request_act: "\<not> is_request a \<Longrightarrow> no_request.every (act a)"
  by (simp add: no_request.every_def wp_simps)

lemma no_summary_act: "\<not> is_summary a \<Longrightarrow> no_summary.every (act a)"
  by (simp add: no_summary.every_def wp_simps)

lemma free_set_state: "no_request.every (set_state f)" "no_summary.every (set_state f)"
  by (simp_all add: no_request.every_def no_summary.every_def wp_simps)

lemma no_request_tools: "no_request.every (executeToolUses sv r uses metadata ms)"
proof -
  have uses: "no_request.every (emit_uses uses)"
    by (induction uses) (simp_all add: no_request.every_done no_request.every_then no_request_act)
  have one: "no_request.every (handle_update sv r u)" for u
    unfolding handle_update_def Let_def
    by (intro no_request.turn_rules no_request.every_new_messages no_request_act) simp
  have rest: "no_request.every (handle_updates sv r us)" for us
  proof (induction us)
    case (Cons u us)
    show ?case unfolding handle_updates.simps by (intro no_request.turn_rules one Cons.IH)
  qed (simp add: no_request.every_done)
  have "no_request.every (ask_world (in_world g) (Ran p uses))" for g p
    by (simp add: no_request.every_def wp_simps in_world_def split: prod.split)
  then show ?thesis unfolding executeToolUses_def Let_def
    by (intro no_request.every_then no_request.every_look uses rest)
qed

lemma no_summary_tools: "no_summary.every (executeToolUses sv r uses metadata ms)"
proof -
  have uses: "no_summary.every (emit_uses uses)"
    by (induction uses) (simp_all add: no_summary.every_done no_summary.every_then no_summary_act)
  have one: "no_summary.every (handle_update sv r u)" for u
    unfolding handle_update_def Let_def
    by (intro no_summary.turn_rules no_summary.every_new_messages no_summary_act) simp
  have rest: "no_summary.every (handle_updates sv r us)" for us
  proof (induction us)
    case (Cons u us)
    show ?case unfolding handle_updates.simps by (intro no_summary.turn_rules one Cons.IH)
  qed (simp add: no_summary.every_done)
  have "no_summary.every (ask_world (in_world g) (Ran p uses))" for g p
    by (simp add: no_summary.every_def wp_simps in_world_def split: prod.split)
  then show ?thesis unfolding executeToolUses_def Let_def
    by (intro no_summary.every_then no_summary.every_look uses rest)
qed

text \<open>No round asks for a summary.\<close>

interpretation no_summary_round: asking_turn "\<lambda>s es s'. count_of is_summary es = 0" sv r0 for sv r0
  by unfold_locales (auto simp: no_summary_tools)

subsection \<open>Requests for an answer\<close>

lemma costs_ask: "costs is_request 1 (ask_world (in_world g) (\<lambda>x. Requested request (answer x)))"
  by (simp add: costs_def wp_simps in_world_def split: prod.split)

lemma costs_call: "costs is_request 1 (call_client client request)"
  unfolding call_client_def by (rule costs_ask)

lemma costs_stream: "costs is_request 0 (emit_stream m events)"
  by (rule costs_free, induction events) (simp_all add: no_request.every_done no_request.every_then no_request_act)

lemma costs_createMessage: "costs is_request 2 (createMessage sv r client request)"
proof (cases "rnUseStreaming r")
  case True
  show ?thesis
  proof (cases "mcStreamMessages client")
    case (Some stream)
    have opened: "costs is_request 1 (ask_world (in_world g) (\<lambda>(err, seen, acc). Requested q (answer err acc)))" for g q answer
      using costs_ask[of g q "\<lambda>(err, seen, acc). answer err acc"] by (simp add: case_prod_unfold)
    have "costs is_request 1 (case err of None \<Rightarrow> done_p (Inr (Finish (svEnv sv) acc))
        | Some e \<Rightarrow> if events = [] then call_client client (request\<lparr>reqStream := False\<rparr>) else done_p (Inl e))"
      for err acc and events :: "StreamEvent list"
      by (intro costs_case_option costs_if costs_done costs_call)
    then have "costs is_request (1 + 1) (createMessage sv r client request)"
      unfolding createMessage_def eqTrueI[OF True] Some prod.case bool.case option.case Let_def
      by (intro costs_then[OF opened] costs_case_prod costs_after[OF costs_stream])
    then show ?thesis by (rule costs_weaken) simp
  qed (simp add: createMessage_def True costs_weaken[OF costs_call])
qed (simp add: createMessage_def costs_weaken[OF costs_call])

lemma costs_build: "costs is_request n (then_e (applyToolResultBudget sv r history) (\<lambda>h. buildRequest sv r recall h model))"
  by (intro costs_free no_request.every_then_e no_request.every_budget no_request.every_buildRequest)

lemma costs_send_loop: "costs is_request (2 * Suc (length rest)) (send_loop sv r client recall history attempts model rest)"
proof (induction rest arbitrary: model attempts)
  case Nil
  have "costs is_request 2 (send_loop sv r client recall history attempts model [])"
    unfolding send_loop.simps[of _ _ _ _ _ _ _ "[]"] list.case
    by (intro costs_after[OF costs_build] costs_rules costs_before[OF costs_createMessage])
  then show ?case by simp
next
  case (Cons m rest)
  let ?n = "2 * Suc (length rest)"
  have again: "costs is_request ?n (if \<not> isFallbackEligible (svEnv sv) err then done_p (Some request, attempts @ [model], Inl err)
      else then_p (emit (EventRetry model err info)) (\<lambda>_. send_loop sv r client recall history (attempts @ [model]) m rest))"
    for err info request
    by (intro costs_rules costs_after[OF costs_free(1)[OF no_request_act]] Cons.IH) simp
  have "costs is_request (2 + ?n) (send_loop sv r client recall history attempts model (m # rest))"
    unfolding send_loop.simps[of _ _ _ _ _ _ _ "_ # _"] list.case
    by (intro costs_after[OF costs_build] costs_case_sum costs_done costs_then[OF costs_createMessage] again)
  then show ?case by simp
qed

lemma costs_round: "costs is_request (2 * Suc (length (rnFallbackModels r))) (turn_round sv client metadata await (r, h, res))"
proof -
  have "costs is_request (2 * Suc (length (rnFallbackModels r))) (send sv r client await h)"
    unfolding send_def
    by (intro costs_quiet costs_rules costs_send_loop)
  then show ?thesis unfolding turn_round_def prod.case Let_def
    by (rule costs_before)
       (intro costs_free no_request.every_rules no_request.every_outside no_request.every_or_return no_request.every_unless_error
          no_request.every_appendTranscript no_request.every_finish no_request_tools no_request.every_add_tool_messages no_request_act; simp)
qed

lemma costs_rounds:
  "costs is_request (left * (2 * Suc (length (rnFallbackModels r)))) (rounds_loop sv client metadata limit left await (r, h, res))"
proof (induction left arbitrary: await r h res)
  case (Suc left)
  let ?n = "2 * Suc (length (rnFallbackModels r))"
  have "costs is_request (?n + left * ?n) (rounds_loop sv client metadata limit (Suc left) await (r, h, res))"
    unfolding rounds_loop.simps
  proof (rule costs_then_dep[OF costs_round])
    fix s x es s'
    assume x: "turn_round sv client metadata await (r, h, res) s = (x, es, s')"
    show "costs is_request (left * ?n) (case x of Inl e \<Rightarrow> done_p e
        | Inr st \<Rightarrow> rounds_loop sv client metadata limit left (\<lambda>w. (Inr (svRecall sv), w)) st)"
    proof (cases x)
      case (Inr st)
      obtain r' h' res' where st: "st = (r', h', res')" by (cases st)
      then have "rnFallbackModels r' = rnFallbackModels r"
        using turn_round_runner x Inr only_model_fields(2) by blast
      then show ?thesis using Suc.IH[of r'] Inr st by simp
    qed (simp add: costs_done)
  qed
  then show ?case by (rule costs_weaken) simp
qed (simp add: costs_done)

subsection \<open>A turn\<close>

lemma costs_with_tools: "(\<And>tools. costs P n (body (r\<lparr>rnTools := tools\<rparr>))) \<Longrightarrow> costs P n (with_tools sv r res body)"
  unfolding with_tools_def
  by (intro costs_quiet costs_rules costs_before) auto

abbreviation request_bound :: "'w Runner \<Rightarrow> nat" where
  "request_bound r \<equiv> nat (maxToolRounds r) * (2 * Suc (length (rnFallbackModels r)))"

lemma costs_query: "costs is_request (request_bound r) (query_turn sv client r h res)"
  unfolding query_turn_def
  by (intro costs_after[OF costs_free(1)[OF no_request.every_before_rounds]] costs_rules costs_quiet
      costs_rounds)

lemma no_request_initial: "no_request.every (initialUserMessages sv r user)"
  unfolding initialUserMessages_def by (intro no_request.turn_rules free_set_state)

lemma costs_turn: "costs is_request (request_bound r) (RunTurn sv r history user)"
proof -
  have same: "maxToolRounds (r\<lparr>rnModel := m, rnTools := t\<rparr>) = maxToolRounds r"
    "rnFallbackModels (r\<lparr>rnModel := m, rnTools := t\<rparr>) = rnFallbackModels r" for m t
    by (simp_all add: maxToolRounds_def)
  have query: "costs is_request (request_bound r) (query_turn sv client (r\<lparr>rnModel := m, rnTools := t\<rparr>) h res)" for m t client h res
    using costs_query[of "r\<lparr>rnModel := m, rnTools := t\<rparr>"] unfolding same .
  have asked: "costs is_request (request_bound r) (with_tools sv (r\<lparr>rnModel := m\<rparr>) res (\<lambda>r. query_turn sv client r h res))"
    for m res client h
    by (intro costs_with_tools query)
  show ?thesis unfolding RunTurn_def Let_def
    by (intro costs_rules costs_quiet
        costs_after[OF costs_free(1)[OF no_request_initial]] costs_after[OF costs_free(1)[OF no_request.every_submit]]
        costs_after[OF costs_free(1)[OF no_request.every_add_messages]]
        costs_free(1)[OF no_request.every_local_text] costs_free(1)[OF no_request.every_local_turn] asked)
qed

subsection \<open>Requests for a summary\<close>

lemma summary_once: "costs is_summary 1 (ask_summary sv c history trigger tokens u)"
  by (simp add: costs_def ask_summary_def wp_simps in_world_def split: prod.split)

lemma summary_hooks: "costs is_summary 0 (runPreCompactHooks sv r trigger tokens n u x)"
  by (rule costs_free, rule no_summary.every_preCompact)

lemma summary_event: "costs is_summary 0 (emit event)"
  by (intro costs_free no_summary_act) simp

lemma summary_auto: "costs is_summary 1 (maybeAutoCompact sv r history)"
  unfolding maybeAutoCompact_def Let_def
  by (intro costs_quiet costs_after[OF summary_hooks] costs_before[OF summary_once] costs_after[OF summary_event] costs_rules)

lemma summary_manual: "costs is_summary 1 (manualCompact sv r history u)"
  unfolding manualCompact_def Let_def
  by (intro costs_quiet costs_after[OF summary_hooks] costs_before[OF summary_once] costs_after[OF summary_event]
      costs_after_e[OF costs_free(2)[OF no_summary.every_unless_error[OF no_summary.every_appendCompactTranscript]]] costs_rules)

lemma summary_before: "costs is_summary 1 (before_rounds sv r history res)"
  unfolding before_rounds_def Let_def
  by (intro costs_quiet costs_after[OF costs_free(2)[OF no_summary.every_warning]] costs_before[OF summary_auto]
      costs_after_e[OF costs_free(2)[OF no_summary.every_or_return[OF no_summary.every_announcement]]]
      costs_after_e[OF costs_free(2)[OF no_summary.every_or_return[OF no_summary.every_unless_error]]]
      costs_after_e[OF costs_case_option] costs_after[OF summary_event] costs_rules
      no_summary.every_appendCompactTranscript no_summary.every_appendTranscript)

lemma summary_rounds: "costs is_summary 0 (rounds_loop sv client metadata limit left await (r, h, res))"
  by (rule costs_free, rule no_summary_round.every_rounds[OF refl])

lemma summary_query: "costs is_summary 1 (query_turn sv client r h res)"
  unfolding query_turn_def by (intro costs_before[OF summary_before] costs_rules costs_quiet summary_rounds)

lemma summary_text: "costs is_summary n (appendLocalTextResult sv r res h answer)"
  by (rule costs_free, rule no_summary.every_local_text)

lemma summary_local: "costs is_summary 1 (local_turn sv r res original h local)"
proof (cases local)
  case (Some l)
  have "costs is_summary 1 (then_p (outside g) (\<lambda>answer. case answer of
      Inl err \<Rightarrow> done_p (res, Some err) | Inr answer \<Rightarrow> appendLocalTextResult sv r res h answer))" for g
    by (intro costs_quiet costs_rules summary_text)
  moreover have "costs is_summary 1 (then_p (manualCompact sv r original (lcValue l)) (\<lambda>x. done_p (f x)))"
    for f :: "call_error + CompactResult \<Rightarrow> Result \<times> call_error option"
    by (intro costs_before[OF summary_manual] costs_done)
  ultimately show ?thesis unfolding local_turn_def Some option.case
    by (cases "lcType l") (simp_all only: LocalCommandResultType.case costs_done)
qed (simp add: local_turn_def costs_done)

lemma summary_turn: "costs is_summary 1 (RunTurn sv r history user)"
proof -
  have initial: "no_summary.every (initialUserMessages sv r user)" for user
    unfolding initialUserMessages_def by (intro no_summary.turn_rules free_set_state)
  show ?thesis unfolding RunTurn_def Let_def
    by (intro costs_rules costs_quiet costs_after[OF costs_free(2)[OF initial]]
        costs_after[OF costs_free(2)[OF no_summary.every_submit]] costs_after[OF costs_free(2)[OF no_summary.every_add_messages]]
        summary_text summary_local costs_with_tools summary_query)
qed

end
