(* ===== verification/TurnChain.thy ===== *)
theory TurnChain
  imports TurnLaws
begin

text \<open>
  The history of a turn: in it every message names the one before it as its parent, and unless the
  conversation is compacted, what a turn adds to it is what its result holds. And the models that a
  request is sent to.
\<close>

lemma gives_bind: "gives Q m \<Longrightarrow> (\<And>x. Q x \<Longrightarrow> gives P (f x)) \<Longrightarrow> gives P (then_p m f)"
  unfolding gives_def wp_then by (auto intro: wp_mono)

lemma gives_bind_e:
  "gives Q m \<Longrightarrow> (\<And>e. Q (Inl e) \<Longrightarrow> P (Inl e)) \<Longrightarrow> (\<And>x. Q (Inr x) \<Longrightarrow> gives P (f x)) \<Longrightarrow> gives P (then_e m f)"
  unfolding then_e_def by (erule gives_bind) (auto intro: gives_done split: sum.split)

lemma gives_outside: "(\<And>w. Q (fst (g w))) \<Longrightarrow> gives Q (outside g)"
  by (auto simp: gives_def wp_simps in_world_def split: prod.split) (metis fst_conv)

lemma gives_asked: "(\<And>w. Q (fst (g w))) \<Longrightarrow> gives Q (ask_world (in_world g) f)"
  by (auto simp: gives_def wp_simps in_world_def split: prod.split) (metis fst_conv)

lemma gives_anything: "gives (\<lambda>_. True) m"
  by (simp add: gives_def wp_def split: prod.split)

lemma gives_case_sum:
  "(\<And>x. r = Inl x \<Longrightarrow> gives P (f x)) \<Longrightarrow> (\<And>x. r = Inr x \<Longrightarrow> gives P (g x)) \<Longrightarrow>
   gives P (case r of Inl x \<Rightarrow> f x | Inr x \<Rightarrow> g x)"
  by (cases r) auto

lemma gives_case_option:
  "(r = None \<Longrightarrow> gives P m) \<Longrightarrow> (\<And>x. r = Some x \<Longrightarrow> gives P (f x)) \<Longrightarrow> gives P (case r of None \<Rightarrow> m | Some x \<Rightarrow> f x)"
  by (cases r) auto

lemma gives_pair: "(\<And>x y. p = (x, y) \<Longrightarrow> gives P (f x y)) \<Longrightarrow> gives P (case p of (x, y) \<Rightarrow> f x y)"
  by (cases p) auto

lemma gives_returned: "gives (\<lambda>x. case x of Inl (v, e) \<Rightarrow> v = value | Inr _ \<Rightarrow> True) (or_return value m)"
  unfolding or_return_def by (rule gives_bind[OF gives_anything]) (auto intro: gives_done split: sum.split)

lemma gives_passed:
  "gives P m \<Longrightarrow> gives (\<lambda>x. case x of Inl (v, e) \<Rightarrow> v = value | Inr y \<Rightarrow> P (Inr y)) (or_return value m)"
  unfolding or_return_def by (erule gives_bind) (auto intro: gives_done split: sum.split)

lemma wp_mono_gives: "gives P m \<Longrightarrow> (\<And>x. P x \<Longrightarrow> Q x) \<Longrightarrow> gives Q m"
  unfolding gives_def by (auto intro: wp_mono)

section \<open>The chain\<close>

definition chain_inv :: "Message list \<Rightarrow> Message list \<Rightarrow> Result \<Rightarrow> bool" where
  "chain_inv base history result = (chained history \<and> (rsCompacted result \<or> history = base @ rsMessages result))"

definition chain_end :: "Message list \<Rightarrow> Result \<Rightarrow> bool" where
  "chain_end base result = (rsCompacted result \<or> chained (base @ rsMessages result))"

lemma chain_inv_end: "chain_inv base history result \<Longrightarrow> chain_end base result"
  by (auto simp: chain_inv_def chain_end_def)

lemma chain_inv_add: "chain_inv base history result \<Longrightarrow> chained (history @ [m]) \<Longrightarrow>
    chain_inv base (history @ [m]) (result\<lparr>rsMessages := rsMessages result @ [m]\<rparr>)"
  by (auto simp: chain_inv_def)

definition appended :: "Message list \<Rightarrow> Message list \<times> Message \<Rightarrow> bool" where
  "appended history p = (fst p = history @ [snd p] \<and> chained (fst p))"

text \<open>What a step of a turn leaves: it ends, or it goes on with the history and the result.\<close>

definition step_ok :: "Message list \<Rightarrow> (Result \<times> call_error option) + Message list \<times> Result \<Rightarrow> bool" where
  "step_ok base x = (case x of Inl (result, _) \<Rightarrow> chain_end base result | Inr (history, result) \<Rightarrow> chain_inv base history result)"

lemma gives_end: "chain_end base result \<Longrightarrow> gives (\<lambda>x. chain_end base (fst x)) (done_p (result, err))"
  by (intro gives_done) simp

lemma recorded_step:
  assumes "chain_end base result" "\<And>u. gives (step_ok base) (f u)"
  shows "gives (step_ok base) (then_e (or_return result m) f)"
  by (rule gives_bind_e[OF gives_returned]) (use assms in \<open>auto simp: step_ok_def\<close>)

lemma gives_append:
  assumes "proper_ids (newID sv)" "chained history"
  shows "gives (appended history) (outside (appendMessage (newID sv) history m))"
proof (rule gives_outside)
  fix w
  obtain history' m' w' where a: "appendMessage (newID sv) history m w = ((history', m'), w')" by (metis prod_cases3 surj_pair)
  show "appended history (fst (appendMessage (newID sv) history m w))"
    using appendMessage_chained[OF assms a] by (auto simp: appended_def a)
qed

lemma chain_add_messages:
  assumes "proper_ids (newID sv)"
  shows "chained history \<Longrightarrow> gives (\<lambda>x. case x of Inl (result, _) \<Rightarrow> result = blank_result
      | Inr (history', added') \<Rightarrow> chained history' \<and> (\<exists>new. history' = history @ new \<and> added' = added @ new))
    (add_messages sv r history added ms)"
proof (induction ms arbitrary: history added)
  case Nil
  then show ?case by (auto intro: gives_done)
next
  case (Cons m ms)
  show ?case unfolding add_messages.simps
  proof (rule gives_bind[OF gives_append[OF assms Cons.prems]], goal_cases)
    case (1 p)
    obtain history' m' where p: "p = (history', m')" by (cases p)
    then have p': "history' = history @ [m']" "chained history'" using 1 by (auto simp: appended_def)
    show ?case unfolding p prod.case
    proof (rule gives_bind_e[OF gives_returned], goal_cases)
      case (2 u)
      show ?case
        by (rule gives_then, rule wp_mono_gives[OF Cons.IH[OF p'(2), of "added @ [m']"]]) (auto simp: p'(1) split: sum.splits)
    qed (auto split: prod.split)
  qed
qed

lemma chain_local_text:
  assumes "proper_ids (newID sv)" "chain_inv base history result"
  shows "gives (\<lambda>x. chain_end base (fst x)) (appendLocalTextResult sv r result history answer)"
proof -
  have "chained history" using assms(2) by (simp add: chain_inv_def)
  note append = gives_append[OF assms(1) this]
  show ?thesis unfolding appendLocalTextResult_def
  proof (rule gives_then, rule gives_bind[OF append], goal_cases)
    case (1 message p)
    obtain history' m' where p: "p = (history', m')" by (cases p)
    then have "chain_inv base (history @ [m']) (result\<lparr>rsMessages := rsMessages result @ [m']\<rparr>)"
      using 1 chain_inv_add[OF assms(2)] by (auto simp: appended_def)
    then show ?case unfolding p prod.case Let_def
      by (intro gives_then gives_case_option gives_end chain_inv_end)
  qed
qed

lemma chain_local_turn:
  assumes "proper_ids (newID sv)" "chain_inv base history result"
  shows "gives (\<lambda>x. chain_end base (fst x)) (local_turn sv r result original history local)"
proof (cases local)
  case None
  then show ?thesis unfolding local_turn_def using chain_inv_end[OF assms(2)] by (auto intro: gives_done)
next
  case (Some l)
  note e = chain_inv_end[OF assms(2)] and t = chain_local_text[OF assms]
  have other: "gives (\<lambda>x. chain_end base (fst x)) (then_p (outside g) (\<lambda>answer. case answer of
      Inl err \<Rightarrow> done_p (result, Some err) | Inr answer \<Rightarrow> appendLocalTextResult sv r result history answer))" for g
    by (intro gives_then gives_case_sum gives_end[OF e] t)
  show ?thesis unfolding local_turn_def Some option.case
    by (cases "lcType l"; simp only: LocalCommandResultType.case)
       (intro other gives_end e gives_then gives_done; use e in \<open>auto simp: chain_end_def split: sum.split\<close>)+
qed

lemma chain_tool_messages:
  assumes "proper_ids (newID sv)"
  shows "chain_inv base history result \<Longrightarrow> gives (step_ok base) (add_tool_messages sv r history result ms)"
proof (induction ms arbitrary: history result)
  case Nil
  then show ?case by (auto intro: gives_done simp: step_ok_def)
next
  case (Cons m ms)
  then have "chained history" by (simp add: chain_inv_def)
  show ?case unfolding add_tool_messages.simps
  proof (rule gives_bind[OF gives_append[OF assms \<open>chained history\<close>]], goal_cases)
    case (1 p)
    obtain history' m' where p: "p = (history', m')" by (cases p)
    then have inv: "chain_inv base history' (result\<lparr>rsMessages := rsMessages result @ [m']\<rparr>)"
      using 1 chain_inv_add[OF Cons.prems] by (auto simp: appended_def)
    show ?case unfolding p prod.case Let_def
      by (rule recorded_step[OF chain_inv_end[OF inv] Cons.IH[OF inv]])
  qed
qed

lemma Compact_plan:
  assumes "Compact env src c history trigger tokens u w = ((result, None), w')" "crsPlan result = Some plan"
  shows "\<exists>options w1 w2. poPreserveRecent options \<and> BuildPlan env src history options w1 = (plan, w2)"
proof -
  obtain createMessage where client: "crClient c = Some createMessage"
    using assms(1) by (auto simp: Compact_def split: option.splits)
  obtain request w1 where request: "BuildRequest src c history w = (request, w1)" by fastforce
  obtain reply w2 where reply: "createMessage request w1 = (reply, w2)" by fastforce
  obtain response where response: "reply = Inr response"
    using assms(1) by (cases reply) (auto simp: Compact_def client request reply)
  let ?options = "\<lparr>poTrigger = trigger, poPreTokens = tokens, poUserContext = u, poKeepLast = crKeepLast c,
      poSummary = TrimSpace (responseText env response), poBoundaryUUID = [], poSummaryUUID = [], poPreserveRecent = True\<rparr>"
  obtain p w3 where p: "BuildPlan env src history ?options w2 = (p, w3)" by fastforce
  then have "p = plan" using assms by (auto simp: Compact_def client request reply response)
  then show ?thesis using p by (intro exI[of _ ?options]) auto
qed

lemma chain_autoCompact:
  assumes "proper_ids (newID sv)" "chained history"
  shows "gives (\<lambda>x. case x of None \<Rightarrow> True | Some (plan, _) \<Rightarrow> chained (planOutput plan)) (maybeAutoCompact sv r history)"
proof -
  have none: "gives (\<lambda>x. case x of None \<Rightarrow> True | Some (plan, _) \<Rightarrow> chained (planOutput plan)) (done_p None)"
    by (simp add: gives_done)
  have compact: "gives (\<lambda>(result, err). \<forall>plan. err = None \<and> crsPlan result = Some plan \<longrightarrow> chained (planOutput plan))
      (ask_summary sv c history trigger tokens u)" for c trigger tokens u
    unfolding ask_summary_def
  proof (rule gives_asked)
    fix w
    obtain result err w' where run: "Compact (svEnv sv) (svSources sv) c history trigger tokens u w = ((result, err), w')"
      by (metis prod_cases3 surj_pair)
    show "case fst (Compact (svEnv sv) (svSources sv) c history trigger tokens u w) of
        (result, err) \<Rightarrow> \<forall>plan. err = None \<and> crsPlan result = Some plan \<longrightarrow> chained (planOutput plan)"
    proof -
      have "chained (planOutput plan)" if "err = None" "crsPlan result = Some plan" for plan
      proof -
        have "Compact (svEnv sv) (svSources sv) c history trigger tokens u w = ((result, None), w')"
          using run that(1) by simp
        from Compact_plan[OF this that(2)] obtain options w1 w2
          where "poPreserveRecent options" "BuildPlan (svEnv sv) (svSources sv) history options w1 = (plan, w2)" by blast
        then show ?thesis by (rule BuildPlan_chained[OF assms])
      qed
      then show ?thesis using run by simp
    qed
  qed
  have whole: "gives (\<lambda>x. case x of None \<Rightarrow> True | Some (plan, _) \<Rightarrow> chained (planOutput plan))
      (then_p (ask_summary sv c history trigger tokens u) (\<lambda>(result, err).
        case (err, crsPlan result) of
          (None, Some plan) \<Rightarrow> then_p a (\<lambda>_. done_p (Some (plan, result)))
        | _ \<Rightarrow> then_p b (\<lambda>_. then_p (emit (EventCompact result err)) (\<lambda>_. done_p None))))"
    for c trigger tokens u and a b :: "('a, unit) turn"
  proof (rule gives_bind[OF compact], goal_cases)
    case (1 x)
    obtain result err where "x = (result, err)" by (cases x)
    with 1 show ?case by (cases err; cases "crsPlan result") (auto intro!: gives_then gives_done)
  qed
  show ?thesis unfolding maybeAutoCompact_def Let_def
  proof (intro gives_then gives_case_option gives_if none, goal_cases)
    case (1 x config h)
    show ?case
    proof (cases h)
      case (Inr p)
      obtain additional blocked where p: "p = (additional, blocked)" by (cases p)
      show ?thesis
      proof (cases "blocked = True")
        case False
        then have blocked: "blocked = False" by simp
        show ?thesis unfolding Inr p blocked sum.case prod.case bool.case by (rule whole[unfolded prod.case])
      qed (simp add: Inr p none)
    qed (simp add: none)
  qed
qed

lemma chain_announcement:
  assumes "proper_ids (newID sv)" "chained history"
  shows "gives (\<lambda>x. case x of Inr (Some p) \<Rightarrow> appended history p | _ \<Rightarrow> True)
    (maybeAppendDeferredToolsDeltaAttachment sv r history)"
proof -
  have last: "gives (\<lambda>x. case x of Inr (Some p) \<Rightarrow> appended history p | _ \<Rightarrow> True)
      (then_p (outside (appendMessage (newID sv) history m)) (\<lambda>y. done_p (Inr (Some y))))" for m
    by (rule gives_bind[OF gives_append[OF assms]]) (simp add: gives_done)
  show ?thesis unfolding maybeAppendDeferredToolsDeltaAttachment_def Let_def
    by (intro gives_then gives_then_e gives_if gives_case_option last; (rule gives_done)?; simp)
qed

lemma chain_before_rounds:
  assumes "proper_ids (newID sv)" "chain_inv base history result"
  shows "gives (step_ok base) (before_rounds sv r history result)"
proof -
  have "chained history" using assms(2) by (simp add: chain_inv_def)
  have announce: "gives (step_ok base)
      (then_e (or_return result (maybeAppendDeferredToolsDeltaAttachment sv r history)) (\<lambda>announced. case announced of
         None \<Rightarrow> done_p (Inr (history, result))
       | Some (history, attachment) \<Rightarrow>
         let result = result\<lparr>rsMessages := rsMessages result @ [attachment]\<rparr>
         in then_e (or_return result (unless_error (appendTranscript sv r attachment))) (\<lambda>_. done_p (Inr (history, result)))))"
    if inv: "chain_inv base history result" for history result
  proof -
    have "chained history" using inv by (simp add: chain_inv_def)
    show ?thesis
    proof (rule gives_bind_e[OF gives_passed[OF chain_announcement[OF assms(1) \<open>chained history\<close>]]], goal_cases)
      case (2 announced)
      show ?case
      proof (cases announced)
        case (Some p)
        obtain history' m where p: "p = (history', m)" by (cases p)
        have "chain_inv base history' (result\<lparr>rsMessages := rsMessages result @ [m]\<rparr>)"
          using 2 Some p chain_inv_add[OF inv] by (auto simp: appended_def)
        then show ?thesis unfolding Some p option.case prod.case Let_def
          by (intro recorded_step chain_inv_end gives_done) (auto simp: step_ok_def)
      qed (use inv in \<open>auto intro!: gives_done simp: step_ok_def\<close>)
    qed (use chain_inv_end[OF inv] in \<open>auto simp: step_ok_def\<close>)
  qed
  show ?thesis unfolding before_rounds_def
  proof (rule gives_then, rule gives_then, rule gives_bind[OF chain_autoCompact[OF assms(1) \<open>chained history\<close>]], goal_cases)
    case (1 _ _ compacted)
    have "gives (step_ok base) (case compacted of None \<Rightarrow> done_p (Inr (history, result))
       | Some (plan, compactResult) \<Rightarrow>
         let result = result\<lparr>rsCompacted := True, rsCompact := Some compactResult,
               rsMessages := rsMessages result @ [planBoundary plan, planSummary plan]\<rparr>
         in then_e (or_return result (unless_error (appendCompactTranscript sv plan))) (\<lambda>_.
            then_p (emit (EventCompact compactResult None)) (\<lambda>_. done_p (Inr (planOutput plan, result)))))"
    proof (cases compacted)
      case (Some p)
      obtain plan compactResult where p: "p = (plan, compactResult)" by (cases p)
      then have "chained (planOutput plan)" using 1 Some by simp
      then show ?thesis unfolding Some p option.case prod.case Let_def
        by (intro recorded_step gives_then gives_done) (auto simp: step_ok_def chain_end_def chain_inv_def)
    qed (use assms(2) in \<open>auto intro!: gives_done simp: step_ok_def\<close>)
    then show ?case
      by (rule gives_bind_e) (use announce in \<open>auto simp: step_ok_def\<close>)
  qed
qed

text \<open>A round keeps it, with the runner that goes along.\<close>

definition round_ok ::
  "Message list \<Rightarrow> (Result \<times> call_error option) + 'w Runner \<times> Message list \<times> Result \<Rightarrow> bool" where
  "round_ok base x = (case x of Inl (result, _) \<Rightarrow> chain_end base result | Inr (_, history, result) \<Rightarrow> chain_inv base history result)"

lemma chain_round:
  assumes "proper_ids (newID sv)" "chain_inv base history result"
  shows "gives (round_ok base) (turn_round sv client metadata await (r, history, result))"
proof -
  have "chained history" using assms(2) by (simp add: chain_inv_def)
  note append = gives_append[OF assms(1) this]
  have same: "chain_inv base h (res\<lparr>rsFinalRequest := q, rsModelsAttempt := ms\<rparr>) = chain_inv base h res"
    "chain_inv base h (res\<lparr>rsToolResults := ts\<rparr>) = chain_inv base h res" for h res q ms ts
    by (simp_all add: chain_inv_def)
  have stop: "round_ok base (Inl (res, e))" if "chain_end base res" for res and e :: "call_error option"
    using that by (simp add: round_ok_def)
  have tools: "gives (round_ok base) (then_p (executeToolUses sv r uses metadata ms) (\<lambda>(toolMessages, toolResults).
      then_e (add_tool_messages sv r h res toolMessages) (\<lambda>(h, res).
        done_p (Inr (model_of_messages r toolMessages, h, res\<lparr>rsToolResults := rsToolResults res @ toolResults\<rparr>)))))"
    if "chain_inv base h res" for h res uses ms
  proof (intro gives_then gives_prod, rule gives_bind_e[OF chain_tool_messages[OF assms(1) that]], goal_cases)
    case (2 x toolMessages toolResults y)
    then show ?case by (cases y) (auto intro!: gives_done simp: step_ok_def round_ok_def same)
  qed (auto simp: step_ok_def round_ok_def)
  have finish: "gives (round_ok base) (then_p (finish_turn sv r res response m) (\<lambda>e. done_p (Inl e)))"
    if "chain_end base res" for res response m
  proof (rule gives_bind)
    show "gives (\<lambda>x. fst x = res) (finish_turn sv r res response m)"
      unfolding finish_turn_def by (intro gives_then gives_case_option gives_done; simp)
  qed (use that in \<open>auto intro!: gives_done simp: round_ok_def\<close>)
  show ?thesis unfolding turn_round_def prod.case Let_def
  proof (rule gives_then, rule gives_prod, rule gives_prod, rule gives_bind_e[OF gives_returned], goal_cases)
    case (1 x request y attempts answer e)
    then show ?case using chain_inv_end[OF assms(2)] by (cases e) (simp add: round_ok_def chain_end_def)
  next
    case (2 x request y attempts answer response)
    let ?res = "result\<lparr>rsFinalRequest := request, rsModelsAttempt := rsModelsAttempt result @ attempts\<rparr>"
    show ?case
    proof (rule gives_then, rule gives_bind[OF append], goal_cases)
      case (1 x p)
      obtain h m where p: "p = (h, m)" by (cases p)
      then have "h = history @ [m]" "chained h" using 1 by (auto simp: appended_def)
      then have inv: "chain_inv base h (answered ?res m response)"
        using assms(2) by (auto simp: chain_inv_def answered_def)
      show ?case unfolding p prod.case
      proof (rule gives_bind_e[OF gives_returned], goal_cases)
        case (1 e)
        then show ?case using chain_inv_end[OF inv] by (cases e) (simp add: round_ok_def)
      next
        case (2 u)
        show ?case by (intro gives_then gives_if finish chain_inv_end[OF inv] tools inv)
      qed
    qed
  qed
qed

lemma chain_rounds:
  assumes "proper_ids (newID sv)"
  shows "chain_inv base history result \<Longrightarrow>
    gives (\<lambda>x. chain_end base (fst x)) (rounds_loop sv client metadata limit left await (r, history, result))"
proof (induction left arbitrary: await r history result)
  case 0
  show ?case unfolding rounds_loop.simps by (rule gives_end[OF chain_inv_end[OF 0]])
next
  case (Suc left)
  show ?case unfolding rounds_loop.simps
  proof (rule gives_bind[OF chain_round[OF assms Suc.prems]], goal_cases)
    case (1 x)
    show ?case
    proof (cases x)
      case (Inr st)
      then show ?thesis using 1 Suc.IH by (cases st) (simp add: round_ok_def)
    qed (use 1 in \<open>auto intro!: gives_done simp: round_ok_def split: prod.splits\<close>)
  qed
qed

lemma chain_query:
  assumes "proper_ids (newID sv)" "chain_inv base history result"
  shows "gives (\<lambda>x. chain_end base (fst x)) (query_turn sv client r history result)"
  unfolding query_turn_def
proof (rule gives_bind[OF chain_before_rounds[OF assms]], goal_cases)
  case (1 x)
  show ?case
  proof (cases x)
    case (Inr p)
    then show ?thesis using 1 chain_rounds[OF assms(1)] by (cases p) (auto intro!: gives_then simp: step_ok_def)
  qed (use 1 in \<open>auto intro!: gives_done simp: step_ok_def split: prod.splits\<close>)
qed

lemma chain_turn:
  assumes "proper_ids (newID sv)" "chained history"
  shows "gives (\<lambda>x. chain_end history (fst x)) (RunTurn sv r history user)"
proof -
  have blank: "chain_end history blank_result" using assms(2) by (simp add: chain_end_def blank_result_def)
  have with_tools: "gives (\<lambda>x. chain_end history (fst x)) (with_tools sv r result body)"
    if "\<And>r. gives (\<lambda>x. chain_end history (fst x)) (body r)" "chain_end history result" for r result body
    unfolding with_tools_def
  proof (rule gives_then, rule gives_case_sum, rule gives_end[OF that(2)], rule gives_prod, rule gives_bind)
    show "gives (\<lambda>x. chain_end history (fst x)) (then_p (outside (svAdvancedTools sv tools)) (\<lambda>advanced. case advanced of
        Inl err \<Rightarrow> done_p (result, Some err) | Inr tools \<Rightarrow> body (r\<lparr>rnTools := tools\<rparr>)))" for tools
      by (rule gives_then, rule gives_case_sum, rule gives_end[OF that(2)], rule that(1))
  qed (intro gives_then gives_done)
  have added: "gives (\<lambda>x. case x of Inl (result, _) \<Rightarrow> chain_end history result
      | Inr (h, added) \<Rightarrow> chain_inv history h (blank_result\<lparr>rsMessages := added\<rparr>)) (add_messages sv r history [] ms)" for r ms
    by (rule wp_mono_gives[OF chain_add_messages[OF assms]])
       (use blank in \<open>auto simp: chain_inv_def split: sum.splits\<close>)
  have asked: "gives (\<lambda>x. chain_end history (fst x)) (case blocked of
      Some block \<Rightarrow> appendLocalTextResult sv r result h block
    | None \<Rightarrow>
      if \<not> shouldQuery then local_turn sv r result history h localResult
      else then_p m (\<lambda>_. with_tools sv r result (\<lambda>r. query_turn sv client r h result)))"
    if "chain_inv history h result" for r result h blocked shouldQuery localResult client and m :: "('a, unit) turn"
  proof (cases blocked)
    case None
    show ?thesis unfolding None option.case
      by (rule gives_if, rule chain_local_turn[OF assms(1) that],
          rule gives_then, rule with_tools, rule chain_query[OF assms(1) that], rule chain_inv_end[OF that])
  next
    case (Some why)
    show ?thesis unfolding Some option.case by (rule chain_local_text[OF assms(1) that])
  qed
  show ?thesis unfolding RunTurn_def Let_def
  proof (rule gives_case_option, rule gives_end[OF blank],
      rule gives_then, rule gives_then, rule gives_then, rule gives_then,
      rule gives_case_sum, rule gives_end[OF blank], rule gives_prod, rule gives_prod,
      rule gives_then, rule gives_then, rule gives_case_sum, rule gives_end[OF blank], rule gives_prod,
      rule gives_bind[OF added], rule gives_case_sum, goal_cases)
    case 1
    then show ?case by (auto intro!: gives_done split: prod.splits)
  next
    case 2
    then show ?case by (intro gives_pair asked) simp
  qed
qed

end
