(* ===== verification/TurnTalk.thy ===== *)
theory TurnTalk
  imports TurnChain
begin

text \<open>
  The talk of a turn: the answers of the model, the messages announced for them, the tool uses
  announced, and the results reported. A round has one answer at most, announces the uses that the
  answer asks for, and reports one result for each.
\<close>

section \<open>What is said\<close>

definition answers :: "turn_action list \<Rightarrow> Response list" where
  "answers es = concat (map (\<lambda>a. case a of Requested _ (Some response) \<Rightarrow> [response] | _ \<Rightarrow> []) es)"

definition announced_answers :: "turn_action list \<Rightarrow> ContentBlock list list" where
  "announced_answers es = concat (map (\<lambda>a. case a of Emitted (EventAssistantMessage m _) \<Rightarrow> [msgContent m] | _ \<Rightarrow> []) es)"

definition asked_blocks :: "turn_action list \<Rightarrow> ContentBlock list" where
  "asked_blocks es = filter (\<lambda>b. blockType b = ContentToolUse) (concat (announced_answers es))"

definition announced_uses :: "turn_action list \<Rightarrow> ToolUse list" where
  "announced_uses es = concat (map (\<lambda>a. case a of Emitted (EventToolUse use) \<Rightarrow> [use] | _ \<Rightarrow> []) es)"

definition result_ids :: "turn_action list \<Rightarrow> ID list" where
  "result_ids es = concat (map (\<lambda>a. case a of Emitted (EventToolResult m _) \<Rightarrow> map blockToolUseID (msgContent m) | _ \<Rightarrow> []) es)"

text \<open>The use that a block of an answer asks for. A block without an ID gets a fresh one.\<close>

definition use_for :: "ContentBlock \<Rightarrow> ToolUse \<Rightarrow> bool" where
  "use_for b use =
     (useName use = blockName b \<and> useInput use = normalizeRunInput (blockInput b) \<and> (blockID b \<noteq> [] \<longrightarrow> useID use = blockID b))"

definition answered_in_order :: "turn_action list \<Rightarrow> bool" where
  "answered_in_order es =
     (subseq (announced_answers es) (map respContent (answers es)) \<and>
      list_all2 use_for (asked_blocks es) (announced_uses es) \<and>
      result_ids es = map useID (announced_uses es))"

lemmas said_defs = answers_def announced_answers_def asked_blocks_def announced_uses_def result_ids_def

lemma answered_in_order_Nil: "answered_in_order []"
  by (simp add: answered_in_order_def said_defs)

lemma answered_in_order_append: "answered_in_order es \<Longrightarrow> answered_in_order es' \<Longrightarrow> answered_in_order (es @ es')"
  by (simp add: answered_in_order_def said_defs list_emb_append_mono list_all2_appendI)

text \<open>The talk alone.\<close>

definition is_talk :: "turn_action \<Rightarrow> bool" where
  "is_talk a =
     (case a of Requested _ answer \<Rightarrow> answer \<noteq> None
      | Emitted event \<Rightarrow> (case event of EventAssistantMessage _ _ \<Rightarrow> True | EventToolUse _ \<Rightarrow> True | EventToolResult _ _ \<Rightarrow> True | _ \<Rightarrow> False)
      | _ \<Rightarrow> False)"

definition talk :: "turn_action list \<Rightarrow> turn_action list" where
  "talk es = filter is_talk es"

lemma talk_simps [simp]: "talk [] = []" "talk (a # es) = (if is_talk a then [a] else []) @ talk es" "talk (es @ es') = talk es @ talk es'"
  by (simp_all add: talk_def)

lemma is_talk_simps [simp]: "is_talk (Requested q answer) = (answer \<noteq> None)" "is_talk (Emitted (EventAssistantMessage m model))"
  "is_talk (Emitted (EventToolUse use))" "is_talk (Emitted (EventToolResult m result))" "\<not> is_talk (Summarized c failure)"
  "\<not> is_talk (Ran p uses us)" "\<not> is_talk (Emitted (EventRetry model err info))" "\<not> is_talk (Emitted (EventStreamEvent event model))"
  by (simp_all add: is_talk_def)

lemma routine_talk [simp]: "routine a \<Longrightarrow> \<not> is_talk a"
  by (auto simp: is_talk_def routine_def central_def split: turn_action.splits Event.splits)

lemma concat_talk: "(\<And>a. \<not> is_talk a \<Longrightarrow> f a = []) \<Longrightarrow> concat (map f (talk es)) = concat (map f es)"
  by (induction es) (auto simp: talk_def)

lemma answered_in_order_talk: "answered_in_order (talk es) = answered_in_order es"
proof -
  have "answers (talk es) = answers es" "announced_answers (talk es) = announced_answers es"
    "announced_uses (talk es) = announced_uses es" "result_ids (talk es) = result_ids es"
    unfolding said_defs
    by (rule concat_talk; auto simp: is_talk_def split: turn_action.splits Event.splits option.splits)+
  then show ?thesis by (simp add: answered_in_order_def asked_blocks_def)
qed

section \<open>Pieces\<close>

text \<open>\<open>said Q m\<close>: every value of the piece and what it says satisfy \<open>Q\<close>.\<close>

definition said :: "('a \<Rightarrow> turn_action list \<Rightarrow> bool) \<Rightarrow> ('w, 'a) turn \<Rightarrow> bool" where
  "said Q m = (\<forall>s. wp m (\<lambda>x es s'. Q x (talk es)) s)"

lemma saidI: "(\<And>s x es s'. m s = (x, es, s') \<Longrightarrow> Q x (talk es)) \<Longrightarrow> said Q m"
  unfolding said_def by (auto intro: wpI)

lemma saidD: "said Q m \<Longrightarrow> m s = (x, es, s') \<Longrightarrow> Q x (talk es)"
  by (metis said_def wpD)

lemma said_mono: "said P m \<Longrightarrow> (\<And>x t. P x t \<Longrightarrow> Q x t) \<Longrightarrow> said Q m"
  unfolding said_def by (auto intro: wp_mono)

lemma said_done: "Q x [] \<Longrightarrow> said Q (done_p x)"
  by (simp add: said_def wp_simps)

lemma said_then:
  assumes "said P m" "\<And>x t. P x t \<Longrightarrow> said (\<lambda>y t'. Q y (t @ t')) (f x)"
  shows "said Q (then_p m f)"
proof (rule saidI)
  fix s y es s'
  assume "then_p m f s = (y, es, s')"
  then obtain x es1 s1 es2 where "m s = (x, es1, s1)" "f x s1 = (y, es2, s')" "es = es1 @ es2"
    by (auto simp: then_p_def split: prod.splits)
  then show "Q y (talk es)" using saidD[OF assms(1)] saidD[OF assms(2)] by fastforce
qed

lemma said_then_e:
  assumes "said P m" "\<And>e t. P (Inl e) t \<Longrightarrow> Q (Inl e) t" "\<And>x t. P (Inr x) t \<Longrightarrow> said (\<lambda>y t'. Q y (t @ t')) (f x)"
  shows "said Q (then_e m f)"
  unfolding then_e_def
proof (rule said_then[OF assms(1)])
  fix r t
  assume "P r t"
  then show "said (\<lambda>y t'. Q y (t @ t')) (case r of Inl e \<Rightarrow> done_p (Inl e) | Inr x \<Rightarrow> f x)"
    using assms(2,3) by (cases r) (auto intro: said_done)
qed

lemma said_if: "(b \<Longrightarrow> said Q m) \<Longrightarrow> (\<not> b \<Longrightarrow> said Q n) \<Longrightarrow> said Q (if b then m else n)"
  by auto

text \<open>Pieces that say nothing.\<close>

interpretation silent: compacting_turn "\<lambda>s es s'. talk es = []"
  by unfold_locales auto

lemma silent_said: "silent.every m \<Longrightarrow> said (\<lambda>x t. t = []) m"
  by (auto intro: saidI dest: silent.everyD)

lemma said_silent: "silent.every m \<Longrightarrow> (\<And>x. Q x []) \<Longrightarrow> said Q m"
  by (auto intro: said_mono[OF silent_said])

lemma silent_gives: "silent.every m \<Longrightarrow> gives P m \<Longrightarrow> said (\<lambda>x t. P x \<and> t = []) m"
  by (auto intro: saidI dest: silent.everyD givesD)

lemma said_after: "silent.every m \<Longrightarrow> (\<And>x. said Q (f x)) \<Longrightarrow> said Q (then_p m f)"
  by (rule said_then[OF silent_said]) auto

lemma silent_act: "\<not> is_talk a \<Longrightarrow> silent.every (act a)"
  by (simp add: silent.every_def wp_simps)

lemma silent_stream: "silent.every (emit_stream model events)"
  by (induction events) (simp_all add: silent.every_done silent.every_then silent_act)

section \<open>The answer\<close>

definition heard :: "call_error + Response \<Rightarrow> turn_action list \<Rightarrow> bool" where
  "heard answer t = (case answer of Inl _ \<Rightarrow> t = [] | Inr response \<Rightarrow> (\<exists>request. t = [Requested request (Some response)]))"

lemma heard_simps [simp]: "heard (Inl err) t = (t = [])"
  "heard (Inr response) t = (\<exists>request. t = [Requested request (Some response)])"
  by (simp_all add: heard_def)

lemma heard_call: "said heard (call_client client request)"
  by (auto simp: said_def call_client_def wp_simps answer_of_def split: prod.split sum.split)

lemma heard_createMessage: "said heard (createMessage sv r client request)"
proof (cases "rnUseStreaming r")
  case True
  show ?thesis
  proof (cases "mcStreamMessages client")
    case (Some stream)
    have opened: "said (\<lambda>(err, events, acc) t. heard (case err of None \<Rightarrow> Inr (Finish (svEnv sv) acc) | Some e \<Rightarrow> Inl e) t)
        (ask_world (in_world g) (\<lambda>(err, _, acc). Requested q (if err = None then Some (Finish (svEnv sv) acc) else None)))" for g q
      by (auto simp: said_def wp_simps split: prod.split option.split)
    show ?thesis unfolding createMessage_def eqTrueI[OF True] Some prod.case bool.case option.case Let_def
    proof (rule said_then[OF opened], clarsimp split del: if_split, goal_cases)
      case (1 err events acc t)
      show ?case
      proof (rule said_after[OF silent_stream], cases err)
        case None
        then show "said (\<lambda>y t'. heard y (t @ t')) (case err of None \<Rightarrow> done_p (Inr (Finish (svEnv sv) acc))
            | Some e \<Rightarrow> if events = [] then call_client client (request\<lparr>reqStream := False\<rparr>) else done_p (Inl e))"
          using 1 by (auto intro: said_done)
      next
        case (Some e)
        then have "t = []" using 1 by (simp add: heard_def)
        then show "said (\<lambda>y t'. heard y (t @ t')) (case err of None \<Rightarrow> done_p (Inr (Finish (svEnv sv) acc))
            | Some e \<Rightarrow> if events = [] then call_client client (request\<lparr>reqStream := False\<rparr>) else done_p (Inl e))"
          using Some heard_call by (auto intro: said_done)
      qed
    qed
  qed (simp add: createMessage_def True heard_call)
qed (simp add: createMessage_def heard_call)

abbreviation heard_last :: "ApiRequest option \<times> string list \<times> (call_error + Response) \<Rightarrow> turn_action list \<Rightarrow> bool" where
  "heard_last x t \<equiv> heard (snd (snd x)) t"

lemma heard_send_loop: "said heard_last (send_loop sv r client recall history attempts model rest)"
proof (induction rest arbitrary: model attempts)
  case Nil
  show ?case unfolding send_loop.simps[of _ _ _ _ _ _ _ "[]"] list.case
  proof (rule said_after, intro silent.every_then_e silent.every_budget silent.every_buildRequest, goal_cases)
    case (1 built)
    show ?case
    proof (cases built)
      case (Inr request)
      show ?thesis unfolding Inr sum.case
        by (rule said_then[OF heard_createMessage]) (auto intro!: said_done split: sum.split)
    qed (auto intro!: said_done)
  qed
next
  case (Cons m rest)
  show ?case unfolding send_loop.simps[of _ _ _ _ _ _ _ "_ # _"] list.case
  proof (rule said_after, intro silent.every_then_e silent.every_budget silent.every_buildRequest, goal_cases)
    case (1 built)
    show ?case
    proof (cases built)
      case (Inr request)
      show ?thesis unfolding Inr sum.case
      proof (rule said_then[OF heard_createMessage], goal_cases)
        case (1 answer t)
        show ?case
        proof (cases answer)
          case (Inl err)
          then have "t = []" using 1 by (simp add: heard_def)
          then show ?thesis using Inl Cons.IH
            by (auto intro!: said_done said_after silent_act)
        qed (use 1 in \<open>auto intro!: said_done\<close>)
      qed
    qed (auto intro!: said_done)
  qed
qed

lemma heard_send: "said heard_last (send sv r client await history)"
  unfolding send_def
  by (rule said_after[OF silent.every_outside]) (auto intro!: said_done heard_send_loop split: sum.split)

section \<open>The uses\<close>

text \<open>The uses of an answer: those that its blocks ask for.\<close>

lemma tool_uses_for:
  "list_all2 use_for (filter (\<lambda>b. blockType b = ContentToolUse) bs) (fst (tool_uses_loop ids bs w))"
proof (induction bs arbitrary: w)
  case (Cons b bs)
  show ?case
  proof (cases "blockType b = ContentToolUse")
    case True
    obtain i w1 where i: "(if blockID b = [] then ids w else (blockID b, w)) = (i, w1)" by fastforce
    then have "blockID b \<noteq> [] \<longrightarrow> i = blockID b" by (auto split: if_splits)
    then show ?thesis using True Cons.IH[of w1]
      by (auto simp: i use_for_def split: prod.split)
  qed (simp add: Cons.IH)
qed simp

lemma gives_uses:
  "gives (list_all2 use_for (filter (\<lambda>b. blockType b = ContentToolUse) (msgContent m))) (outside (ToolUses ids m))"
  by (rule gives_outside) (simp add: ToolUses_def tool_uses_for)

lemma said_uses: "said (\<lambda>x t. t = map (Emitted \<circ> EventToolUse) uses) (emit_uses uses)"
proof (induction uses)
  case (Cons use uses)
  have "said (\<lambda>x t. t = [Emitted (EventToolUse use)]) (emit (EventToolUse use) :: ('w, unit) turn)"
    by (simp add: said_def wp_simps)
  then show ?case unfolding emit_uses.simps
    by (rule said_then) (use Cons.IH in \<open>auto elim: said_mono\<close>)
qed (simp add: said_done)

text \<open>What is said of the updates of some uses: one result for each.\<close>

definition result_for :: "ToolUse \<Rightarrow> turn_action \<Rightarrow> bool" where
  "result_for use a = (\<exists>m result. a = Emitted (EventToolResult m result) \<and> map blockToolUseID (msgContent m) = [useID use])"

lemma said_update: "said (\<lambda>x t. \<exists>a. t = [a] \<and> result_for (updToolUse u) a) (handle_update sv r u)"
proof -
  have content: "msgContent (in_session r m) = msgContent m" for m by (simp add: in_session_def)
  have message: "gives (\<lambda>m. map blockToolUseID (msgContent (in_session r m)) = [useID (updToolUse u)])
      (outside (ToolResultMessage (newID sv) (useID (updToolUse u)) c e))" for c e
    by (rule gives_outside) (simp add: content ToolResultMessage_def tool_result_block_def split: prod.split)
  have reported: "said (\<lambda>x t. t = [Emitted (EventToolResult m result)]) (emit (EventToolResult m result) :: ('w, unit) turn)" for m result
    by (simp add: said_def wp_simps)
  have new: "silent.every (if b then done_p [] else new_messages sv r ms)" for b ms
    by (intro silent.every_if silent.every_done silent.every_new_messages)
  show ?thesis unfolding handle_update_def Let_def
  proof (rule said_after[OF silent.every_outside], rule said_then[OF silent_gives[OF silent.every_outside message]], goal_cases)
    case (1 result m t)
    then have "result_for (updToolUse u) (Emitted (EventToolResult (in_session r m) result))" by (auto simp: result_for_def)
    then show ?case using 1
      by (intro said_then[OF reported] said_after[OF new] said_done) auto
  qed
qed

lemma said_updates: "said (\<lambda>x t. list_all2 result_for (map updToolUse us) t) (handle_updates sv r us)"
proof (induction us)
  case (Cons u us)
  show ?case unfolding handle_updates.simps
  proof (rule said_then[OF said_update], clarify, rule said_then[OF Cons.IH], clarify, rule said_done, goal_cases)
    case (1 x y a t ms results)
    then show ?case by simp
  qed
qed (simp add: said_done)

lemma results_said:
  "list_all2 result_for uses t \<Longrightarrow>
   result_ids t = map useID uses \<and> announced_uses t = [] \<and> announced_answers t = [] \<and> answers t = []"
  by (induction rule: list_all2_induct) (auto simp: said_defs result_for_def)

section \<open>The runs of tools\<close>

text \<open>The runs of tools are those that \<open>RunTools\<close> has.\<close>

definition proper_runs :: "'w services \<Rightarrow> bool" where
  "proper_runs sv =
     (\<forall>e ctx uses w us w'. svRunTools sv e ctx uses w = (us, w') \<longrightarrow> RunTools (svSystem sv) e ctx uses 0 w us w')"

lemma run_answers:
  assumes "RunTools sys e ctx uses m w us w'" "\<And>v. \<not> cancelled ctx v"
  shows "list_all2 (is_update sys e ctx) uses us"
proof -
  let ?bs = "partitionToolCalls (sysEnv sys) (exRegistry e) uses"
  have "batches_ok (use_is_safe (sysEnv sys) (exRegistry e)) uses ?bs" by (rule partition_ok)
  then have "list_all (\<lambda>b. batchUses b \<noteq> []) ?bs" "concat (map batchUses ?bs) = uses"
    by (auto simp: batches_ok_def batch_ok_def list_all_iff)
  then show ?thesis using assms run_batches_updates[of sys e ctx m ?bs w] unfolding RunTools_def by metis
qed

lemma updates_of_uses: "list_all2 (is_update sys e ctx) uses us \<Longrightarrow> map updToolUse us = uses"
  by (induction rule: list_all2_induct) (auto simp: is_update_def finished_update_def split: prod.split)

lemma said_tools:
  assumes "proper_runs sv" "\<And>w. svContext sv w = None"
  shows "said (\<lambda>x t. \<exists>results. t = map (Emitted \<circ> EventToolUse) uses @ results \<and> list_all2 result_for uses results)
    (executeToolUses sv r uses metadata ms)"
proof -
  have ran: "said (\<lambda>us t. t = [] \<and> map updToolUse us = uses)
      (ask_world (in_world (svRunTools sv e (tool_context sv r metadata ms) uses)) (Ran p uses))" for e p
  proof (rule saidI)
    fix s us es s'
    let ?cx = "tool_context sv r metadata ms"
    assume "ask_world (in_world (svRunTools sv e ?cx uses)) (Ran p uses) s = (us, es, s')"
    then obtain w where run: "svRunTools sv e ?cx uses (tsWorld s) = (us, w)" and es: "es = [Ran p uses us]"
      by (auto simp: ask_world_def in_world_def split: prod.splits)
    have "\<not> cancelled ?cx v" for v using assms(2) by (simp add: cancelled_def tool_context_def)
    moreover have "RunTools (svSystem sv) e ?cx uses 0 (tsWorld s) us w" using run assms(1) by (simp add: proper_runs_def)
    ultimately have "map updToolUse us = uses" using run_answers updates_of_uses by metis
    then show "talk es = [] \<and> map updToolUse us = uses" by (simp add: es)
  qed
  show ?thesis unfolding executeToolUses_def Let_def
  proof (rule said_then[OF said_uses], rule said_after[OF silent.every_look], rule said_then[OF ran], goal_cases)
    case (1 x t hooks us t')
    then show ?case by (auto intro: said_mono[OF said_updates[of us]])
  qed
qed

section \<open>A round\<close>

lemma answered_round:
  assumes "subseq (announced_answers t) (map respContent (answers t))" "announced_uses t = []" "result_ids t = []"
    "list_all2 use_for (asked_blocks t) uses" "list_all2 result_for uses results"
  shows "answered_in_order (t @ map (Emitted \<circ> EventToolUse) uses @ results)"
proof -
  have uses: "announced_uses (map (Emitted \<circ> EventToolUse) uses) = uses" "result_ids (map (Emitted \<circ> EventToolUse) uses) = []"
    "announced_answers (map (Emitted \<circ> EventToolUse) uses) = []" "answers (map (Emitted \<circ> EventToolUse) uses) = []"
    by (induction uses) (simp_all add: said_defs)
  have append: "announced_uses (a @ b) = announced_uses a @ announced_uses b" "result_ids (a @ b) = result_ids a @ result_ids b"
    "announced_answers (a @ b) = announced_answers a @ announced_answers b" "answers (a @ b) = answers a @ answers b" for a b
    by (simp_all add: said_defs)
  show ?thesis using assms results_said[OF assms(5)]
    by (simp add: answered_in_order_def asked_blocks_def append uses)
qed

lemma gives_response: "gives (\<lambda>m. msgContent m = respContent response) (outside (messageFromResponse ids sessionID response))"
  by (rule gives_outside) (simp add: messageFromResponse_def split: prod.split)

lemma gives_appended_content: "gives (\<lambda>p. msgContent (snd p) = msgContent m) (outside (appendMessage ids history m))"
  by (rule gives_outside) (auto simp: appendMessage_def with_uuid_def Let_def split: prod.split)

lemma go_on: "then_e (or_return value (done_p (Inr x))) f = f x"
  by (simp add: or_return_def then_e_def then_p_def done_p_def)

lemma give_up: "then_e (or_return value (done_p (Inl err))) f = done_p (Inl (value, Some err))"
  by (simp add: or_return_def then_e_def then_p_def done_p_def)

lemma said_round:
  assumes "proper_runs sv" "\<And>w. svContext sv w = None"
  shows "said (\<lambda>x t. answered_in_order t) (turn_round sv client metadata await (r, h, res))"
proof -
  have ends: "answered_in_order [Requested q (Some response)]" for q response
    by (simp add: answered_in_order_def said_defs)
  have recorded: "silent.every (or_return res (unless_error (appendTranscript sv r m)))" for res m
    by (intro silent.every_or_return silent.every_unless_error silent.every_appendTranscript)
  have announced: "said (\<lambda>x t. t = [Emitted (EventAssistantMessage m model)]) (emit (EventAssistantMessage m model) :: ('w, unit) turn)"
    for m model by (simp add: said_def wp_simps)
  have tools: "said (\<lambda>y t'. answered_in_order (t @ t')) (then_p (executeToolUses sv r uses metadata ms) (\<lambda>(toolMessages, toolResults).
      then_e (add_tool_messages sv r h res toolMessages) (\<lambda>(h, res).
        done_p (Inr (model_of_messages r toolMessages, h, res\<lparr>rsToolResults := rsToolResults res @ toolResults\<rparr>)))))"
    if "\<And>results. list_all2 result_for uses results \<Longrightarrow> answered_in_order (t @ map (Emitted \<circ> EventToolUse) uses @ results)"
    for t uses ms h res
  proof (rule said_then[OF said_tools[OF assms]], clarify, goal_cases)
    case (1 toolMessages toolResults t' results)
    then have "answered_in_order (t @ map (Emitted \<circ> EventToolUse) uses @ results)" by (intro that)
    then show ?case
      by (intro said_silent silent.every_then_e silent.every_add_tool_messages silent.every_case_prod silent.every_done) simp
  qed
  show ?thesis unfolding turn_round_def prod.case Let_def
  proof (rule said_then[OF heard_send], clarify, goal_cases)
    case (1 request attempts answer t)
    show ?case
    proof (cases answer)
      case (Inl err)
      then show ?thesis using 1
        by (auto simp: give_up answered_in_order_Nil intro: said_done)
    next
      case (Inr response)
      then obtain q where t: "t = [Requested q (Some response)]" using 1 by auto
      show ?thesis unfolding Inr go_on
      proof (rule said_then[OF silent_gives[OF silent.every_outside gives_response]],
          rule said_then[OF silent_gives[OF silent.every_outside gives_appended_content]], goal_cases)
        case (1 assistant t1 p t2)
        obtain h m where p: "p = (h, m)" by (cases p)
        have content: "msgContent m = respContent response" and quiet: "t1 = []" "t2 = []" using 1 by (simp_all add: p)
        show ?case unfolding p prod.case
        proof (rule said_then_e[OF silent_said[OF recorded]], goal_cases)
          case (2 u t')
          show ?case
          proof (rule said_then[OF announced], rule said_then[OF silent_gives[OF silent.every_outside gives_uses]], goal_cases)
            case (1 u' t3 uses t4)
            let ?t = "[Requested q (Some response), Emitted (EventAssistantMessage m (respModel response))]"
            have talked: "answered_in_order (?t @ map (Emitted \<circ> EventToolUse) uses @ results)"
              if "list_all2 result_for uses results" for results
              by (rule answered_round) (use 1 content that in \<open>simp_all add: said_defs\<close>)
            have said_t: "t @ t1 @ t2 @ t' @ t3 @ t4 @ t5 = ?t @ t5" for t5 using 1 2 quiet t by simp
            show ?case unfolding said_t
            proof (rule said_if, goal_cases)
              case 1
              then show ?case using talked[of "[]"]
                by (intro said_silent silent.every_then silent.every_finish silent.every_done) simp
            qed (rule tools, rule talked)
          qed
        qed (simp add: t ends quiet)
      qed
    qed
  qed
qed

section \<open>A turn\<close>

lemma routine_answered: "\<not> is_talk a \<Longrightarrow> answered_in_order [a]"
  using answered_in_order_talk[of "[a]"] answered_in_order_Nil by simp

interpretation answered: compacting_turn "\<lambda>s es s'. answered_in_order es"
  by unfold_locales (auto intro: answered_in_order_append routine_answered simp: answered_in_order_Nil)

lemma answered_turn:
  assumes "proper_runs sv" "\<And>w. svContext sv w = None"
  shows "whole_turn (\<lambda>s es s'. answered_in_order es) sv r0"
proof unfold_locales
  fix r client metadata await h res
  show "answered.every (turn_round sv client metadata await (r, h, res))"
    unfolding answered.every_def
    using saidD[OF said_round[OF assms]] by (intro allI wpI) (simp add: answered_in_order_talk)
qed (rule answered_in_order_Nil)

end
