(* ===== verification/SerialRun.thy ===== *)
theory SerialRun
  imports RunLaws
begin

text \<open>
  One schedule of a run of tools that can be computed: the goroutines of a concurrent batch run one
  after the other, in the order of their uses. It is one of the runs that \<open>RunTools\<close> has.
\<close>

fun serial_uses ::
  "'w system \<Rightarrow> 'w Executor \<Rightarrow> 'w Context \<Rightarrow> ToolUse list \<Rightarrow> 'w \<Rightarrow> MessageUpdate list \<times> bool \<times> 'w" where
  "serial_uses sys e ctx [] w = ([], False, w)"
| "serial_uses sys e ctx (use # uses) w =
     (if cancelled ctx w then ([], True, w)
      else case Execute sys e ctx use w of (out, _, w1) \<Rightarrow>
             case serial_uses sys e ctx uses w1 of (us, stopped, w2) \<Rightarrow> (finished_update use out # us, stopped, w2))"

fun serial_batches ::
  "'w system \<Rightarrow> 'w Executor \<Rightarrow> 'w Context \<Rightarrow> toolBatch list \<Rightarrow> 'w \<Rightarrow> MessageUpdate list \<times> 'w" where
  "serial_batches sys e ctx [] w = ([], w)"
| "serial_batches sys e ctx (b # bs) w =
     (if cancelled ctx w then ([], w)
      else case serial_uses sys e ctx (batchUses b) w of (us, stopped, w1) \<Rightarrow>
             if is_sequential b \<and> stopped then (us, w1)
             else case serial_batches sys e ctx bs w1 of (vs, w2) \<Rightarrow>
               ((if stopped then [] else us) @ vs, w2))"

definition serial_run :: "'w system \<Rightarrow> 'w Executor \<Rightarrow> 'w Context \<Rightarrow> ToolUse list \<Rightarrow> 'w \<Rightarrow> MessageUpdate list \<times> 'w" where
  "serial_run sys e ctx uses w = serial_batches sys e ctx (partitionToolCalls (sysEnv sys) (exRegistry e) uses) w"

lemma serial_uses_sequential:
  "serial_uses sys e ctx uses w = (us, stopped, w') \<Longrightarrow> sequential_run sys e ctx uses w us stopped w'"
proof (induction uses arbitrary: w us)
  case Nil
  then show ?case using sequential_run.seq_done by fastforce
next
  case (Cons use uses)
  show ?case
  proof (cases "cancelled ctx w")
    case True
    then show ?thesis using Cons.prems sequential_run.seq_stop by fastforce
  next
    case False
    obtain out es w1 where ex: "Execute sys e ctx use w = (out, es, w1)" by (metis prod_cases3)
    obtain vs where vs: "serial_uses sys e ctx uses w1 = (vs, stopped, w')" "us = finished_update use out # vs"
      using Cons.prems False ex by (auto split: prod.splits)
    from sequential_run.seq_use[OF False ex sends.sent Cons.IH[OF vs(1)]] vs(2) show ?thesis by simp
  qed
qed

text \<open>The pool after the first \<open>length us\<close> uses ran alone.\<close>

definition serial_pool :: "ToolUse list \<Rightarrow> MessageUpdate list \<Rightarrow> 'w \<Rightarrow> 'w pool" where
  "serial_pool uses us w =
     \<lparr>poolNext = length us, poolReady = False, poolStopped = False, poolRunning = [],
      poolResults = map Some us @ replicate (length uses - length us) None, poolWorld = w\<rparr>"

lemma serial_pool_step:
  assumes "length us < length uses" "\<not> cancelled ctx w" "Execute sys e ctx (uses ! length us) w = (out, es, w')" "0 < limit"
  shows "(batch_step sys e ctx uses limit)\<^sup>*\<^sup>* (serial_pool uses us w)
    (serial_pool uses (us @ [finished_update (uses ! length us) out]) w')"
proof -
  let ?p = "serial_pool uses us w" and ?u = "finished_update (uses ! length us) out"
  let ?q = "?p\<lparr>poolReady := True\<rparr>"
  let ?r = "?q\<lparr>poolReady := False, poolNext := Suc (poolNext ?q), poolRunning := poolRunning ?q @ [poolNext ?q]\<rparr>"
  have checked: "batch_step sys e ctx uses limit ?p ?q"
    using assms by (intro batch_step.check) (simp_all add: serial_pool_def)
  have started: "batch_step sys e ctx uses limit ?q ?r"
    using assms by (intro batch_step.start) (simp_all add: serial_pool_def)
  have "batch_step sys e ctx uses limit ?r (?r\<lparr>poolRunning := remove1 (length us) (poolRunning ?r),
      poolResults := (poolResults ?r)[length us := Some ?u], poolWorld := w'\<rparr>)"
    by (rule batch_step.finish_use) (use assms(3) in \<open>simp_all add: serial_pool_def\<close>)
  moreover have "(map Some us @ replicate (length uses - length us) None)[length us := Some ?u] =
      map Some us @ Some ?u # replicate (length uses - Suc (length us)) None"
    using assms(1) by (cases "length uses - length us") (auto simp: list_update_append Suc_diff_le)
  ultimately have "batch_step sys e ctx uses limit ?r (serial_pool uses (us @ [?u]) w')"
    by (simp add: serial_pool_def)
  with checked started show ?thesis
    by (meson converse_rtranclp_into_rtranclp rtranclp.rtrancl_refl)
qed

lemma serial_pool_run:
  assumes "0 < limit"
  shows "length us \<le> length uses \<Longrightarrow> serial_uses sys e ctx (drop (length us) uses) w = (vs, stopped, w') \<Longrightarrow>
    \<exists>p. (batch_step sys e ctx uses limit)\<^sup>*\<^sup>* (serial_pool uses us w) p \<and> poolWorld p = w' \<and>
      (if stopped then poolStopped p else pool_done uses p \<and> poolResults p = map Some (us @ vs))"
proof (induction "length uses - length us" arbitrary: us w vs)
  case 0
  then have "drop (length us) uses = []" by simp
  then have "vs = []" "\<not> stopped" "w' = w" using 0 by auto
  then show ?case using 0
    by (intro exI[of _ "serial_pool uses us w"]) (auto simp: serial_pool_def pool_done_def)
next
  case (Suc n)
  then have less: "length us < length uses" by simp
  note drop = Cons_nth_drop_Suc[OF less, symmetric]
  show ?case
  proof (cases "cancelled ctx w")
    case True
    then have "stopped" "w' = w" using Suc.prems(2) by (auto simp: drop)
    moreover have "batch_step sys e ctx uses limit (serial_pool uses us w) ((serial_pool uses us w)\<lparr>poolStopped := True\<rparr>)"
      using True less by (intro batch_step.stop) (simp_all add: serial_pool_def)
    ultimately show ?thesis
      by (intro exI[of _ "(serial_pool uses us w)\<lparr>poolStopped := True\<rparr>"]) (auto simp: serial_pool_def)
  next
    case False
    obtain out es w1 where ex: "Execute sys e ctx (uses ! length us) w = (out, es, w1)" by (metis prod_cases3)
    let ?u = "finished_update (uses ! length us) out"
    obtain vs' where vs: "serial_uses sys e ctx (drop (Suc (length us)) uses) w1 = (vs', stopped, w')" "vs = ?u # vs'"
      using Suc.prems(2) False ex by (auto simp: drop split: prod.splits)
    have "n = length uses - length (us @ [?u])" using Suc.hyps(2) by simp
    from Suc.hyps(1)[OF this, of w1 vs'] vs less obtain p where
      p: "(batch_step sys e ctx uses limit)\<^sup>*\<^sup>* (serial_pool uses (us @ [?u]) w1) p" "poolWorld p = w'"
        "if stopped then poolStopped p else pool_done uses p \<and> poolResults p = map Some ((us @ [?u]) @ vs')"
      by auto
    with rtranclp_trans[OF serial_pool_step[OF less False ex assms] p(1)] vs(2) show ?thesis by auto
  qed
qed

lemma serial_uses_concurrent:
  assumes "serial_uses sys e ctx uses w = (us, stopped, w')" "uses \<noteq> []"
  shows "concurrent_run sys e ctx m uses w (if stopped then [] else us) w'"
proof -
  have "0 < batch_limit m uses" using assms(2) by (simp add: batch_limit_def)
  moreover have "first_pool uses w = serial_pool uses [] w" by (simp add: first_pool_def serial_pool_def)
  ultimately obtain p where p: "(batch_step sys e ctx uses (batch_limit m uses))\<^sup>*\<^sup>* (first_pool uses w) p" "poolWorld p = w'"
    "if stopped then poolStopped p else pool_done uses p \<and> poolResults p = map Some us"
    using serial_pool_run[of "batch_limit m uses" "[]" uses sys e ctx w us stopped w'] assms(1) by auto
  show ?thesis
  proof (cases stopped)
    case True
    then show ?thesis using concurrent_run.abandoned[OF p(1)] p by simp
  next
    case False
    then have "map the (poolResults p) = us" using p(3) by (simp add: map_map comp_def)
    then show ?thesis using concurrent_run.all_results[OF p(1), of us] p sends_all_total[of ctx w' us] False by simp
  qed
qed

lemma serial_batches_run:
  "list_all (\<lambda>b. batchUses b \<noteq> []) bs \<Longrightarrow> serial_batches sys e ctx bs w = (us, w') \<Longrightarrow> run_batches sys e ctx m bs w us w'"
proof (induction bs arbitrary: w us w')
  case Nil
  then show ?case using run_batches.no_more by fastforce
next
  case (Cons b bs)
  show ?case
  proof (cases "cancelled ctx w")
    case True
    then show ?thesis using Cons.prems(2) run_batches.context_done by fastforce
  next
    case False
    obtain xs stopped w1 where run: "serial_uses sys e ctx (batchUses b) w = (xs, stopped, w1)" by (metis prod_cases3)
    obtain ys w2 where rest: "serial_batches sys e ctx bs w1 = (ys, w2)" by fastforce
    have IH: "run_batches sys e ctx m bs w1 ys w2" using Cons.IH[OF _ rest] Cons.prems(1) by simp
    note seq = serial_uses_sequential[OF run]
    show ?thesis
    proof (cases "is_sequential b")
      case True
      then show ?thesis
        using Cons.prems(2) False run rest run_batches.stopped[OF False True] run_batches.sequential[OF False True _ IH] seq
        by (cases stopped) auto
    next
      case other: False
      then have "us = (if stopped then [] else xs) @ ys" "w' = w2" using Cons.prems(2) False run rest by auto
      then show ?thesis
        using run_batches.concurrent[OF False other serial_uses_concurrent[OF run] IH] Cons.prems(1) by simp
    qed
  qed
qed

lemma serial_run_is_run:
  assumes "serial_run sys e ctx uses w = (us, w')"
  shows "RunTools sys e ctx uses m w us w'"
proof -
  let ?bs = "partitionToolCalls (sysEnv sys) (exRegistry e) uses"
  have "list_all (\<lambda>b. batchUses b \<noteq> []) ?bs"
    using partition_ok[of "sysEnv sys" "exRegistry e" uses]
    by (auto simp: batches_ok_def batch_ok_def list_all_iff)
  from serial_batches_run[OF this] assms show ?thesis unfolding RunTools_def serial_run_def by metis
qed

end
