(* ===== verification/TurnProps.thy ===== *)
theory TurnProps
  imports TurnTalk SerialRun ToolProps ConvProps
begin

text \<open>
  The properties of a turn of the conversation: how often the model is asked and by which name, that
  every tool use is answered and under which permissions it runs, and what history and model a turn
  leaves.
\<close>

section \<open>Concrete values for the witnesses\<close>

text \<open>The world is the counter of IDs. The model first answers with a use of a tool that is not there,
  and then with a text.\<close>

definition example_answer :: "ApiRequest \<Rightarrow> Response" where
  "example_answer request =
     \<lparr>respID = ''r'', respType = ''message'', respRole = ''assistant'', respModel = reqModel request,
      respContent = [if length (reqMessages request) = 1
        then ContentBlock ContentToolUse [] AnyNil ''t1'' ''Bash'' no_input AnyNil False []
        else NewTextBlock ''done''],
      respStopReason = ''end_turn'', respStopSequence = [], respUsage = zero_usage\<rparr>"

definition example_client :: "nat MessageClient" where
  "example_client = \<lparr>mcCreateMessage = (\<lambda>request w. (Inr (example_answer request), w)), mcStreamMessages = None\<rparr>"

definition example_turn_system :: "nat system" where
  "example_turn_system = \<lparr>sysEnv = example_env, sysNewID = srcNewID example_sources, sysWriteFile = (\<lambda>_ _ w. w)\<rparr>"

definition example_services :: "nat services" where
  "example_services =
     \<lparr>svEnv = example_prog_env, svSystem = example_turn_system, svSources = example_sources, svContext = (\<lambda>_. None),
      svRefresh = (\<lambda>w. ((), w)), svCommands = (\<lambda>_. \<lparr>rgCommands = [], rgPromptTemplates = []\<rparr>), svHooks = (\<lambda>_. []),
      svMarshal = (\<lambda>_. Inl ''no payload''), svMetadata = (\<lambda>_. \<lparr>mdInternalPaths = None, mdMessages = None, mdModel = []\<rparr>),
      svLocalText = (\<lambda>_ _ w. (Inr [], w)), svMCPTools = (\<lambda>e w. (Inr (e, \<lambda>w. ((), w)), w)), svAdvancedTools = (\<lambda>e w. (Inr e, w)),
      svSchedules = (\<lambda>w. ((), w)), svRecall = (\<lambda>ms w. (Inr ms, w)), svPrefetched = (\<lambda>_ w. (Inr (\<lambda>ms w. (Inr ms, w)), w)),
      svDeltaEnabled = (\<lambda>_. False), svSystemPrompt = (\<lambda>_. []), svCountTokens = (\<lambda>_ _ _. None),
      svRunTools = serial_run example_turn_system, svSubagent = (\<lambda>_ result w. (result, w)),
      svExtractMemory = (\<lambda>_ _ w. (None, w)), svAppendTranscript = (\<lambda>_ w. (None, w)), svAppendCompact = (\<lambda>_ w. (None, w)),
      svAppendReplacements = (\<lambda>_ w. (None, w)), svWriteOnce = (\<lambda>_ _ w. (False, w))\<rparr>"

definition example_runner :: "decider option \<Rightarrow> nat Runner" where
  "example_runner permissions =
     \<lparr>rnClient = Some example_client, rnTools = \<lparr>exRegistry = None, exResultStoreDir = [], exHooks = []\<rparr>,
      rnPermissions = permissions, rnModel = ''opus'', rnFallbackModels = [''sonnet''], rnMaxTokens = 0, rnMaxToolRounds = 0,
      rnUseStreaming = False, rnSessionID = ''s'', rnSessionPath = ''/s'', rnWorkingDirectory = ''/work'',
      rnContentBudgetDir = [], rnContentBudgetMax = 0, rnSkipBudgetTools = [], rnCompactClient = None, rnCompactMaxTokens = 0\<rparr>"

definition example_state :: "nat turn_state" where
  "example_state = \<lparr>tsModel = ''opus'', tsAutoCompact = None, tsContentBudget = None, tsWorld = 0\<rparr>"

definition example_user :: Message where
  "example_user = blank_message\<lparr>msgContent := [NewTextBlock ''hello'']\<rparr>"


text \<open>What a turn of the example does: two requests, a use that is answered, and four messages.\<close>

lemma example_turn:
  "case RunTurn example_services (example_runner p) [] example_user example_state of
     ((result, err), es, s') \<Rightarrow> map blockID (asked_blocks es) = [''t1''] \<and> map useID (announced_uses es) = [''t1''] \<and>
       length (announced_answers es) = 2 \<and> length (answers es) = 2 \<and> length (rsMessages result) = 4 \<and>
       \<not> rsCompacted result \<and> err = None \<and> list_ex central es \<and>
       list_ex (\<lambda>a. case a of Ran _ _ _ \<Rightarrow> True | _ \<Rightarrow> False) es"
  by code_simp

lemma example_turn_run:
  obtains result es s' where
    "RunTurn example_services (example_runner p) [] example_user example_state = ((result, None), es, s')"
    "map blockID (asked_blocks es) = [''t1'']" "map useID (announced_uses es) = [''t1'']"
    "length (announced_answers es) = 2" "length (answers es) = 2"
    "length (rsMessages result) = 4" "\<not> rsCompacted result" "list_ex central es"
    "list_ex (\<lambda>a. case a of Ran _ _ _ \<Rightarrow> True | _ \<Rightarrow> False) es"
  using example_turn[of p] that by (auto split: prod.splits)


section \<open>Requests\<close>


text \<open>The models that \<open>send\<close> asks, one after the other.\<close>

definition tried_in_order :: "prog_env \<Rightarrow> string list \<Rightarrow> string list \<Rightarrow> ApiRequest option \<Rightarrow> call_error + Response \<Rightarrow> bool" where
  "tried_in_order env models tried request answer =
     (prefix tried models \<and>
      (case answer of
         Inr _ \<Rightarrow> tried \<noteq> [] \<and> map_option reqModel request = Some (last tried)
       | Inl err \<Rightarrow> (case request of
           None \<Rightarrow> tried \<noteq> models
         | Some request \<Rightarrow> tried \<noteq> [] \<and> reqModel request = last tried \<and> (tried = models \<or> \<not> isFallbackEligible env err))))"

lemma buildRequest_model: "gives (\<lambda>x. case x of Inl _ \<Rightarrow> True | Inr request \<Rightarrow> reqModel request = model) (buildRequest sv r recall history model)"
  unfolding buildRequest_def Let_def by (intro gives_rules; simp)

lemma built_model:
  "gives (\<lambda>x. case x of Inl _ \<Rightarrow> True | Inr request \<Rightarrow> reqModel request = model)
     (then_e (applyToolResultBudget sv r history) (\<lambda>h. buildRequest sv r recall h model))"
  by (rule gives_then_e) (simp_all add: buildRequest_model)

lemma send_loop_tried:
  "gives (\<lambda>(request, tried, answer). \<exists>more. tried = attempts @ more \<and> tried_in_order (svEnv sv) (model # rest) more request answer)
     (send_loop sv r client recall history attempts model rest)"
proof (induction rest arbitrary: model attempts)
  case Nil
  show ?case unfolding send_loop.simps[of _ _ _ _ _ _ _ "[]"] list.case
  proof (rule gives_bind[OF built_model], rule gives_case_sum, goal_cases)
    case (2 x request)
    then show ?case by (intro gives_rules gives_case_sum) (auto simp: tried_in_order_def)
  qed (simp add: gives_done tried_in_order_def)
next
  case (Cons m rest)
  show ?case unfolding send_loop.simps[of _ _ _ _ _ _ _ "_ # _"] list.case
  proof (rule gives_bind[OF built_model], rule gives_case_sum, goal_cases)
    case (2 x request)
    have again: "gives (\<lambda>(request, tried, answer). \<exists>more. tried = attempts @ more \<and>
        tried_in_order (svEnv sv) (model # m # rest) more request answer) (send_loop sv r client recall history (attempts @ [model]) m rest)"
      by (rule wp_mono_gives[OF Cons.IH]) (fastforce simp: tried_in_order_def split: sum.splits option.splits)
    show ?case using 2 by (intro gives_then gives_case_sum gives_if again; (intro gives_done)?; simp add: tried_in_order_def)
  qed (simp add: gives_done tried_in_order_def)
qed

text \<open>C22: A request goes to the runner's model and then to its fallbacks in their order. The models
  tried are the first ones of them; the answer comes from the last one tried; an error is
  reported only when all were tried, when it is none that a fallback could help, or when the
  next request could not be built.\<close>

theorem fallbacks_in_order:
  "case send sv r client await history s of ((request, tried, answer), es, s') \<Rightarrow>
     tried_in_order (svEnv sv) (runner_model r # rnFallbackModels r) tried request answer"
proof -
  have "gives (\<lambda>(request, tried, answer). tried_in_order (svEnv sv) (runner_model r # rnFallbackModels r) tried request answer)
      (send sv r client await history)"
    unfolding send_def
  proof (rule gives_then, rule gives_case_sum, goal_cases)
    case (2 recall x)
    show ?case by (rule wp_mono_gives[OF send_loop_tried]) auto
  qed (simp add: gives_done tried_in_order_def)
  then show ?thesis by (auto dest: givesD split: prod.split)
qed

section \<open>Tool uses\<close>



text \<open>C2: In a turn of a runner with a permission engine every run of tools is decided by an engine,
  and what a deny rule of the runner's engine denies is denied in it, whatever permissions the
  messages of the turn, skills and commands have brought in.\<close>

theorem turn_keeps_denials:
  assumes "rnPermissions r = Some (EnginePermissionDecider e)" "RunTurn sv r history user s = (x, es, s')"
    "Ran p uses us \<in> set es" "has_rule env e req PermissionDeny"
  shows "\<exists>e'. p = Some (EnginePermissionDecider e') \<and> decBehavior (Decide env e' req) = PermissionDeny"
proof -
  have "list_all (permitted (rnPermissions r)) es"
    using permitted.everyD[OF permitted_turn.every_turn assms(2)] .
  then have "permitted (rnPermissions r) (Ran p uses us)" using assms(3) by (auto simp: list_all_iff)
  then obtain ms where p: "p = permissionsForTurn (Some (EnginePermissionDecider e)) ms" using assms(1) by (auto simp: permitted_def)
  obtain e' where e': "permissionsForTurn (Some (EnginePermissionDecider e)) ms = Some (EnginePermissionDecider e')"
    using permissionsForTurn_engine by blast
  then have "has_rule env e' req PermissionDeny" using permissionsForTurn_denies assms(4) by blast
  then show ?thesis using p e' by (simp add: engine.deny)
qed

lemma turn_keeps_denials_witness:
  "let e = example_engine PermissionBypassPermissions [example_rule ''deny'' ''Bash'' ''rm:*'']
   in \<exists>e' uses us. Ran (Some (EnginePermissionDecider e')) uses us \<in>
        set (fst (snd (RunTurn example_services (example_runner (Some (EnginePermissionDecider e))) [] example_user example_state))) \<and>
      decBehavior (Decide example_env e' (example_request ''Bash'' ''rm -rf x'' [])) = PermissionDeny"
proof -
  let ?e = "example_engine PermissionBypassPermissions [example_rule ''deny'' ''Bash'' ''rm:*'']"
  let ?r = "example_runner (Some (EnginePermissionDecider ?e))"
  obtain result es s' where run: "RunTurn example_services ?r [] example_user example_state = ((result, None), es, s')"
    and ran: "list_ex (\<lambda>a. case a of Ran _ _ _ \<Rightarrow> True | _ \<Rightarrow> False) es" by (rule example_turn_run)
  from ran obtain x where "x \<in> set es" "case x of Ran _ _ _ \<Rightarrow> True | _ \<Rightarrow> False" by (auto simp: list_ex_iff)
  then obtain p uses us where a: "Ran p uses us \<in> set es" by (cases rule: turn_action.exhaust[of x]) auto
  have perms: "rnPermissions ?r = Some (EnginePermissionDecider ?e)" by (simp add: example_runner_def)
  have "has_rule example_env ?e (example_request ''Bash'' ''rm -rf x'' []) PermissionDeny"
    unfolding has_rule_def by (rule bexI[of _ "example_rule ''deny'' ''Bash'' ''rm:*''"]) code_simp+
  from turn_keeps_denials[OF perms run a this] obtain e' where
    "p = Some (EnginePermissionDecider e')" "decBehavior (Decide example_env e' (example_request ''Bash'' ''rm -rf x'' [])) = PermissionDeny"
    by blast
  with a run show ?thesis by (auto simp: Let_def)
qed

section \<open>History and model\<close>

text \<open>C7: The chain of parents survives a turn: when every message of the history names the one before
  it, so does every message that the turn adds, however the turn ends, unless the turn
  compacted the conversation.\<close>

theorem turn_keeps_chain:
  assumes "proper_ids (newID sv)" "chained history" "RunTurn sv r history user s = ((result, err), es, s')" "\<not> rsCompacted result"
  shows "chained (history @ rsMessages result)"
  using givesD[OF chain_turn[OF assms(1,2)] assms(3)] assms(4) by (simp add: chain_end_def)

lemma turn_keeps_chain_witness:
  "\<exists>result es s'. RunTurn example_services (example_runner None) [] example_user example_state = ((result, None), es, s') \<and>
     length (rsMessages result) = 4 \<and> chained (rsMessages result)"
proof -
  obtain result es s' where run: "RunTurn example_services (example_runner None) [] example_user example_state = ((result, None), es, s')"
    and len: "length (rsMessages result) = 4" and plain: "\<not> rsCompacted result" by (rule example_turn_run)
  have "newID example_services = srcNewID example_sources" by (simp add: example_services_def)
  then have ids: "proper_ids (newID example_services)" using example_ids by metis
  have "chained []" by (simp add: chained_def)
  from turn_keeps_chain[OF ids this run plain] have "chained (rsMessages result)" unfolding append_Nil .
  with run len show ?thesis by (intro exI conjI)
qed

text \<open>A piece that, when it asks the model or runs a tool, leaves the runner the model \<open>m\<close>.\<close>

definition restores :: "string \<Rightarrow> ('w, 'a) turn \<Rightarrow> bool" where
  "restores m t = (\<forall>s. wp t (\<lambda>x es s'. list_all (\<lambda>a. \<not> central a) es \<or> tsModel s' = m) s)"

lemma restoresD: "restores m t \<Longrightarrow> t s = (x, es, s') \<Longrightarrow> list_all (\<lambda>a. \<not> central a) es \<or> tsModel s' = m"
  unfolding restores_def by (drule spec, drule (1) wpD)

lemma restores_quiet: "not_central.every t \<Longrightarrow> restores m t"
  unfolding restores_def by (intro allI wpI) (auto dest: not_central.everyD)

lemma restores_then:
  assumes "not_central.every t" "\<And>x. restores m (f x)"
  shows "restores m (then_p t f)"
  unfolding restores_def wp_then
proof
  fix s
  show "wp t (\<lambda>x es w1. wp (f x) (\<lambda>y es' w2. list_all (\<lambda>a. \<not> central a) (es @ es') \<or> tsModel w2 = m) w1) s"
  proof (rule wpI)
    fix x es s1
    assume "t s = (x, es, s1)"
    then have "list_all (\<lambda>a. \<not> central a) es" using not_central.everyD[OF assms(1)] by blast
    then show "wp (f x) (\<lambda>y es' w2. list_all (\<lambda>a. \<not> central a) (es @ es') \<or> tsModel w2 = m) s1"
      using restoresD[OF assms(2)] by (intro wpI) fastforce
  qed
qed

lemma restores_set:
  assumes "same_model.every t"
  shows "restores m (then_p (set_state (\<lambda>s. s\<lparr>tsModel := m\<rparr>)) (\<lambda>_. t))"
proof -
  have "wp t (\<lambda>x es s'. list_all (\<lambda>a. \<not> central a) es \<or> tsModel s' = m) (s\<lparr>tsModel := m\<rparr>)" for s
    by (rule wpI) (auto dest: same_model.everyD[OF assms])
  then show ?thesis unfolding restores_def by (intro allI) (simp add: wp_simps)
qed

lemma restores_case:
  "(\<And>x. restores m (f x)) \<Longrightarrow> (\<And>x. restores m (g x)) \<Longrightarrow> restores m (case r of Inl x \<Rightarrow> f x | Inr x \<Rightarrow> g x)"
  "restores m t \<Longrightarrow> (\<And>x. restores m (h x)) \<Longrightarrow> restores m (case a of None \<Rightarrow> t | Some x \<Rightarrow> h x)"
  "(\<And>x y. restores m (k x y)) \<Longrightarrow> restores m (case p of (x, y) \<Rightarrow> k x y)"
  "restores m t \<Longrightarrow> restores m t' \<Longrightarrow> restores m (if b then t else t')"
  by (cases r, auto) (cases a, auto, cases p, auto)


lemma restores_from:
  assumes "\<And>m. restores m (f m)"
  shows "wp (then_p (outside g) (\<lambda>_. then_p (look tsModel) f)) (\<lambda>x es s'. list_all (\<lambda>a. \<not> central a) es \<or> tsModel s' = tsModel s) s"
  using assms by (auto simp: wp_simps in_world_def restores_def split: prod.split)

lemma restores_turn: "wp (RunTurn sv r history user) (\<lambda>x es s'. list_all (\<lambda>a. \<not> central a) es \<or> tsModel s' = tsModel s) s"
proof (cases "rnClient r")
  case None
  then show ?thesis by (simp add: RunTurn_def wp_simps)
next
  case (Some client)
  have asked: "same_model.every (with_tools sv r res (\<lambda>r. query_turn sv client r h res))" for r res client h
    by (rule same_model_turn.every_asked[OF refl])
  show ?thesis unfolding RunTurn_def Some option.case Let_def
    by (intro restores_from restores_set restores_case
        restores_then[OF not_central.every_outside] restores_then[OF not_central_initial] restores_then[OF not_central.every_look]
        restores_then[OF not_central.every_submit] restores_then[OF not_central.every_add_messages]
        restores_quiet[OF not_central.every_done] restores_quiet[OF not_central.every_local_text]
        restores_quiet[OF not_central.every_local_turn] asked)
qed

text \<open>C23: A model that a slash command chooses is for its own turn: a turn that asked a model or ran a
  tool ends with the runner set to the model that it had before.\<close>

theorem turn_restores_model:
  assumes "RunTurn sv r history user s = (x, es, s')" "list_ex central es"
  shows "tsModel s' = tsModel s"
  using wpD[OF restores_turn assms(1)] assms(2) by (auto simp: list_all_iff list_ex_iff)

lemma turn_restores_model_witness:
  "tsModel (snd (snd (RunTurn example_services (example_runner None) [] example_user example_state))) = ''opus''"
proof -
  obtain result es s' where run: "RunTurn example_services (example_runner None) [] example_user example_state = ((result, None), es, s')"
    and asked: "list_ex central es" by (rule example_turn_run)
  from turn_restores_model[OF run asked] run show ?thesis by (simp add: example_state_def)
qed

end
