(* ===== verification/BudgetLaws.thy ===== *)
theory BudgetLaws
  imports Budget
begin

text \<open>
  Laws of the budget of tool results: what a call replaces is a function of the state it leaves, and
  the state only gains decisions about results it has not seen before.
\<close>

section \<open>Candidates and their groups\<close>

abbreviation ids_of :: "toolResultCandidate list \<Rightarrow> string set" where "ids_of cs \<equiv> candToolUseID ` set cs"

definition message_candidates :: "prog_env \<Rightarrow> Message \<Rightarrow> toolResultCandidate list" where
  "message_candidates env m = (if msgType m = MessageUser then collectToolResultCandidates env m else [])"

definition candidate_ids :: "prog_env \<Rightarrow> Message list \<Rightarrow> string set" where
  "candidate_ids env ms = ids_of (concat (map (message_candidates env) ms))"

lemma candidate_ids_append: "candidate_ids env (ms @ ms') = candidate_ids env ms \<union> candidate_ids env ms'"
  by (simp add: candidate_ids_def image_Un)

lemma user_not_assistant [simp]: "MessageUser \<noteq> MessageAssistant"
  by simp

lemma group_step_concat:
  "group_step env (groups, current, seen) m = (groups', current', seen') \<Longrightarrow>
   concat groups' @ current' = concat groups @ current @ message_candidates env m"
  by (auto simp: group_step_def flush_def message_candidates_def split: if_splits)

lemma group_steps_concat:
  "foldl (group_step env) (groups, current, seen) ms = (groups', current', seen') \<Longrightarrow>
   concat groups' @ current' = concat groups @ current @ concat (map (message_candidates env) ms)"
proof (induction ms arbitrary: groups current seen)
  case (Cons m ms)
  obtain g c s where one: "group_step env (groups, current, seen) m = (g, c, s)" by (metis prod_cases3)
  with Cons.prems have "foldl (group_step env) (g, c, s) ms = (groups', current', seen')" by simp
  from Cons.IH[OF this] show ?case using group_step_concat[OF one] by simp
qed simp

text \<open>The groups hold the candidates of the user's messages, in their order.\<close>

lemma groups_concat: "concat (collectToolResultCandidatesByMessage env ms) = concat (map (message_candidates env) ms)"
proof -
  obtain groups current seen where st: "foldl (group_step env) ([], [], []) ms = (groups, current, seen)" by (metis prod_cases3)
  then show ?thesis using group_steps_concat[OF st]
    by (cases current) (simp_all add: collectToolResultCandidatesByMessage_def flush_def)
qed

section \<open>The selection\<close>

lemma take_largest_prefix: "\<exists>n. take_largest cs remaining limit = take n cs"
proof (induction cs arbitrary: remaining)
  case (Cons c cs)
  obtain n where "take_largest cs (remaining - int (candSize c)) limit = take n cs" using Cons by blast
  then show ?case
    by (cases "remaining \<le> limit") (auto intro: exI[of _ 0] exI[of _ "Suc n"])
qed simp

lemma total_size_simps [simp]: "total_size [] = 0" "total_size (c # cs) = int (candSize c) + total_size cs"
  "total_size (cs @ ds) = total_size cs + total_size ds"
  by (simp_all add: total_size_def)

lemma take_largest_fits:
  "remaining - total_size (take_largest cs remaining limit) \<le> limit \<or> take_largest cs remaining limit = cs"
proof (induction cs arbitrary: remaining)
  case (Cons c cs)
  then show ?case using Cons.IH[of "remaining - int (candSize c)"] by (auto simp: algebra_simps)
qed simp

lemma take_largest_needed:
  "take_largest cs remaining limit = ds @ [c] \<Longrightarrow> remaining - total_size ds > limit"
proof (induction cs arbitrary: remaining ds)
  case (Cons x cs)
  have more: "remaining > limit" "take_largest cs (remaining - int (candSize x)) limit = tl (ds @ [c])" "hd (ds @ [c]) = x"
    using Cons.prems by (auto split: if_splits dest: arg_cong[where f = tl] arg_cong[where f = hd])
  show ?case
  proof (cases ds)
    case (Cons d ds')
    then show ?thesis using Cons.IH[of "remaining - int (candSize x)" ds'] more by (simp add: algebra_simps)
  qed (use more in simp)
qed simp

lemma selected_subset: "set (selectFreshToolResultsToReplace fresh frozen limit) \<subseteq> set fresh"
proof -
  obtain n where "selectFreshToolResultsToReplace fresh frozen limit = take n (sort_key (\<lambda>c. - int (candSize c)) fresh)"
    using take_largest_prefix unfolding selectFreshToolResultsToReplace_def by blast
  then show ?thesis using set_take_subset by (metis set_sort)
qed

lemma selected_if: "set (if b then selectFreshToolResultsToReplace fresh frozen limit else []) \<subseteq> set fresh"
  using selected_subset by auto

section \<open>One call\<close>

lemma see_fields [simp]: "Replacements (see state cs) = Replacements state" "set (SeenIDs (see state cs)) = set (SeenIDs state) \<union> ids_of cs"
  by (simp_all add: see_def)

text \<open>What the groups do to the state, the replacements in use and the candidates to persist.\<close>

definition budgeted ::
  "ContentReplacementState \<Rightarrow> toolResultCandidate list \<Rightarrow> (string \<times> string) list \<Rightarrow> toolResultCandidate list \<Rightarrow>
   ContentReplacementState \<times> (string \<times> string) list \<times> toolResultCandidate list \<Rightarrow> bool" where
  "budgeted state cs used persist = (\<lambda>(state', used', persist').
     Replacements state' = Replacements state \<and>
     set used' = set used \<union> {(i, v). i \<in> ids_of cs \<and> map_of (Replacements state) i = Some v} \<and>
     set (SeenIDs state) \<subseteq> set (SeenIDs state') \<and> set (SeenIDs state') \<subseteq> set (SeenIDs state) \<union> ids_of cs \<and>
     ids_of cs \<subseteq> set (SeenIDs state') \<union> ids_of persist' \<and> set persist \<subseteq> set persist' \<and>
     ids_of persist' \<subseteq> ids_of persist \<union> (ids_of cs - set (SeenIDs state) - dom (map_of (Replacements state))))"

lemma budget_group_budgeted: "budgeted state cs used persist (budget_group options names limit (state, used, persist) cs)"
proof -
  let ?R = "map_of (Replacements state)"
  let ?fresh = "filter (\<lambda>c. candToolUseID c \<notin> set (SeenIDs state)) (filter (\<lambda>c. ?R (candToolUseID c) = None) cs)"
  let ?used = "used @ map (\<lambda>c. (candToolUseID c, the (?R (candToolUseID c)))) (filter (\<lambda>c. ?R (candToolUseID c) \<noteq> None) cs)"
  have used: "set ?used = set used \<union> {(i, v). i \<in> ids_of cs \<and> ?R i = Some v}" by force
  show ?thesis
  proof (cases "?fresh = []")
    case True
    then show ?thesis using used by (auto simp: budget_group_def budgeted_def Let_def)
  next
    case False
    obtain skipped eligible selected unselected where parts:
      "budget_group options names limit (state, used, persist) cs = (see (see state skipped) unselected, ?used, persist @ selected)"
      "set skipped \<subseteq> set ?fresh" "set selected \<subseteq> set ?fresh"
      "unselected = filter (\<lambda>c. candToolUseID c \<notin> set (map candToolUseID selected)) cs"
    proof -
      let ?skipped = "filter (\<lambda>c. names (candToolUseID c) \<in> set (SkipToolNames options)) ?fresh"
      let ?eligible = "filter (\<lambda>c. names (candToolUseID c) \<notin> set (SkipToolNames options)) ?fresh"
      let ?frozen = "total_size (filter (\<lambda>c. candToolUseID c \<in> set (SeenIDs state)) (filter (\<lambda>c. ?R (candToolUseID c) = None) cs))"
      let ?selected = "if ?frozen + total_size ?eligible > limit then selectFreshToolResultsToReplace ?eligible ?frozen limit else []"
      have "set ?selected \<subseteq> set ?eligible" by (rule selected_if)
      then have "set ?selected \<subseteq> set ?fresh" by auto
      then show thesis using False
        by (intro that[of ?skipped _ ?selected]) (simp_all only: budget_group_def prod.case Let_def if_False, auto)
    qed
    have "set unselected \<subseteq> set cs" "ids_of cs \<subseteq> ids_of unselected \<union> ids_of selected" using parts(4) by auto
    moreover have "ids_of skipped \<subseteq> ids_of cs" "ids_of selected \<subseteq> ids_of cs - set (SeenIDs state) - dom ?R"
      using parts(2,3) by (fastforce, fastforce)
    ultimately show ?thesis unfolding parts(1) budgeted_def prod.case used by auto
  qed
qed

lemma sets_kept: "P \<subseteq> P' \<Longrightarrow> A \<subseteq> S \<union> P \<Longrightarrow> S \<subseteq> S' \<Longrightarrow> D \<subseteq> S' \<union> P' \<Longrightarrow> A \<union> D \<subseteq> S' \<union> P'"
  by blast

lemma sets_fresh: "P' \<subseteq> P \<union> (D - S' - X) \<Longrightarrow> P \<subseteq> P0 \<union> (A - S - X) \<Longrightarrow> S \<subseteq> S' \<Longrightarrow> P' \<subseteq> P0 \<union> (A \<union> D - S - X)"
  by blast

lemma budgeted_step:
  assumes "budgeted state cs used persist (state1, used1, persist1)" "budgeted state1 ds used1 persist1 x"
  shows "budgeted state (cs @ ds) used persist x"
proof -
  obtain state2 used2 persist2 where x: "x = (state2, used2, persist2)" by (cases x)
  note a = assms(1)[unfolded budgeted_def prod.case] and b = assms(2)[unfolded budgeted_def x prod.case]
  have same: "Replacements state1 = Replacements state" "Replacements state2 = Replacements state" using a b by auto
  note a = a[unfolded same] and b = b[unfolded same]
  have used: "set used2 = set used \<union> {(i, v). i \<in> ids_of (cs @ ds) \<and> map_of (Replacements state) i = Some v}"
    using a b by auto
  have seen1: "set (SeenIDs state) \<subseteq> set (SeenIDs state1)" "set (SeenIDs state1) \<subseteq> set (SeenIDs state) \<union> ids_of cs"
    "ids_of cs \<subseteq> set (SeenIDs state1) \<union> ids_of persist1"
    "ids_of persist1 \<subseteq> ids_of persist \<union> (ids_of cs - set (SeenIDs state) - dom (map_of (Replacements state)))"
    using a by simp_all
  have seen2: "set (SeenIDs state1) \<subseteq> set (SeenIDs state2)" "set (SeenIDs state2) \<subseteq> set (SeenIDs state1) \<union> ids_of ds"
    "ids_of ds \<subseteq> set (SeenIDs state2) \<union> ids_of persist2" "set persist1 \<subseteq> set persist2"
    "ids_of persist2 \<subseteq> ids_of persist1 \<union> (ids_of ds - set (SeenIDs state1) - dom (map_of (Replacements state)))"
    using b by simp_all
  have ids: "ids_of (cs @ ds) = ids_of cs \<union> ids_of ds" by (simp add: image_Un)
  have seen: "set (SeenIDs state) \<subseteq> set (SeenIDs state2)" "set (SeenIDs state2) \<subseteq> set (SeenIDs state) \<union> ids_of (cs @ ds)"
    unfolding ids using seen1(1,2) seen2(1,2) by blast+
  have "ids_of persist1 \<subseteq> ids_of persist2" using seen2(4) by blast
  then have kept: "ids_of (cs @ ds) \<subseteq> set (SeenIDs state2) \<union> ids_of persist2"
    unfolding ids using seen1(3) seen2(1,3) by (intro sets_kept)
  have fresh: "ids_of persist2 \<subseteq> ids_of persist \<union> (ids_of (cs @ ds) - set (SeenIDs state) - dom (map_of (Replacements state)))"
    unfolding ids by (rule sets_fresh[OF seen2(5) seen1(4,1)])
  have "set persist \<subseteq> set persist2" using a b by auto
  with same used seen kept fresh show ?thesis unfolding x budgeted_def prod.case by (intro conjI)
qed

lemma budget_groups_budgeted:
  "budgeted state (concat groups) used persist (foldl (budget_group options names limit) (state, used, persist) groups)"
proof (induction groups rule: rev_induct)
  case Nil
  show ?case by (simp add: budgeted_def)
next
  case (snoc cs groups)
  obtain state1 used1 persist1 where
    st: "foldl (budget_group options names limit) (state, used, persist) groups = (state1, used1, persist1)" by (metis prod_cases3)
  from budgeted_step[OF snoc[unfolded st] budget_group_budgeted] show ?case by (simp add: st)
qed


section \<open>Writing the results\<close>

text \<open>The replacements of records, the later ones first.\<close>

definition recorded_replacements :: "ContentReplacementRecord list \<Rightarrow> string \<rightharpoonup> string" where
  "recorded_replacements records = map_of (map (\<lambda>r. (crToolUseID r, crReplacement r)) (rev records))"

lemma recorded_replacements_simps [simp]:
  "recorded_replacements [] = Map.empty"
  "recorded_replacements (rs @ rs') = recorded_replacements rs ++ recorded_replacements rs'"
  "recorded_replacements [r] = [crToolUseID r \<mapsto> crReplacement r]"
  by (simp_all add: recorded_replacements_def map_add_def fun_eq_iff split: option.split)

lemma recorded_dom: "dom (recorded_replacements rs) = crToolUseID ` set rs"
  by (induction rs rule: rev_induct) (auto simp del: fun_upd_apply)

lemma replacement_not_empty:
  "buildToolResultReplacement env write c dir w = (Some made, w') \<Longrightarrow> made \<noteq> []"
  by (auto simp: buildToolResultReplacement_def buildPersistedOutputMessage_def Let_def split: option.splits prod.splits if_splits)

definition recorded_well :: "string set \<Rightarrow> ContentReplacementRecord list \<Rightarrow> bool" where
  "recorded_well ids records = (\<forall>r \<in> set records. crKind r = ''tool-result'' \<and> crToolUseID r \<in> ids \<and> crReplacement r \<noteq> [])"

lemma persisted:
  "persist_loop env write dir cs (state, used, records) w = ((state', used', records'), w') \<Longrightarrow>
   \<exists>new. records' = records @ new \<and> recorded_well (ids_of cs) new \<and>
     map_of (Replacements state') = map_of (Replacements state) ++ recorded_replacements new \<and>
     map_of used' = map_of used ++ recorded_replacements new \<and> set (SeenIDs state') = set (SeenIDs state) \<union> ids_of cs"
proof (induction cs arbitrary: state used records w)
  case Nil
  then show ?case by (intro exI[of _ "[]"]) (simp add: recorded_well_def)
next
  case (Cons c cs)
  obtain made w1 where built: "buildToolResultReplacement env write c dir w = (made, w1)" by fastforce
  show ?case
  proof (cases made)
    case None
    then obtain new where "records' = records @ new" "recorded_well (ids_of cs) new"
      "map_of (Replacements state') = map_of (Replacements state) ++ recorded_replacements new"
      "map_of used' = map_of used ++ recorded_replacements new" "set (SeenIDs state') = set (SeenIDs (see state [c])) \<union> ids_of cs"
      using Cons.IH[of "see state [c]" used records w1] Cons.prems built by auto
    then show ?thesis by (intro exI[of _ new]) (auto simp: recorded_well_def)
  next
    case (Some v)
    let ?r = "\<lparr>crKind = ''tool-result'', crToolUseID = candToolUseID c, crReplacement = v\<rparr>"
    let ?state = "(see state [c])\<lparr>Replacements := AList.update (candToolUseID c) v (Replacements state)\<rparr>"
    have "persist_loop env write dir cs (?state, AList.update (candToolUseID c) v used, records @ [?r]) w1 = ((state', used', records'), w')"
      using Cons.prems built Some by simp
    from Cons.IH[OF this] obtain new where new: "records' = (records @ [?r]) @ new" "recorded_well (ids_of cs) new"
      "map_of (Replacements state') = map_of (Replacements ?state) ++ recorded_replacements new"
      "map_of used' = map_of (AList.update (candToolUseID c) v used) ++ recorded_replacements new"
      "set (SeenIDs state') = set (SeenIDs ?state) \<union> ids_of cs"
      by (elim exE conjE) (rule that)
    have nonempty: "v \<noteq> []" by (rule replacement_not_empty[OF built[unfolded Some]])
    have first: "recorded_replacements (?r # new) = [candToolUseID c \<mapsto> v] ++ recorded_replacements new"
      using recorded_replacements_simps(2)[of "[?r]" new] by simp
    have update: "map_of (AList.update (candToolUseID c) v m) = map_of m ++ [candToolUseID c \<mapsto> v]" for m
      by (simp add: update_conv')
    have state: "Replacements ?state = AList.update (candToolUseID c) v (Replacements state)" by simp
    show ?thesis
    proof (intro exI[of _ "?r # new"] conjI)
      show "map_of used' = map_of used ++ recorded_replacements (?r # new)"
        using new(4) by (simp only: first update map_add_assoc)
      show "map_of (Replacements state') = map_of (Replacements state) ++ recorded_replacements (?r # new)"
        using new(3)[unfolded state] by (simp only: first update map_add_assoc)
    qed (use new nonempty in \<open>auto simp: recorded_well_def\<close>)
  qed
qed


section \<open>What a call leaves\<close>

text \<open>The messages with the contents that a map has for their results.\<close>

definition replaced_block :: "(string \<rightharpoonup> string) \<Rightarrow> ContentBlock \<Rightarrow> ContentBlock" where
  "replaced_block f b =
     (case f (blockToolUseID b) of
        Some replacement \<Rightarrow> if blockType b \<noteq> ContentToolResult then b else with_content (AnyString replacement) b
      | None \<Rightarrow> b)"

definition replaced :: "(string \<rightharpoonup> string) \<Rightarrow> Message \<Rightarrow> Message" where
  "replaced f m = (if msgType m \<noteq> MessageUser then m else m\<lparr>msgContent := map (replaced_block f) (msgContent m)\<rparr>)"

lemma replaceToolResultContents_map: "replaceToolResultContents ms used = map (replaced (map_of used)) ms"
  by (simp add: replaceToolResultContents_def replaced_def replace_block_def[abs_def] replaced_block_def[abs_def] fun_eq_iff)

lemma replaced_nothing: "map (replaced Map.empty) ms = ms"
  by (simp add: map_idI replaced_def replaced_block_def[abs_def])

text \<open>The IDs of the results that a message holds.\<close>

definition result_block_ids :: "Message \<Rightarrow> string set" where
  "result_block_ids m = blockToolUseID ` {b \<in> set (msgContent m). blockType b = ContentToolResult}"

lemma replaced_cong:
  assumes "\<And>i. i \<in> result_block_ids m \<Longrightarrow> f i = g i"
  shows "replaced f m = replaced g m"
proof -
  have "replaced_block f b = replaced_block g b" if "b \<in> set (msgContent m)" for b
    using that assms by (cases "blockType b = ContentToolResult")
      (auto simp: replaced_block_def result_block_ids_def split: option.split)
  then show ?thesis by (simp add: replaced_def)
qed

text \<open>What is decided about the results of some messages.\<close>

definition decision :: "ContentReplacementState \<Rightarrow> string set \<Rightarrow> string \<rightharpoonup> string" where
  "decision state ids = map_of (Replacements state) |` ids"

lemma map_of_functional:
  assumes "set used = {(i, v). i \<in> ids \<and> f i = Some v}"
  shows "map_of used = f |` ids"
proof
  fix i
  show "map_of used i = (f |` ids) i"
  proof (cases "map_of used i")
    case None
    then have "i \<notin> fst ` set used" by (simp add: map_of_eq_None_iff)
    then show ?thesis using None assms by (cases "f i") (auto simp: restrict_map_def image_iff)
  next
    case (Some v)
    then have "(i, v) \<in> set used" by (rule map_of_SomeD)
    then show ?thesis using Some assms by simp
  qed
qed

text \<open>A call replaces what the state that it leaves has decided, and decides about all the candidates.\<close>

lemma ApplyToolResultBudget_decided:
  assumes "ApplyToolResultBudget env write options ms state w = ((ms', records, state'), w')"
  shows "ms' = map (replaced (decision state' (candidate_ids env ms))) ms"
    "map_of (Replacements state') = map_of (Replacements state) ++ recorded_replacements records"
    "recorded_well (candidate_ids env ms - set (SeenIDs state) - dom (map_of (Replacements state))) records"
    "set (SeenIDs state') = set (SeenIDs state) \<union> candidate_ids env ms"
proof -
  let ?ids = "candidate_ids env ms" and ?R = "map_of (Replacements state)"
  let ?limit = "if LimitChars options \<le> 0 then 200000 else LimitChars options"
  obtain state1 used persist where
    st: "foldl (budget_group options (buildToolNameMap ms) ?limit) (state, [], []) (collectToolResultCandidatesByMessage env ms) = (state1, used, persist)"
    by (metis prod_cases3)
  have ids: "ids_of (concat (collectToolResultCandidatesByMessage env ms)) = ?ids"
    by (simp only: groups_concat candidate_ids_def)
  have b: "Replacements state1 = Replacements state" "set used = {(i, v). i \<in> ?ids \<and> ?R i = Some v}"
    "set (SeenIDs state) \<subseteq> set (SeenIDs state1)" "set (SeenIDs state1) \<subseteq> set (SeenIDs state) \<union> ?ids"
    "?ids \<subseteq> set (SeenIDs state1) \<union> ids_of persist" "ids_of persist \<subseteq> ?ids - set (SeenIDs state) - dom ?R"
    using budget_groups_budgeted[of state "collectToolResultCandidatesByMessage env ms" "[]" "[]" options "buildToolNameMap ms" ?limit]
    unfolding st budgeted_def prod.case ids by simp_all
  have used: "map_of used = ?R |` ?ids" by (rule map_of_functional[OF b(2)])
  obtain state2 used2 recs w2 where p: "persist_loop env write (StoreDir options) persist (state1, used, []) w = ((state2, used2, recs), w2)"
    by (metis prod_cases3 surj_pair)
  have r: "recorded_well (ids_of persist) recs" "map_of (Replacements state2) = ?R ++ recorded_replacements recs"
    "map_of used2 = (?R |` ?ids) ++ recorded_replacements recs" "set (SeenIDs state2) = set (SeenIDs state1) \<union> ids_of persist"
    using persisted[OF p] by (auto simp: b(1) used)
  have result: "ms' = replaceToolResultContents ms used2 \<and> records = recs \<and> state' = state2"
  proof (cases "used = [] \<and> persist = []")
    case True
    then have "used2 = []" "recs = []" "state2 = state1" using p by auto
    then show ?thesis using assms st True
      by (simp add: ApplyToolResultBudget_def Let_def replaceToolResultContents_map replaced_nothing)
  next
    case False
    show ?thesis
    proof (cases "used2 = []")
      case True
      then have "recorded_replacements recs = Map.empty" using r(3) by (auto simp: map_add_def fun_eq_iff split: option.splits)
      then have "recs = []" using recorded_dom[of recs] by simp
      then show ?thesis using assms st False True p
        by (auto simp: ApplyToolResultBudget_def Let_def replaceToolResultContents_map replaced_nothing)
    qed (use assms st False p in \<open>auto simp: ApplyToolResultBudget_def Let_def\<close>)
  qed
  have new: "dom (recorded_replacements recs) \<subseteq> ?ids"
    using r(1) b(6) by (auto simp: recorded_dom recorded_well_def)
  have "map_of used2 = decision state2 ?ids" unfolding decision_def r(2,3) using new
    by (auto simp: fun_eq_iff restrict_map_def map_add_def split: option.split)
  then show "ms' = map (replaced (decision state' ?ids)) ms" using result by (simp add: replaceToolResultContents_map)
  show "map_of (Replacements state') = ?R ++ recorded_replacements records" using r(2) result by simp
  show "recorded_well (?ids - set (SeenIDs state) - dom ?R) records"
    using r(1) b(6) result by (auto simp: recorded_well_def)
  show "set (SeenIDs state') = set (SeenIDs state) \<union> ?ids" using r(4) b(3-6) result by auto
qed

end
