(* ===== verification/BudgetProps.thy ===== *)
theory BudgetProps
  imports BudgetLaws ApiProps "HOL-Library.Multiset"
begin

text \<open>
  The properties of the budget of tool results: which results are chosen, that what a request has
  shown of a result stays, and that a resumed session goes on where the session was.
\<close>

text \<open>C31: The results chosen for replacement are the largest ones; with them replaced the size is
  within the limit unless all are chosen, and each of them is needed: without the last one chosen
  the size is over the limit.\<close>

theorem selection_is_least:
  "\<exists>rest. mset (selectFreshToolResultsToReplace fresh frozen limit @ rest) = mset fresh \<and>
     sorted (map (\<lambda>c. - int (candSize c)) (selectFreshToolResultsToReplace fresh frozen limit @ rest)) \<and>
     (frozen + total_size rest \<le> limit \<or> rest = []) \<and>
     (selectFreshToolResultsToReplace fresh frozen limit = [] \<or>
      limit < frozen + total_size rest + int (candSize (last (selectFreshToolResultsToReplace fresh frozen limit))))"
proof -
  let ?sorted = "sort_key (\<lambda>c. - int (candSize c)) fresh" and ?all = "frozen + total_size fresh"
  let ?chosen = "selectFreshToolResultsToReplace fresh frozen limit"
  have size: "total_size ?sorted = total_size fresh"
    unfolding total_size_def by (simp flip: sum_mset_sum_list)
  obtain n where chosen: "?chosen = take n ?sorted"
    using take_largest_prefix unfolding selectFreshToolResultsToReplace_def by blast
  let ?rest = "drop n ?sorted"
  have split: "?chosen @ ?rest = ?sorted" unfolding chosen by simp
  then have total: "total_size ?chosen + total_size ?rest = total_size fresh" using size by (metis total_size_simps(3))
  have "?all - total_size ?chosen \<le> limit \<or> ?chosen = ?sorted"
    using take_largest_fits[of ?all ?sorted limit] by (simp add: selectFreshToolResultsToReplace_def)
  then have fits: "frozen + total_size ?rest \<le> limit \<or> ?rest = []" using total split by auto
  have needed: "?chosen = [] \<or> limit < frozen + total_size ?rest + int (candSize (last ?chosen))"
  proof (cases ?chosen rule: rev_cases)
    case (snoc ds c)
    then have "?all - total_size ds > limit"
      using take_largest_needed[of ?sorted ?all limit ds c] by (simp add: selectFreshToolResultsToReplace_def)
    then show ?thesis using snoc total by simp
  qed simp
  show ?thesis by (rule exI[of _ ?rest], unfold split) (use fits needed in simp)
qed

section \<open>Concrete values for the witnesses\<close>

definition example_results :: "ID \<Rightarrow> string \<Rightarrow> Message" where
  "example_results i output = blank_message\<lparr>msgType := MessageUser, msgContent := [tool_result_block i (AnyString output) False]\<rparr>"

definition example_budget :: "int \<Rightarrow> ToolResultBudgetOptions" where
  "example_budget limit = \<lparr>LimitChars = limit, StoreDir = ''/r'', SkipToolNames = []\<rparr>"

definition example_write :: "string \<Rightarrow> string \<Rightarrow> nat \<Rightarrow> bool \<times> nat" where
  "example_write path content w = (False, Suc w)"

definition example_call :: "Message list \<Rightarrow> int \<Rightarrow> ContentReplacementState \<Rightarrow>
    (Message list \<times> ContentReplacementRecord list \<times> ContentReplacementState) \<times> nat" where
  "example_call ms limit state = ApplyToolResultBudget example_prog_env example_write (example_budget limit) ms state 0"

lemma example_first_call:
  obtains sent kept state w where
    "example_call [example_results ''a'' ''long output''] 5 NewContentReplacementState = ((sent, [kept], state), w)"
    "sent \<noteq> [example_results ''a'' ''long output'']"
proof -
  let ?ms = "[example_results ''a'' ''long output'']" and ?c = "\<lparr>candToolUseID = ''a'', candContent = AnyString ''long output'', candSize = 11\<rparr>"
  have groups: "foldl (budget_group (example_budget 5) (buildToolNameMap ?ms) 5) (NewContentReplacementState, [], [])
      (collectToolResultCandidatesByMessage example_prog_env ?ms) = (NewContentReplacementState, [], [?c])"
    by code_simp
  obtain made w where made: "buildToolResultReplacement example_prog_env example_write ?c ''/r'' 0 = (Some made, w)"
    and hd: "hd made \<noteq> CHR ''l''"
    by (simp add: buildToolResultReplacement_def serializableToolResultContent_def example_write_def generateToolResultPreview_def
        buildPersistedOutputMessage_def Let_def)
  have "replaceToolResultContents ?ms [(''a'', made)] \<noteq> ?ms"
    using hd by (auto simp: replaceToolResultContents_def replace_block_def example_results_def tool_result_block_def blank_message_def with_content_def)
  moreover have "fst (fst (example_call ?ms 5 NewContentReplacementState)) = replaceToolResultContents ?ms [(''a'', made)]"
    "length (fst (snd (fst (example_call ?ms 5 NewContentReplacementState)))) = 1"
    using groups made by (simp_all add: example_call_def ApplyToolResultBudget_def example_budget_def Let_def)
  ultimately show thesis using that by (cases "example_call ?ms 5 NewContentReplacementState") (auto simp: length_Suc_conv)
qed

section \<open>A session\<close>

text \<open>The calls of a session, in a world that also changes elsewhere: its history grows, and the budget is applied to all of it before a
  request. The records of all calls are kept with the session.\<close>

inductive budget_session :: "prog_env \<Rightarrow> Message list \<Rightarrow> ContentReplacementState \<Rightarrow> ContentReplacementRecord list \<Rightarrow> 'w \<Rightarrow> bool" for env where
  start: "budget_session env [] NewContentReplacementState [] w"
| elsewhere: "budget_session env history state records v \<Longrightarrow> budget_session env history state records w"
| call: "budget_session env history state records w \<Longrightarrow>
    ApplyToolResultBudget env write options (history @ added) state w = ((sent, new, state'), w') \<Longrightarrow>
    budget_session env (history @ added) state' (records @ new) w'"

lemma session_inv:
  "budget_session env history state records w \<Longrightarrow>
   map_of (Replacements state) = recorded_replacements records \<and> recorded_well (candidate_ids env history) records \<and>
   set (SeenIDs state) = candidate_ids env history"
proof (induction rule: budget_session.induct)
  case start
  show ?case by (simp add: NewContentReplacementState_def recorded_well_def candidate_ids_def)
next
  case call
  note d = ApplyToolResultBudget_decided[OF call.hyps(2)]
  show ?case
    using call.IH d by (auto simp: candidate_ids_append recorded_well_def)
qed auto

lemma candidate_ids_nonempty: "i \<in> candidate_ids env ms \<Longrightarrow> i \<noteq> []"
  by (auto simp: candidate_ids_def message_candidates_def collectToolResultCandidates_def is_candidate_def candidate_of_def split: if_splits)

lemma fold_updates:
  "map_of (foldl (\<lambda>m r. AList.update (crToolUseID r) (crReplacement r) m) m rs) = map_of m ++ recorded_replacements rs"
proof (induction rs rule: rev_induct)
  case (snoc r rs)
  then show ?case by (simp add: update_conv' del: fun_upd_apply)
qed simp

text \<open>C29: What a request has shown of a result stays. When the history grows, a later call gives the
  messages of an earlier call with the same contents: a result that was left in place is not
  replaced later, and one that was replaced stays replaced by the same text, whatever the limit
  has become. (The IDs of new results are assumed not to be those of old results that the budget
  does not handle, such as images.)\<close>

theorem budget_prefix_stable:
  assumes "ApplyToolResultBudget env write options ms state w = ((sent, records, state1), w1)"
    "ApplyToolResultBudget env write' options' (ms @ added) state1 v = ((sent', records', state2), v1)"
    "candidate_ids env added \<inter> \<Union> (result_block_ids ` set ms) \<subseteq> candidate_ids env ms"
  shows "take (length ms) sent' = sent"
proof -
  note d1 = ApplyToolResultBudget_decided[OF assms(1)] and d2 = ApplyToolResultBudget_decided[OF assms(2)]
  have "replaced (decision state2 (candidate_ids env (ms @ added))) m = replaced (decision state1 (candidate_ids env ms)) m"
    if "m \<in> set ms" for m
  proof (rule replaced_cong)
    fix i
    assume i: "i \<in> result_block_ids m"
    show "decision state2 (candidate_ids env (ms @ added)) i = decision state1 (candidate_ids env ms) i"
    proof (cases "i \<in> candidate_ids env ms")
      case True
      then have "i \<in> set (SeenIDs state1)" using d1(4) by simp
      then have "i \<notin> dom (recorded_replacements records')"
        using d2(3) unfolding recorded_dom by (auto simp: recorded_well_def)
      then have "recorded_replacements records' i = None" by (simp add: domIff)
      then show ?thesis using True d2(2) by (simp add: decision_def candidate_ids_append map_add_def)
    next
      case False
      then have "i \<notin> candidate_ids env added" using i that assms(3) by auto
      then show ?thesis using False by (simp add: decision_def candidate_ids_append)
    qed
  qed
  then show ?thesis using d1(1) d2(1) by simp
qed

lemma budget_prefix_stable_witness:
  "case example_call [example_results ''a'' ''long output''] 5 NewContentReplacementState of ((sent, records, state), w) \<Rightarrow>
     sent \<noteq> [example_results ''a'' ''long output''] \<and>
     take 1 (fst (fst (example_call ([example_results ''a'' ''long output''] @ [example_results ''b'' ''x'']) 99 state))) = sent"
proof -
  let ?ms = "[example_results ''a'' ''long output'']" and ?more = "[example_results ''b'' ''x'']"
  obtain sent kept state w where first: "example_call ?ms 5 NewContentReplacementState = ((sent, [kept], state), w)"
    and changed: "sent \<noteq> ?ms" by (rule example_first_call)
  obtain sent' records' state2 w2 where second: "example_call (?ms @ ?more) 99 state = ((sent', records', state2), w2)"
    by (metis prod_cases3 surj_pair)
  have "candidate_ids example_prog_env ?more \<inter> \<Union> (result_block_ids ` set ?ms) \<subseteq> candidate_ids example_prog_env ?ms"
    by code_simp
  from budget_prefix_stable[OF first[unfolded example_call_def] second[unfolded example_call_def] this]
  show ?thesis using changed by (simp add: first second[simplified])
qed

text \<open>C30: A resumed session goes on where it was: from the history and the records, the state is
  rebuilt with the same replacements and the same results seen, so that the next request shows
  the same texts.\<close>

theorem resume_keeps_decisions:
  assumes "budget_session env history state records w"
  shows "map_of (Replacements (ReconstructContentReplacementState env history records)) = map_of (Replacements state) \<and>
    set (SeenIDs (ReconstructContentReplacementState env history records)) = set (SeenIDs state)"
proof -
  have inv: "map_of (Replacements state) = recorded_replacements records" "recorded_well (candidate_ids env history) records"
    "set (SeenIDs state) = candidate_ids env history" using session_inv[OF assms] by auto
  let ?ids = "map candToolUseID (concat (collectToolResultCandidatesByMessage env history))"
  have ids: "set ?ids = candidate_ids env history" by (simp only: groups_concat candidate_ids_def set_map)
  have "record_applies ?ids r" if "r \<in> set records" for r
    using inv(2) that ids candidate_ids_nonempty unfolding record_applies_def recorded_well_def by metis
  then have "filter (record_applies ?ids) records = records" by simp
  then show ?thesis using inv ids by (simp add: ReconstructContentReplacementState_def Let_def fold_updates)
qed

lemma resume_keeps_decisions_witness:
  "case example_call [example_results ''a'' ''long output''] 5 NewContentReplacementState of ((sent, records, state), w) \<Rightarrow>
     length records = 1 \<and>
     map_of (Replacements (ReconstructContentReplacementState example_prog_env [example_results ''a'' ''long output''] records)) =
       map_of (Replacements state)"
proof -
  let ?ms = "[example_results ''a'' ''long output'']"
  obtain sent kept state w where first: "example_call ?ms 5 NewContentReplacementState = ((sent, [kept], state), w)"
    by (rule example_first_call)
  have "budget_session example_prog_env ([] @ ?ms) state ([] @ [kept]) w"
    by (rule budget_session.call[OF budget_session.start]) (use first in \<open>simp add: example_call_def\<close>)
  then have "budget_session example_prog_env ?ms state [kept] w" by simp
  from resume_keeps_decisions[OF this] show ?thesis by (simp add: first)
qed

end
