(* ===== verification/FileStore.thy ===== *)
theory FileStore
  imports ToolFunc
begin

text \<open>
  The file system, as the file tools use it: \<open>os.Stat\<close>, \<open>os.ReadFile\<close>, \<open>os.MkdirAll\<close>,
  \<open>os.WriteFile\<close> and \<open>os.Rename\<close>, with \<open>internal/platform/files.go\<close> and the readers and writers of
  \<open>internal/tools/file/helpers.go\<close> on top of them; and \<open>internal/tools/file/state.go\<close>, what a turn
  remembers of the files it has read.

  A store maps a cleaned path to the file or the directory there; there are no links. A time is in
  milliseconds, which is all the code reads of one. A call of the system can fail for a reason of
  its own: \<open>os_fault\<close> gives the error of an operation on a path, if it has one.
\<close>

section \<open>Stores\<close>

datatype node =
  FileNode (nodeData: string) (nodeTime: int) (nodeMode: nat)
| DirNode (nodeTime: int) (nodeMode: nat)

record os_env = schema_env +
  os_fault :: "string \<Rightarrow> string \<Rightarrow> string option"
  os_umask :: "nat \<Rightarrow> nat"

record ReadFileState =
  rfContent :: string
  rfTimestamp :: int
  rfOffset :: "int option"
  rfLimit :: "int option"
  rfPartialView :: bool

text \<open>The world of the file tools: the store, the clock, and what the map \<open>ctx.Metadata\<close>, which is
  never nil in a tool that the executor calls, holds for them: the files read and the internal paths.\<close>

record file_world =
  fwNodes :: "string \<Rightarrow> node option"
  fwClock :: int
  fwReadState :: "string \<rightharpoonup> ReadFileState"
  fwInternal :: "InternalPathContext option"

datatype os_error = NotExist | OsError string

definition os_message :: "os_error \<Rightarrow> string" where
  "os_message e = (case e of NotExist \<Rightarrow> ''file does not exist'' | OsError s \<Rightarrow> s)"

definition os_Stat :: "os_env \<Rightarrow> string \<Rightarrow> file_world \<Rightarrow> os_error + node" where
  "os_Stat env path w =
     (case os_fault env ''stat'' path of
        Some s \<Rightarrow> Inl (OsError s)
      | None \<Rightarrow> (case fwNodes w path of None \<Rightarrow> Inl NotExist | Some n \<Rightarrow> Inr n))"

definition os_ReadFile :: "os_env \<Rightarrow> string \<Rightarrow> file_world \<Rightarrow> os_error + string" where
  "os_ReadFile env path w =
     (case os_fault env ''read'' path of
        Some s \<Rightarrow> Inl (OsError s)
      | None \<Rightarrow>
        (case fwNodes w path of
           None \<Rightarrow> Inl NotExist
         | Some (DirNode t m) \<Rightarrow> Inl (OsError (''read '' @ path @ '': is a directory''))
         | Some (FileNode d t m) \<Rightarrow> Inr d))"

text \<open>The ancestors of a path from the root down to the path itself.\<close>

definition path_line :: "string \<Rightarrow> string list" where
  "path_line path =
     (let parts = clean_parts path
      in if IsAbs path then map (\<lambda>n. ''/'' @ Join (take n parts) ''/'') [0..<Suc (length parts)]
         else if parts = [] then [''.''] else map (\<lambda>n. Join (take (Suc n) parts) ''/'') [0..<length parts])"

fun mkdir_line :: "os_env \<Rightarrow> string list \<Rightarrow> nat \<Rightarrow> file_world \<Rightarrow> os_error option \<times> file_world" where
  "mkdir_line env [] mode w = (None, w)"
| "mkdir_line env (p # ps) mode w =
     (case fwNodes w p of
        Some (DirNode t m) \<Rightarrow> mkdir_line env ps mode w
      | Some (FileNode d t m) \<Rightarrow> (Some (OsError (''mkdir '' @ p @ '': not a directory'')), w)
      | None \<Rightarrow>
        (case os_fault env ''mkdir'' p of
           Some s \<Rightarrow> (Some (OsError s), w)
         | None \<Rightarrow> mkdir_line env ps mode (w\<lparr>fwNodes := (fwNodes w)(p \<mapsto> DirNode (fwClock w) (os_umask env mode))\<rparr>)))"

definition os_MkdirAll :: "os_env \<Rightarrow> string \<Rightarrow> nat \<Rightarrow> file_world \<Rightarrow> os_error option \<times> file_world" where
  "os_MkdirAll env path mode w =
     (case os_fault env ''mkdirall'' path of
        Some s \<Rightarrow> (Some (OsError s), w)
      | None \<Rightarrow> mkdir_line env (path_line path) mode w)"

text \<open>A file that is there is truncated and keeps its mode. The times of directories are left as they are.\<close>

definition os_WriteFile :: "os_env \<Rightarrow> string \<Rightarrow> string \<Rightarrow> nat \<Rightarrow> file_world \<Rightarrow> os_error option \<times> file_world" where
  "os_WriteFile env path data mode w =
     (case os_fault env ''write'' path of
        Some s \<Rightarrow> (Some (OsError s), w)
      | None \<Rightarrow>
        (case fwNodes w (Dir path) of
           None \<Rightarrow> (Some NotExist, w)
         | Some (FileNode d t m) \<Rightarrow> (Some (OsError (''open '' @ path @ '': not a directory'')), w)
         | Some (DirNode t m) \<Rightarrow>
           (case fwNodes w path of
              Some (DirNode t m) \<Rightarrow> (Some (OsError (''open '' @ path @ '': is a directory'')), w)
            | Some (FileNode d t m) \<Rightarrow> (None, w\<lparr>fwNodes := (fwNodes w)(path \<mapsto> FileNode data (fwClock w) m)\<rparr>)
            | None \<Rightarrow> (None, w\<lparr>fwNodes := (fwNodes w)(path \<mapsto> FileNode data (fwClock w) (os_umask env mode))\<rparr>))))"

text \<open>Renaming a file: over a directory it is an error, over a file the file is replaced.\<close>

definition os_Rename :: "os_env \<Rightarrow> string \<Rightarrow> string \<Rightarrow> file_world \<Rightarrow> os_error option \<times> file_world" where
  "os_Rename env from into w =
     (case os_fault env ''rename'' from of
        Some s \<Rightarrow> (Some (OsError s), w)
      | None \<Rightarrow>
        (case fwNodes w from of
           None \<Rightarrow> (Some NotExist, w)
         | Some n \<Rightarrow>
           (case fwNodes w into of
              Some (DirNode t m) \<Rightarrow> (Some (OsError (''rename '' @ from @ '' '' @ into @ '': file exists'')), w)
            | _ \<Rightarrow> (None, w\<lparr>fwNodes := (fwNodes w)(from := None, into \<mapsto> n)\<rparr>))))"

text \<open>A step that may fail, and what follows it.\<close>

definition then_os :: "os_error option \<times> file_world \<Rightarrow> (file_world \<Rightarrow> os_error option \<times> file_world) \<Rightarrow> os_error option \<times> file_world" where
  "then_os r f = (case r of (Some e, w) \<Rightarrow> (Some e, w) | (None, w) \<Rightarrow> f w)"

definition EnsureDir :: "os_env \<Rightarrow> string \<Rightarrow> file_world \<Rightarrow> os_error option \<times> file_world" where
  "EnsureDir env path = os_MkdirAll env path 493"

definition AtomicWriteFile :: "os_env \<Rightarrow> string \<Rightarrow> string \<Rightarrow> nat \<Rightarrow> file_world \<Rightarrow> os_error option \<times> file_world" where
  "AtomicWriteFile env path data mode w =
     (let tmp = path @ ''.tmp''
      in then_os (EnsureDir env (Dir path) w) (\<lambda>w.
         then_os (os_WriteFile env tmp data mode w) (\<lambda>w.
         os_Rename env tmp path w)))"

section \<open>Text files\<close>

definition byte_order_mark :: string where
  "byte_order_mark = [CHR 0xEF, CHR 0xBB, CHR 0xBF]"

definition text_of_data :: "string \<Rightarrow> string \<Rightarrow> os_error + string" where
  "text_of_data path data =
     (if HasPrefix data [CHR 0xFF, CHR 0xFE] then Inl (OsError (''UTF-16 text is not supported yet: '' @ path))
      else let data = TrimPrefix data byte_order_mark
           in if nul \<in> set data \<or> \<not> utf8_Valid data
              then Inl (OsError (''this tool cannot read binary files: '' @ path))
              else Inr data)"

definition readText :: "os_env \<Rightarrow> string \<Rightarrow> file_world \<Rightarrow> os_error + string" where
  "readText env path w = (case os_ReadFile env path w of Inl e \<Rightarrow> Inl e | Inr data \<Rightarrow> text_of_data path data)"

definition crlf_text :: string where "crlf_text = [cr, nl]"

text \<open>The content with its line endings made \<open>\n\<close>, whether the file exists, whether a line ends in
  \<open>\r\n\<close>, and the mode.\<close>

record edit_text =
  etContent :: string
  etExisted :: bool
  etCRLF :: bool
  etMode :: nat

definition readTextForEdit :: "os_env \<Rightarrow> string \<Rightarrow> file_world \<Rightarrow> os_error + edit_text" where
  "readTextForEdit env path w =
     (case os_Stat env path w of
        Inl NotExist \<Rightarrow> Inr \<lparr>etContent = [], etExisted = False, etCRLF = False, etMode = 420\<rparr>
      | Inl e \<Rightarrow> Inl e
      | Inr (DirNode t m) \<Rightarrow> Inl (OsError (''cannot edit directory: '' @ path))
      | Inr (FileNode d t m) \<Rightarrow>
        (case readText env path w of
           Inl e \<Rightarrow> Inl e
         | Inr raw \<Rightarrow> Inr \<lparr>etContent = ReplaceAll raw crlf_text [nl], etExisted = True,
                          etCRLF = Contains raw crlf_text, etMode = m\<rparr>))"

definition writeText :: "os_env \<Rightarrow> string \<Rightarrow> string \<Rightarrow> nat \<Rightarrow> file_world \<Rightarrow> os_error option \<times> file_world" where
  "writeText env path content mode w = AtomicWriteFile env path content (if mode = 0 then 420 else mode) w"

definition writeNormalizedText ::
  "os_env \<Rightarrow> string \<Rightarrow> string \<Rightarrow> bool \<Rightarrow> nat \<Rightarrow> file_world \<Rightarrow> os_error option \<times> file_world" where
  "writeNormalizedText env path content crlf mode w =
     writeText env path (if crlf then ReplaceAll content [nl] crlf_text else content) mode w"

definition mtimeMillis :: "os_env \<Rightarrow> string \<Rightarrow> file_world \<Rightarrow> os_error + int" where
  "mtimeMillis env path w =
     (case os_Stat env path w of
        Inl e \<Rightarrow> Inl e
      | Inr (FileNode d t m) \<Rightarrow> Inr t
      | Inr (DirNode t m) \<Rightarrow> Inr t)"

section \<open>The files read\<close>

text \<open>\<open>EnsureReadState\<close> puts an empty state into the metadata where there is none, so a state that is not
  there yet is an empty one.\<close>

definition ReadState_Get :: "string \<Rightarrow> file_world \<Rightarrow> ReadFileState option" where
  "ReadState_Get path w = fwReadState w path"

definition ReadState_Set :: "string \<Rightarrow> ReadFileState \<Rightarrow> file_world \<Rightarrow> file_world" where
  "ReadState_Set path state w = w\<lparr>fwReadState := (fwReadState w)(path \<mapsto> state)\<rparr>"

definition fullRead :: "ReadFileState \<Rightarrow> bool" where
  "fullRead state =
     (\<not> rfPartialView state \<and> (rfOffset state = None \<or> rfOffset state = Some 1) \<and> rfLimit state = None)"

definition sameLimit :: "int option \<Rightarrow> int option \<Rightarrow> bool" where
  "sameLimit a b = (a = b)"

end
