(* ===== verification/FileText.thy ===== *)
theory FileText
  imports FileStore
begin

text \<open>
  The text functions of the file tools (\<open>internal/tools/file/helpers.go\<close> and \<open>diff.go\<close>): the window
  of lines that Read shows, the search for the string that Edit replaces, with its quotes made
  straight, the replacement, and the diff that a result carries.

  A Go \<open>rune\<close> is modelled by its encoding, a string of one to four bytes; \<open>[]rune(s)\<close> is then
  \<open>rune_strings s\<close> and \<open>string(runes)\<close> is \<open>concat\<close>.
\<close>

section \<open>Searching and replacing\<close>

fun Index :: "string \<Rightarrow> string \<Rightarrow> nat option" where
  "Index s sub =
     (if HasPrefix s sub then Some 0
      else case s of [] \<Rightarrow> None | c # cs \<Rightarrow> map_option Suc (Index cs sub))"

declare Index.simps [simp del]

text \<open>\<open>strings.Count\<close> of a string that is not empty: the occurrences do not overlap.\<close>

function Count :: "string \<Rightarrow> string \<Rightarrow> nat" where
  "Count s sub =
     (case s of [] \<Rightarrow> 0
      | c # cs \<Rightarrow> if sub \<noteq> [] \<and> HasPrefix s sub then Suc (Count (drop (length sub) s) sub) else Count cs sub)"
  by pat_completeness auto
termination by (relation "measure (\<lambda>(s, sub). length s)") auto

declare Count.simps [simp del]

text \<open>\<open>strings.Replace\<close> with \<open>n = 1\<close> of a string that is not empty.\<close>

fun ReplaceOne :: "string \<Rightarrow> string \<Rightarrow> string \<Rightarrow> string" where
  "ReplaceOne [] old new = []"
| "ReplaceOne (c # cs) old new =
     (if HasPrefix (c # cs) old then new @ drop (length old) (c # cs) else c # ReplaceOne cs old new)"

abbreviation left_single :: string where "left_single \<equiv> [CHR 0xE2, CHR 0x80, CHR 0x98]"
abbreviation right_single :: string where "right_single \<equiv> [CHR 0xE2, CHR 0x80, CHR 0x99]"
abbreviation left_double :: string where "left_double \<equiv> [CHR 0xE2, CHR 0x80, CHR 0x9C]"
abbreviation right_double :: string where "right_double \<equiv> [CHR 0xE2, CHR 0x80, CHR 0x9D]"
abbreviation em_dash :: string where "em_dash \<equiv> [CHR 0xE2, CHR 0x80, CHR 0x94]"
abbreviation en_dash :: string where "en_dash \<equiv> [CHR 0xE2, CHR 0x80, CHR 0x93]"

section \<open>Quotes\<close>

text \<open>The replacer goes over the bytes: at each place it replaces a quotation mark that starts there.\<close>

function normalizeQuotes :: "string \<Rightarrow> string" where
  "normalizeQuotes s =
     (case s of [] \<Rightarrow> []
      | c # cs \<Rightarrow>
        if HasPrefix s left_single \<or> HasPrefix s right_single then squote # normalizeQuotes (drop 3 s)
        else if HasPrefix s left_double \<or> HasPrefix s right_double then dquote # normalizeQuotes (drop 3 s)
        else c # normalizeQuotes cs)"
  by pat_completeness auto
termination by (relation "measure length") auto

declare normalizeQuotes.simps [simp del]

text \<open>What \<open>findActualString\<close> finds, with its second result as the option.\<close>

definition findActualString :: "string \<Rightarrow> string \<Rightarrow> string option" where
  "findActualString content search =
     (if Contains content search then Some search
      else let normalizedContent = normalizeQuotes content;
               normalizedSearch = normalizeQuotes search
           in case Index normalizedContent normalizedSearch of
                None \<Rightarrow> None
              | Some index \<Rightarrow>
                let rs = rune_strings content;
                    searchRunes = rune_strings search;
                    start = length (rune_strings (take index normalizedContent))
                in if length rs < start + length searchRunes then None
                   else Some (concat (take (length searchRunes) (drop start rs))))"

definition isOpeningQuoteContext :: "string list \<Rightarrow> nat \<Rightarrow> bool" where
  "isOpeningQuoteContext rs index =
     (if index = 0 then True
      else rs ! (index - 1) \<in> {'' '', [tab], [nl], [cr], ''('', ''['', ''{'', em_dash, en_dash})"

text \<open>The runes above U+007F are those whose encoding is longer than a byte.\<close>

definition isLetter_rune :: "string \<Rightarrow> bool" where
  "isLetter_rune r = (length r > 1 \<or> list_all is_alpha r)"

definition curly_double :: "string list \<Rightarrow> nat \<Rightarrow> string" where
  "curly_double rs i =
     (if rs ! i \<noteq> [dquote] then rs ! i
      else if isOpeningQuoteContext rs i then left_double else right_double)"

definition applyCurlyDoubleQuotes :: "string \<Rightarrow> string" where
  "applyCurlyDoubleQuotes s =
     (let rs = rune_strings s in concat (map (curly_double rs) [0..<length rs]))"

definition curly_single :: "string list \<Rightarrow> nat \<Rightarrow> string" where
  "curly_single rs i =
     (if rs ! i \<noteq> [squote] then rs ! i
      else if i > 0 \<and> i + 1 < length rs \<and> isLetter_rune (rs ! (i - 1)) \<and> isLetter_rune (rs ! (i + 1))
      then right_single
      else if isOpeningQuoteContext rs i then left_single else right_single)"

definition applyCurlySingleQuotes :: "string \<Rightarrow> string" where
  "applyCurlySingleQuotes s =
     (let rs = rune_strings s in concat (map (curly_single rs) [0..<length rs]))"

text \<open>\<open>strings.ContainsAny\<close> with a set of characters beyond ASCII: one of the runes is in it.\<close>

definition contains_rune :: "string \<Rightarrow> string list \<Rightarrow> bool" where
  "contains_rune s set_rs = list_ex (\<lambda>r. r \<in> set set_rs) (rune_strings s)"

definition preserveQuoteStyle :: "string \<Rightarrow> string \<Rightarrow> string \<Rightarrow> string" where
  "preserveQuoteStyle oldString actualOldString newString =
     (if oldString = actualOldString then newString
      else let newString = (if contains_rune actualOldString [left_double, right_double]
                            then applyCurlyDoubleQuotes newString else newString)
           in if contains_rune actualOldString [left_single, right_single]
              then applyCurlySingleQuotes newString else newString)"

definition applyEdit :: "string \<Rightarrow> string \<Rightarrow> string \<Rightarrow> bool \<Rightarrow> string" where
  "applyEdit content oldString newString replaceAll =
     (let target = (if newString = [] \<and> \<not> HasSuffix oldString [nl] \<and> Contains content (oldString @ [nl])
                    then oldString @ [nl] else oldString)
      in if oldString = [] then newString
         else if replaceAll then ReplaceAll content target newString
         else ReplaceOne content target newString)"

section \<open>Windows of lines\<close>

text \<open>The lines from \<open>offset\<close> on, the number of them and of all lines. The sum that bounds the window is
  a 64-bit one; \<open>None\<close> is the panic of a slice whose end is before its start.\<close>

definition selectedLines :: "string \<Rightarrow> int \<Rightarrow> int option \<Rightarrow> (string \<times> nat \<times> nat) option" where
  "selectedLines content offset limit =
     (if content = [] then Some ([], 0, 0)
      else let lines = Split (ReplaceAll content crlf_text [nl]) nl;
               total = length lines;
               start = (if offset > 1 then nat (offset - 1) else 0)
           in if total \<le> start then Some ([], 0, total)
              else let end = (case limit of
                                Some l \<Rightarrow> if wrap64 (int start + l) < int total then wrap64 (int start + l) else int total
                              | None \<Rightarrow> int total)
                   in if end < int start then None
                      else Some (Join (take (nat end - start) (drop start lines)) [nl], nat end - start, total))"

definition addLineNumbers :: "string \<Rightarrow> int \<Rightarrow> string" where
  "addLineNumbers content startLine =
     (if content = [] then []
      else let lines = Split content nl
           in Join (map (\<lambda>(i, line). int_text (startLine + int i) @ [tab] @ line) (enumerate 0 lines)) [nl])"

section \<open>Diffs\<close>

record textDiff =
  Unified :: string
  Hunks :: "go_map list"

definition diffLines :: "string \<Rightarrow> string list" where
  "diffLines text =
     (let text = TrimRight (ReplaceAll text crlf_text [nl]) [nl] in if text = [] then [] else Split text nl)"

fun commonPrefixLines :: "string list \<Rightarrow> string list \<Rightarrow> nat" where
  "commonPrefixLines (a # as) (b # bs) = (if a \<noteq> b then 0 else Suc (commonPrefixLines as bs))"
| "commonPrefixLines _ _ = 0"

definition commonSuffixLines :: "string list \<Rightarrow> string list \<Rightarrow> nat" where
  "commonSuffixLines a b = commonPrefixLines (rev a) (rev b)"

text \<open>One line of a diff: its operation, its text and its numbers in the two texts, 0 for none.\<close>

definition diff_text :: "string \<Rightarrow> string \<Rightarrow> string" where
  "diff_text op text = (if op = ''delete'' then ''-'' else if op = ''insert'' then ''+'' else '' '') @ text @ [nl]"

definition diff_item :: "string \<Rightarrow> string \<Rightarrow> nat \<Rightarrow> nat \<Rightarrow> go_map" where
  "diff_item op text oldLine newLine =
     [(''op'', AnyString op), (''text'', AnyString text)] @
     (if oldLine > 0 then [(''old_line'', AnyInt (int oldLine))] else []) @
     (if newLine > 0 then [(''new_line'', AnyInt (int newLine))] else [])"

type_synonym diff_line = "string \<times> string \<times> nat \<times> nat"

definition hunk_lines :: "string list \<Rightarrow> string list \<Rightarrow> nat \<Rightarrow> nat \<Rightarrow> nat \<Rightarrow> nat \<Rightarrow> nat \<Rightarrow> nat \<Rightarrow> diff_line list" where
  "hunk_lines oldLines newLines same oldChangeEnd newChangeEnd oldHunkStart newHunkStart oldHunkEnd =
     map (\<lambda>i. (''context'', oldLines ! i, i + 1, newHunkStart + (i - oldHunkStart) + 1)) [oldHunkStart..<same] @
     map (\<lambda>i. (''delete'', oldLines ! i, i + 1, 0)) [same..<oldChangeEnd] @
     map (\<lambda>i. (''insert'', newLines ! i, 0, i + 1)) [same..<newChangeEnd] @
     map (\<lambda>i. (''context'', oldLines ! i, i + 1, newChangeEnd + (i - oldChangeEnd) + 1)) [oldChangeEnd..<oldHunkEnd]"

definition buildTextDiff :: "string \<Rightarrow> string \<Rightarrow> string \<Rightarrow> textDiff" where
  "buildTextDiff path oldText newText =
     (let oldLines = diffLines oldText;
          newLines = diffLines newText
      in if oldLines = newLines then \<lparr>Unified = [], Hunks = []\<rparr>
         else let same = commonPrefixLines oldLines newLines;
                  suffix = commonSuffixLines (drop same oldLines) (drop same newLines);
                  oldChangeEnd = length oldLines - suffix;
                  newChangeEnd = length newLines - suffix;
                  oldHunkStart = same - 3;
                  newHunkStart = same - 3;
                  oldHunkEnd = min (oldChangeEnd + 3) (length oldLines);
                  newHunkEnd = min (newChangeEnd + 3) (length newLines);
                  lines = hunk_lines oldLines newLines same oldChangeEnd newChangeEnd oldHunkStart newHunkStart oldHunkEnd;
                  header = ''--- a/'' @ path @ [nl] @ ''+++ b/'' @ path @ [nl] @
                    ''@@ -'' @ dec (oldHunkStart + 1) @ '','' @ dec (oldHunkEnd - oldHunkStart) @
                    '' +'' @ dec (newHunkStart + 1) @ '','' @ dec (newHunkEnd - newHunkStart) @ '' @@'' @ [nl]
              in \<lparr>Unified = TrimRight (header @ concat (map (\<lambda>(op, text, i, j). diff_text op text) lines)) [nl],
                  Hunks = [[(''old_start'', AnyInt (int (oldHunkStart + 1))),
                            (''old_lines'', AnyInt (int (oldHunkEnd - oldHunkStart))),
                            (''new_start'', AnyInt (int (newHunkStart + 1))),
                            (''new_lines'', AnyInt (int (newHunkEnd - newHunkStart))),
                            (''lines'', AnyMapSlice (map (\<lambda>(op, text, i, j). diff_item op text i j) lines))]]\<rparr>)"

end
