(* ===== verification/FileTextLaws.thy ===== *)
theory FileTextLaws
  imports FileText PathLaws RuleLaws BashLaws
begin

text \<open>
  Laws of the text functions: searching and replacing, UTF-8 text in pieces, the string that Edit
  finds, line endings, and diffs.
\<close>

section \<open>Searching and replacing\<close>

lemma Contains_iff: "Contains s sub \<longleftrightarrow> (\<exists>a b. s = a @ sub @ b)"
proof (induction s)
  case (Cons c cs)
  show ?case
  proof
    assume "Contains (c # cs) sub"
    then consider (here) "prefix sub (c # cs)" | (later) "Contains cs sub" by (auto simp: HasPrefix_iff)
    then show "\<exists>a b. c # cs = a @ sub @ b"
    proof cases
      case here
      then obtain b where "c # cs = [] @ sub @ b" by (auto simp: prefix_def)
      then show ?thesis by blast
    next
      case later
      then obtain a b where "cs = a @ sub @ b" using Cons by blast
      then have "c # cs = (c # a) @ sub @ b" by simp
      then show ?thesis by blast
    qed
  next
    assume "\<exists>a b. c # cs = a @ sub @ b"
    then obtain a b where ab: "c # cs = a @ sub @ b" by blast
    show "Contains (c # cs) sub"
    proof (cases a)
      case Nil
      then have "HasPrefix (c # cs) sub" using ab by (simp add: HasPrefix_iff)
      then show ?thesis by simp
    next
      case (Cons x xs)
      then have "\<exists>a b. cs = a @ sub @ b" using ab by auto
      then show ?thesis using Cons.IH by simp
    qed
  qed
qed auto

lemma Index_Some:
  "Index s sub = Some i \<Longrightarrow> i + length sub \<le> length s \<and> take (length sub) (drop i s) = sub"
proof (induction s arbitrary: i)
  case Nil
  then show ?case by (subst (asm) Index.simps) (auto simp: HasPrefix_iff split: if_splits)
next
  case (Cons c cs)
  show ?case
  proof (cases "HasPrefix (c # cs) sub")
    case True
    then obtain b where b: "c # cs = sub @ b" by (auto simp: HasPrefix_iff prefix_def)
    have "length sub \<le> length (c # cs)" unfolding b by simp
    moreover have "take (length sub) (c # cs) = sub" unfolding b by simp
    moreover have "i = 0" using Cons.prems True by (subst (asm) Index.simps) simp
    ultimately show ?thesis by simp
  next
    case False
    then obtain j where "Index cs sub = Some j" "i = Suc j"
      using Cons.prems by (subst (asm) Index.simps) auto
    then show ?thesis using Cons.IH[of j] by simp
  qed
qed

lemma Count_zero: "sub \<noteq> [] \<Longrightarrow> Count s sub = 0 \<longleftrightarrow> \<not> Contains s sub"
proof (induction s)
  case Nil
  then show ?case by (subst Count.simps) simp
next
  case (Cons c cs)
  then show ?case by (subst Count.simps) auto
qed

lemma ReplaceOne_first:
  "Contains s old \<Longrightarrow> old \<noteq> [] \<Longrightarrow> \<exists>a b. s = a @ old @ b \<and> \<not> Contains (butlast (a @ old)) old \<and> ReplaceOne s old new = a @ new @ b"
proof (induction s)
  case (Cons c cs)
  show ?case
  proof (cases "HasPrefix (c # cs) old")
    case True
    then obtain b where b: "c # cs = old @ b" by (auto simp: HasPrefix_iff prefix_def)
    have "length (butlast old) < length old" using Cons.prems(2) by (cases old) auto
    then have "\<not> Contains (butlast old) old" by (auto simp: Contains_iff dest!: arg_cong[where f = length])
    moreover have "ReplaceOne (c # cs) old new = new @ b" using True by (simp add: b[symmetric]) (simp add: b)
    ultimately have "c # cs = [] @ old @ b \<and> \<not> Contains (butlast ([] @ old)) old \<and> ReplaceOne (c # cs) old new = [] @ new @ b"
      using b by simp
    then show ?thesis by blast
  next
    case False
    then obtain a b where ab: "cs = a @ old @ b" "\<not> Contains (butlast (a @ old)) old" "ReplaceOne cs old new = a @ new @ b"
      using Cons by auto
    have "\<not> HasPrefix (butlast ((c # a) @ old)) old"
    proof
      assume "HasPrefix (butlast ((c # a) @ old)) old"
      then have "prefix old (butlast ((c # a) @ old))" by (simp only: HasPrefix_iff)
      moreover have "prefix (butlast ((c # a) @ old)) ((c # a) @ old @ b)"
        by (metis append.assoc prefix_order.dual_order.trans prefixeq_butlast prefixI)
      ultimately have "prefix old (c # cs)" unfolding ab(1) by (metis append_Cons prefix_order.trans)
      then show False using False by (simp add: HasPrefix_iff)
    qed
    then have "\<not> Contains (butlast ((c # a) @ old)) old" using ab(2) Cons.prems(2) by simp
    moreover have "ReplaceOne (c # cs) old new = (c # a) @ new @ b" using False ab(3) by simp
    moreover have "c # cs = (c # a) @ old @ b" using ab(1) by simp
    ultimately show ?thesis by blast
  qed
qed simp

section \<open>Line endings\<close>

text \<open>Text with every line ending made \<open>\r\n\<close> comes back when they are made \<open>\n\<close> again, whatever
  carriage returns it has.\<close>

lemma crlf_head: "ReplaceAll s [nl] crlf_text = c # t \<Longrightarrow> c \<noteq> nl"
  by (cases s) (auto simp: ReplaceAll_byte crlf_text_def split: if_splits)

lemma crlf_round_trip: "ReplaceAll (ReplaceAll s [nl] crlf_text) crlf_text [nl] = s"
proof (induction s)
  case (Cons c cs)
  let ?r = "ReplaceAll cs [nl] crlf_text"
  show ?case
  proof (cases "c = nl")
    case True
    have "ReplaceAll (c # cs) [nl] crlf_text = crlf_text @ ?r" using True by (simp add: ReplaceAll_byte)
    moreover have "ReplaceAll (crlf_text @ ?r) crlf_text [nl] = nl # ReplaceAll ?r crlf_text [nl]"
      unfolding crlf_text_def by (subst ReplaceAll.simps) simp
    ultimately show ?thesis using Cons True by simp
  next
    case False
    have expand: "ReplaceAll (c # cs) [nl] crlf_text = c # ?r" using False by (simp add: ReplaceAll_byte)
    have "\<not> HasPrefix (c # ?r) crlf_text"
      using crlf_head[of cs] by (cases ?r) (auto simp: crlf_text_def)
    then have "ReplaceAll (c # ?r) crlf_text [nl] = c # ReplaceAll ?r crlf_text [nl]"
      by (subst ReplaceAll.simps) simp
    then show ?thesis using Cons by (simp add: expand)
  qed
qed simp

section \<open>UTF-8 text in pieces\<close>

text \<open>What a lead byte announces, and when a decoding does not end in the error rune.\<close>

lemma decode_fits: "s \<noteq> [] \<Longrightarrow> snd (decode_rune s) \<le> length s"
  by (auto simp: decode_rune_def Let_def split: list.split prod.split)

lemma decode_append:
  assumes "s \<noteq> []" "decode_rune s \<noteq> (0xFFFD, 1)"
  shows "decode_rune (s @ t) = decode_rune s"
proof -
  obtain a s1 where s: "s = a # s1" using assms(1) by (cases s) auto
  obtain lo hi where bounds: "second_byte_bounds (byte a) = (lo, hi)" by fastforce
  note ok = assms(2)[unfolded s decode_rune_def Let_def list.case bounds prod.case]
  show ?thesis
  proof (cases s1)
    case Nil
    then show ?thesis using ok by (simp add: s decode_rune_def Let_def bounds split: if_splits)
  next
    case (Cons b s2)
    note s1 = this
    show ?thesis
    proof (cases s2)
      case Nil
      then show ?thesis using ok s1 by (simp add: s decode_rune_def Let_def bounds split: if_splits)
    next
      case (Cons c s3)
      then show ?thesis using ok s1
        by (cases s3) (simp_all add: s decode_rune_def Let_def bounds split: if_splits)
    qed
  qed
qed

abbreviation continues :: "char \<Rightarrow> bool" where
  "continues c \<equiv> cont 0x80 0xBF c"

lemma second_byte: "second_byte_bounds n = (lo, hi) \<Longrightarrow> cont lo hi b \<Longrightarrow> continues b"
  by (auto simp: cont_def second_byte_bounds_def split: if_splits)

text \<open>The bytes of a rune after its first one are continuation bytes, and the first one is not.\<close>

lemma decode_tail:
  assumes "s \<noteq> []" "0 < i" "i < snd (decode_rune s)"
  shows "continues (s ! i)"
proof -
  obtain a s1 where s: "s = a # s1" using assms(1) by (cases s) auto
  obtain lo hi where bounds: "second_byte_bounds (byte a) = (lo, hi)" by fastforce
  note wide = assms(3)[unfolded s decode_rune_def Let_def list.case bounds prod.case]
  have small: "i = 1 \<or> i = 2 \<or> i = 3 \<or> 4 \<le> i" using assms(2) by linarith
  show ?thesis
  proof (cases s1)
    case Nil
    then show ?thesis using wide assms(2) by (simp split: if_splits)
  next
    case (Cons b s2)
    note s1 = this
    have second: "i = 1 \<Longrightarrow> cont lo hi b" using wide s1 by (simp split: if_splits)
    show ?thesis
    proof (cases s2)
      case Nil
      then have "i = 1" using wide s1 assms(2) by (simp split: if_splits)
      then show ?thesis using second_byte[OF bounds second] by (simp add: s s1)
    next
      case (Cons c s3)
      note s2 = this
      have third: "i = 2 \<Longrightarrow> continues c" using wide s1 s2 by (simp split: if_splits)
      show ?thesis
      proof (cases s3)
        case Nil
        then have "i = 1 \<or> i = 2" using wide s1 s2 assms(2) small by (simp split: if_splits)
        then show ?thesis using second_byte[OF bounds second] third by (auto simp: s s1 s2)
      next
        case (Cons d s4)
        then have "i = 1 \<or> i = 2 \<or> i = 3" "i = 3 \<Longrightarrow> continues d"
          using wide s1 s2 assms(2) small by (simp_all split: if_splits)
        then show ?thesis using second_byte[OF bounds second] third Cons by (auto simp: s s1 s2)
      qed
    qed
  qed
qed

lemma decode_lead: "s \<noteq> [] \<Longrightarrow> decode_rune s \<noteq> (0xFFFD, 1) \<Longrightarrow> \<not> continues (hd s)"
  by (auto simp: decode_rune_def Let_def cont_def split: list.splits prod.splits if_splits)

lemma valid_Nil [simp]: "utf8_Valid []"
  by (simp add: utf8_Valid.simps)

lemma runes_Nil [simp]: "rune_strings [] = []"
  by (simp add: rune_strings.simps)

lemma valid_step: "s \<noteq> [] \<Longrightarrow> utf8_Valid s \<Longrightarrow> decode_rune s \<noteq> (0xFFFD, 1) \<and> utf8_Valid (drop (snd (decode_rune s)) s)"
  by (subst (asm) utf8_Valid.simps) (auto split: if_splits)

text \<open>A text is taken apart rune by rune: the induction that every law below uses.\<close>

lemma valid_induct [consumes 1, case_names empty rune]:
  assumes "utf8_Valid s" "P []"
    and "\<And>r s. r \<noteq> [] \<Longrightarrow> decode_rune r \<noteq> (0xFFFD, 1) \<Longrightarrow> snd (decode_rune r) = length r \<Longrightarrow> utf8_Valid s \<Longrightarrow> P s \<Longrightarrow> P (r @ s)"
  shows "P s"
  using assms(1)
proof (induction "length s" arbitrary: s rule: less_induct)
  case less
  show ?case
  proof (cases "s = []")
    case False
    let ?n = "snd (decode_rune s)"
    have ok: "decode_rune s \<noteq> (0xFFFD, 1)" "utf8_Valid (drop ?n s)" using valid_step[OF False less.prems] by auto
    have n: "1 \<le> ?n" "?n \<le> length s" using decode_rune_width[OF False] decode_fits[OF False] by auto
    have take: "decode_rune (take ?n s) = decode_rune s"
      using ok(1) by (auto simp: decode_rune_def Let_def split: list.splits prod.splits if_splits)
    have "P (drop ?n s)" using less.hyps[of "drop ?n s"] ok(2) n False by simp
    moreover have "take ?n s \<noteq> []" using n False by (cases ?n) auto
    ultimately have "P (take ?n s @ drop ?n s)" using assms(3)[of "take ?n s" "drop ?n s"] ok n by (simp add: take)
    then show ?thesis by simp
  qed (simp add: assms(2))
qed

lemma rune_pieces:
  assumes "r \<noteq> []" "decode_rune r \<noteq> (0xFFFD, 1)" "snd (decode_rune r) = length r"
  shows "rune_strings (r @ s) = r # rune_strings s" "utf8_Valid (r @ s) = utf8_Valid s"
  using assms decode_append[of r s]
  by (simp_all add: rune_strings.simps[of "r @ s"] utf8_Valid.simps[of "r @ s"] rune_string_def)

lemma runes_concat: "utf8_Valid s \<Longrightarrow> concat (rune_strings s) = s"
  by (induction rule: valid_induct) (simp_all add: rune_pieces)

lemma runes_append: "utf8_Valid s \<Longrightarrow> rune_strings (s @ t) = rune_strings s @ rune_strings t"
  by (induction rule: valid_induct) (simp_all add: rune_pieces)

lemma valid_append: "utf8_Valid s \<Longrightarrow> utf8_Valid (s @ t) = utf8_Valid t"
  by (induction rule: valid_induct) (simp_all add: rune_pieces)

lemma valid_head: "utf8_Valid s \<Longrightarrow> s \<noteq> [] \<Longrightarrow> \<not> continues (hd s)"
  by (subst (asm) utf8_Valid.simps) (auto dest: decode_lead split: if_splits)

text \<open>Where a byte that continues nothing follows, a rune has ended.\<close>

lemma valid_cut: "utf8_Valid s \<Longrightarrow> s = x @ y \<Longrightarrow> y = [] \<or> \<not> continues (hd y) \<Longrightarrow> utf8_Valid x \<and> utf8_Valid y"
proof (induction arbitrary: x rule: valid_induct)
  case empty
  then show ?case by simp
next
  case (rune r s)
  show ?case
  proof (cases "x = []")
    case True
    then show ?thesis using rune.prems(1) rune.hyps rune_pieces(2)[of r s] by simp
  next
    case False
    have "\<not> length x < length r"
    proof
      assume short: "length x < length r"
      then have "y \<noteq> []" using rune.prems(1) by (auto dest: arg_cong[where f = length])
      moreover have "hd y = r ! length x"
        using short rune.prems(1) \<open>y \<noteq> []\<close> by (metis append_eq_conv_conj hd_drop_conv_nth length_append nth_append trans_less_add1)
      ultimately show False using decode_tail[of r "length x"] rune.hyps False short rune.prems(2) by simp
    qed
    then obtain z where "x = r @ z" "s = z @ y" using rune.prems(1) by (auto simp: append_eq_append_conv2)
    then show ?thesis using rune.IH[of z] rune.prems(2) rune_pieces(2)[of r z] rune.hyps by simp
  qed
qed

section \<open>Quotes\<close>

definition a_rune :: "string \<Rightarrow> bool" where
  "a_rune r = (r \<noteq> [] \<and> decode_rune r \<noteq> (0xFFFD, 1) \<and> snd (decode_rune r) = length r)"

lemma valid_runes: "utf8_Valid s \<Longrightarrow> r \<in> set (rune_strings s) \<Longrightarrow> a_rune r"
  by (induction rule: valid_induct) (auto simp: rune_pieces a_rune_def)

lemma runes_of_concat: "(\<And>r. r \<in> set rs \<Longrightarrow> a_rune r) \<Longrightarrow> utf8_Valid (concat rs) \<and> rune_strings (concat rs) = rs"
  by (induction rs) (simp_all add: rune_pieces a_rune_def)

definition straight :: "string \<Rightarrow> string" where
  "straight r =
     (if r = left_single \<or> r = right_single then [squote]
      else if r = left_double \<or> r = right_double then [dquote] else r)"

definition quote_starts :: "string \<Rightarrow> bool" where
  "quote_starts s = (HasPrefix s left_single \<or> HasPrefix s right_single \<or> HasPrefix s left_double \<or> HasPrefix s right_double)"

lemma normalize_copies: "(\<And>i. i < length r \<Longrightarrow> \<not> quote_starts (drop i r @ s)) \<Longrightarrow> normalizeQuotes (r @ s) = r @ normalizeQuotes s"
proof (induction r)
  case (Cons c r)
  have "\<not> quote_starts (drop i r @ s)" if "i < length r" for i using Cons.prems[of "Suc i"] that by simp
  moreover have "normalizeQuotes ((c # r) @ s) = c # normalizeQuotes (r @ s)"
    using Cons.prems[of 0] by (subst normalizeQuotes.simps) (simp add: quote_starts_def)
  ultimately show ?case using Cons.IH by simp
qed simp

lemma quote_starts_byte: "quote_starts s \<Longrightarrow> s \<noteq> [] \<and> hd s = CHR 0xE2"
  by (cases s) (auto simp: quote_starts_def)

lemma quote_runes:
  "r \<in> {left_single, right_single, left_double, right_double} \<Longrightarrow> decode_rune r \<noteq> (0xFFFD, 1) \<and> snd (decode_rune r) = 3"
  by (auto simp: decode_rune_def second_byte_bounds_def cont_def byte_def)

lemma normalize_rune:
  assumes "a_rune r"
  shows "normalizeQuotes (r @ s) = straight r @ normalizeQuotes s"
proof (cases "r \<in> {left_single, right_single, left_double, right_double}")
  case True
  then show ?thesis by (subst normalizeQuotes.simps) (auto simp: straight_def)
next
  case False
  have "\<not> quote_starts (drop i r @ s)" if i: "i < length r" for i
  proof (cases "i = 0")
    case True
    show ?thesis
    proof
      assume "quote_starts (drop i r @ s)"
      then have "\<exists>q \<in> {left_single, right_single, left_double, right_double}. HasPrefix (r @ s) q"
        using True by (auto simp: quote_starts_def)
      then obtain q t where q: "q \<in> {left_single, right_single, left_double, right_double}" "r @ s = q @ t"
        by (auto simp only: HasPrefix_iff prefix_def)
      have "decode_rune (r @ s) = decode_rune q" using q quote_runes[OF q(1)] decode_append[of q t] by (cases q) auto
      moreover have "decode_rune (r @ s) = decode_rune r" using assms decode_append[of r s] by (simp add: a_rune_def)
      ultimately have "length r = 3" using assms quote_runes[OF q(1)] by (simp add: a_rune_def)
      moreover have "length q = 3" using q(1) by auto
      ultimately have "r = q" using q(2) by (simp add: append_eq_append_conv)
      then show False using False q(1) by simp
    qed
  next
    case False
    then have "continues (r ! i)" using decode_tail[of r i] assms i by (simp add: a_rune_def)
    then have "hd (drop i r @ s) \<noteq> CHR 0xE2" using i by (auto simp: hd_drop_conv_nth cont_def byte_def)
    then show ?thesis using quote_starts_byte by blast
  qed
  then show ?thesis using normalize_copies[of r s] False by (simp add: straight_def)
qed

lemma straight_rune: "a_rune r \<Longrightarrow> a_rune (straight r)"
  by (auto simp: straight_def a_rune_def decode_rune_def second_byte_bounds_def byte_def)

lemma normalizeQuotes_Nil [simp]: "normalizeQuotes [] = []"
  by (simp add: normalizeQuotes.simps)

lemma normalize_runes: "(\<And>r. r \<in> set rs \<Longrightarrow> a_rune r) \<Longrightarrow> normalizeQuotes (concat rs) = concat (map straight rs)"
  by (induction rs) (simp_all add: normalize_rune)

lemma runes_normalized:
  assumes "utf8_Valid s"
  shows "utf8_Valid (normalizeQuotes s)" "rune_strings (normalizeQuotes s) = map straight (rune_strings s)"
proof -
  have "normalizeQuotes s = concat (map straight (rune_strings s))"
    using normalize_runes[of "rune_strings s"] valid_runes[OF assms] by (simp add: runes_concat[OF assms])
  moreover have "r \<in> set (map straight (rune_strings s)) \<Longrightarrow> a_rune r" for r
    using valid_runes[OF assms] straight_rune by auto
  ultimately show "utf8_Valid (normalizeQuotes s)" "rune_strings (normalizeQuotes s) = map straight (rune_strings s)"
    using runes_of_concat[of "map straight (rune_strings s)"] by simp_all
qed

lemma runes_empty: "rune_strings s = [] \<longleftrightarrow> s = []"
  by (subst rune_strings.simps) simp

lemma normalized_empty: "utf8_Valid s \<Longrightarrow> normalizeQuotes s = [] \<longleftrightarrow> s = []"
  using runes_normalized[of s] runes_empty by (metis list.map_disc_iff)

text \<open>The string that is found is a part of the content, and with its quotes made straight it is the
  string that was asked for.\<close>

lemma Index_None: "Index s sub = None \<longleftrightarrow> \<not> Contains s sub"
proof (induction s)
  case Nil
  then show ?case by (subst Index.simps) (cases sub; simp)
next
  case (Cons c cs)
  then show ?case by (subst Index.simps) auto
qed

lemma map_splits: "map f xs = ys @ zs \<Longrightarrow> \<exists>us vs. xs = us @ vs \<and> map f us = ys \<and> map f vs = zs"
  by (auto simp: map_eq_append_conv)

lemma found_in_runes:
  assumes "utf8_Valid content" "utf8_Valid search" "search \<noteq> []"
    and "Index (normalizeQuotes content) (normalizeQuotes search) = Some i"
  shows "\<exists>before part after. rune_strings content = before @ part @ after \<and>
    length before = length (rune_strings (take i (normalizeQuotes content))) \<and>
    map straight part = map straight (rune_strings search)"
proof -
  let ?c = "normalizeQuotes content" and ?n = "normalizeQuotes search" and ?r = "rune_strings content"
  let ?x = "take i ?c" and ?y = "drop (i + length ?n) ?c"
  have split: "?c = ?x @ ?n @ ?y" using Index_Some[OF assms(4)] by (metis append_take_drop_id drop_drop add.commute)
  have n: "?n \<noteq> []" using normalized_empty assms(2,3) by simp
  then have "\<not> continues (hd (?n @ ?y))" using valid_head runes_normalized(1)[OF assms(2)] by simp
  then have x: "utf8_Valid ?x" using valid_cut[OF runes_normalized(1)[OF assms(1)] split] by blast
  have "map straight ?r = rune_strings ?x @ map straight (rune_strings search) @ rune_strings ?y"
    using runes_normalized[OF assms(1)] runes_normalized[OF assms(2)]
      runes_append[OF x, of "?n @ ?y"] runes_append[OF runes_normalized(1)[OF assms(2)], of ?y] split by metis
  then obtain before rest where before: "?r = before @ rest" "map straight before = rune_strings ?x"
      and rest: "map straight rest = map straight (rune_strings search) @ rune_strings ?y"
    using map_splits by blast
  from map_splits[OF rest] obtain part after where part: "rest = part @ after" "map straight part = map straight (rune_strings search)"
    by blast
  have "length before = length (rune_strings ?x)" using before(2) by (metis length_map)
  then show ?thesis using before(1) part by blast
qed

lemma findActualString_finds:
  assumes "utf8_Valid content" "utf8_Valid search" "search \<noteq> []"
  shows "findActualString content search = None \<longleftrightarrow>
           \<not> Contains content search \<and> \<not> Contains (normalizeQuotes content) (normalizeQuotes search)"
    and "findActualString content search = Some s \<Longrightarrow> s \<noteq> [] \<and> Contains content s \<and> normalizeQuotes s = normalizeQuotes search"
proof -
  have found: "\<exists>s. findActualString content search = Some s \<and> s \<noteq> [] \<and> Contains content s \<and> normalizeQuotes s = normalizeQuotes search"
    if new: "\<not> Contains content search" and i: "Index (normalizeQuotes content) (normalizeQuotes search) = Some i" for i
  proof -
    let ?r = "rune_strings content"
    obtain before part after where parts: "?r = before @ part @ after"
        "length before = length (rune_strings (take i (normalizeQuotes content)))"
        "map straight part = map straight (rune_strings search)"
      using found_in_runes[OF assms i] by blast
    have len: "length part = length (rune_strings search)" using parts(3) by (metis length_map)
    have runes: "a_rune r" if "r \<in> set part" for r using valid_runes[OF assms(1)] parts(1) that by auto
    have eq: "findActualString content search = Some (concat part)"
      using new i parts(1) len by (simp add: findActualString_def Let_def flip: parts(2))
    have "content = concat before @ concat part @ concat after"
      using runes_concat[OF assms(1)] parts(1) by simp
    then have "Contains content (concat part)" by (auto simp: Contains_iff)
    moreover have "normalizeQuotes (concat part) = normalizeQuotes search"
      using normalize_runes[of part] normalize_runes[of "rune_strings search"] runes valid_runes[OF assms(2)]
      by (simp add: parts(3) runes_concat[OF assms(2)])
    moreover have "concat part \<noteq> []"
    proof -
      have "part \<noteq> []" using len runes_empty[of search] assms(3) by auto
      then show ?thesis using runes by (cases part) (auto simp: a_rune_def)
    qed
    ultimately show ?thesis using eq by blast
  qed
  show "findActualString content search = None \<longleftrightarrow>
      \<not> Contains content search \<and> \<not> Contains (normalizeQuotes content) (normalizeQuotes search)"
    using found Index_None[of "normalizeQuotes content" "normalizeQuotes search"]
    by (cases "Index (normalizeQuotes content) (normalizeQuotes search)") (auto simp: findActualString_def)
  show "s \<noteq> [] \<and> Contains content s \<and> normalizeQuotes s = normalizeQuotes search"
    if "findActualString content search = Some s"
    using that found assms(3)
    by (cases "Index (normalizeQuotes content) (normalizeQuotes search)") (force simp: findActualString_def split: if_splits)+
qed

end
