(* ===== verification/SlashProps.thy ===== *)
theory SlashProps
  imports Slash ApiProps FileTextLaws
begin

text \<open>
  The properties of slash commands: the prompt that a command sends is its own, and arguments in
  quotes come through as they are.
\<close>

section \<open>Commands and their templates\<close>

definition answers_to :: "string \<Rightarrow> Command \<Rightarrow> bool" where
  "answers_to n cmd = (n \<in> set (commandKeys cmd))"

definition is_named :: "Command \<Rightarrow> bool" where
  "is_named cmd = (cmdName cmd \<noteq> [] \<and> [] \<notin> set (cmdAliases cmd))"

lemma FindCommand_keys:
  "TrimSpace name \<noteq> [] \<Longrightarrow> FindCommand name cmds = find (answers_to (TrimSpace name)) cmds"
  unfolding FindCommand_def
  by (rule arg_cong2[where f = find]) (auto simp: fun_eq_iff answers_to_def commandKeys_def UserFacingName_def)

lemma register_keys:
  "map_of (foldl (\<lambda>templates key. if key = [] then templates
       else if map_of templates key \<noteq> None then templates else templates @ [(key, prompt)]) templates keys) n =
   (case map_of templates n of Some t \<Rightarrow> Some t | None \<Rightarrow> if n \<noteq> [] \<and> n \<in> set keys then Some prompt else None)"
  by (induction keys arbitrary: templates) (auto simp: map_add_def split: option.splits)

lemma map_of_register:
  "map_of (registerPromptTemplate templates prompt) n =
   (case map_of templates n of Some t \<Rightarrow> Some t
    | None \<Rightarrow> if cmdName (ptCommand prompt) \<noteq> [] \<and> n \<noteq> [] \<and> answers_to n (ptCommand prompt) then Some prompt else None)"
  by (auto simp: registerPromptTemplate_def register_keys answers_to_def split: option.split)

text \<open>A command that is found and is a prompt has its template under every name that finds it, and it is
  not found without a name.\<close>

definition own_templates :: "Command list \<times> (string \<times> PromptTemplate) list \<Rightarrow> bool" where
  "own_templates = (\<lambda>(cmds, templates). list_all (\<lambda>c. cmdType c = CommandPrompt \<longrightarrow> is_named c) cmds \<and> (\<forall>n. n \<noteq> [] \<longrightarrow>
     (case find (answers_to n) cmds of
        None \<Rightarrow> map_of templates n = None
      | Some cmd \<Rightarrow> cmdType cmd = CommandPrompt \<longrightarrow> (\<exists>t. map_of templates n = Some t \<and> ptCommand t = cmd))))"

definition template_named :: "PromptTemplate \<Rightarrow> bool" where
  "template_named p = is_named (ptCommand p)"

definition no_prompt :: "Command \<Rightarrow> bool" where
  "no_prompt cmd = (cmdType cmd \<noteq> CommandPrompt)"

lemma own_templates_prompt:
  assumes "own_templates (cmds, templates)" "template_named p"
  shows "own_templates (cmds @ [ptCommand p], registerPromptTemplate templates p)"
  unfolding own_templates_def prod.case
proof (intro conjI allI impI)
  show "list_all (\<lambda>c. cmdType c = CommandPrompt \<longrightarrow> is_named c) (cmds @ [ptCommand p])"
    using assms by (auto simp: own_templates_def template_named_def)
  fix n :: string
  assume n: "n \<noteq> []"
  have old: "case find (answers_to n) cmds of None \<Rightarrow> map_of templates n = None
      | Some cmd \<Rightarrow> cmdType cmd = CommandPrompt \<longrightarrow> (\<exists>t. map_of templates n = Some t \<and> ptCommand t = cmd)"
    using assms(1) n by (auto simp: own_templates_def)
  have "cmdName (ptCommand p) \<noteq> []" using assms(2) by (simp add: template_named_def is_named_def)
  then show "case find (answers_to n) (cmds @ [ptCommand p]) of
      None \<Rightarrow> map_of (registerPromptTemplate templates p) n = None
    | Some cmd \<Rightarrow> cmdType cmd = CommandPrompt \<longrightarrow>
        (\<exists>t. map_of (registerPromptTemplate templates p) n = Some t \<and> ptCommand t = cmd)"
    using old n by (cases "find (answers_to n) cmds") (auto simp: find_append map_of_register split: option.splits)
qed

lemma own_templates_prompts:
  "own_templates bt \<Longrightarrow> list_all template_named ps \<Longrightarrow> own_templates (appendPromptCommands bt ps)"
proof (induction ps arbitrary: bt)
  case (Cons p ps)
  obtain cmds templates where bt: "bt = (cmds, templates)" by (cases bt)
  have "own_templates (cmds @ [ptCommand p], registerPromptTemplate templates p)"
    using own_templates_prompt Cons.prems by (simp add: bt)
  then show ?case using Cons.IH Cons.prems(2) by (fastforce simp: bt appendPromptCommands_def)
qed (simp add: appendPromptCommands_def)

lemma own_templates_command:
  assumes "own_templates (cmds, templates)" "no_prompt c"
  shows "own_templates (cmds @ [c], templates)"
  unfolding own_templates_def prod.case
proof (intro conjI allI impI)
  show "list_all (\<lambda>c. cmdType c = CommandPrompt \<longrightarrow> is_named c) (cmds @ [c])"
    using assms by (auto simp: own_templates_def no_prompt_def)
  fix n :: string
  assume "n \<noteq> []"
  then have "case find (answers_to n) cmds of None \<Rightarrow> map_of templates n = None
      | Some cmd \<Rightarrow> cmdType cmd = CommandPrompt \<longrightarrow> (\<exists>t. map_of templates n = Some t \<and> ptCommand t = cmd)"
    using assms(1) by (auto simp: own_templates_def)
  then show "case find (answers_to n) (cmds @ [c]) of None \<Rightarrow> map_of templates n = None
    | Some cmd \<Rightarrow> cmdType cmd = CommandPrompt \<longrightarrow> (\<exists>t. map_of templates n = Some t \<and> ptCommand t = cmd)"
    using assms(2) by (cases "find (answers_to n) cmds") (auto simp: find_append no_prompt_def)
qed

lemma own_templates_commands:
  "own_templates (cmds, templates) \<Longrightarrow> list_all no_prompt cs \<Longrightarrow> own_templates (cmds @ cs, templates)"
proof (induction cs arbitrary: cmds)
  case (Cons c cs)
  then show ?case using own_templates_command[of cmds templates c] Cons.IH[of "cmds @ [c]"] by simp
qed simp

lemma own_templates_append: "own_templates bt \<Longrightarrow> list_all no_prompt cs \<Longrightarrow> own_templates (appendCommands bt cs)"
  by (cases bt) (simp add: appendCommands_def own_templates_commands)

lemma own_templates_dynamic:
  "own_templates (snd st) \<Longrightarrow> list_all template_named ps \<Longrightarrow> own_templates (snd (foldl add_dynamic_prompt st ps))"
proof (induction ps arbitrary: st)
  case (Cons p ps)
  then have "own_templates (snd (add_dynamic_prompt st p))"
    by (auto simp: add_dynamic_prompt_def own_templates_prompt split: prod.split)
  then show ?case using Cons by simp
qed simp

lemma own_templates_dynamic_skills:
  "own_templates (snd st) \<Longrightarrow> list_all no_prompt cs \<Longrightarrow> own_templates (snd (foldl add_dynamic_skill st cs))"
proof (induction cs arbitrary: st)
  case (Cons c cs)
  then have "own_templates (snd (add_dynamic_skill st c))"
    by (auto simp: add_dynamic_skill_def own_templates_command split: prod.split)
  then show ?case using Cons by simp
qed simp

text \<open>Sources in which every prompt comes with its template and every template has a name.\<close>

definition well_sourced :: "Sources \<Rightarrow> bool" where
  "well_sourced s =
     (list_all template_named (BundledSkillPrompts s) \<and> list_all template_named (BuiltinPluginSkillPrompts s) \<and>
      list_all template_named (ProjectSkillPrompts s) \<and> list_all template_named (PluginSkillPrompts s) \<and>
      list_all template_named (DynamicSkillPrompts s) \<and>
      list_all no_prompt (BundledSkills s) \<and> list_all no_prompt (BuiltinPluginSkills s) \<and> list_all no_prompt (ProjectSkills s) \<and>
      list_all no_prompt (WorkflowCommands s) \<and> list_all no_prompt (PluginCommands s) \<and> list_all no_prompt (PluginSkills s) \<and>
      list_all no_prompt (DynamicSkills s) \<and> (case Builtins s of Some cs \<Rightarrow> list_all no_prompt cs | None \<Rightarrow> True))"

lemma own_templates_sources:
  assumes "well_sourced s"
  shows "own_templates (rgCommands (FromSources s), rgPromptTemplates (FromSources s))"
proof -
  note w = assms[unfolded well_sourced_def]
  define bt where "bt = appendCommands (appendPromptCommands (appendCommands (appendCommands (appendCommands
    (appendPromptCommands (appendCommands (appendPromptCommands (appendCommands (appendPromptCommands ([], [])
      (BundledSkillPrompts s)) (BundledSkills s)) (BuiltinPluginSkillPrompts s)) (BuiltinPluginSkills s))
      (ProjectSkillPrompts s)) (ProjectSkills s)) (WorkflowCommands s)) (PluginCommands s)) (PluginSkillPrompts s)) (PluginSkills s)"
  have "own_templates ([], [])" by (simp add: own_templates_def)
  then have "own_templates bt" unfolding bt_def
    using w by (intro own_templates_append own_templates_prompts) simp_all
  then obtain seen cmds templates where dyn:
    "foldl add_dynamic_skill (foldl add_dynamic_prompt (concat (map commandKeys (fst bt)), bt) (DynamicSkillPrompts s)) (DynamicSkills s) =
     (seen, cmds, templates)" and own: "own_templates (cmds, templates)"
    using own_templates_dynamic_skills[OF own_templates_dynamic[of "(concat (map commandKeys (fst bt)), bt)"]] w
    by (metis prod_cases3 snd_conv)
  have "FromSources s = \<lparr>rgCommands = cmds @ (case Builtins s of Some cs \<Rightarrow> cs | None \<Rightarrow> []), rgPromptTemplates = templates\<rparr>"
    using dyn unfolding FromSources_def Let_def bt_def by simp
  then show ?thesis using own_templates_commands[OF own] own w by (auto split: option.splits)
qed

text \<open>No template is registered that does not come from the sources.\<close>

definition prompt_templates :: "Sources \<Rightarrow> PromptTemplate list" where
  "prompt_templates s = BundledSkillPrompts s @ BuiltinPluginSkillPrompts s @ ProjectSkillPrompts s @ PluginSkillPrompts s @ DynamicSkillPrompts s"

lemma registered_keys:
  "set (map snd (foldl (\<lambda>templates key. if key = [] then templates
       else if map_of templates key \<noteq> None then templates else templates @ [(key, prompt)]) templates keys))
   \<subseteq> insert prompt (set (map snd templates))"
proof (induction keys arbitrary: templates)
  case (Cons key keys)
  let ?more = "if key = [] then templates else if map_of templates key \<noteq> None then templates else templates @ [(key, prompt)]"
  have "set (map snd ?more) \<subseteq> insert prompt (set (map snd templates))" by auto
  from subset_trans[OF Cons[of ?more]] this show ?case by (simp only: foldl.simps) blast
qed (simp only: foldl.simps, blast)

lemma registered_one: "set (map snd (registerPromptTemplate templates prompt)) \<subseteq> insert prompt (set (map snd templates))"
  using registered_keys[of prompt templates "commandKeys (ptCommand prompt)"] unfolding registerPromptTemplate_def by (simp split: if_split) blast

lemma registered_prompts: "set (map snd (foldl registerPromptTemplate templates ps)) \<subseteq> set ps \<union> set (map snd templates)"
proof (induction ps arbitrary: templates)
  case (Cons p ps)
  have "set (map snd (foldl registerPromptTemplate (registerPromptTemplate templates p) ps))
      \<subseteq> set ps \<union> set (map snd (registerPromptTemplate templates p))" by (rule Cons)
  with registered_one[of templates p] show ?case by (simp only: foldl.simps list.set) blast
qed simp

lemma registered_dynamic: "set (map snd (snd (snd (foldl add_dynamic_prompt st ps)))) \<subseteq> set ps \<union> set (map snd (snd (snd st)))"
proof (induction ps arbitrary: st)
  case (Cons p ps)
  obtain seen cmds templates where st: "st = (seen, cmds, templates)" by (cases st)
  have "set (map snd (snd (snd (add_dynamic_prompt st p)))) \<subseteq> insert p (set (map snd (snd (snd st))))"
    using registered_one[of templates p] by (auto simp only: st add_dynamic_prompt_def prod.case fst_conv snd_conv split: if_splits)
  with Cons[of "add_dynamic_prompt st p"] show ?case by (simp only: foldl.simps list.set) blast
qed simp

lemma dynamic_skill_templates: "snd (snd (foldl add_dynamic_skill st cs)) = snd (snd st)"
proof (induction cs arbitrary: st)
  case (Cons c cs)
  then show ?case using Cons[of "add_dynamic_skill st c"] by (auto simp: add_dynamic_skill_def split: prod.split)
qed simp

lemma registered_from_sources: "set (map snd (rgPromptTemplates (FromSources s))) \<subseteq> set (prompt_templates s)"
proof -
  define b1 where "b1 = foldl registerPromptTemplate [] (BundledSkillPrompts s)"
  define b2 where "b2 = foldl registerPromptTemplate b1 (BuiltinPluginSkillPrompts s)"
  define b3 where "b3 = foldl registerPromptTemplate b2 (ProjectSkillPrompts s)"
  define b4 where "b4 = foldl registerPromptTemplate b3 (PluginSkillPrompts s)"
  have base: "set (map snd b4) \<subseteq> set (prompt_templates s)"
    using registered_prompts[of "[]" "BundledSkillPrompts s", folded b1_def] registered_prompts[of b1 "BuiltinPluginSkillPrompts s", folded b2_def]
      registered_prompts[of b2 "ProjectSkillPrompts s", folded b3_def] registered_prompts[of b3 "PluginSkillPrompts s", folded b4_def]
    by (simp only: prompt_templates_def set_append list.map list.set) blast
  define st where "st = (concat (map commandKeys (map ptCommand (BundledSkillPrompts s) @ BundledSkills s @ map ptCommand (BuiltinPluginSkillPrompts s) @
      BuiltinPluginSkills s @ map ptCommand (ProjectSkillPrompts s) @ ProjectSkills s @ WorkflowCommands s @ PluginCommands s @
      map ptCommand (PluginSkillPrompts s) @ PluginSkills s)),
    (map ptCommand (BundledSkillPrompts s) @ BundledSkills s @ map ptCommand (BuiltinPluginSkillPrompts s) @
      BuiltinPluginSkills s @ map ptCommand (ProjectSkillPrompts s) @ ProjectSkills s @ WorkflowCommands s @ PluginCommands s @
      map ptCommand (PluginSkillPrompts s) @ PluginSkills s), b4)"
  have "rgPromptTemplates (FromSources s) = snd (snd (foldl add_dynamic_skill (foldl add_dynamic_prompt st (DynamicSkillPrompts s)) (DynamicSkills s)))"
    unfolding FromSources_def Let_def st_def b4_def b3_def b2_def b1_def
    by (simp add: appendPromptCommands_def appendCommands_def split: prod.split)
  then have "rgPromptTemplates (FromSources s) = snd (snd (foldl add_dynamic_prompt st (DynamicSkillPrompts s)))"
    by (simp only: dynamic_skill_templates)
  moreover have "snd (snd st) = b4" by (simp add: st_def)
  ultimately show ?thesis using registered_dynamic[of st "DynamicSkillPrompts s"] base by (simp only: prompt_templates_def set_append) blast
qed

lemma template_registered: "LookupPromptTemplate r name = Some t \<Longrightarrow> t \<in> set (map snd (rgPromptTemplates r))"
  by (auto simp: LookupPromptTemplate_def split: option.splits dest!: map_of_SomeD) force+

lemma found_prompt:
  assumes "own_templates (rgCommands r, rgPromptTemplates r)" "Find r name = Some cmd" "cmdType cmd = CommandPrompt"
  shows "\<exists>t. LookupPromptTemplate r name = Some t \<and> ptCommand t = cmd"
proof -
  have "cmd \<in> set (rgCommands r)" using assms(2) by (auto simp: Find_def FindCommand_def find_Some_iff)
  then have "is_named cmd" using assms(1,3) by (auto simp: own_templates_def list_all_iff)
  moreover have "cmdName cmd = TrimSpace name \<or> UserFacingName cmd = TrimSpace name \<or> TrimSpace name \<in> set (cmdAliases cmd)"
    using assms(2) by (auto simp: Find_def FindCommand_def find_Some_iff)
  ultimately have n: "TrimSpace name \<noteq> []" by (auto simp: is_named_def UserFacingName_def split: if_splits)
  have "find (answers_to (TrimSpace name)) (rgCommands r) = Some cmd"
    using assms(2) n by (simp add: Find_def FindCommand_keys)
  moreover have "case find (answers_to (TrimSpace name)) (rgCommands r) of None \<Rightarrow> map_of (rgPromptTemplates r) (TrimSpace name) = None
      | Some cmd \<Rightarrow> cmdType cmd = CommandPrompt \<longrightarrow> (\<exists>t. map_of (rgPromptTemplates r) (TrimSpace name) = Some t \<and> ptCommand t = cmd)"
    using assms(1) n by (simp add: own_templates_def)
  ultimately obtain t where "map_of (rgPromptTemplates r) (TrimSpace name) = Some t" "ptCommand t = cmd"
    using assms(3) by auto
  then show ?thesis by (simp add: LookupPromptTemplate_def)
qed

text \<open>C32: The permissions that a slash command brings into a turn go with its own prompt: when every
  prompt of the sources has a named template, whatever names and aliases collide, the command is the one that
  the name in the input finds, and the text that is sent to the model is the expansion, with the arguments of
  the input, of a template of the sources that belongs to that very command, whose tools are then allowed.\<close>

theorem slash_prompt_is_own:
  assumes "well_sourced sources" "slShouldQuery result"
    "ExecuteSlashCommand env newID (FromSources sources) input sessionID uuid w = (Inr (Some result), w')"
  shows "\<exists>parsed t m. ParseSlashCommand input = Some parsed \<and> Find (FromSources sources) (scCommandName parsed) = Some (slCommand result) \<and>
    t \<in> set (prompt_templates sources) \<and> ptCommand t = slCommand result \<and>
    slAllowedTools result = ParseToolList (cmdAllowedTools (slCommand result)) \<and>
    m \<in> set (slMessages result) \<and> msgContent m = [NewTextBlock (expanded_content env t (scArgs parsed) sessionID)]"
proof -
  let ?r = "FromSources sources"
  have says: "say newID body sid i base v \<noteq> (Inr (Some result), v')" if "\<not> slShouldQuery base" for body sid i base v v'
    using that assms(2) by (auto simp: say_def split: prod.splits)
  have locals: "execute_local env newID ?r parsed cmd sid i v \<noteq> (Inr (Some result), v')" for parsed cmd sid i v v'
    using assms(2) by (auto simp: execute_local_def blank_slash_result_def Let_def split: option.splits prod.splits)
  have blank: "\<not> slShouldQuery (blank_slash_result\<lparr>slUnknown := True\<rparr>)" "\<not> slShouldQuery blank_slash_result"
    "\<not> slShouldQuery (blank_slash_result\<lparr>slCommand := c\<rparr>)" for c
    by (simp_all add: blank_slash_result_def)
  obtain parsed cmd where parsed: "ParseSlashCommand input = Some parsed" and cmd: "Find ?r (scCommandName parsed) = Some cmd"
    and prompt: "cmdType cmd = CommandPrompt" and run: "execute_prompt env newID ?r parsed cmd sessionID uuid w = (Inr (Some result), w')"
    using assms(3) unfolding ExecuteSlashCommand_def
    by (auto simp: says locals blank split: option.splits if_splits)
  obtain t where t: "LookupPromptTemplate ?r (scCommandName parsed) = Some t" "ptCommand t = cmd"
    using found_prompt[OF own_templates_sources[OF assms(1)] cmd prompt] by blast
  then have "slCommand result = cmd \<and> slAllowedTools result = ParseToolList (cmdAllowedTools cmd) \<and>
      (\<exists>m \<in> set (slMessages result). msgContent m = [NewTextBlock (expanded_content env t (scArgs parsed) sessionID)])"
    using run prompt by (auto simp: execute_prompt_def ExpandPrompt_def Let_def split: prod.splits)
  moreover have "t \<in> set (prompt_templates sources)"
    using registered_from_sources[of sources] template_registered[OF t(1)] by blast
  ultimately show ?thesis using t(2) parsed cmd by (intro exI[of _ parsed] exI[of _ t]) auto
qed


definition example_command :: Command where
  "example_command = blank_command\<lparr>cmdType := CommandPrompt, cmdName := ''deploy'', cmdAllowedTools := [''Bash'']\<rparr>"

definition example_template :: PromptTemplate where
  "example_template = \<lparr>ptCommand = example_command, ptContent = ''Deploy $ARGUMENTS''\<rparr>"

definition example_command_sources :: Sources where
  "example_command_sources =
     \<lparr>BundledSkillPrompts = [], BundledSkills = [], BuiltinPluginSkillPrompts = [], BuiltinPluginSkills = [],
      ProjectSkillPrompts = [example_template], ProjectSkills = [], WorkflowCommands = [], PluginCommands = [],
      PluginSkillPrompts = [], PluginSkills = [], DynamicSkillPrompts = [], DynamicSkills = [], Builtins = Some BuiltinCommands\<rparr>"

lemma slash_prompt_is_own_witness:
  "case ExecuteSlashCommand example_prog_env (\<lambda>n. (''i'', Suc n)) (FromSources example_command_sources) ''/deploy now'' ''s'' ''u'' 0 of
     (Inr (Some result), _) \<Rightarrow> slAllowedTools result = ParseToolList [''Bash''] \<and>
       (\<exists>m. m \<in> set (slMessages result) \<and> msgContent m = [NewTextBlock (expanded_content example_prog_env example_template ''now'' ''s'')])
   | _ \<Rightarrow> False"
proof -
  let ?r = "FromSources example_command_sources" and ?ids = "\<lambda>n. (''i'', Suc n)"
  have parsed: "ParseSlashCommand ''/deploy now'' = Some \<lparr>scCommandName = ''deploy'', scArgs = ''now'', scIsMCP = False\<rparr>" by code_simp
  have found: "Find ?r ''deploy'' = Some example_command" "LookupPromptTemplate ?r ''deploy'' = Some example_template" by code_simp+
  have fields: "cmdType example_command = CommandPrompt" "\<not> cmdHidden example_command" "ptCommand example_template = example_command"
    "cmdAllowedTools example_command = [''Bash'']"
    by (simp_all add: example_template_def example_command_def blank_command_def)
  have well: "well_sourced example_command_sources" by code_simp
  have "\<exists>result w. ExecuteSlashCommand example_prog_env ?ids ?r ''/deploy now'' ''s'' ''u'' 0 = (Inr (Some result), w) \<and>
      slShouldQuery result \<and> slCommand result = example_command"
    by (simp add: ExecuteSlashCommand_def parsed found execute_prompt_def ExpandPrompt_def fields Let_def case_prod_unfold)
  then obtain result w where run: "ExecuteSlashCommand example_prog_env ?ids ?r ''/deploy now'' ''s'' ''u'' 0 = (Inr (Some result), w)"
    and asks: "slShouldQuery result" "slCommand result = example_command" by blast
  from slash_prompt_is_own[OF well asks(1) run] obtain parsed' t m where
    "ParseSlashCommand ''/deploy now'' = Some parsed'" "t \<in> set (prompt_templates example_command_sources)"
    "slAllowedTools result = ParseToolList (cmdAllowedTools (slCommand result))"
    "m \<in> set (slMessages result)" "msgContent m = [NewTextBlock (expanded_content example_prog_env t (scArgs parsed') ''s'')]"
    by blast
  moreover have "prompt_templates example_command_sources = [example_template]" by code_simp
  ultimately show ?thesis unfolding run by (auto simp: asks(2) fields parsed)
qed

section \<open>Arguments\<close>

definition in_quotes :: "string \<Rightarrow> string" where
  "in_quotes a = [CHR 0x27] @ a @ [CHR 0x27]"

lemma quoted_step:
  "[CHR 0x27] \<notin> set rs \<Longrightarrow>
   foldl argument_step \<lparr>asOut = out, asCurrent = cur, asQuote = Some [CHR 0x27], asEscaped = False, asHaveToken = True\<rparr> rs =
   \<lparr>asOut = out, asCurrent = cur @ concat rs, asQuote = Some [CHR 0x27], asEscaped = False, asHaveToken = True\<rparr>"
  by (induction rs arbitrary: cur) (auto simp: argument_step_def Let_def)

lemma ascii_runes: "is_ascii c \<Longrightarrow> rune_strings (c # s) = [c] # rune_strings s"
  by (simp add: rune_strings_code)

text \<open>A word that can be put into single quotes: valid UTF-8 without one.\<close>

definition quotable :: "string \<Rightarrow> bool" where
  "quotable a = (utf8_Valid a \<and> CHR 0x27 \<notin> set a)"

lemma quotable_runes: "quotable a \<Longrightarrow> [CHR 0x27] \<notin> set (rune_strings a) \<and> concat (rune_strings a) = a"
proof
  assume a: "quotable a"
  show c: "concat (rune_strings a) = a" using a runes_concat by (simp add: quotable_def)
  show "[CHR 0x27] \<notin> set (rune_strings a)"
  proof
    assume "[CHR 0x27] \<in> set (rune_strings a)"
    then have "CHR 0x27 \<in> set (concat (rune_strings a))" by force
    then show False using a c by (simp add: quotable_def)
  qed
qed

lemma in_quotes_runes: "quotable a \<Longrightarrow> rune_strings (in_quotes a @ s) = [CHR 0x27] # rune_strings a @ [CHR 0x27] # rune_strings s"
  using runes_append[of a "CHR 0x27 # s"] by (simp add: in_quotes_def quotable_def ascii_runes is_ascii_def byte_def)

lemma in_quotes_step:
  assumes "quotable a"
  shows "foldl argument_step \<lparr>asOut = out, asCurrent = [], asQuote = None, asEscaped = False, asHaveToken = False\<rparr>
      ([CHR 0x27] # rune_strings a @ [CHR 0x27] # rs) =
    foldl argument_step \<lparr>asOut = out, asCurrent = a, asQuote = None, asEscaped = False, asHaveToken = True\<rparr> rs"
  using quotable_runes[OF assms] by (simp add: argument_step_def Let_def quoted_step[simplified argument_step_def])

lemma not_ascii_spaces:
  "space2 a b \<Longrightarrow> \<not> is_ascii a \<and> \<not> is_ascii b" "space3 a b c \<Longrightarrow> \<not> is_ascii a \<and> \<not> is_ascii b \<and> \<not> is_ascii c"
  by (auto simp: space2_def space3_def is_ascii_def in_range_def byte_def)

lemma no_space_taken: "is_ascii c \<Longrightarrow> \<not> ascii_space c \<Longrightarrow> c \<notin> set (take (space_len_rev s) s)"
  by (auto simp: space_len_rev_def split: list.split dest: not_ascii_spaces)

lemma trimmed_to_quote: "is_ascii c \<Longrightarrow> \<not> ascii_space c \<Longrightarrow> trim_left_space_rev (x @ [c]) \<noteq> []"
proof (induction "length x" arbitrary: x rule: less_induct)
  case less
  let ?k = "space_len_rev (x @ [c])"
  have "?k \<le> length x"
  proof (rule ccontr)
    assume "\<not> ?k \<le> length x"
    then have "c \<in> set (take ?k (x @ [c]))" by simp
    then show False using no_space_taken[OF less.prems] by blast
  qed
  then have "drop ?k (x @ [c]) = drop ?k x @ [c]" by simp
  moreover have "?k \<noteq> 0 \<Longrightarrow> trim_left_space_rev (drop ?k x @ [c]) \<noteq> []"
    using less.hyps[of "drop ?k x"] less.prems \<open>?k \<le> length x\<close> by simp
  ultimately show ?case using trim_left_space_rev.simps[of "x @ [c]"] by auto
qed

lemma in_quotes_nonempty: "TrimSpace (in_quotes a @ s) \<noteq> []"
proof -
  have "space_len (in_quotes a @ s) = 0" by (simp add: in_quotes_def space_len_def ascii_space_def is_ascii_def byte_def)
  then have left: "trim_left_space (in_quotes a @ s) = in_quotes a @ s" using trim_left_space.simps[of "in_quotes a @ s"] by auto
  have "trim_left_space_rev ((rev s @ [CHR 0x27] @ rev a) @ [CHR 0x27]) \<noteq> []"
    by (rule trimmed_to_quote) (simp_all add: is_ascii_def ascii_space_def byte_def)
  then show ?thesis unfolding TrimSpace_def left trim_right_space_def by (simp add: in_quotes_def)
qed

lemma quoted_line:
  "list_all quotable args \<Longrightarrow> args \<noteq> [] \<Longrightarrow>
   foldl argument_step \<lparr>asOut = out, asCurrent = [], asQuote = None, asEscaped = False, asHaveToken = False\<rparr>
     (rune_strings (Join (map in_quotes args) '' '')) =
   \<lparr>asOut = out @ butlast args, asCurrent = last args, asQuote = None, asEscaped = False, asHaveToken = True\<rparr>"
proof (induction args arbitrary: out)
  case (Cons a args)
  show ?case
  proof (cases args)
    case Nil
    then show ?thesis using Cons.prems in_quotes_step[of a out "[]"] in_quotes_runes[of a "[]"] by simp
  next
    case (Cons b rest)
    have blank: "argument_step \<lparr>asOut = out, asCurrent = a, asQuote = None, asEscaped = False, asHaveToken = True\<rparr> '' '' =
        \<lparr>asOut = out @ [a], asCurrent = [], asQuote = None, asEscaped = False, asHaveToken = False\<rparr>"
      by (simp add: argument_step_def)
    have "rune_strings (Join (map in_quotes (a # args)) '' '') =
        [CHR 0x27] # rune_strings a @ [CHR 0x27] # '' '' # rune_strings (Join (map in_quotes args) '' '')"
      using Cons.prems in_quotes_runes[of a "CHR '' '' # Join (map in_quotes args) '' ''"] Cons
      by (simp add: ascii_runes is_ascii_def byte_def)
    then show ?thesis using Cons.prems Cons.IH[of "out @ [a]"] in_quotes_step[of a out "'' '' # rune_strings (Join (map in_quotes args) '' '')"] blank
      by (simp add: Cons)
  qed
qed simp

text \<open>C33: Arguments in single quotes come through: a line of words that are each put into single
  quotes is parsed back to the words, whatever valid UTF-8 they hold but single quotes - blanks, backslashes,
  double quotes, dollar signs - and the empty word too.\<close>

theorem quoted_arguments_round_trip:
  assumes "list_all quotable args"
  shows "ParseArguments (Join (map in_quotes args) '' '') = args"
proof (cases args)
  case Nil
  then show ?thesis by (simp add: ParseArguments_def TrimSpace_def trim_left_space.simps trim_right_space_def trim_left_space_rev.simps)
next
  case (Cons a rest)
  have "\<exists>s. Join (map in_quotes args) '' '' = in_quotes a @ s" unfolding Cons by (cases rest) auto
  then have "TrimSpace (Join (map in_quotes args) '' '') \<noteq> []" using in_quotes_nonempty by auto
  moreover have "parseShellLikeArguments (Join (map in_quotes args) '' '') = Some args"
    using quoted_line[OF assms, of "[]"] Cons by (simp add: parseShellLikeArguments_def no_arguments_def)
  ultimately show ?thesis by (simp add: ParseArguments_def)
qed

lemma quoted_arguments_round_trip_witness:
  "ParseArguments (Join (map in_quotes [''a b'', [], ''$x'', [CHR 0xC3, CHR 0xBC]]) '' '') = [''a b'', [], ''$x'', [CHR 0xC3, CHR 0xBC]]"
proof -
  have "list_all quotable [''a b'', [], ''$x'', [CHR 0xC3, CHR 0xBC]]"
    by (simp add: quotable_def utf8_Valid_code is_ascii_def byte_def decode_rune_def second_byte_bounds_def cont_def)
  then show ?thesis by (rule quoted_arguments_round_trip)
qed

end
