(* ===== verification/FileInput.thy ===== *)
theory FileInput
  imports FileText ToolExec
begin

text \<open>
  The inputs of the file tools: \<open>normalizeReadRawInput\<close>, \<open>normalizeEditRawInput\<close> and the strict decoders of
  \<open>internal/tools/file/tools.go\<close> and \<open>search_tools.go\<close>, the paths (\<open>helpers.go\<close>), the page ranges of a PDF
  (\<open>pdf.go\<close>) and the guard of team memory (\<open>internal/memory/secrets.go\<close>).

  \<open>input_env\<close> has what comes from packages outside: printing and numbers of \<open>encoding/json\<close>
  (\<open>plain_integer text key\<close> says that the number of a key is written without a fraction and an
  exponent, which a Go \<open>int\<close> requires), \<open>strconv.ParseFloat\<close>, base64, the regular expressions of the
  secrets, and the parts of the program that are not modelled: the validation of settings, the PDF
  reader and the discovery of skills.
\<close>

record settings_warning =
  swFile :: string
  swPath :: string
  swMessage :: string

record notebookOutput =
  noOutputType :: string
  noName :: string
  noText :: goany
  noData :: "go_map option"
  noEName :: string
  noEValue :: string
  noTraceback :: "string list"

record notebookCell =
  ncID :: string
  ncCellType :: string
  ncSource :: goany
  ncOutputs :: "notebookOutput list"
  ncExecutionCount :: goany

record input_env = os_env +
  json_text :: "json \<Rightarrow> string"
  plain_integer :: "string \<Rightarrow> string \<Rightarrow> bool"
  parse_float :: "string \<Rightarrow> rat option"
  base64 :: "string \<Rightarrow> string"
  secret_kinds :: "string \<Rightarrow> string list"
  settings_warnings :: "string \<Rightarrow> string \<Rightarrow> string + settings_warning list"
  read_pdf :: "string \<Rightarrow> string \<Rightarrow> string \<Rightarrow> file_world \<Rightarrow> string + ToolResult"
  discover_skills :: "string \<Rightarrow> string \<Rightarrow> file_world \<Rightarrow> string list"
  decode_notebook :: "string \<Rightarrow> string + notebookCell list"
  json_map :: "string \<Rightarrow> go_map option"
  json_indent :: "go_map \<Rightarrow> string"
  new_id :: "file_world \<Rightarrow> string"

definition the_go_env :: "input_env \<Rightarrow> go_env" where
  "the_go_env env = go_env.truncate env"

definition the_os_env :: "input_env \<Rightarrow> os_env" where
  "the_os_env env = os_env.truncate env"

definition bad_json :: "input_env \<Rightarrow> raw_message \<Rightarrow> string" where
  "bad_json env raw = json_error env (raw_text raw)"

section \<open>Objects with known keys\<close>

definition decodeStrictObject :: "input_env \<Rightarrow> raw_message \<Rightarrow> string list \<Rightarrow> string + json" where
  "decodeStrictObject env raw allowed =
     (case raw_value raw of
        Some (JObj kvs) \<Rightarrow>
          (case find (\<lambda>key. key \<notin> set allowed) (map fst kvs) of
             Some key \<Rightarrow> Inl (''input.'' @ key @ '' is not allowed'')
           | None \<Rightarrow> Inr (JObj kvs))
      | Some JNull \<Rightarrow> Inr JNull
      | _ \<Rightarrow> Inl (bad_json env raw))"

text \<open>The pattern \<open>^-?\d+(\.\d+)?$\<close>.\<close>

definition digits_text :: "string \<Rightarrow> bool" where
  "digits_text s = (s \<noteq> [] \<and> list_all is_digit s)"

definition semanticNumberLiteral :: "string \<Rightarrow> bool" where
  "semanticNumberLiteral text =
     (let s = TrimPrefix text ''-''
      in case Cut s (CHR ''.'') of
           None \<Rightarrow> digits_text s
         | Some (whole, fraction) \<Rightarrow> digits_text whole \<and> digits_text fraction)"

text \<open>The number that takes the place of a string, with whether it is written as an integer; \<open>int64\<close> of a
  number out of range is the least integer (on amd64).\<close>

definition to_int64 :: "rat \<Rightarrow> int" where
  "to_int64 r = (if - (2 ^ 63) \<le> \<lfloor>r\<rfloor> \<and> \<lfloor>r\<rfloor> < 2 ^ 63 then \<lfloor>r\<rfloor> else - (2 ^ 63))"

definition semanticJSONNumberRaw :: "input_env \<Rightarrow> string \<Rightarrow> json option" where
  "semanticJSONNumberRaw env text =
     map_option (\<lambda>number. JNum (if integral number then of_int (to_int64 number) else number)) (parse_float env text)"

text \<open>A literal whose value is out of the range of floats stays a number that no \<open>int\<close> can hold; its
  value is taken as \<open>2 ^ 64\<close>.\<close>

definition coerceSemanticJSONString :: "input_env \<Rightarrow> string list \<Rightarrow> string list \<Rightarrow> string \<times> json \<Rightarrow> string \<times> json" where
  "coerceSemanticJSONString env numberKeys boolKeys = (\<lambda>(key, value).
     case value of
       JStr text \<Rightarrow>
         if key \<in> set boolKeys then (key, if text = ''true'' then JBool True else if text = ''false'' then JBool False else value)
         else if key \<in> set numberKeys \<and> semanticNumberLiteral text
         then (key, case semanticJSONNumberRaw env text of Some n \<Rightarrow> n | None \<Rightarrow> JNum (2 ^ 64))
         else (key, value)
     | _ \<Rightarrow> (key, value))"

definition normalized_object :: "input_env \<Rightarrow> string list \<Rightarrow> string list \<Rightarrow> string list \<Rightarrow> raw_message \<Rightarrow> string + raw_message" where
  "normalized_object env allowed numberKeys boolKeys raw =
     (case decodeStrictObject env raw allowed of
        Inl err \<Rightarrow> Inl err
      | Inr (JObj kvs) \<Rightarrow>
        (let value = JObj (sort_key fst (map (coerceSemanticJSONString env numberKeys boolKeys) kvs))
         in Inr \<lparr>raw_text = json_text env value, raw_value = Some value\<rparr>)
      | Inr value \<Rightarrow> Inr \<lparr>raw_text = json_text env value, raw_value = Some value\<rparr>)"

abbreviation read_keys :: "string list" where "read_keys \<equiv> [''file_path'', ''offset'', ''limit'', ''pages'']"
abbreviation edit_keys :: "string list" where "edit_keys \<equiv> [''file_path'', ''old_string'', ''new_string'', ''replace_all'']"
abbreviation notebook_keys :: "string list" where
  "notebook_keys \<equiv> [''notebook_path'', ''cell_id'', ''new_source'', ''cell_type'', ''edit_mode'']"

definition normalizeReadRawInput :: "input_env \<Rightarrow> raw_message \<Rightarrow> string + raw_message" where
  "normalizeReadRawInput env = normalized_object env read_keys [''offset'', ''limit''] []"

definition normalizeEditRawInput :: "input_env \<Rightarrow> raw_message \<Rightarrow> string + raw_message" where
  "normalizeEditRawInput env = normalized_object env edit_keys [] [''replace_all'']"

section \<open>Fields\<close>

definition fields_of :: "raw_message \<Rightarrow> (string \<rightharpoonup> json) option" where
  "fields_of raw = unmarshal_object raw"

text \<open>A field of a struct that is absent or \<open>null\<close> keeps its zero value; a value of another type is an
  error, \<open>None\<close>.\<close>

definition string_field :: "(string \<rightharpoonup> json) \<Rightarrow> string \<Rightarrow> string option" where
  "string_field obj key = (case obj key of None \<Rightarrow> Some [] | Some JNull \<Rightarrow> Some [] | Some (JStr s) \<Rightarrow> Some s | _ \<Rightarrow> None)"

definition bool_field :: "(string \<rightharpoonup> json) \<Rightarrow> string \<Rightarrow> bool option" where
  "bool_field obj key = (case obj key of None \<Rightarrow> Some False | Some JNull \<Rightarrow> Some False | Some (JBool b) \<Rightarrow> Some b | _ \<Rightarrow> None)"

definition int_pointer_field :: "input_env \<Rightarrow> string \<Rightarrow> (string \<rightharpoonup> json) \<Rightarrow> string \<Rightarrow> int option option" where
  "int_pointer_field env text obj key =
     (case obj key of
        None \<Rightarrow> Some None
      | Some JNull \<Rightarrow> Some None
      | Some (JNum n) \<Rightarrow>
          if integral n \<and> - (2 ^ 63) \<le> \<lfloor>n\<rfloor> \<and> \<lfloor>n\<rfloor> < 2 ^ 63 \<and> plain_integer env text key then Some (Some \<lfloor>n\<rfloor>) else None
      | _ \<Rightarrow> None)"

record readInput =
  riFilePath :: string
  riOffset :: "int option"
  riLimit :: "int option"
  riPages :: string

record writeInput =
  wiFilePath :: string
  wiContent :: string

record editInput =
  eiFilePath :: string
  eiOldString :: string
  eiNewString :: string
  eiReplaceAll :: bool

record notebookEditInput =
  niNotebookPath :: string
  niCellID :: string
  niNewSource :: string
  niCellType :: string
  niEditMode :: string

definition decodeRead :: "input_env \<Rightarrow> raw_message \<Rightarrow> string + readInput" where
  "decodeRead env raw =
     (case normalizeReadRawInput env raw of
        Inl err \<Rightarrow> Inl err
      | Inr normalized \<Rightarrow>
        (case fields_of normalized of
           None \<Rightarrow> Inl (bad_json env normalized)
         | Some obj \<Rightarrow>
           (case (string_field obj ''file_path'', int_pointer_field env (raw_text normalized) obj ''offset'',
                  int_pointer_field env (raw_text normalized) obj ''limit'', string_field obj ''pages'') of
              (Some path, Some offset, Some limit, Some pages) \<Rightarrow>
                Inr \<lparr>riFilePath = path, riOffset = offset, riLimit = limit, riPages = pages\<rparr>
            | _ \<Rightarrow> Inl (bad_json env normalized))))"

text \<open>\<open>decodeStrict\<close> of the code prints the object again before it decodes it, which changes nothing.\<close>

definition decodeStrict :: "input_env \<Rightarrow> raw_message \<Rightarrow> string list \<Rightarrow> string + (string \<rightharpoonup> json)" where
  "decodeStrict env raw allowed =
     (case decodeStrictObject env raw allowed of
        Inl err \<Rightarrow> Inl err
      | Inr (JObj kvs) \<Rightarrow> Inr (map_of kvs)
      | Inr _ \<Rightarrow> Inr Map.empty)"

definition decodeWrite :: "input_env \<Rightarrow> raw_message \<Rightarrow> string + writeInput" where
  "decodeWrite env raw =
     (case decodeStrict env raw [''file_path'', ''content''] of
        Inl err \<Rightarrow> Inl err
      | Inr obj \<Rightarrow>
        (case (string_field obj ''file_path'', string_field obj ''content'') of
           (Some path, Some content) \<Rightarrow> Inr \<lparr>wiFilePath = path, wiContent = content\<rparr>
         | _ \<Rightarrow> Inl (bad_json env raw)))"

definition decodeEdit :: "input_env \<Rightarrow> raw_message \<Rightarrow> string + editInput" where
  "decodeEdit env raw =
     (case normalizeEditRawInput env raw of
        Inl err \<Rightarrow> Inl err
      | Inr normalized \<Rightarrow>
        (case fields_of normalized of
           None \<Rightarrow> Inl (bad_json env normalized)
         | Some obj \<Rightarrow>
           (case (string_field obj ''file_path'', string_field obj ''old_string'', string_field obj ''new_string'',
                  bool_field obj ''replace_all'') of
              (Some path, Some old, Some new, Some all) \<Rightarrow>
                Inr \<lparr>eiFilePath = path, eiOldString = old, eiNewString = new, eiReplaceAll = all\<rparr>
            | _ \<Rightarrow> Inl (bad_json env normalized))))"

definition decodeNotebookEdit :: "input_env \<Rightarrow> raw_message \<Rightarrow> string + notebookEditInput" where
  "decodeNotebookEdit env raw =
     (case decodeStrict env raw notebook_keys of
        Inl err \<Rightarrow> Inl err
      | Inr obj \<Rightarrow>
        (case (string_field obj ''notebook_path'', string_field obj ''cell_id'', string_field obj ''new_source'',
               string_field obj ''cell_type'', string_field obj ''edit_mode'') of
           (Some path, Some cell, Some source, Some kind, Some mode) \<Rightarrow>
             Inr \<lparr>niNotebookPath = path, niCellID = cell, niNewSource = source, niCellType = kind, niEditMode = mode\<rparr>
         | _ \<Rightarrow> Inl (bad_json env raw)))"

section \<open>Paths\<close>

definition resolvePath :: "input_env \<Rightarrow> string \<Rightarrow> string \<Rightarrow> string" where
  "resolvePath env cwd path =
     (if path = [] then path
      else if path = ''~'' \<or> HasPrefix path ''~/'' then ExpandPath (the_go_env env) path
      else if IsAbs path then Clean path
      else let cwd = (if cwd = [] then (case getwd env of Some current \<Rightarrow> current | None \<Rightarrow> cwd) else cwd)
           in Clean (JoinPath [cwd, path]))"

definition blockedDevicePaths :: "string list" where
  "blockedDevicePaths =
     [''/dev/zero'', ''/dev/random'', ''/dev/urandom'', ''/dev/full'', ''/dev/stdin'', ''/dev/tty'', ''/dev/console'',
      ''/dev/stdout'', ''/dev/stderr'', ''/dev/fd/0'', ''/dev/fd/1'', ''/dev/fd/2'']"

definition isBlockedDevicePath :: "string \<Rightarrow> bool" where
  "isBlockedDevicePath path =
     (path \<in> set blockedDevicePaths \<or>
      HasPrefix path ''/proc/'' \<and> (HasSuffix path ''/fd/0'' \<or> HasSuffix path ''/fd/1'' \<or> HasSuffix path ''/fd/2''))"

definition binaryExtensions :: "string list" where
  "binaryExtensions =
     [''.7z'', ''.a'', ''.avi'', ''.bin'', ''.bmp'', ''.class'', ''.dll'', ''.dmg'', ''.doc'', ''.docx'', ''.exe'', ''.gif'',
      ''.gz'', ''.ico'', ''.jar'', ''.jpeg'', ''.jpg'', ''.mov'', ''.mp3'', ''.mp4'', ''.o'', ''.pdf'', ''.png'', ''.so'',
      ''.tar'', ''.webp'', ''.xls'', ''.xlsx'', ''.zip'']"

text \<open>\<open>filepath.Ext\<close>: from the last dot of the last element.\<close>

definition Ext :: "string \<Rightarrow> string" where
  "Ext path =
     (let r = takeWhile (\<lambda>c. c \<noteq> CHR ''/'') (rev path)
      in if CHR ''.'' \<in> set r then CHR ''.'' # rev (takeWhile (\<lambda>c. c \<noteq> CHR ''.'') r) else [])"

definition hasBinaryExtension :: "input_env \<Rightarrow> string \<Rightarrow> bool" where
  "hasBinaryExtension env path = (ToLower (the_go_env env) (Ext path) \<in> set binaryExtensions)"

definition isNotebookPath :: "input_env \<Rightarrow> string \<Rightarrow> bool" where
  "isNotebookPath env path = EqualFold (the_go_env env) (Ext path) ''.ipynb''"

definition isPDFPath :: "input_env \<Rightarrow> string \<Rightarrow> bool" where
  "isPDFPath env path = EqualFold (the_go_env env) (Ext path) ''.pdf''"

definition imageMediaTypeForPath :: "input_env \<Rightarrow> string \<Rightarrow> string" where
  "imageMediaTypeForPath env path =
     (let ext = ToLower (the_go_env env) (Ext path)
      in if ext = ''.png'' then ''image/png''
         else if ext = ''.jpg'' \<or> ext = ''.jpeg'' then ''image/jpeg''
         else if ext = ''.gif'' then ''image/gif''
         else if ext = ''.webp'' then ''image/webp''
         else [])"

section \<open>Page ranges\<close>

definition parsePDFPageNumber :: "string \<Rightarrow> string + int" where
  "parsePDFPageNumber raw =
     (case Atoi_text (TrimSpace raw) of
        Some page \<Rightarrow> if page \<le> 0 then Inl ''PDF page numbers must be positive integers'' else Inr page
      | None \<Rightarrow> Inl ''PDF page numbers must be positive integers'')"

definition appendPDFPage :: "int list \<Rightarrow> int \<Rightarrow> int \<Rightarrow> string + int list" where
  "appendPDFPage pages page pageCount =
     (if pageCount > 0 \<and> page > pageCount
      then Inl (''page '' @ int_text page @ '' exceeds PDF page count '' @ int_text pageCount)
      else if page \<in> set pages then Inr pages
      else Inr (pages @ [page]))"

fun append_pages :: "int list \<Rightarrow> int list \<Rightarrow> int \<Rightarrow> string + int list" where
  "append_pages pages [] pageCount = Inr pages"
| "append_pages pages (page # rest) pageCount =
     (case appendPDFPage pages page pageCount of Inl err \<Rightarrow> Inl err | Inr pages \<Rightarrow> append_pages pages rest pageCount)"

text \<open>The loop \<open>for page := start; page <= end; page++\<close> never ends when \<open>end\<close> is the greatest integer and no
  page is refused: then the value is \<open>None\<close>.\<close>

definition append_range :: "int list \<Rightarrow> int \<Rightarrow> int \<Rightarrow> int \<Rightarrow> (string + int list) option" where
  "append_range pages start end pageCount =
     (if end = 2 ^ 63 - 1 \<and> pageCount \<le> 0 then None
      else Some (append_pages pages [start..end] pageCount))"

fun parse_page_parts :: "input_env \<Rightarrow> string \<Rightarrow> int \<Rightarrow> string list \<Rightarrow> int list \<Rightarrow> (string + int list) option" where
  "parse_page_parts env raw pageCount [] pages = Some (Inr pages)"
| "parse_page_parts env raw pageCount (part # parts) pages =
     (let part = TrimSpace part
      in if part = [] then Some (Inl (''invalid PDF page range '' @ Quote (the_go_env env) raw))
         else case Cut part (CHR ''-'') of
                Some (from, until) \<Rightarrow>
                  (case (parsePDFPageNumber from, parsePDFPageNumber until) of
                     (Inl err, _) \<Rightarrow> Some (Inl err)
                   | (_, Inl err) \<Rightarrow> Some (Inl err)
                   | (Inr start, Inr end) \<Rightarrow>
                       if start > end
                       then Some (Inl (''invalid PDF page range '' @ Quote (the_go_env env) part @ '': start is greater than end''))
                       else (case append_range pages start end pageCount of
                               None \<Rightarrow> None
                             | Some (Inl err) \<Rightarrow> Some (Inl err)
                             | Some (Inr pages) \<Rightarrow> parse_page_parts env raw pageCount parts pages))
              | None \<Rightarrow>
                  (case parsePDFPageNumber part of
                     Inl err \<Rightarrow> Some (Inl err)
                   | Inr page \<Rightarrow>
                       (case appendPDFPage pages page pageCount of
                          Inl err \<Rightarrow> Some (Inl err)
                        | Inr pages \<Rightarrow> parse_page_parts env raw pageCount parts pages)))"

definition parsePDFPageSelection :: "input_env \<Rightarrow> string \<Rightarrow> int \<Rightarrow> (string + int list) option" where
  "parsePDFPageSelection env raw pageCount =
     (let raw = TrimSpace raw
      in if raw = [] \<or> EqualFold (the_go_env env) raw ''all'' then Some (Inr [])
         else parse_page_parts env raw pageCount (Split raw (CHR '','')) [])"

section \<open>Secrets\<close>

record SecretMatch =
  smKind :: string
  smLine :: nat
  smText :: string

definition DetectSecrets :: "input_env \<Rightarrow> string \<Rightarrow> SecretMatch list" where
  "DetectSecrets env content =
     concat (map (\<lambda>(i, line). map (\<lambda>kind. \<lparr>smKind = kind, smLine = Suc i, smText = TrimSpace line\<rparr>) (secret_kinds env line))
       (enumerate 0 (Split content nl)))"

definition isTeamMemoryPath :: "string \<Rightarrow> bool" where
  "isTeamMemoryPath path =
     (let path = ReplaceAll path [bslash] ''/'' in Contains path ''/team-memory/'' \<or> Contains path ''/teams/'')"

definition GuardTeamMemoryWrite :: "input_env \<Rightarrow> string \<Rightarrow> string \<Rightarrow> string option" where
  "GuardTeamMemoryWrite env path content =
     (if \<not> isTeamMemoryPath path then None
      else case DetectSecrets env content of
             [] \<Rightarrow> None
           | m # ms \<Rightarrow> Some (''team memory contains a possible secret on line '' @ dec (smLine m)))"

section \<open>Settings files\<close>

definition isClaudeSettingsPath :: "string \<Rightarrow> bool" where
  "isClaudeSettingsPath path =
     (let clean = Clean path
      in Base clean \<in> {''settings.json'', ''settings.local.json''} \<and> Base (Dir clean) = ''.claude'')"

definition formatSettingsValidationWarning :: "settings_warning \<Rightarrow> nat \<Rightarrow> string" where
  "formatSettingsValidationWarning warning number =
     (let path = (if swPath warning = [] then Base (swFile warning) else swPath warning);
          message = (if swMessage warning = [] then ''settings validation failed'' else swMessage warning)
      in if number > 1 then path @ '': '' @ message @ '' (and '' @ dec (number - 1) @ '' more)'' else path @ '': '' @ message)"

definition validateSettingsFileContent :: "input_env \<Rightarrow> string \<Rightarrow> string \<Rightarrow> string option" where
  "validateSettingsFileContent env path content =
     (if \<not> isClaudeSettingsPath path then None
      else case settings_warnings env content path of
             Inl err \<Rightarrow> Some (''invalid settings file: '' @ err)
           | Inr [] \<Rightarrow> None
           | Inr (w # ws) \<Rightarrow> Some (''invalid settings file: '' @ formatSettingsValidationWarning w (Suc (length ws))))"

end
