(* ===== verification/FileTools.thy ===== *)
theory FileTools
  imports FileInput
begin

text \<open>
  The tools Read, Write and Edit (\<open>internal/tools/file/tools.go\<close>): the validation and the call of each, as
  functions on the world of the store and of what the turn has read. A call is a result and an error,
  which the executor turns into an error result.
\<close>

type_synonym call_result = "((ToolResult \<times> string option) \<times> ToolProgress list) \<times> file_world"

definition call_err :: "string \<Rightarrow> file_world \<Rightarrow> call_result" where
  "call_err err w = (((empty_result, Some err), []), w)"

definition call_ok :: "ToolResult \<Rightarrow> file_world \<Rightarrow> call_result" where
  "call_ok result w = (((result, None), []), w)"

definition text_result :: "string \<Rightarrow> go_map \<Rightarrow> ToolResult" where
  "text_result content structured = empty_result\<lparr>resContent := AnyString content, resStructuredContent := structured\<rparr>"

section \<open>What a turn has seen\<close>

fun append_unique :: "string list \<Rightarrow> string list \<Rightarrow> string list \<Rightarrow> string list" where
  "append_unique seen base [] = base"
| "append_unique seen base (item # items) =
     (if item = [] \<or> Clean item \<in> set seen then append_unique seen base items
      else append_unique (Clean item # seen) (base @ [Clean item]) items)"

definition appendUniquePaths :: "string list \<Rightarrow> string list \<Rightarrow> string list" where
  "appendUniquePaths base items = append_unique (map Clean base) base items"

definition discoverSkillDirsForFile :: "input_env \<Rightarrow> file_world Context \<Rightarrow> string \<Rightarrow> file_world \<Rightarrow> file_world" where
  "discoverSkillDirsForFile env ctx path w =
     (if TrimSpace (cxWorkingDirectory ctx) = [] then w
      else let discovered = discover_skills env path (cxWorkingDirectory ctx) w
           in if discovered = [] then w
              else let internal = (case fwInternal w of Some i \<Rightarrow> i | None \<Rightarrow> no_internal_paths)
                   in w\<lparr>fwInternal := Some (internal\<lparr>SkillDirs := appendUniquePaths (SkillDirs internal) discovered\<rparr>)\<rparr>)"

definition MemoryAgeDays :: "int \<Rightarrow> int \<Rightarrow> int" where
  "MemoryAgeDays mtime now = (if mtime > now then 0 else (now - mtime) div 86400000)"

definition MemoryFreshnessText :: "int \<Rightarrow> int \<Rightarrow> string" where
  "MemoryFreshnessText mtime now =
     (let days = MemoryAgeDays mtime now
      in if days \<le> 1 then []
         else ''This memory is '' @ int_text days @ '' days old. Memories are point-in-time observations, not live state - ''
           @ ''claims about code behavior or file:line citations may be outdated. Verify against current code before asserting as fact.'')"

definition MemoryFreshnessNote :: "int \<Rightarrow> int \<Rightarrow> string" where
  "MemoryFreshnessNote mtime now =
     (let text = MemoryFreshnessText mtime now
      in if text = [] then [] else ''<system-reminder>'' @ text @ ''</system-reminder>'' @ [nl])"

definition memoryFreshnessPrefix :: "input_env \<Rightarrow> string \<Rightarrow> int \<Rightarrow> file_world \<Rightarrow> string" where
  "memoryFreshnessPrefix env path mtime w =
     (let internal = (case fwInternal w of Some i \<Rightarrow> i | None \<Rightarrow> no_internal_paths)
      in if Allowed (CheckReadableInternalPath (the_go_env env) path (no_internal_paths\<lparr>AutoMemoryDir := AutoMemoryDir internal\<rparr>))
         then MemoryFreshnessNote mtime (fwClock w) else [])"

abbreviation not_read_text :: string where
  "not_read_text \<equiv> ''File has not been read yet. Read it first before writing to it.''"

abbreviation staleWriteError :: string where
  "staleWriteError \<equiv> ''File has been modified since read, either by the user or by a linter. Read it again before attempting to write it.''"

text \<open>The check that stands before every change of a file that exists.\<close>

definition validateFreshFullReadWithContent :: "input_env \<Rightarrow> string \<Rightarrow> string \<Rightarrow> file_world \<Rightarrow> string option" where
  "validateFreshFullReadWithContent env path currentContent w =
     (case ReadState_Get path w of
        None \<Rightarrow> Some not_read_text
      | Some readState \<Rightarrow>
        if \<not> fullRead readState then Some not_read_text
        else (case mtimeMillis (the_os_env env) path w of
                Inl e \<Rightarrow> Some (os_message e)
              | Inr lastWrite \<Rightarrow>
                if lastWrite > rfTimestamp readState \<and> currentContent \<noteq> rfContent readState then Some staleWriteError else None))"

definition validateFreshFullRead :: "input_env \<Rightarrow> string \<Rightarrow> file_world \<Rightarrow> string option" where
  "validateFreshFullRead env path w =
     (case readTextForEdit (the_os_env env) path w of
        Inl e \<Rightarrow> Some (os_message e)
      | Inr t \<Rightarrow> if \<not> etExisted t then None else validateFreshFullReadWithContent env path (etContent t) w)"

section \<open>Read\<close>

text \<open>The page selection of a validation has no page count; \<open>None\<close> is a loop that does not end.\<close>

definition validateRead :: "input_env \<Rightarrow> file_world Context \<Rightarrow> raw_message \<Rightarrow> string option option" where
  "validateRead env ctx raw =
     (case decodeRead env raw of
        Inl err \<Rightarrow> Some (Some err)
      | Inr input \<Rightarrow>
        let path = resolvePath env (cxWorkingDirectory ctx) (riFilePath input);
            windowed = (riOffset input \<noteq> None \<or> riLimit input \<noteq> None);
            only_text = Some (Some ''offset and limit are only supported for text files'')
        in if TrimSpace (riFilePath input) = [] then Some (Some ''file_path is required'')
           else if (case riOffset input of Some offset \<Rightarrow> offset < 0 | None \<Rightarrow> False) then Some (Some ''offset must be nonnegative'')
           else if (case riLimit input of Some limit \<Rightarrow> limit \<le> 0 | None \<Rightarrow> False) then Some (Some ''limit must be positive'')
           else if HasPrefix path [bslash, bslash] \<or> HasPrefix path ''//'' then Some None
           else if isBlockedDevicePath path
           then Some (Some (''cannot read '' @ Quote (the_go_env env) (riFilePath input) @
                  '': this device file would block or produce infinite output''))
           else if isPDFPath env path
           then (if windowed then only_text
                 else map_option (\<lambda>r. case r of Inl err \<Rightarrow> Some err | Inr pages \<Rightarrow> None)
                        (parsePDFPageSelection env (riPages input) 0))
           else if riPages input \<noteq> [] then Some (Some ''pages are only supported for PDF files'')
           else if isNotebookPath env path \<and> windowed then only_text
           else if hasBinaryExtension env path
           then (if imageMediaTypeForPath env path \<noteq> []
                 then (if windowed then only_text else Some None)
                 else Some (Some (''this tool cannot read binary files: '' @ Ext path)))
           else Some None)"

fun notebookText :: "goany \<Rightarrow> string" where
  "notebookText (AnyString s) = s"
| "notebookText (AnyStrings ss) = concat ss"
| "notebookText (AnySlice items) = concat (map notebookText items)"
| "notebookText _ = []"

definition notebook_output_text :: "notebookOutput \<Rightarrow> string" where
  "notebook_output_text output =
     (let text = TrimRight (notebookText (noText output)) [nl];
          text = (case noData output of
                    Some d \<Rightarrow> if text = [] then TrimRight (notebookText (field d ''text/plain'')) [nl] else text
                  | None \<Rightarrow> text);
          text = (if text = [] \<and> (noEName output \<noteq> [] \<or> noEValue output \<noteq> [])
                  then TrimSpace (noEName output @ '': '' @ noEValue output) else text)
      in if text = [] \<and> noTraceback output \<noteq> [] then Join (noTraceback output) [nl] else text)"

definition notebookOutputTexts :: "notebookOutput list \<Rightarrow> string list" where
  "notebookOutputTexts outputs = filter (\<lambda>t. t \<noteq> []) (map notebook_output_text outputs)"

definition render_cell :: "input_env \<Rightarrow> nat \<Rightarrow> notebookCell \<Rightarrow> string \<times> go_map" where
  "render_cell env i cell =
     (let cellType = TrimSpace (ncCellType cell);
          cellType = (if cellType = [] then ''unknown'' else cellType);
          source = TrimRight (notebookText (ncSource cell)) [nl];
          outputs = notebookOutputTexts (ncOutputs cell);
          cellID = TrimSpace (ncID cell);
          fallbackCellID = ''cell-'' @ dec i;
          displayCellID = (if cellID = [] then fallbackCellID else cellID)
      in ([nl, nl] @ ''Cell '' @ dec (i + 1) @ '' ['' @ cellType @ ''] cell_id='' @ displayCellID @
          (if ncExecutionCount cell \<noteq> AnyNil \<and> cellType = ''code''
           then '' execution_count='' @ sprint (schema_env.truncate env) (ncExecutionCount cell) else []) @
          (if source = [] then '':'' @ [nl] @ ''<empty>'' else '':'' @ [nl] @ source) @
          (if outputs = [] then [] else [nl] @ ''Outputs:'' @ concat (map (\<lambda>output. nl # output) outputs)),
          [(''index'', AnyInt (int (i + 1))), (''cell_id'', AnyString displayCellID), (''id'', AnyString cellID),
           (''fallback_cell_id'', AnyString fallbackCellID), (''cell_type'', AnyString cellType), (''source'', AnyString source),
           (''outputs'', AnyStrings outputs), (''execution_count'', ncExecutionCount cell)]))"

definition renderNotebook :: "input_env \<Rightarrow> string \<Rightarrow> notebookCell list \<Rightarrow> string \<times> go_map list" where
  "renderNotebook env displayPath cells =
     (let rendered = map (\<lambda>(i, cell). render_cell env i cell) (enumerate 0 cells)
      in (''Notebook: '' @ displayPath @ [nl] @ ''Cells: '' @ dec (length cells) @ concat (map fst rendered), map snd rendered))"

definition readNotebookResult :: "input_env \<Rightarrow> string \<Rightarrow> string \<Rightarrow> int \<Rightarrow> file_world \<Rightarrow> call_result" where
  "readNotebookResult env displayPath path mtime w =
     (case readText (the_os_env env) path w of
        Inl e \<Rightarrow> call_err (os_message e) w
      | Inr raw \<Rightarrow>
        (case decode_notebook env raw of
           Inl err \<Rightarrow> call_err (''invalid notebook JSON: '' @ err) w
         | Inr cells \<Rightarrow>
           let w = ReadState_Set path \<lparr>rfContent = ReplaceAll raw crlf_text [nl], rfTimestamp = mtime, rfOffset = Some 1,
                     rfLimit = None, rfPartialView = False\<rparr> w;
               (rendered, items) = renderNotebook env displayPath cells
           in call_ok (text_result rendered
                [(''type'', AnyString ''notebook''),
                 (''file'', AnyMap [(''filePath'', AnyString displayPath), (''cells'', AnyMapSlice items)])]) w))"

definition image_block :: "string \<Rightarrow> string \<Rightarrow> ContentBlock" where
  "image_block mediaType encoded =
     ContentBlock ''image'' [] (AnyMap [(''type'', AnyString ''base64''), (''media_type'', AnyString mediaType), (''data'', AnyString encoded)])
       [] [] no_input AnyNil False []"

definition readImageResult :: "input_env \<Rightarrow> string \<Rightarrow> string \<Rightarrow> string \<Rightarrow> string \<Rightarrow> file_world \<Rightarrow> call_result" where
  "readImageResult env displayPath path mediaType stored w =
     (if length stored > 10485760
      then call_err (''image file is too large to read: '' @ dec (length stored) @ '' bytes exceeds 10485760 bytes'') w
      else case os_ReadFile (the_os_env env) path w of
             Inl e \<Rightarrow> call_err (os_message e) w
           | Inr data \<Rightarrow>
             call_ok (empty_result\<lparr>resContent := AnyBlocks
                   [ContentBlock ''text'' (''Read image file '' @ displayPath @ '' ('' @ mediaType @ '', '' @ dec (length data) @ '' bytes).'')
                      AnyNil [] [] no_input AnyNil False [],
                    image_block mediaType (base64 env data)],
                 resStructuredContent :=
                   [(''type'', AnyString ''image''),
                    (''file'', AnyMap [(''filePath'', AnyString displayPath), (''mediaType'', AnyString mediaType),
                                       (''bytes'', AnyInt (int (length data)))])]\<rparr>) w)"

abbreviation fileUnchangedStub :: string where
  "fileUnchangedStub \<equiv> ''File unchanged since last read. The content from the earlier Read tool_result in this conversation is still current -- refer to that instead of re-reading.''"

definition unchanged_since :: "input_env \<Rightarrow> string \<Rightarrow> int \<Rightarrow> int option \<Rightarrow> file_world \<Rightarrow> bool" where
  "unchanged_since env path offset limit w =
     (case ReadState_Get path w of
        None \<Rightarrow> False
      | Some existing \<Rightarrow>
        rfOffset existing = Some offset \<and> sameLimit (rfLimit existing) limit \<and>
        mtimeMillis (the_os_env env) path w = Inr (rfTimestamp existing))"

definition read_text_result ::
  "input_env \<Rightarrow> readInput \<Rightarrow> string \<Rightarrow> int \<Rightarrow> int \<Rightarrow> file_world \<Rightarrow> call_result option" where
  "read_text_result env input path offset mtime w =
     (case readText (the_os_env env) path w of
        Inl e \<Rightarrow> Some (call_err (os_message e) w)
      | Inr content \<Rightarrow>
        map_option (\<lambda>(selected, lineCount, totalLines).
          let w = ReadState_Set path \<lparr>rfContent = ReplaceAll content crlf_text [nl], rfTimestamp = mtime, rfOffset = Some offset,
                    rfLimit = riLimit input, rfPartialView = (offset \<noteq> 1 \<or> riLimit input \<noteq> None)\<rparr> w
          in if selected = [] then
               (if totalLines = 0
                then call_ok (text_result ''<system-reminder>Warning: the file exists but the contents are empty.</system-reminder>'' []) w
                else call_ok (text_result (''<system-reminder>Warning: the file exists but is shorter than the provided offset ('' @
                       int_text offset @ ''). The file has '' @ dec totalLines @ '' lines.</system-reminder>'') []) w)
             else call_ok (text_result (memoryFreshnessPrefix env path mtime w @ addLineNumbers selected offset)
                    [(''type'', AnyString ''text''),
                     (''file'', AnyMap [(''filePath'', AnyString (riFilePath input)), (''content'', AnyString selected),
                        (''numLines'', AnyInt (int lineCount)), (''startLine'', AnyInt offset),
                        (''totalLines'', AnyInt (int totalLines))])]) w)
          (selectedLines content offset (riLimit input)))"

text \<open>\<open>None\<close> is the panic of \<open>selectedLines\<close>.\<close>

definition callRead :: "input_env \<Rightarrow> file_world Context \<Rightarrow> raw_message \<Rightarrow> file_world \<Rightarrow> call_result option" where
  "callRead env ctx raw w =
     (case decodeRead env raw of
        Inl err \<Rightarrow> Some (call_err err w)
      | Inr input \<Rightarrow>
        let path = resolvePath env (cxWorkingDirectory ctx) (riFilePath input);
            w = discoverSkillDirsForFile env ctx path w;
            offset = (case riOffset input of Some i \<Rightarrow> i | None \<Rightarrow> 1)
        in if unchanged_since env path offset (riLimit input) w
           then Some (call_ok (text_result fileUnchangedStub
                  [(''type'', AnyString ''file_unchanged''), (''file'', AnyMap [(''filePath'', AnyString (riFilePath input))])]) w)
           else case os_Stat (the_os_env env) path w of
                  Inl NotExist \<Rightarrow> Some (call_err (''file does not exist: '' @ riFilePath input) w)
                | Inl e \<Rightarrow> Some (call_err (os_message e) w)
                | Inr (DirNode t m) \<Rightarrow> Some (call_err (''cannot read directory: '' @ riFilePath input) w)
                | Inr (FileNode data mtime m) \<Rightarrow>
                  if isPDFPath env path
                  then Some (case read_pdf env (riFilePath input) path (riPages input) w of
                         Inl err \<Rightarrow> call_err err w | Inr result \<Rightarrow> call_ok result w)
                  else if isNotebookPath env path then Some (readNotebookResult env (riFilePath input) path mtime w)
                  else if imageMediaTypeForPath env path \<noteq> []
                  then Some (readImageResult env (riFilePath input) path (imageMediaTypeForPath env path) data w)
                  else read_text_result env input path offset mtime w)"

section \<open>Write\<close>

definition validateWrite :: "input_env \<Rightarrow> file_world Context \<Rightarrow> raw_message \<Rightarrow> file_world \<Rightarrow> string option" where
  "validateWrite env ctx raw w =
     (case decodeWrite env raw of
        Inl err \<Rightarrow> Some err
      | Inr input \<Rightarrow>
        let path = resolvePath env (cxWorkingDirectory ctx) (wiFilePath input)
        in if TrimSpace (wiFilePath input) = [] then Some ''file_path is required''
           else case GuardTeamMemoryWrite env path (wiContent input) of
                  Some err \<Rightarrow> Some err
                | None \<Rightarrow>
                  (case validateSettingsFileContent env path (wiContent input) of
                     Some err \<Rightarrow> Some err
                   | None \<Rightarrow>
                     (case os_Stat (the_os_env env) path w of
                        Inr (DirNode t m) \<Rightarrow> Some (''cannot write directory: '' @ wiFilePath input)
                      | Inr (FileNode d t m) \<Rightarrow> validateFreshFullRead env path w
                      | Inl NotExist \<Rightarrow> None
                      | Inl e \<Rightarrow> Some (os_message e))))"

text \<open>What is remembered of a file that a tool has written; nothing, when its time cannot be read.\<close>

definition remember :: "input_env \<Rightarrow> string \<Rightarrow> string \<Rightarrow> file_world \<Rightarrow> file_world" where
  "remember env path content w =
     (case mtimeMillis (the_os_env env) path w of
        Inl e \<Rightarrow> w
      | Inr mtime \<Rightarrow> ReadState_Set path \<lparr>rfContent = content, rfTimestamp = mtime, rfOffset = None, rfLimit = None,
                       rfPartialView = False\<rparr> w)"

definition write_result :: "writeInput \<Rightarrow> edit_text \<Rightarrow> ToolResult" where
  "write_result input original =
     (let diff = buildTextDiff (wiFilePath input) (etContent original) (wiContent input)
      in text_result
           (if etExisted original then ''The file '' @ wiFilePath input @ '' has been updated successfully.''
            else ''File created successfully at: '' @ wiFilePath input)
           [(''type'', AnyString (if etExisted original then ''update'' else ''create'')),
            (''filePath'', AnyString (wiFilePath input)), (''content'', AnyString (wiContent input)),
            (''originalFile'', if etExisted original then AnyString (etContent original) else AnyNil),
            (''diff'', AnyString (Unified diff)), (''hunks'', AnyMapSlice (Hunks diff))])"

definition callWrite :: "input_env \<Rightarrow> file_world Context \<Rightarrow> raw_message \<Rightarrow> file_world \<Rightarrow> call_result" where
  "callWrite env ctx raw w =
     (case decodeWrite env raw of
        Inl err \<Rightarrow> call_err err w
      | Inr input \<Rightarrow>
        let path = resolvePath env (cxWorkingDirectory ctx) (wiFilePath input);
            w = discoverSkillDirsForFile env ctx path w
        in case readTextForEdit (the_os_env env) path w of
             Inl e \<Rightarrow> call_err (os_message e) w
           | Inr original \<Rightarrow>
             (case (if etExisted original then validateFreshFullReadWithContent env path (etContent original) w else None) of
                Some err \<Rightarrow> call_err err w
              | None \<Rightarrow>
                (case then_os (os_MkdirAll (the_os_env env) (Dir path) 493 w)
                        (writeText (the_os_env env) path (wiContent input) (etMode original)) of
                   (Some e, w) \<Rightarrow> call_err (os_message e) w
                 | (None, w) \<Rightarrow> call_ok (write_result input original) (remember env path (wiContent input) w))))"

section \<open>Edit\<close>

definition not_found_text :: "string \<Rightarrow> string" where
  "not_found_text old = ''String to replace not found in file.'' @ [nl] @ ''String: '' @ old"

definition many_matches_text :: "nat \<Rightarrow> string \<Rightarrow> string" where
  "many_matches_text matches old =
     ''Found '' @ dec matches @ '' matches of the string to replace, but replace_all is false. '' @
     ''To replace all occurrences, set replace_all to true. To replace only one occurrence, please provide more context to uniquely identify the instance.'' @
     [nl] @ ''String: '' @ old"

definition validateEdit :: "input_env \<Rightarrow> file_world Context \<Rightarrow> raw_message \<Rightarrow> file_world \<Rightarrow> string option" where
  "validateEdit env ctx raw w =
     (case decodeEdit env raw of
        Inl err \<Rightarrow> Some err
      | Inr input \<Rightarrow>
        let path = resolvePath env (cxWorkingDirectory ctx) (eiFilePath input);
            old = eiOldString input; new = eiNewString input
        in if TrimSpace (eiFilePath input) = [] then Some ''file_path is required''
           else if old = new then Some ''No changes to make: old_string and new_string are exactly the same.''
           else case GuardTeamMemoryWrite env path new of
                  Some err \<Rightarrow> Some err
                | None \<Rightarrow>
                  if HasSuffix (ToLower (the_go_env env) path) ''.ipynb''
                  then Some ''File is a Jupyter Notebook. Use the NotebookEdit tool to edit this file.''
                  else case readTextForEdit (the_os_env env) path w of
                         Inl e \<Rightarrow> Some (os_message e)
                       | Inr t \<Rightarrow>
                         let content = etContent t
                         in if \<not> etExisted t
                            then (if old = [] then validateSettingsFileContent env path new else Some ''File does not exist.'')
                            else if old = []
                            then (if TrimSpace content \<noteq> [] then Some ''Cannot create new file - file already exists.''
                                  else validateSettingsFileContent env path new)
                            else case validateFreshFullReadWithContent env path content w of
                                   Some err \<Rightarrow> Some err
                                 | None \<Rightarrow>
                                   (case findActualString content old of
                                      None \<Rightarrow> Some (not_found_text old)
                                    | Some actualOld \<Rightarrow>
                                      if Count content actualOld > 1 \<and> \<not> eiReplaceAll input
                                      then Some (many_matches_text (Count content actualOld) old)
                                      else validateSettingsFileContent env path
                                             (applyEdit content actualOld (preserveQuoteStyle old actualOld new) (eiReplaceAll input))))"

definition edit_result :: "editInput \<Rightarrow> string \<Rightarrow> string \<Rightarrow> string \<Rightarrow> ToolResult" where
  "edit_result input actualOld content updated =
     (let diff = buildTextDiff (eiFilePath input) content updated
      in text_result
           (if eiReplaceAll input
            then ''The file '' @ eiFilePath input @ '' has been updated. All occurrences were successfully replaced.''
            else ''The file '' @ eiFilePath input @ '' has been updated successfully.'')
           [(''filePath'', AnyString (eiFilePath input)), (''oldString'', AnyString actualOld),
            (''newString'', AnyString (eiNewString input)), (''originalFile'', AnyString content),
            (''replaceAll'', AnyBool (eiReplaceAll input)), (''diff'', AnyString (Unified diff)),
            (''hunks'', AnyMapSlice (Hunks diff))])"

definition callEdit :: "input_env \<Rightarrow> file_world Context \<Rightarrow> raw_message \<Rightarrow> file_world \<Rightarrow> call_result" where
  "callEdit env ctx raw w =
     (case decodeEdit env raw of
        Inl err \<Rightarrow> call_err err w
      | Inr input \<Rightarrow>
        let path = resolvePath env (cxWorkingDirectory ctx) (eiFilePath input);
            old = eiOldString input;
            w = discoverSkillDirsForFile env ctx path w
        in case readTextForEdit (the_os_env env) path w of
             Inl e \<Rightarrow> call_err (os_message e) w
           | Inr t \<Rightarrow>
             (case (if etExisted t \<and> old \<noteq> [] then validateFreshFullReadWithContent env path (etContent t) w else None) of
                Some err \<Rightarrow> call_err err w
              | None \<Rightarrow>
                (case (if old \<noteq> [] then findActualString (etContent t) old else Some old) of
                   None \<Rightarrow> call_err (not_found_text old) w
                 | Some actualOld \<Rightarrow>
                   let actualNew = preserveQuoteStyle old actualOld (eiNewString input);
                       updated = applyEdit (etContent t) actualOld actualNew (eiReplaceAll input)
                   in case then_os (os_MkdirAll (the_os_env env) (Dir path) 493 w)
                             (writeNormalizedText (the_os_env env) path updated (etCRLF t) (etMode t)) of
                        (Some e, w) \<Rightarrow> call_err (os_message e) w
                      | (None, w) \<Rightarrow> call_ok (edit_result input actualOld (etContent t) updated) (remember env path updated w))))"

end
