(* ===== verification/NotebookTool.thy ===== *)
theory NotebookTool
  imports FileTools
begin

text \<open>
  The tool NotebookEdit (\<open>internal/tools/file/tools.go\<close>), and the definitions of the tools that change
  files as tools made of functions. A notebook is a \<open>map[string]any\<close>, its cells the \<open>[]any\<close> at the key
  \<open>cells\<close>; reading and printing JSON are parameters (\<open>json_map\<close>, \<open>json_indent\<close>).
\<close>

definition notebookEditMode :: "notebookEditInput \<Rightarrow> string" where
  "notebookEditMode input = (let mode = TrimSpace (niEditMode input) in if mode = [] then ''replace'' else mode)"

definition parseNotebookJSON :: "input_env \<Rightarrow> string \<Rightarrow> string + go_map \<times> goany list" where
  "parseNotebookJSON env content =
     (case json_map env content of
        None \<Rightarrow> Inl ''Notebook is not valid JSON.''
      | Some notebook \<Rightarrow>
        (case field notebook ''cells'' of
           AnySlice cells \<Rightarrow> Inr (notebook, cells)
         | _ \<Rightarrow> Inl ''Notebook JSON must contain a cells array.''))"

definition string_at :: "go_map \<Rightarrow> string \<Rightarrow> string" where
  "string_at m k = (case field m k of AnyString s \<Rightarrow> s | _ \<Rightarrow> [])"

definition parseNotebookCellID :: "string \<Rightarrow> int option" where
  "parseNotebookCellID cellID = (if \<not> HasPrefix cellID ''cell-'' then None else Atoi_text (TrimPrefix cellID ''cell-''))"

fun cell_with_id :: "goany list \<Rightarrow> string \<Rightarrow> nat option" where
  "cell_with_id [] cellID = None"
| "cell_with_id (value # cells) cellID =
     (case value of
        AnyMap cell \<Rightarrow> if string_at cell ''id'' = cellID then Some 0 else map_option Suc (cell_with_id cells cellID)
      | _ \<Rightarrow> map_option Suc (cell_with_id cells cellID))"

definition findNotebookCellIndex :: "input_env \<Rightarrow> goany list \<Rightarrow> string \<Rightarrow> string + nat \<times> string" where
  "findNotebookCellIndex env cells cellID =
     (let cellID = TrimSpace cellID
      in case cell_with_id cells cellID of
           Some i \<Rightarrow> Inr (i, cellID)
         | None \<Rightarrow>
           (case parseNotebookCellID cellID of
              Some index \<Rightarrow>
                if index < 0 \<or> index \<ge> int (length cells)
                then Inl (''Cell with index '' @ int_text index @ '' does not exist in notebook.'')
                else Inr (nat index, cellID)
            | None \<Rightarrow> Inl (''Cell with ID '' @ Quote (the_go_env env) cellID @ '' not found in notebook.'')))"

definition newNotebookCell :: "string \<Rightarrow> string \<Rightarrow> string \<Rightarrow> go_map" where
  "newNotebookCell cellType source cid =
     [(''cell_type'', AnyString cellType), (''metadata'', AnyMap []), (''source'', AnyString source)] @
     (if cid \<noteq> [] then [(''id'', AnyString cid)] else []) @
     (if cellType = ''code'' then [(''execution_count'', AnyNil), (''outputs'', AnySlice [])] else [])"

definition notebookCellSource :: "goany \<Rightarrow> string" where
  "notebookCellSource value = (case value of AnyMap cell \<Rightarrow> notebookText (field cell ''source'') | _ \<Rightarrow> [])"

definition jsonNumberAsInt :: "goany \<Rightarrow> int" where
  "jsonNumberAsInt value =
     (case value of AnyNumber r \<Rightarrow> if r < 0 then \<lceil>r\<rceil> else \<lfloor>r\<rfloor> | AnyInt i \<Rightarrow> i | _ \<Rightarrow> 0)"

definition notebookSupportsCellID :: "go_map \<Rightarrow> bool" where
  "notebookSupportsCellID notebook =
     (let major = jsonNumberAsInt (field notebook ''nbformat''); minor = jsonNumberAsInt (field notebook ''nbformat_minor'')
      in major > 4 \<or> (major = 4 \<and> minor \<ge> 5))"

definition notebookLanguage :: "go_map \<Rightarrow> string" where
  "notebookLanguage notebook =
     (case field notebook ''metadata'' of
        AnyMap metadata \<Rightarrow>
          (case field metadata ''language_info'' of
             AnyMap info \<Rightarrow> if TrimSpace (string_at info ''name'') = [] then ''python'' else string_at info ''name''
           | _ \<Rightarrow> ''python'')
      | _ \<Rightarrow> ''python'')"

definition validateNotebookEdit :: "input_env \<Rightarrow> file_world Context \<Rightarrow> raw_message \<Rightarrow> file_world \<Rightarrow> string option" where
  "validateNotebookEdit env ctx raw w =
     (case decodeNotebookEdit env raw of
        Inl err \<Rightarrow> Some err
      | Inr input \<Rightarrow>
        let path = resolvePath env (cxWorkingDirectory ctx) (niNotebookPath input);
            mode = notebookEditMode input
        in if TrimSpace (niNotebookPath input) = [] then Some ''notebook_path is required''
           else if \<not> isNotebookPath env path
           then Some ''File must be a Jupyter notebook (.ipynb file). For editing other file types, use the FileEdit tool.''
           else if mode \<notin> {''replace'', ''insert'', ''delete''} then Some ''Edit mode must be replace, insert, or delete.''
           else if niCellType input \<notin> {[], ''code'', ''markdown''} then Some ''cell_type must be code or markdown''
           else if mode = ''insert'' \<and> niCellType input = [] then Some ''Cell type is required when using edit_mode=insert.''
           else case readTextForEdit (the_os_env env) path w of
                  Inl e \<Rightarrow> Some (os_message e)
                | Inr t \<Rightarrow>
                  if \<not> etExisted t then Some ''Notebook file does not exist.''
                  else case validateFreshFullReadWithContent env path (etContent t) w of
                         Some err \<Rightarrow> Some err
                       | None \<Rightarrow>
                         (case parseNotebookJSON env (etContent t) of
                            Inl err \<Rightarrow> Some err
                          | Inr (notebook, cells) \<Rightarrow>
                            if TrimSpace (niCellID input) = []
                            then (if mode \<noteq> ''insert'' then Some ''Cell ID must be specified when not inserting a new cell.'' else None)
                            else (case findNotebookCellIndex env cells (niCellID input) of Inl err \<Rightarrow> Some err | Inr found \<Rightarrow> None)))"

text \<open>The cell that an edit is about, and the ID by which it was found.\<close>

definition target_cell :: "input_env \<Rightarrow> notebookEditInput \<Rightarrow> goany list \<Rightarrow> string + nat \<times> string" where
  "target_cell env input cells =
     (let targetCellID = TrimSpace (niCellID input)
      in if targetCellID = [] then Inr (0, targetCellID)
         else case findNotebookCellIndex env cells targetCellID of
                Inl err \<Rightarrow> Inl err
              | Inr (i, found) \<Rightarrow> Inr (if notebookEditMode input = ''insert'' then i + 1 else i, found))"

record cell_change =
  ccCells :: "goany list"
  ccType :: string
  ccOldSource :: string
  ccTarget :: string

definition missing_cell :: "nat \<Rightarrow> string" where
  "missing_cell i = ''Cell with index '' @ dec i @ '' does not exist in notebook.''"

definition replaced_cell :: "notebookEditInput \<Rightarrow> go_map \<Rightarrow> go_map" where
  "replaced_cell input cell =
     (let cell = (if string_at cell ''cell_type'' = ''code''
                  then set_key ''outputs'' (AnySlice []) (set_key ''execution_count'' AnyNil cell) else cell);
          cell = set_key ''source'' (AnyString (niNewSource input)) cell
      in if niCellType input \<noteq> [] then set_key ''cell_type'' (AnyString (niCellType input)) cell else cell)"

text \<open>A new cell is named by the first twelve characters of a fresh ID.\<close>

definition edit_cells :: "input_env \<Rightarrow> notebookEditInput \<Rightarrow> go_map \<Rightarrow> goany list \<Rightarrow> nat \<Rightarrow> string \<Rightarrow> file_world \<Rightarrow> string + cell_change" where
  "edit_cells env input notebook cells cellIndex targetCellID w =
     (let mode = notebookEditMode input; cellType = niCellType input
      in if mode = ''delete'' then
           (if cellIndex \<ge> length cells then Inl (missing_cell cellIndex)
            else Inr \<lparr>ccCells = take cellIndex cells @ drop (Suc cellIndex) cells,
                      ccType = (if cellType = [] then (case cells ! cellIndex of AnyMap cell \<Rightarrow> string_at cell ''cell_type'' | _ \<Rightarrow> []) else cellType),
                      ccOldSource = notebookCellSource (cells ! cellIndex), ccTarget = targetCellID\<rparr>)
         else if mode = ''insert'' then
           (let cellType = (if cellType = [] then ''code'' else cellType);
                newCellID = (if notebookSupportsCellID notebook then ''cell-'' @ take 12 (new_id env w) else [])
            in Inr \<lparr>ccCells = take cellIndex cells @ AnyMap (newNotebookCell cellType (niNewSource input) newCellID) # drop cellIndex cells,
                    ccType = cellType, ccOldSource = [], ccTarget = newCellID\<rparr>)
         else if cellIndex \<ge> length cells then Inl (missing_cell cellIndex)
         else case cells ! cellIndex of
                AnyMap cell \<Rightarrow>
                  Inr \<lparr>ccCells = cells[cellIndex := AnyMap (replaced_cell input cell)],
                       ccType = (if cellType \<noteq> [] then cellType
                                 else if string_at cell ''cell_type'' = [] then ''code'' else string_at cell ''cell_type''),
                       ccOldSource = notebookCellSource (AnyMap cell), ccTarget = targetCellID\<rparr>
              | _ \<Rightarrow> Inl (''Cell with index '' @ dec cellIndex @ '' is not a notebook cell object.''))"

definition notebook_result ::
  "notebookEditInput \<Rightarrow> string \<Rightarrow> go_map \<Rightarrow> nat \<Rightarrow> cell_change \<Rightarrow> string \<Rightarrow> string \<Rightarrow> ToolResult" where
  "notebook_result input path notebook cellIndex change content updated =
     (let mode = notebookEditMode input;
          target = ccTarget change;
          diffTarget = (if target = [] then ''cell-'' @ dec cellIndex else target);
          diff = buildTextDiff (niNotebookPath input @ '':'' @ diffTarget) (ccOldSource change)
                   (if mode = ''delete'' then [] else niNewSource input)
      in text_result
           (if mode = ''insert'' then ''Inserted notebook cell '' @ target @ '' in '' @ niNotebookPath input @ ''.''
            else if mode = ''delete'' then ''Deleted notebook cell '' @ target @ '' from '' @ niNotebookPath input @ ''.''
            else ''Updated notebook '' @ niNotebookPath input @ '' cell '' @ target @ ''.'')
           [(''new_source'', AnyString (niNewSource input)), (''cell_id'', AnyString target), (''cell_type'', AnyString (ccType change)),
            (''language'', AnyString (notebookLanguage notebook)), (''edit_mode'', AnyString mode), (''error'', AnyString []),
            (''notebook_path'', AnyString path), (''original_file'', AnyString content), (''updated_file'', AnyString updated),
            (''diff'', AnyString (Unified diff)), (''hunks'', AnyMapSlice (Hunks diff))])"

definition callNotebookEdit :: "input_env \<Rightarrow> file_world Context \<Rightarrow> raw_message \<Rightarrow> file_world \<Rightarrow> call_result" where
  "callNotebookEdit env ctx raw w =
     (case decodeNotebookEdit env raw of
        Inl err \<Rightarrow> call_err err w
      | Inr input \<Rightarrow>
        let path = resolvePath env (cxWorkingDirectory ctx) (niNotebookPath input);
            w = discoverSkillDirsForFile env ctx path w
        in case readTextForEdit (the_os_env env) path w of
             Inl e \<Rightarrow> call_err (os_message e) w
           | Inr t \<Rightarrow>
             if \<not> etExisted t then call_err ''Notebook file does not exist.'' w
             else case validateFreshFullReadWithContent env path (etContent t) w of
                    Some err \<Rightarrow> call_err err w
                  | None \<Rightarrow>
                    (case parseNotebookJSON env (etContent t) of
                       Inl err \<Rightarrow> call_err err w
                     | Inr (notebook, cells) \<Rightarrow>
                       (case target_cell env input cells of
                          Inl err \<Rightarrow> call_err err w
                        | Inr (cellIndex, targetCellID) \<Rightarrow>
                          (case edit_cells env input notebook cells cellIndex targetCellID w of
                             Inl err \<Rightarrow> call_err err w
                           | Inr change \<Rightarrow>
                             let notebook = set_key ''cells'' (AnySlice (ccCells change)) notebook;
                                 updated = json_indent env notebook
                             in case writeNormalizedText (the_os_env env) path updated (etCRLF t) (etMode t) w of
                                  (Some e, w) \<Rightarrow> call_err (os_message e) w
                                | (None, w) \<Rightarrow>
                                  call_ok (notebook_result input path notebook cellIndex change (etContent t) updated)
                                    (remember env path updated w)))))"

section \<open>The tools\<close>

definition property_type :: "string \<Rightarrow> goany" where
  "property_type t = AnyMap [(''type'', AnyString t)]"

definition file_tool_schema :: "string list \<Rightarrow> (string \<times> goany) list \<Rightarrow> go_map" where
  "file_tool_schema required properties =
     [(''type'', AnyString ''object''), (''required'', AnySlice (map AnyString required)), (''properties'', AnyMap properties)]"

definition file_tool_definition :: "string \<Rightarrow> string \<Rightarrow> string \<Rightarrow> go_map \<Rightarrow> ToolDefinition" where
  "file_tool_definition name description hint schema =
     \<lparr>defName = name, defAliases = [], defDescription = description, defPrompt = [], defSearchHint = hint,
      defInputSchema = schema, defReadOnly = False, defDestructive = False, defConcurrencySafe = False,
      defShouldDefer = False, defAlwaysLoad = False, defMaxResultSizeChars = 100000, defStrict = True,
      defEagerInputStreaming = False, defRequiresInteraction = False, defInterruptBehavior = [], defMCP = None\<rparr>"

definition file_func_tool ::
  "ToolDefinition \<Rightarrow> string \<Rightarrow> (raw_message \<Rightarrow> string + raw_message) option \<Rightarrow>
   (file_world Context \<Rightarrow> raw_message \<Rightarrow> file_world \<Rightarrow> string option) \<Rightarrow>
   (file_world Context \<Rightarrow> raw_message \<Rightarrow> file_world \<Rightarrow> call_result) \<Rightarrow> file_world FuncTool" where
  "file_func_tool definition prompt normal check call =
     \<lparr>DefinitionValue = definition, NormalizeFunc = normal, ValidateFunc = Some (\<lambda>ctx raw w. (check ctx raw w, w)),
      PermissionFunc = None, CallFunc = Some call, ReadOnlyFunc = None, ConcurrencyFunc = None, DestructiveFunc = None,
      InterruptValue = [], MaxResultSize = 0, PromptFunc = Some (\<lambda>_. Inr prompt), InputSchemaFunc = None\<rparr>"

definition NewWriteTool :: "input_env \<Rightarrow> file_world FuncTool" where
  "NewWriteTool env =
     file_func_tool
       (file_tool_definition ''Write'' ''Write a file to the local filesystem.'' ''create or overwrite files''
         (file_tool_schema [''file_path'', ''content''] [(''file_path'', property_type ''string''), (''content'', property_type ''string'')]))
       ''Writes a file to the local filesystem. Existing files must be read first; prefer Edit for modifying existing files.''
       None (validateWrite env) (callWrite env)"

definition NewEditTool :: "input_env \<Rightarrow> file_world FuncTool" where
  "NewEditTool env =
     file_func_tool
       (file_tool_definition ''Edit'' ''Perform exact string replacements in files.'' ''modify file contents in place''
         (file_tool_schema [''file_path'', ''old_string'', ''new_string'']
           [(''file_path'', property_type ''string''), (''old_string'', property_type ''string''),
            (''new_string'', property_type ''string''), (''replace_all'', property_type ''boolean'')]))
       ''Performs exact string replacements in files. The file must be read first, and old_string must uniquely identify the target unless replace_all is true.''
       (Some (normalizeEditRawInput env)) (validateEdit env) (callEdit env)"

definition string_enum :: "string list \<Rightarrow> goany" where
  "string_enum values = AnyMap [(''type'', AnyString ''string''), (''enum'', AnySlice (map AnyString values))]"

definition NewNotebookEditTool :: "input_env \<Rightarrow> file_world FuncTool" where
  "NewNotebookEditTool env =
     file_func_tool
       (file_tool_definition ''NotebookEdit'' ''Edit a Jupyter notebook cell.'' ''edit Jupyter notebook cells ipynb''
         (file_tool_schema [''notebook_path'', ''new_source'']
           [(''notebook_path'', property_type ''string''), (''cell_id'', property_type ''string''),
            (''new_source'', property_type ''string''), (''cell_type'', string_enum [''code'', ''markdown'']),
            (''edit_mode'', string_enum [''replace'', ''insert'', ''delete''])]))
       ''Edits a Jupyter notebook cell. notebook_path points to the .ipynb file, cell_id selects a cell ID or cell-N index, new_source is the replacement or inserted source, cell_type is code or markdown, and edit_mode is replace, insert, or delete.''
       None (validateNotebookEdit env) (callNotebookEdit env)"

end
