(* ===== verification/FileDiffLaws.thy ===== *)
theory FileDiffLaws
  imports FileTextLaws
begin

text \<open>
  Laws of diffs and of windows of lines. \<open>patched\<close> reads a hunk of a diff the way a client of the tool
  result does: the lines it says are kept or inserted, at the place it gives, for the lines it covers.
\<close>

section \<open>Reading a hunk\<close>

definition item_op :: "go_map \<Rightarrow> string" where
  "item_op item = (case map_of item ''op'' of Some (AnyString s) \<Rightarrow> s | _ \<Rightarrow> [])"

definition item_text :: "go_map \<Rightarrow> string" where
  "item_text item = (case map_of item ''text'' of Some (AnyString s) \<Rightarrow> s | _ \<Rightarrow> [])"

definition hunk_items :: "go_map \<Rightarrow> go_map list" where
  "hunk_items h = (case map_of h ''lines'' of Some (AnyMapSlice items) \<Rightarrow> items | _ \<Rightarrow> [])"

definition hunk_number :: "go_map \<Rightarrow> string \<Rightarrow> nat" where
  "hunk_number h key = (case map_of h key of Some (AnyInt i) \<Rightarrow> nat i | _ \<Rightarrow> 0)"

definition rewritten :: "string \<Rightarrow> string \<Rightarrow> string \<Rightarrow> go_map \<Rightarrow> string list \<Rightarrow> string list" where
  "rewritten left_out start_key count_key h lines =
     (let start = hunk_number h start_key - 1
      in take start lines @ map item_text (filter (\<lambda>i. item_op i \<noteq> left_out) (hunk_items h)) @
         drop (start + hunk_number h count_key) lines)"

definition patched :: "go_map \<Rightarrow> string list \<Rightarrow> string list" where
  "patched = rewritten ''delete'' ''old_start'' ''old_lines''"

definition reverted :: "go_map \<Rightarrow> string list \<Rightarrow> string list" where
  "reverted = rewritten ''insert'' ''new_start'' ''new_lines''"

section \<open>What two texts have in common\<close>

lemma commonPrefix_same:
  "commonPrefixLines as bs \<le> length as \<and> commonPrefixLines as bs \<le> length bs \<and>
   take (commonPrefixLines as bs) as = take (commonPrefixLines as bs) bs"
  by (induction as bs rule: commonPrefixLines.induct) auto

lemma commonSuffix_same:
  "commonSuffixLines as bs \<le> length as \<and> commonSuffixLines as bs \<le> length bs \<and>
   drop (length as - commonSuffixLines as bs) as = drop (length bs - commonSuffixLines as bs) bs"
  using commonPrefix_same[of "rev as" "rev bs"] by (simp add: commonSuffixLines_def take_rev)

lemma map_nth_range: "n \<le> length xs \<Longrightarrow> map (\<lambda>i. xs ! i) [m..<n] = take (n - m) (drop m xs)"
  by (intro nth_equalityI) auto

lemma slices_join: "a \<le> b \<Longrightarrow> take a xs @ take (b - a) (drop a xs) = take b xs"
  by (metis le_add_diff_inverse take_add)

lemma slice_drop: "a \<le> b \<Longrightarrow> take (b - a) (drop a xs) @ drop b xs = drop a xs"
  by (metis append_take_drop_id drop_drop le_add_diff_inverse2)

section \<open>The hunk of two texts\<close>

lemma diff_item_fields: "item_op (diff_item op text i j) = op" "item_text (diff_item op text i j) = text"
  by (simp_all add: item_op_def item_text_def diff_item_def)

lemma filter_items:
  "map item_text (filter (\<lambda>i. item_op i \<noteq> x) (map (\<lambda>(op, text, i, j). diff_item op text i j) ls)) =
   map (\<lambda>(op, text, i, j). text) (filter (\<lambda>(op, text, i, j). op \<noteq> x) ls)"
  by (induction ls) (auto simp: diff_item_fields)

lemma hunk_sides:
  assumes "p \<le> oc" "oc \<le> oe" "oe \<le> length old" "p \<le> nc" "nc \<le> length new"
  shows "map (\<lambda>(op, text, i, j). text) (filter (\<lambda>(op, text, i, j). op \<noteq> ''delete'') (hunk_lines old new p oc nc s s' oe)) =
      take (p - s) (drop s old) @ take (nc - p) (drop p new) @ take (oe - oc) (drop oc old)"
    and "map (\<lambda>(op, text, i, j). text) (filter (\<lambda>(op, text, i, j). op \<noteq> ''insert'') (hunk_lines old new p oc nc s s' oe)) =
      take (p - s) (drop s old) @ take (oc - p) (drop p old) @ take (oe - oc) (drop oc old)"
  using assms by (simp_all add: hunk_lines_def comp_def map_nth_range)

lemma rebuilt:
  assumes "take p as = take p bs" "drop oc as = drop nc bs" "s \<le> p" "p \<le> nc" "oc \<le> oe"
  shows "take s as @ (take (p - s) (drop s as) @ take (nc - p) (drop p bs) @ take (oe - oc) (drop oc as)) @ drop oe as = bs"
proof -
  have "take s as @ (take (p - s) (drop s as) @ take (nc - p) (drop p bs) @ take (oe - oc) (drop oc as)) @ drop oe as =
      (take s as @ take (p - s) (drop s as)) @ take (nc - p) (drop p bs) @ (take (oe - oc) (drop oc as) @ drop oe as)"
    by simp
  also have "\<dots> = take p bs @ take (nc - p) (drop p bs) @ drop nc bs"
    unfolding slices_join[OF assms(3)] slice_drop[OF assms(5)] unfolding assms(1,2) ..
  also have "\<dots> = bs" by (simp only: slices_join[OF assms(4)] append_assoc[symmetric] append_take_drop_id)
  finally show ?thesis .
qed

lemma diff_patches:
  "foldl (\<lambda>lines h. patched h lines) (diffLines oldText) (Hunks (buildTextDiff path oldText newText)) = diffLines newText"
  "foldl (\<lambda>lines h. reverted h lines) (diffLines newText) (Hunks (buildTextDiff path oldText newText)) = diffLines oldText"
proof -
  let ?o = "diffLines oldText" and ?n = "diffLines newText"
  define p where "p = commonPrefixLines ?o ?n"
  define s where "s = commonSuffixLines (drop p ?o) (drop p ?n)"
  define oc where "oc = length ?o - s"
  define nc where "nc = length ?n - s"
  define oe where "oe = min (oc + 3) (length ?o)"
  define ne where "ne = min (nc + 3) (length ?n)"
  have p: "p \<le> length ?o" "p \<le> length ?n" "take p ?o = take p ?n" using commonPrefix_same[of ?o ?n] by (auto simp: p_def)
  have s: "s \<le> length ?o - p" "s \<le> length ?n - p" "drop (length ?o - p - s) (drop p ?o) = drop (length ?n - p - s) (drop p ?n)"
    using commonSuffix_same[of "drop p ?o" "drop p ?n"] by (auto simp: s_def)
  have bounds: "p \<le> oc" "p \<le> nc" "oc \<le> oe" "nc \<le> ne" "oe \<le> length ?o" "ne \<le> length ?n" "nc \<le> length ?n" "oc \<le> length ?o"
    using p s by (auto simp: oc_def nc_def oe_def ne_def)
  have tails: "drop oc ?o = drop nc ?n" using s p by (simp add: oc_def nc_def)
  have same: "take (oe - oc) (drop oc ?o) = take (ne - nc) (drop nc ?n)"
  proof -
    have "oe - oc = min 3 s" "ne - nc = min 3 s" using p s by (auto simp: oe_def ne_def oc_def nc_def)
    then show ?thesis by (simp add: tails)
  qed
  have heads: "take (p - (p - 3)) (drop (p - 3) ?o) = take (p - (p - 3)) (drop (p - 3) ?n)"
    using p(3) by (metis drop_take)
  have starts: "p - 3 \<le> oe" "p - 3 \<le> ne" using bounds by auto
  have numbers: "nat (1 + int k) - Suc 0 = k" "k + nat (int a - int k) = (if k \<le> a then a else k)" for k a
    by auto
  show "foldl (\<lambda>lines h. patched h lines) ?o (Hunks (buildTextDiff path oldText newText)) = ?n"
    using hunk_sides(1)[OF bounds(1,3,5,2,7), of "p - 3" "p - 3"] rebuilt[OF p(3) tails _ bounds(2,3), of "p - 3"] bounds(1,3) starts
    by (simp add: buildTextDiff_def Let_def patched_def rewritten_def hunk_number_def hunk_items_def filter_items numbers
        flip: p_def s_def oc_def nc_def oe_def ne_def)
  show "foldl (\<lambda>lines h. reverted h lines) ?n (Hunks (buildTextDiff path oldText newText)) = ?o"
    using hunk_sides(2)[OF bounds(1,3,5,2,7), of "p - 3" "p - 3"] rebuilt[OF p(3)[symmetric] tails[symmetric] _ bounds(1,4), of "p - 3"]
      bounds(2,4) same heads starts
    by (simp add: buildTextDiff_def Let_def reverted_def rewritten_def hunk_number_def hunk_items_def filter_items numbers
        flip: p_def s_def oc_def nc_def oe_def ne_def)
qed

end
