(* ===== verification/FileLaws.thy ===== *)
theory FileLaws
  imports NotebookTool FileDiffLaws
begin

text \<open>
  Laws of the file tools: what each operation of the store leaves alone, and what the tools know of the
  files they write over.
\<close>

section \<open>What an operation leaves alone\<close>

text \<open>\<open>grown S w w'\<close>: outside the paths \<open>S\<close> nothing has changed but directories that were missing, the
  clock and the metadata are the same, and a file that has changed has the time of the clock.\<close>

definition grown :: "string set \<Rightarrow> file_world \<Rightarrow> file_world \<Rightarrow> bool" where
  "grown S w w' =
     (fwClock w' = fwClock w \<and> fwReadState w' = fwReadState w \<and> fwInternal w' = fwInternal w \<and>
      (\<forall>q. q \<notin> S \<longrightarrow> fwNodes w' q = fwNodes w q \<or> fwNodes w q = None \<and> (\<exists>t m. fwNodes w' q = Some (DirNode t m))) \<and>
      (\<forall>q d t m. fwNodes w' q = Some (FileNode d t m) \<longrightarrow> fwNodes w' q = fwNodes w q \<or> t = fwClock w))"

lemma grown_refl [simp]: "grown S w w"
  by (simp add: grown_def)

lemma grown_trans: "grown S w w1 \<Longrightarrow> grown S' w1 w2 \<Longrightarrow> grown (S \<union> S') w w2"
  unfolding grown_def by (metis UnCI option.distinct(1))

lemma grown_more: "grown S w w' \<Longrightarrow> S \<subseteq> S' \<Longrightarrow> grown S' w w'"
  by (auto simp: grown_def)

lemma grown_file: "grown S w w' \<Longrightarrow> q \<notin> S \<Longrightarrow> fwNodes w q = Some n \<Longrightarrow> fwNodes w' q = Some n"
  unfolding grown_def by (metis option.distinct(1))

lemma grown_mkdir: "mkdir_line env ps mode w = (r, w') \<Longrightarrow> grown {} w w'"
proof (induction ps arbitrary: w)
  case (Cons p ps)
  show ?case
  proof (cases "fwNodes w p")
    case None
    show ?thesis
    proof (cases "os_fault env ''mkdir'' p")
      case none: None
      let ?w = "w\<lparr>fwNodes := (fwNodes w)(p \<mapsto> DirNode (fwClock w) (os_umask env mode))\<rparr>"
      have "grown {} ?w w'" using Cons None none by simp
      moreover have "grown {} w ?w" using None by (simp add: grown_def)
      ultimately show ?thesis using grown_trans[of "{}" w ?w "{}" w'] by simp
    qed (use Cons.prems None in simp)
  next
    case (Some n)
    then show ?thesis using Cons by (cases n) auto
  qed
qed simp

lemma grown_MkdirAll: "os_MkdirAll env path mode w = (r, w') \<Longrightarrow> grown {} w w'"
  by (auto simp: os_MkdirAll_def split: option.splits dest: grown_mkdir)

lemma WriteFile_effect:
  "os_WriteFile env path data mode w = (r, w') \<Longrightarrow>
   grown {path} w w' \<and> (r = None \<longrightarrow> (\<exists>m. fwNodes w' path = Some (FileNode data (fwClock w) m)))"
  by (auto simp: os_WriteFile_def grown_def split: option.splits node.splits if_splits)

lemma Rename_effect:
  "os_Rename env from into w = (r, w') \<Longrightarrow> from \<noteq> into \<Longrightarrow> fwNodes w from = Some (FileNode d (fwClock w) m) \<Longrightarrow>
   (r = None \<longrightarrow> grown {from, into} w w' \<and> fwNodes w' into = fwNodes w from \<and> fwNodes w from \<noteq> None \<and> fwNodes w' from = None) \<and>
   (r \<noteq> None \<longrightarrow> w' = w)"
  by (auto simp: os_Rename_def grown_def split: option.splits node.splits if_splits)

text \<open>A write that fails leaves the file as it was; one that succeeds takes the place of the file, and of the
  file at the name of its temporary copy.\<close>

abbreviation temporary :: "string \<Rightarrow> string" where
  "temporary path \<equiv> path @ ''.tmp''"

lemma AtomicWriteFile_effect:
  assumes "AtomicWriteFile env path data mode w = (r, w')"
  shows "r = None \<Longrightarrow> grown {path, temporary path} w w' \<and> (\<exists>m. fwNodes w' path = Some (FileNode data (fwClock w) m)) \<and>
           fwNodes w' (temporary path) = None"
    and "r \<noteq> None \<Longrightarrow> grown {temporary path} w w'"
proof -
  obtain r1 w1 where mk: "EnsureDir env (Dir path) w = (r1, w1)" by fastforce
  then have g1: "grown {} w w1" by (auto simp: EnsureDir_def dest: grown_MkdirAll)
  obtain r2 w2 where wr: "os_WriteFile env (temporary path) data mode w1 = (r2, w2)" by fastforce
  from WriteFile_effect[OF wr] have g2: "grown {temporary path} w1 w2"
    and data: "r2 = None \<Longrightarrow> \<exists>m. fwNodes w2 (temporary path) = Some (FileNode data (fwClock w1) m)" by auto
  obtain r3 w3 where rn: "os_Rename env (temporary path) path w2 = (r3, w3)" by fastforce
  have e3: "(r3 = None \<longrightarrow> grown {temporary path, path} w2 w3 \<and> fwNodes w3 path = fwNodes w2 (temporary path) \<and>
      fwNodes w2 (temporary path) \<noteq> None \<and> fwNodes w3 (temporary path) = None) \<and> (r3 \<noteq> None \<longrightarrow> w3 = w2)" if "r2 = None"
  proof -
    obtain m where "fwNodes w2 (temporary path) = Some (FileNode data (fwClock w1) m)" using data[OF \<open>r2 = None\<close>] by blast
    moreover have "fwClock w2 = fwClock w1" using g2 by (simp add: grown_def)
    ultimately show ?thesis using Rename_effect[OF rn, of data m] by simp
  qed
  have g12: "grown {temporary path} w w2" using grown_trans[OF g1 g2] by simp
  have run: "(r, w') = (if r1 \<noteq> None then (r1, w1) else if r2 \<noteq> None then (r2, w2) else (r3, w3))"
    using assms mk wr rn by (auto simp: AtomicWriteFile_def Let_def then_os_def split: option.splits)
  have clock: "fwClock w1 = fwClock w" using g1 by (simp add: grown_def)
  show "r = None \<Longrightarrow> grown {path, temporary path} w w' \<and> (\<exists>m. fwNodes w' path = Some (FileNode data (fwClock w) m)) \<and>
           fwNodes w' (temporary path) = None"
  proof -
    assume "r = None"
    then have ok: "r2 = None" "r3 = None" "w' = w3" using run by (auto split: if_splits)
    have "grown {temporary path, path} w2 w3" using e3 ok by simp
    from grown_trans[OF g12 this] have "grown ({temporary path} \<union> {temporary path, path}) w w3" .
    then have "grown {path, temporary path} w w'" unfolding ok(3) by (rule grown_more) simp
    then show ?thesis using e3 ok data clock by auto
  qed
  show "r \<noteq> None \<Longrightarrow> grown {temporary path} w w'"
    using run g1 g12 e3 grown_more[OF g1, of "{temporary path}"] by (auto split: if_splits)
qed

section \<open>The tools\<close>

text \<open>What a tool that changes the file at \<open>path\<close> does to the store: nothing but directories and skills found,
  or it writes the file whole and remembers the text.\<close>

definition skills_found :: "file_world \<Rightarrow> file_world \<Rightarrow> bool" where
  "skills_found w w1 = (\<exists>i. w1 = w\<lparr>fwInternal := i\<rparr>)"

lemma discover_effect: "skills_found w (discoverSkillDirsForFile env ctx path w)"
  unfolding skills_found_def discoverSkillDirsForFile_def by (auto simp: Let_def intro: exI[of _ "fwInternal w"])

lemma skills_same:
  assumes "skills_found w w1"
  shows "fwNodes w1 = fwNodes w" "fwClock w1 = fwClock w" "fwReadState w1 = fwReadState w"
    "os_Stat e p w1 = os_Stat e p w" "readText e p w1 = readText e p w" "readTextForEdit e p w1 = readTextForEdit e p w"
    "mtimeMillis e p w1 = mtimeMillis e p w"
    "validateFreshFullReadWithContent env p c w1 = validateFreshFullReadWithContent env p c w"
proof -
  obtain i where i: "w1 = w\<lparr>fwInternal := i\<rparr>" using assms by (auto simp: skills_found_def)
  show "fwNodes w1 = fwNodes w" "fwClock w1 = fwClock w" "fwReadState w1 = fwReadState w" by (simp_all add: i)
  show "os_Stat e p w1 = os_Stat e p w" by (simp add: i os_Stat_def split: option.split)
  show "readText e p w1 = readText e p w" by (simp add: i readText_def os_ReadFile_def split: option.split)
  then show "readTextForEdit e p w1 = readTextForEdit e p w"
    using \<open>os_Stat e p w1 = os_Stat e p w\<close> by (simp only: readTextForEdit_def)
  from \<open>os_Stat e p w1 = os_Stat e p w\<close> show "mtimeMillis e p w1 = mtimeMillis e p w" by (simp add: mtimeMillis_def)
  have "mtimeMillis (the_os_env env) p w1 = mtimeMillis (the_os_env env) p w"
    by (simp add: i mtimeMillis_def os_Stat_def split: option.split)
  then show "validateFreshFullReadWithContent env p c w1 = validateFreshFullReadWithContent env p c w"
    by (simp add: i validateFreshFullReadWithContent_def ReadState_Get_def split: option.split)
qed

definition wrote :: "input_env \<Rightarrow> string \<Rightarrow> string \<Rightarrow> string \<Rightarrow> file_world \<Rightarrow> file_world \<Rightarrow> bool" where
  "wrote env path data text w w' =
     (\<exists>w1 i m. grown {path, temporary path} (w\<lparr>fwInternal := i\<rparr>) w1 \<and> fwNodes w1 path = Some (FileNode data (fwClock w) m) \<and>
        fwNodes w1 (temporary path) = None \<and> w' = remember env path text w1)"

definition left_alone :: "string \<Rightarrow> file_world \<Rightarrow> file_world \<Rightarrow> bool" where
  "left_alone path w w' = (\<exists>i. grown {temporary path} (w\<lparr>fwInternal := i\<rparr>) w')"

lemma left_alone_skills: "skills_found w w1 \<Longrightarrow> left_alone path w w1"
  by (auto simp: skills_found_def left_alone_def intro: exI[of _ "fwInternal w1"])

lemma remember_effect:
  "fwNodes (remember env path text w) = fwNodes w" "fwClock (remember env path text w) = fwClock w"
  by (simp_all add: remember_def ReadState_Set_def split: sum.split)

lemma remembered:
  assumes "fwNodes w path = Some (FileNode data t m)"
  shows "fwReadState (remember env path text w) q =
    (if q = path \<and> os_fault (the_os_env env) ''stat'' path = None
     then Some \<lparr>rfContent = text, rfTimestamp = t, rfOffset = None, rfLimit = None, rfPartialView = False\<rparr> else fwReadState w q)"
  using assms by (auto simp: remember_def ReadState_Set_def mtimeMillis_def os_Stat_def split: option.splits)

section \<open>What a tool knows of the file it writes over\<close>

text \<open>A text shows the data of a file when it is the data, up to the byte order mark and the line endings.\<close>

definition plain :: "string \<Rightarrow> string" where
  "plain d = ReplaceAll (TrimPrefix d byte_order_mark) crlf_text [nl]"

definition shows_text :: "string \<Rightarrow> string \<Rightarrow> bool" where
  "shows_text text d = (text = d \<or> text = ReplaceAll d crlf_text [nl] \<or> text = plain d)"

definition fresh :: "string \<Rightarrow> file_world \<Rightarrow> bool" where
  "fresh path w =
     (\<forall>d t m. fwNodes w path = Some (FileNode d t m) \<longrightarrow>
        (\<exists>s. fwReadState w path = Some s \<and> fullRead s \<and> (t \<le> rfTimestamp s \<or> rfContent s = plain d)))"

lemma readText_data: "readText e path w = Inr raw \<Longrightarrow> fwNodes w path = Some (FileNode d t m) \<Longrightarrow> raw = TrimPrefix d byte_order_mark \<and> utf8_Valid raw"
  by (auto simp: readText_def os_ReadFile_def text_of_data_def Let_def split: option.splits if_splits)

lemma text_for_edit:
  assumes "readTextForEdit e path w = Inr t"
  shows "etExisted t = (fwNodes w path \<noteq> None)"
    and "fwNodes w path = Some n \<Longrightarrow> \<exists>d ti m. n = FileNode d ti m \<and> etContent t = plain d \<and> etCRLF t = Contains (TrimPrefix d byte_order_mark) crlf_text"
    and "fwNodes w path = None \<Longrightarrow> etContent t = [] \<and> \<not> etCRLF t"
    and "os_fault e ''stat'' path = None"
  using assms
  by (auto simp: readTextForEdit_def os_Stat_def plain_def dest: readText_data split: option.splits sum.splits node.splits os_error.splits)

lemma fresh_checked:
  assumes "readTextForEdit (the_os_env env) path w = Inr t"
    and "etExisted t \<Longrightarrow> validateFreshFullReadWithContent env path (etContent t) w = None"
  shows "fresh path w"
  unfolding fresh_def
proof (intro allI impI)
  fix d ti m assume node: "fwNodes w path = Some (FileNode d ti m)"
  then have c: "validateFreshFullReadWithContent env path (plain d) w = None"
    using assms text_for_edit[OF assms(1)] by auto
  have "mtimeMillis (the_os_env env) path w = Inr ti"
    using text_for_edit(4)[OF assms(1)] node by (simp add: mtimeMillis_def os_Stat_def)
  then show "\<exists>s. fwReadState w path = Some s \<and> fullRead s \<and> (ti \<le> rfTimestamp s \<or> rfContent s = plain d)"
    using c by (auto simp: validateFreshFullReadWithContent_def ReadState_Get_def split: option.splits if_splits)
qed

text \<open>What a call of a tool that changes files does; one that fails writes nothing.\<close>

definition call_failed :: "(ToolResult \<times> string option) \<times> ToolProgress list \<Rightarrow> bool" where
  "call_failed out = (snd (fst out) \<noteq> None)"

definition file_call ::
  "input_env \<Rightarrow> string \<Rightarrow> bool \<Rightarrow> (ToolResult \<times> string option) \<times> ToolProgress list \<Rightarrow> file_world \<Rightarrow> file_world \<Rightarrow> bool" where
  "file_call env path creates out w w' =
     (left_alone path w w' \<or>
      \<not> call_failed out \<and>
      (\<exists>data text. wrote env path data text w w' \<and> shows_text text data \<and> (creates \<or> fresh path w)))"

lemma written_after:
  assumes "skills_found w w1" "grown {} w1 v" "writeText e path data m v = (r, w2)"
  shows "r \<noteq> None \<Longrightarrow> left_alone path w w2"
    and "r = None \<Longrightarrow> wrote env path data text w (remember env path text w2)"
proof -
  obtain i where i: "w1 = w\<lparr>fwInternal := i\<rparr>" using assms(1) by (auto simp: skills_found_def)
  have run: "AtomicWriteFile e path data (if m = 0 then 420 else m) v = (r, w2)" using assms(3) by (simp add: writeText_def)
  show "left_alone path w w2" if "r \<noteq> None"
    using grown_trans[OF assms(2) AtomicWriteFile_effect(2)[OF run that]] i by (auto simp: left_alone_def)
  show "wrote env path data text w (remember env path text w2)" if "r = None"
  proof -
    note a = AtomicWriteFile_effect(1)[OF run that]
    have "grown {path, temporary path} w1 w2" using grown_trans[OF assms(2)] a by fastforce
    moreover have "fwClock v = fwClock w" using assms(2) i by (simp add: grown_def)
    ultimately show ?thesis using a i unfolding wrote_def by metis
  qed
qed

lemma written:
  assumes "skills_found w w1"
    and "then_os (os_MkdirAll e (Dir path) mode w1) (writeText e path data m) = (r, w2)"
  shows "r \<noteq> None \<Longrightarrow> left_alone path w w2"
    and "r = None \<Longrightarrow> wrote env path data text w (remember env path text w2)"
proof -
  obtain r1 v where mk: "os_MkdirAll e (Dir path) mode w1 = (r1, v)" by fastforce
  obtain i where i: "w1 = w\<lparr>fwInternal := i\<rparr>" using assms(1) by (auto simp: skills_found_def)
  have g: "grown {} w1 v" using grown_MkdirAll[OF mk] .
  have next_step: "writeText e path data m v = (r, w2)" if "r1 = None"
    using assms(2) mk that by (simp add: then_os_def)
  show "left_alone path w w2" if "r \<noteq> None"
  proof (cases r1)
    case (Some x)
    then have "w2 = v" using assms(2) mk by (simp add: then_os_def)
    then show ?thesis using grown_more[OF g, of "{temporary path}"] i by (auto simp: left_alone_def)
  next
    case None
    then show ?thesis using written_after(1)[OF assms(1) g next_step that] by simp
  qed
  show "wrote env path data text w (remember env path text w2)" if "r = None"
  proof -
    have "r1 = None" using assms(2) mk that by (cases r1) (simp_all add: then_os_def)
    then show ?thesis using written_after(2)[OF assms(1) g next_step that] by simp
  qed
qed

lemma normalized_write:
  "writeNormalizedText e path content crlf mode = writeText e path (if crlf then ReplaceAll content [nl] crlf_text else content) mode"
  by (simp add: writeNormalizedText_def fun_eq_iff)

lemma shows_normalized: "shows_text content (if crlf then ReplaceAll content [nl] crlf_text else content)"
  by (simp add: shows_text_def crlf_round_trip)

lemma call_simps: "snd (call_err err w) = w" "snd (call_ok r w) = w"
  by (simp_all add: call_err_def call_ok_def)

definition write_path :: "input_env \<Rightarrow> file_world Context \<Rightarrow> string \<Rightarrow> string" where
  "write_path env ctx p = resolvePath env (cxWorkingDirectory ctx) p"

lemma callWrite_effect:
  assumes "callWrite env ctx raw w = (out, w')"
  shows "w' = w \<or> (\<exists>input. decodeWrite env raw = Inr input \<and> file_call env (write_path env ctx (wiFilePath input)) False out w w')"
proof (cases "decodeWrite env raw")
  case (Inl err)
  then show ?thesis using assms by (simp add: callWrite_def call_err_def)
next
  case (Inr input)
  let ?p = "write_path env ctx (wiFilePath input)" and ?e = "the_os_env env"
  define w1 where "w1 = discoverSkillDirsForFile env ctx ?p w"
  have found: "skills_found w w1" by (simp add: w1_def discover_effect)
  note run = assms[unfolded callWrite_def Inr Let_def sum.case, folded write_path_def, folded w1_def]
  have "file_call env ?p False out w w'"
  proof (cases "readTextForEdit ?e ?p w1")
    case (Inl e)
    then have "w' = w1" using run by (simp add: call_err_def)
    then show ?thesis using left_alone_skills[OF found] by (simp add: file_call_def)
  next
    case t: (Inr t)
    show ?thesis
    proof (cases "if etExisted t then validateFreshFullReadWithContent env ?p (etContent t) w1 else None")
      case (Some err)
      then have "w' = w1" using run t by (simp add: call_err_def)
      then show ?thesis using left_alone_skills[OF found] by (simp add: file_call_def)
    next
      case None
      have t0: "readTextForEdit ?e ?p w = Inr t" using t skills_same(6)[OF found] by simp
      have "fresh ?p w"
        by (rule fresh_checked[OF t0]) (use None skills_same(8)[OF found] in simp)
      obtain r w2 where wr: "then_os (os_MkdirAll ?e (Dir ?p) 493 w1) (writeText ?e ?p (wiContent input) (etMode t)) = (r, w2)"
        by fastforce
      show ?thesis
      proof (cases r)
        case (Some e)
        then have "w' = w2" using run t None wr by (simp add: call_err_def)
        then show ?thesis using written(1)[OF found wr] Some by (simp add: file_call_def)
      next
        case none: None
        then have "w' = remember env ?p (wiContent input) w2" "\<not> call_failed out" using run t None wr by (auto simp: call_ok_def call_failed_def)
        moreover have "shows_text (wiContent input) (wiContent input)" by (simp add: shows_text_def)
        ultimately show ?thesis using written(2)[OF found wr none] \<open>fresh ?p w\<close> unfolding file_call_def by blast
      qed
    qed
  qed
  then show ?thesis using Inr by blast
qed

lemma callEdit_effect:
  assumes "callEdit env ctx raw w = (out, w')"
  shows "w' = w \<or> (\<exists>input. decodeEdit env raw = Inr input \<and> file_call env (write_path env ctx (eiFilePath input)) (eiOldString input = []) out w w')"
proof (cases "decodeEdit env raw")
  case (Inl err)
  then show ?thesis using assms by (simp add: callEdit_def call_err_def)
next
  case (Inr input)
  let ?p = "write_path env ctx (eiFilePath input)" and ?e = "the_os_env env" and ?old = "eiOldString input"
  define w1 where "w1 = discoverSkillDirsForFile env ctx ?p w"
  have found: "skills_found w w1" by (simp add: w1_def discover_effect)
  note run = assms[unfolded callEdit_def Inr Let_def sum.case, folded write_path_def, folded w1_def]
  have same: "file_call env ?p c out w w1" for c using left_alone_skills[OF found] by (simp add: file_call_def)
  have "file_call env ?p (?old = []) out w w'"
  proof (cases "readTextForEdit ?e ?p w1")
    case (Inl e)
    then show ?thesis using run same by (simp add: call_err_def)
  next
    case t: (Inr t)
    have t0: "readTextForEdit ?e ?p w = Inr t" using t skills_same(6)[OF found] by simp
    show ?thesis
    proof (cases "if etExisted t \<and> ?old \<noteq> [] then validateFreshFullReadWithContent env ?p (etContent t) w1 else None")
      case (Some err)
      then show ?thesis using run t same by (simp add: call_err_def)
    next
      case ok: None
      have fresh: "?old \<noteq> [] \<Longrightarrow> fresh ?p w"
        by (rule fresh_checked[OF t0]) (use ok skills_same(8)[OF found] in simp)
      show ?thesis
      proof (cases "if ?old \<noteq> [] then findActualString (etContent t) ?old else Some ?old")
        case None
        then have "w' = w1" using run t ok by (simp add: call_err_def)
        then show ?thesis using same by simp
      next
        case (Some actualOld)
        define updated where "updated = applyEdit (etContent t) actualOld (preserveQuoteStyle ?old actualOld (eiNewString input)) (eiReplaceAll input)"
        note run' = run[unfolded t ok Some sum.case option.case, folded updated_def]
        obtain r w2 where wr: "then_os (os_MkdirAll ?e (Dir ?p) 493 w1)
            (writeNormalizedText ?e ?p updated (etCRLF t) (etMode t)) = (r, w2)" by fastforce
        show ?thesis
        proof (cases r)
          case (Some e)
          then have "w' = w2" using run' wr by (simp add: call_err_def)
          then show ?thesis using written(1)[OF found wr[unfolded normalized_write]] Some by (simp add: file_call_def)
        next
          case none: None
          then have "w' = remember env ?p updated w2" "\<not> call_failed out" using run' wr by (auto simp: call_ok_def call_failed_def)
          then show ?thesis
            using written(2)[OF found wr[unfolded normalized_write] none] shows_normalized fresh unfolding file_call_def by blast
        qed
      qed
    qed
  qed
  then show ?thesis using Inr by blast
qed

lemma callNotebookEdit_effect:
  assumes "callNotebookEdit env ctx raw w = (out, w')"
  shows "w' = w \<or> (\<exists>input. decodeNotebookEdit env raw = Inr input \<and> file_call env (write_path env ctx (niNotebookPath input)) False out w w')"
proof (cases "decodeNotebookEdit env raw")
  case (Inl err)
  then show ?thesis using assms by (simp add: callNotebookEdit_def call_err_def)
next
  case (Inr input)
  let ?p = "write_path env ctx (niNotebookPath input)" and ?e = "the_os_env env"
  define w1 where "w1 = discoverSkillDirsForFile env ctx ?p w"
  have found: "skills_found w w1" by (simp add: w1_def discover_effect)
  note run = assms[unfolded callNotebookEdit_def Inr Let_def sum.case, folded write_path_def, folded w1_def]
  have same: "file_call env ?p c out w w1" for c using left_alone_skills[OF found] by (simp add: file_call_def)
  have "file_call env ?p False out w w'"
  proof (cases "w' = w1")
    case True
    then show ?thesis using same by simp
  next
    case False
    then obtain t where t: "readTextForEdit ?e ?p w1 = Inr t" "etExisted t"
        "validateFreshFullReadWithContent env ?p (etContent t) w1 = None"
      using run by (auto simp: call_err_def split: sum.splits if_splits option.splits)
    have t0: "readTextForEdit ?e ?p w = Inr t" using t(1) skills_same(6)[OF found] by simp
    have fresh: "fresh ?p w" by (rule fresh_checked[OF t0]) (use t(3) skills_same(8)[OF found] in simp)
    obtain notebook cells where nb: "parseNotebookJSON env (etContent t) = Inr (notebook, cells)"
      using run t False by (auto simp: call_err_def split: sum.splits)
    obtain k target where tg: "target_cell env input cells = Inr (k, target)"
      using run t nb False by (auto simp: call_err_def split: sum.splits)
    obtain change where ch: "edit_cells env input notebook cells k target w1 = Inr change"
      using run t nb tg False by (auto simp: call_err_def split: sum.splits)
    define updated where "updated = json_indent env (set_key ''cells'' (AnySlice (ccCells change)) notebook)"
    obtain r w2 where wr: "writeNormalizedText ?e ?p updated (etCRLF t) (etMode t) w1 = (r, w2)" by fastforce
    note run' = run[unfolded t nb tg ch sum.case prod.case option.case, folded updated_def, unfolded wr prod.case]
    show ?thesis
    proof (cases r)
      case (Some e)
      then have "w' = w2" using run' t(2) by (simp add: call_err_def)
      then show ?thesis using written_after(1)[OF found grown_refl wr[unfolded normalized_write]] Some by (simp add: file_call_def)
    next
      case none: None
      then have "w' = remember env ?p updated w2" "\<not> call_failed out" using run' t(2) by (auto simp: call_ok_def call_failed_def)
      then show ?thesis
        using written_after(2)[OF found grown_refl wr[unfolded normalized_write] none] shows_normalized fresh unfolding file_call_def by blast
    qed
  qed
  then show ?thesis using Inr by blast
qed

text \<open>Read changes nothing but what is remembered: of a file read, its text and its time.\<close>

lemma callRead_effect:
  assumes "callRead env ctx raw w = Some (out, w')"
  shows "skills_found w w' \<or>
    (\<exists>p d t m s i. fwNodes w p = Some (FileNode d t m) \<and> rfContent s = plain d \<and> rfTimestamp s = t \<and>
       w' = ReadState_Set p s (w\<lparr>fwInternal := i\<rparr>))"
proof (cases "decodeRead env raw")
  case (Inl err)
  then have "w' = w" using assms by (simp add: callRead_def call_err_def)
  then show ?thesis by (auto simp: skills_found_def intro: exI[of _ "fwInternal w"])
next
  case (Inr input)
  let ?p = "resolvePath env (cxWorkingDirectory ctx) (riFilePath input)" and ?e = "the_os_env env"
  define w1 where "w1 = discoverSkillDirsForFile env ctx ?p w"
  define offset where "offset = (case riOffset input of Some i \<Rightarrow> i | None \<Rightarrow> 1)"
  have found: "skills_found w w1" by (simp add: w1_def discover_effect)
  then obtain i where i: "w1 = w\<lparr>fwInternal := i\<rparr>" by (auto simp: skills_found_def)
  note run = assms[unfolded callRead_def Inr Let_def sum.case, folded w1_def offset_def]
  show ?thesis
  proof (cases "w' = w1")
    case True
    then show ?thesis using found by blast
  next
    case False
    then obtain d t m where node: "os_Stat ?e ?p w1 = Inr (FileNode d t m)"
      using run by (auto simp: call_err_def call_ok_def split: if_splits sum.splits node.splits os_error.splits)
    then have stored: "fwNodes w ?p = Some (FileNode d t m)" by (auto simp: i os_Stat_def split: option.splits)
    then have stored1: "fwNodes w1 ?p = Some (FileNode d t m)" by (simp add: i)
    obtain content where content: "readText ?e ?p w1 = Inr content"
      using run False node
      by (auto simp: call_err_def call_ok_def readNotebookResult_def readImageResult_def read_text_result_def Let_def
          split: if_splits sum.splits option.splits prod.splits)
    then have shown: "ReplaceAll content crlf_text [nl] = plain d" using readText_data[OF _ stored1] by (simp add: plain_def)
    have "\<exists>o' l v. w' = ReadState_Set ?p \<lparr>rfContent = plain d, rfTimestamp = t, rfOffset = o', rfLimit = l, rfPartialView = v\<rparr> w1"
      using run False node
      by (auto simp: call_err_def call_ok_def readNotebookResult_def readImageResult_def read_text_result_def Let_def content shown
          split: if_splits sum.splits option.splits prod.splits)
    then obtain o' l v where set: "w' = ReadState_Set ?p \<lparr>rfContent = plain d, rfTimestamp = t, rfOffset = o', rfLimit = l, rfPartialView = v\<rparr> w1"
      by blast
    let ?s = "\<lparr>rfContent = plain d, rfTimestamp = t, rfOffset = o', rfLimit = l, rfPartialView = v\<rparr>"
    have "rfContent ?s = plain d" "rfTimestamp ?s = t" by simp_all
    with set have "\<exists>s. rfContent s = plain d \<and> rfTimestamp s = t \<and> w' = ReadState_Set ?p s w1" by blast
    then show ?thesis using stored i by blast
  qed
qed

end
