(* ===== verification/FileRun.thy ===== *)
theory FileRun
  imports FileLaws
begin

text \<open>
  A turn that reads and changes files while other programs change them too, as a step relation; and the
  invariant of what the turn remembers of the files, which the check before each change rests on.
\<close>

section \<open>Steps\<close>

text \<open>Other programs change any files in any way and let time pass.\<close>

definition outside_step :: "file_world \<Rightarrow> file_world \<Rightarrow> bool" where
  "outside_step w w' = (fwReadState w' = fwReadState w \<and> fwInternal w' = fwInternal w \<and> fwClock w \<le> fwClock w')"

text \<open>A tool call that changes files is named by its path and by whether it is an edit with an empty
  \<open>old_string\<close>, which makes a file.\<close>

datatype file_label = Reads | Changes string bool | Outside

inductive turn_step :: "file_world \<Rightarrow> file_label \<Rightarrow> file_world \<Rightarrow> bool" where
  reads: "callRead env ctx raw w = Some (out, w') \<Longrightarrow> turn_step w Reads w'"
| writes: "callWrite env ctx raw w = (out, w') \<Longrightarrow> decodeWrite env raw = Inr input \<Longrightarrow>
    turn_step w (Changes (write_path env ctx (wiFilePath input)) False) w'"
| edits: "callEdit env ctx raw w = (out, w') \<Longrightarrow> decodeEdit env raw = Inr input \<Longrightarrow>
    turn_step w (Changes (write_path env ctx (eiFilePath input)) (eiOldString input = [])) w'"
| edits_notebook: "callNotebookEdit env ctx raw w = (out, w') \<Longrightarrow> decodeNotebookEdit env raw = Inr input \<Longrightarrow>
    turn_step w (Changes (write_path env ctx (niNotebookPath input)) False) w'"
| others: "outside_step w w' \<Longrightarrow> turn_step w Outside w'"

inductive_cases turn_step_changes: "turn_step w (Changes p creates) w'"
inductive_cases turn_step_reads: "turn_step w Reads w'"
inductive_cases turn_step_outside: "turn_step w Outside w'"

text \<open>The runs of a turn, with the worlds that they go through; the last one is the present.\<close>

inductive turn_run :: "file_world \<Rightarrow> file_world list \<Rightarrow> file_world \<Rightarrow> bool" for w0 where
  start: "turn_run w0 [w0] w0"
| step: "turn_run w0 past w \<Longrightarrow> turn_step w l w' \<Longrightarrow> turn_run w0 (past @ [w']) w'"

lemma run_past: "turn_run w0 past w \<Longrightarrow> w \<in> set past"
  by (induction rule: turn_run.induct) simp_all

section \<open>The invariant\<close>

text \<open>What the turn remembers of a file, the file has shown: at some moment it had that time, and a text that is the
  remembered one up to line endings and byte order mark.\<close>

definition shown_at :: "file_world \<Rightarrow> string \<Rightarrow> ReadFileState \<Rightarrow> bool" where
  "shown_at v p s = (\<exists>d m. fwNodes v p = Some (FileNode d (rfTimestamp s) m) \<and> shows_text (rfContent s) d)"

definition witnessed :: "file_world list \<Rightarrow> file_world \<Rightarrow> bool" where
  "witnessed past w = (\<forall>p s. fwReadState w p = Some s \<longrightarrow> (\<exists>v \<in> set past. shown_at v p s))"

lemma witnessed_step:
  assumes "witnessed past w" "\<And>p s. fwReadState w' p = Some s \<Longrightarrow> fwReadState w p \<noteq> Some s \<Longrightarrow> shown_at w' p s"
  shows "witnessed (past @ [w']) w'"
  using assms unfolding witnessed_def by (metis Un_iff list.set_intros(1) set_append)

lemma witnessed_read:
  assumes "witnessed past w" "callRead env ctx raw w = Some (out, w')"
  shows "witnessed (past @ [w']) w'"
  using callRead_effect[OF assms(2)]
proof
  assume "skills_found w w'"
  then show ?thesis by (intro witnessed_step[OF assms(1)]) (auto simp: skills_same)
next
  assume "\<exists>p d t m s i. fwNodes w p = Some (FileNode d t m) \<and> rfContent s = plain d \<and> rfTimestamp s = t \<and>
       w' = ReadState_Set p s (w\<lparr>fwInternal := i\<rparr>)"
  then obtain p d t m s i where c: "fwNodes w p = Some (FileNode d t m)" "rfContent s = plain d" "rfTimestamp s = t"
      "w' = ReadState_Set p s (w\<lparr>fwInternal := i\<rparr>)" by blast
  show ?thesis
    by (rule witnessed_step[OF assms(1)]) (use c in \<open>auto simp: ReadState_Set_def shown_at_def shows_text_def split: if_splits\<close>)
qed

lemma witnessed_change:
  assumes "witnessed past w" "file_call env path creates out w w'"
  shows "witnessed (past @ [w']) w'"
  using assms(2) unfolding file_call_def
proof
  assume "left_alone path w w'"
  then show ?thesis by (intro witnessed_step[OF assms(1)]) (auto simp: left_alone_def grown_def)
next
  assume "\<not> call_failed out \<and> (\<exists>data text. wrote env path data text w w' \<and> shows_text text data \<and> (creates \<or> fresh path w))"
  then obtain data content w1 i m where g: "grown {path, temporary path} (w\<lparr>fwInternal := i\<rparr>) w1"
    and node: "fwNodes w1 path = Some (FileNode data (fwClock w) m)" and w': "w' = remember env path content w1"
    and shown: "shows_text content data" by (auto simp: wrote_def)
  have same: "fwReadState w1 = fwReadState w" using g by (auto simp: grown_def)
  show ?thesis
  proof (rule witnessed_step[OF assms(1)])
    fix p s
    assume "fwReadState w' p = Some s" "fwReadState w p \<noteq> Some s"
    then show "shown_at w' p s"
      using node shown by (auto simp: w' remember_effect remembered[OF node] same shown_at_def split: if_splits)
  qed
qed

lemma change_is_call:
  assumes "turn_step w (Changes p creates) w'"
  shows "w' = w \<or> (\<exists>env out. file_call env p creates out w w')"
  using assms
  by (elim turn_step_changes) (auto dest!: callWrite_effect callEdit_effect callNotebookEdit_effect)

lemma witnessed_turn_step:
  assumes "witnessed past w" "turn_step w l w'"
  shows "witnessed (past @ [w']) w'"
proof (cases l)
  case Reads
  then have "turn_step w Reads w'" using assms(2) by simp
  then show ?thesis by (cases rule: turn_step_reads) (use witnessed_read[OF assms(1)] in auto)
next
  case (Changes p creates)
  then have "w' = w \<or> (\<exists>env out. file_call env p creates out w w')" using change_is_call assms(2) by simp
  then show ?thesis using witnessed_change[OF assms(1)] witnessed_step[OF assms(1), of w] by blast
next
  case Outside
  then have "turn_step w Outside w'" using assms(2) by simp
  then show ?thesis by (cases rule: turn_step_outside) (auto intro!: witnessed_step[OF assms(1)] simp: outside_step_def)
qed

lemma witnessed_run: "turn_run w0 past w \<Longrightarrow> fwReadState w0 = Map.empty \<Longrightarrow> witnessed past w"
  by (induction rule: turn_run.induct) (simp_all add: witnessed_def[of "[w0]"] witnessed_turn_step)

section \<open>What a change writes over\<close>

text \<open>A file that a tool changes or removes is the file at its path or the one at the name of the temporary copy.\<close>

lemma changed_where:
  assumes "file_call env path creates out w w'" "fwNodes w q = Some (FileNode d t m)" "fwNodes w' q \<noteq> fwNodes w q"
  shows "q = path \<and> (creates \<or> fresh path w) \<or> q = temporary path"
  using assms(1) unfolding file_call_def
proof
  assume "left_alone path w w'"
  then obtain i where "grown {temporary path} (w\<lparr>fwInternal := i\<rparr>) w'" by (auto simp: left_alone_def)
  from grown_file[OF this, of q "FileNode d t m"] show ?thesis using assms(2,3) by auto
next
  assume "\<not> call_failed out \<and> (\<exists>data text. wrote env path data text w w' \<and> shows_text text data \<and> (creates \<or> fresh path w))"
  then obtain w1 i content where g: "grown {path, temporary path} (w\<lparr>fwInternal := i\<rparr>) w1"
    and w': "w' = remember env path content w1" and c: "creates \<or> fresh path w" by (auto simp: wrote_def)
  from grown_file[OF g, of q "FileNode d t m"] show ?thesis using assms(2,3) c by (auto simp: w' remember_effect)
qed

text \<open>What the turn has seen of a file with data \<open>d\<close> and time \<open>t\<close>: the text it has now, or it cannot tell, because the
  time of the file is no later than that of a version which the turn has seen.\<close>

definition seen_before :: "file_world list \<Rightarrow> file_world \<Rightarrow> string \<Rightarrow> string \<Rightarrow> int \<Rightarrow> bool" where
  "seen_before past w q d t =
     (\<exists>s v d0 m0. fwReadState w q = Some s \<and> fullRead s \<and> v \<in> set past \<and> fwNodes v q = Some (FileNode d0 (rfTimestamp s) m0) \<and>
        shows_text (rfContent s) d0 \<and> (rfContent s = plain d \<or> t \<le> rfTimestamp s))"

lemma change_seen:
  assumes "witnessed past w" "turn_step w (Changes p creates) w'" "fwNodes w q = Some (FileNode d t m)" "fwNodes w' q \<noteq> fwNodes w q"
  shows "q = p \<and> (creates \<or> seen_before past w q d t) \<or> q = temporary p"
proof -
  obtain env out where "file_call env p creates out w w'" using change_is_call[OF assms(2)] assms(4) by auto
  from changed_where[OF this assms(3,4)] show ?thesis
  proof
    assume q: "q = p \<and> (creates \<or> fresh p w)"
    show ?thesis
    proof (cases creates)
      case False
      then obtain s where s: "fwReadState w q = Some s" "fullRead s" "t \<le> rfTimestamp s \<or> rfContent s = plain d"
        using q assms(3) unfolding fresh_def by blast
      then obtain v where "v \<in> set past" "shown_at v q s" using assms(1) unfolding witnessed_def by blast
      then show ?thesis using q s unfolding seen_before_def shown_at_def by blast
    qed (use q in simp)
  qed simp
qed

end
