(* ===== verification/FileProps.thy ===== *)
theory FileProps
  imports FileRun ToolProps
begin

text \<open>
  The properties of the file tools: what a turn may write over, what an edit does to the text, the diffs of
  the results, the windows that Read shows, and notebooks.
\<close>

section \<open>A change in the executor\<close>

text \<open>A validation that fails is the end of an execution, and no hook has run.\<close>

lemma refused_at_validation:
  assumes "cxContext ctx = None" "exRegistry e = Some registry" "Lookup (sysEnv sys) registry (useName use) = Some t"
    and "toolValidate t ctx (normalizeRawInput (useInput use)) w = (Some err, w)"
  shows "\<exists>x es. Execute sys e ctx use w = (fail use x, es, w) \<and> calls es = []"
  using assms
  by (auto simp: Execute_def contextError_def prepare_def validate_def Let_def then_p_def then_e_def look_def done_p_def ask_world_def)

lemma unread_refused:
  assumes "decodeWrite env raw = Inr input" "fwReadState w path = None" "fwNodes w path = Some (FileNode d t m)"
    and "path = write_path env ctx (wiFilePath input)"
  shows "validateWrite env ctx raw w \<noteq> None"
proof
  assume ok: "validateWrite env ctx raw w = None"
  have stat: "os_Stat (the_os_env env) path w = Inr (FileNode d t m)"
    using ok assms by (auto simp: validateWrite_def write_path_def os_Stat_def Let_def split: if_splits option.splits)
  then have "validateFreshFullRead env path w = None"
    using ok assms by (auto simp: validateWrite_def write_path_def Let_def split: if_splits option.splits)
  then show False using assms(2,3)
    by (auto simp: validateFreshFullRead_def readTextForEdit_def stat validateFreshFullReadWithContent_def ReadState_Get_def
        split: sum.splits if_splits)
qed

section \<open>Edits\<close>

lemma replace_skip_bytes: "cr \<notin> set r \<Longrightarrow> ReplaceAll (r @ s) crlf_text new = r @ ReplaceAll s crlf_text new"
proof (induction r)
  case (Cons c r)
  then have "\<not> HasPrefix (c # r @ s) [cr, nl]" by auto
  then show ?case using Cons by (simp add: crlf_text_def ReplaceAll_skip)
qed simp

lemma rune_without_cr:
  assumes "a_rune r" "length r > 1"
  shows "cr \<notin> set r"
proof
  assume "cr \<in> set r"
  then obtain i where i: "i < length r" "r ! i = cr" by (auto simp: in_set_conv_nth)
  show False
  proof (cases "i = 0")
    case True
    then obtain s where "r = cr # s" using i by (cases r) auto
    then have "snd (decode_rune r) = 1" by (simp add: decode_rune_def byte_def Let_def split: prod.split)
    then show False using assms by (simp add: a_rune_def)
  next
    case False
    then have "continues (r ! i)" using decode_tail[of r i] assms(1) i by (simp add: a_rune_def)
    then show False using i by (simp add: cont_def byte_def)
  qed
qed

lemma valid_endings: "utf8_Valid s \<Longrightarrow> utf8_Valid (ReplaceAll s crlf_text [nl])"
proof (induction rule: valid_induct)
  case (rune r s)
  have r: "a_rune r" using rune.hyps by (simp add: a_rune_def)
  show ?case
  proof (cases "HasPrefix (r @ s) crlf_text \<and> r = [cr]")
    case True
    then obtain s' where s: "s = nl # s'" by (cases s) (auto simp: crlf_text_def)
    have "ReplaceAll (r @ s) crlf_text [nl] = nl # ReplaceAll s' crlf_text [nl]"
      using True s by (simp add: crlf_text_def ReplaceAll_pair)
    also have "\<dots> = ReplaceAll s crlf_text [nl]" unfolding s crlf_text_def by (subst ReplaceAll_skip) simp_all
    finally show ?thesis using rune.IH by simp
  next
    case False
    have "ReplaceAll (r @ s) crlf_text [nl] = r @ ReplaceAll s crlf_text [nl]"
    proof (cases "length r > 1")
      case True
      then show ?thesis using replace_skip_bytes rune_without_cr r by blast
    next
      case short: False
      then obtain c where "r = [c]" using rune.hyps(1) by (cases r) auto
      then show ?thesis using False by (cases "c = cr") (simp_all add: crlf_text_def ReplaceAll_skip)
    qed
    then show ?thesis using rune.IH rune_pieces(2)[of r] rune.hyps by simp
  qed
qed simp

lemma readText_valid: "readText e path w = Inr raw \<Longrightarrow> utf8_Valid raw"
  by (auto simp: readText_def text_of_data_def Let_def split: sum.splits if_splits)

lemma text_valid:
  assumes "readTextForEdit e path w = Inr t"
  shows "utf8_Valid (etContent t)"
proof (cases "os_Stat e path w")
  case (Inl err)
  then have "etContent t = []" using assms by (cases err) (auto simp: readTextForEdit_def)
  then show ?thesis by simp
next
  case (Inr n)
  then obtain raw where "readText e path w = Inr raw" "etContent t = ReplaceAll raw crlf_text [nl]"
    using assms by (cases n; cases "readText e path w") (auto simp: readTextForEdit_def)
  then show ?thesis using valid_endings[OF readText_valid] by simp
qed

text \<open>What is replaced: the string found, or it with the end of its line when it is deleted.\<close>

lemma applyEdit_once:
  assumes "Contains content old" "old \<noteq> []"
  shows "\<exists>before cut after. content = before @ cut @ after \<and> applyEdit content old new False = before @ new @ after \<and>
     (cut = old \<or> new = [] \<and> cut = old @ [nl]) \<and> \<not> Contains (butlast (before @ cut)) cut"
proof -
  define cut where "cut = (if new = [] \<and> \<not> HasSuffix old [nl] \<and> Contains content (old @ [nl]) then old @ [nl] else old)"
  have "Contains content cut" "cut \<noteq> []" using assms by (auto simp: cut_def)
  from ReplaceOne_first[OF this, of new] obtain before after where b:
    "content = before @ cut @ after" "\<not> Contains (butlast (before @ cut)) cut" "ReplaceOne content cut new = before @ new @ after" by blast
  have "applyEdit content old new False = ReplaceOne content cut new" using assms(2) by (simp add: applyEdit_def Let_def cut_def)
  moreover have "cut = old \<or> new = [] \<and> cut = old @ [nl]" by (simp add: cut_def)
  ultimately show ?thesis using b by (intro exI[of _ before] exI[of _ cut] exI[of _ after]) simp
qed

definition with_endings :: "string \<Rightarrow> string \<Rightarrow> string" where
  "with_endings d content =
     (if Contains (TrimPrefix d byte_order_mark) crlf_text then ReplaceAll content [nl] crlf_text else content)"

lemma validated_edit:
  assumes "decodeEdit env raw = Inr input" "eiOldString input \<noteq> []" "validateEdit env ctx raw w = None"
    and "path = write_path env ctx (eiFilePath input)"
  shows "\<exists>t found. readTextForEdit (the_os_env env) path w = Inr t \<and> etExisted t \<and>
    validateFreshFullReadWithContent env path (etContent t) w = None \<and>
    findActualString (etContent t) (eiOldString input) = Some found \<and> (Count (etContent t) found \<le> 1 \<or> eiReplaceAll input)"
proof -
  note v = assms(3)[unfolded validateEdit_def assms(1) sum.case Let_def, folded write_path_def, folded assms(4)]
  obtain t where t: "readTextForEdit (the_os_env env) path w = Inr t"
    using v by (cases "readTextForEdit (the_os_env env) path w") (simp_all split: if_splits option.splits)
  have "etExisted t" "validateFreshFullReadWithContent env path (etContent t) w = None"
    using v assms(2) by (simp_all add: t split: if_splits option.splits)
  moreover obtain found where "findActualString (etContent t) (eiOldString input) = Some found"
    using v assms(2) calculation by (simp add: t split: if_splits option.splits)
  moreover have "Count (etContent t) found \<le> 1 \<or> eiReplaceAll input"
    using v assms(2) calculation by (simp add: t not_less split: if_splits option.splits)
  ultimately show ?thesis using t by blast
qed

lemma called_edit:
  assumes "decodeEdit env raw = Inr input" "eiOldString input \<noteq> []" "path = write_path env ctx (eiFilePath input)"
    and "readTextForEdit (the_os_env env) path w = Inr t" "etExisted t"
    and "validateFreshFullReadWithContent env path (etContent t) w = None"
    and "findActualString (etContent t) (eiOldString input) = Some found"
    and "callEdit env ctx raw w = (((result, None), progress), w')"
  shows "\<exists>d t0 m m'. fwNodes w path = Some (FileNode d t0 m) \<and> etContent t = plain d \<and>
    fwNodes w' path = Some (FileNode (with_endings d
       (applyEdit (plain d) found (preserveQuoteStyle (eiOldString input) found (eiNewString input)) (eiReplaceAll input)))
       (fwClock w) m')"
proof -
  let ?e = "the_os_env env"
  define w1 where "w1 = discoverSkillDirsForFile env ctx path w"
  have found: "skills_found w w1" by (simp add: w1_def discover_effect)
  define updated where "updated = applyEdit (etContent t) found (preserveQuoteStyle (eiOldString input) found (eiNewString input)) (eiReplaceAll input)"
  have t1: "readTextForEdit ?e path w1 = Inr t" using assms(4) skills_same(6)[OF found] by simp
  have v1: "validateFreshFullReadWithContent env path (etContent t) w1 = None" using assms(6) skills_same(8)[OF found] by simp
  obtain r w2 where wr: "then_os (os_MkdirAll ?e (Dir path) 493 w1) (writeNormalizedText ?e path updated (etCRLF t) (etMode t)) = (r, w2)"
    by fastforce
  have run: "(case r of Some e \<Rightarrow> call_err (os_message e) w2
      | None \<Rightarrow> call_ok (edit_result input found (etContent t) updated) (remember env path updated w2)) = (((result, None), progress), w')"
    using assms(8) t1 v1 assms(2,5,7) wr
    by (cases r) (simp_all add: callEdit_def assms(1) Let_def updated_def flip: w1_def assms(3)[unfolded write_path_def])
  then have r: "r = None" "w' = remember env path updated w2" by (auto simp: call_err_def call_ok_def split: option.splits)
  obtain d t0 m where d: "fwNodes w path = Some (FileNode d t0 m)" "etContent t = plain d"
      "etCRLF t = Contains (TrimPrefix d byte_order_mark) crlf_text"
    using text_for_edit(1,2)[OF assms(4)] assms(5) by fastforce
  from written(2)[OF found wr[unfolded normalized_write] r(1), of env updated] obtain v m' where
    "w' = remember env path updated v" "fwNodes v path = Some (FileNode (if etCRLF t then ReplaceAll updated [nl] crlf_text else updated) (fwClock w) m')"
    unfolding wrote_def r(2) by blast
  then have "fwNodes w' path = Some (FileNode (if etCRLF t then ReplaceAll updated [nl] crlf_text else updated) (fwClock w) m')"
    by (simp add: remember_effect)
  then show ?thesis using d by (auto simp: updated_def with_endings_def)
qed

section \<open>Concrete values for the witnesses\<close>

definition example_input_env :: input_env where
  "example_input_env =
     os_env.extend (schema_env.extend example_schema_env (os_env.fields (\<lambda>_ _. None) (\<lambda>m. m)))
       (input_env.fields (\<lambda>_. []) (\<lambda>_ _. True) (\<lambda>_. None) (\<lambda>s. s) (\<lambda>_. []) (\<lambda>_ _. Inr []) (\<lambda>_ _ _ _. Inl [])
          (\<lambda>_ _ _. []) (\<lambda>_. Inl []) (\<lambda>_. None) (\<lambda>_. []) (\<lambda>_. ''0123456789abcdef''))"

definition example_file_context :: "file_world Context" where
  "example_file_context =
     \<lparr>cxContext = None, cxWorkingDirectory = ''/w'', cxSessionID = ''s'', cxPermissions = None,
      cxMetadata = \<lparr>mdInternalPaths = None, mdMessages = None, mdModel = []\<rparr>\<rparr>"

definition example_files :: "string \<Rightarrow> node option" where
  "example_files = [''/'' \<mapsto> DirNode 0 493, ''/w'' \<mapsto> DirNode 0 493, ''/w/a'' \<mapsto> FileNode ''one two'' 5 420]"

definition example_world :: file_world where
  "example_world = \<lparr>fwNodes = example_files, fwClock = 9, fwReadState = Map.empty, fwInternal = None\<rparr>"

definition example_read :: raw_message where
  "example_read = \<lparr>raw_text = ''{}'', raw_value = Some (JObj [(''file_path'', JStr ''/w/a'')])\<rparr>"

definition example_seen :: ReadFileState where
  "example_seen = \<lparr>rfContent = ''one two'', rfTimestamp = 5, rfOffset = Some 1, rfLimit = None, rfPartialView = False\<rparr>"

definition after_read :: "file_world" where
  "after_read = (case callRead example_input_env example_file_context example_read example_world of Some (out, w) \<Rightarrow> w | None \<Rightarrow> example_world)"

definition example_write :: raw_message where
  "example_write = \<lparr>raw_text = ''{}'', raw_value = Some (JObj [(''file_path'', JStr ''/w/a''), (''content'', JStr ''three'')])\<rparr>"

lemma example_reads: "callRead example_input_env example_file_context example_read example_world \<noteq> None"
  by code_simp

lemma example_seen: "fwReadState after_read ''/w/a'' = Some example_seen"
  by code_simp

lemma example_writes:
  "fwNodes (snd (callWrite example_input_env example_file_context example_write after_read)) ''/w/a'' = Some (FileNode ''three'' 9 420)"
  by code_simp

lemma example_file_runs: "turn_run example_world [example_world, after_read] after_read"
proof -
  obtain out w where run: "callRead example_input_env example_file_context example_read example_world = Some (out, w)"
    using example_reads by auto
  then have "after_read = w" by (simp add: after_read_def)
  then have "turn_step example_world Reads after_read" using turn_step.reads[OF run] by simp
  from turn_run.step[OF turn_run.start this] show ?thesis by simp
qed

section \<open>Properties\<close>

text \<open>C12: What a turn can write over. However reads, changes by the tools and any changes by other programs
  follow each other, when Write, Edit or NotebookEdit changes or removes an existing file, then the file is the one
  at the tool's path, or it has the name of the temporary copy, which is not checked. The file at the path is
  changed only by an edit that makes a file (an empty \<open>old_string\<close>, which has no check), or when the turn
  remembers the whole of it: it has seen or written a version of the file in this run, and the data lost has
  the remembered text, or a modification time that is no later than that of the version seen. So a change by another
  program is lost unseen only if it left the file with an old or the same time.\<close>

theorem no_unseen_change_lost:
  assumes "fwReadState w0 = Map.empty" "turn_run w0 past w" "turn_step w (Changes path creates) w'"
    and "fwNodes w q = Some (FileNode d t m)" "fwNodes w' q \<noteq> fwNodes w q"
  shows "q = path \<and> (creates \<or>
           (\<exists>s v d0 m0. fwReadState w q = Some s \<and> fullRead s \<and> v \<in> set past \<and> fwNodes v q = Some (FileNode d0 (rfTimestamp s) m0) \<and>
              shows_text (rfContent s) d0 \<and> (rfContent s = plain d \<or> t \<le> rfTimestamp s))) \<or>
         q = path @ ''.tmp''"
  using change_seen[OF witnessed_run[OF assms(2,1)] assms(3,4,5)] unfolding seen_before_def .

lemma no_unseen_change_lost_witness:
  "\<exists>s v d0 m0. fwNodes (snd (callWrite example_input_env example_file_context example_write after_read)) ''/w/a'' = Some (FileNode ''three'' 9 420) \<and>
     fwReadState after_read ''/w/a'' = Some s \<and> fullRead s \<and> v \<in> {example_world, after_read} \<and>
     fwNodes v ''/w/a'' = Some (FileNode d0 (rfTimestamp s) m0) \<and> shows_text (rfContent s) d0"
proof -
  obtain out w' where w: "callWrite example_input_env example_file_context example_write after_read = (out, w')" by fastforce
  have input: "decodeWrite example_input_env example_write = Inr \<lparr>wiFilePath = ''/w/a'', wiContent = ''three''\<rparr>" by code_simp
  have path: "write_path example_input_env example_file_context ''/w/a'' = ''/w/a''" by code_simp
  have node: "fwNodes after_read ''/w/a'' = Some (FileNode ''one two'' 5 420)" by code_simp
  have after: "fwNodes w' ''/w/a'' = Some (FileNode ''three'' 9 420)" using example_writes w by simp
  have "turn_step after_read (Changes ''/w/a'' False) w'" using turn_step.writes[OF w input] path by simp
  moreover have "fwReadState example_world = Map.empty" by (simp add: example_world_def)
  ultimately have "\<exists>s v d0 m0. fwReadState after_read ''/w/a'' = Some s \<and> fullRead s \<and> v \<in> set [example_world, after_read] \<and>
      fwNodes v ''/w/a'' = Some (FileNode d0 (rfTimestamp s) m0) \<and> shows_text (rfContent s) d0"
    using no_unseen_change_lost[OF _ example_file_runs, of "''/w/a''" False w' "''/w/a''" "''one two''" 5 420] node after by auto
  with after w show ?thesis by auto
qed

text \<open>C13: Edit changes one place. When an edit of an existing file with an \<open>old_string\<close> that is not empty and valid
  UTF-8, not one of all occurrences, is accepted and then made, the text of the file, read with line endings
  \<open>\n\<close> and without a byte order mark, has the form \<open>before cut after\<close> and becomes \<open>before new after\<close>; it is
  written with \<open>\r\n\<close> at every line end if the file had one anywhere, and with \<open>\n\<close> otherwise (so an edit makes
  mixed line endings uniform). \<open>cut\<close> is a string that occurs once and is the \<open>old_string\<close> up to the style of its
  quotes, with the end of its line when the new text is empty, and \<open>new\<close> is the \<open>new_string\<close> in that style.\<close>

theorem edit_replaces_one:
  assumes "decodeEdit env raw = Inr input" "eiOldString input \<noteq> []" "utf8_Valid (eiOldString input)" "\<not> eiReplaceAll input"
    and "validateEdit env ctx raw w = None" "callEdit env ctx raw w = (((result, None), progress), w')"
    and "path = write_path env ctx (eiFilePath input)"
  shows "\<exists>d t m m' before cut after found new.
    fwNodes w path = Some (FileNode d t m) \<and> plain d = before @ cut @ after \<and> \<not> Contains (butlast (before @ cut)) cut \<and>
    Count (plain d) found = 1 \<and> normalizeQuotes found = normalizeQuotes (eiOldString input) \<and>
    new = preserveQuoteStyle (eiOldString input) found (eiNewString input) \<and> (cut = found \<or> new = [] \<and> cut = found @ [nl]) \<and>
    fwNodes w' path = Some (FileNode (with_endings d (before @ new @ after)) (fwClock w) m')"
proof -
  obtain t found where v: "readTextForEdit (the_os_env env) path w = Inr t" "etExisted t"
      "validateFreshFullReadWithContent env path (etContent t) w = None"
      "findActualString (etContent t) (eiOldString input) = Some found" "Count (etContent t) found \<le> 1"
    using validated_edit[OF assms(1,2,5,7)] assms(4) by blast
  from called_edit[OF assms(1,2,7) v(1-4) assms(6)] obtain d t0 m m' where d: "fwNodes w path = Some (FileNode d t0 m)"
      "etContent t = plain d"
      "fwNodes w' path = Some (FileNode (with_endings d
         (applyEdit (plain d) found (preserveQuoteStyle (eiOldString input) found (eiNewString input)) False)) (fwClock w) m')"
    using assms(4) by auto
  have f: "found \<noteq> []" "Contains (plain d) found" "normalizeQuotes found = normalizeQuotes (eiOldString input)"
    using findActualString_finds(2)[OF text_valid[OF v(1)] assms(3,2) v(4)] by (auto simp: d(2))
  have "Count (plain d) found = 1" using Count_zero[OF f(1), of "plain d"] f(2) v(5) by (simp add: d(2))
  moreover from applyEdit_once[OF f(2,1), of "preserveQuoteStyle (eiOldString input) found (eiNewString input)"]
  obtain before cut after where "plain d = before @ cut @ after"
      "applyEdit (plain d) found (preserveQuoteStyle (eiOldString input) found (eiNewString input)) False =
         before @ preserveQuoteStyle (eiOldString input) found (eiNewString input) @ after"
      "cut = found \<or> preserveQuoteStyle (eiOldString input) found (eiNewString input) = [] \<and> cut = found @ [nl]"
      "\<not> Contains (butlast (before @ cut)) cut" by blast
  ultimately show ?thesis using d f(3) by metis
qed

definition example_edit :: "string \<Rightarrow> string \<Rightarrow> bool \<Rightarrow> raw_message" where
  "example_edit old new all =
     \<lparr>raw_text = ''{}'', raw_value = Some (JObj [(''file_path'', JStr ''/w/a''), (''new_string'', JStr new),
        (''old_string'', JStr old), (''replace_all'', JBool all)])\<rparr>"

lemma edit_replaces_one_witness:
  "\<exists>before cut after found. plain ''one two'' = before @ cut @ after \<and> Count (plain ''one two'') found = 1 \<and>
     normalizeQuotes found = normalizeQuotes ''two'' \<and>
     fwNodes (snd (callEdit example_input_env example_file_context (example_edit ''two'' ''2'' False) after_read)) ''/w/a'' =
       Some (FileNode ''one 2'' 9 420)"
proof -
  let ?raw = "example_edit ''two'' ''2'' False"
  have input: "decodeEdit example_input_env ?raw =
      Inr \<lparr>eiFilePath = ''/w/a'', eiOldString = ''two'', eiNewString = ''2'', eiReplaceAll = False\<rparr>" by code_simp
  have ok: "validateEdit example_input_env example_file_context ?raw after_read = None" by code_simp
  have err: "snd (fst (fst (callEdit example_input_env example_file_context ?raw after_read))) = None" by code_simp
  have new: "fwNodes (snd (callEdit example_input_env example_file_context ?raw after_read)) ''/w/a'' = Some (FileNode ''one 2'' 9 420)"
    by code_simp
  obtain result progress w' where run: "callEdit example_input_env example_file_context ?raw after_read = (((result, None), progress), w')"
    using err by (metis prod.collapse)
  have path: "''/w/a'' = write_path example_input_env example_file_context ''/w/a''" by code_simp
  have valid: "utf8_Valid ''two''" by code_simp
  have node: "fwNodes after_read ''/w/a'' = Some (FileNode ''one two'' 5 420)" by code_simp
  from edit_replaces_one[OF input, of example_file_context after_read result progress w' "''/w/a''"] ok run path valid
  obtain d t m before cut after found where "fwNodes after_read ''/w/a'' = Some (FileNode d t m)" "plain d = before @ cut @ after"
      "Count (plain d) found = 1" "normalizeQuotes found = normalizeQuotes ''two''" by auto
  then show ?thesis using node new by auto
qed

text \<open>C26: The diff that a result carries is right in both directions: its hunk, read as a client reads it, takes
  the lines of the old text to those of the new one, and back; texts with the same lines have no hunk.\<close>

theorem diff_applies:
  "foldl (\<lambda>lines h. patched h lines) (diffLines oldText) (Hunks (buildTextDiff path oldText newText)) = diffLines newText \<and>
   foldl (\<lambda>lines h. reverted h lines) (diffLines newText) (Hunks (buildTextDiff path oldText newText)) = diffLines oldText \<and>
   (Hunks (buildTextDiff path oldText newText) = [] \<longleftrightarrow> diffLines oldText = diffLines newText)"
  using diff_patches by (simp add: buildTextDiff_def Let_def)

text \<open>C14: The executor does not write over a file that was not read: an execution of Write on an existing file
  that the turn has not read ends with an error result before any hook has run, and changes nothing.\<close>

theorem unread_file_not_written:
  assumes "cxContext ctx = None" "exRegistry e = Some registry"
    and "Lookup (sysEnv sys) registry (useName use) = Some (func_tool senv (NewWriteTool env))"
    and "decodeWrite env (normalizeRawInput (useInput use)) = Inr input"
    and "fwNodes w (write_path env ctx (wiFilePath input)) = Some (FileNode d t m)"
    and "fwReadState w (write_path env ctx (wiFilePath input)) = None"
  shows "\<exists>err es. Execute sys e ctx use w = (fail use err, es, w) \<and> calls es = []"
proof -
  let ?raw = "normalizeRawInput (useInput use)"
  obtain err where bad: "validateWrite env ctx ?raw w = Some err"
    using unread_refused[OF assms(4,6,5) refl] by blast
  have norm: "normalizeRawInput ?raw = ?raw" by (simp add: normalizeRawInput_def)
  have "\<exists>err. toolValidate (func_tool senv (NewWriteTool env)) ctx ?raw w = (Some err, w)"
    using bad by (cases "ValidateSchema senv (validationSchema (NewWriteTool env) ctx) ?raw")
      (simp_all add: func_tool_def fn_Validate_def normalizeInput_def NewWriteTool_def file_func_tool_def norm)
  then show ?thesis using refused_at_validation[OF assms(1-3)] by blast
qed

definition example_write_tool :: "file_world Tool" where
  "example_write_tool = func_tool example_schema_env (NewWriteTool example_input_env)"

definition example_file_registry :: "file_world Registry" where
  "example_file_registry = (case NewRegistry example_env [Some example_write_tool] of Inr r \<Rightarrow> r | Inl _ \<Rightarrow> empty_registry)"

definition example_file_system :: "file_world system" where
  "example_file_system = \<lparr>sysEnv = example_env, sysNewID = (\<lambda>w. (''id'', w)), sysWriteFile = (\<lambda>_ _ w. w)\<rparr>"

definition example_file_executor :: "file_world Executor" where
  "example_file_executor = \<lparr>exRegistry = Some example_file_registry, exResultStoreDir = [], exHooks = []\<rparr>"

definition example_write_use :: ToolUse where
  "example_write_use = \<lparr>useID = ''u1'', useName = ''Write'', useInput = example_write\<rparr>"

lemma example_write_names:
  "normalizeName example_env (TrimSpace ''Write'') = ''write''" "normalizeName example_env ''Write'' = ''write''" "TrimSpace ''Write'' = ''Write''"
  by code_simp+

lemma example_write_tool_names [simp]: "toolName example_write_tool = ''Write''" "toolAliases example_write_tool = []"
  by (simp_all add: example_write_tool_def func_tool_def NewWriteTool_def file_func_tool_def file_tool_definition_def)

lemma example_write_lookup: "Lookup example_env example_file_registry ''Write'' = Some example_write_tool"
  by (simp add: example_file_registry_def NewRegistry_def empty_registry_def Register_def Let_def example_write_names Lookup_def)

lemma unread_file_not_written_witness:
  "\<exists>err es. Execute example_file_system example_file_executor example_file_context example_write_use example_world =
     (fail example_write_use err, es, example_world) \<and> calls es = []"
proof -
  have raw: "normalizeRawInput example_write = example_write" by (simp add: normalizeRawInput_def example_write_def)
  have input: "decodeWrite example_input_env example_write = Inr \<lparr>wiFilePath = ''/w/a'', wiContent = ''three''\<rparr>" by code_simp
  have path: "write_path example_input_env example_file_context ''/w/a'' = ''/w/a''" by code_simp
  have node: "fwNodes example_world ''/w/a'' = Some (FileNode ''one two'' 5 420)" by (simp add: example_world_def example_files_def)
  show ?thesis
    by (rule unread_file_not_written[where registry = example_file_registry and senv = example_schema_env and env = example_input_env
          and input = "\<lparr>wiFilePath = ''/w/a'', wiContent = ''three''\<rparr>" and d = "''one two''" and t = 5 and m = 420])
      (simp_all add: example_file_context_def example_file_executor_def example_file_system_def example_write_use_def raw
        example_write_lookup[unfolded example_write_tool_def] input path[unfolded example_file_context_def] node[simplified]
        example_world_def example_files_def)
qed

text \<open>C28: Read shows a file in windows that fit together: the first \<open>k\<close> lines and the rest of the lines from
  \<open>k + 1\<close> on are the whole text, and each window says how many lines it has and how many there are.\<close>

theorem windows_make_the_file:
  assumes "content \<noteq> []" "lines = Split (ReplaceAll content crlf_text [nl]) nl"
    and "0 < k" "k < length lines" "length lines < 2 ^ 62"
  shows "\<exists>a b. selectedLines content 1 (Some (int k)) = Some (a, k, length lines) \<and>
    selectedLines content (int k + 1) None = Some (b, length lines - k, length lines) \<and>
    a @ [nl] @ b = ReplaceAll content crlf_text [nl]"
proof -
  have w: "wrap64 (int k) = int k" using assms(4,5) by (simp add: wrap64_def)
  have "selectedLines content 1 (Some (int k)) = Some (Join (take k lines) [nl], k, length lines)"
    using assms w by (simp add: selectedLines_def Let_def)
  moreover have "selectedLines content (int k + 1) None = Some (Join (drop k lines) [nl], length lines - k, length lines)"
    using assms by (simp add: selectedLines_def Let_def)
  moreover have "Join (take k lines) [nl] @ [nl] @ Join (drop k lines) [nl] = Join lines [nl]"
  proof -
    have "take k lines \<noteq> []" "drop k lines \<noteq> []" using assms(3,4) by auto
    then show ?thesis using Join_append[of "take k lines" "drop k lines" "[nl]"] by simp
  qed
  ultimately show ?thesis using Join_Split[of "ReplaceAll content crlf_text [nl]" nl] assms(2) by auto
qed

lemma windows_make_the_file_witness:
  "\<exists>a b. selectedLines [CHR ''x'', nl, CHR ''y''] 1 (Some 1) = Some (a, 1, 2) \<and>
     selectedLines [CHR ''x'', nl, CHR ''y''] 2 None = Some (b, 1, 2) \<and> a @ [nl] @ b = [CHR ''x'', nl, CHR ''y'']"
proof -
  let ?s = "[CHR ''x'', nl, CHR ''y'']"
  have "ReplaceAll ?s crlf_text [nl] = ?s" "[''x'', ''y''] = Split ?s nl" by code_simp+
  then show ?thesis using windows_make_the_file[of ?s "[''x'', ''y'']" 1] by (simp add: numeral_2_eq_2[symmetric])
qed

text \<open>Where Read panics. For an offset and a limit that the validation accepts, the window is cut out of the
  text in bounds, unless their sum overflows 64 bits and the offset is in the file: then the end of the window
  is before its start, and the program stops.\<close>

theorem read_panics_at_overflow:
  assumes "0 \<le> offset" "offset < 2 ^ 63" "0 < limit" "limit < 2 ^ 63"
    and "lines = Split (ReplaceAll content crlf_text [nl]) nl" "length lines < 2 ^ 63"
  shows "selectedLines content offset (Some limit) = None \<longleftrightarrow>
    content \<noteq> [] \<and> 1 < offset \<and> offset - 1 < int (length lines) \<and> 2 ^ 63 \<le> offset - 1 + limit"
proof (cases "content = [] \<or> (offset > 1 \<and> length lines \<le> nat (offset - 1))")
  case True
  then show ?thesis using assms(1,5) by (auto simp: selectedLines_def Let_def)
next
  case False
  define start where "start = (if offset > 1 then nat (offset - 1) else 0)"
  have bounds: "0 \<le> int start" "int start < 2 ^ 63 - 1" using assms(2) by (auto simp: start_def)
  have within: "start < length lines" using False assms(5) by (auto simp: start_def)
  have wrap: "wrap64 (int start + limit) = (if int start + limit < 2 ^ 63 then int start + limit else int start + limit - 2 ^ 64)"
    using bounds assms(3,4) by (simp add: wrap64_def) (simp add: mod_pos_pos_trivial minus_mod_self2[symmetric, of "int start + limit + _"])
  have "selectedLines content offset (Some limit) = None \<longleftrightarrow>
      (if wrap64 (int start + limit) < int (length lines) then wrap64 (int start + limit) else int (length lines)) < int start"
    using False within assms(5) by (auto simp: selectedLines_def Let_def start_def)
  also have "\<dots> \<longleftrightarrow> 2 ^ 63 \<le> int start + limit"
    using wrap bounds within assms(3,4,6) by auto
  also have "\<dots> \<longleftrightarrow> content \<noteq> [] \<and> 1 < offset \<and> offset - 1 < int (length lines) \<and> 2 ^ 63 \<le> offset - 1 + limit"
    using False within assms(1,4) by (auto simp: start_def)
  finally show ?thesis .
qed

lemma read_panics_at_overflow_witness: "selectedLines [CHR ''x'', nl, CHR ''y''] 2 (Some 9223372036854775807) = None"
proof -
  let ?s = "[CHR ''x'', nl, CHR ''y'']"
  have lines: "Split (ReplaceAll ?s crlf_text [nl]) nl = [''x'', ''y'']" by code_simp
  show ?thesis using read_panics_at_overflow[of 2 9223372036854775807 "[''x'', ''y'']" ?s] by (simp add: lines)
qed

text \<open>C27: A change that fails has changed nothing: when a call of Write, Edit or NotebookEdit gives an error,
  every file is as it was, but for the one at the name of the call's own temporary copy, which is the path of its
  input with \<open>.tmp\<close>.\<close>

theorem failed_change_keeps_files:
  assumes "callWrite env ctx raw w = (out, w') \<and> (\<forall>input. decodeWrite env raw = Inr input \<longrightarrow> p = write_path env ctx (wiFilePath input)) \<or>
      callEdit env ctx raw w = (out, w') \<and> (\<forall>input. decodeEdit env raw = Inr input \<longrightarrow> p = write_path env ctx (eiFilePath input)) \<or>
      callNotebookEdit env ctx raw w = (out, w') \<and>
        (\<forall>input. decodeNotebookEdit env raw = Inr input \<longrightarrow> p = write_path env ctx (niNotebookPath input))"
    and "snd (fst out) \<noteq> None" "fwNodes w q = Some n"
  shows "fwNodes w' q = Some n \<or> q = p @ ''.tmp''"
proof (cases "w' = w")
  case False
  then obtain creates where "file_call env p creates out w w'"
    using assms(1) callWrite_effect callEdit_effect callNotebookEdit_effect by metis
  then obtain i where "grown {temporary p} (w\<lparr>fwInternal := i\<rparr>) w'"
    using assms(2) by (auto simp: file_call_def call_failed_def left_alone_def)
  from grown_file[OF this, of q n] show ?thesis using assms(3) by auto
qed (use assms(3) in simp)

lemma failed_change_keeps_files_witness:
  "snd (fst (fst (callWrite example_input_env example_file_context example_write example_world))) \<noteq> None \<and>
   fwNodes (snd (callWrite example_input_env example_file_context example_write example_world)) ''/w/a'' = Some (FileNode ''one two'' 5 420)"
proof -
  obtain out w' where run: "callWrite example_input_env example_file_context example_write example_world = (out, w')" by fastforce
  have "snd (fst (fst (callWrite example_input_env example_file_context example_write example_world))) \<noteq> None" by code_simp
  then have err: "snd (fst out) \<noteq> None" using run by simp
  have input: "decodeWrite example_input_env example_write = Inr \<lparr>wiFilePath = ''/w/a'', wiContent = ''three''\<rparr>" by code_simp
  have path: "''/w/a'' = write_path example_input_env example_file_context ''/w/a''" by code_simp
  have node: "fwNodes example_world ''/w/a'' = Some (FileNode ''one two'' 5 420)" by code_simp
  have "callWrite example_input_env example_file_context example_write example_world = (out, w') \<and>
      (\<forall>input. decodeWrite example_input_env example_write = Inr input \<longrightarrow> ''/w/a'' = write_path example_input_env example_file_context (wiFilePath input))"
    using run input path by simp
  from failed_change_keeps_files[OF disjI1[OF this] err node] run err show ?thesis by simp
qed

section \<open>What the model showed\<close>

text \<open>Deleting all occurrences of a string deletes, when one of them is at the end of its line, only those
  that are; the result says that all were replaced.\<close>

lemma replace_all_leaves_some:
  "applyEdit [CHR ''a'', nl, CHR ''a'', CHR ''b''] ''a'' [] True = ''ab''"
  by code_simp

text \<open>A change at a path removes the file at the name of its temporary copy, whatever it is.\<close>

definition world_with_temporary :: file_world where
  "world_with_temporary = example_world\<lparr>fwNodes := example_files(''/w/b.tmp'' \<mapsto> FileNode ''precious'' 5 420)\<rparr>"

definition write_new :: raw_message where
  "write_new = \<lparr>raw_text = ''{}'', raw_value = Some (JObj [(''file_path'', JStr ''/w/b''), (''content'', JStr ''x'')])\<rparr>"

lemma temporary_name_destroyed:
  "fwNodes world_with_temporary ''/w/b.tmp'' = Some (FileNode ''precious'' 5 420)"
  "validateWrite example_input_env example_file_context write_new world_with_temporary = None"
  "fwNodes (snd (callWrite example_input_env example_file_context write_new world_with_temporary)) ''/w/b.tmp'' = None"
  by code_simp+

text \<open>A change by another program that leaves the file an old time is written over, although the text is not the one
  that was read.\<close>

definition changed_behind :: file_world where
  "changed_behind = after_read\<lparr>fwNodes := example_files(''/w/a'' \<mapsto> FileNode ''their work'' 3 420)\<rparr>"

lemma old_time_change_lost:
  "outside_step after_read changed_behind"
  "validateWrite example_input_env example_file_context example_write changed_behind = None"
  "fwNodes (snd (callWrite example_input_env example_file_context example_write changed_behind)) ''/w/a'' = Some (FileNode ''three'' 9 420)"
  by (simp add: outside_step_def changed_behind_def) code_simp+

text \<open>The call of an edit with an empty \<open>old_string\<close> writes over a file that has come to be since its validation.\<close>

lemma creating_edit_unchecked:
  "fwReadState example_world = Map.empty"
  "fwNodes (snd (callEdit example_input_env example_file_context (example_edit [] ''mine'' False) example_world)) ''/w/a'' =
     Some (FileNode ''mine'' 9 420)"
  by (simp add: example_world_def) code_simp

text \<open>Reading from offset 0 numbers the first line 0, and does not count as reading the file.\<close>

lemma offset_zero_numbers_from_zero: "addLineNumbers ''a'' 0 = ''0'' @ [tab] @ ''a''"
  by code_simp

text \<open>In a file with line endings \<open>\r\n\<close>, a new text that has them itself gets \<open>\r\r\n\<close>.\<close>

lemma crlf_doubled: "ReplaceAll (crlf_text) [nl] crlf_text = [cr, cr, nl]"
  by code_simp

text \<open>The check of a page range makes the list of all its pages.\<close>

lemma page_range_unbounded:
  "append_range [] 1 (2 ^ 63 - 1) 0 = None"
  "append_range [] 1 100 0 = Some (Inr [1..100])"
  by (simp add: append_range_def) code_simp

end
