(* ===== verification/HookConfig.thy ===== *)
theory HookConfig
  imports FileText ToolExec Prompts
begin

text \<open>
  The hooks of the settings, \<open>internal/hooks/command.go\<close>, first part: reading the hooks out of the settings,
  which calls a hook is for, which URLs it may post to and what of the environment it may send.

  The settings are decoded JSON (\<open>goany\<close>). Numbers, durations and regular expressions are the
  environment's, as are the variables of the process.
\<close>

record hook_env = schema_env +
  seconds_duration :: "rat \<Rightarrow> int"
  parse_seconds :: "string \<Rightarrow> rat option"
  get_variable :: "string \<Rightarrow> string"
  json_object :: "string \<Rightarrow> go_map option"
  print_object :: "go_map \<Rightarrow> string option"

definition hook_go_env :: "hook_env \<Rightarrow> go_env" where
  "hook_go_env env = go_env.truncate env"

record CommandHook =
  chPhase :: string
  chMatcher :: string
  chIf :: string
  chCommand :: string
  chShell :: string
  chStatusMessage :: string
  chTimeout :: int
  chRunInBackground :: bool

record HTTPHook =
  hhPhase :: string
  hhMatcher :: string
  hhIf :: string
  hhURL :: string
  hhHeaders :: "(string \<times> string) list"
  hhAllowedEnvVars :: "string list"
  hhStatusMessage :: string
  hhTimeout :: int
  hhAllowedURLPatterns :: "string list"
  hhPolicyAllowedEnvVars :: "string list"

datatype configured_hook = ACommand CommandHook | AnHTTP HTTPHook

record hook_options =
  AllowedHTTPHookURLs :: "string list"
  HTTPHookAllowedEnvVars :: "string list"

text \<open>Ten minutes, in nanoseconds.\<close>

definition default_hook_timeout :: int where
  "default_hook_timeout = 600000000000"

section \<open>Fields\<close>

fun hook_string :: "go_map \<Rightarrow> string list \<Rightarrow> string" where
  "hook_string object [] = []"
| "hook_string object (name # names) =
     (case field object name of AnyString value \<Rightarrow> TrimSpace value | _ \<Rightarrow> hook_string object names)"

text \<open>A map of strings, in the order of the settings; a later key that is the same after trimming replaces the
  value of an earlier one (Go's order of a map is its own).\<close>

definition hook_string_map :: "go_map \<Rightarrow> string \<Rightarrow> (string \<times> string) list" where
  "hook_string_map object name =
     (case field object name of
        AnyMap raw \<Rightarrow>
          foldl (\<lambda>out (key, value). case value of
              AnyString text \<Rightarrow> if TrimSpace key \<noteq> [] then AList.update (TrimSpace key) text out else out
            | _ \<Rightarrow> out) [] raw
      | _ \<Rightarrow> [])"

definition trimmed_items :: "string list \<Rightarrow> string list" where
  "trimmed_items items = filter (\<lambda>item. item \<noteq> []) (map TrimSpace items)"

fun hook_string_list :: "go_map \<Rightarrow> string list \<Rightarrow> string list" where
  "hook_string_list object [] = []"
| "hook_string_list object (name # names) =
     (case field object name of
        AnySlice items \<Rightarrow> trimmed_items (any_strings items)
      | AnyStrings items \<Rightarrow> trimmed_items items
      | _ \<Rightarrow> hook_string_list object names)"

fun hook_bool :: "hook_env \<Rightarrow> go_map \<Rightarrow> string list \<Rightarrow> bool" where
  "hook_bool env object [] = False"
| "hook_bool env object (name # names) =
     (case field object name of
        AnyBool b \<Rightarrow> b
      | AnyString s \<Rightarrow>
          let word = ToLower (hook_go_env env) (TrimSpace s)
          in if word \<in> {''true'', ''1'', ''yes'', ''on''} then True
             else if word \<in> {''false'', ''0'', ''no'', ''off''} then False
             else hook_bool env object names
      | AnyNumber r \<Rightarrow> r \<noteq> 0
      | AnyInt i \<Rightarrow> i \<noteq> 0
      | _ \<Rightarrow> hook_bool env object names)"

text \<open>A duration in nanoseconds. The product of whole seconds wraps around.\<close>

definition durationSeconds :: "hook_env \<Rightarrow> goany \<Rightarrow> int" where
  "durationSeconds env raw =
     (case raw of
        AnyNumber r \<Rightarrow> if r > 0 then seconds_duration env r else 0
      | AnyInt i \<Rightarrow> if i > 0 then wrap64 (i * 1000000000) else 0
      | AnyString s \<Rightarrow>
          if TrimSpace s = [] then 0
          else (case parse_seconds env (TrimSpace s) of Some r \<Rightarrow> if r > 0 then seconds_duration env r else 0 | None \<Rightarrow> 0)
      | _ \<Rightarrow> 0)"

definition hook_timeout :: "hook_env \<Rightarrow> go_map \<Rightarrow> int" where
  "hook_timeout env value =
     (let timeout = durationSeconds env (field value ''timeout'') in if timeout \<le> 0 then default_hook_timeout else timeout)"

section \<open>Reading the settings\<close>

definition httpHookFromRaw :: "hook_env \<Rightarrow> string \<Rightarrow> string \<Rightarrow> goany \<Rightarrow> hook_options \<Rightarrow> HTTPHook option" where
  "httpHookFromRaw env phase matcher raw options =
     (case raw of
        AnyMap value \<Rightarrow>
          let hookType = TrimSpace (hook_string value [''type'']); url = TrimSpace (hook_string value [''url''])
          in if url = [] \<or> hookType \<noteq> ''http'' then None
             else Some \<lparr>hhPhase = phase, hhMatcher = matcher, hhIf = hook_string value [''if''], hhURL = url,
                       hhHeaders = hook_string_map value ''headers'',
                       hhAllowedEnvVars = hook_string_list value [''allowedEnvVars'', ''allowed_env_vars''],
                       hhStatusMessage = hook_string value [''statusMessage'', ''status_message''],
                       hhTimeout = hook_timeout env value, hhAllowedURLPatterns = AllowedHTTPHookURLs options,
                       hhPolicyAllowedEnvVars = HTTPHookAllowedEnvVars options\<rparr>
      | _ \<Rightarrow> None)"

definition commandHookFromRaw :: "hook_env \<Rightarrow> string \<Rightarrow> string \<Rightarrow> goany \<Rightarrow> CommandHook option" where
  "commandHookFromRaw env phase matcher raw =
     (case raw of
        AnyString value \<Rightarrow>
          if TrimSpace value = [] then None
          else Some \<lparr>chPhase = phase, chMatcher = matcher, chIf = [], chCommand = TrimSpace value, chShell = [],
                     chStatusMessage = [], chTimeout = default_hook_timeout, chRunInBackground = False\<rparr>
      | AnyMap value \<Rightarrow>
          let hookType = TrimSpace (hook_string value [''type'']); command = TrimSpace (hook_string value [''command''])
          in if command = [] \<or> (hookType \<noteq> [] \<and> hookType \<noteq> ''command'') then None
             else Some \<lparr>chPhase = phase, chMatcher = matcher, chIf = hook_string value [''if''], chCommand = command,
                       chShell = hook_string value [''shell''],
                       chStatusMessage = hook_string value [''statusMessage'', ''status_message''],
                       chTimeout = hook_timeout env value,
                       chRunInBackground = hook_bool env value [''runInBackground'', ''run_in_background'']\<rparr>
      | _ \<Rightarrow> None)"

fun hookSpecs :: "goany \<Rightarrow> goany list" where
  "hookSpecs (AnySlice items) = concat (map hookSpecs items)"
| "hookSpecs AnyNil = []"
| "hookSpecs value = [value]"

definition hooksFromMatcher :: "hook_env \<Rightarrow> string \<Rightarrow> string \<times> goany \<Rightarrow> hook_options \<Rightarrow> configured_hook list" where
  "hooksFromMatcher env phase matcher options =
     List.map_filter (\<lambda>raw. case commandHookFromRaw env phase (fst matcher) raw of
          Some hook \<Rightarrow> Some (ACommand hook)
        | None \<Rightarrow> map_option AnHTTP (httpHookFromRaw env phase (fst matcher) raw options))
       (hookSpecs (snd matcher))"

text \<open>The matchers of a phase, each with its hooks.\<close>

fun hookMatchers :: "goany \<Rightarrow> (string \<times> goany) list" where
  "hookMatchers (AnySlice items) = concat (map hookMatchers items)"
| "hookMatchers (AnyMap value) =
     (if has_key value ''hooks'' then [(hook_string value [''matcher''], field value ''hooks'')] else [([], AnyMap value)])"
| "hookMatchers (AnyString s) = [([], AnyString s)]"
| "hookMatchers _ = []"

definition configured_for_phase :: "hook_env \<Rightarrow> string \<Rightarrow> goany \<Rightarrow> hook_options \<Rightarrow> configured_hook list" where
  "configured_for_phase env phase raw options =
     concat (map (\<lambda>matcher. hooksFromMatcher env phase matcher options) (hookMatchers raw))"

definition FromRaw :: "hook_env \<Rightarrow> go_map \<Rightarrow> hook_options \<Rightarrow> configured_hook list" where
  "FromRaw env raw options =
     concat (map (\<lambda>(phase, value). if TrimSpace phase = [] then [] else configured_for_phase env (TrimSpace phase) value options) raw)"

record hook_settings =
  hsDisableAllHooks :: "bool option"
  hsAllowManagedHooksOnly :: "bool option"
  hsHooks :: go_map
  hsOptions :: hook_options

definition FromSettings :: "hook_env \<Rightarrow> hook_settings \<Rightarrow> configured_hook list" where
  "FromSettings env settings =
     (if hsDisableAllHooks settings = Some True then []
      else if hsAllowManagedHooksOnly settings = Some True then []
      else FromRaw env (hsHooks settings) (hsOptions settings))"

section \<open>Which calls a hook is for\<close>

definition simple_matcher_char :: "char \<Rightarrow> bool" where
  "simple_matcher_char r = (is_alpha r \<or> is_digit r \<or> r = CHR ''_'' \<or> r = CHR ''|'')"

definition simpleHookMatcher :: "string \<Rightarrow> bool" where
  "simpleHookMatcher matcher = list_all simple_matcher_char matcher"

definition matchesPattern :: "hook_env \<Rightarrow> string \<Rightarrow> string \<Rightarrow> bool" where
  "matchesPattern env matchQuery0 matcher0 =
     (let matcher = TrimSpace matcher0; matchQuery = TrimSpace matchQuery0
      in if matcher = [] \<or> matcher = ''*'' then True
         else if simpleHookMatcher matcher
         then list_ex (\<lambda>item. EqualFold (hook_go_env env) (TrimSpace item) matchQuery) (Split matcher (CHR ''|''))
         else case regexp_compile env matcher of Inl err \<Rightarrow> False | Inr matches \<Rightarrow> matches matchQuery)"

definition hook_request :: "HookEvent \<Rightarrow> string \<Rightarrow> Request" where
  "hook_request event cwd =
     \<lparr>reqToolUseID = [], reqToolName = evToolName event, reqInput = evInput event,
      reqCommand = firstInputString (evInput event) [''command'', ''cmd''],
      reqPath = firstInputString (evInput event) [''file_path'', ''notebook_path'', ''path''],
      reqWorkingDirectory = cwd, reqReadOnly = False, reqWritesFiles = False, reqDestructive = False,
      reqDangerouslyDisableSandbox = False, reqInternalPaths = no_internal_paths\<rparr>"

definition matchesIf :: "hook_env \<Rightarrow> string \<Rightarrow> HookEvent \<Rightarrow> string \<Rightarrow> bool" where
  "matchesIf env condition event cwd =
     (if TrimSpace condition = [] then True
      else case ParseRule ''userSettings'' PermissionAllow condition of
             Inr rule \<Rightarrow> Rule_Matches (hook_go_env env) rule (hook_request event cwd)
           | Inl err \<Rightarrow> matchesPattern env (evToolName event) condition)"

text \<open>A call that is not for the hook: of another phase, of another tool, or one its condition does not accept.\<close>

definition hook_applies :: "hook_env \<Rightarrow> string \<Rightarrow> string \<Rightarrow> string \<Rightarrow> HookEvent \<Rightarrow> string \<Rightarrow> bool" where
  "hook_applies env phase matcher condition event cwd =
     (evPhase event = phase \<and> matchesPattern env (evToolName event) matcher \<and> matchesIf env condition event cwd)"

section \<open>URLs and headers\<close>

text \<open>The regular expression of a URL pattern: the pattern with \<open>.*\<close> for a star, which matches anything but a
  line feed.\<close>

fun glob_match :: "string \<Rightarrow> string \<Rightarrow> bool" where
  "glob_match [] s = (s = [])"
| "glob_match (c # pattern) s =
     (if c = CHR ''*''
      then glob_match pattern s \<or> (case s of [] \<Rightarrow> False | d # ds \<Rightarrow> d \<noteq> Prelude.nl \<and> glob_match (c # pattern) ds)
      else case s of [] \<Rightarrow> False | d # ds \<Rightarrow> d = c \<and> glob_match pattern ds)"

definition urlMatchesPattern :: "string \<Rightarrow> string \<Rightarrow> bool" where
  "urlMatchesPattern rawURL pattern = (TrimSpace pattern \<noteq> [] \<and> glob_match (TrimSpace pattern) rawURL)"

definition urlMatchesAnyPattern :: "string \<Rightarrow> string list \<Rightarrow> bool" where
  "urlMatchesAnyPattern rawURL patterns = list_ex (urlMatchesPattern rawURL) patterns"

text \<open>A reference \<open>${NAME}\<close> or \<open>$NAME\<close> at the front of a text, its name and what follows.\<close>

definition name_start :: "char \<Rightarrow> bool" where "name_start c = (is_upper c \<or> c = CHR ''_'')"
definition name_char :: "char \<Rightarrow> bool" where "name_char c = (is_upper c \<or> is_digit c \<or> c = CHR ''_'')"

definition take_name :: "string \<Rightarrow> (string \<times> string) option" where
  "take_name s =
     (case s of
        c # cs \<Rightarrow> if name_start c then Some (c # takeWhile name_char cs, dropWhile name_char cs) else None
      | [] \<Rightarrow> None)"

definition variable_reference :: "string \<Rightarrow> (string \<times> string) option" where
  "variable_reference s =
     (case s of
        c # cs \<Rightarrow>
          if c \<noteq> CHR ''$'' then None
          else if HasPrefix cs ''{''
          then (case take_name (drop 1 cs) of
                  Some (name, rest) \<Rightarrow> if HasPrefix rest ''}'' then Some (name, drop 1 rest) else None
                | None \<Rightarrow> None)
          else take_name cs
      | [] \<Rightarrow> None)"

definition allowed_variables :: "HTTPHook \<Rightarrow> string list" where
  "allowed_variables h =
     (let policy = trimmed_items (hhPolicyAllowedEnvVars h)
      in filter (\<lambda>name. policy = [] \<or> name \<in> set policy) (trimmed_items (hhAllowedEnvVars h)))"

definition replaced_reference :: "hook_env \<Rightarrow> HTTPHook \<Rightarrow> string \<Rightarrow> (string \<times> string) option" where
  "replaced_reference env h s =
     map_option (\<lambda>(name, rest). (if name \<in> set (allowed_variables h) then get_variable env name else [], rest)) (variable_reference s)"

text \<open>\<open>strings.Map\<close> goes over the runes: what is no UTF-8 becomes the error rune.\<close>

definition header_text :: "string \<Rightarrow> string" where
  "header_text s = concat (filter (\<lambda>r. r \<notin> {[cr], [Prelude.nl], [nul]}) (rune_strings s))"

definition interpolateHeader :: "hook_env \<Rightarrow> HTTPHook \<Rightarrow> string \<Rightarrow> string" where
  "interpolateHeader env h value = header_text (substitute (replaced_reference env h) value)"

end
