(* ===== verification/HookRunner.thy ===== *)
theory HookRunner
  imports HookConfig ConvHooks
begin

text \<open>
  The hooks of the settings, \<open>internal/hooks/command.go\<close>, second part: what a hook is given, how its command
  or its request is run, and what its output means.

  Processes and HTTP are services: \<open>run_process\<close> runs a command to its end or to its timeout,
  \<open>start_process\<close> starts one that goes on by itself, \<open>post_http\<close> is one exchange with its redirects.
  \<open>session_path\<close> reads the path of the transcript from the metadata, and \<open>event_payload\<close> the payload of a
  conversation's event, which is empty for the event of a tool.
\<close>

section \<open>Services\<close>

datatype payload_value = PAny goany | PRaw raw_message | PDecision PermissionDecision | PResult ToolResult

record run_env = hook_env +
  session_path :: "Metadata \<Rightarrow> string"
  event_payload :: "HookEvent \<Rightarrow> (string \<times> goany) list"
  marshal_payload :: "(string \<times> payload_value) list \<Rightarrow> string + string"
  marshal_object :: "go_map \<Rightarrow> raw_message option"
  duration_text :: "int \<Rightarrow> string"
  on_windows :: bool

definition run_hook_env :: "run_env \<Rightarrow> hook_env" where
  "run_hook_env env = hook_env.truncate env"

record process_run =
  prArgs :: "string list"
  prDir :: string
  prVariables :: "string list"
  prStdin :: string
  prTimeout :: int

datatype process_end =
  TimedOut
| Exited string string int
| NotRun string

record http_request =
  htURL :: string
  htHeaders :: "(string \<times> string) list"
  htBody :: string
  htTimeout :: int

datatype http_reply =
  NoReply string
| BrokenReply int string
| Reply int string

record 'w hook_services =
  hsEnv :: run_env
  run_process :: "'w Context \<Rightarrow> process_run \<Rightarrow> 'w \<Rightarrow> process_end \<times> 'w"
  start_process :: "'w Context \<Rightarrow> process_run \<Rightarrow> 'w \<Rightarrow> (string + int) \<times> 'w"
  post_http :: "'w Context \<Rightarrow> http_request \<Rightarrow> 'w \<Rightarrow> http_reply \<times> 'w"

section \<open>The input\<close>

definition payload_entries :: "run_env \<Rightarrow> 'w Context \<Rightarrow> HookEvent \<Rightarrow> (string \<times> payload_value) list" where
  "payload_entries env ctx event =
     [(''session_id'', PAny (AnyString (cxSessionID ctx))),
      (''transcript_path'', PAny (AnyString (session_path env (cxMetadata ctx)))),
      (''cwd'', PAny (AnyString (cxWorkingDirectory ctx))),
      (''hook_event_name'', PAny (AnyString (evPhase event))),
      (''tool_use_id'', PAny (AnyString (useID (evToolUse event)))),
      (''tool_name'', PAny (AnyString (evToolName event))),
      (''tool_input'', PRaw (evInput event))] @
     (case evDecision event of Some d \<Rightarrow> [(''permission_decision'', PDecision d)] | None \<Rightarrow> []) @
     (case evResult event of Some r \<Rightarrow> [(''tool_response'', PResult r)] | None \<Rightarrow> []) @
     (if evError event \<noteq> [] then [(''error'', PAny (AnyString (evError event)))] else [])"

definition hookInput :: "run_env \<Rightarrow> 'w Context \<Rightarrow> HookEvent \<Rightarrow> string + string" where
  "hookInput env ctx event =
     marshal_payload env
       (foldl (\<lambda>payload (key, value). if TrimSpace key \<noteq> [] then AList.update (TrimSpace key) (PAny value) payload else payload)
         (payload_entries env ctx event) (event_payload env event))"

section \<open>Commands\<close>

definition shellCommand :: "run_env \<Rightarrow> string \<Rightarrow> string \<Rightarrow> string list" where
  "shellCommand env shell command =
     (if ToLower (hook_go_env (run_hook_env env)) (TrimSpace shell) \<in> {''powershell'', ''pwsh''}
      then [''pwsh'', ''-NoProfile'', ''-NonInteractive'', ''-Command'', command]
      else if on_windows env then [''cmd'', ''/C'', command]
      else [''/bin/sh'', ''-c'', command])"

definition hook_process :: "run_env \<Rightarrow> CommandHook \<Rightarrow> 'w Context \<Rightarrow> string \<Rightarrow> process_run" where
  "hook_process env h ctx input =
     \<lparr>prArgs = shellCommand env (chShell h) (chCommand h), prDir = cxWorkingDirectory ctx,
      prVariables = [''CLAUDE_PROJECT_DIR='' @ cxWorkingDirectory ctx, ''CLAUDE_SESSION_ID='' @ cxSessionID ctx,
                     ''CLAUDE_TRANSCRIPT_PATH='' @ session_path env (cxMetadata ctx)],
      prStdin = input @ [Prelude.nl], prTimeout = (if chTimeout h \<le> 0 then default_hook_timeout else chTimeout h)\<rparr>"

definition runCommand :: "'w hook_services \<Rightarrow> CommandHook \<Rightarrow> 'w Context \<Rightarrow> string \<Rightarrow> 'w \<Rightarrow> (string + string \<times> string \<times> int) \<times> 'w" where
  "runCommand svc h ctx input w =
     (let run = hook_process (hsEnv svc) h ctx input
      in case run_process svc ctx run w of
           (TimedOut, w) \<Rightarrow> (Inl (''hook command timed out after '' @ duration_text (hsEnv svc) (prTimeout run)), w)
         | (Exited stdout stderr exitCode, w) \<Rightarrow> (Inr (stdout, stderr, exitCode), w)
         | (NotRun err, w) \<Rightarrow> (Inl err, w))"

fun firstNonEmpty :: "string list \<Rightarrow> string" where
  "firstNonEmpty [] = []"
| "firstNonEmpty (value # values) = (if TrimSpace value \<noteq> [] then TrimSpace value else firstNonEmpty values)"

definition text_entry :: "string \<Rightarrow> string \<Rightarrow> go_map" where
  "text_entry key text = (if text \<noteq> [] then [(key, AnyString text)] else [])"

definition commandHookMetadata :: "CommandHook \<Rightarrow> string \<Rightarrow> string \<Rightarrow> int \<Rightarrow> go_map" where
  "commandHookMetadata h stdout stderr exitCode =
     [(''type'', AnyString ''command''), (''command'', AnyString (chCommand h)), (''exit_code'', AnyInt exitCode)] @
     text_entry ''status_message'' (chStatusMessage h) @ text_entry ''stdout'' (TrimSpace stdout) @
     text_entry ''stderr'' (TrimSpace stderr)"

definition commandHookMetadataBackground :: "CommandHook \<Rightarrow> int \<Rightarrow> go_map" where
  "commandHookMetadataBackground h pid =
     [(''type'', AnyString ''command''), (''command'', AnyString (chCommand h)), (''background'', AnyBool True)] @
     (if pid \<noteq> 0 then [(''pid'', AnyInt pid)] else []) @ text_entry ''status_message'' (chStatusMessage h)"

definition runCommandBackground :: "'w hook_services \<Rightarrow> CommandHook \<Rightarrow> 'w Context \<Rightarrow> string \<Rightarrow> 'w \<Rightarrow> (string + HookResult) \<times> 'w" where
  "runCommandBackground svc h ctx input w =
     (case start_process svc ctx (hook_process (hsEnv svc) h ctx input) w of
        (Inl err, w) \<Rightarrow> (Inl err, w)
      | (Inr pid, w) \<Rightarrow>
          (Inr (no_hook_result\<lparr>hrMessage := chStatusMessage h, hrMetadata := commandHookMetadataBackground h pid\<rparr>), w))"

section \<open>What an output means\<close>

definition hook_verdict :: "string \<Rightarrow> string \<Rightarrow> PermissionDecision" where
  "hook_verdict behavior message =
     \<lparr>decBehavior = behavior, decMessage = message, decReason = [], decToolUseID = [], decBlockedPath = []\<rparr>"

abbreviation blocked_text :: string where "blocked_text \<equiv> ''blocked by hook command''"

definition updated_input :: "run_env \<Rightarrow> go_map \<Rightarrow> HookResult \<Rightarrow> HookResult" where
  "updated_input env object result =
     (case field object ''updatedInput'' of
        AnyMap updated \<Rightarrow> (case marshal_object env updated of Some data \<Rightarrow> result\<lparr>hrUpdatedInput := data\<rparr> | None \<Rightarrow> result)
      | _ \<Rightarrow> result)"

definition pre_tool_output :: "run_env \<Rightarrow> go_map \<Rightarrow> go_map \<Rightarrow> HookResult \<Rightarrow> HookResult" where
  "pre_tool_output env hookSpecific outer result =
     (let result = updated_input env hookSpecific result;
          reason = hook_string hookSpecific [''permissionDecisionReason''];
          verdict = hook_string hookSpecific [''permissionDecision'']
      in if verdict = ''deny'' then
           (let message = firstNonEmpty [reason, hook_string outer [''reason''], hrMessage result, blocked_text]
            in result\<lparr>hrBlock := True, hrMessage := message, hrPermissionDecision := Some (hook_verdict PermissionDeny message)\<rparr>)
         else if verdict = ''allow'' then result\<lparr>hrPermissionDecision := Some (hook_verdict PermissionAllow reason)\<rparr>
         else if verdict = ''ask'' then result\<lparr>hrPermissionDecision := Some (hook_verdict PermissionAsk reason)\<rparr>
         else result)"

definition permission_output :: "run_env \<Rightarrow> go_map \<Rightarrow> go_map \<Rightarrow> HookResult \<Rightarrow> HookResult" where
  "permission_output env hookSpecific outer result =
     (case field hookSpecific ''decision'' of
        AnyMap verdict \<Rightarrow>
          if hook_string verdict [''behavior''] = ''allow'' then
            updated_input env verdict
              (result\<lparr>hrPermissionDecision := Some (hook_verdict PermissionAllow (hook_string verdict [''message'']))\<rparr>)
          else if hook_string verdict [''behavior''] = ''deny'' then
            (let message = firstNonEmpty [hook_string verdict [''message''], hook_string outer [''reason''], hrMessage result,
                                          ''denied by hook command'']
             in result\<lparr>hrBlock := True, hrMessage := message, hrPermissionDecision := Some (hook_verdict PermissionDeny message)\<rparr>)
          else result
      | _ \<Rightarrow> result)"

definition context_output :: "go_map \<Rightarrow> HookResult \<Rightarrow> HookResult" where
  "context_output hookSpecific result =
     (let value = hook_string hookSpecific [''additionalContext''] in if value \<noteq> [] then result\<lparr>hrMessage := value\<rparr> else result)"

definition applyHookSpecificOutput :: "run_env \<Rightarrow> HookResult \<Rightarrow> string \<Rightarrow> go_map \<Rightarrow> go_map \<Rightarrow> HookResult" where
  "applyHookSpecificOutput env result phase hookSpecific outer =
     (let eventName = hook_string hookSpecific [''hookEventName'']
      in if eventName \<noteq> [] \<and> eventName \<noteq> phase
         then result\<lparr>hrMessage := firstNonEmpty [hrMessage result, ''hook output ignored for mismatched event '' @ eventName]\<rparr>
         else if phase = HookPreToolUse then pre_tool_output env hookSpecific outer result
         else if phase = HookPermissionRequest then permission_output env hookSpecific outer result
         else if phase \<in> {HookPostToolUse, ''UserPromptSubmit'', ''Stop'', ''SubagentStop'', ''PreCompact''}
         then context_output hookSpecific result
         else result)"

definition stop_output :: "go_map \<Rightarrow> HookResult \<Rightarrow> HookResult" where
  "stop_output object result =
     (if field object ''continue'' = AnyBool False
      then result\<lparr>hrBlock := True, hrMessage := firstNonEmpty
             [hook_string object [''stopReason''], hook_string object [''reason''], hrMessage result, blocked_text]\<rparr>
      else result)"

definition decision_output :: "go_map \<Rightarrow> HookResult \<Rightarrow> HookResult" where
  "decision_output object result =
     (let verdict = hook_string object [''decision'']; reason = hook_string object [''reason'']
      in if verdict = ''block''
         then result\<lparr>hrBlock := True, hrMessage := firstNonEmpty [reason, hrMessage result, blocked_text]\<rparr>
         else if verdict = ''approve'' then result\<lparr>hrPermissionDecision := Some (hook_verdict PermissionAllow reason)\<rparr>
         else result)"

definition hookResultFromJSON :: "run_env \<Rightarrow> string \<Rightarrow> string \<Rightarrow> HookResult option" where
  "hookResultFromJSON env phase raw =
     (case json_object env raw of
        None \<Rightarrow> None
      | Some object \<Rightarrow>
          let result = decision_output object
                 (stop_output object (no_hook_result\<lparr>hrMessage := hook_string object [''systemMessage'']\<rparr>))
          in Some (case field object ''hookSpecificOutput'' of
                     AnyMap hookSpecific \<Rightarrow> applyHookSpecificOutput env result phase hookSpecific object
                   | _ \<Rightarrow> result))"

definition with_metadata :: "go_map \<Rightarrow> HookResult \<Rightarrow> HookResult" where
  "with_metadata metadata result = result\<lparr>hrMetadata := foldl (\<lambda>m (key, value). set_key key value m) (hrMetadata result) metadata\<rparr>"

text \<open>The result of a text that is the output of a hook: a JSON object is read, any other text is the message.\<close>

definition output_result :: "run_env \<Rightarrow> string \<Rightarrow> string \<Rightarrow> string list \<Rightarrow> go_map \<Rightarrow> HookResult" where
  "output_result env phase output messages metadata =
     (let trimmed = TrimSpace output
      in case (if HasPrefix trimmed ''{'' then hookResultFromJSON env phase trimmed else None) of
           Some result \<Rightarrow> with_metadata metadata result
         | None \<Rightarrow> no_hook_result\<lparr>hrMessage := firstNonEmpty messages, hrMetadata := metadata\<rparr>)"

definition hookResultFromOutput :: "run_env \<Rightarrow> CommandHook \<Rightarrow> HookEvent \<Rightarrow> string \<Rightarrow> string \<Rightarrow> int \<Rightarrow> HookResult" where
  "hookResultFromOutput env h event stdout stderr exitCode =
     (if exitCode = 2
      then no_hook_result\<lparr>hrBlock := True, hrMessage := firstNonEmpty [TrimSpace stderr, TrimSpace stdout, blocked_text],
             hrMetadata := commandHookMetadata h stdout stderr exitCode\<rparr>
      else output_result env (evPhase event) stdout [TrimSpace stdout, TrimSpace stderr] (commandHookMetadata h stdout stderr exitCode))"

section \<open>HTTP\<close>

definition http_metadata :: "HTTPHook \<Rightarrow> string \<Rightarrow> int \<Rightarrow> string \<Rightarrow> go_map" where
  "http_metadata h body statusCode errText =
     [(''type'', AnyString ''http''), (''url'', AnyString (hhURL h))] @
     (if statusCode \<noteq> 0 then [(''status_code'', AnyInt statusCode)] else []) @
     text_entry ''status_message'' (hhStatusMessage h) @ text_entry ''body'' (TrimSpace body) @ text_entry ''error'' errText"

definition http_post :: "run_env \<Rightarrow> HTTPHook \<Rightarrow> string \<Rightarrow> http_request" where
  "http_post env h input =
     \<lparr>htURL = hhURL h,
      htHeaders = (''Content-Type'', ''application/json'') #
        map (\<lambda>(name, value). (name, interpolateHeader (run_hook_env env) h value)) (hhHeaders h),
      htBody = input, htTimeout = (if hhTimeout h \<le> 0 then default_hook_timeout else hhTimeout h)\<rparr>"

text \<open>The body, the status (0 when there is none) and the error.\<close>

definition runHTTP :: "'w hook_services \<Rightarrow> HTTPHook \<Rightarrow> 'w Context \<Rightarrow> string \<Rightarrow> 'w \<Rightarrow> (string \<times> int \<times> string option) \<times> 'w" where
  "runHTTP svc h ctx input w =
     (if hhAllowedURLPatterns h \<noteq> [] \<and> \<not> urlMatchesAnyPattern (hhURL h) (hhAllowedURLPatterns h)
      then (([], 0, Some (''HTTP hook blocked: '' @ hhURL h @ '' does not match any pattern in allowedHttpHookUrls'')), w)
      else case post_http svc ctx (http_post (hsEnv svc) h input) w of
             (NoReply err, w) \<Rightarrow> (([], 0, Some err), w)
           | (BrokenReply status err, w) \<Rightarrow> (([], status, Some err), w)
           | (Reply status body, w) \<Rightarrow>
               ((body, status, if status < 200 \<or> status \<ge> 300 then Some (''HTTP hook returned status '' @ int_text status) else None), w))"

definition resultFromHTTPBody :: "run_env \<Rightarrow> HTTPHook \<Rightarrow> HookEvent \<Rightarrow> string \<Rightarrow> int \<Rightarrow> HookResult" where
  "resultFromHTTPBody env h event body statusCode =
     output_result env (evPhase event) body [TrimSpace body] (http_metadata h body statusCode [])"

section \<open>Hooks\<close>

definition CommandHook_RunToolHook ::
  "'w hook_services \<Rightarrow> CommandHook \<Rightarrow> 'w Context \<Rightarrow> HookEvent \<Rightarrow> 'w \<Rightarrow> (string + HookResult) \<times> 'w" where
  "CommandHook_RunToolHook svc h ctx event w =
     (if \<not> hook_applies (run_hook_env (hsEnv svc)) (chPhase h) (chMatcher h) (chIf h) event (cxWorkingDirectory ctx)
      then (Inr no_hook_result, w)
      else case hookInput (hsEnv svc) ctx event of
             Inl err \<Rightarrow> (Inl err, w)
           | Inr input \<Rightarrow>
               if chRunInBackground h then runCommandBackground svc h ctx input w
               else (case runCommand svc h ctx input w of
                       (Inl err, w) \<Rightarrow> (Inl err, w)
                     | (Inr (stdout, stderr, exitCode), w) \<Rightarrow> (Inr (hookResultFromOutput (hsEnv svc) h event stdout stderr exitCode), w)))"

definition HTTPHook_RunToolHook ::
  "'w hook_services \<Rightarrow> HTTPHook \<Rightarrow> 'w Context \<Rightarrow> HookEvent \<Rightarrow> 'w \<Rightarrow> (string + HookResult) \<times> 'w" where
  "HTTPHook_RunToolHook svc h ctx event w =
     (if \<not> hook_applies (run_hook_env (hsEnv svc)) (hhPhase h) (hhMatcher h) (hhIf h) event (cxWorkingDirectory ctx)
      then (Inr no_hook_result, w)
      else case hookInput (hsEnv svc) ctx event of
             Inl err \<Rightarrow> (Inl err, w)
           | Inr input \<Rightarrow>
               (case runHTTP svc h ctx input w of
                  ((body, status, Some err), w) \<Rightarrow> (Inr (no_hook_result\<lparr>hrMetadata := http_metadata h [] status err\<rparr>), w)
                | ((body, status, None), w) \<Rightarrow> (Inr (resultFromHTTPBody (hsEnv svc) h event body status), w)))"

definition configured :: "'w hook_services \<Rightarrow> configured_hook \<Rightarrow> 'w Hook" where
  "configured svc hook =
     (case hook of
        ACommand h \<Rightarrow> \<lparr>hookPhases = Some [chPhase h], RunToolHook = CommandHook_RunToolHook svc h\<rparr>
      | AnHTTP h \<Rightarrow> \<lparr>hookPhases = Some [hhPhase h], RunToolHook = HTTPHook_RunToolHook svc h\<rparr>)"

end
