(* ===== verification/HookLaws.thy ===== *)
theory HookLaws
  imports HookRunner ExecLaws FileTextLaws RuleLaws
begin

text \<open>
  Laws of hooks. A \<open>gate\<close> is a hook whose result, when it lets a call go on, has a property: an
  execution that calls its tool has got such a result from every gate before the call. A command hook of
  the settings is one. Then the laws of texts: patterns of URLs and values of headers.
\<close>

section \<open>The hooks before a call\<close>

text \<open>A hook that was run, in an execution with the actions \<open>es\<close>, and let the call go on.\<close>

definition passed_hook :: "'w Context \<Rightarrow> ToolUse \<Rightarrow> action list \<Rightarrow> 'w Hook \<Rightarrow> HookEvent \<Rightarrow> 'w \<Rightarrow> HookResult \<Rightarrow> 'w \<Rightarrow> bool" where
  "passed_hook ctx use es hook event w1 r w2 =
     (evPhase event = HookPreToolUse \<and> evToolUse event = use \<and> RunToolHook hook ctx event w1 = (Inr r, w2) \<and>
      \<not> hrBlock r \<and> HookRun event (Inr r) \<in> set es)"

definition passed :: "'w Context \<Rightarrow> ToolUse \<Rightarrow> action list \<Rightarrow> 'w Hook \<Rightarrow> bool" where
  "passed ctx use es hook = (\<exists>event w1 r w2. passed_hook ctx use es hook event w1 r w2)"

lemma passed_later: "passed ctx use es hook \<Longrightarrow> set es \<subseteq> set es' \<Longrightarrow> passed ctx use es' hook"
  unfolding passed_def passed_hook_def by blast

lemma passed_append [simp]: "passed ctx use (es @ es') hook \<longleftrightarrow> passed ctx use es hook \<or> passed ctx use es' hook"
  unfolding passed_def passed_hook_def set_append by blast

lemma passed_Cons: "passed ctx use es hook \<Longrightarrow> passed ctx use (a # es) hook"
  by (erule passed_later) auto

lemma pre_hooks_passed:
  "wp (pre_hooks_loop ctx use t hooks current) (\<lambda>r es w'. \<forall>raw. r = Inr raw \<longrightarrow> (\<forall>hook \<in> snd ` set hooks. passed ctx use es hook)) w"
proof (induction hooks arbitrary: current w)
  case (Cons h hooks)
  obtain idx hook where h: "h = (idx, hook)" by fastforce
  define event where "event = \<lparr>evPhase = HookPreToolUse, evToolUse = use, evToolName = toolName t, evInput = current,
    evDecision = None, evResult = None, evError = []\<rparr>"
  obtain r w1 where run: "RunToolHook hook ctx event w = (r, w1)" by fastforce
  have ran: "RunToolHook hook ctx event v = (Inr result, v') \<Longrightarrow> \<not> hrBlock result \<Longrightarrow> passed ctx use [HookRun event (Inr result)] hook" for v v' result
    unfolding passed_def passed_hook_def
    by (intro exI[of _ event] exI[of _ v] exI[of _ result] exI[of _ v']) (simp add: event_def)
  show ?case
    unfolding h
    by (auto simp: wp_simps progress_defs Let_def event_def[symmetric] run split: sum.split prod.split
        intro!: wp_mono[OF Cons.IH] intro: passed_Cons dest: ran)
qed (simp add: wp_simps)

lemma prepare_passed:
  "wp (prepare env e registry ctx use t)
     (\<lambda>r es w'. \<forall>raw. r = Inr raw \<longrightarrow> (\<forall>hook \<in> set (hooksForPhase e HookPreToolUse). passed ctx use es hook)) w"
proof -
  have hooks: "snd ` set (enumerate 0 (hooksForPhase e HookPreToolUse)) = set (hooksForPhase e HookPreToolUse)"
    by (metis list.set_map map_snd_enumerate)
  have first: "wp (validate env registry ctx use t raw) (\<lambda>r es w'. True) v" for raw v by (simp add: wp_def split: prod.split)
  show ?thesis
    unfolding prepare_def Let_def runPreHooks_def
    by (auto simp: wp_simps SendProgress_def check_context_def hooks split: sum.split option.split
        intro!: wp_mono[OF first] wp_mono[OF pre_hooks_passed])
qed

text \<open>Before the first call, every hook has passed.\<close>

definition gates_passed :: "'w Executor \<Rightarrow> 'w Context \<Rightarrow> ToolUse \<Rightarrow> action list \<Rightarrow> bool" where
  "gates_passed e ctx use es =
     (\<forall>before raw after. es = before @ Called raw # after \<longrightarrow>
        (\<forall>hook \<in> set (hooksForPhase e HookPreToolUse). passed ctx use before hook))"

lemma gates_uncalled: "calls es = [] \<Longrightarrow> gates_passed e ctx use es"
  using calls_iff by (fastforce simp: gates_passed_def)

lemma gates_after:
  assumes "calls es = []" "\<forall>hook \<in> set (hooksForPhase e HookPreToolUse). passed ctx use es hook"
  shows "gates_passed e ctx use (es @ es')"
  unfolding gates_passed_def
proof (intro allI impI ballI)
  fix before raw after hook
  assume split: "es @ es' = before @ Called raw # after" and hook: "hook \<in> set (hooksForPhase e HookPreToolUse)"
  have "set es \<subseteq> set before"
    using split assms(1) calls_iff[of raw es] by (auto simp: append_eq_append_conv2 append_eq_Cons_conv)
  then show "passed ctx use before hook" using assms(2) hook passed_later by blast
qed

lemma Execute_gates: "wp (Execute sys e ctx use) (\<lambda>out es w'. gates_passed e ctx use es) w"
proof -
  have all: "wp m (\<lambda>r es w'. True) v" for m :: "('w, action, 'x) effects" and v by (simp add: wp_def split: prod.split)
  have ok: "wp (prepare env e registry ctx use t)
      (\<lambda>r es w'. calls es = [] \<and> (\<forall>raw. r = Inr raw \<longrightarrow> (\<forall>hook \<in> set (hooksForPhase e HookPreToolUse). passed ctx use es hook))) v"
    for env registry t v
    using wp_conj[OF prepare_spec prepare_passed] by (rule wp_mono) simp
  have clear: "wp (then_e (prepare env e registry ctx use t) (authorize env e registry ctx use t))
      (\<lambda>r es w'. calls es = [] \<and> (\<forall>raw. r = Inr raw \<longrightarrow> (\<forall>hook \<in> set (hooksForPhase e HookPreToolUse). passed ctx use es hook))) v"
    for env registry t v
    unfolding wp_then_e
    by (rule wp_mono[OF ok]) (auto split: sum.splits intro!: wp_mono[OF authorize_spec] elim!: passed_later)
  have rest: "wp (then_p (then_e (prepare env e registry ctx use t) (authorize env e registry ctx use t))
        (\<lambda>r. case r of Inl out \<Rightarrow> done_p out | Inr raw \<Rightarrow> perform sys e ctx use t raw)) (\<lambda>out es w'. gates_passed e ctx use es) v"
    for env registry t v
    unfolding wp_then by (rule wp_mono[OF clear]) (auto simp: wp_done gates_uncalled split: sum.split intro!: wp_mono[OF all] gates_after)
  show ?thesis
    unfolding Execute_def wp_then[of "look _"] wp_look
    by (simp add: wp_done gates_uncalled rest split: option.split)
qed

section \<open>Gates\<close>

text \<open>The contract of a hook that others rely on: what a result that does not block says.\<close>

locale gate =
  fixes hook :: "'w Hook" and ctx :: "'w Context" and told :: "HookEvent \<Rightarrow> 'w \<Rightarrow> HookResult \<Rightarrow> 'w \<Rightarrow> bool"
  assumes passes: "RunToolHook hook ctx event w = (Inr r, w') \<Longrightarrow> evPhase event = HookPreToolUse \<Longrightarrow> \<not> hrBlock r \<Longrightarrow> told event w r w'"
    and for_calls: "hookMatchesPhase hook HookPreToolUse"
begin

lemma called_after:
  assumes "Execute sys e ctx use w = (out, before @ Called raw # after, w')" "Some hook \<in> set (exHooks e)"
  shows "\<exists>event w1 r w2. passed_hook ctx use before hook event w1 r w2 \<and> told event w1 r w2"
proof -
  have "hook \<in> set (hooksForPhase e HookPreToolUse)"
    using assms(2) for_calls by (force simp: hooksForPhase_def map_filter_def)
  then have "passed ctx use before hook"
    using wpD[OF Execute_gates assms(1)] unfolding gates_passed_def by blast
  then show ?thesis using passes unfolding passed_def passed_hook_def by blast
qed

end

text \<open>A command hook that is for the event and does not run in the background: its command ended in time,
  with an exit code other than 2.\<close>

definition command_ended :: "'w hook_services \<Rightarrow> CommandHook \<Rightarrow> 'w Context \<Rightarrow> HookEvent \<Rightarrow> 'w \<Rightarrow> 'w \<Rightarrow> bool" where
  "command_ended svc h ctx event w w' =
     (\<exists>input stdout stderr code. hookInput (hsEnv svc) ctx event = Inr input \<and>
        run_process svc ctx (hook_process (hsEnv svc) h ctx input) w = (Exited stdout stderr code, w') \<and> code \<noteq> 2)"

definition command_told :: "'w hook_services \<Rightarrow> CommandHook \<Rightarrow> 'w Context \<Rightarrow> HookEvent \<Rightarrow> 'w \<Rightarrow> HookResult \<Rightarrow> 'w \<Rightarrow> bool" where
  "command_told svc h ctx event w r w' =
     (hook_applies (run_hook_env (hsEnv svc)) (chPhase h) (chMatcher h) (chIf h) event (cxWorkingDirectory ctx) \<longrightarrow>
      command_ended svc h ctx event w w')"

definition gate_hook :: "CommandHook \<Rightarrow> CommandHook" where
  "gate_hook h = h\<lparr>chPhase := HookPreToolUse, chRunInBackground := False\<rparr>"

interpretation command_gate: gate "configured svc (ACommand (gate_hook h))" ctx "command_told svc (gate_hook h) ctx" for svc h ctx
proof unfold_locales
  fix event w r w'
  assume "RunToolHook (configured svc (ACommand (gate_hook h))) ctx event w = (Inr r, w')" "\<not> hrBlock r"
  then show "command_told svc (gate_hook h) ctx event w r w'"
    by (auto simp: configured_def CommandHook_RunToolHook_def runCommand_def Let_def hookResultFromOutput_def
        command_told_def command_ended_def gate_hook_def split: if_splits sum.splits process_end.splits prod.splits)
qed (simp add: hookMatchesPhase_def configured_def gate_hook_def)

section \<open>Patterns of URLs\<close>

text \<open>The pieces of a pattern with texts in the gaps between them.\<close>

fun interleave :: "string list \<Rightarrow> string list \<Rightarrow> string" where
  "interleave (p # q # ps) (g # gs) = p @ g @ interleave (q # ps) gs"
| "interleave ps gs = concat ps"

definition one_line :: "string \<Rightarrow> bool" where
  "one_line s = (Prelude.nl \<notin> set s)"

definition fills :: "string list \<Rightarrow> string \<Rightarrow> bool" where
  "fills pieces s = (\<exists>gaps. length gaps + 1 = length pieces \<and> list_all one_line gaps \<and> s = interleave pieces gaps)"

lemma one_line_simps [simp]: "one_line []" "one_line (c # s) \<longleftrightarrow> c \<noteq> Prelude.nl \<and> one_line s"
  by (auto simp: one_line_def)

lemma split_first:
  "(\<exists>g t. d # ds = g @ t \<and> one_line g \<and> P t) \<longleftrightarrow> P (d # ds) \<or> d \<noteq> Prelude.nl \<and> (\<exists>g t. ds = g @ t \<and> one_line g \<and> P t)"
  (is "?l \<longleftrightarrow> ?r")
proof
  assume ?l
  then obtain g t where "d # ds = g @ t" "one_line g" "P t" by blast
  then show ?r by (cases g) auto
next
  assume ?r
  then show ?l
  proof
    assume "P (d # ds)"
    then show ?l by (intro exI[of _ "[]"] exI[of _ "d # ds"]) simp
  next
    assume "d \<noteq> Prelude.nl \<and> (\<exists>g t. ds = g @ t \<and> one_line g \<and> P t)"
    then obtain g t where "d \<noteq> Prelude.nl" "ds = g @ t" "one_line g" "P t" by blast
    then show ?l by (intro exI[of _ "d # g"] exI[of _ t]) simp
  qed
qed

lemma star_match: "glob_match (CHR ''*'' # p) s \<longleftrightarrow> (\<exists>g t. s = g @ t \<and> one_line g \<and> glob_match p t)"
proof (induction s)
  case (Cons d ds)
  then show ?case by (simp add: split_first)
qed auto

lemma interleave_head: "interleave ((c # p) # ps) gs = c # interleave (p # ps) gs"
  by (cases ps; cases gs) simp_all

lemma interleave_gap: "pieces \<noteq> [] \<Longrightarrow> interleave ([] # pieces) (g # gs) = g @ interleave pieces gs"
  by (cases pieces) simp_all

lemma Split_hd_tl: "hd (Split p c) # tl (Split p c) = Split p c"
  by simp

lemma fills_byte: "c \<noteq> CHR ''*'' \<Longrightarrow> fills (Split (c # p) (CHR ''*'')) s \<longleftrightarrow> (\<exists>t. s = c # t \<and> fills (Split p (CHR ''*'')) t)"
  using Split_no_sep_left[of "CHR ''*''" "[c]" p] Split_hd_tl[of p "CHR ''*''"]
  unfolding fills_def by (auto simp: interleave_head)

lemma fills_gap:
  assumes "pieces \<noteq> []"
  shows "fills ([] # pieces) s \<longleftrightarrow> (\<exists>g t. s = g @ t \<and> one_line g \<and> fills pieces t)"
proof
  assume "fills ([] # pieces) s"
  then obtain g gs where "length gs + 1 = length pieces" "list_all one_line (g # gs)" "s = g @ interleave pieces gs"
    unfolding fills_def using assms by (auto simp: length_Suc_conv interleave_gap neq_Nil_conv)
  then show "\<exists>g t. s = g @ t \<and> one_line g \<and> fills pieces t" unfolding fills_def by auto
next
  assume "\<exists>g t. s = g @ t \<and> one_line g \<and> fills pieces t"
  then obtain g gs where "length gs + 1 = length pieces" "list_all one_line gs" "one_line g" "s = g @ interleave pieces gs"
    unfolding fills_def by auto
  then show "fills ([] # pieces) s"
    unfolding fills_def by (intro exI[of _ "g # gs"]) (simp add: interleave_gap[OF assms])
qed

lemma Split_star: "Split (c # p) c = [] # Split p c"
  using Split_piece[of c "[]" p] by simp

lemma glob_fills: "glob_match p s \<longleftrightarrow> fills (Split p (CHR ''*'')) s"
proof (induction p arbitrary: s)
  case (Cons c p)
  then show ?case
  proof (cases "c = CHR ''*''")
    case False
    then show ?thesis using Cons fills_byte[OF False, of p s] by (auto split: list.split)
  qed (simp add: star_match Split_star fills_gap del: glob_match.simps Split.simps)
qed (auto simp: fills_def)

section \<open>Values of headers\<close>

lemma header_bytes: "c \<in> set (header_text s) \<Longrightarrow> c \<notin> {cr, Prelude.nl, nul}"
proof (induction "length s" arbitrary: s rule: less_induct)
  case less
  show ?case
  proof (cases "s = []")
    case True
    then show ?thesis using less.prems by (simp add: header_text_def)
  next
    case False
    let ?n = "snd (decode_rune s)" and ?r = "rune_string s"
    have "rune_strings s = ?r # rune_strings (drop ?n s)" using False by (subst rune_strings.simps) simp
    then have "c \<in> set ?r \<and> ?r \<notin> {[cr], [Prelude.nl], [nul]} \<or> c \<in> set (header_text (drop ?n s))"
      using less.prems by (auto simp: header_text_def split: if_splits)
    moreover have ?thesis if "c \<in> set ?r" "?r \<notin> {[cr], [Prelude.nl], [nul]}"
    proof (cases "decode_rune s = (0xFFFD, 1)")
      case True
      then show ?thesis using that(1) by (auto simp: rune_string_def)
    next
      case valid: False
      then have r: "?r = take ?n s" by (simp add: rune_string_def)
      have "?n \<le> length s" using decode_fits[OF False] .
      moreover have "c \<in> set (take ?n s)" using that(1) r by simp
      ultimately obtain i where i: "i < ?n" "c = s ! i"
        by (metis in_set_conv_nth length_take min_less_iff_conj nth_take)
      show ?thesis
      proof (cases i)
        case 0
        obtain a s1 where s: "s = a # s1" using False by (cases s) auto
        have "?n \<noteq> 1" if "c \<in> {cr, Prelude.nl, nul}" using \<open>?r \<notin> _\<close> that i(2) 0 s r by auto
        moreover have "?n = 1" if "c \<in> {cr, Prelude.nl, nul}"
          using that i(2) 0 s by (auto simp: decode_rune_def byte_def Let_def split: prod.split)
        ultimately show ?thesis by blast
      next
        case (Suc j)
        then have "continues c" using decode_tail[OF False, of i] i by simp
        then show ?thesis by (auto simp: cont_def byte_def)
      qed
    qed
    moreover have "?n > 0" using decode_rune_width[OF False] by simp
    ultimately show ?thesis using less.hyps[of "drop ?n s"] False by auto
  qed
qed

text \<open>The names of a list count without the blanks around them.\<close>

definition listed :: "string \<Rightarrow> string list \<Rightarrow> bool" where
  "listed name items = (\<exists>item \<in> set items. TrimSpace item = name)"

lemma allowed_listed:
  assumes "name \<in> set (allowed_variables h)"
  shows "name \<noteq> []" "listed name (hhAllowedEnvVars h)"
    "listed name (hhPolicyAllowedEnvVars h) \<or> (\<forall>item \<in> set (hhPolicyAllowedEnvVars h). TrimSpace item = [])"
  using assms by (auto simp: allowed_variables_def trimmed_items_def listed_def Let_def filter_empty_conv)

lemma interpolated_same:
  assumes "\<And>name. name \<in> set (allowed_variables h) \<Longrightarrow> f name = get_variable env name"
  shows "interpolateHeader (env\<lparr>get_variable := f\<rparr>) h value = interpolateHeader env h value"
proof -
  have "replaced_reference (env\<lparr>get_variable := f\<rparr>) h = replaced_reference env h"
    using assms by (intro ext) (auto simp: replaced_reference_def intro!: map_option_cong)
  then show ?thesis by (simp add: interpolateHeader_def)
qed

section \<open>Outputs\<close>

definition denying_verdict :: "goany \<Rightarrow> bool" where
  "denying_verdict value = (case value of AnyMap verdict \<Rightarrow> hook_string verdict [''behavior''] = ''deny'' | _ \<Rightarrow> False)"

text \<open>What an output must say for the hook to block, in a phase.\<close>

definition says_block :: "string \<Rightarrow> go_map \<Rightarrow> bool" where
  "says_block phase object =
     (field object ''continue'' = AnyBool False \<or> hook_string object [''decision''] = ''block'' \<or>
      (case field object ''hookSpecificOutput'' of
         AnyMap specific \<Rightarrow>
           hook_string specific [''hookEventName''] \<in> {[], phase} \<and>
           (phase = HookPreToolUse \<and> hook_string specific [''permissionDecision''] = ''deny'' \<or>
            phase = HookPermissionRequest \<and> denying_verdict (field specific ''decision''))
       | _ \<Rightarrow> False))"

definition blocking_text :: "run_env \<Rightarrow> string \<Rightarrow> string \<Rightarrow> bool" where
  "blocking_text env phase output =
     (HasPrefix (TrimSpace output) ''{'' \<and>
      (case json_object env (TrimSpace output) of Some object \<Rightarrow> says_block phase object | None \<Rightarrow> False))"

lemma firstNonEmpty_text [simp]: "c \<in> set ss \<Longrightarrow> TrimSpace c \<noteq> [] \<Longrightarrow> firstNonEmpty ss \<noteq> []"
  by (induction ss) auto

lemma texts_nonempty [simp]: "TrimSpace blocked_text \<noteq> []" "TrimSpace ''denied by hook command'' \<noteq> []"
  by code_simp+

text \<open>A result that blocks has a message, and every step of reading an output keeps this.\<close>

definition explained :: "HookResult \<Rightarrow> bool" where
  "explained r = (hrBlock r \<longrightarrow> hrMessage r \<noteq> [])"

lemma updated_keeps [simp]: "hrBlock (updated_input env object r) = hrBlock r" "hrMessage (updated_input env object r) = hrMessage r"
  by (simp_all add: updated_input_def split: goany.split option.split)

lemma stop_explained: "explained r \<Longrightarrow> explained (stop_output object r)"
  by (simp add: explained_def stop_output_def)

lemma decision_explained: "explained r \<Longrightarrow> explained (decision_output object r)"
  by (simp add: explained_def decision_output_def Let_def)

lemma pre_tool_blocks:
  "hrBlock (pre_tool_output env specific object r) \<longleftrightarrow> hrBlock r \<or> hook_string specific [''permissionDecision''] = ''deny''"
  "explained r \<Longrightarrow> explained (pre_tool_output env specific object r)"
  by (simp_all add: pre_tool_output_def Let_def explained_def del: hook_string.simps)

lemma permission_blocks:
  "hrBlock (permission_output env specific object r) \<longleftrightarrow> hrBlock r \<or> denying_verdict (field specific ''decision'')"
  "explained r \<Longrightarrow> explained (permission_output env specific object r)"
  by (cases "field specific ''decision''";
      simp add: permission_output_def denying_verdict_def Let_def explained_def del: hook_string.simps)+

lemma context_blocks:
  "hrBlock (context_output specific r) = hrBlock r" "explained r \<Longrightarrow> explained (context_output specific r)"
  by (simp_all add: context_output_def Let_def explained_def)

lemma specific_blocks:
  "hrBlock (applyHookSpecificOutput env r phase specific object) \<longleftrightarrow>
     hrBlock r \<or> hook_string specific [''hookEventName''] \<in> {[], phase} \<and>
       (phase = HookPreToolUse \<and> hook_string specific [''permissionDecision''] = ''deny'' \<or>
        phase = HookPermissionRequest \<and> denying_verdict (field specific ''decision''))"
  unfolding applyHookSpecificOutput_def Let_def
  by (simp add: pre_tool_blocks permission_blocks context_blocks del: hook_string.simps)

lemma specific_explained:
  "explained r \<Longrightarrow> TrimSpace (hrMessage r) \<noteq> [] \<or> \<not> hrBlock r \<Longrightarrow> explained (applyHookSpecificOutput env r phase specific object)"
  unfolding applyHookSpecificOutput_def Let_def
  by (auto simp: pre_tool_blocks permission_blocks context_blocks explained_def[of "_\<lparr>hrMessage := _\<rparr>"] simp del: hook_string.simps)

lemma TrimSpace_empty [simp]: "TrimSpace [] = []"
  by code_simp

lemma firstNonEmpty_trimmed: "TrimSpace (firstNonEmpty ss) = firstNonEmpty ss"
  by (induction ss) (simp_all add: TrimSpace_idem)

lemma read_blocks:
  assumes "json_object env raw = Some object"
  shows "\<exists>r. hookResultFromJSON env phase raw = Some r \<and> (hrBlock r \<longleftrightarrow> says_block phase object) \<and> explained r"
proof -
  let ?r = "decision_output object (stop_output object (no_hook_result\<lparr>hrMessage := hook_string object [''systemMessage'']\<rparr>))"
  have blocks: "hrBlock ?r \<longleftrightarrow> field object ''continue'' = AnyBool False \<or> hook_string object [''decision''] = ''block''"
    by (simp add: decision_output_def stop_output_def no_hook_result_def Let_def del: hook_string.simps)
  have told: "hrBlock ?r \<Longrightarrow> TrimSpace (hrMessage ?r) \<noteq> []"
    unfolding blocks
    by (auto simp: decision_output_def stop_output_def no_hook_result_def Let_def TrimSpace_idem simp del: hook_string.simps)
  have "explained ?r" using told by (auto simp: explained_def)
  then show ?thesis
    using told blocks specific_explained[of ?r]
    by (cases "field object ''hookSpecificOutput''")
      (auto simp: hookResultFromJSON_def assms Let_def says_block_def specific_blocks simp del: hook_string.simps)
qed

lemma output_blocks:
  "hrBlock (output_result env phase output messages metadata) \<longleftrightarrow> blocking_text env phase output"
  "explained (output_result env phase output messages metadata)"
proof -
  consider r object where "HasPrefix (TrimSpace output) ''{''" "json_object env (TrimSpace output) = Some object"
      "hookResultFromJSON env phase (TrimSpace output) = Some r" "hrBlock r \<longleftrightarrow> says_block phase object" "explained r"
    | "\<not> (HasPrefix (TrimSpace output) ''{'' \<and> json_object env (TrimSpace output) \<noteq> None)"
    using read_blocks[of env "TrimSpace output"] by (cases "json_object env (TrimSpace output)") blast+
  then have "(hrBlock (output_result env phase output messages metadata) \<longleftrightarrow> blocking_text env phase output) \<and>
      explained (output_result env phase output messages metadata)"
  proof cases
    case 1
    then show ?thesis by (simp add: output_result_def with_metadata_def blocking_text_def explained_def)
  next
    case 2
    then have "(if HasPrefix (TrimSpace output) ''{'' then hookResultFromJSON env phase (TrimSpace output) else None) = None"
      by (auto simp: hookResultFromJSON_def)
    then show ?thesis using 2
      by (auto simp: output_result_def blocking_text_def explained_def no_hook_result_def split: option.split)
  qed
  then show "hrBlock (output_result env phase output messages metadata) \<longleftrightarrow> blocking_text env phase output"
    "explained (output_result env phase output messages metadata)" by simp_all
qed

section \<open>Hooks of the settings\<close>

text \<open>Settings in the documented form: for each phase groups of a matcher and its hooks, each hook an object
  with all its fields.\<close>

type_synonym hook_groups = "(string \<times> (string \<times> configured_hook list) list) list"

definition hook_json :: "configured_hook \<Rightarrow> goany" where
  "hook_json hook =
     (case hook of
        ACommand h \<Rightarrow>
          AnyMap [(''type'', AnyString ''command''), (''command'', AnyString (chCommand h)), (''if'', AnyString (chIf h)),
            (''shell'', AnyString (chShell h)), (''statusMessage'', AnyString (chStatusMessage h)),
            (''timeout'', AnyInt (chTimeout h div 1000000000)), (''runInBackground'', AnyBool (chRunInBackground h))]
      | AnHTTP h \<Rightarrow>
          AnyMap [(''type'', AnyString ''http''), (''url'', AnyString (hhURL h)), (''if'', AnyString (hhIf h)),
            (''headers'', AnyMap (map (\<lambda>(name, value). (name, AnyString value)) (hhHeaders h))),
            (''allowedEnvVars'', AnySlice (map AnyString (hhAllowedEnvVars h))), (''statusMessage'', AnyString (hhStatusMessage h)),
            (''timeout'', AnyInt (hhTimeout h div 1000000000))])"

definition settings_json :: "hook_groups \<Rightarrow> go_map" where
  "settings_json phases =
     map (\<lambda>(phase, groups). (phase, AnySlice (map (\<lambda>(matcher, hooks).
       AnyMap [(''matcher'', AnyString matcher), (''hooks'', AnySlice (map hook_json hooks))]) groups))) phases"

text \<open>A hook that settings can ask for: it stands under its phase and matcher, its texts are trimmed, its timeout is
  a number of seconds, and an HTTP hook has the lists of the settings.\<close>

definition trimmed :: "string \<Rightarrow> bool" where "trimmed s = (TrimSpace s = s)"
definition trimmed_name :: "string \<Rightarrow> bool" where "trimmed_name s = (s \<noteq> [] \<and> trimmed s)"
definition whole_seconds :: "int \<Rightarrow> bool" where "whole_seconds t = (0 < t \<and> t < 2 ^ 63 \<and> t mod 1000000000 = 0)"

definition settable :: "hook_options \<Rightarrow> string \<Rightarrow> string \<Rightarrow> configured_hook \<Rightarrow> bool" where
  "settable options phase matcher hook =
     (case hook of
        ACommand h \<Rightarrow> chPhase h = phase \<and> chMatcher h = matcher \<and> trimmed_name (chCommand h) \<and>
          list_all trimmed [chIf h, chShell h, chStatusMessage h] \<and> whole_seconds (chTimeout h)
      | AnHTTP h \<Rightarrow> hhPhase h = phase \<and> hhMatcher h = matcher \<and> trimmed_name (hhURL h) \<and>
          list_all trimmed [hhIf h, hhStatusMessage h] \<and> whole_seconds (hhTimeout h) \<and>
          distinct (map fst (hhHeaders h)) \<and> list_all (trimmed_name \<circ> fst) (hhHeaders h) \<and> list_all trimmed_name (hhAllowedEnvVars h) \<and>
          hhAllowedURLPatterns h = AllowedHTTPHookURLs options \<and> hhPolicyAllowedEnvVars h = HTTPHookAllowedEnvVars options)"

definition settable_groups :: "hook_options \<Rightarrow> hook_groups \<Rightarrow> bool" where
  "settable_groups options phases =
     list_all (\<lambda>(phase, groups). trimmed_name phase \<and>
       list_all (\<lambda>(matcher, hooks). trimmed matcher \<and> list_all (settable options phase matcher) hooks) groups) phases"

lemma timeout_read:
  assumes "whole_seconds t" "map_of value ''timeout'' = Some (AnyInt (t div 1000000000))"
  shows "hook_timeout env value = t"
proof -
  have t: "t div 1000000000 * 1000000000 = t" "0 < t" using assms(1) by (auto simp: whole_seconds_def)
  then have "0 < t div 1000000000" by (metis mult_zero_left not_less_iff_gr_or_eq pos_imp_zdiv_neg_iff zero_less_numeral)
  moreover have "wrap64 t = t" using assms(1) by (simp add: whole_seconds_def wrap64_def)
  ultimately show ?thesis using t assms(2) by (simp add: hook_timeout_def durationSeconds_def field_def Let_def)
qed

lemma headers_read:
  "distinct (map fst (out @ headers)) \<Longrightarrow> list_all (trimmed_name \<circ> fst) headers \<Longrightarrow>
   foldl (\<lambda>out (key, value). case value of
       AnyString text \<Rightarrow> if TrimSpace key \<noteq> [] then AList.update (TrimSpace key) text out else out
     | _ \<Rightarrow> out) out (map (\<lambda>(name, value). (name, AnyString value)) headers) = out @ headers"
proof (induction headers arbitrary: out)
  case (Cons h headers)
  obtain name content where h: "h = (name, content)" by (cases h)
  have "name \<notin> fst ` set out" using Cons.prems(1) by (auto simp: h)
  then have "AList.update name content out = out @ [(name, content)]" by (induction out) auto
  then show ?case using Cons.prems Cons.IH[of "out @ [(name, content)]"] by (simp add: h trimmed_name_def trimmed_def)
qed simp

lemma items_read: "list_all trimmed_name items \<Longrightarrow> trimmed_items (any_strings (map AnyString items)) = items"
  by (induction items) (simp_all add: trimmed_items_def any_strings_def map_filter_simps trimmed_name_def trimmed_def)

lemma type_names: "TrimSpace ''command'' = ''command''" "TrimSpace ''http'' = ''http''" "TrimSpace [] = []"
  by code_simp+

lemma command_read:
  assumes "settable options phase matcher (ACommand h)"
  shows "commandHookFromRaw env phase matcher (hook_json (ACommand h)) = Some h"
  using assms timeout_read[of "chTimeout h" _ env]
  by (cases h) (simp add: commandHookFromRaw_def hook_json_def settable_def trimmed_name_def trimmed_def field_def type_names Let_def)

lemma http_read:
  assumes "settable options phase matcher (AnHTTP h)"
  shows "commandHookFromRaw env phase matcher (hook_json (AnHTTP h)) = None"
    "httpHookFromRaw env phase matcher (hook_json (AnHTTP h)) options = Some h"
proof -
  show "commandHookFromRaw env phase matcher (hook_json (AnHTTP h)) = None"
    by (simp add: commandHookFromRaw_def hook_json_def field_def type_names Let_def)
  have h: "hhPhase h = phase" "hhMatcher h = matcher" "hhURL h \<noteq> []" "TrimSpace (hhURL h) = hhURL h" "TrimSpace (hhIf h) = hhIf h"
    "TrimSpace (hhStatusMessage h) = hhStatusMessage h" "whole_seconds (hhTimeout h)" "distinct (map fst (hhHeaders h))"
    "list_all (trimmed_name \<circ> fst) (hhHeaders h)" "list_all trimmed_name (hhAllowedEnvVars h)"
    "hhAllowedURLPatterns h = AllowedHTTPHookURLs options" "hhPolicyAllowedEnvVars h = HTTPHookAllowedEnvVars options"
    using assms by (simp_all add: settable_def trimmed_def trimmed_name_def[of "hhURL h"])
  let ?json = "[(''type'', AnyString ''http''), (''url'', AnyString (hhURL h)), (''if'', AnyString (hhIf h)),
      (''headers'', AnyMap (map (\<lambda>(name, value). (name, AnyString value)) (hhHeaders h))),
      (''allowedEnvVars'', AnySlice (map AnyString (hhAllowedEnvVars h))), (''statusMessage'', AnyString (hhStatusMessage h)),
      (''timeout'', AnyInt (hhTimeout h div 1000000000))]"
  have "hook_timeout env ?json = hhTimeout h" using h by (intro timeout_read) simp_all
  moreover have "hook_string_map ?json ''headers'' = hhHeaders h"
    using headers_read[of "[]" "hhHeaders h"] h by (simp add: hook_string_map_def field_def)
  moreover have "hook_string_list ?json [''allowedEnvVars'', ''allowed_env_vars''] = hhAllowedEnvVars h"
    using items_read[of "hhAllowedEnvVars h"] h by (simp add: field_def)
  moreover have "hook_string ?json [''type''] = ''http''" "hook_string ?json [''url''] = hhURL h" "hook_string ?json [''if''] = hhIf h"
    "hook_string ?json [''statusMessage'', ''status_message''] = hhStatusMessage h"
    using h by (simp_all add: field_def type_names)
  ultimately show "httpHookFromRaw env phase matcher (hook_json (AnHTTP h)) options = Some h"
    using h unfolding hook_json_def configured_hook.case httpHookFromRaw_def goany.case Let_def
    by (cases h) (simp add: type_names del: hook_string.simps hook_string_list.simps)
qed

lemma specs_read: "hookSpecs (AnySlice (map hook_json hooks)) = map hook_json hooks"
  by (induction hooks) (auto simp: hook_json_def split: configured_hook.split)

lemma group_read:
  assumes "list_all (settable options phase matcher) hooks"
  shows "hooksFromMatcher env phase (matcher, AnySlice (map hook_json hooks)) options = hooks"
proof -
  have "List.map_filter (\<lambda>raw. case commandHookFromRaw env phase matcher raw of
          Some hook \<Rightarrow> Some (ACommand hook)
        | None \<Rightarrow> map_option AnHTTP (httpHookFromRaw env phase matcher raw options)) (map hook_json hooks) = hooks"
    using assms
  proof (induction hooks)
    case (Cons hook hooks)
    then show ?case using command_read http_read by (cases hook) (fastforce simp: map_filter_simps)+
  qed (simp add: map_filter_simps)
  then show ?thesis unfolding hooksFromMatcher_def fst_conv snd_conv specs_read .
qed

lemma phase_read:
  assumes "list_all (\<lambda>(matcher, hooks). trimmed matcher \<and> list_all (settable options phase matcher) hooks) groups"
  shows "configured_for_phase env phase (AnySlice (map (\<lambda>(matcher, hooks).
      AnyMap [(''matcher'', AnyString matcher), (''hooks'', AnySlice (map hook_json hooks))]) groups)) options = concat (map snd groups)"
  using assms
proof (induction groups)
  case (Cons g groups)
  obtain matcher hooks where g: "g = (matcher, hooks)" by (cases g)
  have "hook_string [(''matcher'', AnyString matcher), (''hooks'', AnySlice (map hook_json hooks))] [''matcher''] = matcher"
    using Cons.prems by (simp add: g field_def trimmed_def)
  then show ?case using Cons group_read[of options phase matcher hooks env]
    by (simp add: g configured_for_phase_def has_key_def field_def)
qed (simp add: configured_for_phase_def)

lemma settings_read:
  "settable_groups options phases \<Longrightarrow> FromRaw env (settings_json phases) options = concat (map (concat \<circ> map snd \<circ> snd) phases)"
proof (induction phases)
  case (Cons p phases)
  obtain phase groups where p: "p = (phase, groups)" by (cases p)
  then show ?case using Cons phase_read[of options phase groups env]
    by (simp add: settable_groups_def FromRaw_def settings_json_def trimmed_name_def trimmed_def)
qed (simp add: FromRaw_def settings_json_def)

end
