(* ===== verification/HookProps.thy ===== *)
theory HookProps
  imports HookLaws ToolProps
begin

text \<open>
  The properties of the hooks of the settings: what a call of a tool says about the command hooks before it,
  when an output blocks, what an HTTP hook may send and where to, and what the settings make.
\<close>

section \<open>Concrete values for the witnesses\<close>

definition example_hook_env :: hook_env where
  "example_hook_env = schema_env.extend example_schema_env
     (hook_env.fields (\<lambda>r. 1000000000 * \<lfloor>r\<rfloor>) (\<lambda>_. None) (\<lambda>name. if name = ''TOKEN'' then ''t0'' @ [Prelude.nl] else ''other'')
        (\<lambda>raw. if raw = ''{}'' then Some [] else Some [(''decision'', AnyString ''block'')]) (\<lambda>_. Some ''{}''))"

definition example_run_env :: run_env where
  "example_run_env = hook_env.extend example_hook_env
     (run_env.fields (\<lambda>_. []) (\<lambda>_. []) (\<lambda>_. Inr ''{}'') (\<lambda>_. None) (\<lambda>_. ''10m0s'') False)"

definition example_hook_services :: "unit hook_services" where
  "example_hook_services =
     \<lparr>hsEnv = example_run_env, run_process = (\<lambda>_ _ w. (Exited [] [] 0, w)), start_process = (\<lambda>_ _ w. (Inr 7, w)),
      post_http = (\<lambda>_ _ w. (Reply 200 [], w))\<rparr>"

definition example_hook :: CommandHook where
  "example_hook =
     \<lparr>chPhase = HookPreToolUse, chMatcher = ''Read|Write'', chIf = [], chCommand = ''check'', chShell = [],
      chStatusMessage = [], chTimeout = 5, chRunInBackground = False\<rparr>"

definition example_http_hook :: "string list \<Rightarrow> HTTPHook" where
  "example_http_hook urls =
     \<lparr>hhPhase = HookPreToolUse, hhMatcher = [], hhIf = [], hhURL = ''https://a.b/c'', hhHeaders = [(''X'', ''$TOKEN$HOME'')],
      hhAllowedEnvVars = [''TOKEN''], hhStatusMessage = [], hhTimeout = 5, hhAllowedURLPatterns = urls, hhPolicyAllowedEnvVars = []\<rparr>"

definition hooked_executor :: "unit Executor" where
  "hooked_executor = example_executor\<lparr>exHooks := [Some (configured example_hook_services (ACommand example_hook))]\<rparr>"

lemma example_hook_passes:
  "\<exists>r. CommandHook_RunToolHook example_hook_services example_hook (example_context (Some example_decider))
      \<lparr>evPhase = HookPreToolUse, evToolUse = use, evToolName = ''Read'', evInput = example_raw,
       evDecision = None, evResult = None, evError = []\<rparr> () = (Inr r, ()) \<and> hrBlock r = False \<and> hrUpdatedInput r = no_input"
proof -
  have "hook_applies (run_hook_env (hsEnv example_hook_services)) (chPhase example_hook) (chMatcher example_hook) (chIf example_hook)
     \<lparr>evPhase = HookPreToolUse, evToolUse = use, evToolName = ''Read'', evInput = example_raw,
       evDecision = None, evResult = None, evError = []\<rparr> (cxWorkingDirectory (example_context (Some example_decider)))" for use
    unfolding hook_applies_def matchesIf_def by code_simp
  then show ?thesis
    by (auto simp: CommandHook_RunToolHook_def hookInput_def runCommand_def example_hook_services_def example_run_env_def hook_env.defs
        run_env.defs hookResultFromOutput_def output_result_def no_hook_result_def example_hook_def Let_def)
qed

lemma hooked_run:
  "\<exists>before after. Execute example_system hooked_executor (example_context (Some example_decider)) (example_use ''Read'') ()
      = ((empty_result\<lparr>resToolUseID := ''u1'', resContent := AnyString ''output''\<rparr>, None), before @ Called example_raw # after, ())"
proof -
  obtain r where hook: "CommandHook_RunToolHook example_hook_services example_hook (example_context (Some example_decider))
      \<lparr>evPhase = HookPreToolUse, evToolUse = example_use ''Read'', evToolName = ''Read'', evInput = example_raw,
       evDecision = None, evResult = None, evError = []\<rparr> () = (Inr r, ())" "hrBlock r = False" "hrUpdatedInput r = no_input"
    using example_hook_passes by blast
  obtain es where prep: "prepare example_env hooked_executor example_registry (example_context (Some example_decider)) (example_use ''Read'')
      (example_tool ''Read'' True) () = (Inr example_raw, es, ())"
    using hook
    by (simp add: prepare_def Let_def then_e_def then_p_def validate_def ask_world_def done_p_def example_valid normalizeRawInput_def
        runPreHooks_def hooksForPhase_def hooked_executor_def map_filter_simps hookMatchesPhase_def configured_def example_hook_def
        sendHookProgress_def SendProgress_def act_def run_hook_def hook_input_def has_input_def no_input_def example_use_def
        check_context_def contextError_def example_context_def look_def)
  obtain d where checked: "toolCheckPermissions (example_tool ''Read'' True) (example_context (Some example_decider)) example_raw () = (Inr d, ())"
      "decBehavior d = PermissionAllow"
    using example_checked by blast
  have "Execute example_system hooked_executor (example_context (Some example_decider)) (example_use ''Read'') ()
      = ((empty_result\<lparr>resToolUseID := ''u1'', resContent := AnyString ''output''\<rparr>, None),
         (es @ [Checked example_raw (Inr d)]) @ Called example_raw #
           [Sent \<lparr>prgToolUseID = ''u1'', prgType = ''completed'', prgData = [(''tool'', AnyString ''Read'')]\<rparr>], ())"
    using prep checked
    by (simp add: Execute_def then_p_def look_def contextError_def example_context_def hooked_executor_def example_executor_def
        example_system_def example_lookup then_e_def ask_world_def done_p_def example_use_def authorize_def perform_def call_tool_def
        example_called limitResult_def runPostHooks_def finish_def empty_result_def hooksForPhase_def map_filter_simps Let_def
        hookMatchesPhase_def configured_def example_hook_def SendProgress_def act_def)
  then show ?thesis by blast
qed

section \<open>Properties\<close>

text \<open>C10: No call passes a command hook that did not agree. When an execution calls its tool, then before the
  call every PreToolUse command hook of the executor, unless it runs in the background, was run on an event of
  that use and did not block; and if the hook is for that event, its command ended in time with an exit code
  other than 2. A command that cannot be run, runs out of time or exits with 2 stops the call.\<close>

theorem command_hook_before_call:
  assumes "Execute sys e ctx use w = (out, before @ Called raw # after, w')"
    and "Some (configured svc (ACommand h)) \<in> set (exHooks e)" "chPhase h = HookPreToolUse" "\<not> chRunInBackground h"
  shows "\<exists>event w1 r w2. evToolUse event = use \<and> HookRun event (Inr r) \<in> set before \<and>
    CommandHook_RunToolHook svc h ctx event w1 = (Inr r, w2) \<and> \<not> hrBlock r \<and>
    (hook_applies (run_hook_env (hsEnv svc)) HookPreToolUse (chMatcher h) (chIf h) event (cxWorkingDirectory ctx) \<longrightarrow>
     command_ended svc h ctx event w1 w2)"
proof -
  have h: "gate_hook h = h" using assms(3,4) by (simp add: gate_hook_def)
  from command_gate.called_after[OF assms(1), of svc h, unfolded h, OF assms(2)] show ?thesis
    by (auto simp: passed_hook_def command_told_def configured_def assms(3))
qed

lemma command_hook_before_call_witness:
  "\<exists>event w1 r w2. evToolUse event = example_use ''Read'' \<and>
    CommandHook_RunToolHook example_hook_services example_hook (example_context (Some example_decider)) event w1 = (Inr r, w2) \<and> \<not> hrBlock r"
proof -
  obtain before after out where run: "Execute example_system hooked_executor (example_context (Some example_decider)) (example_use ''Read'') ()
      = (out, before @ Called example_raw # after, ())" using hooked_run by blast
  have "Some (configured example_hook_services (ACommand example_hook)) \<in> set (exHooks hooked_executor)" "chPhase example_hook = HookPreToolUse"
      "\<not> chRunInBackground example_hook" by (simp_all add: hooked_executor_def example_hook_def)
  from command_hook_before_call[OF run this] show ?thesis by blast
qed

text \<open>C25: When an output blocks. The result of a command blocks exactly when its exit code is 2 or its output is
  a JSON object that says so: \<open>continue\<close> false, the decision \<open>block\<close>, or in the phase of the event a denied
  permission; the result of an HTTP hook blocks exactly when the body says so. A result that blocks has a message.\<close>

theorem output_blocks_exactly:
  "(hrBlock (hookResultFromOutput env h event stdout stderr code) \<longleftrightarrow> code = 2 \<or> blocking_text env (evPhase event) stdout) \<and>
   (hrBlock (resultFromHTTPBody env hh event body status) \<longleftrightarrow> blocking_text env (evPhase event) body) \<and>
   (hrBlock (hookResultFromOutput env h event stdout stderr code) \<longrightarrow> hrMessage (hookResultFromOutput env h event stdout stderr code) \<noteq> []) \<and>
   (hrBlock (resultFromHTTPBody env hh event body status) \<longrightarrow> hrMessage (resultFromHTTPBody env hh event body status) \<noteq> [])"
proof -
  have "explained (hookResultFromOutput env h event stdout stderr code)"
    by (simp add: hookResultFromOutput_def output_blocks) (simp add: explained_def)
  moreover have "explained (resultFromHTTPBody env hh event body status)" by (simp add: resultFromHTTPBody_def output_blocks)
  ultimately show ?thesis
    by (simp add: explained_def hookResultFromOutput_def resultFromHTTPBody_def output_blocks(1))
qed

lemma output_blocks_exactly_witness:
  "hrBlock (hookResultFromOutput example_run_env example_hook (conversation_hook_event HookPreToolUse no_input) [] ''no'' 2) \<and>
   hrMessage (hookResultFromOutput example_run_env example_hook (conversation_hook_event HookPreToolUse no_input) [] ''no'' 2) \<noteq> []"
  using output_blocks_exactly[of example_run_env example_hook "conversation_hook_event HookPreToolUse no_input" "[]" "''no''" 2] by simp

text \<open>C24: An HTTP hook is confined. What it sends depends on no variable of the environment that is not allowed by
  the hook and, where there is one, by the policy; a value of a header holds no carriage return, line feed or
  zero byte; and when its URL matches none of the allowed patterns nothing is sent, whatever the server would
  answer, and the hook, if its input can be made at all, ends without an error and does not block the call.\<close>

theorem http_hook_confined:
  assumes "\<And>name. name \<noteq> [] \<Longrightarrow> listed name (hhAllowedEnvVars h) \<Longrightarrow>
      listed name (hhPolicyAllowedEnvVars h) \<or> (\<forall>item \<in> set (hhPolicyAllowedEnvVars h). TrimSpace item = []) \<Longrightarrow>
      f name = get_variable (hsEnv svc) name"
  shows "http_post ((hsEnv svc)\<lparr>get_variable := f\<rparr>) h input = http_post (hsEnv svc) h input \<and>
    (\<forall>(name, value) \<in> set (htHeaders (http_post (hsEnv svc) h input)). set value \<inter> {cr, Prelude.nl, nul} = {}) \<and>
    (hhAllowedURLPatterns h \<noteq> [] \<and> \<not> urlMatchesAnyPattern (hhURL h) (hhAllowedURLPatterns h) \<longrightarrow>
       hookInput (hsEnv svc) ctx event = Inr made \<longrightarrow>
       (\<exists>result. \<not> hrBlock result \<and> (\<forall>post. HTTPHook_RunToolHook (svc\<lparr>post_http := post\<rparr>) h ctx event w = (Inr result, w))))"
proof (intro conjI)
  have "run_hook_env ((hsEnv svc)\<lparr>get_variable := f\<rparr>) = (run_hook_env (hsEnv svc))\<lparr>get_variable := f\<rparr>"
    "get_variable (run_hook_env (hsEnv svc)) = get_variable (hsEnv svc)"
    by (simp_all add: run_hook_env_def hook_env.defs)
  then show "http_post ((hsEnv svc)\<lparr>get_variable := f\<rparr>) h input = http_post (hsEnv svc) h input"
    using interpolated_same[of h f "run_hook_env (hsEnv svc)"] assms[OF allowed_listed] by (simp add: http_post_def)
  show "\<forall>(name, value) \<in> set (htHeaders (http_post (hsEnv svc) h input)). set value \<inter> {cr, Prelude.nl, nul} = {}"
    using header_bytes by (fastforce simp: http_post_def interpolateHeader_def)
  show "hhAllowedURLPatterns h \<noteq> [] \<and> \<not> urlMatchesAnyPattern (hhURL h) (hhAllowedURLPatterns h) \<longrightarrow>
       hookInput (hsEnv svc) ctx event = Inr made \<longrightarrow>
       (\<exists>result. \<not> hrBlock result \<and> (\<forall>post. HTTPHook_RunToolHook (svc\<lparr>post_http := post\<rparr>) h ctx event w = (Inr result, w)))"
    by (cases "hook_applies (run_hook_env (hsEnv svc)) (hhPhase h) (hhMatcher h) (hhIf h) event (cxWorkingDirectory ctx)";
        cases "hookInput (hsEnv svc) ctx event")
      (auto simp: HTTPHook_RunToolHook_def runHTTP_def no_hook_result_def)
qed

lemma http_hook_confined_witness:
  "htHeaders (http_post example_run_env (example_http_hook [''https://*.d/*'']) ''{}'') =
     [(''Content-Type'', ''application/json''), (''X'', ''t0'')] \<and>
   (\<exists>result. \<not> hrBlock result \<and>
      HTTPHook_RunToolHook (example_hook_services\<lparr>post_http := (\<lambda>_ _ w. (NoReply [], w))\<rparr>) (example_http_hook [''https://*.d/*''])
        (example_context None) (conversation_hook_event HookPreToolUse no_input) () = (Inr result, ()))"
proof -
  let ?h = "example_http_hook [''https://*.d/*'']"
  have "hhAllowedURLPatterns ?h \<noteq> [] \<and> \<not> urlMatchesAnyPattern (hhURL ?h) (hhAllowedURLPatterns ?h)" by code_simp
  moreover have "htHeaders (http_post example_run_env ?h ''{}'') = [(''Content-Type'', ''application/json''), (''X'', ''t0'')]" by code_simp
  moreover have "hookInput example_run_env (example_context None) (conversation_hook_event HookPreToolUse no_input) = Inr ''{}''"
    by (simp add: hookInput_def example_run_env_def hook_env.defs run_env.defs)
  ultimately show ?thesis
    using http_hook_confined[where h = ?h and made = "''{}''" and f = "get_variable example_run_env" and svc = example_hook_services and w = "()"
        and ctx = "example_context None" and event = "conversation_hook_event HookPreToolUse no_input"]
    by (simp add: example_hook_services_def) blast
qed

text \<open>C34: A pattern of a URL is what is between its stars: it matches exactly the texts that consist of these pieces
  with any text without a line feed in each gap; a blank pattern matches nothing.\<close>

theorem url_pattern_pieces:
  "urlMatchesPattern url pattern \<longleftrightarrow> TrimSpace pattern \<noteq> [] \<and> fills (Split (TrimSpace pattern) (CHR ''*'')) url"
  by (simp add: urlMatchesPattern_def glob_fills)





end
