(* ===== verification/Spec2Isabelle.thy ===== *)
theory Spec2Isabelle
  imports BashProps PermProps ToolProps ApiProps ConvProps TurnProps BudgetProps SlashProps FileProps HookProps
begin

text \<open>
  ccgo is a Go implementation of a coding agent: a user's message starts a turn, in which a model
  proposes tool calls and the program runs them in the user's workspace and sends the results back,
  until the model answers without one. This development models that loop and what stands between a
  proposed call and its effect, and proves what that part of the program guarantees.

  \<^bold>\<open>The parts and how they interact.\<close> \<open>RunTurn\<close> (\<open>internal/conversation/run.go\<close>) takes the history and
  the user's message. A message that is a slash command goes to \<open>internal/commands\<close>, which answers by
  itself or makes a prompt and the permissions that go with it. Then come the rounds: the history is
  compacted when it is too long (\<open>internal/compact\<close>), old tool results are replaced when they are too
  large (\<open>internal/session/content_replacement.go\<close>), the request is assembled with the tools it carries
  (\<open>request.go\<close>, \<open>deferred_tools_delta.go\<close>, \<open>internal/messages\<close>) and sent by the API client with its
  retries (\<open>internal/api/anthropic\<close>), and after it to the fallback models. The answer's tool uses go to
  \<open>RunTools\<close> (\<open>internal/tool/orchestrator.go\<close>), which splits them into batches and gives every use to
  \<open>Execute\<close> (\<open>executor.go\<close>). That finds the tool in the registry (\<open>registry.go\<close>), validates the input
  against the tool's schema (\<open>schema.go\<close>), runs the hooks, asks the tool for a permission and calls it.
  A tool made of functions (\<open>func_tool.go\<close>) asks a permission decider; the engine
  (\<open>internal/permissions\<close>) decides from rules, mode, paths and sandbox policy, and takes from the
  tool whether the call is read-only or destructive. For the Bash tool these two questions are
  answered by the command classifier of \<open>internal/tools/bash/tools.go\<close>. The tools Read, Write, Edit and
  NotebookEdit (\<open>internal/tools/file\<close>) work on the files of the workspace and remember, in the metadata
  of the turn, what of them has been read.

  \<^bold>\<open>Theories.\<close> Definitions keep the source's names; a name that ends in \<open>_loop\<close> or \<open>_step\<close> is the
  body of a loop of the function it is named after.

  \<^item> \<open>Prelude\<close>, \<open>Utf8\<close>, \<open>GoPath\<close>: Go strings as byte lists, the functions of \<open>strings\<close>,
    \<open>unicode/utf8\<close> and \<open>path/filepath\<close> that the code calls. \<open>Effects\<close>: a piece of code with effects as a
    function from the world to a value, the actions it performs and the world it leaves, with the
    calculus \<open>wp\<close>; what the actions are is a parameter.
  \<^item> The Bash classifier, \<open>internal/tools/bash/tools.go\<close>: \<open>ShellLex\<close> (byte scanners with the quoting
    state), \<open>ShellWords\<close> (words, wrappers, assignments), \<open>FlagTables\<close>, \<open>ReadOnly\<close>, \<open>GitReadOnly\<close>
    (the handlers of read-only commands), \<open>Destructive\<close>, \<open>BashSafety\<close> (entry points, blocked
    sleeps, output tail). Laws: \<open>ShellLaws\<close>, \<open>WordLaws\<close>, \<open>WrapperLaws\<close>, \<open>ArgLaws\<close>, \<open>BashLaws\<close>;
    properties: \<open>BashProps\<close>.
  \<^item> Permissions, \<open>internal/permissions\<close>: \<open>PermTypes\<close> (data of \<open>contracts/permissions.go\<close>), \<open>PermRules\<close>
    (rule strings and matching), \<open>PermValidation\<close>, \<open>PermPath\<close> (path forms, working directories,
    sensitive files), \<open>PermEngine\<close> (engines from settings, decisions, updates). Laws: \<open>PathLaws\<close>,
    \<open>PathForms\<close>, \<open>RuleLaws\<close>, \<open>EngineLaws\<close>; properties: \<open>PermProps\<close>.
  \<^item> The tool runtime, \<open>internal/tool\<close>: \<open>ToolTypes\<close> (data of \<open>contracts/tool.go\<close>, the interfaces as
    records of functions), \<open>ToolRegistry\<close>, \<open>ToolExec\<close> (the executor and
    its actions), \<open>ToolSchema\<close>, \<open>ToolFunc\<close> (function tools and the three permission deciders), \<open>ToolRun\<close> (the
    orchestrator; a concurrent batch is a pool with the step relation \<open>batch_step\<close>). Laws:
    \<open>RegistryLaws\<close>, \<open>ExecLaws\<close>, \<open>ResultLaws\<close>, \<open>RunLaws\<close>, \<open>SerialRun\<close> (a schedule that can be computed);
    properties: \<open>ToolProps\<close>.
  \<^item> The API client, \<open>internal/api/anthropic\<close>: \<open>ApiTypes\<close> (requests, responses, usage, cost, the
    accumulator of a stream), \<open>ApiClient\<close> (errors, delays, the loops that retry). Laws: \<open>ApiLaws\<close>;
    properties: \<open>ApiProps\<close>.
  \<^item> The conversation's data: \<open>Messages\<close> (\<open>internal/messages\<close>, the chain of parents), \<open>Compaction\<close>
    (\<open>internal/compact\<close>), \<open>ToolSearch\<close> and \<open>DeferredTools\<close> (the tools of a request), \<open>CommandPerms\<close> (the
    permissions that messages carry), \<open>Budget\<close> (the budget of tool results). Laws: \<open>MessageLaws\<close>,
    \<open>BudgetLaws\<close>; properties: \<open>ConvProps\<close>, \<open>BudgetProps\<close>.
  \<^item> Slash commands, \<open>internal/commands\<close>: \<open>Commands\<close> (the registry), \<open>Prompts\<close> (templates and arguments),
    \<open>Slash\<close> (parsing and execution). Properties: \<open>SlashProps\<close>.
  \<^item> A turn, \<open>internal/conversation\<close>: \<open>TurnTypes\<close> (runner, events, result, the actions of a turn),
    \<open>ConvHooks\<close> (\<open>hooks.go\<close>), \<open>Turn\<close> (requests, tool runs, compaction), \<open>RunTurn\<close> (the rounds and the whole
    turn). Laws: \<open>TurnLaws\<close> (what holds along, how often a turn asks), \<open>TurnChain\<close> (the chain of parents),
    \<open>TurnTalk\<close> (answers, uses and results); properties: \<open>TurnProps\<close>.
  \<^item> The file tools, \<open>internal/tools/file\<close>: \<open>FileStore\<close> (the store and its operations,
    \<open>internal/platform/files.go\<close>, reading and writing of text, the read state), \<open>FileText\<close> (finding and
    replacing with quotes, windows of lines, diffs), \<open>FileInput\<close> (decoding of inputs, paths, page ranges, the
    guard of team memory of \<open>internal/memory/secrets.go\<close>), \<open>FileTools\<close> (Read, Write and Edit),
    \<open>NotebookTool\<close>. Laws: \<open>FileTextLaws\<close> (runes and replacements), \<open>FileDiffLaws\<close> (what a diff does to
    the lines), \<open>FileLaws\<close> (what each call does to the store), \<open>FileRun\<close> (the steps of a turn between which
    other programs change files, and the invariant of the read state); properties: \<open>FileProps\<close>.
  \<^item> The hooks runner, \<open>internal/hooks/command.go\<close>: \<open>HookConfig\<close> (hooks from settings, when a hook applies,
    URL patterns, header values), \<open>HookRunner\<close> (the input of a hook, commands, HTTP requests, what an output
    means). Laws: \<open>HookLaws\<close> (the hooks in front of a call, URL patterns, outputs, settings); properties:
    \<open>HookProps\<close>.

  \<^bold>\<open>Contracts.\<close> \<open>name_table\<close> is what the clients of the registry rely on (names only get added, each
  name finds one tool), interpreted by the registry; \<open>final_decider\<close> and \<open>denying_decider\<close> are what
  clients of a permission decision rely on, interpreted by the engine; \<open>codec\<close> is the contract of
  a printer and its parser, interpreted by the rule strings. \<open>gate\<close> is what an execution asks of a hook that
  may stop it: a result that does not block says that the hook agreed; it is interpreted by the command
  hooks. \<open>step_invariant\<close>, \<open>turn_invariant\<close>,
  \<open>compacting_turn\<close>, \<open>asking_turn\<close>, \<open>rounds_turn\<close>, \<open>querying_turn\<close> and \<open>whole_turn\<close> say which properties of what
  happens between two states hold for the pieces of a turn, for its compaction, its rounds and for a
  turn: their interpretations are the properties that the theorems on turns rest on (the permissions
  of every tool run, the answers, uses and results, the runner's model, the number of requests).

  \<^bold>\<open>What the properties show.\<close> Of the classifier: a command accepted as read-only is not
  destructive, expands nothing, redirects nothing and names only files below the working
  directory; a destructive command is found behind separators, wrappers and nesting; the scanners
  agree with reference descriptions. Of the permissions: a deny rule dominates every mode and
  override, why a request is allowed, sensitive and sandboxed paths are never written silently,
  rule strings and paths survive printing and normalising, updates do what they say. Of the
  runtime: what precedes a call, that a denied call does not happen, the protocol of the progress
  events, that a run answers every use in order whatever the schedule, and that a pool ends. Of
  the API client: how often a call is sent, and that a stream gives the message it was made of. Of
  the conversation: a turn asks the model a bounded number of times, for an answer and for the summary
  of a compaction, and its fallbacks in order, runs and answers every tool use that an answer asks
  for, keeps every denial of its engine, keeps the chain of parents and restores
  the runner's model; a compaction keeps the discovered tools; a result that was shown once is shown
  the same again, also after a resumption; a slash command sends its own prompt with its own arguments, and quoted
  arguments come through. Of the file tools: a call overwrites a change that the turn has not seen
  only if it left the file with an old modification time or the same, whatever other programs do in
  between, or makes a file; an edit replaces one place that was asked for and keeps the rest; the diff of a result turns the old lines into the new ones and back; the windows of a file
  make up the file; a change that fails leaves the files as they were but for its own temporary copy. Of the hooks: no call passes a
  command hook that did not agree, when an output blocks, what an HTTP hook may send and where, which
  URLs a pattern matches, and that settings make exactly the hooks that they list. Of subagents: their
  allowlist changes the decision of the engine only where an entry of it matches.

  \<^bold>\<open>Bounds and fuel.\<close> No definition takes fuel. Loops that are not structural are functions with a
  measure (the remaining text, the weight of a schema); the climb to an ancestor directory, which
  ends because every step shortens the path, is a partial function whose totality is proved. A pool
  makes at most three steps for each use and two more. The loop over the rounds counts down from
  \<open>maxToolRounds\<close>, as the code counts up to it; a call of the API recurs on the attempts that are left,
  at most \<open>MaxRetries + 2\<close> with the one after a refreshed token or a smaller request.

  \<^bold>\<open>Parameters.\<close> What the program asks of the operating system and of Unicode tables is the record
  \<open>go_env\<close>: home and working directory, symbolic links, case folding and quoting of non-ASCII text.
  \<open>schema_env\<close> adds floating-point division and printing, regular expressions and JSON syntax errors,
  \<open>prog_env\<close> environment variables, JSON texts and the window of a model; \<open>system\<close> adds fresh
  identifiers and the writing of files. A tool or a hook is a function on the world, as is the error of
  a context, so a context is cancelled by what happens in the world. \<open>services\<close> is what a turn uses of
  the rest of the program: settings, plugins and their hooks, MCP servers, memories, subagents,
  schedules, the transcript. A subagent is a run of a runner of its own (\<open>svSubagent\<close>): its requests and
  its runs of tools are no actions of the turn that starts it, and neither is a request that only
  counts tokens (\<open>svCountTokens\<close>). \<open>proper_runs\<close> says that a run of tools is one that the model of the
  orchestrator allows, \<open>proper_ids\<close> that a fresh ID is not empty. \<open>os_env\<close> gives the faults of the file
  system (any operation on any path may fail) and the umask; \<open>input_env\<close> adds printing and decoding of
  JSON, base64, the text of a PDF, the validation of settings files, the discovery of skills, fresh
  identifiers and the regular expressions for secrets. \<open>hook_env\<close>, \<open>run_env\<close> and \<open>hook_services\<close> give the hooks
  runner the end of a process and of an HTTP exchange, JSON, regular expressions, the texts of
  durations, environment variables and the payload of the conversation's events. The store has no links, times are in
  milliseconds, and one call of a file tool is one step.

  \<^bold>\<open>Not modelled.\<close> The bodies of the tools other than the file tools (processes, network, search), the text
  of a PDF, one HTTP exchange, the texts of local commands such as \<open>/status\<close>, the user interface, session files, MCP transports, the loading of
  plugins, skills and settings, subagents, and the command line. JSON text is taken as parsed
  (\<open>raw_message\<close> carries its text and its value). Goroutines are modelled with one whole \<open>Execute\<close> as a
  step; data races inside it are out of reach of the model. The updates of a run of tools are handled
  when the run has ended, and durations are left out. The executions of a run share one mutable map of
  metadata in the code; in the model a context has its metadata fixed, and what the file tools remember
  in it is part of their world.
\<close>

end
